(* ===== verification/Prelude.thy ===== *)
theory Prelude
  imports Complex_Main "HOL-Library.Char_ord"
begin

text \<open>
  Shared vocabulary of the development: Go strings and the part of package
  \<open>strings\<close> and \<open>strconv\<close> that the sources call, results of fallible calls, and the
  generic lemmas the component theories rest on.

  A Go string is a sequence of bytes, so it is a \<open>string\<close> (a list of 8-bit \<open>char\<close>s) here;
  a character outside ASCII is its UTF-8 bytes. Case mapping and white space are
  modelled on the ASCII range.
\<close>

named_theorems go_strings \<open>equations of the string routines\<close>
named_theorems go_defs \<open>definitions unfolded by the component proofs\<close>

subsection \<open>Results of fallible calls\<close>

text \<open>An \<open>error\<close> of Go is its message; \<open>(T, error)\<close> is a sum with the error on the left.\<close>

type_synonym go_error = string
type_synonym 'a result = "go_error + 'a"

definition is_ok :: "'e + 'a \<Rightarrow> bool" where
  "is_ok r = (case r of Inl _ \<Rightarrow> False | Inr _ \<Rightarrow> True)"

lemma is_ok_simps [simp]: "is_ok (Inl e) = False" "is_ok (Inr x) = True"
  by (simp_all add: is_ok_def)

lemma is_ok_iff: "is_ok r \<longleftrightarrow> (\<exists>x. r = Inr x)"
  by (cases r) simp_all

subsection \<open>Characters\<close>

definition code_of :: "char \<Rightarrow> nat" where
  "code_of c = of_char c"

definition between :: "char \<Rightarrow> char \<Rightarrow> char \<Rightarrow> bool" where
  "between lo hi c \<longleftrightarrow> code_of lo \<le> code_of c \<and> code_of c \<le> code_of hi"

definition is_digit :: "char \<Rightarrow> bool" where
  "is_digit c \<longleftrightarrow> between CHR ''0'' CHR ''9'' c"

definition is_lower :: "char \<Rightarrow> bool" where
  "is_lower c \<longleftrightarrow> between CHR ''a'' CHR ''z'' c"

definition is_upper :: "char \<Rightarrow> bool" where
  "is_upper c \<longleftrightarrow> between CHR ''A'' CHR ''Z'' c"

definition is_alnum :: "char \<Rightarrow> bool" where
  "is_alnum c \<longleftrightarrow> is_digit c \<or> is_lower c \<or> is_upper c"

definition is_space :: "char \<Rightarrow> bool" where
  "is_space c \<longleftrightarrow> c \<in> {CHR '' '', CHR 0x09, CHR 0x0A, CHR 0x0B, CHR 0x0C, CHR 0x0D}"

definition lower_char :: "char \<Rightarrow> char" where
  "lower_char c = (if is_upper c then char_of (code_of c + 32) else c)"

definition upper_char :: "char \<Rightarrow> char" where
  "upper_char c = (if is_lower c then char_of (code_of c - 32) else c)"

lemmas char_class_defs =
  between_def is_digit_def is_lower_def is_upper_def is_alnum_def is_space_def

lemma code_of_bound: "code_of c < 256"
  unfolding code_of_def using range_nat_of_char by (metis atLeastLessThan_iff rangeI)

lemma code_of_char_of [simp]: "n < 256 \<Longrightarrow> code_of (char_of n) = n"
  by (simp add: code_of_def)

lemma char_of_code_of [simp]: "char_of (code_of c) = c"
  by (simp add: code_of_def)

lemma code_of_inject: "code_of c = code_of d \<longleftrightarrow> c = d"
  by (simp add: code_of_def)

lemma code_of_letters [simp]:
  "code_of CHR ''0'' = 48" "code_of CHR ''9'' = 57"
  "code_of CHR ''a'' = 97" "code_of CHR ''z'' = 122"
  "code_of CHR ''A'' = 65" "code_of CHR ''Z'' = 90"
  by (simp_all add: code_of_def)

lemma lower_char_idem [simp]: "lower_char (lower_char c) = lower_char c"
  by (auto simp: lower_char_def is_upper_def between_def)

lemma is_digit_not_space: "is_digit c \<Longrightarrow> \<not> is_space c"
  by (auto simp: char_class_defs code_of_def)

subsection \<open>Package strings\<close>

definition to_lower :: "string \<Rightarrow> string" where
  "to_lower s = map lower_char s"

definition to_upper :: "string \<Rightarrow> string" where
  "to_upper s = map upper_char s"

definition trim_left :: "string \<Rightarrow> string" where
  "trim_left s = dropWhile is_space s"

definition trim_space :: "string \<Rightarrow> string" where
  "trim_space s = rev (dropWhile is_space (rev (trim_left s)))"

text \<open>\<open>TrimRight(s, cutset)\<close>: the trailing characters of the cutset go.\<close>

definition trim_right_set :: "string \<Rightarrow> string \<Rightarrow> string" where
  "trim_right_set cs s = rev (dropWhile (\<lambda>c. c \<in> set cs) (rev s))"

definition has_prefix :: "string \<Rightarrow> string \<Rightarrow> bool" where
  "has_prefix s p \<longleftrightarrow> take (length p) s = p"

definition has_suffix :: "string \<Rightarrow> string \<Rightarrow> bool" where
  "has_suffix s p \<longleftrightarrow> has_prefix (rev s) (rev p)"

definition trim_prefix :: "string \<Rightarrow> string \<Rightarrow> string" where
  "trim_prefix s p = (if has_prefix s p then drop (length p) s else s)"

definition trim_suffix :: "string \<Rightarrow> string \<Rightarrow> string" where
  "trim_suffix s p = (if has_suffix s p then take (length s - length p) s else s)"

text \<open>\<open>Index(s, sub)\<close>, with \<open>None\<close> for -1.\<close>

fun index_of :: "string \<Rightarrow> string \<Rightarrow> nat option" where
  "index_of [] p = (if p = [] then Some 0 else None)"
| "index_of (c # s) p =
     (if has_prefix (c # s) p then Some 0 else map_option Suc (index_of s p))"

definition contains :: "string \<Rightarrow> string \<Rightarrow> bool" where
  "contains s p \<longleftrightarrow> index_of s p \<noteq> None"

text \<open>\<open>LastIndex(s, c)\<close> for a one-character separator.\<close>

fun last_index_char :: "string \<Rightarrow> char \<Rightarrow> nat option" where
  "last_index_char [] c = None"
| "last_index_char (x # s) c =
     (case last_index_char s c of
        Some i \<Rightarrow> Some (Suc i)
      | None \<Rightarrow> (if x = c then Some 0 else None))"

text \<open>\<open>Split(s, sep)\<close> for a one-character separator: always at least one field.\<close>

fun split_char :: "char \<Rightarrow> string \<Rightarrow> string list" where
  "split_char c [] = [[]]"
| "split_char c (x # s) =
     (if x = c then [] # split_char c s
      else (case split_char c s of
              [] \<Rightarrow> [[x]]
            | f # fs \<Rightarrow> (x # f) # fs))"

text \<open>\<open>SplitN(s, sep, 2)\<close>: the text before the first separator and all the rest.\<close>

fun split_first :: "char \<Rightarrow> string \<Rightarrow> string list" where
  "split_first c [] = [[]]"
| "split_first c (x # s) =
     (if x = c then [[], s]
      else (case split_first c s of
              [] \<Rightarrow> [[x]]
            | f # fs \<Rightarrow> (x # f) # fs))"

fun join_str :: "string \<Rightarrow> string list \<Rightarrow> string" where
  "join_str sep [] = []"
| "join_str sep [x] = x"
| "join_str sep (x # y # zs) = x @ sep @ join_str sep (y # zs)"

lemma contains_iff: "contains s p \<longleftrightarrow> (\<exists>u v. s = u @ p @ v)"
proof (induction s)
  case Nil
  then show ?case by (simp add: contains_def)
next
  case (Cons c s)
  have pre: "has_prefix (c # s) p \<longleftrightarrow> (\<exists>v. c # s = p @ v)"
    unfolding has_prefix_def by (metis append_eq_conv_conj append_take_drop_id)
  have "contains (c # s) p \<longleftrightarrow> has_prefix (c # s) p \<or> contains s p"
    by (auto simp: contains_def)
  also have "\<dots> \<longleftrightarrow> (\<exists>u v. c # s = u @ p @ v)"
    unfolding pre Cons.IH
    by (metis (no_types, lifting) append_Cons append_Nil list.sel(3) neq_Nil_conv)
  finally show ?case .
qed

lemma containsI: "s = u @ p @ v \<Longrightarrow> contains s p"
  by (auto simp: contains_iff)

lemma contains_refl [simp]: "contains s s"
  by (rule containsI [of s "[]" s "[]"]) simp

lemma contains_trans: "contains s p \<Longrightarrow> contains p q \<Longrightarrow> contains s q"
  unfolding contains_iff by (metis append.assoc)

lemma trim_right_set_prefix: "\<exists>v. s = trim_right_set cs s @ v"
proof -
  have "rev s = takeWhile (\<lambda>c. c \<in> set cs) (rev s) @ dropWhile (\<lambda>c. c \<in> set cs) (rev s)"
    by simp
  then have "s = rev (dropWhile (\<lambda>c. c \<in> set cs) (rev s))
      @ rev (takeWhile (\<lambda>c. c \<in> set cs) (rev s))"
    by (metis rev_append rev_rev_ident)
  then show ?thesis unfolding trim_right_set_def by blast
qed

lemma contains_trim_right: "contains s (trim_right_set cs s)"
  using trim_right_set_prefix [of s cs] by (auto intro: containsI [of s "[]"])

lemma split_char_nonempty [simp]: "split_char c s \<noteq> []"
  by (induction s) (auto split: list.splits)

lemma split_char_no_sep: "c \<notin> set s \<Longrightarrow> split_char c s = [s]"
  by (induction s) auto

lemma split_char_append:
  "c \<notin> set u \<Longrightarrow> split_char c (u @ c # s) = u # split_char c s"
  by (induction u) auto

lemma split_first_append:
  "c \<notin> set u \<Longrightarrow> split_first c (u @ c # s) = [u, s]"
  by (induction u) auto

lemma split_first_no_sep: "c \<notin> set s \<Longrightarrow> split_first c s = [s]"
  by (induction s) auto

lemma set_split_char: "f \<in> set (split_char c s) \<Longrightarrow> set f \<subseteq> set s"
proof (induction s arbitrary: f)
  case Nil
  then show ?case by simp
next
  case (Cons x s)
  obtain g gs where g: "split_char c s = g # gs"
    by (meson neq_Nil_conv split_char_nonempty)
  from Cons.prems g Cons.IH [of g] Cons.IH [of f] show ?case
    by (auto split: if_splits)
qed

lemma has_prefix_append [simp]: "has_prefix (p @ s) p"
  by (simp add: has_prefix_def)

lemma trim_prefix_append [simp]: "trim_prefix (p @ s) p = s"
  by (simp add: trim_prefix_def)

lemma has_prefix_Cons [simp]:
  "has_prefix (x # s) (y # p) \<longleftrightarrow> x = y \<and> has_prefix s p"
  by (simp add: has_prefix_def)

lemma has_prefix_Nil [simp]: "has_prefix s []" "has_prefix [] (y # p) = False"
  by (simp_all add: has_prefix_def)

lemma contains_simps [simp]:
  "contains [] p \<longleftrightarrow> p = []"
  "contains (c # s) p \<longleftrightarrow> has_prefix (c # s) p \<or> contains s p"
  by (auto simp: contains_def)

subsection \<open>Package strconv\<close>

definition digit_char :: "nat \<Rightarrow> char" where
  "digit_char d = char_of (48 + d)"

definition digit_val :: "char \<Rightarrow> nat" where
  "digit_val c = code_of c - 48"

fun show_nat :: "nat \<Rightarrow> string" where
  "show_nat n = (if n < 10 then [digit_char n] else show_nat (n div 10) @ [digit_char (n mod 10)])"

declare show_nat.simps [simp del]

text \<open>\<open>FormatInt(n, 10)\<close>, \<open>Itoa\<close> and the verb \<open>%d\<close>.\<close>

definition itoa :: "int \<Rightarrow> string" where
  "itoa n = (if n < 0 then CHR ''-'' # show_nat (nat (- n)) else show_nat (nat n))"

fun read_nat :: "nat \<Rightarrow> string \<Rightarrow> nat option" where
  "read_nat a [] = Some a"
| "read_nat a (c # s) = (if is_digit c then read_nat (10 * a + digit_val c) s else None)"

definition int64_min :: int where "int64_min = - (2 ^ 63)"
definition int64_max :: int where "int64_max = 2 ^ 63 - 1"

definition in_int64 :: "int \<Rightarrow> bool" where
  "in_int64 n \<longleftrightarrow> int64_min \<le> n \<and> n \<le> int64_max"

text \<open>
  \<open>ParseInt(s, 10, 64)\<close> and \<open>Atoi\<close> give a value and an error. The value of a syntax
  error is 0, that of a range error the nearest bound: callers that drop the error see it.
\<close>

definition split_sign :: "string \<Rightarrow> bool \<times> string" where
  "split_sign s =
     (case s of
        [] \<Rightarrow> (False, [])
      | c # r \<Rightarrow> if c = CHR ''-'' then (True, r) else if c = CHR ''+'' then (False, r)
                else (False, s))"

definition atoi_full :: "string \<Rightarrow> int \<times> bool" where
  "atoi_full s =
     (let (neg, ds) = split_sign s in
      if ds = [] then (0, False)
      else (case read_nat 0 ds of
              None \<Rightarrow> (0, False)
            | Some m \<Rightarrow>
                let n = (if neg then - int m else int m) in
                if n < int64_min then (int64_min, False)
                else if n > int64_max then (int64_max, False)
                else (n, True)))"

definition atoi :: "string \<Rightarrow> int option" where
  "atoi s = (case atoi_full s of (n, ok) \<Rightarrow> if ok then Some n else None)"

definition atoi_value :: "string \<Rightarrow> int" where
  "atoi_value s = fst (atoi_full s)"

lemma digit_char_props:
  assumes "d < 10"
  shows "is_digit (digit_char d)" "digit_val (digit_char d) = d"
  using assms by (simp_all add: digit_char_def digit_val_def char_class_defs)

lemma read_nat_append:
  "read_nat a (s @ [c]) =
     (case read_nat a s of None \<Rightarrow> None
      | Some m \<Rightarrow> if is_digit c then Some (10 * m + digit_val c) else None)"
  by (induction s arbitrary: a) auto

lemma read_show_nat: "read_nat 0 (show_nat n) = Some n"
proof (induction n rule: show_nat.induct)
  case (1 n)
  show ?case
  proof (cases "n < 10")
    case True
    then show ?thesis by (subst show_nat.simps) (simp add: digit_char_props)
  next
    case False
    with 1 have "read_nat 0 (show_nat (n div 10)) = Some (n div 10)" by simp
    with False show ?thesis
      by (subst show_nat.simps) (simp add: read_nat_append digit_char_props)
  qed
qed

lemma show_nat_digits: "c \<in> set (show_nat n) \<Longrightarrow> is_digit c"
proof (induction n rule: show_nat.induct)
  case (1 n)
  then show ?case
    by (subst (asm) (2) show_nat.simps) (auto simp: digit_char_props split: if_splits)
qed

lemma show_nat_nonempty [simp]: "show_nat n \<noteq> []"
  by (subst show_nat.simps) simp

lemma is_digit_not_sep:
  "is_digit c \<Longrightarrow> c \<noteq> CHR '':'' \<and> c \<noteq> CHR ''|'' \<and> c \<noteq> CHR ''-'' \<and> c \<noteq> CHR ''+''"
  by (auto simp: char_class_defs code_of_def)

lemma split_sign_digits:
  assumes "s \<noteq> []" "\<And>c. c \<in> set s \<Longrightarrow> is_digit c"
  shows "split_sign s = (False, s)"
proof -
  from assms(1) obtain c r where s: "s = c # r" by (cases s) auto
  with assms(2) have "is_digit c" by simp
  then show ?thesis by (auto simp: s split_sign_def dest: is_digit_not_sep)
qed

lemma split_sign_show_nat [simp]: "split_sign (show_nat n) = (False, show_nat n)"
  by (rule split_sign_digits) (auto dest: show_nat_digits)

lemma atoi_full_itoa: "in_int64 n \<Longrightarrow> atoi_full (itoa n) = (n, True)"
proof (cases "n < 0")
  case True
  assume "in_int64 n"
  moreover from True have "split_sign (itoa n) = (True, show_nat (nat (- n)))"
    by (simp add: itoa_def split_sign_def)
  ultimately show ?thesis
    using True by (simp add: atoi_full_def read_show_nat in_int64_def)
next
  case False
  assume "in_int64 n"
  with False show ?thesis
    by (simp add: atoi_full_def itoa_def read_show_nat in_int64_def)
qed

lemma atoi_itoa: "in_int64 n \<Longrightarrow> atoi (itoa n) = Some n"
  by (simp add: atoi_def atoi_full_itoa)

lemma atoi_value_itoa: "in_int64 n \<Longrightarrow> atoi_value (itoa n) = n"
  by (simp add: atoi_value_def atoi_full_itoa)

lemma atoi_full_range: "atoi_full s = (n, ok) \<Longrightarrow> in_int64 n"
  by (auto simp: atoi_full_def in_int64_def int64_min_def int64_max_def Let_def
      split: prod.splits if_splits option.splits)

lemma atoi_range: "atoi s = Some n \<Longrightarrow> in_int64 n"
  by (auto simp: atoi_def split: prod.splits if_splits dest: atoi_full_range)

lemma itoa_no_sep: "CHR '':'' \<notin> set (itoa n)" "CHR ''|'' \<notin> set (itoa n)"
  by (auto simp: itoa_def dest!: show_nat_digits dest: is_digit_not_sep)

lemma show_nat_inject [simp]: "show_nat m = show_nat n \<longleftrightarrow> m = n"
  using read_show_nat by (metis option.inject)

lemma itoa_inject [simp]: "itoa m = itoa n \<longleftrightarrow> m = n"
proof
  assume eq: "itoa m = itoa n"
  have "is_digit (hd (show_nat k))" for k
    by (rule show_nat_digits [where n = k], rule hd_in_set) simp
  then have "hd (show_nat k) \<noteq> CHR ''-''" for k
    using is_digit_not_sep by blast
  then have ne: "show_nat k \<noteq> CHR ''-'' # r" for k r
    by (metis list.sel(1))
  then have ne': "CHR ''-'' # r \<noteq> show_nat k" for k r
    by (rule not_sym)
  show "m = n"
    using eq by (cases "m < 0"; cases "n < 0") (simp_all add: itoa_def ne ne' eq_nat_nat_iff)
qed simp

lemma itoa_nonempty [simp]: "itoa n \<noteq> []"
  by (simp add: itoa_def)

lemma itoa_not_space: "c \<in> set (itoa n) \<Longrightarrow> \<not> is_space c"
proof -
  have "\<not> is_space CHR ''-''" by (simp add: is_space_def)
  then show "c \<in> set (itoa n) \<Longrightarrow> \<not> is_space c"
    by (auto simp: itoa_def split: if_splits dest: show_nat_digits is_digit_not_space)
qed

lemma dropWhile_none:
  assumes "\<And>c. c \<in> set s \<Longrightarrow> \<not> P c"
  shows "dropWhile P s = s"
  using assms by (cases s) simp_all

lemma trim_space_id:
  assumes "\<And>c. c \<in> set s \<Longrightarrow> \<not> is_space c"
  shows "trim_space s = s"
  using assms dropWhile_none [of s is_space] dropWhile_none [of "rev s" is_space]
  by (simp add: trim_space_def trim_left_def)

lemma trim_space_itoa [simp]: "trim_space (itoa n) = itoa n"
  by (rule trim_space_id) (rule itoa_not_space)

lemma set_trim_space: "set (trim_space s) \<subseteq> set s"
  unfolding trim_space_def trim_left_def
  by (metis set_dropWhileD set_rev subsetI)

subsection \<open>Lists\<close>

fun first_some :: "('a \<Rightarrow> 'b option) \<Rightarrow> 'a list \<Rightarrow> 'b option" where
  "first_some f [] = None"
| "first_some f (x # xs) = (case f x of None \<Rightarrow> first_some f xs | Some y \<Rightarrow> Some y)"

lemma first_some_SomeD: "first_some f xs = Some y \<Longrightarrow> \<exists>x\<in>set xs. f x = Some y"
  by (induction xs) (auto split: option.splits)

lemma first_some_None: "first_some f xs = None \<longleftrightarrow> (\<forall>x\<in>set xs. f x = None)"
  by (induction xs) (auto split: option.splits)

end
