(* ===== verification/Regexp.thy ===== *)
theory Regexp
  imports Prelude
begin

text \<open>
  The part of Go's package \<open>regexp\<close> the sources use: leftmost-first (Perl-like)
  matching with capture groups. A match of an expression at a position is a list of all
  the ways it can match there, best first: each result is the text left over and the
  captures made on the way. \<open>FindString\<close> takes the first result at the leftmost position
  that has one.

  Expressions are over bytes. Under \<open>(?i)\<close> Go also folds the letters k and s with the
  Kelvin sign and the long s; \<open>ci\<close> and \<open>word_i\<close> carry these two UTF-8 sequences.
\<close>

datatype re =
    Eps
  | Cls "char \<Rightarrow> bool"
  | Sq re re
  | Alt re re
  | Star re
  | Grp nat re

type_synonym caps = "(nat \<times> string) list"

function ms :: "re \<Rightarrow> string \<Rightarrow> caps \<Rightarrow> (string \<times> caps) list" where
  "ms Eps s c = [(s, c)]"
| "ms (Cls p) s c = (case s of [] \<Rightarrow> [] | x # r \<Rightarrow> if p x then [(r, c)] else [])"
| "ms (Sq a b) s c = concat (map (\<lambda>(s', c'). ms b s' c') (ms a s c))"
| "ms (Alt a b) s c = ms a s c @ ms b s c"
| "ms (Star a) s c =
     concat (map (\<lambda>(s', c'). if length s' < length s then ms (Star a) s' c' else []) (ms a s c))
       @ [(s, c)]"
| "ms (Grp i a) s c = map (\<lambda>(s', c'). (s', (i, take (length s - length s') s) # c')) (ms a s c)"
  by pat_completeness auto
termination
  by (relation "measures [\<lambda>(r, s, c). size r, \<lambda>(r, s, c). length s]") auto

text \<open>The equation of \<open>Star\<close> unfolds without end on a symbolic text.\<close>

lemmas ms_Star = ms.simps(5)
declare ms.simps(5) [simp del]

subsection \<open>Derived expressions\<close>

definition Opt :: "re \<Rightarrow> re" where "Opt a = Alt a Eps"
definition Plus :: "re \<Rightarrow> re" where "Plus a = Sq a (Star a)"

fun Seqs :: "re list \<Rightarrow> re" where
  "Seqs [] = Eps"
| "Seqs [a] = a"
| "Seqs (a # b # rs) = Sq a (Seqs (b # rs))"

fun Alts :: "re list \<Rightarrow> re" where
  "Alts [] = Eps"
| "Alts [a] = a"
| "Alts (a # b # rs) = Alt a (Alts (b # rs))"

fun Rep :: "nat \<Rightarrow> re \<Rightarrow> re" where
  "Rep 0 a = Eps"
| "Rep (Suc n) a = Sq a (Rep n a)"

text \<open>\<open>a{m,m+k}\<close>, greedy.\<close>

fun UpTo :: "nat \<Rightarrow> re \<Rightarrow> re" where
  "UpTo 0 a = Eps"
| "UpTo (Suc k) a = Alt (Sq a (UpTo k a)) Eps"

definition byte :: "char \<Rightarrow> re" where "byte c = Cls (\<lambda>x. x = c)"

text \<open>A literal, case sensitive, and the same under \<open>(?i)\<close>.\<close>

definition lit :: "string \<Rightarrow> re" where
  "lit s = Seqs (map byte s)"

definition kelvin :: re where
  "kelvin = Seqs [byte CHR 0xE2, byte CHR 0x84, byte CHR 0xAA]"

definition long_s :: re where
  "long_s = Seqs [byte CHR 0xC5, byte CHR 0xBF]"

definition ci_char :: "char \<Rightarrow> re" where
  "ci_char c =
     (let l = lower_char c; b = Cls (\<lambda>x. lower_char x = l) in
      if l = CHR ''k'' then Alt b kelvin else if l = CHR ''s'' then Alt b long_s else b)"

definition ci :: "string \<Rightarrow> re" where
  "ci s = Seqs (map ci_char s)"

definition digit :: re where "digit = Cls is_digit"
definition digits :: re where "digits = Plus digit"

definition non_space :: re where
  "non_space = Cls (\<lambda>x. x \<notin> {CHR '' '', CHR 0x09, CHR 0x0A, CHR 0x0C, CHR 0x0D})"

text \<open>\<open>[^\s?#]\<close>\<close>

definition path_char :: re where
  "path_char =
     Cls (\<lambda>x. x \<notin> {CHR '' '', CHR 0x09, CHR 0x0A, CHR 0x0C, CHR 0x0D, CHR ''?'', CHR ''#''})"

definition is_word :: "char \<Rightarrow> bool" where
  "is_word c \<longleftrightarrow> is_alnum c \<or> c = CHR ''_''"

text \<open>\<open>[\w...]\<close> under \<open>(?i)\<close> with the extra characters of the class.\<close>

definition word_i :: "string \<Rightarrow> re" where
  "word_i extra = Alts [Cls (\<lambda>x. is_word x \<or> x \<in> set extra), kelvin, long_s]"

text \<open>\<open>[A-Za-z0-9]\<close> and \<open>[a-z]\<close> under \<open>(?i)\<close>.\<close>

definition alnum_i :: re where "alnum_i = Alts [Cls is_alnum, kelvin, long_s]"
definition alpha_i :: re where
  "alpha_i = Alts [Cls (\<lambda>x. is_lower x \<or> is_upper x), kelvin, long_s]"

definition one_of :: "string \<Rightarrow> re" where "one_of cs = Cls (\<lambda>x. x \<in> set cs)"

subsection \<open>Searching\<close>

text \<open>A hit: the matched text, its captures and the text after it.\<close>

type_synonym hit = "string \<times> caps \<times> string"

definition match_here :: "re \<Rightarrow> string \<Rightarrow> hit option" where
  "match_here r s =
     (case ms r s [] of
        [] \<Rightarrow> None
      | (rest, c) # _ \<Rightarrow> Some (take (length s - length rest) s, c, rest))"

fun find_first :: "re \<Rightarrow> string \<Rightarrow> hit option" where
  "find_first r [] = match_here r []"
| "find_first r (x # s) =
     (case match_here r (x # s) of Some h \<Rightarrow> Some h | None \<Rightarrow> find_first r s)"

text \<open>\<open>MatchString\<close>, \<open>FindString\<close> (the empty string when there is no match) and the
  group of \<open>FindStringSubmatch\<close> (the empty string for a group that took no part).\<close>

definition re_matches :: "re \<Rightarrow> string \<Rightarrow> bool" where
  "re_matches r s \<longleftrightarrow> find_first r s \<noteq> None"

definition find_string :: "re \<Rightarrow> string \<Rightarrow> string" where
  "find_string r s = (case find_first r s of None \<Rightarrow> [] | Some (m, _, _) \<Rightarrow> m)"

definition group :: "caps \<Rightarrow> nat \<Rightarrow> string" where
  "group c i = (case map_of c i of None \<Rightarrow> [] | Some t \<Rightarrow> t)"

definition find_submatch :: "re \<Rightarrow> string \<Rightarrow> (string \<times> (nat \<Rightarrow> string)) option" where
  "find_submatch r s = map_option (\<lambda>(m, c, _). (m, group c)) (find_first r s)"

text \<open>A match consumes a suffix-closed part: what is left is a suffix of the text.\<close>

lemma ms_suffix: "(s', c') \<in> set (ms r s c) \<Longrightarrow> \<exists>u. s = u @ s'"
proof (induction r s c arbitrary: s' c' rule: ms.induct)
  case (1 s c)
  then show ?case by simp
next
  case (2 p s c)
  then show ?case by (auto split: list.splits if_splits)
next
  case (3 a b s c)
  then obtain t d where t: "(t, d) \<in> set (ms a s c)" "(s', c') \<in> set (ms b t d)" by auto
  from 3(1) [OF t(1)] obtain u where "s = u @ t" by blast
  moreover from 3(2) [OF t(1) refl t(2)] obtain v where "t = v @ s'" by blast
  ultimately show ?case by simp
next
  case (4 a b s c)
  then show ?case by auto
next
  case (5 a s c)
  show ?case
  proof (cases "(s', c') = (s, c)")
    case True
    then show ?thesis by simp
  next
    case False
    with 5(3) obtain t d where t: "(t, d) \<in> set (ms a s c)" "length t < length s"
      "(s', c') \<in> set (ms (Star a) t d)"
      by (auto simp: ms_Star [of a s c] split: if_splits)
    from 5(1) [OF t(1)] obtain u where "s = u @ t" by blast
    moreover from 5(2) [OF t(1) refl t(2) t(3)] obtain v where "t = v @ s'" by blast
    ultimately show ?thesis by simp
  qed
next
  case (6 i a s c)
  then show ?case by auto
qed

lemma match_hereD:
  assumes "match_here r s = Some (m, c, rest)"
  shows "s = m @ rest"
proof -
  from assms obtain xs where m: "ms r s [] = (rest, c) # xs"
    and mm: "m = take (length s - length rest) s"
    by (auto simp: match_here_def split: list.splits)
  have "(rest, c) \<in> set (ms r s [])" by (simp add: m)
  from ms_suffix [OF this] obtain u where "s = u @ rest" by blast
  with mm show ?thesis by simp
qed

lemma find_firstD:
  "find_first r s = Some (m, c, rest) \<Longrightarrow> \<exists>u. s = u @ m @ rest"
proof (induction s)
  case Nil
  then show ?case by (auto dest: match_hereD)
next
  case (Cons x s)
  show ?case
  proof (cases "match_here r (x # s)")
    case None
    with Cons obtain u where "s = u @ m @ rest" by auto
    then have "x # s = (x # u) @ m @ rest" by simp
    then show ?thesis by blast
  next
    case (Some h)
    with Cons.prems have "match_here r (x # s) = Some (m, c, rest)" by simp
    from match_hereD [OF this] show ?thesis by (intro exI [of _ "[]"]) simp
  qed
qed

lemma find_string_contains: "contains s (find_string r s)"
proof (cases "find_first r s")
  case None
  then have "find_string r s = []" by (simp add: find_string_def)
  then show ?thesis by (auto intro: containsI [of s "[]" "[]" s])
next
  case (Some h)
  then obtain m c rest where h: "find_first r s = Some (m, c, rest)" by (cases h) auto
  from find_firstD [OF h] h show ?thesis
    by (auto simp: find_string_def contains_iff)
qed

text \<open>
  \<open>FindAllString(s, -1)\<close>: successive matches that do not overlap. An empty match is
  followed by a step of one character, as in Go.
\<close>

function find_all :: "re \<Rightarrow> string \<Rightarrow> (string \<times> caps) list" where
  "find_all r s =
     (case find_first r s of
        None \<Rightarrow> []
      | Some (m, c, rest) \<Rightarrow>
          if rest = [] then [(m, c)]
          else (m, c) # find_all r (if m = [] then tl rest else rest))"
  by pat_completeness auto
termination
proof (relation "measure (\<lambda>(r, s). length s)", simp, clarsimp)
  fix r :: re and s m c rest
  assume h: "find_first r s = Some (m, c, rest)" and ne: "rest \<noteq> []"
  from find_firstD [OF h] obtain u where "s = u @ m @ rest" by blast
  with ne show "(m = [] \<longrightarrow> length rest - Suc 0 < length s) \<and>
    (m \<noteq> [] \<longrightarrow> length rest < length s)"
    by (cases rest) auto
qed

declare find_all.simps [simp del]

lemma find_all_contains: "(m, c) \<in> set (find_all r s) \<Longrightarrow> contains s m"
proof (induction r s arbitrary: m c rule: find_all.induct)
  case (1 r s)
  show ?case
  proof (cases "find_first r s")
    case None
    with "1.prems" show ?thesis by (simp add: find_all.simps [of r s])
  next
    case (Some h)
    obtain m0 c0 rest where h: "h = (m0, c0, rest)" by (cases h) auto
    with Some find_firstD obtain u where u: "s = u @ m0 @ rest" by blast
    let ?r = "if m0 = [] then tl rest else rest"
    have sub: "contains s ?r" if "rest \<noteq> []"
      using u that by (cases rest)
        (auto simp: contains_iff intro: exI [of _ "u @ m0"] exI [of _ "u @ [hd rest]"])
    from "1.prems" Some h consider "m = m0"
      | "rest \<noteq> []" "(m, c) \<in> set (find_all r ?r)"
      by (auto simp: find_all.simps [of r s] split: if_splits)
    then show ?thesis
    proof cases
      case 1
      with u show ?thesis by (auto simp: contains_iff)
    next
      case 2
      with "1.IH" Some h have "contains ?r m" by blast
      with sub [OF 2(1)] show ?thesis by (rule contains_trans)
    qed
  qed
qed

end
