(* ===== verification/Link_Parser.thy ===== *)
theory Link_Parser
  imports Regexp
begin

text \<open>
  \<open>go/internal/linkparser/parser.go\<close>: which links a message carries, and of which platform.
  The pattern table, the URL scanner with its two de-duplication sets, and what a scan
  promises: links come from the text, are classified by the first acceptable pattern, and a
  Spotify or Yandex Music resource is reported once.
\<close>

subsection \<open>Data\<close>

datatype platform =
    PlatformYouTube
  | PlatformTikTok
  | PlatformX
  | PlatformSpotify
  | PlatformSoundCloud
  | PlatformPinterest
  | PlatformInstagram
  | PlatformYandexMusic
  | PlatformTwitch
  | PlatformReddit
  | PlatformUnknown

fun platform_string :: "platform \<Rightarrow> string" where
  "platform_string PlatformYouTube = ''youtube''"
| "platform_string PlatformTikTok = ''tiktok''"
| "platform_string PlatformX = ''x''"
| "platform_string PlatformSpotify = ''spotify''"
| "platform_string PlatformSoundCloud = ''soundcloud''"
| "platform_string PlatformPinterest = ''pinterest''"
| "platform_string PlatformInstagram = ''instagram''"
| "platform_string PlatformYandexMusic = ''yandexmusic''"
| "platform_string PlatformTwitch = ''twitch''"
| "platform_string PlatformReddit = ''reddit''"
| "platform_string PlatformUnknown = ''unknown''"

record parsed_link =
  link_platform :: platform
  link_url :: string
  x_status_id :: string
  spotify_id :: string
  spotify_typ :: string
  yandex_album_id :: string
  yandex_track_id :: string

definition plain_link :: "platform \<Rightarrow> string \<Rightarrow> parsed_link" where
  "plain_link p url = \<lparr>link_platform = p, link_url = url, x_status_id = [], spotify_id = [],
     spotify_typ = [], yandex_album_id = [], yandex_track_id = []\<rparr>"

lemma plain_link_simps [simp]:
  "link_platform (plain_link p u) = p" "link_url (plain_link p u) = u"
  "spotify_id (plain_link p u) = []"
  "yandex_album_id (plain_link p u) = []" "yandex_track_id (plain_link p u) = []"
  by (simp_all add: plain_link_def)

subsection \<open>Regular expressions\<close>

definition urlExtractor :: re where
  "urlExtractor = Seqs [ci ''http'', Opt (ci ''s''), lit ''://'', Plus non_space]"

definition xStatusIDRegex :: re where
  "xStatusIDRegex = Seqs [lit ''/status/'', Grp 1 digits]"

text \<open>\<open>(?:@[\w.-]+/)?\<close>\<close>

definition handle_opt :: re where
  "handle_opt = Opt (Seqs [lit ''@'', Plus (word_i ''.-''), lit ''/''])"

definition youtubeShortsRe :: re where
  "youtubeShortsRe = Seqs [ci ''youtube.com/'', handle_opt, ci ''shorts/'']"

definition spotifyURIRegex :: re where
  "spotifyURIRegex = Seqs [ci ''spotify:'', Alt (ci ''album'') (ci ''track''), lit '':'',
     Grp 1 (Rep 22 alnum_i)]"

definition yandexMusicPathRegex :: re where
  "yandexMusicPathRegex = Seqs [ci ''music.yandex.'', Sq (Rep 2 alpha_i) (UpTo 1 alpha_i), lit ''/'',
     Alt (Seqs [ci ''album/'', Grp 1 digits, Opt (Sq (ci ''/track/'') (Grp 2 digits))])
         (Sq (ci ''track/'') (Grp 3 digits))]"

definition scheme :: re where
  "scheme = Opt (Seqs [ci ''http'', Opt (ci ''s''), lit ''://''])"

definition www :: re where "www = Opt (ci ''www.'')"
definition www_m :: re where "www_m = Opt (Alt (ci ''www.'') (ci ''m.''))"

text \<open>An optional tail: one of the separators and everything up to white space.\<close>

definition tail_of :: "string \<Rightarrow> re" where
  "tail_of seps = Opt (Sq (one_of seps) (Star non_space))"

definition slash_opt :: re where "slash_opt = Opt (lit ''/'')"

definition youtube_re :: re where
  "youtube_re = Seqs [scheme,
     Alt (Seqs [www_m, ci ''youtube.com/'', handle_opt, Alt (ci ''watch?v='') (ci ''shorts/'')])
         (ci ''youtu.be/''),
     Rep 11 (word_i ''-''), tail_of ''?&'']"

definition tiktok_re :: re where
  "tiktok_re = Seqs [scheme, Alts [
     Seqs [www, ci ''tiktok.com/@'', Star (word_i ''.-''), lit ''/'',
       Alt (ci ''video'') (ci ''photo''), lit ''/'', digits, tail_of ''/?#&''],
     Seqs [www, ci ''tiktok.com/t/'', Plus (word_i ''-''), slash_opt, tail_of ''?&''],
     Seqs [Alt (ci ''vm'') (ci ''vt''), ci ''.tiktok.com/'', Plus (word_i ''-''), slash_opt,
       tail_of ''?&''],
     Seqs [ci ''m.tiktok.com/v/'', digits, ci ''.html'', tail_of ''?&'']]]"

definition x_re :: re where
  "x_re = Seqs [scheme, www, Alt (ci ''x'') (ci ''twitter''), ci ''.com/'', Plus (word_i ''-''),
     ci ''/status/'', digits, slash_opt, tail_of ''?&'']"

definition spotify_re :: re where
  "spotify_re = Seqs [scheme, Opt (ci ''open.''), ci ''spotify.com/'',
     Alt (ci ''album'') (ci ''track''), lit ''/'', Rep 22 alnum_i, tail_of ''/?#&'']"

definition yandex_re :: re where
  "yandex_re = Seqs [scheme, www, ci ''music.yandex.'', Sq (Rep 2 alpha_i) (UpTo 1 alpha_i),
     lit ''/'',
     Alt (Seqs [ci ''album/'', digits, Opt (Sq (ci ''/track/'') digits)])
         (Sq (ci ''track/'') digits),
     tail_of ''/?#&'']"

definition soundcloud_discover_re :: re where
  "soundcloud_discover_re = Seqs [scheme, www, ci ''soundcloud.com/discover/sets/'',
     Plus path_char, tail_of ''/?#&'']"

definition soundcloud_sets_re :: re where
  "soundcloud_sets_re = Seqs [scheme, www, ci ''soundcloud.com/'', Plus (word_i ''.-''),
     ci ''/sets/'', Plus path_char, tail_of ''/?#&'']"

definition soundcloud_short_re :: re where
  "soundcloud_short_re = Seqs [scheme, ci ''on.soundcloud.com/'', Plus (word_i ''-''),
     tail_of ''/?#&'']"

definition soundcloud_track_re :: re where
  "soundcloud_track_re = Seqs [scheme, www, ci ''soundcloud.com/'', Plus (word_i ''.-''), lit ''/'',
     Plus (word_i ''.-''), tail_of ''/?#&'']"

definition pinterest_host :: re where
  "pinterest_host = Seqs [scheme, Opt (Sq (Plus (word_i ''-'')) (lit ''.'')), ci ''pinterest.'',
     Plus (word_i ''.'')]"

definition pinterest_pin_re :: re where
  "pinterest_pin_re = Seqs [pinterest_host, ci ''/pin/'', Plus (word_i ''-''), slash_opt,
     tail_of ''?&'']"

definition pinterest_short_re :: re where
  "pinterest_short_re = Seqs [scheme, ci ''pin.it/'', Plus (word_i ''-''), slash_opt, tail_of ''?&'']"

definition pinterest_board_re :: re where
  "pinterest_board_re = Seqs [pinterest_host, lit ''/'', Plus (word_i ''-''), lit ''/'',
     Plus (word_i ''-''), slash_opt, tail_of ''?&'']"

definition instagram_re :: re where
  "instagram_re = Seqs [scheme, www_m, ci ''instagram.com/'',
     Alts [ci ''reel'', ci ''p'', ci ''tv'', ci ''stories'', ci ''share''], lit ''/'',
     Plus path_char, tail_of ''/?#&'']"

definition instagram_short_re :: re where
  "instagram_short_re = Seqs [scheme, ci ''instagr.am/'', Plus path_char, tail_of ''/?#&'']"

definition twitch_re :: re where
  "twitch_re = Seqs [scheme, www_m, ci ''twitch.tv/'', Opt (Sq (Plus (word_i ''-'')) (lit ''/'')),
     ci ''clip/'', Plus (word_i ''-''), tail_of ''/?#&'']"

definition twitch_clips_re :: re where
  "twitch_clips_re = Seqs [scheme, ci ''clips.twitch.tv/'', Plus (word_i ''-''), tail_of ''/?#&'']"

definition reddit_re :: re where
  "reddit_re = Seqs [scheme, Opt (Alts [ci ''www.'', ci ''old.'', ci ''np.'', ci ''m.'']),
     ci ''reddit.com/'', Opt (Seqs [ci ''r/'', Plus (word_i ''-''), lit ''/'']), ci ''comments/'',
     Plus (word_i ''-''), Opt (Sq (lit ''/'') (Star path_char)), tail_of ''?&'']"

definition reddit_short_re :: re where
  "reddit_short_re = Seqs [scheme, www, ci ''redd.it/'', Plus (word_i ''-''), slash_opt,
     tail_of ''?&'']"

text \<open>The table is tried in this order.\<close>

definition patterns :: "(platform \<times> re) list" where
  "patterns = [
     (PlatformYouTube, youtube_re),
     (PlatformTikTok, tiktok_re),
     (PlatformX, x_re),
     (PlatformSpotify, spotify_re),
     (PlatformYandexMusic, yandex_re),
     (PlatformSoundCloud, soundcloud_discover_re),
     (PlatformSoundCloud, soundcloud_sets_re),
     (PlatformSoundCloud, soundcloud_short_re),
     (PlatformSoundCloud, soundcloud_track_re),
     (PlatformPinterest, pinterest_pin_re),
     (PlatformPinterest, pinterest_short_re),
     (PlatformPinterest, pinterest_board_re),
     (PlatformInstagram, instagram_re),
     (PlatformInstagram, instagram_short_re),
     (PlatformTwitch, twitch_re),
     (PlatformTwitch, twitch_clips_re),
     (PlatformReddit, reddit_re),
     (PlatformReddit, reddit_short_re)]"

subsection \<open>Parsing one URL\<close>

definition IsYouTubeShorts :: "string \<Rightarrow> bool" where
  "IsYouTubeShorts url = re_matches youtubeShortsRe url"

definition ExtractXStatusID :: "string \<Rightarrow> string" where
  "ExtractXStatusID url =
     (case find_submatch xStatusIDRegex url of None \<Rightarrow> [] | Some (_, g) \<Rightarrow> g 1)"

definition spotifyPathRegex :: re where
  "spotifyPathRegex = Seqs [ci ''spotify.com/'', Grp 1 (Alt (ci ''album'') (ci ''track'')), lit ''/'',
     Grp 2 (Rep 22 alnum_i)]"

definition parseSpotifyURL :: "string \<Rightarrow> string \<times> string" where
  "parseSpotifyURL url =
     (case find_submatch spotifyPathRegex url of
        None \<Rightarrow> ([], [])
      | Some (_, g) \<Rightarrow> (g 2, to_lower (g 1)))"

definition parseYandexMusicURL :: "string \<Rightarrow> string \<times> string" where
  "parseYandexMusicURL url =
     (case find_submatch yandexMusicPathRegex url of
        None \<Rightarrow> ([], [])
      | Some (_, g) \<Rightarrow> if g 3 \<noteq> [] then (g 1, g 3) else (g 1, g 2))"

definition yandex_key :: "string \<Rightarrow> string \<Rightarrow> string" where
  "yandex_key albumID trackID =
     (if trackID \<noteq> [] then ''track:'' @ trackID else ''album:'' @ albumID)"

subsection \<open>The scan\<close>

text \<open>The locals of \<open>ExtractURLs\<close>: the results and the two sets of seen keys.\<close>

record scan =
  results :: "parsed_link list"
  seenSpotify :: "string list"
  seenYandex :: "string list"

definition empty_scan :: scan where
  "empty_scan = \<lparr>results = [], seenSpotify = [], seenYandex = []\<rparr>"

definition append_link :: "parsed_link \<Rightarrow> scan \<Rightarrow> scan" where
  "append_link l sc = sc\<lparr>results := results sc @ [l]\<rparr>"

text \<open>The body of the inner loop once a pattern is accepted; it always ends in \<open>break\<close>.\<close>

definition take_match :: "platform \<Rightarrow> string \<Rightarrow> scan \<Rightarrow> scan" where
  "take_match p m sc =
     (let link = plain_link p m;
          link = (if p = PlatformX then link\<lparr>x_status_id := ExtractXStatusID m\<rparr> else link) in
      if p = PlatformSpotify then
        (let (i, typ) = parseSpotifyURL m in
         if i \<noteq> [] then
           if i \<in> set (seenSpotify sc) then sc
           else append_link (link\<lparr>spotify_id := i, spotify_typ := typ\<rparr>)
                  (sc\<lparr>seenSpotify := i # seenSpotify sc\<rparr>)
         else append_link link sc)
      else if p = PlatformYandexMusic then
        (let (album, track) = parseYandexMusicURL m; key = yandex_key album track in
         if key \<in> set (seenYandex sc) then sc
         else append_link (link\<lparr>yandex_album_id := album, yandex_track_id := track\<rparr>)
                (sc\<lparr>seenYandex := key # seenYandex sc\<rparr>))
      else append_link link sc)"

text \<open>A pattern is passed over when it does not match or matches a SoundCloud set.\<close>

definition accepts :: "platform \<Rightarrow> string \<Rightarrow> bool" where
  "accepts p m \<longleftrightarrow>
     m \<noteq> [] \<and> \<not> (p = PlatformSoundCloud \<and> contains (to_lower m) ''/sets/'')"

fun try_patterns :: "(platform \<times> re) list \<Rightarrow> string \<Rightarrow> scan \<Rightarrow> scan \<times> bool" where
  "try_patterns [] url sc = (sc, False)"
| "try_patterns ((p, r) # ps) url sc =
     (let m = find_string r url in
      if accepts p m then (take_match p m sc, True) else try_patterns ps url sc)"

definition scan_url :: "string \<Rightarrow> scan \<Rightarrow> scan" where
  "scan_url raw sc =
     (let url = trim_right_set ''.,;:!?)]}'' raw;
          (sc', matched) = try_patterns patterns url sc in
      if matched then sc' else append_link (plain_link PlatformUnknown url) sc')"

definition scan_uri :: "string \<times> caps \<Rightarrow> scan \<Rightarrow> scan" where
  "scan_uri mc sc =
     (let (m, c) = mc; i = group c 1 in
      if i \<in> set (seenSpotify sc) then sc
      else
        let typ = (if contains (to_lower m) ''album'' then ''album'' else ''track'') in
        append_link ((plain_link PlatformSpotify m)\<lparr>spotify_id := i, spotify_typ := typ\<rparr>)
          (sc\<lparr>seenSpotify := i # seenSpotify sc\<rparr>))"

definition ExtractURLs :: "string \<Rightarrow> parsed_link list" where
  "ExtractURLs body =
     results (fold scan_uri (find_all spotifyURIRegex body)
       (fold scan_url (map fst (find_all urlExtractor body)) empty_scan))"


subsection \<open>Specification of the loop\<close>

text \<open>
  What the two nested loops with their \<open>continue\<close> and \<open>break\<close> decide: the first acceptable
  pattern of the table, the link it stands for, and whether the scan has seen its resource.
\<close>

definition first_pattern :: "string \<Rightarrow> (platform \<times> string) option" where
  "first_pattern url =
     first_some (\<lambda>(p, r). let m = find_string r url in if accepts p m then Some (p, m) else None)
       patterns"

definition link_of :: "platform \<Rightarrow> string \<Rightarrow> parsed_link" where
  "link_of p m =
     (let l = plain_link p m in
      case p of
        PlatformX \<Rightarrow> l\<lparr>x_status_id := ExtractXStatusID m\<rparr>
      | PlatformSpotify \<Rightarrow>
          (if fst (parseSpotifyURL m) = [] then l
           else l\<lparr>spotify_id := fst (parseSpotifyURL m), spotify_typ := snd (parseSpotifyURL m)\<rparr>)
      | PlatformYandexMusic \<Rightarrow>
          l\<lparr>yandex_album_id := fst (parseYandexMusicURL m),
            yandex_track_id := snd (parseYandexMusicURL m)\<rparr>
      | _ \<Rightarrow> l)"

definition seen_before :: "platform \<Rightarrow> string \<Rightarrow> scan \<Rightarrow> bool" where
  "seen_before p m sc =
     (case p of
        PlatformSpotify \<Rightarrow>
          fst (parseSpotifyURL m) \<noteq> [] \<and> fst (parseSpotifyURL m) \<in> set (seenSpotify sc)
      | PlatformYandexMusic \<Rightarrow>
          yandex_key (fst (parseYandexMusicURL m)) (snd (parseYandexMusicURL m))
            \<in> set (seenYandex sc)
      | _ \<Rightarrow> False)"

lemma append_link_simps [simp]:
  "results (append_link l sc) = results sc @ [l]"
  "seenSpotify (append_link l sc) = seenSpotify sc"
  "seenYandex (append_link l sc) = seenYandex sc"
  by (simp_all add: append_link_def)

lemma take_match_results:
  "results (take_match p m sc) = results sc @ (if seen_before p m sc then [] else [link_of p m])"
  by (cases p) (auto simp: take_match_def seen_before_def link_of_def Let_def
      split: prod.splits)

lemma take_match_seen:
  "set (seenSpotify (take_match p m sc)) =
     set (seenSpotify sc) \<union> (if p = PlatformSpotify \<and> fst (parseSpotifyURL m) \<noteq> []
       then {fst (parseSpotifyURL m)} else {})"
  "set (seenYandex (take_match p m sc)) =
     set (seenYandex sc) \<union> (if p = PlatformYandexMusic
       then {yandex_key (fst (parseYandexMusicURL m)) (snd (parseYandexMusicURL m))} else {})"
  by (auto simp: take_match_def Let_def split: prod.splits)

lemma try_patterns_first:
  "try_patterns ps url sc =
     (case first_some (\<lambda>(p, r). let m = find_string r url in
              if accepts p m then Some (p, m) else None) ps of
        None \<Rightarrow> (sc, False)
      | Some (p, m) \<Rightarrow> (take_match p m sc, True))"
  by (induction ps url sc rule: try_patterns.induct) (simp_all add: Let_def)

lemma first_pattern_SomeD:
  assumes "first_pattern url = Some (p, m)"
  shows "accepts p m" "contains url m" "\<exists>r. (p, r) \<in> set patterns \<and> m = find_string r url"
proof -
  from assms obtain r where "(p, r) \<in> set patterns" "m = find_string r url" "accepts p m"
    unfolding first_pattern_def
    by (auto dest!: first_some_SomeD simp: Let_def split: if_splits)
  then show "accepts p m" "contains url m" "\<exists>r. (p, r) \<in> set patterns \<and> m = find_string r url"
    using find_string_contains by blast+
qed

definition url_of_raw :: "string \<Rightarrow> string" where
  "url_of_raw raw = trim_right_set ''.,;:!?)]}'' raw"

lemma scan_url_eq:
  "scan_url raw sc =
     (case first_pattern (url_of_raw raw) of
        None \<Rightarrow> append_link (plain_link PlatformUnknown (url_of_raw raw)) sc
      | Some (p, m) \<Rightarrow> take_match p m sc)"
  by (simp add: scan_url_def first_pattern_def try_patterns_first url_of_raw_def Let_def
      split: option.splits prod.splits)

subsection \<open>Invariant of the scan\<close>

text \<open>The dedup key of a link, when it has one.\<close>

definition spotify_keys :: "parsed_link list \<Rightarrow> string list" where
  "spotify_keys ls = filter (\<lambda>i. i \<noteq> []) (map spotify_id ls)"

definition yandex_keys :: "parsed_link list \<Rightarrow> string list" where
  "yandex_keys ls = map (\<lambda>l. yandex_key (yandex_album_id l) (yandex_track_id l))
     (filter (\<lambda>l. link_platform l = PlatformYandexMusic) ls)"

lemma keys_append [simp]:
  "spotify_keys (xs @ ys) = spotify_keys xs @ spotify_keys ys"
  "yandex_keys (xs @ ys) = yandex_keys xs @ yandex_keys ys"
  "spotify_keys [] = []" "yandex_keys [] = []"
  by (simp_all add: spotify_keys_def yandex_keys_def)

definition link_ok :: "string \<Rightarrow> parsed_link \<Rightarrow> bool" where
  "link_ok body l \<longleftrightarrow> contains body (link_url l) \<and>
     \<not> (link_platform l = PlatformSoundCloud \<and> contains (to_lower (link_url l)) ''/sets/'')"

definition scan_inv :: "string \<Rightarrow> scan \<Rightarrow> bool" where
  "scan_inv body sc \<longleftrightarrow> list_all (link_ok body) (results sc) \<and>
     distinct (spotify_keys (results sc)) \<and>
     set (spotify_keys (results sc)) \<subseteq> set (seenSpotify sc) \<and>
     distinct (yandex_keys (results sc)) \<and>
     set (yandex_keys (results sc)) \<subseteq> set (seenYandex sc)"

lemma link_of_platform [simp]: "link_platform (link_of p m) = p"
  by (cases p) (simp_all add: link_of_def Let_def)

lemma link_of_url [simp]: "link_url (link_of p m) = m"
  by (cases p) (simp_all add: link_of_def Let_def)

lemma spotify_keys_link_of:
  "spotify_keys [link_of p m] =
     (if p = PlatformSpotify \<and> fst (parseSpotifyURL m) \<noteq> [] then [fst (parseSpotifyURL m)] else [])"
  by (cases p) (simp_all add: link_of_def spotify_keys_def Let_def)

lemma yandex_keys_link_of:
  "yandex_keys [link_of p m] =
     (if p = PlatformYandexMusic
      then [yandex_key (fst (parseYandexMusicURL m)) (snd (parseYandexMusicURL m))] else [])"
  by (cases p) (simp_all add: link_of_def yandex_keys_def Let_def)

lemmas keys_link_of = spotify_keys_link_of yandex_keys_link_of

lemma scan_inv_take_match:
  assumes "scan_inv body sc" "accepts p m" "contains body m"
  shows "scan_inv body (take_match p m sc)"
proof -
  have "link_ok body (link_of p m)"
    using assms(2,3) by (auto simp: link_ok_def accepts_def)
  then show ?thesis
    using assms(1) by (auto simp: scan_inv_def take_match_results take_match_seen keys_link_of
        seen_before_def split: platform.splits)
qed

lemma scan_inv_url:
  assumes inv: "scan_inv body sc" and raw: "contains body raw"
  shows "scan_inv body (scan_url raw sc)"
proof -
  from raw have url: "contains body (url_of_raw raw)"
    unfolding url_of_raw_def using contains_trim_right contains_trans by blast
  show ?thesis
  proof (cases "first_pattern (url_of_raw raw)")
    case None
    with inv url show ?thesis
      by (simp add: scan_url_eq scan_inv_def link_ok_def spotify_keys_def yandex_keys_def)
  next
    case (Some pm)
    obtain p m where pm: "pm = (p, m)" by (cases pm)
    from Some pm url have "accepts p m" "contains body m"
      using first_pattern_SomeD contains_trans by blast+
    with inv Some pm show ?thesis by (simp add: scan_url_eq scan_inv_take_match)
  qed
qed

lemma scan_inv_uri:
  assumes "scan_inv body sc" "contains body (fst mc)"
  shows "scan_inv body (scan_uri mc sc)"
  using assms
  by (cases mc) (auto simp: scan_inv_def scan_uri_def link_ok_def spotify_keys_def yandex_keys_def
      Let_def)

lemma fold_inv:
  assumes "P s" "\<And>x s. x \<in> set xs \<Longrightarrow> P s \<Longrightarrow> P (f x s)"
  shows "P (fold f xs s)"
  using assms by (induction xs arbitrary: s) auto

lemma extract_inv:
  "\<exists>sc. ExtractURLs body = results sc \<and> scan_inv body sc"
proof -
  let ?s1 = "fold scan_url (map fst (find_all urlExtractor body)) empty_scan"
  have "scan_inv body ?s1"
  proof (rule fold_inv)
    show "scan_inv body empty_scan" by (simp add: scan_inv_def empty_scan_def)
    show "scan_inv body (scan_url raw s)"
      if "raw \<in> set (map fst (find_all urlExtractor body))" "scan_inv body s" for raw s
      using that by (fastforce intro: scan_inv_url dest: find_all_contains)
  qed
  then have "scan_inv body (fold scan_uri (find_all spotifyURIRegex body) ?s1)"
    by (rule fold_inv) (auto intro!: scan_inv_uri dest: find_all_contains)
  then show ?thesis unfolding ExtractURLs_def by blast
qed

lemmas scan_specs = scan_url_eq take_match_results first_pattern_SomeD

subsection \<open>Properties\<close>

text \<open>
  Scanning one URL adds exactly what the first acceptable pattern of the table says: the
  link of that pattern, nothing when its Spotify or Yandex Music resource was seen before, and
  a link of the unknown platform when no pattern is acceptable.
\<close>

theorem scan_url_functional:
  "results (scan_url raw sc) = results sc @
     (case first_pattern (url_of_raw raw) of
        None \<Rightarrow> [plain_link PlatformUnknown (url_of_raw raw)]
      | Some (p, m) \<Rightarrow> (if seen_before p m sc then [] else [link_of p m]))"
  by (simp add: scan_url_eq take_match_results split: option.splits prod.splits)

text \<open>
  Every link of a message is a piece of the message's text, and no SoundCloud link is a
  set (a playlist), however it is spelled.
\<close>

theorem extract_links_from_text:
  "list_all (\<lambda>l. contains body (link_url l) \<and>
      \<not> (link_platform l = PlatformSoundCloud \<and> contains (to_lower (link_url l)) ''/sets/''))
     (ExtractURLs body)"
  using extract_inv [of body] by (auto simp: scan_inv_def link_ok_def list_all_iff)

text \<open>
  A message names each Spotify resource and each Yandex Music album or track at most once,
  whichever mix of web links and URIs it spells them with.
\<close>

theorem extract_dedup:
  "distinct (spotify_keys (ExtractURLs body)) \<and> distinct (yandex_keys (ExtractURLs body))"
  using extract_inv [of body] by (auto simp: scan_inv_def)

end
