(* ===== verification/Json.thy ===== *)
theory Json
  imports Prelude
begin

text \<open>
  What \<open>encoding/json\<close> makes of bytes: an object, with its keys in the order of the struct's
  fields and \<open>omitempty\<close> fields left out, or something that does not decode. Shared by the job
  payloads of the queue and the documents kept in Redis.
\<close>

subsection \<open>JSON objects\<close>

datatype jval =
    JNull
  | JBool bool
  | JInt int
  | JFloat rat
  | JStr string
  | JInts "int list"
  | JObjs "((string \<times> jval) list) list"

type_synonym jobject = "(string \<times> jval) list"

text \<open>The bytes of a payload: \<open>None\<close> when they are not a JSON object.\<close>

type_synonym body = "jobject option"

text \<open>A repeated key overwrites, so the last occurrence counts; \<open>null\<close> leaves the zero value.\<close>

definition jget :: "jobject \<Rightarrow> string \<Rightarrow> jval" where
  "jget ob k = (case map_of (rev ob) k of None \<Rightarrow> JNull | Some v \<Rightarrow> v)"

definition get_str :: "jobject \<Rightarrow> string \<Rightarrow> string option" where
  "get_str ob k = (case jget ob k of JNull \<Rightarrow> Some [] | JStr s \<Rightarrow> Some s | _ \<Rightarrow> None)"

definition get_int :: "jobject \<Rightarrow> string \<Rightarrow> int option" where
  "get_int ob k =
     (case jget ob k of JNull \<Rightarrow> Some 0 | JInt n \<Rightarrow> if in_int64 n then Some n else None | _ \<Rightarrow> None)"

definition get_bool :: "jobject \<Rightarrow> string \<Rightarrow> bool option" where
  "get_bool ob k = (case jget ob k of JNull \<Rightarrow> Some False | JBool b \<Rightarrow> Some b | _ \<Rightarrow> None)"

definition get_float :: "jobject \<Rightarrow> string \<Rightarrow> rat option" where
  "get_float ob k =
     (case jget ob k of JNull \<Rightarrow> Some 0 | JInt n \<Rightarrow> Some (of_int n) | JFloat x \<Rightarrow> Some x | _ \<Rightarrow> None)"

definition omit_str :: "string \<Rightarrow> string \<Rightarrow> jobject" where
  "omit_str k v = (if v = [] then [] else [(k, JStr v)])"

definition omit_int :: "string \<Rightarrow> int \<Rightarrow> jobject" where
  "omit_int k v = (if v = 0 then [] else [(k, JInt v)])"

definition omit_bool :: "string \<Rightarrow> bool \<Rightarrow> jobject" where
  "omit_bool k v = (if v then [(k, JBool v)] else [])"

definition omit_float :: "string \<Rightarrow> rat \<Rightarrow> jobject" where
  "omit_float k v = (if v = 0 then [] else [(k, JFloat v)])"

lemmas jobject_defs =
  jget_def get_str_def get_int_def get_bool_def get_float_def
  omit_str_def omit_int_def omit_bool_def omit_float_def

text \<open>An omitted field reads as its zero value, a written one as itself; other keys are not touched.\<close>

lemma jget_append_last: "jget (xs @ [(k, v)]) k = v"
  by (simp add: jget_def)

lemma jget_omit_other [simp]:
  assumes "k \<noteq> k'"
  shows "jget (xs @ omit_str k s) k' = jget xs k'" "jget (xs @ omit_int k n) k' = jget xs k'"
    "jget (xs @ omit_bool k b) k' = jget xs k'" "jget (xs @ omit_float k x) k' = jget xs k'"
  using assms by (simp_all add: omit_str_def omit_int_def omit_bool_def omit_float_def jget_def)

lemma get_omit_other [simp]:
  assumes "k \<noteq> k'"
  shows "get_str (xs @ omit_str k s) k' = get_str xs k'"
    "get_str (xs @ omit_int k n) k' = get_str xs k'"
    "get_str (xs @ omit_bool k b) k' = get_str xs k'"
    "get_str (xs @ omit_float k x) k' = get_str xs k'"
    "get_int (xs @ omit_str k s) k' = get_int xs k'"
    "get_int (xs @ omit_int k n) k' = get_int xs k'"
    "get_int (xs @ omit_bool k b) k' = get_int xs k'"
    "get_int (xs @ omit_float k x) k' = get_int xs k'"
    "get_bool (xs @ omit_str k s) k' = get_bool xs k'"
    "get_bool (xs @ omit_int k n) k' = get_bool xs k'"
    "get_bool (xs @ omit_bool k b) k' = get_bool xs k'"
    "get_bool (xs @ omit_float k x) k' = get_bool xs k'"
    "get_float (xs @ omit_str k s) k' = get_float xs k'"
    "get_float (xs @ omit_int k n) k' = get_float xs k'"
    "get_float (xs @ omit_bool k b) k' = get_float xs k'"
    "get_float (xs @ omit_float k x) k' = get_float xs k'"
  using assms by (simp_all add: get_str_def get_int_def get_bool_def get_float_def)

lemma get_omit_same [simp]:
  "get_str xs k = Some [] \<Longrightarrow> get_str (xs @ omit_str k s) k = Some s"
  "get_int xs k = Some 0 \<Longrightarrow> in_int64 n \<Longrightarrow> get_int (xs @ omit_int k n) k = Some n"
  "get_bool xs k = Some False \<Longrightarrow> get_bool (xs @ omit_bool k b) k = Some b"
  "get_float xs k = Some 0 \<Longrightarrow> get_float (xs @ omit_float k x) k = Some x"
  by (simp_all add: omit_str_def omit_int_def omit_bool_def omit_float_def get_str_def get_int_def
      get_bool_def get_float_def jget_append_last)

lemma get_literal [simp]:
  "get_str [] k = Some []" "get_int [] k = Some 0"
  "get_bool [] k = Some False" "get_float [] k = Some 0"
  by (simp_all add: get_str_def get_int_def get_bool_def get_float_def jget_def)

lemma get_snoc [simp]:
  "get_str (xs @ [(k, v)]) k' =
     (if k = k' then (case v of JNull \<Rightarrow> Some [] | JStr s \<Rightarrow> Some s | _ \<Rightarrow> None) else get_str xs k')"
  by (simp add: get_str_def jget_def)

lemmas left_append = append_assoc [symmetric]

end
