(* ===== verification/Queue_Tasks.thy ===== *)
theory Queue_Tasks
  imports Json
begin

text \<open>
  \<open>go/internal/queue\<close>: the job payloads and their JSON encoding, the choice of queue and
  options of every kind of job (\<open>client.go\<close>), the removal of a user's jobs (\<open>clear.go\<close>) and the
  start-up repair of the active list (\<open>recovery.go\<close>).

  The task broker (asynq over Redis) is outside the sources: its client, its inspector and
  the Redis commands of the repair are parameters. A payload's bytes are modelled by what
  \<open>encoding/json\<close> makes of them: an object (the field order of the struct, with
  \<open>omitempty\<close>) or something that does not decode.
\<close>

subsection \<open>Task types and queues\<close>

definition TypeDownload :: string where "TypeDownload = ''download:send''"
definition TypeTikTok :: string where "TypeTikTok = ''download:tiktok''"
definition TypePinterest :: string where "TypePinterest = ''download:pinterest''"
definition TypePinterestKZ :: string where "TypePinterestKZ = ''download:pinterest_kz''"
definition TypeSpotify :: string where "TypeSpotify = ''download:spotify''"
definition TypeSoundCloud :: string where "TypeSoundCloud = ''download:soundcloud''"
definition TypeYandexMusic :: string where "TypeYandexMusic = ''download:yandexmusic''"
definition TypeBroadcast :: string where "TypeBroadcast = ''broadcast:execute''"
definition TypeTikTokCarousel :: string where "TypeTikTokCarousel = ''download:tiktok_carousel''"
definition TypeInstagram :: string where "TypeInstagram = ''download:instagram''"
definition TypeReddit :: string where "TypeReddit = ''download:reddit''"
definition TypeTelegraphTranslate :: string where
  "TypeTelegraphTranslate = ''telegraph:translate''"

definition QueueDownload :: string where "QueueDownload = ''download''"
definition QueueTranscode :: string where "QueueTranscode = ''transcode''"
definition defaultQueueName :: string where "defaultQueueName = ''default''"

lemmas task_type_defs =
  TypeDownload_def TypeTikTok_def TypePinterest_def TypePinterestKZ_def TypeSpotify_def
  TypeSoundCloud_def TypeYandexMusic_def TypeBroadcast_def TypeTikTokCarousel_def
  TypeInstagram_def TypeReddit_def TypeTelegraphTranslate_def

lemmas queue_name_defs = QueueDownload_def QueueTranscode_def defaultQueueName_def

subsection \<open>Payloads\<close>

record download_payload =
  dp_url :: string
  dp_platform :: string
  dp_chat :: int
  dp_user :: int
  dp_message :: int
  dp_lang :: string
  dp_lock_token :: string
  dp_lock_scene :: string
  dp_x_status :: string
  dp_format :: string
  dp_quality :: int
  dp_aspect :: string
  dp_session :: string
  dp_title :: string
  dp_author :: string
  dp_audio_only :: bool
  dp_no_watermark :: bool
  dp_trim_start :: rat
  dp_trim_end :: rat

text \<open>The zero value of the struct, which a composite literal starts from.\<close>

definition zero_download :: download_payload where
  "zero_download = \<lparr>dp_url = [], dp_platform = [], dp_chat = 0, dp_user = 0, dp_message = 0,
     dp_lang = [], dp_lock_token = [], dp_lock_scene = [], dp_x_status = [], dp_format = [],
     dp_quality = 0, dp_aspect = [], dp_session = [], dp_title = [], dp_author = [],
     dp_audio_only = False, dp_no_watermark = False, dp_trim_start = 0, dp_trim_end = 0\<rparr>"

record music_payload =
  mp_platform :: string
  mp_chat :: int
  mp_user :: int
  mp_message :: int
  mp_lang :: string
  mp_lock_token :: string
  mp_lock_scene :: string
  mp_link_type :: string
  mp_resource :: string
  mp_source_url :: string
  mp_release :: string

record broadcast_payload =
  bp_id :: int
  bp_audience :: string
  bp_users :: "int list"

record translate_payload =
  tp_thread :: string
  tp_url :: string
  tp_chat :: int
  tp_user :: int
  tp_message :: int
  tp_lang :: string

definition IsTrimmed :: "download_payload \<Rightarrow> bool" where
  "IsTrimmed p \<longleftrightarrow> dp_trim_end p > dp_trim_start p"

definition QueueFor :: "download_payload \<Rightarrow> string" where
  "QueueFor p =
     (if dp_platform p = ''youtube'' \<and> \<not> dp_audio_only p \<and> dp_quality p > 0 \<and> dp_aspect p \<noteq> []
      then QueueTranscode else QueueDownload)"

text \<open>The fields without \<open>omitempty\<close>, then the optional ones.\<close>

definition download_required :: "download_payload \<Rightarrow> jobject" where
  "download_required p =
     [(''url'', JStr (dp_url p)), (''platform'', JStr (dp_platform p)),
      (''chat_id'', JInt (dp_chat p)), (''user_id'', JInt (dp_user p)),
      (''message_id'', JInt (dp_message p)), (''lang'', JStr (dp_lang p)),
      (''lock_token'', JStr (dp_lock_token p)), (''lock_scene'', JStr (dp_lock_scene p))]"

definition marshal_download :: "download_payload \<Rightarrow> body" where
  "marshal_download p = Some (
     download_required p
     @ omit_str ''x_status_id'' (dp_x_status p)
     @ omit_str ''format_id'' (dp_format p)
     @ omit_int ''quality'' (dp_quality p)
     @ omit_str ''aspect_ratio'' (dp_aspect p)
     @ omit_str ''session_token'' (dp_session p)
     @ omit_str ''title'' (dp_title p)
     @ omit_str ''author'' (dp_author p)
     @ omit_bool ''audio_only'' (dp_audio_only p)
     @ omit_bool ''no_watermark'' (dp_no_watermark p)
     @ omit_float ''trim_start'' (dp_trim_start p)
     @ omit_float ''trim_end'' (dp_trim_end p))"

text \<open>\<open>json.Unmarshal\<close>: an error when the bytes are no object or a field has another type.\<close>

definition unmarshal_download :: "body \<Rightarrow> download_payload option" where
  "unmarshal_download b = Option.bind b (\<lambda>ob.
     Option.bind (get_str ob ''url'') (\<lambda>url.
     Option.bind (get_str ob ''platform'') (\<lambda>platform.
     Option.bind (get_int ob ''chat_id'') (\<lambda>chat.
     Option.bind (get_int ob ''user_id'') (\<lambda>user.
     Option.bind (get_int ob ''message_id'') (\<lambda>message.
     Option.bind (get_str ob ''lang'') (\<lambda>lang.
     Option.bind (get_str ob ''lock_token'') (\<lambda>token.
     Option.bind (get_str ob ''lock_scene'') (\<lambda>scene.
     Option.bind (get_str ob ''x_status_id'') (\<lambda>xs.
     Option.bind (get_str ob ''format_id'') (\<lambda>fmt.
     Option.bind (get_int ob ''quality'') (\<lambda>quality.
     Option.bind (get_str ob ''aspect_ratio'') (\<lambda>aspect.
     Option.bind (get_str ob ''session_token'') (\<lambda>session.
     Option.bind (get_str ob ''title'') (\<lambda>title.
     Option.bind (get_str ob ''author'') (\<lambda>author.
     Option.bind (get_bool ob ''audio_only'') (\<lambda>audio.
     Option.bind (get_bool ob ''no_watermark'') (\<lambda>nowm.
     Option.bind (get_float ob ''trim_start'') (\<lambda>ts.
     Option.bind (get_float ob ''trim_end'') (\<lambda>te.
       Some \<lparr>dp_url = url, dp_platform = platform, dp_chat = chat, dp_user = user,
         dp_message = message, dp_lang = lang, dp_lock_token = token, dp_lock_scene = scene,
         dp_x_status = xs, dp_format = fmt, dp_quality = quality, dp_aspect = aspect,
         dp_session = session, dp_title = title, dp_author = author, dp_audio_only = audio,
         dp_no_watermark = nowm, dp_trim_start = ts, dp_trim_end = te\<rparr>))))))))))))))))))))"

definition marshal_music :: "music_payload \<Rightarrow> body" where
  "marshal_music p = Some (
     [(''platform'', JStr (mp_platform p)), (''chat_id'', JInt (mp_chat p)),
      (''user_id'', JInt (mp_user p)), (''message_id'', JInt (mp_message p)),
      (''lang'', JStr (mp_lang p)), (''lock_token'', JStr (mp_lock_token p)),
      (''lock_scene'', JStr (mp_lock_scene p))]
     @ omit_str ''link_type'' (mp_link_type p)
     @ omit_str ''resource_id'' (mp_resource p)
     @ omit_str ''source_url'' (mp_source_url p)
     @ [(''release_json'', JStr (mp_release p))])"

definition unmarshal_music :: "body \<Rightarrow> music_payload option" where
  "unmarshal_music b = Option.bind b (\<lambda>ob.
     Option.bind (get_str ob ''platform'') (\<lambda>platform.
     Option.bind (get_int ob ''chat_id'') (\<lambda>chat.
     Option.bind (get_int ob ''user_id'') (\<lambda>user.
     Option.bind (get_int ob ''message_id'') (\<lambda>message.
     Option.bind (get_str ob ''lang'') (\<lambda>lang.
     Option.bind (get_str ob ''lock_token'') (\<lambda>token.
     Option.bind (get_str ob ''lock_scene'') (\<lambda>scene.
     Option.bind (get_str ob ''link_type'') (\<lambda>lt.
     Option.bind (get_str ob ''resource_id'') (\<lambda>rid.
     Option.bind (get_str ob ''source_url'') (\<lambda>src.
     Option.bind (get_str ob ''release_json'') (\<lambda>rel.
       Some \<lparr>mp_platform = platform, mp_chat = chat, mp_user = user, mp_message = message,
         mp_lang = lang, mp_lock_token = token, mp_lock_scene = scene, mp_link_type = lt,
         mp_resource = rid, mp_source_url = src, mp_release = rel\<rparr>))))))))))))"

definition marshal_broadcast :: "broadcast_payload \<Rightarrow> body" where
  "marshal_broadcast p = Some [(''broadcast_id'', JInt (bp_id p)),
     (''audience'', JStr (bp_audience p)), (''user_ids'', JInts (bp_users p))]"

definition marshal_translate :: "translate_payload \<Rightarrow> body" where
  "marshal_translate p = Some [(''thread_id'', JStr (tp_thread p)), (''url'', JStr (tp_url p)),
     (''chat_id'', JInt (tp_chat p)), (''user_id'', JInt (tp_user p)),
     (''message_id'', JInt (tp_message p)), (''lang'', JStr (tp_lang p))]"

subsection \<open>Enqueueing\<close>

text \<open>
  What a call hands to the broker's client: the task and the options \<open>MaxRetry\<close>, \<open>Timeout\<close>
  (minutes) and \<open>Queue\<close>; a job without a \<open>Queue\<close> option goes to the broker's default queue.
\<close>

record request =
  rq_type :: string
  rq_body :: body
  rq_retry :: nat
  rq_timeout_min :: nat
  rq_queue :: string

definition request :: "string \<Rightarrow> body \<Rightarrow> nat \<Rightarrow> nat \<Rightarrow> string \<Rightarrow> request" where
  "request t b retry tmo q =
     \<lparr>rq_type = t, rq_body = b, rq_retry = retry, rq_timeout_min = tmo, rq_queue = q\<rparr>"

definition EnqueueDownload :: "(request \<Rightarrow> 'r) \<Rightarrow> download_payload \<Rightarrow> 'r" where
  "EnqueueDownload client p =
     client (request TypeDownload (marshal_download p) 1 30 (QueueFor p))"

definition EnqueueDownloadTo ::
  "(request \<Rightarrow> 'r) \<Rightarrow> string \<Rightarrow> string \<Rightarrow> download_payload \<Rightarrow> 'r" where
  "EnqueueDownloadTo client taskType queueName p =
     client (request taskType (marshal_download p) 1 30 queueName)"

definition EnqueueMusicTo ::
  "(request \<Rightarrow> 'r) \<Rightarrow> string \<Rightarrow> string \<Rightarrow> music_payload \<Rightarrow> 'r" where
  "EnqueueMusicTo client taskType queueName p =
     client (request taskType (marshal_music p) 0 120 queueName)"

definition EnqueuePinterestDefault :: "(request \<Rightarrow> 'r) \<Rightarrow> download_payload \<Rightarrow> 'r" where
  "EnqueuePinterestDefault client p =
     client (request TypePinterest (marshal_download p) 1 30 QueueDownload)"

definition EnqueueTikTok :: "(request \<Rightarrow> 'r) \<Rightarrow> download_payload \<Rightarrow> 'r" where
  "EnqueueTikTok client p =
     client (request TypeTikTok (marshal_download p) 1 30 QueueDownload)"

definition EnqueueSpotify :: "(request \<Rightarrow> 'r) \<Rightarrow> music_payload \<Rightarrow> 'r" where
  "EnqueueSpotify client p =
     client (request TypeSpotify (marshal_music p) 0 120 QueueDownload)"

definition EnqueueSoundCloud :: "(request \<Rightarrow> 'r) \<Rightarrow> music_payload \<Rightarrow> 'r" where
  "EnqueueSoundCloud client p =
     client (request TypeSoundCloud (marshal_music p) 0 120 QueueDownload)"

definition EnqueueYandexMusic :: "(request \<Rightarrow> 'r) \<Rightarrow> music_payload \<Rightarrow> 'r" where
  "EnqueueYandexMusic client p =
     client (request TypeYandexMusic (marshal_music p) 0 120 QueueDownload)"

definition EnqueueTikTokCarousel :: "(request \<Rightarrow> 'r) \<Rightarrow> download_payload \<Rightarrow> 'r" where
  "EnqueueTikTokCarousel client p =
     client (request TypeTikTokCarousel (marshal_download p) 1 30 QueueDownload)"

definition EnqueueInstagram :: "(request \<Rightarrow> 'r) \<Rightarrow> download_payload \<Rightarrow> 'r" where
  "EnqueueInstagram client p =
     client (request TypeInstagram (marshal_download p) 1 30 QueueDownload)"

definition EnqueueReddit :: "(request \<Rightarrow> 'r) \<Rightarrow> download_payload \<Rightarrow> 'r" where
  "EnqueueReddit client p =
     client (request TypeReddit (marshal_download p) 1 30 QueueDownload)"

definition EnqueueTelegraphTranslate :: "(request \<Rightarrow> 'r) \<Rightarrow> translate_payload \<Rightarrow> 'r" where
  "EnqueueTelegraphTranslate client p =
     client (request TypeTelegraphTranslate (marshal_translate p) 1 10 QueueDownload)"

definition EnqueueBroadcast :: "(request \<Rightarrow> 'r) \<Rightarrow> broadcast_payload \<Rightarrow> 'r" where
  "EnqueueBroadcast client p =
     client (request TypeBroadcast (marshal_broadcast p) 1 (24 * 60) defaultQueueName)"

lemmas enqueue_defs =
  EnqueueDownload_def EnqueueDownloadTo_def EnqueueMusicTo_def EnqueuePinterestDefault_def
  EnqueueTikTok_def EnqueueSpotify_def EnqueueSoundCloud_def EnqueueYandexMusic_def
  EnqueueTikTokCarousel_def EnqueueInstagram_def EnqueueReddit_def
  EnqueueTelegraphTranslate_def EnqueueBroadcast_def


lemma get_required:
  "get_str (download_required p) k =
     (case map_of (rev (download_required p)) k of
        None \<Rightarrow> Some [] | Some JNull \<Rightarrow> Some [] | Some (JStr s) \<Rightarrow> Some s | _ \<Rightarrow> None)"
  "get_int (download_required p) k =
     (case map_of (rev (download_required p)) k of
        None \<Rightarrow> Some 0 | Some JNull \<Rightarrow> Some 0
      | Some (JInt n) \<Rightarrow> if in_int64 n then Some n else None | _ \<Rightarrow> None)"
  "get_bool (download_required p) k =
     (case map_of (rev (download_required p)) k of
        None \<Rightarrow> Some False | Some JNull \<Rightarrow> Some False | Some (JBool b) \<Rightarrow> Some b | _ \<Rightarrow> None)"
  "get_float (download_required p) k =
     (case map_of (rev (download_required p)) k of
        None \<Rightarrow> Some 0 | Some JNull \<Rightarrow> Some 0 | Some (JInt n) \<Rightarrow> Some (of_int n)
      | Some (JFloat x) \<Rightarrow> Some x | _ \<Rightarrow> None)"
  by (auto simp: get_str_def get_int_def get_bool_def get_float_def jget_def
      split: option.splits jval.splits)

lemma download_decodes:
  assumes "in_int64 (dp_chat p)" "in_int64 (dp_user p)" "in_int64 (dp_message p)"
    "in_int64 (dp_quality p)"
  shows "unmarshal_download (marshal_download p) = Some p"
  using assms
  by (simp add: unmarshal_download_def marshal_download_def left_append get_required
      download_required_def [THEN arg_cong [where f = rev]] del: append_assoc)

lemma music_payload_roundtrip:
  assumes "in_int64 (mp_chat p)" "in_int64 (mp_user p)" "in_int64 (mp_message p)"
  shows "unmarshal_music (marshal_music p) = Some p"
  using assms by (simp add: unmarshal_music_def marshal_music_def jobject_defs)

subsection \<open>Whose task\<close>

definition userTaskTypes :: "string list" where
  "userTaskTypes = [TypeDownload, TypeTikTok, TypePinterest, TypePinterestKZ, TypeSpotify,
     TypeSoundCloud, TypeYandexMusic, TypeTikTokCarousel]"

definition music_types :: "string list" where
  "music_types = [TypeSpotify, TypeSoundCloud, TypeYandexMusic]"

record lock_ref =
  ref_scene :: string
  ref_token :: string

record clear_result =
  DeletedPending :: nat
  CancelledActive :: nat

definition no_clear :: clear_result where
  "no_clear = \<lparr>DeletedPending = 0, CancelledActive = 0\<rparr>"

definition clear_any :: "clear_result \<Rightarrow> bool" where
  "clear_any r \<longleftrightarrow> DeletedPending r > 0 \<or> CancelledActive r > 0"

text \<open>\<open>None\<close> is the second result false; a user id of 0 counts as no user.\<close>

definition TaskUserID :: "string \<Rightarrow> body \<Rightarrow> int option" where
  "TaskUserID taskType payload =
     (if taskType \<notin> set userTaskTypes then None
      else if taskType \<in> set music_types then
        (case unmarshal_music payload of
           None \<Rightarrow> None
         | Some p \<Rightarrow> if mp_user p \<noteq> 0 then Some (mp_user p) else None)
      else
        (case unmarshal_download payload of
           None \<Rightarrow> None
         | Some p \<Rightarrow> if dp_user p \<noteq> 0 then Some (dp_user p) else None))"

definition TaskLockRef :: "string \<Rightarrow> body \<Rightarrow> lock_ref option" where
  "TaskLockRef taskType payload =
     (if taskType \<notin> set userTaskTypes then None
      else if taskType \<in> set music_types then
        (case unmarshal_music payload of
           None \<Rightarrow> None
         | Some p \<Rightarrow>
             if mp_lock_scene p = [] \<or> mp_lock_token p = [] then None
             else Some \<lparr>ref_scene = mp_lock_scene p, ref_token = mp_lock_token p\<rparr>)
      else
        (case unmarshal_download payload of
           None \<Rightarrow> None
         | Some p \<Rightarrow>
             if dp_lock_scene p = [] \<or> dp_lock_token p = [] then None
             else Some \<lparr>ref_scene = dp_lock_scene p, ref_token = dp_lock_token p\<rparr>))"

subsection \<open>Clearing a user's tasks\<close>

record task =
  t_id :: string
  t_type :: string
  t_payload :: body

datatype tlist = LActive | LPending | LScheduled | LRetry

text \<open>The broker's inspector, over a broker state \<open>'s\<close>.\<close>

record 's inspector =
  insp_list :: "tlist \<Rightarrow> string \<Rightarrow> 's \<Rightarrow> task list result \<times> 's"
  insp_cancel :: "string \<Rightarrow> 's \<Rightarrow> unit result \<times> 's"
  insp_delete :: "string \<Rightarrow> string \<Rightarrow> 's \<Rightarrow> unit result \<times> 's"

definition of_user :: "int \<Rightarrow> task \<Rightarrow> bool" where
  "of_user userID t \<longleftrightarrow> TaskUserID (t_type t) (t_payload t) = Some userID"

text \<open>The loop over the active tasks: collect the lock, ask the worker to stop.\<close>

fun cancel_active ::
  "'s inspector \<Rightarrow> int \<Rightarrow> task list \<Rightarrow> clear_result \<Rightarrow> lock_ref list \<Rightarrow> 's
     \<Rightarrow> clear_result \<times> lock_ref list \<times> 's" where
  "cancel_active insp userID [] res refs s = (res, refs, s)"
| "cancel_active insp userID (t # ts) res refs s =
     (if \<not> of_user userID t then cancel_active insp userID ts res refs s
      else
        let refs = (case TaskLockRef (t_type t) (t_payload t) of
                      None \<Rightarrow> refs | Some ref \<Rightarrow> refs @ [ref]);
            (r, s) = insp_cancel insp (t_id t) s;
            res = (if is_ok r then res\<lparr>CancelledActive := Suc (CancelledActive res)\<rparr> else res) in
        cancel_active insp userID ts res refs s)"

text \<open>The loop over the tasks of one waiting list.\<close>

fun delete_tasks ::
  "'s inspector \<Rightarrow> int \<Rightarrow> string \<Rightarrow> task list \<Rightarrow> clear_result \<Rightarrow> 's \<Rightarrow> clear_result \<times> 's" where
  "delete_tasks insp userID q [] res s = (res, s)"
| "delete_tasks insp userID q (t # ts) res s =
     (if \<not> of_user userID t then delete_tasks insp userID q ts res s
      else
        let (r, s) = insp_delete insp q (t_id t) s;
            res = (if is_ok r then res\<lparr>DeletedPending := Suc (DeletedPending res)\<rparr> else res) in
        delete_tasks insp userID q ts res s)"

text \<open>The loop over the three list functions; the error, when there is one, stops it.\<close>

fun delete_lists ::
  "'s inspector \<Rightarrow> int \<Rightarrow> string \<Rightarrow> tlist list \<Rightarrow> clear_result \<Rightarrow> 's
     \<Rightarrow> go_error option \<times> clear_result \<times> 's" where
  "delete_lists insp userID q [] res s = (None, res, s)"
| "delete_lists insp userID q (l # ls) res s =
     (case insp_list insp l q s of
        (Inl e, s) \<Rightarrow> (Some e, res, s)
      | (Inr ts, s) \<Rightarrow>
          (let (res, s) = delete_tasks insp userID q ts res s in
           delete_lists insp userID q ls res s))"

definition clearUserTasksInQueue ::
  "'s inspector \<Rightarrow> int \<Rightarrow> string \<Rightarrow> 's \<Rightarrow> clear_result \<times> lock_ref list \<times> go_error option \<times> 's" where
  "clearUserTasksInQueue insp userID q s =
     (case insp_list insp LActive q s of
        (Inl e, s) \<Rightarrow> (no_clear, [], Some e, s)
      | (Inr active, s) \<Rightarrow>
          (let (res, refs, s) = cancel_active insp userID active no_clear [] s;
               (err, res, s) = delete_lists insp userID q [LPending, LScheduled, LRetry] res s in
           (res, refs, err, s)))"

definition add_clear :: "clear_result \<Rightarrow> clear_result \<Rightarrow> clear_result" where
  "add_clear a b = \<lparr>DeletedPending = DeletedPending a + DeletedPending b,
     CancelledActive = CancelledActive a + CancelledActive b\<rparr>"

fun clear_queues ::
  "'s inspector \<Rightarrow> int \<Rightarrow> string list \<Rightarrow> clear_result \<Rightarrow> lock_ref list \<Rightarrow> 's
     \<Rightarrow> clear_result \<times> lock_ref list \<times> go_error option \<times> 's" where
  "clear_queues insp userID [] res refs s = (res, refs, None, s)"
| "clear_queues insp userID (q # qs) res refs s =
     (case clearUserTasksInQueue insp userID q s of
        (part, prefs, Some e, s) \<Rightarrow> (res, refs, Some e, s)
      | (part, prefs, None, s) \<Rightarrow>
          clear_queues insp userID qs (add_clear res part) (refs @ prefs) s)"

definition effective_queues :: "string list \<Rightarrow> string list" where
  "effective_queues queueNames = (if queueNames = [] then [defaultQueueName] else queueNames)"

definition ClearUserTasks ::
  "'s inspector \<Rightarrow> int \<Rightarrow> string list \<Rightarrow> 's
     \<Rightarrow> clear_result \<times> lock_ref list \<times> go_error option \<times> 's" where
  "ClearUserTasks insp userID queueNames s =
     clear_queues insp userID (effective_queues queueNames) no_clear [] s"


subsection \<open>What the inspector promises\<close>

text \<open>
  Documented behaviour of asynq's inspector over a view of the broker's lists: a list call
  without options returns the first page, 30 tasks, and changes nothing; cancelling sends a
  signal to the worker and changes no list; a successful delete takes the task with that id
  out of the waiting lists of the queue, a failed one changes nothing.
\<close>

definition page_size :: nat where "page_size = 30"

definition lawful_inspector ::
  "'s inspector \<Rightarrow> ('s \<Rightarrow> tlist \<Rightarrow> string \<Rightarrow> task list) \<Rightarrow> bool" where
  "lawful_inspector insp view \<longleftrightarrow>
     (\<forall>l q s. view (snd (insp_list insp l q s)) = view s \<and>
        (\<forall>ts. fst (insp_list insp l q s) = Inr ts \<longrightarrow> ts = take page_size (view s l q))) \<and>
     (\<forall>i s. view (snd (insp_cancel insp i s)) = view s) \<and>
     (\<forall>q i s l q'. view (snd (insp_delete insp q i s)) l q' =
        (if is_ok (fst (insp_delete insp q i s)) \<and> q' = q \<and> l \<noteq> LActive
         then filter (\<lambda>t. t_id t \<noteq> i) (view s l q') else view s l q'))"

text \<open>Task ids name tasks: two tasks of one queue with the same id are the same task.\<close>

definition ids_unique :: "(tlist \<Rightarrow> string \<Rightarrow> task list) \<Rightarrow> bool" where
  "ids_unique v \<longleftrightarrow>
     (\<forall>q l l' t t'. t \<in> set (v l q) \<longrightarrow> t' \<in> set (v l' q) \<longrightarrow> t_id t = t_id t' \<longrightarrow> t = t')"

text \<open>
  The frame of the clearing loops: against the view \<open>v\<close> at the start, other users' tasks are
  all there in their order, nothing is new, and queues outside \<open>qs\<close> are as they were.
\<close>

definition clear_frame ::
  "int \<Rightarrow> string set \<Rightarrow> (tlist \<Rightarrow> string \<Rightarrow> task list) \<Rightarrow> (tlist \<Rightarrow> string \<Rightarrow> task list) \<Rightarrow> bool" where
  "clear_frame u qs v w \<longleftrightarrow>
     (\<forall>l q. filter (\<lambda>t. \<not> of_user u t) (w l q) = filter (\<lambda>t. \<not> of_user u t) (v l q) \<and>
        set (w l q) \<subseteq> set (v l q) \<and> (q \<notin> qs \<longrightarrow> w l q = v l q))"

lemma clear_frame_refl [simp]: "clear_frame u qs v v"
  by (simp add: clear_frame_def)

lemma lawfulD:
  assumes "lawful_inspector insp view"
  shows "insp_list insp l q s = (r, s') \<Longrightarrow> view s' = view s"
    "insp_list insp l q s = (Inr ts, s') \<Longrightarrow> ts = take page_size (view s l q)"
    "insp_cancel insp i s = (c, s') \<Longrightarrow> view s' = view s"
    "insp_delete insp q i s = (c, s') \<Longrightarrow>
       view s' l' q' = (if is_ok c \<and> q' = q \<and> l' \<noteq> LActive
         then filter (\<lambda>t. t_id t \<noteq> i) (view s l' q') else view s l' q')"
  using assms unfolding lawful_inspector_def by (metis fst_conv snd_conv)+

lemma cancel_active_view:
  assumes law: "lawful_inspector insp view"
  shows "cancel_active insp u ts res refs s = (res', refs', s') \<Longrightarrow> view s' = view s"
proof (induction ts arbitrary: res refs s)
  case Nil
  then show ?case by simp
next
  case (Cons t ts)
  show ?case
  proof (cases "of_user u t")
    case True
    obtain c s1 where c: "insp_cancel insp (t_id t) s = (c, s1)" by (cases "insp_cancel insp (t_id t) s")
    from Cons True c have "view s' = view s1" by (auto simp: Let_def)
    with lawfulD(3) [OF law c] show ?thesis by simp
  next
    case False
    with Cons show ?thesis by auto
  qed
qed

text \<open>Deleting a user's task keeps the frame, and tasks already gone stay gone.\<close>

lemma clear_frame_delete:
  assumes law: "lawful_inspector insp view" and uniq: "ids_unique v"
    and frame: "clear_frame u qs v (view s)"
    and t: "t \<in> set (v l0 q)" "of_user u t" and q: "q \<in> qs"
    and del: "insp_delete insp q (t_id t) s = (c, s')"
  shows "clear_frame u qs v (view s')" and "set (view s' l q') \<subseteq> set (view s l q')"
proof -
  have same: "x = t" if "x \<in> set (view s l q)" "t_id x = t_id t" for x l
    using that frame t(1) uniq unfolding clear_frame_def ids_unique_def by blast
  have other: "filter (\<lambda>x. \<not> of_user u x) (filter (\<lambda>x. t_id x \<noteq> t_id t) (view s l q))
      = filter (\<lambda>x. \<not> of_user u x) (view s l q)" for l
    unfolding filter_filter by (rule filter_cong) (use same t(2) in auto)
  show "clear_frame u qs v (view s')"
    using frame q other unfolding clear_frame_def
    by (auto simp: lawfulD(4) [OF law del])
  show "set (view s' l q') \<subseteq> set (view s l q')"
    by (auto simp: lawfulD(4) [OF law del])
qed

lemma delete_tasks_frame:
  assumes law: "lawful_inspector insp view" and uniq: "ids_unique v" and q: "q \<in> qs"
  shows "delete_tasks insp u q ts res s = (res', s') \<Longrightarrow> clear_frame u qs v (view s) \<Longrightarrow>
    set ts \<subseteq> set (v l0 q) \<Longrightarrow>
    clear_frame u qs v (view s') \<and> (\<forall>l q'. set (view s' l q') \<subseteq> set (view s l q'))"
proof (induction ts arbitrary: res s)
  case Nil
  then show ?case by simp
next
  case (Cons t ts)
  show ?case
  proof (cases "of_user u t")
    case True
    obtain c s1 where c: "insp_delete insp q (t_id t) s = (c, s1)"
      by (cases "insp_delete insp q (t_id t) s")
    from Cons.prems have t: "t \<in> set (v l0 q)" by simp
    note step = clear_frame_delete [OF law uniq Cons.prems(2) t True q c]
    from Cons.prems True c obtain res1 where "delete_tasks insp u q ts res1 s1 = (res', s')"
      by (auto simp: Let_def)
    from Cons.IH [OF this step(1)] Cons.prems step(2) show ?thesis by auto blast
  next
    case False
    with Cons show ?thesis by auto
  qed
qed


definition view_le ::
  "(tlist \<Rightarrow> string \<Rightarrow> task list) \<Rightarrow> (tlist \<Rightarrow> string \<Rightarrow> task list) \<Rightarrow> bool" where
  "view_le w v \<longleftrightarrow> (\<forall>l q. set (w l q) \<subseteq> set (v l q))"

lemma view_le_refl [simp]: "view_le v v"
  by (simp add: view_le_def)

lemma view_le_trans: "view_le x w \<Longrightarrow> view_le w v \<Longrightarrow> view_le x v"
  unfolding view_le_def by blast

lemma clear_frame_le: "clear_frame u qs v w \<Longrightarrow> view_le w v"
  by (simp add: clear_frame_def view_le_def)

lemma delete_lists_frame:
  assumes law: "lawful_inspector insp view" and uniq: "ids_unique v" and q: "q \<in> qs"
  shows "delete_lists insp u q ls res s = (err, res', s') \<Longrightarrow> clear_frame u qs v (view s) \<Longrightarrow>
    clear_frame u qs v (view s') \<and> view_le (view s') (view s)"
proof (induction ls arbitrary: res s)
  case Nil
  then show ?case by simp
next
  case (Cons l ls)
  obtain r s1 where l: "insp_list insp l q s = (r, s1)" by (cases "insp_list insp l q s")
  note v1 = lawfulD(1) [OF law l]
  show ?case
  proof (cases r)
    case (Inl e)
    with Cons.prems l v1 show ?thesis by simp
  next
    case (Inr ts)
    obtain res2 s2 where d: "delete_tasks insp u q ts res s1 = (res2, s2)"
      by (cases "delete_tasks insp u q ts res s1")
    from Cons.prems l Inr d have rest: "delete_lists insp u q ls res2 s2 = (err, res', s')" by simp
    have "set ts \<subseteq> set (view s l q)"
      using lawfulD(2) [OF law] l Inr by (metis set_take_subset)
    then have "set ts \<subseteq> set (v l q)" using Cons.prems(2) unfolding clear_frame_def by blast
    with delete_tasks_frame [OF law uniq q d] Cons.prems(2) v1
    have f2: "clear_frame u qs v (view s2)" and le2: "view_le (view s2) (view s)"
      by (auto simp: view_le_def)
    from Cons.IH [OF rest f2] le2 show ?thesis using view_le_trans by blast
  qed
qed

lemma clear_queue_frame:
  assumes law: "lawful_inspector insp view" and uniq: "ids_unique v" and q: "q \<in> qs"
    and run: "clearUserTasksInQueue insp u q s = (res, refs, err, s')"
    and frame: "clear_frame u qs v (view s)"
  shows "clear_frame u qs v (view s') \<and> view_le (view s') (view s)"
proof -
  obtain r s1 where l: "insp_list insp LActive q s = (r, s1)" by (cases "insp_list insp LActive q s")
  note v1 = lawfulD(1) [OF law l]
  show ?thesis
  proof (cases r)
    case (Inl e)
    with run l v1 frame show ?thesis by (simp add: clearUserTasksInQueue_def)
  next
    case (Inr active)
    obtain res2 refs2 s2 where c: "cancel_active insp u active no_clear [] s1 = (res2, refs2, s2)"
      by (cases "cancel_active insp u active no_clear [] s1") auto
    from run l Inr c have "delete_lists insp u q [LPending, LScheduled, LRetry] res2 s2 = (err, res, s')"
      by (auto simp: clearUserTasksInQueue_def split: prod.splits)
    from delete_lists_frame [OF law uniq q this] frame v1 cancel_active_view [OF law c]
    show ?thesis by simp
  qed
qed

lemma clear_queues_frame:
  assumes law: "lawful_inspector insp view" and uniq: "ids_unique v"
  shows "clear_queues insp u qs res refs s = (res', refs', err, s') \<Longrightarrow> set qs \<subseteq> Q \<Longrightarrow>
    clear_frame u Q v (view s) \<Longrightarrow> clear_frame u Q v (view s') \<and> view_le (view s') (view s)"
proof (induction qs arbitrary: res refs s)
  case Nil
  then show ?case by simp
next
  case (Cons q qs)
  obtain part prefs e s1 where c: "clearUserTasksInQueue insp u q s = (part, prefs, e, s1)"
    by (cases "clearUserTasksInQueue insp u q s") auto
  from Cons.prems(2) have q: "q \<in> Q" by simp
  note f1 = clear_queue_frame [OF law uniq q c Cons.prems(3)]
  show ?case
  proof (cases e)
    case None
    with Cons.prems c have rest:
      "clear_queues insp u qs (add_clear res part) (refs @ prefs) s1 = (res', refs', err, s')" by simp
    from Cons.IH [OF rest] Cons.prems(2) f1 show ?thesis using view_le_trans by auto
  next
    case (Some x)
    with Cons.prems c f1 show ?thesis by simp
  qed
qed

lemma clear_user_frame:
  assumes "lawful_inspector insp view" "ids_unique (view s)"
    and "ClearUserTasks insp u qs s = (res, refs, err, s')"
  shows "clear_frame u (set (effective_queues qs)) (view s) (view s')"
  using clear_queues_frame [OF assms(1,2), where s = s and Q = "set (effective_queues qs)"] assms(3)
  unfolding ClearUserTasks_def by auto

subsection \<open>A reference broker\<close>

text \<open>
  The lists themselves as the state, and an inspector over them: a concrete instance on which
  the hypotheses of the theorems below hold.
\<close>

definition ref_inspector :: "(tlist \<Rightarrow> string \<Rightarrow> task list) inspector" where
  "ref_inspector = \<lparr>insp_list = (\<lambda>l q s. (Inr (take page_size (s l q)), s)),
     insp_cancel = (\<lambda>i s. (Inr (), s)),
     insp_delete = (\<lambda>q i s. (Inr (),
       (\<lambda>l q'. if q' = q \<and> l \<noteq> LActive then filter (\<lambda>t. t_id t \<noteq> i) (s l q') else s l q')))\<rparr>"

lemma lawful_ref_inspector: "lawful_inspector ref_inspector (\<lambda>s. s)"
  by (simp add: lawful_inspector_def ref_inspector_def)

definition sample_task :: "string \<Rightarrow> int \<Rightarrow> task" where
  "sample_task i u = \<lparr>t_id = i, t_type = TypeTikTok,
     t_payload = marshal_download (zero_download\<lparr>dp_user := u\<rparr>)\<rparr>"

definition sample_view :: "string \<Rightarrow> tlist \<Rightarrow> string \<Rightarrow> task list" where
  "sample_view q0 l q = (if l = LPending \<and> q = q0 then [sample_task ''a'' 1, sample_task ''b'' 2] else [])"

lemma sample_task_user: "in_int64 u \<Longrightarrow> u \<noteq> 0 \<Longrightarrow> of_user v (sample_task i u) \<longleftrightarrow> u = v"
  by (simp add: of_user_def sample_task_def TaskUserID_def userTaskTypes_def music_types_def
      task_type_defs unmarshal_download_def marshal_download_def left_append get_required
      download_required_def [THEN arg_cong [where f = rev]] zero_download_def in_int64_def
      int64_min_def int64_max_def del: append_assoc)

lemma ids_unique_sample: "ids_unique (sample_view q0)"
  by (auto simp: ids_unique_def sample_view_def sample_task_def)

text \<open>
  C33: clearing one user's tasks never touches anybody else's: with an inspector that behaves as
  documented, in every list of every queue the tasks of the other users are all still there,
  in their order, no task appears, and a queue that was not asked for is as it was. This holds
  whether the call succeeds or fails half-way.
\<close>

theorem clear_user_tasks_frame:
  assumes "lawful_inspector insp view" "ids_unique (view s)"
    and "ClearUserTasks insp u qs s = (res, refs, err, s')"
  shows "filter (\<lambda>t. \<not> of_user u t) (view s' l q) = filter (\<lambda>t. \<not> of_user u t) (view s l q) \<and>
    set (view s' l q) \<subseteq> set (view s l q) \<and>
    (q \<notin> set (effective_queues qs) \<longrightarrow> view s' l q = view s l q)"
  using clear_user_frame [OF assms] by (simp add: clear_frame_def)

theorem clear_user_tasks_frame_witness:
  "\<exists>res refs err s'. ClearUserTasks ref_inspector 1 [''q''] (sample_view ''q'') = (res, refs, err, s') \<and>
     filter (\<lambda>t. \<not> of_user 1 t) (s' LPending ''q'') =
       filter (\<lambda>t. \<not> of_user 1 t) (sample_view ''q'' LPending ''q'')"
proof -
  obtain res refs err s' where run:
    "ClearUserTasks ref_inspector 1 [''q''] (sample_view ''q'') = (res, refs, err, s')"
    by (cases "ClearUserTasks ref_inspector 1 [''q''] (sample_view ''q'')") auto
  from clear_user_tasks_frame [OF lawful_ref_inspector ids_unique_sample run] run
  show ?thesis by blast
qed


subsection \<open>What a successful clear removes\<close>

text \<open>No call of the inspector fails, except a delete of a task that is not waiting.\<close>

definition reliable_inspector ::
  "'s inspector \<Rightarrow> ('s \<Rightarrow> tlist \<Rightarrow> string \<Rightarrow> task list) \<Rightarrow> bool" where
  "reliable_inspector insp view \<longleftrightarrow>
     (\<forall>l q s. is_ok (fst (insp_list insp l q s))) \<and>
     (\<forall>q s l t. l \<noteq> LActive \<longrightarrow> t \<in> set (view s l q) \<longrightarrow> is_ok (fst (insp_delete insp q (t_id t) s)))"

lemma reliableD:
  assumes "reliable_inspector insp view"
  shows "insp_list insp l q s = (r, s1) \<Longrightarrow> is_ok r"
    "l \<noteq> LActive \<Longrightarrow> t \<in> set (view s l q) \<Longrightarrow> insp_delete insp q (t_id t) s = (c, s1) \<Longrightarrow> is_ok c"
  using assms unfolding reliable_inspector_def by (metis fst_conv)+

text \<open>Waiting lists that fit one page of the inspector.\<close>

definition one_page :: "(tlist \<Rightarrow> string \<Rightarrow> task list) \<Rightarrow> string \<Rightarrow> bool" where
  "one_page v q \<longleftrightarrow> (\<forall>l. l \<noteq> LActive \<longrightarrow> length (v l q) \<le> page_size)"

definition user_gone :: "int \<Rightarrow> (tlist \<Rightarrow> string \<Rightarrow> task list) \<Rightarrow> tlist \<Rightarrow> string \<Rightarrow> bool" where
  "user_gone u v l q \<longleftrightarrow> (\<forall>t \<in> set (v l q). \<not> of_user u t)"

lemma user_gone_le: "view_le w v \<Longrightarrow> user_gone u v l q \<Longrightarrow> user_gone u w l q"
  unfolding view_le_def user_gone_def by blast

text \<open>Lists only lose elements, so a page that fits keeps fitting.\<close>

definition view_short ::
  "(tlist \<Rightarrow> string \<Rightarrow> task list) \<Rightarrow> (tlist \<Rightarrow> string \<Rightarrow> task list) \<Rightarrow> bool" where
  "view_short w v \<longleftrightarrow> view_le w v \<and> (\<forall>l q. length (w l q) \<le> length (v l q))"

lemma view_short_refl [simp]: "view_short v v"
  by (simp add: view_short_def)

lemma view_short_trans: "view_short x w \<Longrightarrow> view_short w v \<Longrightarrow> view_short x v"
  unfolding view_short_def using view_le_trans order_trans by blast

lemma one_page_short: "view_short w v \<Longrightarrow> one_page v q \<Longrightarrow> one_page w q"
  unfolding view_short_def one_page_def using order_trans by blast

lemma user_gone_short: "view_short w v \<Longrightarrow> user_gone u v l q \<Longrightarrow> user_gone u w l q"
  by (auto simp: view_short_def intro: user_gone_le)

lemma delete_tasks_short:
  assumes law: "lawful_inspector insp view"
  shows "delete_tasks insp u q ts res s = (res', s') \<Longrightarrow> view_short (view s') (view s)"
proof (induction ts arbitrary: res s)
  case Nil
  then show ?case by simp
next
  case (Cons t ts)
  show ?case
  proof (cases "of_user u t")
    case True
    obtain c s1 where c: "insp_delete insp q (t_id t) s = (c, s1)"
      by (cases "insp_delete insp q (t_id t) s")
    from Cons.prems True c obtain res1 where "delete_tasks insp u q ts res1 s1 = (res', s')"
      by (auto simp: Let_def)
    from Cons.IH [OF this] have "view_short (view s') (view s1)" .
    moreover have "view_short (view s1) (view s)"
      by (auto simp: view_short_def view_le_def lawfulD(4) [OF law c])
    ultimately show ?thesis by (rule view_short_trans)
  next
    case False
    with Cons show ?thesis by auto
  qed
qed

lemma delete_tasks_gone:
  assumes law: "lawful_inspector insp view" and rel: "reliable_inspector insp view"
    and l: "l \<noteq> LActive"
  shows "delete_tasks insp u q ts res s = (res', s') \<Longrightarrow> x \<in> set ts \<Longrightarrow> of_user u x \<Longrightarrow>
    x \<notin> set (view s' l q)"
proof (induction ts arbitrary: res s)
  case Nil
  then show ?case by simp
next
  case (Cons t ts)
  show ?case
  proof (cases "of_user u t")
    case True
    obtain c s1 where c: "insp_delete insp q (t_id t) s = (c, s1)"
      by (cases "insp_delete insp q (t_id t) s")
    from Cons.prems True c obtain res1 where d: "delete_tasks insp u q ts res1 s1 = (res', s')"
      by (auto simp: Let_def)
    have gone: "t \<notin> set (view s1 l q)"
      using reliableD(2) [OF rel l _ c] l by (auto simp: lawfulD(4) [OF law c])
    show ?thesis
    proof (cases "x = t")
      case True
      with gone delete_tasks_short [OF law d] show ?thesis
        unfolding view_short_def view_le_def by blast
    next
      case False
      with Cons.prems have "x \<in> set ts" by simp
      from Cons.IH [OF d this Cons.prems(3)] show ?thesis .
    qed
  next
    case False
    with Cons show ?thesis by auto
  qed
qed

lemma delete_lists_gone:
  assumes law: "lawful_inspector insp view" and rel: "reliable_inspector insp view"
  shows "delete_lists insp u q ls res s = (err, res', s') \<Longrightarrow> LActive \<notin> set ls \<Longrightarrow>
    one_page (view s) q \<Longrightarrow>
    err = None \<and> view_short (view s') (view s) \<and> (\<forall>l \<in> set ls. user_gone u (view s') l q)"
proof (induction ls arbitrary: res s)
  case Nil
  then show ?case by simp
next
  case (Cons l ls)
  obtain r s1 where l: "insp_list insp l q s = (r, s1)" by (cases "insp_list insp l q s")
  from reliableD(1) [OF rel l] obtain ts where r: "r = Inr ts" by (auto simp: is_ok_iff)
  obtain res2 s2 where d: "delete_tasks insp u q ts res s1 = (res2, s2)"
    by (cases "delete_tasks insp u q ts res s1")
  note v1 = lawfulD(1) [OF law l]
  have la: "l \<noteq> LActive" and ls: "LActive \<notin> set ls" using Cons.prems(2) by auto
  have ts: "ts = view s l q"
    using lawfulD(2) [OF law] l r Cons.prems(3) la unfolding one_page_def by fastforce
  have short2: "view_short (view s2) (view s)" using delete_tasks_short [OF law d] v1 by simp
  have gone2: "user_gone u (view s2) l q"
    using delete_tasks_gone [OF law rel la d] short2 ts
    unfolding user_gone_def view_short_def view_le_def by blast
  from Cons.prems(1) l r d have "delete_lists insp u q ls res2 s2 = (err, res', s')" by simp
  from Cons.IH [OF this ls one_page_short [OF short2 Cons.prems(3)]] short2 gone2
  show ?case using user_gone_short view_short_trans by auto
qed

lemma clear_queue_gone:
  assumes law: "lawful_inspector insp view" and rel: "reliable_inspector insp view"
    and run: "clearUserTasksInQueue insp u q s = (res, refs, err, s')"
    and page: "one_page (view s) q"
  shows "err = None \<and> view_short (view s') (view s) \<and>
    (\<forall>l. l \<noteq> LActive \<longrightarrow> user_gone u (view s') l q)"
proof -
  obtain r s1 where l: "insp_list insp LActive q s = (r, s1)" by (cases "insp_list insp LActive q s")
  from reliableD(1) [OF rel l] obtain ts where r: "r = Inr ts" by (auto simp: is_ok_iff)
  obtain res2 refs2 s2 where c: "cancel_active insp u ts no_clear [] s1 = (res2, refs2, s2)"
    by (cases "cancel_active insp u ts no_clear [] s1") auto
  have v2: "view s2 = view s" using lawfulD(1) [OF law l] cancel_active_view [OF law c] by simp
  from run l r c have "delete_lists insp u q [LPending, LScheduled, LRetry] res2 s2 = (err, res, s')"
    by (auto simp: clearUserTasksInQueue_def split: prod.splits)
  from delete_lists_gone [OF law rel this] page v2
  have "err = None" "view_short (view s') (view s)"
    and g: "\<forall>l \<in> {LPending, LScheduled, LRetry}. user_gone u (view s') l q" by auto
  moreover have "l \<in> {LPending, LScheduled, LRetry}" if "l \<noteq> LActive" for l
    using that by (cases l) auto
  ultimately show ?thesis by blast
qed

lemma clear_queues_gone:
  assumes law: "lawful_inspector insp view" and rel: "reliable_inspector insp view"
  shows "clear_queues insp u qs res refs s = (res', refs', err, s') \<Longrightarrow>
    (\<And>q. q \<in> set qs \<Longrightarrow> one_page (view s) q) \<Longrightarrow>
    err = None \<and> view_short (view s') (view s) \<and>
    (\<forall>q \<in> set qs. \<forall>l. l \<noteq> LActive \<longrightarrow> user_gone u (view s') l q)"
proof (induction qs arbitrary: res refs s)
  case Nil
  then show ?case by simp
next
  case (Cons q qs)
  obtain part prefs e s1 where c: "clearUserTasksInQueue insp u q s = (part, prefs, e, s1)"
    by (cases "clearUserTasksInQueue insp u q s") auto
  from clear_queue_gone [OF law rel c] Cons.prems(2)
  have e: "e = None" and short1: "view_short (view s1) (view s)"
    and g1: "\<forall>l. l \<noteq> LActive \<longrightarrow> user_gone u (view s1) l q" by auto
  from Cons.prems(1) c e have rest:
    "clear_queues insp u qs (add_clear res part) (refs @ prefs) s1 = (res', refs', err, s')" by simp
  have "one_page (view s1) q'" if "q' \<in> set qs" for q'
    using one_page_short [OF short1] Cons.prems(2) that by simp
  from Cons.IH [OF rest this] short1 g1 show ?case
    using user_gone_short view_short_trans by auto
qed

text \<open>
  C34: When the inspector's calls succeed and each waiting list of the queues fits one page of
  the inspector (30 tasks), clearing succeeds and leaves no pending, scheduled or retried task
  of the user in any of them. The tasks meant are those of the types the code lists as users' tasks; tasks of Instagram and
  Reddit are not in that list and are left alone.
\<close>

theorem clear_user_tasks_complete:
  assumes "lawful_inspector insp view" "reliable_inspector insp view"
    and "\<forall>q \<in> set (effective_queues qs). one_page (view s) q"
    and "ClearUserTasks insp u qs s = (res, refs, err, s')"
  shows "err = None \<and> (\<forall>q \<in> set (effective_queues qs). \<forall>l \<in> {LPending, LScheduled, LRetry}.
    \<forall>t \<in> set (view s' l q). \<not> of_user u t)"
  using clear_queues_gone [OF assms(1,2), where s = s and qs = "effective_queues qs"] assms(3-)
  unfolding ClearUserTasks_def user_gone_def by blast

lemma reliable_ref_inspector: "reliable_inspector ref_inspector (\<lambda>s. s)"
  by (simp add: reliable_inspector_def ref_inspector_def)

theorem clear_user_tasks_complete_witness:
  "\<exists>res refs err s'. ClearUserTasks ref_inspector 1 [''q''] (sample_view ''q'') = (res, refs, err, s') \<and>
     s' LPending ''q'' = [sample_task ''b'' 2] \<and> err = None"
proof -
  obtain res refs err s' where run:
    "ClearUserTasks ref_inspector 1 [''q''] (sample_view ''q'') = (res, refs, err, s')"
    by (cases "ClearUserTasks ref_inspector 1 [''q''] (sample_view ''q'')") auto
  have page: "\<forall>q \<in> set (effective_queues [''q'']). one_page (sample_view ''q'') q"
    by (simp add: effective_queues_def one_page_def sample_view_def page_size_def)
  have "s' LPending ''q'' = [sample_task ''b'' 2]"
    using run by (auto simp: ClearUserTasks_def effective_queues_def clearUserTasksInQueue_def
        ref_inspector_def page_size_def sample_view_def sample_task_user in_int64_def int64_min_def
        int64_max_def Let_def) (auto simp: sample_task_def)
  with clear_user_tasks_complete [OF lawful_ref_inspector reliable_ref_inspector page run] run
  show ?thesis by (simp add: effective_queues_def)
qed

lemma QueueFor_not_default: "QueueFor p \<noteq> defaultQueueName"
  by (simp add: QueueFor_def queue_name_defs)

text \<open>
  The bot's own call, which names no queue, only ever looks at the broker's default queue:
  whatever a user asked for through the bot (video, TikTok, Pinterest, Instagram, Reddit,
  music) waits on another queue and is untouched.
\<close>

theorem clear_without_queues_misses_jobs:
  assumes "lawful_inspector insp view" "ids_unique (view s)"
    and "ClearUserTasks insp u [] s = (res, refs, err, s')"
    and "rq \<in> {EnqueueDownload id p, EnqueueTikTok id p, EnqueuePinterestDefault id p,
      EnqueueInstagram id p, EnqueueReddit id p, EnqueueTikTokCarousel id p,
      EnqueueSpotify id m, EnqueueSoundCloud id m, EnqueueYandexMusic id m}"
  shows "view s' l (rq_queue rq) = view s l (rq_queue rq)"
proof -
  have "rq_queue rq \<notin> set (effective_queues [])"
    using assms(4) QueueFor_not_default [of p]
    by (auto simp: enqueue_defs request_def effective_queues_def QueueDownload_def
        defaultQueueName_def)
  with clear_user_frame [OF assms(1-3)] show ?thesis unfolding clear_frame_def by blast
qed

theorem clear_without_queues_misses_jobs_witness:
  "\<exists>res refs err s'. ClearUserTasks ref_inspector 1 [] (sample_view QueueDownload) = (res, refs, err, s')
     \<and> s' LPending QueueDownload = [sample_task ''a'' 1, sample_task ''b'' 2]"
proof -
  obtain res refs err s' where run:
    "ClearUserTasks ref_inspector 1 [] (sample_view QueueDownload) = (res, refs, err, s')"
    by (cases "ClearUserTasks ref_inspector 1 [] (sample_view QueueDownload)") auto
  from clear_without_queues_misses_jobs [OF lawful_ref_inspector ids_unique_sample run,
      of "EnqueueTikTok id zero_download" zero_download undefined LPending] run
  show ?thesis by (simp add: EnqueueTikTok_def request_def sample_view_def)
qed

end
