(* ===== verification/Queue_Recovery.thy ===== *)
theory Queue_Recovery
  imports Queue_Tasks
begin

text \<open>
  \<open>go/internal/queue/recovery.go\<close>: at start-up the worker drops entries of the broker's active
  list whose task is gone or unreadable. The Redis commands and the inspector's
  \<open>GetTaskInfo\<close> are parameters over a broker state \<open>'s\<close>; what the repair relies on is stated
  in \<open>lawful_active\<close>.
\<close>

record 's active_ops =
  ao_lrange :: "string \<Rightarrow> 's \<Rightarrow> string list result"
  ao_exists :: "string \<Rightarrow> 's \<Rightarrow> nat result"
  ao_info :: "string \<Rightarrow> string \<Rightarrow> 's \<Rightarrow> string option result"
  ao_lrem :: "string \<Rightarrow> string \<Rightarrow> 's \<Rightarrow> unit result \<times> 's"
  ao_zrem :: "string \<Rightarrow> string \<Rightarrow> 's \<Rightarrow> unit result \<times> 's"
  ao_del :: "string \<Rightarrow> 's \<Rightarrow> unit result \<times> 's"

definition activeKey :: "string \<Rightarrow> string" where
  "activeKey q = ''asynq:{'' @ q @ ''}:active''"

definition leaseKey :: "string \<Rightarrow> string" where
  "leaseKey q = ''asynq:{'' @ q @ ''}:lease''"

definition taskKey :: "string \<Rightarrow> string \<Rightarrow> string" where
  "taskKey q i = ''asynq:{'' @ q @ ''}:t:'' @ i"

lemma taskKey_inject [simp]: "taskKey q i = taskKey q j \<longleftrightarrow> i = j"
  by (simp add: taskKey_def)

text \<open>Whether the entry goes: its key is gone, or the inspector cannot name its type.\<close>

definition orphaned :: "nat \<Rightarrow> string option result \<Rightarrow> bool" where
  "orphaned exists info \<longleftrightarrow> exists = 0 \<or>
     (case info of Inl e \<Rightarrow> True | Inr None \<Rightarrow> True | Inr (Some typ) \<Rightarrow> typ = [])"

fun recover_ids ::
  "'s active_ops \<Rightarrow> string \<Rightarrow> string list \<Rightarrow> 's \<Rightarrow> go_error option \<times> 's" where
  "recover_ids ops q [] s = (None, s)"
| "recover_ids ops q (i # ids) s =
     (if i = [] then recover_ids ops q ids s
      else case ao_exists ops (taskKey q i) s of
        Inl e \<Rightarrow> (Some e, s)
      | Inr exists \<Rightarrow>
          (if \<not> orphaned exists (ao_info ops q i s) then recover_ids ops q ids s
           else case ao_lrem ops (activeKey q) i s of
             (Inl e, s) \<Rightarrow> (Some e, s)
           | (Inr _, s) \<Rightarrow>
               (case ao_zrem ops (leaseKey q) i s of
                  (Inl e, s) \<Rightarrow> (Some e, s)
                | (Inr _, s) \<Rightarrow>
                    recover_ids ops q ids
                      (if exists > 0 then snd (ao_del ops (taskKey q i) s) else s))))"

definition recoverOrphanedActiveTasks ::
  "'s active_ops \<Rightarrow> string \<Rightarrow> 's \<Rightarrow> go_error option \<times> 's" where
  "recoverOrphanedActiveTasks ops q s =
     (case ao_lrange ops (activeKey q) s of
        Inl e \<Rightarrow> (Some e, s)
      | Inr ids \<Rightarrow> recover_ids ops q ids s)"

fun recover_queues ::
  "'s active_ops \<Rightarrow> string list \<Rightarrow> 's \<Rightarrow> go_error option \<times> 's" where
  "recover_queues ops [] s = (None, s)"
| "recover_queues ops (q # qs) s =
     (case recoverOrphanedActiveTasks ops q s of
        (Some e, s) \<Rightarrow> (Some e, s)
      | (None, s) \<Rightarrow> recover_queues ops qs s)"

definition RecoverOrphanedActiveTasks ::
  "'s active_ops \<Rightarrow> string list \<Rightarrow> 's \<Rightarrow> go_error option \<times> 's" where
  "RecoverOrphanedActiveTasks ops queues s =
     recover_queues ops (if queues = [] then [defaultQueueName] else queues) s"

subsection \<open>What the repair relies on\<close>

text \<open>
  A view of the state: the lists and the keys that exist. LRANGE reads a list and EXISTS a key;
  a successful LREM with count 0 removes every occurrence from that list; ZREM works on the
  lease set, outside the view; DEL removes at most its key. The task information of one task
  does not depend on the lists or on another task's key.
\<close>

definition law_reads ::
  "'s active_ops \<Rightarrow> ('s \<Rightarrow> string \<Rightarrow> string list) \<Rightarrow> ('s \<Rightarrow> string \<Rightarrow> bool) \<Rightarrow> bool" where
  "law_reads ops lst has \<longleftrightarrow>
     (\<forall>k s ids. ao_lrange ops k s = Inr ids \<longrightarrow> ids = lst s k) \<and>
     (\<forall>k s n. ao_exists ops k s = Inr n \<longrightarrow> (n > 0 \<longleftrightarrow> has s k))"

definition same_info :: "'s active_ops \<Rightarrow> 's \<Rightarrow> 's \<Rightarrow> bool" where
  "same_info ops s s' \<longleftrightarrow> (\<forall>q j. ao_info ops q j s' = ao_info ops q j s)"

definition law_lrem ::
  "'s active_ops \<Rightarrow> ('s \<Rightarrow> string \<Rightarrow> string list) \<Rightarrow> ('s \<Rightarrow> string \<Rightarrow> bool) \<Rightarrow> bool" where
  "law_lrem ops lst has \<longleftrightarrow>
     (\<forall>k i s s'. ao_lrem ops k i s = (Inr (), s') \<longrightarrow>
        lst s' = (lst s)(k := removeAll i (lst s k)) \<and> has s' = has s \<and> same_info ops s s')"

definition law_zrem ::
  "'s active_ops \<Rightarrow> ('s \<Rightarrow> string \<Rightarrow> string list) \<Rightarrow> ('s \<Rightarrow> string \<Rightarrow> bool) \<Rightarrow> bool" where
  "law_zrem ops lst has \<longleftrightarrow>
     (\<forall>k i s s'. ao_zrem ops k i s = (Inr (), s') \<longrightarrow>
        lst s' = lst s \<and> has s' = has s \<and> same_info ops s s')"

definition law_del ::
  "'s active_ops \<Rightarrow> ('s \<Rightarrow> string \<Rightarrow> string list) \<Rightarrow> ('s \<Rightarrow> string \<Rightarrow> bool) \<Rightarrow> bool" where
  "law_del ops lst has \<longleftrightarrow>
     (\<forall>k s s'. snd (ao_del ops k s) = s' \<longrightarrow>
        lst s' = lst s \<and> (\<forall>k'. k' \<noteq> k \<longrightarrow> has s' k' = has s k') \<and>
        (\<forall>q j. taskKey q j \<noteq> k \<longrightarrow> ao_info ops q j s' = ao_info ops q j s) \<and>
        (has s' k \<longrightarrow> has s k \<and> same_info ops s s'))"

definition lawful_active ::
  "'s active_ops \<Rightarrow> ('s \<Rightarrow> string \<Rightarrow> string list) \<Rightarrow> ('s \<Rightarrow> string \<Rightarrow> bool) \<Rightarrow> bool" where
  "lawful_active ops lst has \<longleftrightarrow>
     law_reads ops lst has \<and> law_lrem ops lst has \<and> law_zrem ops lst has \<and> law_del ops lst has"

lemmas law_defs =
  lawful_active_def law_reads_def law_lrem_def law_zrem_def law_del_def same_info_def

text \<open>A task the worker can still run: its key exists and the inspector names its type.\<close>

definition healthy ::
  "'s active_ops \<Rightarrow> ('s \<Rightarrow> string \<Rightarrow> bool) \<Rightarrow> string \<Rightarrow> 's \<Rightarrow> string \<Rightarrow> bool" where
  "healthy ops has q s i \<longleftrightarrow>
     has s (taskKey q i) \<and> (\<exists>typ. ao_info ops q i s = Inr (Some typ) \<and> typ \<noteq> [])"

lemma orphaned_iff:
  assumes "lawful_active ops lst has" "ao_exists ops (taskKey q i) s = Inr n"
  shows "orphaned n (ao_info ops q i s) \<longleftrightarrow> \<not> healthy ops has q s i"
proof -
  from assms have "n > 0 \<longleftrightarrow> has s (taskKey q i)" unfolding lawful_active_def law_reads_def by blast
  then show ?thesis
    by (auto simp: orphaned_def healthy_def split: sum.splits option.splits)
qed

lemma healthy_same:
  "has s' = has s \<Longrightarrow> same_info ops s s' \<Longrightarrow> healthy ops has q s' = healthy ops has q s"
  by (simp add: healthy_def same_info_def fun_eq_iff)

lemma lawful_lrem:
  assumes "lawful_active ops lst has" "ao_lrem ops k i s = (Inr (), s')"
  shows "lst s' = (lst s)(k := removeAll i (lst s k))" "healthy ops has q s' = healthy ops has q s"
proof -
  from assms(1) have law: "law_lrem ops lst has" by (simp add: lawful_active_def)
  note * = law [unfolded law_lrem_def, rule_format, OF assms(2)]
  from * show "lst s' = (lst s)(k := removeAll i (lst s k))" by (elim conjE)
  from * show "healthy ops has q s' = healthy ops has q s" by (elim conjE) (rule healthy_same)
qed

lemma lawful_zrem:
  assumes "lawful_active ops lst has" "ao_zrem ops k i s = (Inr (), s')"
  shows "lst s' = lst s" "healthy ops has q s' = healthy ops has q s"
proof -
  from assms(1) have law: "law_zrem ops lst has" by (simp add: lawful_active_def)
  note * = law [unfolded law_zrem_def, rule_format, OF assms(2)]
  from * show "lst s' = lst s" by (elim conjE)
  from * show "healthy ops has q s' = healthy ops has q s" by (elim conjE) (rule healthy_same)
qed

lemma lawful_del:
  "lawful_active ops lst has \<Longrightarrow> lst (snd (ao_del ops k s)) = lst s"
  unfolding lawful_active_def law_del_def by blast

lemma healthy_del:
  assumes law: "lawful_active ops lst has" and bad: "\<not> healthy ops has q s i"
  shows "healthy ops has q (snd (ao_del ops (taskKey q i) s)) = healthy ops has q s"
proof
  fix j
  let ?s' = "snd (ao_del ops (taskKey q i) s)"
  from law have d: "law_del ops lst has" by (simp add: lawful_active_def)
  show "healthy ops has q ?s' j = healthy ops has q s j"
  proof (cases "j = i")
    case False
    then have "taskKey q j \<noteq> taskKey q i" by simp
    with d have "has ?s' (taskKey q j) = has s (taskKey q j)"
      "ao_info ops q j ?s' = ao_info ops q j s"
      unfolding law_del_def by blast+
    then show ?thesis by (simp add: healthy_def)
  next
    case True
    have "\<not> healthy ops has q ?s' i"
    proof
      assume h: "healthy ops has q ?s' i"
      then have "has ?s' (taskKey q i)" by (simp add: healthy_def)
      with d have "has s (taskKey q i)" "same_info ops s ?s'"
        unfolding law_del_def by blast+
      with h bad show False unfolding healthy_def same_info_def by auto
    qed
    with True bad show ?thesis by simp
  qed
qed

lemma recover_ids_list:
  assumes law: "lawful_active ops lst has"
  shows "recover_ids ops q ids s = (None, s') \<Longrightarrow>
    lst s' = (lst s)(activeKey q := filter (\<lambda>i. i \<notin> set ids \<or> i = [] \<or> healthy ops has q s i)
                                     (lst s (activeKey q))) \<and>
    healthy ops has q s' = healthy ops has q s"
proof (induction ids arbitrary: s)
  case Nil
  then show ?case by (simp add: fun_eq_iff)
next
  case (Cons i ids)
  let ?H = "healthy ops has q"
  show ?case
  proof (cases "i = [] \<or> ?H s i")
    case True
    then have "recover_ids ops q ids s = (None, s')"
      using Cons.prems orphaned_iff [OF law, of q i s] by (auto split: sum.splits if_splits)
    moreover have "filter (\<lambda>j. j \<notin> set ids \<or> j = [] \<or> ?H s j) (lst s (activeKey q))
        = filter (\<lambda>j. j \<notin> set (i # ids) \<or> j = [] \<or> ?H s j) (lst s (activeKey q))"
      using True by (intro filter_cong) auto
    ultimately show ?thesis using Cons.IH [of s] by simp
  next
    case False
    from Cons.prems False obtain n where n: "ao_exists ops (taskKey q i) s = Inr n"
      by (auto split: sum.splits)
    with False orphaned_iff [OF law n] have "orphaned n (ao_info ops q i s)" by simp
    with Cons.prems False n obtain s1 s2
      where l: "ao_lrem ops (activeKey q) i s = (Inr (), s1)"
        and z: "ao_zrem ops (leaseKey q) i s1 = (Inr (), s2)"
        and r: "recover_ids ops q ids
          (if n > 0 then snd (ao_del ops (taskKey q i) s2) else s2) = (None, s')"
      by (auto split: sum.splits prod.splits)
    let ?s3 = "if n > 0 then snd (ao_del ops (taskKey q i) s2) else s2"
    have h2: "?H s2 = ?H s" and l2: "lst s2 = (lst s)(activeKey q := removeAll i (lst s (activeKey q)))"
      using lawful_lrem [OF law l] lawful_zrem [OF law z] by simp_all
    have "\<not> ?H s2 i" using False h2 by simp
    from healthy_del [OF law this] have h3: "?H ?s3 = ?H s" using h2 by simp
    have l3: "lst ?s3 = (lst s)(activeKey q := removeAll i (lst s (activeKey q)))"
      using l2 lawful_del [OF law] by simp
    have "filter (\<lambda>j. j \<notin> set ids \<or> j = [] \<or> ?H s j) (removeAll i (lst s (activeKey q)))
        = filter (\<lambda>j. j \<notin> set (i # ids) \<or> j = [] \<or> ?H s j) (lst s (activeKey q))"
      using False by (auto simp: removeAll_filter_not_eq intro: filter_cong)
    then show ?thesis using Cons.IH [OF r] unfolding h3 l3 fun_upd_same fun_upd_upd by simp
  qed
qed

lemma repaired:
  assumes "lawful_active ops lst has"
    and "recoverOrphanedActiveTasks ops q s = (None, s')"
  shows "lst s' = (lst s)(activeKey q := filter (\<lambda>i. i = [] \<or> healthy ops has q s i) (lst s (activeKey q)))
    \<and> healthy ops has q s' = healthy ops has q s"
proof -
  from assms(2) obtain ids where ids: "ao_lrange ops (activeKey q) s = Inr ids"
    and r: "recover_ids ops q ids s = (None, s')"
    by (auto simp: recoverOrphanedActiveTasks_def split: sum.splits)
  from assms(1) ids have "ids = lst s (activeKey q)"
    unfolding lawful_active_def law_reads_def by blast
  then have "filter (\<lambda>i. i \<notin> set ids \<or> i = [] \<or> healthy ops has q s i) (lst s (activeKey q)) =
      filter (\<lambda>i. i = [] \<or> healthy ops has q s i) (lst s (activeKey q))"
    by (intro filter_cong) simp_all
  then show ?thesis using recover_ids_list [OF assms(1) r] by (simp only:)
qed

text \<open>
  C32: With a broker whose list commands do what Redis documents, a repair that reports no error leaves in the queue's active list
  exactly the entries whose task exists and is readable (an empty id is skipped), in their order, and
  changes no other list; a second repair that reports no error changes no list at all.
\<close>

theorem recover_keeps_exactly_healthy:
  assumes "lawful_active ops lst has"
    and "recoverOrphanedActiveTasks ops q s = (None, s')"
  shows "lst s' = (lst s)(activeKey q := filter (\<lambda>i. i = [] \<or> healthy ops has q s i) (lst s (activeKey q)))
    \<and> (\<forall>s2. recoverOrphanedActiveTasks ops q s' = (None, s2) \<longrightarrow> lst s2 = lst s')"
proof -
  have one: "lst s' = (lst s)(activeKey q := filter (\<lambda>i. i = [] \<or> healthy ops has q s i) (lst s (activeKey q)))"
    "healthy ops has q s' = healthy ops has q s" if "recoverOrphanedActiveTasks ops q s = (None, s')" for s s'
    using repaired [OF assms(1) that] by simp_all
  show ?thesis using one [OF assms(2)] one(1) [of s'] by (simp add: fun_upd_idem)
qed

text \<open>A reference store: the active lists, the keys with the type of the task they hold.\<close>

type_synonym ref_active = "(string \<Rightarrow> string list) \<times> (string \<rightharpoonup> string)"

definition ref_active_ops :: "ref_active active_ops" where
  "ref_active_ops = \<lparr>
     ao_lrange = (\<lambda>k s. Inr (fst s k)),
     ao_exists = (\<lambda>k s. Inr (if snd s k = None then 0 else 1)),
     ao_info = (\<lambda>q i s. Inr (snd s (taskKey q i))),
     ao_lrem = (\<lambda>k i s. (Inr (), ((fst s)(k := removeAll i (fst s k)), snd s))),
     ao_zrem = (\<lambda>k i s. (Inr (), s)),
     ao_del = (\<lambda>k s. (Inr (), (fst s, (snd s)(k := None))))\<rparr>"

lemma lawful_ref_active: "lawful_active ref_active_ops fst (\<lambda>s k. snd s k \<noteq> None)"
  by (auto simp: law_defs ref_active_ops_def)

theorem recover_keeps_exactly_healthy_witness:
  "\<exists>s'. recoverOrphanedActiveTasks ref_active_ops ''d''
        ((\<lambda>_. [''a'', ''b'']), [taskKey ''d'' ''b'' \<mapsto> ''x'']) = (None, s') \<and>
      fst s' (activeKey ''d'') = [''b'']"
proof -
  let ?s = "((\<lambda>_. [''a'', ''b'']), [taskKey ''d'' ''b'' \<mapsto> ''x'']) :: ref_active"
  obtain s' where run: "recoverOrphanedActiveTasks ref_active_ops ''d'' ?s = (None, s')"
    by (simp add: recoverOrphanedActiveTasks_def ref_active_ops_def orphaned_def)
  from recover_keeps_exactly_healthy [OF lawful_ref_active run] run show ?thesis
    by (simp add: healthy_def ref_active_ops_def)
qed

end
