(* ===== verification/Redis.thy ===== *)
theory Redis
  imports Json "HOL-Library.AList"
begin

text \<open>
  The Redis server as the sources use it. The server is outside the repository: a client is
  a function of a list of commands (a pipeline; one command is a pipeline of one) over an
  abstract state, and what the code relies on is the law \<open>lawful_redis\<close>: through an
  abstraction of the state, a call that succeeds has the documented effect and replies of its
  commands, and a call that fails may have applied any prefix of them.

  Times are microseconds of one clock, which \<open>wait\<close> moves; the expiry of a key is kept
  as the time at which it stops being visible. The keys the sources use for values, hashes, sorted
  sets and sets are disjoint, so each type has its own map.
\<close>

subsection \<open>The documented commands\<close>

datatype rval = RText string | RDoc body

record redis_db =
  db_now :: nat
  db_vals :: "string \<Rightarrow> (rval \<times> nat option) option"
  db_hashes :: "string \<Rightarrow> (string \<times> string) list"
  db_zsets :: "string \<Rightarrow> (string \<times> nat) list \<times> nat option"
  db_sets :: "string \<Rightarrow> string list"

definition empty_db :: redis_db where
  "empty_db = \<lparr>db_now = 0, db_vals = (\<lambda>_. None), db_hashes = (\<lambda>_. []),
     db_zsets = (\<lambda>_. ([], None)), db_sets = (\<lambda>_. [])\<rparr>"

datatype cmd =
    CGet string
  | CSet string rval nat
  | CSetNX string rval nat
  | CDel string
  | CExists string
  | CCompareDel string rval
  | CHGet string string
  | CHSet string string string
  | CHDel string string
  | CZRemRange string int
  | CZCard string
  | CZAdd string nat string
  | CZCount string int
  | CExpire string nat
  | CSAdd string string
  | CSRem string string
  | CSIsMember string string
  | CSMembers string
  | CSCard string

datatype reply = RpNil | RpInt int | RpVal rval | RpList "string list"

text \<open>A key past its deadline is not there; a time to live of 0 means none.\<close>

definition visible :: "nat \<Rightarrow> nat option \<Rightarrow> bool" where
  "visible t dl = (case dl of None \<Rightarrow> True | Some d \<Rightarrow> t < d)"

definition deadline :: "nat \<Rightarrow> nat \<Rightarrow> nat option" where
  "deadline t ttl = (if ttl = 0 then None else Some (t + ttl))"

definition live_val :: "redis_db \<Rightarrow> string \<Rightarrow> rval option" where
  "live_val db k =
     (case db_vals db k of
        None \<Rightarrow> None
      | Some (v, dl) \<Rightarrow> if visible (db_now db) dl then Some v else None)"

definition live_zset :: "redis_db \<Rightarrow> string \<Rightarrow> (string \<times> nat) list" where
  "live_zset db k =
     (if visible (db_now db) (snd (db_zsets db k)) then fst (db_zsets db k) else [])"

definition zset_deadline :: "redis_db \<Rightarrow> string \<Rightarrow> nat option" where
  "zset_deadline db k =
     (if live_zset db k = [] then None else snd (db_zsets db k))"

definition put_val :: "string \<Rightarrow> (rval \<times> nat option) option \<Rightarrow> redis_db \<Rightarrow> redis_db" where
  "put_val k v db = db\<lparr>db_vals := (db_vals db)(k := v)\<rparr>"

definition put_zset :: "string \<Rightarrow> (string \<times> nat) list \<times> nat option \<Rightarrow> redis_db \<Rightarrow> redis_db" where
  "put_zset k z db = db\<lparr>db_zsets := (db_zsets db)(k := z)\<rparr>"

definition key_exists :: "redis_db \<Rightarrow> string \<Rightarrow> bool" where
  "key_exists db k \<longleftrightarrow>
     live_val db k \<noteq> None \<or> live_zset db k \<noteq> [] \<or> db_hashes db k \<noteq> [] \<or> db_sets db k \<noteq> []"

definition drop_key :: "string \<Rightarrow> redis_db \<Rightarrow> redis_db" where
  "drop_key k db = db\<lparr>db_vals := (db_vals db)(k := None), db_hashes := (db_hashes db)(k := []),
     db_zsets := (db_zsets db)(k := ([], None)), db_sets := (db_sets db)(k := [])\<rparr>"

definition of_flag :: "bool \<Rightarrow> reply" where
  "of_flag b = RpInt (if b then 1 else 0)"

fun redis_step :: "cmd \<Rightarrow> redis_db \<Rightarrow> reply \<times> redis_db" where
  "redis_step (CGet k) db =
     (case live_val db k of None \<Rightarrow> RpNil | Some v \<Rightarrow> RpVal v, db)"
| "redis_step (CSet k v ttl) db =
     (RpInt 1, put_val k (Some (v, deadline (db_now db) ttl)) db)"
| "redis_step (CSetNX k v ttl) db =
     (if live_val db k = None
      then (RpInt 1, put_val k (Some (v, deadline (db_now db) ttl)) db)
      else (RpInt 0, db))"
| "redis_step (CDel k) db = (of_flag (key_exists db k), drop_key k db)"
| "redis_step (CExists k) db = (of_flag (key_exists db k), db)"
| "redis_step (CCompareDel k v) db =
     (if live_val db k = Some v then (RpInt 1, drop_key k db) else (RpInt 0, db))"
| "redis_step (CHGet k f) db =
     (case map_of (db_hashes db k) f of None \<Rightarrow> RpNil | Some v \<Rightarrow> RpVal (RText v), db)"
| "redis_step (CHSet k f v) db =
     (of_flag (map_of (db_hashes db k) f = None),
      db\<lparr>db_hashes := (db_hashes db)(k := AList.update f v (db_hashes db k))\<rparr>)"
| "redis_step (CHDel k f) db =
     (of_flag (map_of (db_hashes db k) f \<noteq> None),
      db\<lparr>db_hashes := (db_hashes db)(k := AList.delete f (db_hashes db k))\<rparr>)"
| "redis_step (CZRemRange k hi) db =
     (let keep = filter (\<lambda>(m, x). \<not> int x \<le> hi) (live_zset db k) in
      (RpInt (int (length (live_zset db k)) - int (length keep)),
       put_zset k (keep, zset_deadline db k) db))"
| "redis_step (CZCard k) db = (RpInt (int (length (live_zset db k))), db)"
| "redis_step (CZAdd k x m) db =
     (of_flag (m \<notin> fst ` set (live_zset db k)),
      put_zset k ((m, x) # filter (\<lambda>(m', _). m' \<noteq> m) (live_zset db k), zset_deadline db k) db)"
| "redis_step (CZCount k lo) db =
     (RpInt (int (length (filter (\<lambda>(m, x). lo \<le> int x) (live_zset db k)))), db)"
| "redis_step (CExpire k ttl) db =
     (if live_zset db k \<noteq> []
      then (RpInt 1, put_zset k (live_zset db k, Some (db_now db + ttl)) db)
      else (case live_val db k of
              None \<Rightarrow> (RpInt 0, db)
            | Some v \<Rightarrow> (RpInt 1, put_val k (Some (v, Some (db_now db + ttl))) db)))"
| "redis_step (CSAdd k m) db =
     (of_flag (m \<notin> set (db_sets db k)),
      db\<lparr>db_sets := (db_sets db)(k := List.insert m (db_sets db k))\<rparr>)"
| "redis_step (CSRem k m) db =
     (of_flag (m \<in> set (db_sets db k)),
      db\<lparr>db_sets := (db_sets db)(k := filter (\<lambda>x. x \<noteq> m) (db_sets db k))\<rparr>)"
| "redis_step (CSIsMember k m) db = (of_flag (m \<in> set (db_sets db k)), db)"
| "redis_step (CSMembers k) db = (RpList (db_sets db k), db)"
| "redis_step (CSCard k) db = (RpInt (int (length (db_sets db k))), db)"

fun redis_run :: "cmd list \<Rightarrow> redis_db \<Rightarrow> reply list \<times> redis_db" where
  "redis_run [] db = ([], db)"
| "redis_run (c # cs) db =
     (let (r, db) = redis_step c db; (rs, db) = redis_run cs db in (r # rs, db))"

subsection \<open>Clients\<close>

type_synonym 's redis = "cmd list \<Rightarrow> 's \<Rightarrow> reply list result \<times> 's"

definition lawful_redis :: "'s redis \<Rightarrow> ('s \<Rightarrow> redis_db) \<Rightarrow> bool" where
  "lawful_redis R \<alpha> \<longleftrightarrow> (\<forall>cs s.
     (case R cs s of
        (Inl e, s') \<Rightarrow> (\<exists>n. \<alpha> s' = snd (redis_run (take n cs) (\<alpha> s)))
      | (Inr rs, s') \<Rightarrow> redis_run cs (\<alpha> s) = (rs, \<alpha> s')))"

definition lawful_clock :: "(nat \<Rightarrow> 's \<Rightarrow> 's) \<Rightarrow> ('s \<Rightarrow> redis_db) \<Rightarrow> bool" where
  "lawful_clock wait \<alpha> \<longleftrightarrow>
     (\<forall>d s. \<alpha> (wait d s) = (\<alpha> s)\<lparr>db_now := db_now (\<alpha> s) + d\<rparr>)"

text \<open>One command.\<close>

definition call :: "'s redis \<Rightarrow> cmd \<Rightarrow> 's \<Rightarrow> reply result \<times> 's" where
  "call R c s =
     (case R [c] s of
        (Inl e, s') \<Rightarrow> (Inl e, s')
      | (Inr rs, s') \<Rightarrow> (Inr (case rs of [] \<Rightarrow> RpNil | r # _ \<Rightarrow> r), s'))"

lemma redis_run_length [simp]: "length (fst (redis_run cs db)) = length cs"
  by (induction cs arbitrary: db) (simp_all add: Let_def split_beta)

text \<open>
  The one fact the component proofs use: a command either succeeds with its documented reply,
  or fails, and then it was applied or was not.
\<close>

lemma take_single: "take n [c] = [] \<or> take n [c] = [c]"
  by (cases n) simp_all

lemma call_cases:
  assumes "lawful_redis R \<alpha>"
  obtains (ok) s' where "call R c s = (Inr (fst (redis_step c (\<alpha> s))), s')"
      "\<alpha> s' = snd (redis_step c (\<alpha> s))"
  | (failed) e s' where "call R c s = (Inl e, s')"
      "\<alpha> s' = \<alpha> s \<or> \<alpha> s' = snd (redis_step c (\<alpha> s))"
proof -
  have law: "case R [c] s of (Inl e, s') \<Rightarrow> (\<exists>n. \<alpha> s' = snd (redis_run (take n [c]) (\<alpha> s)))
      | (Inr rs, s') \<Rightarrow> redis_run [c] (\<alpha> s) = (rs, \<alpha> s')"
    using assms [unfolded lawful_redis_def, rule_format] .
  obtain r s' where R: "R [c] s = (r, s')" by (cases "R [c] s")
  show thesis
  proof (cases r)
    case (Inl e)
    with law R obtain n where n: "\<alpha> s' = snd (redis_run (take n [c]) (\<alpha> s))" by auto
    have "\<alpha> s' = \<alpha> s \<or> \<alpha> s' = snd (redis_step c (\<alpha> s))"
      using take_single [of n c] n by (auto simp: Let_def split_beta)
    with R Inl show thesis by (intro failed [of e s']) (simp_all add: call_def)
  next
    case (Inr rs)
    with law R have "redis_run [c] (\<alpha> s) = (rs, \<alpha> s')" by simp
    then have "rs = [fst (redis_step c (\<alpha> s))]" "\<alpha> s' = snd (redis_step c (\<alpha> s))"
      by (simp_all add: Let_def split_beta)
    with R Inr show thesis by (intro ok [of s']) (simp_all add: call_def)
  qed
qed

text \<open>A server that never fails: the documented commands themselves.\<close>

definition ref_redis :: "redis_db redis" where
  "ref_redis cs db = (let (rs, db) = redis_run cs db in (Inr rs, db))"

definition ref_wait :: "nat \<Rightarrow> redis_db \<Rightarrow> redis_db" where
  "ref_wait d db = db\<lparr>db_now := db_now db + d\<rparr>"

lemma lawful_ref_redis: "lawful_redis ref_redis (\<lambda>db. db)"
  by (simp add: lawful_redis_def ref_redis_def Let_def split_beta)

lemma lawful_ref_wait: "lawful_clock ref_wait (\<lambda>db. db)"
  by (simp add: lawful_clock_def ref_wait_def)

lemma call_ref [simp]:
  "call ref_redis c db = (Inr (fst (redis_step c db)), snd (redis_step c db))"
  by (simp add: call_def ref_redis_def Let_def split_beta)

subsection \<open>Reading a state after a command\<close>

lemma live_val_put_val [simp]:
  "live_val (put_val k v db) k' =
     (if k = k' then (case v of None \<Rightarrow> None
        | Some (x, dl) \<Rightarrow> if visible (db_now db) dl then Some x else None)
      else live_val db k')"
  by (auto simp: live_val_def put_val_def split: option.splits)

lemma live_val_drop_key [simp]:
  "live_val (drop_key k db) k' = (if k = k' then None else live_val db k')"
  by (auto simp: live_val_def drop_key_def split: option.splits)

lemma drop_key_simps [simp]:
  "db_now (drop_key k db) = db_now db"
  "db_hashes (drop_key k db) k' = (if k = k' then [] else db_hashes db k')"
  "db_vals (drop_key k db) k' = (if k = k' then None else db_vals db k')"
  "db_sets (drop_key k db) k' = (if k = k' then [] else db_sets db k')"
  by (auto simp: drop_key_def)

lemma put_val_simps [simp]:
  "db_now (put_val k v db) = db_now db" "db_hashes (put_val k v db) = db_hashes db"
  "db_zsets (put_val k v db) = db_zsets db" "db_sets (put_val k v db) = db_sets db"
  "live_zset (put_val k v db) = live_zset db"
  by (simp_all add: put_val_def live_zset_def fun_eq_iff)

lemma put_zset_simps [simp]:
  "db_now (put_zset k v db) = db_now db" "db_hashes (put_zset k v db) = db_hashes db"
  "db_vals (put_zset k v db) = db_vals db" "db_sets (put_zset k v db) = db_sets db"
  "live_val (put_zset k v db) = live_val db"
  "db_zsets (put_zset k v db) k' = (if k = k' then v else db_zsets db k')"
  by (auto simp: put_zset_def live_val_def fun_eq_iff split: option.splits)

lemma visible_deadline [simp]: "visible t (deadline t ttl)"
  by (simp add: visible_def deadline_def)

lemma live_val_later:
  "live_val (db\<lparr>db_now := t\<rparr>) k =
     (case db_vals db k of None \<Rightarrow> None
      | Some (v, dl) \<Rightarrow> if visible t dl then Some v else None)"
  by (auto simp: live_val_def split: option.splits)

lemma of_flag_eq [simp]: "of_flag b = of_flag b' \<longleftrightarrow> b = b'" "of_flag b = RpInt 1 \<longleftrightarrow> b"
  "of_flag b = RpInt 0 \<longleftrightarrow> \<not> b"
  by (auto simp: of_flag_def)

end
