(* ===== verification/Redisx.thy ===== *)
theory Redisx
  imports Redis "HOL-Library.Multiset"
begin

text \<open>
  \<open>go/internal/redisx\<close>: the per-user lock, the sliding-window rate limit, the link
  deduplication, the cancel flags, the ban list, the active-user set and the store of runtime
  settings, over the Redis parameter of theory \<open>Redis\<close>. A method of \<open>Client\<close> is a function of
  the connection \<open>R\<close>, the key prefix \<open>c\<close> and the state.
\<close>

subsection \<open>The client\<close>

definition key :: "string \<Rightarrow> string \<Rightarrow> string" where
  "key c base = (if c = [] then base else c @ '':'' @ base)"

definition err_of :: "'a result \<Rightarrow> go_error option" where
  "err_of r = (case r of Inl e \<Rightarrow> Some e | Inr _ \<Rightarrow> None)"

definition exec :: "'s redis \<Rightarrow> cmd \<Rightarrow> 's \<Rightarrow> go_error option \<times> 's" where
  "exec R c s = (case call R c s of (r, s) \<Rightarrow> (err_of r, s))"

subsection \<open>User locks (client.go)\<close>

definition lockPrefix :: string where "lockPrefix = ''user_busy''"

definition lockKey :: "string \<Rightarrow> int \<Rightarrow> string" where
  "lockKey c userID = key c (lockPrefix @ '':'' @ itoa userID)"

definition lock_value :: "string \<Rightarrow> string \<Rightarrow> string" where
  "lock_value scenario token = scenario @ '':'' @ token"

text \<open>The token is the value of \<open>uuid.NewString\<close>, an argument here; \<open>ttl\<close> is in microseconds.\<close>

definition AcquireUserLock ::
  "'s redis \<Rightarrow> string \<Rightarrow> string \<Rightarrow> int \<Rightarrow> string \<Rightarrow> nat \<Rightarrow> 's \<Rightarrow> (string \<times> bool) result \<times> 's" where
  "AcquireUserLock R c token userID scenario ttl s =
     (case call R (CSetNX (lockKey c userID) (RText (lock_value scenario token)) ttl) s of
        (Inl e, s) \<Rightarrow> (Inl e, s)
      | (Inr r, s) \<Rightarrow> if r = RpInt 1 then (Inr (token, True), s) else (Inr ([], False), s))"

definition ReleaseUserLock ::
  "'s redis \<Rightarrow> string \<Rightarrow> int \<Rightarrow> string \<Rightarrow> string \<Rightarrow> 's \<Rightarrow> go_error option \<times> 's" where
  "ReleaseUserLock R c userID scenario token s =
     exec R (CCompareDel (lockKey c userID) (RText (lock_value scenario token))) s"

definition ForceReleaseUserLock ::
  "'s redis \<Rightarrow> string \<Rightarrow> int \<Rightarrow> 's \<Rightarrow> go_error option \<times> 's" where
  "ForceReleaseUserLock R c userID s = exec R (CDel (lockKey c userID)) s"

record active_download =
  ad_user :: int
  ad_scenario :: string
  ad_token :: string

definition GetActiveDownload ::
  "'s redis \<Rightarrow> string \<Rightarrow> int \<Rightarrow> 's \<Rightarrow> active_download option result \<times> 's" where
  "GetActiveDownload R c userID s =
     (case call R (CGet (lockKey c userID)) s of
        (Inl e, s) \<Rightarrow> (Inl e, s)
      | (Inr (RpVal (RText v)), s) \<Rightarrow>
          (case split_first CHR '':'' v of
             [scenario, token] \<Rightarrow>
               if token = [] then (Inr None, s)
               else (Inr (Some \<lparr>ad_user = userID, ad_scenario = scenario, ad_token = token\<rparr>), s)
           | _ \<Rightarrow> (Inr None, s))
      | (Inr _, s) \<Rightarrow> (Inr None, s))"

subsection \<open>Rate limit and deduplication (client.go)\<close>

text \<open>The verb \<open>%f\<close> on a clock reading in seconds: six decimals, here of whole microseconds.\<close>

definition show_f6 :: "nat \<Rightarrow> string" where
  "show_f6 us = show_nat (us div 1000000) @ ''.'' @ tl (show_nat (1000000 + us mod 1000000))"

definition second :: nat where "second = 1000000"

definition rateKey :: "string \<Rightarrow> string \<Rightarrow> int \<Rightarrow> string" where
  "rateKey c scope i = key c (''ratelimit:'' @ scope @ '':'' @ itoa i)"

definition rate_pipeline :: "string \<Rightarrow> nat \<Rightarrow> nat \<Rightarrow> cmd list" where
  "rate_pipeline k window now =
     [CZRemRange k (int now - int window), CZCard k, CZAdd k now (show_f6 now),
      CExpire k (window + 10 * second)]"

definition AllowRateLimit ::
  "'s redis \<Rightarrow> string \<Rightarrow> nat \<Rightarrow> string \<Rightarrow> int \<Rightarrow> int \<Rightarrow> nat \<Rightarrow> 's \<Rightarrow> bool result \<times> 's" where
  "AllowRateLimit R c now scope i limit window s =
     (case R (rate_pipeline (rateKey c scope i) window now) s of
        (Inl e, s) \<Rightarrow> (Inl e, s)
      | (Inr rs, s) \<Rightarrow>
          (Inr (case rs ! 1 of RpInt n \<Rightarrow> n < limit | _ \<Rightarrow> False), s))"

definition AllowURLDedup :: "'s redis \<Rightarrow> string \<Rightarrow> string \<Rightarrow> nat \<Rightarrow> 's \<Rightarrow> bool result \<times> 's" where
  "AllowURLDedup R c urlHash window s =
     (if length urlHash < 12 then (Inr True, s)
      else case call R (CSetNX (key c (''dedup:'' @ take 12 urlHash)) (RText ''1'') window) s of
        (Inl e, s) \<Rightarrow> (Inl e, s)
      | (Inr r, s) \<Rightarrow> (Inr (r = RpInt 1), s))"

subsection \<open>Cancel flags and release locks (client.go)\<close>

definition cancelPrefix :: string where "cancelPrefix = ''download:cancel''"

definition cancelKey :: "string \<Rightarrow> string \<Rightarrow> int \<Rightarrow> string \<Rightarrow> string" where
  "cancelKey c scenario userID token =
     key c (cancelPrefix @ '':'' @ scenario @ '':'' @ itoa userID @ '':'' @ token)"

definition SetDownloadCancelled ::
  "'s redis \<Rightarrow> string \<Rightarrow> string \<Rightarrow> int \<Rightarrow> string \<Rightarrow> nat \<Rightarrow> 's \<Rightarrow> go_error option \<times> 's" where
  "SetDownloadCancelled R c scenario userID token ttl s =
     exec R (CSet (cancelKey c scenario userID token) (RText ''1'') ttl) s"

text \<open>On an error the count is 0, so the answer is false beside the error.\<close>

definition IsDownloadCancelled ::
  "'s redis \<Rightarrow> string \<Rightarrow> string \<Rightarrow> int \<Rightarrow> string \<Rightarrow> 's \<Rightarrow> bool \<times> go_error option \<times> 's" where
  "IsDownloadCancelled R c scenario userID token s =
     (case call R (CExists (cancelKey c scenario userID token)) s of
        (Inl e, s) \<Rightarrow> (False, Some e, s)
      | (Inr r, s) \<Rightarrow> (r = RpInt 1, None, s))"

definition TryAcquireReleaseLock ::
  "'s redis \<Rightarrow> string \<Rightarrow> nat \<Rightarrow> 's \<Rightarrow> bool \<times> go_error option \<times> 's" where
  "TryAcquireReleaseLock R k ttl s =
     (case call R (CSetNX k (RText ''1'') ttl) s of
        (Inl e, s) \<Rightarrow> (False, Some e, s)
      | (Inr r, s) \<Rightarrow> (r = RpInt 1, None, s))"

definition ReleaseReleaseLock :: "'s redis \<Rightarrow> string \<Rightarrow> 's \<Rightarrow> go_error option \<times> 's" where
  "ReleaseReleaseLock R k s = exec R (CDel k) s"

subsection \<open>Active users (activity.go)\<close>

definition activeUsersKey :: string where "activeUsersKey = ''active:users''"

text \<open>The errors of the whole pipeline; the result of its commands is not read.\<close>

definition TouchActiveUser :: "'s redis \<Rightarrow> nat \<Rightarrow> int \<Rightarrow> 's \<Rightarrow> go_error option \<times> 's" where
  "TouchActiveUser R now userID s =
     (if userID = 0 then (None, s)
      else case R [CZAdd activeUsersKey now (itoa userID),
                   CExpire activeUsersKey (35 * 60 * second)] s of
        (r, s) \<Rightarrow> (err_of r, s))"

definition CountActiveUsers :: "'s redis \<Rightarrow> nat \<Rightarrow> nat \<Rightarrow> 's \<Rightarrow> int result \<times> 's" where
  "CountActiveUsers R now window s =
     (case R [CZRemRange activeUsersKey (int now - int window),
              CZCount activeUsersKey (int now - int window)] s of
        (Inl e, s) \<Rightarrow> (Inl e, s)
      | (Inr rs, s) \<Rightarrow> (Inr (case rs ! 1 of RpInt n \<Rightarrow> n | _ \<Rightarrow> 0), s))"

subsection \<open>Bans (bans.go)\<close>

definition bannedUsersKey :: string where "bannedUsersKey = ''saveinator:banned_users''"

definition BanUser :: "'s redis \<Rightarrow> int \<Rightarrow> 's \<Rightarrow> go_error option \<times> 's" where
  "BanUser R userID s = exec R (CSAdd bannedUsersKey (itoa userID)) s"

definition UnbanUser :: "'s redis \<Rightarrow> int \<Rightarrow> 's \<Rightarrow> bool \<times> go_error option \<times> 's" where
  "UnbanUser R userID s =
     (case call R (CSRem bannedUsersKey (itoa userID)) s of
        (Inl e, s) \<Rightarrow> (False, Some e, s)
      | (Inr r, s) \<Rightarrow> (r = RpInt 1, None, s))"

definition IsUserBanned :: "'s redis \<Rightarrow> int \<Rightarrow> 's \<Rightarrow> bool \<times> go_error option \<times> 's" where
  "IsUserBanned R userID s =
     (case call R (CSIsMember bannedUsersKey (itoa userID)) s of
        (Inl e, s) \<Rightarrow> (False, Some e, s)
      | (Inr r, s) \<Rightarrow> (r = RpInt 1, None, s))"

text \<open>The two nested loops that order the list in place.\<close>

definition swap_if_less :: "nat \<Rightarrow> nat \<Rightarrow> int list \<Rightarrow> int list" where
  "swap_if_less i j out = (if out ! j < out ! i then out[i := out ! j, j := out ! i] else out)"

lemma length_swap_if_less [simp]: "length (swap_if_less i j out) = length out"
  by (simp add: swap_if_less_def)

function sort_inner :: "nat \<Rightarrow> nat \<Rightarrow> int list \<Rightarrow> int list" where
  "sort_inner i j out =
     (if j < length out then sort_inner i (Suc j) (swap_if_less i j out) else out)"
  by pat_completeness auto

termination sort_inner
  by (relation "measure (\<lambda>(i, j, out). length out - j)") auto

declare sort_inner.simps [simp del]

lemma length_sort_inner [simp]: "length (sort_inner i j out) = length out"
  by (induction i j out rule: sort_inner.induct) (subst sort_inner.simps, simp)

function sort_outer :: "nat \<Rightarrow> int list \<Rightarrow> int list" where
  "sort_outer i out =
     (if i < length out then sort_outer (Suc i) (sort_inner i (Suc i) out) else out)"
  by pat_completeness auto

termination sort_outer
  by (relation "measure (\<lambda>(i, out). length out - i)") auto

declare sort_outer.simps [simp del]

definition parse_ids :: "string list \<Rightarrow> int list" where
  "parse_ids members = List.map_filter atoi members"

definition ListBannedUsers :: "'s redis \<Rightarrow> 's \<Rightarrow> int list result \<times> 's" where
  "ListBannedUsers R s =
     (case call R (CSMembers bannedUsersKey) s of
        (Inl e, s) \<Rightarrow> (Inl e, s)
      | (Inr (RpList members), s) \<Rightarrow> (Inr (sort_outer 0 (parse_ids members)), s)
      | (Inr _, s) \<Rightarrow> (Inr [], s))"

definition BannedCount :: "'s redis \<Rightarrow> 's \<Rightarrow> int \<times> go_error option \<times> 's" where
  "BannedCount R s =
     (case call R (CSCard bannedUsersKey) s of
        (Inl e, s) \<Rightarrow> (0, Some e, s)
      | (Inr r, s) \<Rightarrow> (case r of RpInt n \<Rightarrow> n | _ \<Rightarrow> 0, None, s))"

subsection \<open>The hash of runtime settings (runtime.go)\<close>

definition runtimeSettingsKey :: string where
  "runtimeSettingsKey = ''saveinator:runtime_settings''"

definition RuntimeGet :: "'s redis \<Rightarrow> string \<Rightarrow> 's \<Rightarrow> string option result \<times> 's" where
  "RuntimeGet R field s =
     (case call R (CHGet runtimeSettingsKey field) s of
        (Inl e, s) \<Rightarrow> (Inl e, s)
      | (Inr (RpVal (RText v)), s) \<Rightarrow> (Inr (Some v), s)
      | (Inr _, s) \<Rightarrow> (Inr None, s))"

definition RuntimeSet :: "'s redis \<Rightarrow> string \<Rightarrow> string \<Rightarrow> 's \<Rightarrow> go_error option \<times> 's" where
  "RuntimeSet R field v s = exec R (CHSet runtimeSettingsKey field v) s"

definition RuntimeDelete :: "'s redis \<Rightarrow> string \<Rightarrow> 's \<Rightarrow> go_error option \<times> 's" where
  "RuntimeDelete R field s = exec R (CHDel runtimeSettingsKey field) s"

definition RuntimeDeleteAll :: "'s redis \<Rightarrow> 's \<Rightarrow> go_error option \<times> 's" where
  "RuntimeDeleteAll R s = exec R (CDel runtimeSettingsKey) s"

subsection \<open>Effects of the lock operations\<close>

lemma exec_cases:
  assumes "lawful_redis R \<alpha>" "exec R c s = (e, s')"
  shows "\<alpha> s' = snd (redis_step c (\<alpha> s)) \<or> e \<noteq> None \<and> \<alpha> s' = \<alpha> s"
  using assms(2) by (cases rule: call_cases [OF assms(1), of c s]) (auto simp: exec_def err_of_def)

lemma lockKey_inject [simp]: "lockKey c u = lockKey c u' \<longleftrightarrow> u = u'"
  by (simp add: lockKey_def key_def lockPrefix_def)

definition lock_holder :: "string \<Rightarrow> redis_db \<Rightarrow> int \<Rightarrow> rval option" where
  "lock_holder c db u = live_val db (lockKey c u)"

definition lock_put :: "string \<Rightarrow> int \<Rightarrow> string \<Rightarrow> nat \<Rightarrow> redis_db \<Rightarrow> redis_db" where
  "lock_put c u v ttl db = put_val (lockKey c u) (Some (RText v, deadline (db_now db) ttl)) db"

lemma lock_holder_put [simp]:
  "lock_holder c (lock_put c u v ttl db) u' =
     (if u = u' then Some (RText v) else lock_holder c db u')"
  by (simp add: lock_holder_def lock_put_def)

lemma lock_holder_drop [simp]:
  "lock_holder c (drop_key (lockKey c u) db) u' = (if u = u' then None else lock_holder c db u')"
  by (simp add: lock_holder_def)

lemma acquire_cases:
  assumes "lawful_redis R \<alpha>" "AcquireUserLock R c tok u sc ttl s = (r, s')"
  obtains (won) "r = Inr (tok, True)" "lock_holder c (\<alpha> s) u = None"
      "\<alpha> s' = lock_put c u (lock_value sc tok) ttl (\<alpha> s)"
  | (busy) "r = Inr ([], False)" "lock_holder c (\<alpha> s) u \<noteq> None" "\<alpha> s' = \<alpha> s"
  | (failed) e where "r = Inl e" "\<alpha> s' = \<alpha> s"
  | (lost) e where "r = Inl e" "lock_holder c (\<alpha> s) u = None"
      "\<alpha> s' = lock_put c u (lock_value sc tok) ttl (\<alpha> s)"
proof -
  let ?c = "CSetNX (lockKey c u) (RText (lock_value sc tok)) ttl"
  show thesis
  proof (rule call_cases [OF assms(1), of ?c s], goal_cases)
    case (1 s1)
    with assms(2) that(1,2) show thesis
      by (cases "lock_holder c (\<alpha> s) u")
        (auto simp: AcquireUserLock_def lock_holder_def lock_put_def)
  next
    case (2 e s1)
    with assms(2) that(3,4) show thesis
      by (cases "lock_holder c (\<alpha> s) u")
        (auto simp: AcquireUserLock_def lock_holder_def lock_put_def)
  qed
qed

lemma release_cases:
  assumes "lawful_redis R \<alpha>" "ReleaseUserLock R c u sc tok s = (e, s')"
  obtains (own) "lock_holder c (\<alpha> s) u = Some (RText (lock_value sc tok))"
      "\<alpha> s' = drop_key (lockKey c u) (\<alpha> s)"
  | (other) "lock_holder c (\<alpha> s) u \<noteq> Some (RText (lock_value sc tok))" "\<alpha> s' = \<alpha> s"
  | (failed) "e \<noteq> None" "\<alpha> s' = \<alpha> s"
  using exec_cases [OF assms(1) assms(2) [unfolded ReleaseUserLock_def]] that
  by (auto simp: lock_holder_def split: if_splits)

lemma force_cases:
  assumes "lawful_redis R \<alpha>" "ForceReleaseUserLock R c u s = (e, s')"
  shows "\<alpha> s' = drop_key (lockKey c u) (\<alpha> s) \<or> e \<noteq> None \<and> \<alpha> s' = \<alpha> s"
  using exec_cases [OF assms(1) assms(2) [unfolded ForceReleaseUserLock_def]] by simp

subsection \<open>The lock as an interface\<close>

text \<open>
  What the callers of the lock rely on: a successful acquisition took a free lock, a busy one
  changed nothing, and releasing takes away at most one's own value.
\<close>

locale user_lock =
  fixes acquire :: "string \<Rightarrow> int \<Rightarrow> string \<Rightarrow> nat \<Rightarrow> 's \<Rightarrow> (string \<times> bool) result \<times> 's"
    and release :: "int \<Rightarrow> string \<Rightarrow> string \<Rightarrow> 's \<Rightarrow> go_error option \<times> 's"
    and holder :: "'s \<Rightarrow> int \<Rightarrow> rval option"
  assumes acquire_won: "acquire tok u sc ttl s = (Inr (t, True), s') \<Longrightarrow>
      t = tok \<and> holder s u = None
      \<and> holder s' = (holder s)(u := Some (RText (lock_value sc tok)))"
    and acquire_busy: "acquire tok u sc ttl s = (Inr (t, False), s') \<Longrightarrow>
      holder s u \<noteq> None \<and> holder s' = holder s"
    and acquire_failed: "acquire tok u sc ttl s = (Inl e, s') \<Longrightarrow>
      holder s' = holder s
      \<or> holder s u = None \<and> holder s' = (holder s)(u := Some (RText (lock_value sc tok)))"
    and release_own: "release u sc tok s = (None, s') \<Longrightarrow>
      holder s u = Some (RText (lock_value sc tok)) \<Longrightarrow> holder s' = (holder s)(u := None)"
    and release_other: "release u sc tok s = (err, s') \<Longrightarrow>
      holder s u \<noteq> Some (RText (lock_value sc tok)) \<Longrightarrow> holder s' = holder s"
    and release_frame: "release u sc tok s = (err, s') \<Longrightarrow> u' \<noteq> u \<Longrightarrow> holder s' u' = holder s u'"
begin

lemma acquire_frame:
  assumes "acquire tok u sc ttl s = (r, s')" "u' \<noteq> u"
  shows "holder s' u' = holder s u'"
proof (cases r)
  case (Inl e)
  with assms(1) have "acquire tok u sc ttl s = (Inl e, s')" by simp
  from acquire_failed [OF this] assms(2) show ?thesis by auto
next
  case (Inr p)
  obtain t ok where p: "p = (t, ok)" by (cases p)
  with assms(1) Inr have eq: "acquire tok u sc ttl s = (Inr (t, ok), s')" by simp
  show ?thesis
  proof (cases ok)
    case True
    with eq acquire_won [of tok u sc ttl s t s'] assms(2) show ?thesis by simp
  next
    case False
    with eq acquire_busy [of tok u sc ttl s t s'] show ?thesis by simp
  qed
qed

text \<open>A stale release, with the token of a lock that has passed to someone else, is harmless.\<close>

lemma stale_release:
  assumes "acquire tok u sc ttl s = (Inr (t, True), s1)" "lock_value sc' tok' \<noteq> lock_value sc tok"
    and "release u sc' tok' s1 = (e, s2)"
  shows "holder s2 u = Some (RText (lock_value sc tok))"
  using acquire_won [OF assms(1)] release_other [OF assms(3)] assms(2) by auto

text \<open>Acquiring and then releasing, both without an error, gives the lock back.\<close>

lemma acquire_release:
  assumes "acquire tok u sc ttl s = (Inr (t, True), s1)" "release u sc t s1 = (None, s2)"
  shows "holder s2 = holder s"
proof -
  from acquire_won [OF assms(1)] have a: "t = tok" "holder s u = None"
    "holder s1 = (holder s)(u := Some (RText (lock_value sc tok)))" by simp_all
  from a have "holder s2 = (holder s1)(u := None)"
    using release_own [OF assms(2)] by simp
  with a show ?thesis by (simp add: fun_upd_idem)
qed

end

text \<open>Every lawful Redis server gives such a lock.\<close>

locale redis_service =
  fixes R :: "'s redis" and \<alpha> :: "'s \<Rightarrow> redis_db" and c :: string
  assumes lawful: "lawful_redis R \<alpha>"
begin

lemma won_effect:
  assumes "AcquireUserLock R c tok u sc ttl s = (Inr (t, True), s')"
  shows "t = tok \<and> lock_holder c (\<alpha> s) u = None
    \<and> lock_holder c (\<alpha> s') = (lock_holder c (\<alpha> s))(u := Some (RText (lock_value sc tok)))"
  by (cases rule: acquire_cases [OF lawful assms]) (auto simp: fun_eq_iff)

lemma busy_effect:
  assumes "AcquireUserLock R c tok u sc ttl s = (Inr (t, False), s')"
  shows "lock_holder c (\<alpha> s) u \<noteq> None \<and> lock_holder c (\<alpha> s') = lock_holder c (\<alpha> s)"
  by (cases rule: acquire_cases [OF lawful assms]) auto

lemma failed_effect:
  assumes "AcquireUserLock R c tok u sc ttl s = (Inl e, s')"
  shows "lock_holder c (\<alpha> s') = lock_holder c (\<alpha> s) \<or> lock_holder c (\<alpha> s) u = None
    \<and> lock_holder c (\<alpha> s') = (lock_holder c (\<alpha> s))(u := Some (RText (lock_value sc tok)))"
  by (cases rule: acquire_cases [OF lawful assms]) (auto simp: fun_eq_iff)

end

sublocale redis_service \<subseteq> lock: user_lock "AcquireUserLock R c" "ReleaseUserLock R c"
  "\<lambda>s. lock_holder c (\<alpha> s)"
proof (unfold_locales, goal_cases)
  case 1 then show ?case by (rule won_effect)
next
  case 2 then show ?case by (rule busy_effect)
next
  case 3 then show ?case by (rule failed_effect)
next
  case (4 u sc tok s s')
  from 4(1) show ?case
    by (cases rule: release_cases [OF lawful]) (use 4 in \<open>auto simp: fun_eq_iff\<close>)
next
  case (5 u sc tok s e s')
  from 5(1) show ?case by (cases rule: release_cases [OF lawful]) (use 5 in auto)
next
  case (6 u sc tok s e s' u')
  from 6(1) show ?case by (cases rule: release_cases [OF lawful]) (use 6 in auto)
qed

interpretation ref: redis_service ref_redis "\<lambda>db. db" c for c
  by unfold_locales (rule lawful_ref_redis)

context redis_service
begin

lemmas lock_given_back = lock.acquire_release

end

text \<open>A connection none of whose calls fails.\<close>

definition reliable_redis :: "'s redis \<Rightarrow> bool" where
  "reliable_redis R \<longleftrightarrow> (\<forall>cs s. is_ok (fst (R cs s)))"

lemma reliable_ref: "reliable_redis ref_redis"
  by (simp add: reliable_redis_def ref_redis_def split_beta)

lemma reliable_call: "reliable_redis R \<Longrightarrow> call R c s \<noteq> (Inl e, s')"
proof
  assume "reliable_redis R" "call R c s = (Inl e, s')"
  moreover from this(1) have "is_ok (fst (R [c] s))" unfolding reliable_redis_def by simp
  ultimately show False by (auto simp: call_def split: prod.splits sum.splits)
qed

lemma reliable_exec: "reliable_redis R \<Longrightarrow> exec R c s = (e, s') \<Longrightarrow> e = None"
  using reliable_call by (fastforce simp: exec_def err_of_def split: prod.splits sum.splits)

subsection \<open>Exclusion over a history\<close>

text \<open>
  A history of one bot's lock calls and of time that passes; an acquisition that fails counts as
  not won.
\<close>

datatype lock_op =
    LAcquire int string string nat
  | LRelease int string string
  | LForce int
  | LWait nat

fun lock_exec ::
  "'s redis \<Rightarrow> (nat \<Rightarrow> 's \<Rightarrow> 's) \<Rightarrow> string \<Rightarrow> lock_op \<Rightarrow> 's \<Rightarrow> bool \<times> 's" where
  "lock_exec R wait c (LAcquire u sc tok ttl) s =
     (case AcquireUserLock R c tok u sc ttl s of
        (Inl e, s) \<Rightarrow> (False, s)
      | (Inr (_, ok), s) \<Rightarrow> (ok, s))"
| "lock_exec R wait c (LRelease u sc tok) s = (False, snd (ReleaseUserLock R c u sc tok s))"
| "lock_exec R wait c (LForce u) s = (False, snd (ForceReleaseUserLock R c u s))"
| "lock_exec R wait c (LWait d) s = (False, wait d s)"

fun lock_run ::
  "'s redis \<Rightarrow> (nat \<Rightarrow> 's \<Rightarrow> 's) \<Rightarrow> string \<Rightarrow> lock_op list \<Rightarrow> 's \<Rightarrow> bool list \<times> 's" where
  "lock_run R wait c [] s = ([], s)"
| "lock_run R wait c (x # xs) s =
     (let (b, s) = lock_exec R wait c x s; (bs, s) = lock_run R wait c xs s in (b # bs, s))"

definition wins :: "int \<Rightarrow> lock_op \<Rightarrow> bool \<Rightarrow> bool" where
  "wins u x b \<longleftrightarrow> b \<and> (case x of LAcquire u' _ _ _ \<Rightarrow> u' = u | _ \<Rightarrow> False)"

text \<open>An operation that does not take user \<open>u\<close>'s lock with value \<open>v\<close> away.\<close>

definition keeps :: "int \<Rightarrow> string \<Rightarrow> lock_op \<Rightarrow> bool" where
  "keeps u v x =
     (case x of
        LRelease u' sc tok \<Rightarrow> u' \<noteq> u \<or> lock_value sc tok \<noteq> v
      | LForce u' \<Rightarrow> u' \<noteq> u
      | _ \<Rightarrow> True)"

fun elapsed :: "lock_op list \<Rightarrow> nat" where
  "elapsed [] = 0"
| "elapsed (LWait d # xs) = d + elapsed xs"
| "elapsed (x # xs) = elapsed xs"

text \<open>The lock is stored and stays visible for \<open>n\<close> more microseconds.\<close>

definition held :: "string \<Rightarrow> redis_db \<Rightarrow> int \<Rightarrow> string \<Rightarrow> nat \<Rightarrow> bool" where
  "held c db u v n \<longleftrightarrow>
     (\<exists>dl. db_vals db (lockKey c u) = Some (RText v, dl) \<and> visible (db_now db + n) dl)"

lemma visible_antimono: "visible (t + n) dl \<Longrightarrow> visible t dl"
  by (auto simp: visible_def split: option.splits)

lemma held_holder: "held c db u v n \<Longrightarrow> lock_holder c db u = Some (RText v)"
  by (auto simp: held_def lock_holder_def live_val_def dest: visible_antimono)

lemma held_drop: "held c db u v n \<Longrightarrow> u' \<noteq> u \<Longrightarrow> held c (drop_key (lockKey c u') db) u v n"
  by (auto simp: held_def)

lemma held_put: "held c db u v n \<Longrightarrow> u' \<noteq> u \<Longrightarrow> held c (lock_put c u' v' ttl db) u v n"
  by (auto simp: held_def lock_put_def put_val_def)

lemma held_put_free:
  "held c db u v n \<Longrightarrow> lock_holder c db u' = None \<Longrightarrow> held c (lock_put c u' v' ttl db) u v n"
  using held_put [of c db u v n u'] held_holder [of c db u v n] by (cases "u' = u") auto

lemma held_drop_other:
  "held c db u v n \<Longrightarrow> lock_holder c db u' = Some (RText v') \<Longrightarrow> u' \<noteq> u \<or> v' \<noteq> v \<Longrightarrow>
   held c (drop_key (lockKey c u') db) u v n"
  using held_drop [of c db u v n u'] held_holder [of c db u v n] by (cases "u' = u") auto

lemma held_wait:
  "held c db u v (d + n) \<Longrightarrow> held c (db\<lparr>db_now := db_now db + d\<rparr>) u v n"
  by (auto simp: held_def algebra_simps)

lemma held_new:
  "ttl = 0 \<or> n < ttl \<Longrightarrow> held c (lock_put c u v ttl db) u v n"
  by (auto simp: held_def lock_put_def put_val_def deadline_def visible_def)

lemma lock_exec_acquire:
  assumes "lawful_redis R \<alpha>" "held c (\<alpha> s) u v n"
    and "lock_exec R wait c (LAcquire u' sc tok ttl) s = (b, s')"
  shows "held c (\<alpha> s') u v n \<and> \<not> (u' = u \<and> b)"
proof -
  obtain r s1 where A: "AcquireUserLock R c tok u' sc ttl s = (r, s1)"
    by (cases "AcquireUserLock R c tok u' sc ttl s")
  have s1: "s' = s1" and b: "b = (case r of Inl _ \<Rightarrow> False | Inr (_, ok) \<Rightarrow> ok)"
    using assms(3) A by (auto split: sum.splits prod.splits)
  have busy: "lock_holder c (\<alpha> s) u \<noteq> None" using held_holder [OF assms(2)] by simp
  from A show ?thesis
    by (cases rule: acquire_cases [OF assms(1)])
      (use assms(2) busy s1 b in \<open>auto intro: held_put_free\<close>)
qed

lemma lock_exec_release:
  assumes "lawful_redis R \<alpha>" "held c (\<alpha> s) u v n" "keeps u v (LRelease u' sc tok)"
  shows "held c (\<alpha> (snd (ReleaseUserLock R c u' sc tok s))) u v n"
proof -
  obtain e s1 where A: "ReleaseUserLock R c u' sc tok s = (e, s1)"
    by (cases "ReleaseUserLock R c u' sc tok s")
  from A have "held c (\<alpha> s1) u v n"
    by (cases rule: release_cases [OF assms(1)])
      (use assms(2,3) held_holder [OF assms(2)] in \<open>auto simp: keeps_def intro: held_drop_other\<close>)
  with A show ?thesis by simp
qed

lemma lock_exec_force:
  assumes "lawful_redis R \<alpha>" "held c (\<alpha> s) u v n" "u' \<noteq> u"
  shows "held c (\<alpha> (snd (ForceReleaseUserLock R c u' s))) u v n"
proof -
  obtain e s1 where A: "ForceReleaseUserLock R c u' s = (e, s1)"
    by (cases "ForceReleaseUserLock R c u' s")
  show ?thesis
    using force_cases [OF assms(1) A] A assms(2,3) by (auto intro: held_drop)
qed

lemma lock_exec_held:
  assumes "lawful_redis R \<alpha>" "lawful_clock wait \<alpha>" "keeps u v x"
    and "held c (\<alpha> s) u v (elapsed (x # xs))" "lock_exec R wait c x s = (b, s')"
  shows "held c (\<alpha> s') u v (elapsed xs) \<and> \<not> wins u x b"
proof (cases x)
  case (LAcquire u' sc tok ttl)
  with lock_exec_acquire [OF assms(1), of c s u v "elapsed xs" wait u' sc tok ttl b s'] assms(4,5)
  show ?thesis by (auto simp: wins_def)
next
  case (LRelease u' sc tok)
  with lock_exec_release [OF assms(1), of c s u v "elapsed xs" u' sc tok] assms(3-5)
  show ?thesis by (auto simp: wins_def)
next
  case (LForce u')
  with lock_exec_force [OF assms(1), of c s u v "elapsed xs" u'] assms(3-5)
  show ?thesis by (auto simp: wins_def keeps_def)
next
  case (LWait d)
  with assms(2,4,5) held_wait [of c "\<alpha> s" u v d "elapsed xs"] show ?thesis
    by (auto simp: wins_def lawful_clock_def)
qed

lemma lock_run_held:
  assumes "lawful_redis R \<alpha>" "lawful_clock wait \<alpha>"
  shows "list_all (keeps u v) xs \<Longrightarrow> held c (\<alpha> s) u v (elapsed xs) \<Longrightarrow>
    lock_run R wait c xs s = (bs, s') \<Longrightarrow>
    held c (\<alpha> s') u v 0 \<and> length bs = length xs \<and> (\<forall>i < length xs. \<not> wins u (xs ! i) (bs ! i))"
proof (induction xs arbitrary: s bs)
  case (Cons x xs)
  obtain b s1 where x: "lock_exec R wait c x s = (b, s1)" by (cases "lock_exec R wait c x s")
  obtain bs1 where xs: "lock_run R wait c xs s1 = (bs1, s')" and bs: "bs = b # bs1"
    using Cons.prems(3) x by (auto simp: Let_def split_beta prod_eq_iff)
  have step: "held c (\<alpha> s1) u v (elapsed xs)" "\<not> wins u x b"
    using lock_exec_held [OF assms _ Cons.prems(2) x] Cons.prems(1) by auto
  from Cons.IH [OF _ step(1) xs] Cons.prems(1) have
    "held c (\<alpha> s') u v 0" "length bs1 = length xs" "\<forall>i < length xs. \<not> wins u (xs ! i) (bs1 ! i)"
    by auto
  with step(2) show ?case by (auto simp: bs nth_Cons split: nat.splits)
qed simp

text \<open>
  C1. The user lock excludes: once a user's lock is won, no other acquisition for that user
  succeeds and the lock keeps the winner's value, whatever calls follow and however many of them
  fail, until the lock is released with that same value, forced, or its time to live has passed.
\<close>

theorem user_lock_exclusive:
  assumes "lawful_redis R \<alpha>" "lawful_clock wait \<alpha>"
    and "AcquireUserLock R c tok u sc ttl s = (Inr (t, True), s1)"
    and "list_all (keeps u (lock_value sc tok)) xs" "ttl = 0 \<or> elapsed xs < ttl"
    and "lock_run R wait c xs s1 = (bs, s2)"
  shows "t = tok \<and> lock_holder c (\<alpha> s2) u = Some (RText (lock_value sc tok))
    \<and> (\<forall>i < length xs. \<not> wins u (xs ! i) (bs ! i))"
proof -
  have won: "t = tok" "\<alpha> s1 = lock_put c u (lock_value sc tok) ttl (\<alpha> s)"
    by (cases rule: acquire_cases [OF assms(1,3)]; simp)+
  have "held c (\<alpha> s1) u (lock_value sc tok) (elapsed xs)"
    unfolding won(2) by (rule held_new) (rule assms(5))
  from lock_run_held [OF assms(1,2,4) this assms(6)] won(1) show ?thesis
    by (auto dest: held_holder)
qed

lemma user_lock_exclusive_witness:
  "lock_holder [] (snd (lock_run ref_redis ref_wait []
       [LWait 5, LAcquire 1 ''x'' ''t2'' 9, LRelease 1 ''x'' ''t2'', LForce 2]
       (snd (AcquireUserLock ref_redis [] ''t1'' 1 ''x'' 10 empty_db)))) 1
   = Some (RText ''x:t1'')"
proof -
  let ?xs = "[LWait 5, LAcquire 1 ''x'' ''t2'' 9, LRelease 1 ''x'' ''t2'', LForce 2]"
  let ?s1 = "snd (AcquireUserLock ref_redis [] ''t1'' 1 ''x'' 10 empty_db)"
  have a: "AcquireUserLock ref_redis [] ''t1'' 1 ''x'' 10 empty_db = (Inr (''t1'', True), ?s1)"
    by (simp add: AcquireUserLock_def empty_db_def live_val_def)
  have k: "list_all (keeps 1 (lock_value ''x'' ''t1'')) ?xs"
    by (simp add: keeps_def lock_value_def)
  obtain bs s2 where r: "lock_run ref_redis ref_wait [] ?xs ?s1 = (bs, s2)"
    by (cases "lock_run ref_redis ref_wait [] ?xs ?s1")
  have "lock_holder [] s2 1 = Some (RText (lock_value ''x'' ''t1''))"
    using user_lock_exclusive [OF lawful_ref_redis lawful_ref_wait a k _ r] by simp
  with r show ?thesis by (simp add: lock_value_def)
qed

subsection \<open>The ban list\<close>

lemma swap_if_less_mset:
  "i < length xs \<Longrightarrow> j < length xs \<Longrightarrow> mset (swap_if_less i j xs) = mset xs"
  unfolding swap_if_less_def
  by (cases "i = j") (simp_all add: mset_swap list_update_swap [of i j])

lemma swap_if_less_nth:
  assumes "i < j" "j < length xs"
  shows "k < i \<Longrightarrow> swap_if_less i j xs ! k = xs ! k"
    and "swap_if_less i j xs ! i = min (xs ! i) (xs ! j)"
    and "swap_if_less i j xs ! j = max (xs ! i) (xs ! j)"
    and "i < k \<Longrightarrow> k \<noteq> j \<Longrightarrow> swap_if_less i j xs ! k = xs ! k"
  using assms by (auto simp: swap_if_less_def)

lemma sort_inner_mset:
  "i < length xs \<Longrightarrow> mset (sort_inner i j xs) = mset xs"
  by (induction i j xs rule: sort_inner.induct)
    (subst sort_inner.simps, simp add: swap_if_less_mset)

lemma sort_inner_before: "i < j \<Longrightarrow> k < i \<Longrightarrow> sort_inner i j xs ! k = xs ! k"
proof (induction i j xs rule: sort_inner.induct)
  case (1 i j xs)
  then show ?case
    by (subst sort_inner.simps) (simp add: swap_if_less_nth(1))
qed

lemma sort_inner_least:
  assumes "i < j" "\<And>k. i < k \<Longrightarrow> k < j \<Longrightarrow> k < length xs \<Longrightarrow> xs ! i \<le> xs ! k"
  shows "i < k \<Longrightarrow> k < length xs \<Longrightarrow> sort_inner i j xs ! i \<le> sort_inner i j xs ! k"
  using assms
proof (induction i j xs rule: sort_inner.induct)
  case (1 i j xs)
  show ?case
  proof (cases "j < length xs")
    case True
    have "swap_if_less i j xs ! i \<le> swap_if_less i j xs ! m"
      if m: "i < m" "m < Suc j" "m < length xs" for m
    proof (cases "m = j")
      case True
      then show ?thesis using swap_if_less_nth [OF 1(4) \<open>j < length xs\<close>] by simp
    next
      case False
      with m have "m < j" by simp
      with 1(5) [of m] m swap_if_less_nth [OF 1(4) True] False show ?thesis by simp
    qed
    with 1(1) [OF True 1(2)] 1(3,4) True show ?thesis
      by (subst (1 2) sort_inner.simps) simp
  next
    case False
    with 1(2-5) show ?thesis by (subst (1 2) sort_inner.simps) simp
  qed
qed

lemma mset_drop_eq:
  assumes "mset ys = mset xs" "take i ys = take i xs"
  shows "mset (drop i ys) = mset (drop i xs)"
  using assms by (metis append_take_drop_id mset_append add_left_cancel)

lemma sort_outer_correct:
  assumes "sorted (take i xs)" "\<And>a b. a \<in> set (take i xs) \<Longrightarrow> b \<in> set (drop i xs) \<Longrightarrow> a \<le> b"
  shows "sorted (sort_outer i xs) \<and> mset (sort_outer i xs) = mset xs"
  using assms
proof (induction i xs rule: sort_outer.induct)
  case (1 i xs)
  show ?case
  proof (cases "i < length xs")
    case False
    with 1(2) show ?thesis by (subst (1 2) sort_outer.simps) simp
  next
    case True
    define ys where "ys = sort_inner i (Suc i) xs"
    have len: "length ys = length xs" by (simp add: ys_def)
    have ms: "mset ys = mset xs" using sort_inner_mset [OF True] by (simp add: ys_def)
    have tk: "take i ys = take i xs"
      by (rule nth_equalityI) (simp_all add: len ys_def sort_inner_before)
    have "ys ! i \<le> ys ! k" if "i < k" "k < length xs" for k
      unfolding ys_def by (rule sort_inner_least) (use that in auto)
    then have least: "ys ! i \<le> b" if "b \<in> set (drop (Suc i) ys)" for b
      using that len by (fastforce simp: in_set_conv_nth)
    have dr: "set (drop i ys) = set (drop i xs)"
      using mset_drop_eq [OF ms tk] by (metis set_mset_mset)
    have split: "take (Suc i) ys = take i xs @ [ys ! i]"
      using True len tk by (simp add: take_Suc_conv_app_nth)
    have low: "a \<le> b" if "a \<in> set (take i xs)" "b \<in> set (drop i ys)" for a b
      using 1(3) that dr by simp
    have yi: "ys ! i \<in> set (drop i ys)"
      using True len by (metis Cons_nth_drop_Suc list.set_intros(1))
    have sub: "set (drop (Suc i) ys) \<subseteq> set (drop i ys)"
      by (rule set_drop_subset_set_drop) simp
    have srt: "sorted (take (Suc i) ys)"
      unfolding split using 1(2) low yi by (auto simp: sorted_append)
    have sep: "a \<le> b" if "a \<in> set (take (Suc i) ys)" "b \<in> set (drop (Suc i) ys)" for a b
      using that low sub least unfolding split by auto
    have "sorted (sort_outer (Suc i) ys) \<and> mset (sort_outer (Suc i) ys) = mset ys"
      using 1(1) [OF True] srt sep unfolding ys_def by blast
    with ms True show ?thesis by (subst (1 2) sort_outer.simps) (simp add: ys_def)
  qed
qed

lemma sort_outer_sort: "sort_outer 0 xs = sort xs"
  using sort_outer_correct [of 0 xs] by (metis empty_iff list.set(1) properties_for_sort sorted_simps(1) take0)

text \<open>The ban set, as the numbers its members stand for.\<close>

definition banned :: "redis_db \<Rightarrow> int set" where
  "banned db = {u. itoa u \<in> set (db_sets db bannedUsersKey)}"

lemma ban_step:
  "banned (snd (redis_step (CSAdd bannedUsersKey (itoa u)) db)) = insert u (banned db)"
  "banned (snd (redis_step (CSRem bannedUsersKey (itoa u)) db)) = banned db - {u}"
  by (auto simp: banned_def)

lemma ban_steps:
  assumes "lawful_redis R \<alpha>"
  shows "BanUser R u s = (None, s1) \<Longrightarrow> banned (\<alpha> s1) = insert u (banned (\<alpha> s))"
    and "UnbanUser R u s = (b, None, s1) \<Longrightarrow>
      banned (\<alpha> s1) = banned (\<alpha> s) - {u} \<and> (b \<longleftrightarrow> u \<in> banned (\<alpha> s))"
    and "IsUserBanned R u s = (b, None, s1) \<Longrightarrow> \<alpha> s1 = \<alpha> s \<and> (b \<longleftrightarrow> u \<in> banned (\<alpha> s))"
    and "ListBannedUsers R s = (Inr out, s1) \<Longrightarrow>
      \<alpha> s1 = \<alpha> s \<and> out = sort (parse_ids (db_sets (\<alpha> s) bannedUsersKey))"
proof -
  assume b: "BanUser R u s = (None, s1)"
  show "banned (\<alpha> s1) = insert u (banned (\<alpha> s))"
    using exec_cases [OF assms b [unfolded BanUser_def]] ban_step(1) by simp
next
  assume b: "UnbanUser R u s = (b, None, s1)"
  show "banned (\<alpha> s1) = banned (\<alpha> s) - {u} \<and> (b \<longleftrightarrow> u \<in> banned (\<alpha> s))"
    by (rule call_cases [OF assms, of "CSRem bannedUsersKey (itoa u)" s])
      (use b in \<open>auto simp: UnbanUser_def banned_def of_flag_def split: if_splits\<close>)
next
  assume b: "IsUserBanned R u s = (b, None, s1)"
  show "\<alpha> s1 = \<alpha> s \<and> (b \<longleftrightarrow> u \<in> banned (\<alpha> s))"
    by (rule call_cases [OF assms, of "CSIsMember bannedUsersKey (itoa u)" s])
      (use b in \<open>auto simp: IsUserBanned_def banned_def of_flag_def split: if_splits\<close>)
next
  assume b: "ListBannedUsers R s = (Inr out, s1)"
  show "\<alpha> s1 = \<alpha> s \<and> out = sort (parse_ids (db_sets (\<alpha> s) bannedUsersKey))"
    by (rule call_cases [OF assms, of "CSMembers bannedUsersKey" s])
      (use b in \<open>auto simp: ListBannedUsers_def sort_outer_sort\<close>)
qed

text \<open>
  Bans: after a ban that reported no error the user is banned and nobody else's state
  changed, after an unban the user is not; the check answers membership; and the list the
  operator sees is the parsed members in ascending order, with nothing lost or repeated by the
  in-place exchange sort.
\<close>

theorem ban_operations:
  assumes "lawful_redis R \<alpha>"
  shows "(BanUser R u s = (None, s1) \<longrightarrow> banned (\<alpha> s1) = insert u (banned (\<alpha> s)))
    \<and> (UnbanUser R u s = (b, None, s1) \<longrightarrow>
         banned (\<alpha> s1) = banned (\<alpha> s) - {u} \<and> (b \<longleftrightarrow> u \<in> banned (\<alpha> s)))
    \<and> (IsUserBanned R u s = (b, None, s1) \<longrightarrow> \<alpha> s1 = \<alpha> s \<and> (b \<longleftrightarrow> u \<in> banned (\<alpha> s)))
    \<and> (ListBannedUsers R s = (Inr out, s1) \<longrightarrow>
         \<alpha> s1 = \<alpha> s \<and> out = sort (parse_ids (db_sets (\<alpha> s) bannedUsersKey)))"
  by (intro conjI impI ban_steps [OF assms]; assumption)

lemma ban_operations_witness:
  "banned (snd (BanUser ref_redis 7 empty_db)) = insert 7 (banned empty_db)
   \<and> (let s = snd (BanUser ref_redis 7 (snd (BanUser ref_redis 42 empty_db)))
      in fst (ListBannedUsers ref_redis s) = Inr (sort (parse_ids (db_sets s bannedUsersKey))))"
proof -
  have ok: "BanUser ref_redis u s = (None, snd (BanUser ref_redis u s))" for u s
    by (simp add: BanUser_def exec_def err_of_def)
  let ?s = "snd (BanUser ref_redis 7 (snd (BanUser ref_redis 42 empty_db)))"
  obtain out s2 where l: "ListBannedUsers ref_redis ?s = (Inr out, s2)"
    by (simp add: ListBannedUsers_def)
  show ?thesis
    using ban_operations [OF lawful_ref_redis, of 7 empty_db "snd (BanUser ref_redis 7 empty_db)"] ok
      ban_operations [OF lawful_ref_redis, of 0 ?s s2 False out] l
    by simp
qed

subsection \<open>The sliding window\<close>

lemma hd_show_nat: "10 \<le> n \<Longrightarrow> hd (show_nat n) = hd (show_nat (n div 10))"
  by (subst show_nat.simps) (simp add: hd_append)

lemma hd_show_f6:
  assumes "r < 1000000"
  shows "hd (show_nat (1000000 + r)) = digit_char 1"
proof -
  let ?n = "1000000 + r"
  have d: "?n div 10 div 10 div 10 div 10 div 10 div 10 = 1"
    using assms by (simp add: div_mult2_eq [symmetric])
  have "hd (show_nat ?n) = hd (show_nat (?n div 10 div 10 div 10 div 10 div 10 div 10))"
    by (simp add: hd_show_nat div_mult2_eq [symmetric] less_eq_div_iff_mult_less_eq)
  also have "\<dots> = digit_char 1" unfolding d by (subst show_nat.simps) simp
  finally show ?thesis .
qed

lemma show_nat_hd_tl: "hd (show_nat m) = hd (show_nat n) \<Longrightarrow> tl (show_nat m) = tl (show_nat n) \<Longrightarrow> m = n"
  by (metis list.collapse show_nat_inject show_nat_nonempty)

lemma show_f6_inject [simp]: "show_f6 u = show_f6 v \<longleftrightarrow> u = v"
proof
  assume eq: "show_f6 u = show_f6 v"
  have pre: "takeWhile (\<lambda>x. x \<noteq> CHR ''.'') (show_nat n @ ''.'' @ r) = show_nat n" for n r
  proof -
    have "\<And>x. x \<in> set (show_nat n) \<Longrightarrow> x \<noteq> CHR ''.''"
      by (auto dest!: show_nat_digits simp: char_class_defs code_of_def)
    then show ?thesis by (simp add: takeWhile_append2)
  qed
  have "show_nat (u div 1000000) = show_nat (v div 1000000)"
    using arg_cong [OF eq, of "takeWhile (\<lambda>x. x \<noteq> CHR ''.'')"] by (simp only: show_f6_def pre)
  then have q: "u div 1000000 = v div 1000000" by simp
  with eq have "tl (show_nat (1000000 + u mod 1000000)) = tl (show_nat (1000000 + v mod 1000000))"
    by (simp add: show_f6_def)
  then have "1000000 + u mod 1000000 = 1000000 + v mod (1000000::nat)"
    by (intro show_nat_hd_tl) (simp_all add: hd_show_f6)
  with q show "u = v" by (metis add_left_cancel div_mult_mod_eq)
qed simp

text \<open>
  The requests of one limiter, one per element, each after a pause; what it answers is recorded
  with the time. A request whose call fails is not allowed here.
\<close>

fun rate_run ::
  "'s redis \<Rightarrow> (nat \<Rightarrow> 's \<Rightarrow> 's) \<Rightarrow> string \<Rightarrow> string \<Rightarrow> int \<Rightarrow> int \<Rightarrow> nat \<Rightarrow> nat \<Rightarrow> nat list \<Rightarrow> 's
     \<Rightarrow> (nat \<times> bool) list" where
  "rate_run R wait c scope i limit w t [] s = []"
| "rate_run R wait c scope i limit w t (d # ds) s =
     (let (r, s) = AllowRateLimit R c (t + d) scope i limit w (wait d s) in
      (t + d, r = Inr True) # rate_run R wait c scope i limit w (t + d) ds s)"

text \<open>Every allowed request that is still in the window is a member, and the key outlives it.\<close>

definition covers :: "string \<Rightarrow> nat \<Rightarrow> redis_db \<Rightarrow> nat \<Rightarrow> bool" where
  "covers k w db u \<longleftrightarrow>
     (db_now db < u + w \<longrightarrow>
       (show_f6 u, u) \<in> set (fst (db_zsets db k))
       \<and> (case snd (db_zsets db k) of None \<Rightarrow> True | Some d \<Rightarrow> u + w + 10 * second \<le> d))"

definition zset_ok :: "string \<Rightarrow> redis_db \<Rightarrow> bool" where
  "zset_ok k db \<longleftrightarrow> distinct (map fst (fst (db_zsets db k)))"

lemma covers_live:
  assumes "covers k w db u" "db_now db < u + w"
  shows "(show_f6 u, u) \<in> set (live_zset db k)" "live_zset db k = fst (db_zsets db k)"
    "zset_deadline db k = snd (db_zsets db k)"
proof -
  have "visible (db_now db) (snd (db_zsets db k))"
    using assms by (auto simp: covers_def visible_def split: option.splits)
  then show l: "live_zset db k = fst (db_zsets db k)" by (simp add: live_zset_def)
  then show "(show_f6 u, u) \<in> set (live_zset db k)" using assms by (simp add: covers_def)
  then show "zset_deadline db k = snd (db_zsets db k)" by (auto simp: zset_deadline_def)
qed

lemma covers_wait: "covers k w db u \<Longrightarrow> covers k w (db\<lparr>db_now := db_now db + d\<rparr>) u"
  by (auto simp: covers_def)

lemma covers_step:
  assumes "covers k w db u" "u < t" "db_now db = t"
    and "cm \<in> set (rate_pipeline k w t)"
  shows "covers k w (snd (redis_step cm db)) u"
proof (cases "db_now db < u + w")
  case True
  note live = covers_live [OF assms(1) True]
  have d: "case snd (db_zsets db k) of None \<Rightarrow> True | Some d \<Rightarrow> u + w + 10 * second \<le> d"
    using assms(1) True by (simp add: covers_def)
  have ne: "live_zset db k \<noteq> []" using live(1) by auto
  from assms(4) consider "cm = CZRemRange k (int t - int w)" | "cm = CZCard k"
    | "cm = CZAdd k t (show_f6 t)" | "cm = CExpire k (w + 10 * second)"
    by (auto simp: rate_pipeline_def)
  then show ?thesis
  proof cases
    case 1
    then show ?thesis using live d assms True by (simp add: covers_def Let_def)
  next
    case 2
    then show ?thesis using assms by simp
  next
    case 3
    then show ?thesis using live d assms True by (simp add: covers_def Let_def)
  next
    case 4
    then show ?thesis using live d ne assms True by (simp add: covers_def)
  qed
next
  case False
  have "db_now (snd (redis_step cm db)) = db_now db"
    using assms(4) by (auto simp: rate_pipeline_def Let_def split: option.splits)
  with False show ?thesis by (simp add: covers_def)
qed

lemma rate_step_frame:
  assumes "cm \<in> set (rate_pipeline k w t)" "zset_ok k db"
  shows "db_now (snd (redis_step cm db)) = db_now db" "zset_ok k (snd (redis_step cm db))"
proof -
  show "db_now (snd (redis_step cm db)) = db_now db"
    using assms(1) by (auto simp: rate_pipeline_def Let_def split: option.splits)
  have l: "distinct (map fst (live_zset db k))"
    using assms(2) by (simp add: zset_ok_def live_zset_def)
  have f: "distinct (map fst (filter P (live_zset db k)))" for P
    using l by (simp add: distinct_map_filter)
  show "zset_ok k (snd (redis_step cm db))"
    using assms l f by (auto simp: rate_pipeline_def Let_def zset_ok_def split: option.splits)
qed

lemma rate_prefix:
  assumes "\<forall>cm \<in> set cs. cm \<in> set (rate_pipeline k w t)" "zset_ok k db" "db_now db = t"
    "\<forall>u \<in> A. u < t \<and> covers k w db u"
  shows "zset_ok k (snd (redis_run cs db)) \<and> db_now (snd (redis_run cs db)) = t
    \<and> (\<forall>u \<in> A. covers k w (snd (redis_run cs db)) u)"
  using assms
proof (induction cs arbitrary: db)
  case (Cons cm cs)
  let ?db = "snd (redis_step cm db)"
  have "zset_ok k ?db" "db_now ?db = t" "\<forall>u \<in> A. u < t \<and> covers k w ?db u"
    using Cons.prems rate_step_frame [of cm k w t db] covers_step [of k w db _ t cm] by auto
  with Cons.IH [of ?db] Cons.prems(1) show ?case by (simp add: Let_def split_beta)
qed simp

lemma live_put_zset:
  assumes "visible (db_now db) dl"
  shows "live_zset (put_zset k (ms, dl) db) k = ms"
  using assms by (simp add: live_zset_def)

lemma visible_zset_deadline: "visible (db_now db) (zset_deadline db k)"
  by (auto simp: zset_deadline_def live_zset_def visible_def split: if_splits option.splits)

lemma rate_full:
  assumes "zset_ok k db" "db_now db = t" "\<forall>u \<in> A. u < t \<and> covers k w db u" "finite A"
    and "redis_run (rate_pipeline k w t) db = (rs, db')"
  shows "\<exists>n. rs ! 1 = RpInt (int n) \<and> card {u \<in> A. t < u + w} \<le> n" "covers k w db' t"
proof -
  define db1 where "db1 = snd (redis_step (CZRemRange k (int t - int w)) db)"
  define db3 where "db3 = snd (redis_step (CZAdd k t (show_f6 t)) db1)"
  have n1: "db_now db1 = t" using assms(2) by (simp add: db1_def Let_def)
  have rs: "rs ! 1 = RpInt (int (length (live_zset db1 k)))"
    and db': "db' = snd (redis_step (CExpire k (w + 10 * second)) db3)"
    using assms(5) by (auto simp: rate_pipeline_def db1_def db3_def Let_def split_beta)
  have cov: "covers k w db1 u" if "u \<in> A" for u
    unfolding db1_def by (rule covers_step) (use that assms(2,3) in \<open>auto simp: rate_pipeline_def\<close>)
  have "(\<lambda>u. (show_f6 u, u)) ` {u \<in> A. t < u + w} \<subseteq> set (live_zset db1 k)"
    using covers_live(1) [OF cov] n1 by auto
  then have "card ((\<lambda>u. (show_f6 u, u)) ` {u \<in> A. t < u + w}) \<le> card (set (live_zset db1 k))"
    by (intro card_mono) simp_all
  then have "card {u \<in> A. t < u + w} \<le> length (live_zset db1 k)"
    using card_length [of "live_zset db1 k"] by (simp add: card_image inj_on_def)
  with rs show "\<exists>n. rs ! 1 = RpInt (int n) \<and> card {u \<in> A. t < u + w} \<le> n" by blast
  have l3: "(show_f6 t, t) \<in> set (live_zset db3 k)"
    using visible_zset_deadline [of db1 k]
    by (simp add: db3_def live_put_zset n1)
  have n3: "db_now db3 = t" by (simp add: db3_def n1)
  from l3 have "live_zset db3 k \<noteq> []" by auto
  then have "db' = put_zset k (live_zset db3 k, Some (t + (w + 10 * second))) db3"
    by (simp add: db' n3)
  with l3 show "covers k w db' t" by (simp add: covers_def)
qed

definition window_ok :: "int \<Rightarrow> nat \<Rightarrow> nat set \<Rightarrow> bool" where
  "window_ok limit w A \<longleftrightarrow> (\<forall>a. int (card {u \<in> A. a \<le> u \<and> u < a + w}) \<le> max 0 limit)"

lemma window_ok_insert:
  assumes "window_ok limit w A" "finite A" "card {u \<in> A. t < u + w} \<le> n" "int n < limit"
  shows "window_ok limit w (insert t A)"
  unfolding window_ok_def
proof
  fix a
  show "int (card {u \<in> insert t A. a \<le> u \<and> u < a + w}) \<le> max 0 limit"
  proof (cases "a \<le> t \<and> t < a + w")
    case True
    then have sub: "{u \<in> insert t A. a \<le> u \<and> u < a + w} \<subseteq> insert t {u \<in> A. t < u + w}" by auto
    have "card {u \<in> insert t A. a \<le> u \<and> u < a + w} \<le> Suc (card {u \<in> A. t < u + w})"
      by (rule order.trans [OF card_mono [OF _ sub]]) (use assms(2) in \<open>simp_all add: card_insert_if\<close>)
    with assms(3,4) show ?thesis by simp
  next
    case False
    then have "{u \<in> insert t A. a \<le> u \<and> u < a + w} = {u \<in> A. a \<le> u \<and> u < a + w}" by auto
    with assms(1) show ?thesis by (simp add: window_ok_def)
  qed
qed

lemma allow_step:
  assumes "lawful_redis R \<alpha>" "zset_ok (rateKey c scope i) (\<alpha> s)" "db_now (\<alpha> s) = t"
    and A: "\<forall>u \<in> A. u < t \<and> covers (rateKey c scope i) w (\<alpha> s) u" "finite A" "window_ok limit w A"
    and run: "AllowRateLimit R c t scope i limit w s = (r, s')"
  defines "A' \<equiv> if r = Inr True then insert t A else A"
  shows "zset_ok (rateKey c scope i) (\<alpha> s') \<and> db_now (\<alpha> s') = t \<and> finite A' \<and> window_ok limit w A'
    \<and> (\<forall>u \<in> A'. u \<le> t \<and> covers (rateKey c scope i) w (\<alpha> s') u)"
proof -
  let ?k = "rateKey c scope i" and ?cs = "rate_pipeline (rateKey c scope i) w t"
  have law: "case R ?cs s of (Inl e, s') \<Rightarrow> (\<exists>n. \<alpha> s' = snd (redis_run (take n ?cs) (\<alpha> s)))
      | (Inr rs, s') \<Rightarrow> redis_run ?cs (\<alpha> s) = (rs, \<alpha> s')"
    using assms(1) [unfolded lawful_redis_def, rule_format] .
  have pre: "zset_ok ?k (snd (redis_run (take n ?cs) (\<alpha> s)))
      \<and> db_now (snd (redis_run (take n ?cs) (\<alpha> s))) = t
      \<and> (\<forall>u \<in> A. covers ?k w (snd (redis_run (take n ?cs) (\<alpha> s))) u)" for n
    by (rule rate_prefix) (use assms(2,3) A(1) in \<open>auto dest: in_set_takeD\<close>)
  obtain q s1 where R: "R ?cs s = (q, s1)" by (cases "R ?cs s")
  show ?thesis
  proof (cases q)
    case (Inl e)
    with law R obtain n where "\<alpha> s1 = snd (redis_run (take n ?cs) (\<alpha> s))" by auto
    moreover from run R Inl have "r = Inl e" "s' = s1" by (simp_all add: AllowRateLimit_def)
    ultimately show ?thesis using pre [of n] A by (auto simp: A'_def less_imp_le)
  next
    case (Inr rs)
    with law R have rr: "redis_run ?cs (\<alpha> s) = (rs, \<alpha> s1)" by simp
    then have p: "zset_ok ?k (\<alpha> s1)" "db_now (\<alpha> s1) = t" "\<forall>u \<in> A. covers ?k w (\<alpha> s1) u"
      using pre [of "length ?cs"] by simp_all
    obtain n where n: "rs ! 1 = RpInt (int n)" "card {u \<in> A. t < u + w} \<le> n"
      and cov: "covers ?k w (\<alpha> s1) t"
      using rate_full [OF assms(2,3) A(1,2) rr] by blast
    from run R Inr n(1) have r: "r = Inr (int n < limit)" and s': "s' = s1"
      by (simp_all add: AllowRateLimit_def)
    show ?thesis
    proof (cases "int n < limit")
      case True
      with window_ok_insert [OF A(3,2) n(2)] p cov A r s' show ?thesis
        by (auto simp: A'_def less_imp_le)
    next
      case False
      with p A r s' show ?thesis by (auto simp: A'_def less_imp_le)
    qed
  qed
qed

definition allowed_times :: "(nat \<times> bool) list \<Rightarrow> nat set" where
  "allowed_times out = {t. (t, True) \<in> set out}"

lemma rate_run_window:
  assumes "lawful_redis R \<alpha>" "lawful_clock wait \<alpha>"
  shows "list_all (\<lambda>d. 0 < d) ds \<Longrightarrow> zset_ok (rateKey c scope i) (\<alpha> s) \<Longrightarrow> db_now (\<alpha> s) = t \<Longrightarrow>
    \<forall>u \<in> A. u \<le> t \<and> covers (rateKey c scope i) w (\<alpha> s) u \<Longrightarrow> finite A \<Longrightarrow> window_ok limit w A \<Longrightarrow>
    window_ok limit w (A \<union> allowed_times (rate_run R wait c scope i limit w t ds s))"
proof (induction ds arbitrary: s t A)
  case Nil
  then show ?case by (simp add: allowed_times_def)
next
  case (Cons d ds)
  let ?k = "rateKey c scope i"
  obtain r s' where run: "AllowRateLimit R c (t + d) scope i limit w (wait d s) = (r, s')"
    by (cases "AllowRateLimit R c (t + d) scope i limit w (wait d s)")
  have w: "\<alpha> (wait d s) = (\<alpha> s)\<lparr>db_now := db_now (\<alpha> s) + d\<rparr>"
    using assms(2) [unfolded lawful_clock_def, rule_format] .
  have "zset_ok ?k (\<alpha> (wait d s))" "db_now (\<alpha> (wait d s)) = t + d"
    using Cons.prems(2,3) by (simp_all add: w zset_ok_def)
  moreover have "\<forall>u \<in> A. u < t + d \<and> covers ?k w (\<alpha> (wait d s)) u"
    using Cons.prems(1,4) by (auto simp: w dest: covers_wait [where d = d])
  ultimately have step: "zset_ok ?k (\<alpha> s')" "db_now (\<alpha> s') = t + d"
    "finite (if r = Inr True then insert (t + d) A else A)"
    "window_ok limit w (if r = Inr True then insert (t + d) A else A)"
    "\<forall>u \<in> (if r = Inr True then insert (t + d) A else A). u \<le> t + d \<and> covers ?k w (\<alpha> s') u"
    using allow_step [OF assms(1) _ _ _ Cons.prems(5,6) run] by blast+
  have eq: "A \<union> allowed_times (rate_run R wait c scope i limit w t (d # ds) s) =
      (if r = Inr True then insert (t + d) A else A)
      \<union> allowed_times (rate_run R wait c scope i limit w (t + d) ds s')"
    using run by (auto simp: allowed_times_def)
  have ds: "list_all (\<lambda>d. 0 < d) ds" using Cons.prems(1) by simp
  show ?case
    unfolding eq by (rule Cons.IH [OF ds step(1,2,5,3,4)])
qed

text \<open>
  C29. The rate limit is a sliding window: in a history of requests at distinct times, whatever the
  key held before and whichever calls fail, every interval of the window's length contains at
  most \<open>limit\<close> allowed requests.
\<close>

theorem rate_limit_window:
  assumes "lawful_redis R \<alpha>" "lawful_clock wait \<alpha>" "db_now (\<alpha> s) = t"
    and "zset_ok (rateKey c scope i) (\<alpha> s)" "list_all (\<lambda>d. 0 < d) ds"
  shows "int (card {u. (u, True) \<in> set (rate_run R wait c scope i limit w t ds s)
      \<and> a \<le> u \<and> u < a + w}) \<le> max 0 limit"
proof -
  have "window_ok limit w {}" by (simp add: window_ok_def)
  with rate_run_window [OF assms(1,2,5,4,3), of "{}" w limit]
  have "window_ok limit w (allowed_times (rate_run R wait c scope i limit w t ds s))" by simp
  then show ?thesis by (simp add: window_ok_def allowed_times_def)
qed

lemma rate_limit_window_witness:
  "int (card {u. (u, True) \<in> set (rate_run ref_redis ref_wait [] ''user'' 7 2 60000000 0
      [5, 6, 7] empty_db) \<and> 0 \<le> u \<and> u < 0 + 60000000}) \<le> max 0 2"
  by (rule rate_limit_window [OF lawful_ref_redis lawful_ref_wait])
    (simp_all add: empty_db_def zset_ok_def)

end
