(* ===== verification/Settings.thy ===== *)
theory Settings
  imports Redisx Config
begin

text \<open>
  \<open>go/internal/runtime\<close>: the registry of settings an operator can change while the program runs,
  their validation, parsing and storage in the Redis hash of \<open>redisx/runtime.go\<close>, and the readers
  that fall back to the start-up configuration (\<open>store.go\<close>, \<open>helpers.go\<close>). A value of type \<open>any\<close> is
  one of the dynamic types the code puts there. The Russian labels are left out.
\<close>

subsection \<open>The registry (registry.go)\<close>

datatype value_type = TypeInt | TypeBool | TypeEnum | TypeList

record setting =
  RedisKey :: string
  ConfigField :: string
  Service :: string
  ValueType :: value_type
  MinValue :: int
  MaxValue :: int
  DefaultInt :: int
  DefaultBool :: bool
  DefaultStr :: string
  Allowed :: "string list"
  LabelEN :: string
  Unit :: string

definition ServiceOrder :: "string list" where
  "ServiceOrder = [''youtube'', ''tiktok'', ''x'', ''spotify'', ''yandexmusic'', ''soundcloud'',
     ''pinterest'', ''instagram'', ''reddit'']"

definition intSetting ::
  "string \<Rightarrow> string \<Rightarrow> string \<Rightarrow> string \<Rightarrow> string \<Rightarrow> int \<Rightarrow> int \<Rightarrow> int \<Rightarrow> setting" where
  "intSetting k field service en u lo hi def =
     \<lparr>RedisKey = k, ConfigField = field, Service = service, ValueType = TypeInt, MinValue = lo,
      MaxValue = hi, DefaultInt = def, DefaultBool = False, DefaultStr = [], Allowed = [],
      LabelEN = en, Unit = u\<rparr>"

definition boolSetting :: "string \<Rightarrow> string \<Rightarrow> string \<Rightarrow> string \<Rightarrow> bool \<Rightarrow> setting" where
  "boolSetting k field service en def =
     \<lparr>RedisKey = k, ConfigField = field, Service = service, ValueType = TypeBool, MinValue = 0,
      MaxValue = 0, DefaultInt = 0, DefaultBool = def, DefaultStr = [], Allowed = [],
      LabelEN = en, Unit = []\<rparr>"

text \<open>The composite literals of the registry.\<close>

definition choiceSetting ::
  "string \<Rightarrow> string \<Rightarrow> string \<Rightarrow> value_type \<Rightarrow> string \<Rightarrow> string list \<Rightarrow> string \<Rightarrow> setting" where
  "choiceSetting k field service typ def allowed en =
     \<lparr>RedisKey = k, ConfigField = field, Service = service, ValueType = typ, MinValue = 0,
      MaxValue = 0, DefaultInt = 0, DefaultBool = False, DefaultStr = def, Allowed = allowed,
      LabelEN = en, Unit = []\<rparr>"

definition registry :: "setting list" where
  "registry = [
     intSetting ''global.document_limit_mb'' ''SendDocumentLimitMB'' ''global'' ''Document limit'' ''MB'' 1 1999 1999,
     intSetting ''global.telegram_upload_limit_mb'' ''TelegramUploadLimitMB'' ''global'' ''Telegram upload limit'' ''MB'' 1 1999 50,
     intSetting ''global.default_timeout_sec'' ''DownloadTimeoutSeconds'' ''global'' ''Default timeout'' ''sec'' 10 3600 60,
     intSetting ''global.broadcast_delay_ms'' ''BroadcastDelayMS'' ''global'' ''Broadcast delay'' ''ms'' 20 5000 50,
     intSetting ''global.broadcast_batch_size'' ''BroadcastBatchSize'' ''global'' ''Broadcast batch size'' [] 1 100 20,
     intSetting ''youtube.max_file_mb'' ''YouTubeMaxFileSizeMB'' ''youtube'' ''Max file'' ''MB'' 1 1999 1999,
     intSetting ''youtube.timeout_sec'' ''YouTubeDownloadTimeoutSeconds'' ''youtube'' ''Timeout'' ''sec'' 30 3600 600,
     boolSetting ''youtube.transcode_enabled'' ''YouTubeTranscodeEnabled'' ''youtube'' ''Transcode enabled'' True,
     intSetting ''youtube.max_duration_sec'' ''YouTubeMaxDurationSec'' ''youtube'' ''Max duration'' ''sec'' 0 86400 0,
     boolSetting ''youtube.compress_long_enabled'' ''YouTubeCompressLongEnabled'' ''youtube'' ''Compress long videos'' True,
     intSetting ''youtube.compress_min_duration_sec'' ''YouTubeCompressMinDurationSec'' ''youtube'' ''Compress min duration'' ''sec'' 60 86400 600,
     boolSetting ''youtube.mp3_enabled'' [] ''youtube'' ''Mp3 button'' True,
     boolSetting ''youtube.trim_enabled'' [] ''youtube'' ''Trim button'' True,
     choiceSetting ''youtube.allowed_qualities'' [] ''youtube'' TypeList ''144,240,360,480,720,1080'' [''144'', ''240'', ''360'', ''480'', ''720'', ''1080''] ''Allowed qualities'',
     choiceSetting ''youtube.allowed_ratios'' [] ''youtube'' TypeList ''16_9,21_9,9_16'' [''16_9'', ''21_9'', ''9_16''] ''Allowed ratios'',
     intSetting ''tiktok.max_file_mb'' ''SendVideoLimitMB'' ''tiktok'' ''Max file'' ''MB'' 1 500 50,
     intSetting ''tiktok.timeout_sec'' ''DownloadTimeoutSeconds'' ''tiktok'' ''Timeout'' ''sec'' 10 300 60,
     intSetting ''tiktok.max_duration_sec'' ''TikTokMaxDurationSec'' ''tiktok'' ''Max duration'' ''sec'' 0 600 0,
     boolSetting ''tiktok.allow_photo_slideshows'' ''TikTokAllowPhotoSlideshows'' ''tiktok'' ''Allow photo slideshows'' True,
     boolSetting ''tiktok.fallback_to_document'' ''TikTokFallbackToDocument'' ''tiktok'' ''Fallback to document'' True,
     intSetting ''tiktok.carousel_max_items'' ''TikTokCarouselMaxItems'' ''tiktok'' ''Max carousel images'' [] 1 50 20,
     boolSetting ''tiktok.carousel_audio_enabled'' ''TikTokCarouselAudioEnabled'' ''tiktok'' ''Carousel audio'' True,
     intSetting ''x.max_file_mb'' ''SendVideoLimitMB'' ''x'' ''Max file'' ''MB'' 1 500 50,
     intSetting ''x.timeout_sec'' ''DownloadTimeoutSeconds'' ''x'' ''Timeout'' ''sec'' 10 300 60,
     intSetting ''x.max_items_per_post'' ''XMaxItemsPerPost'' ''x'' ''Max items per post'' [] 1 10 4,
     boolSetting ''x.allow_gif'' ''XAllowGIF'' ''x'' ''Allow GIF'' True,
     boolSetting ''x.allow_video'' ''XAllowVideo'' ''x'' ''Allow video'' True,
     boolSetting ''x.fallback_to_document'' ''XFallbackToDocument'' ''x'' ''Fallback to document'' True,
     boolSetting ''x.auto_translate'' ''XAutoTranslate'' ''x'' ''Auto-translate post text'' True,
     boolSetting ''spotify.enabled'' ''SpotifyEnabled'' ''spotify'' ''Enabled'' False,
     boolSetting ''spotify.download_enabled'' ''SpotifyDownloadEnabled'' ''spotify'' ''Download enabled'' True,
     intSetting ''spotify.max_file_mb'' ''SendDocumentLimitMB'' ''spotify'' ''Max file'' ''MB'' 1 1999 1999,
     intSetting ''spotify.track_timeout_sec'' ''SpotifyTrackTimeoutSeconds'' ''spotify'' ''Track timeout'' ''sec'' 10 300 60,
     intSetting ''spotify.api_timeout_sec'' ''SpotifyAPITimeoutSeconds'' ''spotify'' ''API timeout'' ''sec'' 5 60 15,
     intSetting ''spotify.max_tracks_per_album'' ''SpotifyLockMaxTracks'' ''spotify'' ''Max tracks per album'' [] 1 100 50,
     intSetting ''spotify.download_concurrency'' ''SpotifyDownloadConcurrency'' ''spotify'' ''Download concurrency'' [] 1 5 2,
     boolSetting ''yandexmusic.enabled'' ''YandexMusicEnabled'' ''yandexmusic'' ''Enabled'' False,
     boolSetting ''yandexmusic.download_enabled'' ''YandexMusicDownloadEnabled'' ''yandexmusic'' ''Download enabled'' True,
     intSetting ''yandexmusic.max_file_mb'' ''SendDocumentLimitMB'' ''yandexmusic'' ''Max file'' ''MB'' 1 1999 1999,
     intSetting ''yandexmusic.track_timeout_sec'' ''YandexMusicTrackTimeoutSeconds'' ''yandexmusic'' ''Track timeout'' ''sec'' 10 300 60,
     intSetting ''yandexmusic.api_timeout_sec'' ''YandexMusicAPITimeoutSeconds'' ''yandexmusic'' ''API timeout'' ''sec'' 5 60 15,
     intSetting ''yandexmusic.max_tracks_per_album'' ''YandexMusicLockMaxTracks'' ''yandexmusic'' ''Max tracks per album'' [] 1 100 50,
     intSetting ''yandexmusic.download_concurrency'' ''YandexMusicDownloadConcurrency'' ''yandexmusic'' ''Download concurrency'' [] 1 5 2,
     boolSetting ''soundcloud.enabled'' ''SoundCloudEnabled'' ''soundcloud'' ''Enabled'' True,
     boolSetting ''soundcloud.download_enabled'' ''SoundCloudDownloadEnabled'' ''soundcloud'' ''Download enabled'' False,
     intSetting ''soundcloud.max_file_mb'' ''SendVideoLimitMB'' ''soundcloud'' ''Max file'' ''MB'' 1 500 50,
     intSetting ''soundcloud.track_timeout_sec'' ''SoundCloudTrackTimeoutSeconds'' ''soundcloud'' ''Track timeout'' ''sec'' 10 300 30,
     intSetting ''soundcloud.max_tracks_per_playlist'' ''SoundCloudMaxTracks'' ''soundcloud'' ''Max playlist tracks'' [] 1 500 100,
     choiceSetting ''soundcloud.audio_format'' ''SoundCloudDLOutputFormat'' ''soundcloud'' TypeEnum ''mp3'' [''mp3'', ''opus'', ''aac'', ''flac'', ''wav''] ''Audio format'',
     intSetting ''soundcloud.download_concurrency'' ''SoundCloudDownloadConcurrency'' ''soundcloud'' ''Download concurrency'' [] 1 5 1,
     boolSetting ''pinterest.enabled'' ''PinterestEnabled'' ''pinterest'' ''Enabled'' True,
     intSetting ''pinterest.timeout_sec'' ''PinterestTimeoutSeconds'' ''pinterest'' ''Timeout'' ''sec'' 5 300 30,
     intSetting ''pinterest.max_file_mb'' ''SendVideoLimitMB'' ''pinterest'' ''Max file'' ''MB'' 1 500 50,
     intSetting ''pinterest.max_items_per_board'' ''PinterestMaxItems'' ''pinterest'' ''Max items per board'' [] 1 50 10,
     boolSetting ''pinterest.download_images'' ''PinterestDownloadImages'' ''pinterest'' ''Download images'' True,
     boolSetting ''pinterest.download_videos'' ''PinterestDownloadVideos'' ''pinterest'' ''Download videos'' True,
     boolSetting ''instagram.enabled'' ''InstagramEnabled'' ''instagram'' ''Enabled'' True,
     intSetting ''instagram.timeout_sec'' ''InstagramTimeoutSeconds'' ''instagram'' ''Timeout'' ''sec'' 10 600 60,
     intSetting ''instagram.max_file_mb'' ''InstagramMaxFileMB'' ''instagram'' ''Max file'' ''MB'' 1 500 50,
     intSetting ''instagram.carousel_max_items'' ''InstagramCarouselMaxItems'' ''instagram'' ''Max carousel images'' [] 1 50 20,
     boolSetting ''reddit.enabled'' ''RedditEnabled'' ''reddit'' ''Enabled'' True,
     intSetting ''reddit.timeout_sec'' ''DownloadTimeoutSeconds'' ''reddit'' ''Timeout'' ''sec'' 10 300 30,
     intSetting ''reddit.max_file_mb'' ''SendVideoLimitMB'' ''reddit'' ''Max file'' ''MB'' 1 500 50,
     intSetting ''reddit.max_comments'' ''RedditMaxComments'' ''reddit'' ''Max comments in article'' [] 0 100 10,
     intSetting ''reddit.max_media_items'' ''RedditMaxMediaItems'' ''reddit'' ''Max media items'' [] 1 50 10,
     boolSetting ''reddit.telegraph_enabled'' ''RedditTelegraphEnabled'' ''reddit'' ''Telegraph articles'' True,
     boolSetting ''reddit.telegraph_translate'' ''RedditTelegraphTranslate'' ''reddit'' ''Translate button'' True]"

text \<open>\<open>init\<close> fills the map in order, so a repeated key would be the last one.\<close>

definition Lookup :: "string \<Rightarrow> setting option" where
  "Lookup k = map_of (rev (List.map (\<lambda>d. (RedisKey d, d)) registry)) k"

definition ServiceSettings :: "string \<Rightarrow> setting list" where
  "ServiceSettings service = filter (\<lambda>d. Service d = service) registry"

subsection \<open>Values (store.go)\<close>

datatype val = VInt int | VBool bool | VStr string | VList "string list"

text \<open>The verb \<open>%v\<close>.\<close>

fun fmt_v :: "val \<Rightarrow> string" where
  "fmt_v (VInt n) = itoa n"
| "fmt_v (VBool b) = (if b then ''true'' else ''false'')"
| "fmt_v (VStr s) = s"
| "fmt_v (VList xs) = ''['' @ join_str '' '' xs @ '']''"

definition is_true :: "val \<Rightarrow> bool" where
  "is_true v = (case v of VBool b \<Rightarrow> b | _ \<Rightarrow> False)"

definition serialise :: "val \<Rightarrow> setting \<Rightarrow> string" where
  "serialise v def =
     (case ValueType def of
        TypeBool \<Rightarrow> if is_true v then ''1'' else ''0''
      | _ \<Rightarrow> fmt_v v)"

definition deserialise :: "string \<Rightarrow> setting \<Rightarrow> val" where
  "deserialise raw def =
     (case ValueType def of
        TypeBool \<Rightarrow> VBool (raw = ''1'' \<or> to_lower raw = ''true'')
      | TypeEnum \<Rightarrow> VStr raw
      | TypeList \<Rightarrow> VStr raw
      | TypeInt \<Rightarrow> VInt (atoi_value raw))"

definition splitList :: "string \<Rightarrow> string list" where
  "splitList raw = filter (\<lambda>p. p \<noteq> []) (List.map trim_space (split_char CHR '','' raw))"

fun allowedValue :: "string list \<Rightarrow> string \<Rightarrow> bool" where
  "allowedValue [] v = False"
| "allowedValue (a # as) v = (if a = v then True else allowedValue as v)"

fun first_invalid :: "string list \<Rightarrow> string list \<Rightarrow> string option" where
  "first_invalid allowed [] = None"
| "first_invalid allowed (p # ps) =
     (if \<not> allowedValue allowed p then Some p else first_invalid allowed ps)"

text \<open>\<open>%q\<close> of a list part is kept as the part between quotes.\<close>

definition quote :: string where "quote = [CHR 0x22]"

definition Validate :: "setting \<Rightarrow> string \<Rightarrow> go_error option" where
  "Validate def raw =
     (let raw = trim_space raw in
      case ValueType def of
        TypeBool \<Rightarrow>
          if to_lower raw \<in> set [''1'', ''0'', ''true'', ''false'', ''yes'', ''no'', ''on'', ''off'']
          then None else Some ''expected true/false''
      | TypeEnum \<Rightarrow>
          if allowedValue (Allowed def) raw then None
          else Some (''allowed: '' @ join_str '', '' (Allowed def))
      | TypeList \<Rightarrow>
          (case first_invalid (Allowed def) (splitList raw) of
             Some part \<Rightarrow> Some (''invalid value '' @ quote @ part @ quote)
           | None \<Rightarrow> if raw = [] then Some ''list cannot be empty'' else None)
      | TypeInt \<Rightarrow>
          (case atoi raw of
             None \<Rightarrow> Some ''expected positive integer''
           | Some n \<Rightarrow>
               if MinValue def > 0 \<and> n < MinValue def then Some (''min '' @ itoa (MinValue def))
               else if MaxValue def > 0 \<and> n > MaxValue def then Some (''max '' @ itoa (MaxValue def))
               else None))"

definition Parse :: "setting \<Rightarrow> string \<Rightarrow> val" where
  "Parse def raw =
     (let raw = trim_space raw in
      case ValueType def of
        TypeBool \<Rightarrow> VBool (to_lower raw \<in> set [''1'', ''true'', ''yes'', ''on''])
      | TypeEnum \<Rightarrow> VStr raw
      | TypeList \<Rightarrow> VStr (join_str '','' (splitList raw))
      | TypeInt \<Rightarrow> VInt (atoi_value raw))"

text \<open>\<open>FormatValue\<close> for the English texts.\<close>

definition FormatValue :: "val \<Rightarrow> setting \<Rightarrow> string" where
  "FormatValue v def =
     (case ValueType def of
        TypeBool \<Rightarrow> if is_true v then ''yes'' else ''no''
      | TypeEnum \<Rightarrow> fmt_v v
      | TypeList \<Rightarrow> fmt_v v
      | TypeInt \<Rightarrow> if Unit def \<noteq> [] then fmt_v v @ '' '' @ Unit def else fmt_v v)"

text \<open>The switch of \<open>defaultFromConfig\<close>.\<close>

definition config_value :: "config \<Rightarrow> string \<Rightarrow> val option" where
  "config_value cfg field = map_of [
     (''SendDocumentLimitMB'', VInt (c_SendDocumentLimitMB cfg)),
     (''TelegramUploadLimitMB'', VInt (c_TelegramUploadLimitMB cfg)),
     (''DownloadTimeoutSeconds'', VInt (c_DownloadTimeoutSeconds cfg)),
     (''BroadcastDelayMS'', VInt (c_BroadcastDelayMS cfg)),
     (''BroadcastBatchSize'', VInt (c_BroadcastBatchSize cfg)),
     (''YouTubeMaxFileSizeMB'', VInt (c_YouTubeMaxFileSizeMB cfg)),
     (''YouTubeDownloadTimeoutSeconds'', VInt (c_YouTubeDownloadTimeoutSeconds cfg)),
     (''YouTubeTranscodeEnabled'', VBool (c_YouTubeTranscodeEnabled cfg)),
     (''SendVideoLimitMB'', VInt (c_SendVideoLimitMB cfg)),
     (''SpotifyEnabled'', VBool (c_SpotifyEnabled cfg)),
     (''SpotifyDownloadEnabled'', VBool (c_SpotifyDownloadEnabled cfg)),
     (''SpotifyTrackTimeoutSeconds'', VInt (c_SpotifyTrackTimeoutSeconds cfg)),
     (''SpotifyAPITimeoutSeconds'', VInt (c_SpotifyAPITimeoutSeconds cfg)),
     (''SpotifyLockMaxTracks'', VInt (c_SpotifyLockMaxTracks cfg)),
     (''SpotifyDownloadConcurrency'', VInt (c_SpotifyDownloadConcurrency cfg)),
     (''YandexMusicEnabled'', VBool (c_YandexMusicEnabled cfg)),
     (''YandexMusicDownloadEnabled'', VBool (c_YandexMusicDownloadEnabled cfg)),
     (''YandexMusicTrackTimeoutSeconds'', VInt (c_YandexMusicTrackTimeoutSeconds cfg)),
     (''YandexMusicAPITimeoutSeconds'', VInt (c_YandexMusicAPITimeoutSeconds cfg)),
     (''YandexMusicLockMaxTracks'', VInt (c_YandexMusicLockMaxTracks cfg)),
     (''YandexMusicDownloadConcurrency'', VInt (c_YandexMusicDownloadConcurrency cfg)),
     (''SoundCloudEnabled'', VBool (c_SoundCloudEnabled cfg)),
     (''SoundCloudDownloadEnabled'', VBool (c_SoundCloudDownloadEnabled cfg)),
     (''SoundCloudTrackTimeoutSeconds'', VInt (c_SoundCloudTrackTimeoutSeconds cfg)),
     (''SoundCloudMaxTracks'', VInt (c_SoundCloudMaxTracks cfg)),
     (''SoundCloudDownloadConcurrency'', VInt (c_SoundCloudDownloadConcurrency cfg)),
     (''PinterestEnabled'', VBool (c_PinterestEnabled cfg)),
     (''PinterestTimeoutSeconds'', VInt (c_PinterestTimeoutSeconds cfg)),
     (''PinterestMaxItems'', VInt (c_PinterestMaxItems cfg)),
     (''PinterestDownloadImages'', VBool (c_PinterestDownloadImages cfg)),
     (''PinterestDownloadVideos'', VBool (c_PinterestDownloadVideos cfg)),
     (''TikTokCarouselMaxItems'', VInt (c_TikTokCarouselMaxItems cfg)),
     (''TikTokCarouselAudioEnabled'', VBool (c_TikTokCarouselAudioEnabled cfg)),
     (''SoundCloudDLOutputFormat'', VStr (c_SoundCloudDLOutputFormat cfg))] field"

definition registry_default :: "setting \<Rightarrow> val" where
  "registry_default def =
     (if (ValueType def = TypeEnum \<or> ValueType def = TypeList) \<and> DefaultStr def \<noteq> []
      then VStr (DefaultStr def)
      else if ValueType def = TypeBool then VBool (DefaultBool def)
      else if DefaultInt def \<noteq> 0 then VInt (DefaultInt def)
      else VInt 0)"

definition defaultFromConfig :: "config option \<Rightarrow> setting \<Rightarrow> val" where
  "defaultFromConfig cfg def =
     (case cfg of
        None \<Rightarrow> registry_default def
      | Some cfg \<Rightarrow>
          (case config_value cfg (ConfigField def) of
             Some v \<Rightarrow> v
           | None \<Rightarrow> registry_default def))"

subsection \<open>The store (store.go)\<close>

text \<open>A failed read counts as a missing one; the error is always nil.\<close>

definition CurrentValue :: "'s redis \<Rightarrow> config option \<Rightarrow> setting \<Rightarrow> 's \<Rightarrow> val \<times> 's" where
  "CurrentValue R cfg def s =
     (case RuntimeGet R (RedisKey def) s of
        (Inl e, s) \<Rightarrow> (defaultFromConfig cfg def, s)
      | (Inr None, s) \<Rightarrow> (defaultFromConfig cfg def, s)
      | (Inr (Some raw), s) \<Rightarrow> (deserialise raw def, s))"

definition CurrentInt :: "'s redis \<Rightarrow> config option \<Rightarrow> string \<Rightarrow> int \<Rightarrow> 's \<Rightarrow> int \<times> 's" where
  "CurrentInt R cfg k fallback s =
     (case Lookup k of
        None \<Rightarrow> (fallback, s)
      | Some def \<Rightarrow>
          (case CurrentValue R cfg def s of
             (VInt n, s) \<Rightarrow> (n, s)
           | (_, s) \<Rightarrow> (fallback, s)))"

definition CurrentBool :: "'s redis \<Rightarrow> config option \<Rightarrow> string \<Rightarrow> bool \<Rightarrow> 's \<Rightarrow> bool \<times> 's" where
  "CurrentBool R cfg k fallback s =
     (case Lookup k of
        None \<Rightarrow> (fallback, s)
      | Some def \<Rightarrow>
          (case CurrentValue R cfg def s of
             (VBool b, s) \<Rightarrow> (b, s)
           | (_, s) \<Rightarrow> (fallback, s)))"

definition CurrentString :: "'s redis \<Rightarrow> config option \<Rightarrow> string \<Rightarrow> string \<Rightarrow> 's \<Rightarrow> string \<times> 's" where
  "CurrentString R cfg k fallback s =
     (case Lookup k of
        None \<Rightarrow> (fallback, s)
      | Some def \<Rightarrow>
          (case CurrentValue R cfg def s of
             (VStr str, s) \<Rightarrow> (if str \<noteq> [] then str else fallback, s)
           | (_, s) \<Rightarrow> (fallback, s)))"

definition CurrentStringList ::
  "'s redis \<Rightarrow> config option \<Rightarrow> string \<Rightarrow> string list \<Rightarrow> 's \<Rightarrow> string list \<times> 's" where
  "CurrentStringList R cfg k fallback s =
     (case Lookup k of
        None \<Rightarrow> (fallback, s)
      | Some def \<Rightarrow>
          (case CurrentValue R cfg def s of
             (VList xs, s) \<Rightarrow> (xs, s)
           | (VStr v, s) \<Rightarrow> (if v = [] then fallback else splitList v, s)
           | (_, s) \<Rightarrow> (fallback, s)))"

definition SetValue :: "'s redis \<Rightarrow> string \<Rightarrow> val \<Rightarrow> 's \<Rightarrow> go_error option \<times> 's" where
  "SetValue R k v s =
     (case Lookup k of
        None \<Rightarrow> (Some (''unknown setting '' @ k), s)
      | Some def \<Rightarrow> RuntimeSet R k (serialise v def) s)"

definition Reset :: "'s redis \<Rightarrow> string \<Rightarrow> 's \<Rightarrow> go_error option \<times> 's" where
  "Reset R k s = RuntimeDelete R k s"

definition ResetAll :: "'s redis \<Rightarrow> 's \<Rightarrow> go_error option \<times> 's" where
  "ResetAll R s = RuntimeDeleteAll R s"

subsection \<open>Per-platform readers (helpers.go)\<close>

definition PlatformMaxFileMB :: "'s redis \<Rightarrow> config \<Rightarrow> string \<Rightarrow> 's \<Rightarrow> int \<times> 's" where
  "PlatformMaxFileMB R cfg platform s =
     (let k = platform @ ''.max_file_mb'' in
      if Lookup k = None then (c_SendVideoLimitMB cfg, s)
      else if platform = ''youtube'' then CurrentInt R (Some cfg) k (c_YouTubeMaxFileSizeMB cfg) s
      else if platform = ''spotify'' then CurrentInt R (Some cfg) k (c_SendDocumentLimitMB cfg) s
      else if platform = ''yandexmusic'' then CurrentInt R (Some cfg) k (c_SendDocumentLimitMB cfg) s
      else CurrentInt R (Some cfg) k (c_SendVideoLimitMB cfg) s)"

definition PlatformTimeoutSec :: "'s redis \<Rightarrow> config \<Rightarrow> string \<Rightarrow> 's \<Rightarrow> int \<times> 's" where
  "PlatformTimeoutSec R cfg platform s =
     (let k = platform @ ''.timeout_sec'' in
      if platform = ''youtube'' then
        CurrentInt R (Some cfg) k (c_YouTubeDownloadTimeoutSeconds cfg) s
      else if platform = ''spotify'' then
        CurrentInt R (Some cfg) ''spotify.track_timeout_sec'' (c_SpotifyTrackTimeoutSeconds cfg) s
      else if platform = ''yandexmusic'' then
        CurrentInt R (Some cfg) ''yandexmusic.track_timeout_sec'' (c_YandexMusicTrackTimeoutSeconds cfg) s
      else if platform = ''soundcloud'' then
        CurrentInt R (Some cfg) ''soundcloud.track_timeout_sec'' (c_SoundCloudTrackTimeoutSeconds cfg) s
      else if platform = ''pinterest'' then
        CurrentInt R (Some cfg) ''pinterest.timeout_sec'' (c_PinterestTimeoutSeconds cfg) s
      else CurrentInt R (Some cfg) k (c_DownloadTimeoutSeconds cfg) s)"

definition PlatformEnabled :: "'s redis \<Rightarrow> config option \<Rightarrow> string \<Rightarrow> 's \<Rightarrow> bool \<times> 's" where
  "PlatformEnabled R cfg platform s =
     (case Lookup (platform @ ''.enabled'') of
        None \<Rightarrow> (True, s)
      | Some def \<Rightarrow> (case CurrentValue R cfg def s of (v, s) \<Rightarrow> (is_true v, s)))"

subsection \<open>The store as a map of overrides\<close>

definition override :: "redis_db \<Rightarrow> string \<Rightarrow> string option" where
  "override db = map_of (db_hashes db runtimeSettingsKey)"

definition setting_of :: "config option \<Rightarrow> redis_db \<Rightarrow> setting \<Rightarrow> val" where
  "setting_of cfg db def =
     (case override db (RedisKey def) of
        None \<Rightarrow> defaultFromConfig cfg def
      | Some raw \<Rightarrow> deserialise raw def)"

lemma RuntimeGet_cases:
  assumes "lawful_redis R \<alpha>" "RuntimeGet R k s = (r, s1)"
  shows "\<alpha> s1 = \<alpha> s \<and> (r = Inr (override (\<alpha> s) k) \<or> (\<exists>e. r = Inl e))"
  by (rule call_cases [OF assms(1), of "CHGet runtimeSettingsKey k" s])
    (use assms(2) in \<open>auto simp: RuntimeGet_def override_def split: option.splits\<close>)

lemma RuntimeSet_ok:
  assumes "lawful_redis R \<alpha>" "RuntimeSet R k v s = (None, s1)"
  shows "override (\<alpha> s1) = (override (\<alpha> s))(k \<mapsto> v)"
  using exec_cases [OF assms(1) assms(2) [unfolded RuntimeSet_def]]
  by (simp add: override_def update_conv')

lemma RuntimeDelete_ok:
  assumes "lawful_redis R \<alpha>" "RuntimeDelete R k s = (None, s1)"
  shows "override (\<alpha> s1) = (override (\<alpha> s))(k := None)"
  using exec_cases [OF assms(1) assms(2) [unfolded RuntimeDelete_def]]
  by (simp add: override_def delete_conv')

lemma RuntimeDeleteAll_ok:
  assumes "lawful_redis R \<alpha>" "RuntimeDeleteAll R s = (None, s1)"
  shows "override (\<alpha> s1) = Map.empty"
  using exec_cases [OF assms(1) assms(2) [unfolded RuntimeDeleteAll_def]]
  by (simp add: override_def)

lemma Lookup_key: "Lookup k = Some def \<Longrightarrow> RedisKey def = k"
  by (auto simp: Lookup_def dest!: map_of_SomeD)

text \<open>The contract the handlers and workers use: reads see the last successful write.\<close>

locale settings_store =
  fixes current :: "setting \<Rightarrow> 's \<Rightarrow> val \<times> 's"
    and set_value :: "string \<Rightarrow> val \<Rightarrow> 's \<Rightarrow> go_error option \<times> 's"
    and reset :: "string \<Rightarrow> 's \<Rightarrow> go_error option \<times> 's"
    and view :: "'s \<Rightarrow> string \<Rightarrow> string option"
    and default :: "setting \<Rightarrow> val"
  assumes current_reads: "current def s = (v, s1) \<Longrightarrow> view s1 = view s \<and>
      (v = default def
       \<or> v = (case view s (RedisKey def) of None \<Rightarrow> default def | Some raw \<Rightarrow> deserialise raw def))"
    and set_writes: "set_value k v s = (None, s1) \<Longrightarrow>
      \<exists>def. Lookup k = Some def \<and> view s1 = (view s)(k \<mapsto> serialise v def)"
    and reset_clears: "reset k s = (None, s1) \<Longrightarrow> view s1 = (view s)(k := None)"
begin

lemma get_after_set:
  assumes "set_value k v s = (None, s1)" "Lookup k = Some def" "current def s1 = (v', s2)"
  shows "v' = deserialise (serialise v def) def \<or> v' = default def"
  using set_writes [OF assms(1)] current_reads [OF assms(3)] assms(2) Lookup_key [OF assms(2)]
  by auto

lemma get_other:
  assumes "set_value k v s = (None, s1)" "RedisKey def \<noteq> k"
  shows "view s1 (RedisKey def) = view s (RedisKey def)"
  using set_writes [OF assms(1)] assms(2) by auto

lemma get_after_reset:
  assumes "reset k s = (None, s1)" "Lookup k = Some def" "current def s1 = (v, s2)"
  shows "v = default def"
  using reset_clears [OF assms(1)] current_reads [OF assms(3)] Lookup_key [OF assms(2)] by auto

end

lemma CurrentValue_reads:
  assumes "lawful_redis R \<alpha>" "CurrentValue R cfg def s = (v, s1)"
  shows "\<alpha> s1 = \<alpha> s \<and> (v = defaultFromConfig cfg def \<or> v = setting_of cfg (\<alpha> s) def)"
proof -
  obtain r s' where g: "RuntimeGet R (RedisKey def) s = (r, s')"
    by (cases "RuntimeGet R (RedisKey def) s")
  from RuntimeGet_cases [OF assms(1) g] show ?thesis
    using assms(2) g by (auto simp: CurrentValue_def setting_of_def split: option.splits)
qed

lemma SetValue_ok:
  assumes "lawful_redis R \<alpha>" "SetValue R k v s = (None, s1)"
  shows "\<exists>def. Lookup k = Some def \<and> override (\<alpha> s1) = (override (\<alpha> s))(k \<mapsto> serialise v def)"
  using assms(2) RuntimeSet_ok [OF assms(1)] by (auto simp: SetValue_def split: option.splits)

sublocale redis_service \<subseteq> store: settings_store "CurrentValue R cfg" "SetValue R" "Reset R"
  "\<lambda>s. override (\<alpha> s)" "defaultFromConfig cfg" for cfg
proof (unfold_locales, goal_cases)
  case (1 def s v s1)
  from CurrentValue_reads [OF lawful this] show ?case by (auto simp: setting_of_def)
next
  case (2 k v s s1)
  from SetValue_ok [OF lawful this] show ?case .
next
  case (3 k s s1)
  then show ?case by (intro RuntimeDelete_ok [OF lawful]) (simp add: Reset_def)
qed

subsection \<open>What passes validation\<close>

lemma allowedValue_iff [simp]: "allowedValue as v \<longleftrightarrow> v \<in> set as"
  by (induction as) auto

lemma first_invalid_None: "first_invalid as ps = None \<longleftrightarrow> set ps \<subseteq> set as"
  by (induction ps) auto

lemma trim_space_idem [simp]: "trim_space (trim_space s) = trim_space s"
proof (cases "trim_space s")
  case (Cons c r)
  let ?t = "trim_left s"
  have eq: "trim_space s = rev (dropWhile is_space (rev ?t))" by (simp add: trim_space_def)
  have last: "dropWhile is_space (rev (trim_space s)) = rev (trim_space s)"
    unfolding eq by simp
  have "\<exists>v. ?t = trim_space s @ v"
    unfolding eq by (metis rev_append rev_rev_ident takeWhile_dropWhile_id)
  then have "hd (trim_space s) = hd ?t" "?t \<noteq> []" using Cons by auto
  moreover have "\<not> is_space (hd ?t)"
    using \<open>?t \<noteq> []\<close> unfolding trim_left_def by (rule hd_dropWhile)
  ultimately have "\<not> is_space (hd (trim_space s))" by simp
  then have "dropWhile is_space (trim_space s) = trim_space s" using Cons by simp
  then show ?thesis using last by (simp add: trim_space_def [of "trim_space s"] trim_left_def)
next
  case Nil
  moreover have "trim_space [] = []" by (simp add: trim_space_def trim_left_def)
  ultimately show ?thesis by simp
qed

lemma split_char_join:
  assumes "\<And>p. p \<in> set ps \<Longrightarrow> CHR '','' \<notin> set p" "ps \<noteq> []"
  shows "split_char CHR '','' (join_str '','' ps) = ps"
  using assms
proof (induction ps)
  case (Cons p ps)
  show ?case
  proof (cases ps)
    case Nil
    with Cons.prems(1) show ?thesis by (simp add: split_char_no_sep)
  next
    case (Cons q qs)
    with Cons.IH Cons.prems(1) show ?thesis by (simp add: split_char_append)
  qed
qed simp

lemma splitList_parts:
  assumes "p \<in> set (splitList raw)"
  shows "p \<noteq> []" "trim_space p = p" "CHR '','' \<notin> set p"
proof -
  have "\<forall>q \<in> set (split_char c s). c \<notin> set q" for c s
    by (induction c s rule: split_char.induct) (auto split: list.splits)
  then have nosep: "c \<notin> set q" if "q \<in> set (split_char c s)" for c q s
    using that by blast
  from assms obtain q where q: "p = trim_space q" "q \<in> set (split_char CHR '','' raw)" "p \<noteq> []"
    by (auto simp: splitList_def)
  then show "p \<noteq> []" "trim_space p = p" by simp_all
  show "CHR '','' \<notin> set p" using nosep [OF q(2)] set_trim_space [of q] q(1) by blast
qed

lemma splitList_join [simp]: "splitList (join_str '','' (splitList raw)) = splitList raw"
proof (cases "splitList raw = []")
  case True
  then show ?thesis by (simp add: splitList_def [of "[]"] trim_space_def trim_left_def)
next
  case False
  have "splitList (join_str '','' (splitList raw)) =
      filter (\<lambda>p. p \<noteq> []) (List.map trim_space (splitList raw))"
    using split_char_join [OF splitList_parts(3) False] by (simp add: splitList_def [of "join_str _ _"])
  also have "List.map trim_space (splitList raw) = splitList raw"
    by (rule map_idI) (rule splitList_parts(2))
  also have "filter (\<lambda>p. p \<noteq> []) (splitList raw) = splitList raw"
    by (simp add: splitList_def)
  finally show ?thesis .
qed

definition valid_value :: "setting \<Rightarrow> val \<Rightarrow> bool" where
  "valid_value def v =
     (case ValueType def of
        TypeBool \<Rightarrow> (case v of VBool _ \<Rightarrow> True | _ \<Rightarrow> False)
      | TypeEnum \<Rightarrow> (case v of VStr a \<Rightarrow> a \<in> set (Allowed def) | _ \<Rightarrow> False)
      | TypeList \<Rightarrow> (case v of VStr l \<Rightarrow> set (splitList l) \<subseteq> set (Allowed def) | _ \<Rightarrow> False)
      | TypeInt \<Rightarrow> (case v of
            VInt n \<Rightarrow> in_int64 n \<and> (MinValue def \<le> 0 \<or> MinValue def \<le> n)
              \<and> (MaxValue def \<le> 0 \<or> n \<le> MaxValue def)
          | _ \<Rightarrow> False))"

lemma Parse_valid: "Validate def raw = None \<Longrightarrow> valid_value def (Parse def raw)"
  by (auto simp: Validate_def Parse_def valid_value_def Let_def first_invalid_None atoi_def
      atoi_value_def split: value_type.splits option.splits prod.splits if_splits
      dest: atoi_full_range)

lemma deserialise_serialise:
  "valid_value def v \<Longrightarrow> deserialise (serialise v def) def = v"
  by (auto simp: valid_value_def deserialise_def serialise_def is_true_def atoi_value_itoa
      to_lower_def split: value_type.splits val.splits)

end
