(* ===== verification/Settings_Props.thy ===== *)
theory Settings_Props
  imports Settings
begin

text \<open>
  The properties of \<open>go/internal/runtime\<close>: what is stored reads back, which configuration fields
  the readers ignore, what the bounds let through, and that the registry is consistent.
\<close>

subsection \<open>Properties of the settings\<close>



text \<open>The fields the switch names.\<close>

lemma config_value_None:
  "config_value cfg f = None \<longleftrightarrow> f \<notin> set [
      ''SendDocumentLimitMB'', ''TelegramUploadLimitMB'', ''DownloadTimeoutSeconds'',
      ''BroadcastDelayMS'', ''BroadcastBatchSize'', ''YouTubeMaxFileSizeMB'',
      ''YouTubeDownloadTimeoutSeconds'', ''YouTubeTranscodeEnabled'', ''SendVideoLimitMB'',
      ''SpotifyEnabled'', ''SpotifyDownloadEnabled'', ''SpotifyTrackTimeoutSeconds'',
      ''SpotifyAPITimeoutSeconds'', ''SpotifyLockMaxTracks'', ''SpotifyDownloadConcurrency'',
      ''YandexMusicEnabled'', ''YandexMusicDownloadEnabled'',
      ''YandexMusicTrackTimeoutSeconds'', ''YandexMusicAPITimeoutSeconds'',
      ''YandexMusicLockMaxTracks'', ''YandexMusicDownloadConcurrency'', ''SoundCloudEnabled'',
      ''SoundCloudDownloadEnabled'', ''SoundCloudTrackTimeoutSeconds'',
      ''SoundCloudMaxTracks'', ''SoundCloudDownloadConcurrency'', ''PinterestEnabled'',
      ''PinterestTimeoutSeconds'', ''PinterestMaxItems'', ''PinterestDownloadImages'',
      ''PinterestDownloadVideos'', ''TikTokCarouselMaxItems'', ''TikTokCarouselAudioEnabled'',
      ''SoundCloudDLOutputFormat'']"
  unfolding config_value_def map_of_eq_None_iff by simp

text \<open>
  Twenty of the registered settings name a configuration field that \<open>defaultFromConfig\<close> does
  not read, whatever the configuration holds: without an override they have the registry's own
  default, so the environment variables behind the fields that exist (the two \<open>YouTubeCompress\<close>
  ones, \<open>TikTokMaxDurationSec\<close>, and \<open>InstagramEnabled\<close>, \<open>InstagramTimeoutSeconds\<close> and
  \<open>InstagramMaxFileMB\<close>) have no effect here.
\<close>

theorem configuration_fields_ignored:
  "List.map RedisKey (filter (\<lambda>d. ConfigField d \<noteq> [] \<and> config_value cfg (ConfigField d) = None
      \<and> defaultFromConfig (Some cfg) d = registry_default d) registry)
   = [''youtube.max_duration_sec'', ''youtube.compress_long_enabled'',
      ''youtube.compress_min_duration_sec'', ''tiktok.max_duration_sec'',
      ''tiktok.allow_photo_slideshows'', ''tiktok.fallback_to_document'',
      ''x.max_items_per_post'', ''x.allow_gif'', ''x.allow_video'', ''x.fallback_to_document'',
      ''x.auto_translate'', ''instagram.enabled'', ''instagram.timeout_sec'',
      ''instagram.max_file_mb'', ''instagram.carousel_max_items'', ''reddit.enabled'',
      ''reddit.max_comments'', ''reddit.max_media_items'', ''reddit.telegraph_enabled'',
      ''reddit.telegraph_translate'']"
proof -
  have "filter (\<lambda>d. ConfigField d \<noteq> [] \<and> config_value cfg (ConfigField d) = None
      \<and> defaultFromConfig (Some cfg) d = registry_default d) registry
    = filter (\<lambda>d. ConfigField d \<noteq> [] \<and> config_value cfg (ConfigField d) = None) registry"
    by (rule filter_cong) (auto simp: defaultFromConfig_def)
  then show ?thesis
    by (simp only: config_value_None) code_simp
qed

text \<open>
  A numeric setting whose minimum is 0 accepts every negative number, because the lower bound
  is only checked when it is positive: such an input passes validation and is what gets stored.
\<close>

theorem zero_minimum_accepts_negatives:
  assumes "ValueType def = TypeInt" "MinValue def = 0" "in_int64 n" "n < 0"
  shows "Validate def (itoa n) = None \<and> Parse def (itoa n) = VInt n"
  using assms by (simp add: Validate_def Parse_def Let_def atoi_itoa atoi_value_itoa)

lemma zero_minimum_accepts_negatives_witness:
  "\<exists>def. Lookup ''reddit.max_comments'' = Some def \<and> Validate def (itoa (- 5)) = None"
proof -
  let ?d = "intSetting ''reddit.max_comments'' ''RedditMaxComments'' ''reddit''
    ''Max comments in article'' [] 0 100 10"
  have look: "Lookup ''reddit.max_comments'' = Some ?d"
    by (simp add: Lookup_def registry_def intSetting_def boolSetting_def choiceSetting_def)
  have "Validate ?d (itoa (- 5)) = None"
    using zero_minimum_accepts_negatives [of ?d "- 5"]
    by (simp add: intSetting_def in_int64_def int64_min_def int64_max_def)
  with look show ?thesis by blast
qed

end
