(* ===== verification/Telegram.thy ===== *)
theory Telegram
  imports Redisx Queue_Tasks Config
begin

text \<open>
  The world of the bot's handlers: the messages and button presses they receive, the calls they
  make and the state those calls read. Everything a handler does to the outside is an event of
  a log, in order; what comes back (the id of a sent message, an error) is given by the environment as a
  function of the log, so any behaviour of Telegram, of the task broker and of the database is
  covered. Texts are symbolic: a locale key with its language and variables.
\<close>

subsection \<open>Texts, buttons and events\<close>

datatype msg_text =
    Loc string string "(string \<times> string) list"
  | Lit string
  | Cat "msg_text list"

record button =
  btn_label :: msg_text
  btn_data :: string
  btn_url :: string

type_synonym keyboard = "button list list"

definition button :: "msg_text \<Rightarrow> string \<Rightarrow> button" where
  "button l d = \<lparr>btn_label = l, btn_data = d, btn_url = []\<rparr>"

text \<open>A button that opens a page.\<close>

definition url_button :: "msg_text \<Rightarrow> string \<Rightarrow> button" where
  "url_button l u = \<lparr>btn_label = l, btn_data = [], btn_url = u\<rparr>"

text \<open>Lines of a text.\<close>

fun join_lines :: "msg_text list \<Rightarrow> msg_text list" where
  "join_lines [] = []"
| "join_lines [t] = [t]"
| "join_lines (t # u # ts) = t # Lit [CHR 0x0A] # join_lines (u # ts)"

text \<open>
  The last constructors are calls of the workers: deleting a message, an album of photos, a file (path, title,
  language, platform, played as an animation, with the footer), an audio file (path, title, performer, length, cover),
  a run of a program, an invoice (chat, product, price), the answer to a checkout, and a picture given by its
  address with caption and buttons. A request to a web server is noted as a run of GET.
\<close>

datatype event =
    Send int msg_text keyboard
  | Edit int int msg_text keyboard
  | Answer string "msg_text option" bool
  | Forward int int int
  | Job request
  | DbWrite string int "string list"
  | Erase int int
  | Album int "string list" msg_text
  | Media int string string string string bool bool
  | Sound int string string string int string
  | Exec "string list"
  | Invoice int string int
  | Checkout string bool "msg_text option"
  | Cover int string msg_text keyboard

text \<open>A user, an incoming message (\<open>m_media\<close>: it has an attachment) and a button press.\<close>

record user =
  u_id :: int
  u_name :: string
  u_first :: string

record message =
  m_chat :: int
  m_type :: string
  m_id :: int
  m_from :: "user option"
  m_text :: string
  m_caption :: string
  m_media :: bool

record callback =
  q_id :: string
  q_from :: user
  q_data :: string
  q_msg :: "(int \<times> int) option"

subsection \<open>Pending input (handler/fsm.go)\<close>

text \<open>What a user is being asked to type: a kind and its data. One entry per user, in memory.\<close>

record pending =
  pd_kind :: string
  pd_data :: "(string \<times> string) list"

type_synonym fsm = "int \<Rightarrow> pending option"

definition newFSM :: fsm where "newFSM = (\<lambda>_. None)"

definition fsm_Set :: "int \<Rightarrow> string \<Rightarrow> (string \<times> string) list \<Rightarrow> fsm \<Rightarrow> fsm" where
  "fsm_Set userID kind d f = f(userID := Some \<lparr>pd_kind = kind, pd_data = d\<rparr>)"

definition fsm_Get :: "int \<Rightarrow> fsm \<Rightarrow> pending option" where
  "fsm_Get userID f = f userID"

definition fsm_Clear :: "int \<Rightarrow> fsm \<Rightarrow> fsm" where
  "fsm_Clear userID f = f(userID := None)"

text \<open>A map read without the comma: the empty string when the key is missing.\<close>

definition data_get :: "(string \<times> string) list \<Rightarrow> string \<Rightarrow> string" where
  "data_get d k = (case map_of d k of None \<Rightarrow> [] | Some v \<Rightarrow> v)"

subsection \<open>The environment and the world\<close>

text \<open>
  The environment: the Redis connection and its key prefix, the configuration, and the answers of
  Telegram and the task broker (to an event), of the database (language, settings, purchases, banned
  links), of the token generator, the clock, the SHA-256 digest in hexadecimal and yt-dlp's probe.
\<close>

record user_settings =
  us_ratio :: string
  us_no_watermark :: bool

record 's bot_env =
  b_redis :: "'s redis"
  b_prefix :: string
  b_cfg :: config
  b_answer :: "event list \<Rightarrow> event \<Rightarrow> int result"
  b_lang :: "event list \<Rightarrow> int \<Rightarrow> string result"
  b_token :: "event list \<Rightarrow> string"
  b_now :: "'s \<Rightarrow> nat"
  b_settings :: "event list \<Rightarrow> int \<Rightarrow> user_settings result"
  b_paid :: "event list \<Rightarrow> int \<Rightarrow> string \<Rightarrow> bool \<times> go_error option"
  b_link_banned :: "event list \<Rightarrow> string \<Rightarrow> bool result"
  b_hash :: "string \<Rightarrow> string"
  b_probe :: "event list \<Rightarrow> string \<Rightarrow> nat \<Rightarrow> rval result"

record 's world =
  w_st :: 's
  w_fsm :: fsm
  w_log :: "event list"

definition fsm_set :: "int \<Rightarrow> string \<Rightarrow> (string \<times> string) list \<Rightarrow> ('s, 'w) world_scheme \<Rightarrow> ('s, 'w) world_scheme" where
  "fsm_set userID kind d w = w\<lparr>w_fsm := fsm_Set userID kind d (w_fsm w)\<rparr>"

definition fsm_clear :: "int \<Rightarrow> ('s, 'w) world_scheme \<Rightarrow> ('s, 'w) world_scheme" where
  "fsm_clear userID w = w\<lparr>w_fsm := fsm_Clear userID (w_fsm w)\<rparr>"

lemma fsm_simps [simp]:
  "w_st (fsm_set u k d w) = w_st w" "w_log (fsm_set u k d w) = w_log w"
  "w_st (fsm_clear u w) = w_st w" "w_log (fsm_clear u w) = w_log w"
  "w_fsm (fsm_set u k d w) = (w_fsm w)(u := Some \<lparr>pd_kind = k, pd_data = d\<rparr>)"
  "w_fsm (fsm_clear u w) = (w_fsm w)(u := None)"
  by (simp_all add: fsm_set_def fsm_clear_def fsm_Set_def fsm_Clear_def)

definition emit :: "('s, 'b) bot_env_scheme \<Rightarrow> event \<Rightarrow> ('s, 'w) world_scheme \<Rightarrow> int result \<times> ('s, 'w) world_scheme" where
  "emit B ev w = (b_answer B (w_log w) ev, w\<lparr>w_log := w_log w @ [ev]\<rparr>)"

text \<open>A call whose result the code drops.\<close>

definition post :: "('s, 'b) bot_env_scheme \<Rightarrow> event \<Rightarrow> ('s, 'w) world_scheme \<Rightarrow> ('s, 'w) world_scheme" where
  "post B ev w = snd (emit B ev w)"

text \<open>A Redis operation inside a handler, with and without its result.\<close>

definition on_st :: "('s \<Rightarrow> 'r \<times> 's) \<Rightarrow> ('s, 'w) world_scheme \<Rightarrow> 'r \<times> ('s, 'w) world_scheme" where
  "on_st f w = (case f (w_st w) of (r, s) \<Rightarrow> (r, w\<lparr>w_st := s\<rparr>))"

definition do_st :: "('s \<Rightarrow> 'r \<times> 's) \<Rightarrow> ('s, 'w) world_scheme \<Rightarrow> ('s, 'w) world_scheme" where
  "do_st f w = snd (on_st f w)"

lemma emit_simps [simp]:
  "w_st (snd (emit B ev w)) = w_st w" "w_log (snd (emit B ev w)) = w_log w @ [ev]"
  "w_st (post B ev w) = w_st w" "w_log (post B ev w) = w_log w @ [ev]"
  "w_fsm (snd (emit B ev w)) = w_fsm w" "w_fsm (post B ev w) = w_fsm w"
  by (simp_all add: emit_def post_def)

lemma on_st_simps [simp]:
  "w_log (do_st f w) = w_log w" "w_st (do_st f w) = snd (f (w_st w))"
  "w_log (snd (on_st f w)) = w_log w" "w_st (snd (on_st f w)) = snd (f (w_st w))"
  "fst (on_st f w) = fst (f (w_st w))"
  "w_fsm (do_st f w) = w_fsm w" "w_fsm (snd (on_st f w)) = w_fsm w"
  by (simp_all add: on_st_def do_st_def split_beta)

lemma on_st_eqD: "on_st f w = (r, w') \<Longrightarrow> f (w_st w) = (r, w_st w') \<and> w_log w' = w_log w
    \<and> w_fsm w' = w_fsm w"
  by (auto simp: on_st_def split: prod.splits)

lemma emit_eqD:
  "emit B ev w = (r, w') \<Longrightarrow>
   r = b_answer B (w_log w) ev \<and> w_st w' = w_st w \<and> w_log w' = w_log w @ [ev] \<and> w_fsm w' = w_fsm w"
  by (auto simp: emit_def)

definition hours :: "nat \<Rightarrow> nat" where "hours n = n * 3600 * second"

definition userLang :: "('s, 'b) bot_env_scheme \<Rightarrow> int \<Rightarrow> ('s, 'w) world_scheme \<Rightarrow> string" where
  "userLang B u w =
     (case b_lang B (w_log w) u of
        Inl e \<Rightarrow> ''en''
      | Inr lang \<Rightarrow> if lang = [] then ''en'' else lang)"

definition reply :: "('s, 'b) bot_env_scheme \<Rightarrow> int \<Rightarrow> string \<Rightarrow> string \<Rightarrow> ('s, 'w) world_scheme \<Rightarrow> ('s, 'w) world_scheme" where
  "reply B chat k lang w = post B (Send chat (Loc k lang []) []) w"

lemma reply_simps [simp]:
  "w_st (reply B chat k lang w) = w_st w"
  "w_log (reply B chat k lang w) = w_log w @ [Send chat (Loc k lang []) []]"
  by (simp_all add: reply_def)

definition toast :: "('s, 'b) bot_env_scheme \<Rightarrow> callback \<Rightarrow> string \<Rightarrow> string \<Rightarrow> bool \<Rightarrow> ('s, 'w) world_scheme \<Rightarrow> ('s, 'w) world_scheme" where
  "toast B q k lang alert w = post B (Answer (q_id q) (Some (Loc k lang [])) alert) w"

definition ack :: "('s, 'b) bot_env_scheme \<Rightarrow> callback \<Rightarrow> ('s, 'w) world_scheme \<Rightarrow> ('s, 'w) world_scheme" where
  "ack B q w = post B (Answer (q_id q) None False) w"

definition edit_msg :: "('s, 'b) bot_env_scheme \<Rightarrow> callback \<Rightarrow> msg_text \<Rightarrow> keyboard \<Rightarrow> ('s, 'w) world_scheme \<Rightarrow> ('s, 'w) world_scheme" where
  "edit_msg B q t kb w =
     (case q_msg q of None \<Rightarrow> w | Some (chat, mid) \<Rightarrow> post B (Edit chat mid t kb) w)"

lemma toast_simps [simp]:
  "w_st (toast B q k lang a w) = w_st w" "w_st (ack B q w) = w_st w"
  "w_log (toast B q k lang a w) = w_log w @ [Answer (q_id q) (Some (Loc k lang [])) a]"
  "w_log (ack B q w) = w_log w @ [Answer (q_id q) None False]"
  "w_st (edit_msg B q t kb w) = w_st w"
  by (simp_all add: toast_def ack_def edit_msg_def split: option.splits)

text \<open>The jobs a handler tried to enqueue, in order, and those the broker took.\<close>

definition jobs :: "event list \<Rightarrow> request list" where
  "jobs evs = List.map_filter (\<lambda>e. case e of Job r \<Rightarrow> Some r | _ \<Rightarrow> None) evs"

lemma jobs_simps [simp]:
  "jobs [] = []" "jobs (xs @ ys) = jobs xs @ jobs ys" "jobs [Job r] = [r]"
  "jobs [Send chat t kb] = []" "jobs [Edit chat m t kb] = []" "jobs [Answer i mt a] = []"
  "jobs [Forward x y z] = []" "jobs [DbWrite tb u vs] = []"
  "jobs [Erase chat m] = []" "jobs [Album chat ps t] = []" "jobs [Media chat p ti l pf an ft] = []"
  "jobs [Sound chat p ti au du th] = []" "jobs [Exec args] = []"
  "jobs [Invoice chat pr n] = []" "jobs [Checkout i ok mt] = []"
  by (simp_all add: jobs_def List.map_filter_def)

lemma jobs_reply [simp]: "jobs (w_log (reply B chat k lang w)) = jobs (w_log w)"
  "jobs (w_log (toast B q k lang a w)) = jobs (w_log w)" "jobs (w_log (ack B q w)) = jobs (w_log w)"
  "jobs (w_log (edit_msg B q t kb w)) = jobs (w_log w)"
  by (simp_all add: edit_msg_def split: option.splits)

definition taken :: "(event list \<Rightarrow> event \<Rightarrow> int result) \<Rightarrow> event list \<Rightarrow> event \<Rightarrow> request list" where
  "taken ans pre e = (case e of Job r \<Rightarrow> if is_ok (ans pre e) then [r] else [] | _ \<Rightarrow> [])"

fun accepted_from ::
  "(event list \<Rightarrow> event \<Rightarrow> int result) \<Rightarrow> event list \<Rightarrow> event list \<Rightarrow> request list" where
  "accepted_from ans pre [] = []"
| "accepted_from ans pre (e # es) = taken ans pre e @ accepted_from ans (pre @ [e]) es"

definition accepted :: "('s, 'b) bot_env_scheme \<Rightarrow> ('s, 'w) world_scheme \<Rightarrow> request list" where
  "accepted B w = accepted_from (b_answer B) [] (w_log w)"

lemma accepted_from_append:
  "accepted_from ans pre (xs @ ys) = accepted_from ans pre xs @ accepted_from ans (pre @ xs) ys"
  by (induction xs arbitrary: pre) simp_all

lemma accepted_emit [simp]:
  "accepted B (snd (emit B e w)) = accepted B w @ taken (b_answer B) (w_log w) e"
  "accepted B (post B e w) = accepted B w @ taken (b_answer B) (w_log w) e"
  by (simp_all add: accepted_def accepted_from_append)

lemma accepted_on_st [simp]:
  "accepted B (snd (on_st f w)) = accepted B w" "accepted B (do_st f w) = accepted B w"
  by (simp_all add: accepted_def)

lemma taken_simps [simp]:
  "taken ans pre (Send chat t kb) = []" "taken ans pre (Edit chat mid t kb) = []"
  "taken ans pre (Answer i mt a) = []" "taken ans pre (Forward x y z) = []"
  "taken ans pre (DbWrite tb u vs) = []" "taken ans pre (Erase chat mid) = []"
  "taken ans pre (Album chat ps t) = []" "taken ans pre (Media chat p ti l pf an ft) = []"
  "taken ans pre (Sound chat p ti au du th) = []" "taken ans pre (Exec args) = []"
  "taken ans pre (Invoice chat pr n) = []" "taken ans pre (Checkout i ok mt) = []"
  "taken ans pre (Job r) = (if is_ok (ans pre (Job r)) then [r] else [])"
  by (simp_all add: taken_def)

end
