(* ===== verification/Cancel_Flow.thy ===== *)
theory Cancel_Flow
  imports Telegram
begin

text \<open>
  Cancelling: the callback data of the cancel and queue buttons (\<open>cancel/keyboard.go\<close>), the
  handlers of the two buttons (\<open>handler/cancel.go\<close>) and of \<open>/clear\<close> (\<open>handler/clear.go\<close>).
\<close>

subsection \<open>Callback data (cancel/keyboard.go)\<close>

record cancel_data =
  cd_scenario :: string
  cd_user :: int
  cd_token :: string

definition CallbackData :: "string \<Rightarrow> int \<Rightarrow> string \<Rightarrow> string" where
  "CallbackData scenario userID token =
     ''dlc:'' @ scenario @ '':'' @ itoa userID @ '':'' @ token"

definition QueueCallbackData :: "int \<Rightarrow> string" where
  "QueueCallbackData userID = ''dlq:'' @ itoa userID"

definition ParseCancel :: "string \<Rightarrow> cancel_data option" where
  "ParseCancel d =
     (case split_char CHR '':'' d of
        [p0, p1, p2, p3] \<Rightarrow>
          if p0 \<noteq> ''dlc'' \<or> p3 = [] then None
          else (case atoi p2 of
                  None \<Rightarrow> None
                | Some u \<Rightarrow> Some \<lparr>cd_scenario = p1, cd_user = u, cd_token = p3\<rparr>)
      | _ \<Rightarrow> None)"

definition ParseQueue :: "string \<Rightarrow> int option" where
  "ParseQueue d =
     (case split_char CHR '':'' d of
        [p0, p1] \<Rightarrow> if p0 \<noteq> ''dlq'' then None else atoi p1
      | _ \<Rightarrow> None)"

definition cancel_Keyboard :: "string \<Rightarrow> string \<Rightarrow> int \<Rightarrow> string \<Rightarrow> keyboard" where
  "cancel_Keyboard lang scenario userID token =
     (if userID = 0 \<or> token = [] then []
      else [[button (Loc ''download.cancel'' lang []) (CallbackData scenario userID token)]])"

definition QueueButton :: "string \<Rightarrow> int \<Rightarrow> keyboard" where
  "QueueButton lang userID =
     (if userID = 0 then []
      else [[button (Loc ''download.queue_button'' lang []) (QueueCallbackData userID)]])"

definition scenarioLabel :: "string \<Rightarrow> string" where
  "scenarioLabel scenario =
     (if scenario = ''spotify'' then ''Spotify''
      else if scenario = ''yandexmusic'' then ''Yandex Music''
      else if scenario = ''soundcloud'' then ''SoundCloud''
      else if scenario = ''pinterest'' then ''Pinterest''
      else if scenario = ''tiktok'' then ''TikTok''
      else ''video'')"

definition ActiveQueueKeyboard :: "string \<Rightarrow> string \<Rightarrow> int \<Rightarrow> string \<Rightarrow> keyboard" where
  "ActiveQueueKeyboard lang scenario userID token =
     [[button (Loc ''download.queue_remove'' lang [(''item'', scenarioLabel scenario)])
         (CallbackData scenario userID token)]]"

subsection \<open>The buttons (handler/cancel.go)\<close>

definition onCancelDownload :: "'s bot_env \<Rightarrow> callback \<Rightarrow> 's world \<Rightarrow> 's world" where
  "onCancelDownload B q w =
     (let lang = userLang B (u_id (q_from q)) w in
      case ParseCancel (q_data q) of
        None \<Rightarrow> toast B q ''download.cancel_unavailable'' lang True w
      | Some d \<Rightarrow>
          if u_id (q_from q) \<noteq> cd_user d then toast B q ''download.cancel_not_allowed'' lang True w
          else
            let w = do_st (SetDownloadCancelled (b_redis B) (b_prefix B) (cd_scenario d)
                       (cd_user d) (cd_token d) (hours 2)) w;
                w = do_st (ReleaseUserLock (b_redis B) (b_prefix B) (cd_user d)
                       (cd_scenario d) (cd_token d)) w;
                w = edit_msg B q (Loc ''download.cancelled'' lang []) [] w in
            toast B q ''download.cancel_done'' lang False w)"

definition onDownloadQueue :: "'s bot_env \<Rightarrow> callback \<Rightarrow> 's world \<Rightarrow> 's world" where
  "onDownloadQueue B q w =
     (let lang = userLang B (u_id (q_from q)) w in
      case ParseQueue (q_data q) of
        None \<Rightarrow> toast B q ''download.queue_unavailable'' lang True w
      | Some userID \<Rightarrow>
          if u_id (q_from q) \<noteq> userID then toast B q ''download.queue_not_allowed'' lang True w
          else
            case on_st (GetActiveDownload (b_redis B) (b_prefix B) userID) w of
              (Inr (Some active), w) \<Rightarrow>
                ack B q (edit_msg B q (Loc ''download.queue_title'' lang [])
                  (ActiveQueueKeyboard lang (ad_scenario active) (ad_user active) (ad_token active)) w)
            | (_, w) \<Rightarrow> ack B q (edit_msg B q (Loc ''download.queue_empty'' lang []) [] w))"

subsection \<open>The command (handler/clear.go)\<close>

fun cancel_refs :: "'s bot_env \<Rightarrow> int \<Rightarrow> lock_ref list \<Rightarrow> 's world \<Rightarrow> 's world" where
  "cancel_refs B userID [] w = w"
| "cancel_refs B userID (r # rs) w =
     cancel_refs B userID rs
       (do_st (SetDownloadCancelled (b_redis B) (b_prefix B) (ref_scene r) userID (ref_token r)
          (hours 2)) w)"

text \<open>
  The inspector is an argument, an error when it cannot be made. The last call passes no queue
  names, as the code does.
\<close>

definition onClear :: "'s inspector result \<Rightarrow> 's bot_env \<Rightarrow> message \<Rightarrow> 's world \<Rightarrow> 's world" where
  "onClear insp B m w =
     (case m_from m of
        None \<Rightarrow> w
      | Some u \<Rightarrow>
          let lang = userLang B (u_id u) w;
              userID = u_id u;
              (act, w) = on_st (GetActiveDownload (b_redis B) (b_prefix B) userID) w;
              active = (case act of Inl _ \<Rightarrow> None | Inr a \<Rightarrow> a);
              w = (case active of
                     None \<Rightarrow> w
                   | Some a \<Rightarrow> do_st (SetDownloadCancelled (b_redis B) (b_prefix B) (ad_scenario a)
                       userID (ad_token a) (hours 2)) w);
              cleared = (active \<noteq> None);
              w = do_st (ForceReleaseUserLock (b_redis B) (b_prefix B) userID) w in
          case insp of
            Inl e \<Rightarrow> reply B (m_chat m) ''errors.generic'' lang w
          | Inr insp \<Rightarrow>
              (case on_st (\<lambda>s. case ClearUserTasks insp userID [] s of
                            (res, refs, err, s) \<Rightarrow> ((res, refs, err), s)) w of
                 ((res, refs, Some e), w) \<Rightarrow> reply B (m_chat m) ''errors.generic'' lang w
               | ((res, refs, None), w) \<Rightarrow>
                   let w = cancel_refs B userID refs w;
                       cleared = (cleared \<or> clear_any res) in
                   reply B (m_chat m) (if cleared then ''clear.success'' else ''clear.empty'') lang w))"

subsection \<open>Properties\<close>

lemma buttons_parse:
  assumes "CHR '':'' \<notin> set sc" "CHR '':'' \<notin> set tok" "tok \<noteq> []" "in_int64 u"
  shows "ParseCancel (CallbackData sc u tok) = Some \<lparr>cd_scenario = sc, cd_user = u, cd_token = tok\<rparr>"
    and "ParseQueue (QueueCallbackData u) = Some u"
proof -
  have "split_char CHR '':'' (''dlc'' @ CHR '':'' # (sc @ CHR '':'' # (itoa u @ CHR '':'' # tok)))
      = [''dlc'', sc, itoa u, tok]"
    using assms(1,2) itoa_no_sep(1) [of u]
    by (subst split_char_append, simp, subst split_char_append, simp, subst split_char_append)
      (simp_all add: split_char_no_sep)
  then show "ParseCancel (CallbackData sc u tok) = Some \<lparr>cd_scenario = sc, cd_user = u, cd_token = tok\<rparr>"
    using assms(3,4) by (simp add: ParseCancel_def CallbackData_def atoi_itoa)
  have "split_char CHR '':'' (''dlq'' @ CHR '':'' # itoa u) = [''dlq'', itoa u]"
    using itoa_no_sep(1) [of u]
    by (subst split_char_append) (simp_all add: split_char_no_sep)
  then show "ParseQueue (QueueCallbackData u) = Some u"
    using assms(4) by (simp add: ParseQueue_def QueueCallbackData_def atoi_itoa)
qed

text \<open>
  The data of a cancel button and of a queue button read back as what was written, for
  every user id, when the scene and the token contain no colon and the token is not empty.
\<close>

theorem cancel_data_roundtrip:
  assumes "CHR '':'' \<notin> set sc" "CHR '':'' \<notin> set tok" "tok \<noteq> []" "in_int64 u"
  shows "ParseCancel (CallbackData sc u tok) = Some \<lparr>cd_scenario = sc, cd_user = u, cd_token = tok\<rparr>
    \<and> ParseQueue (QueueCallbackData u) = Some u"
  using buttons_parse [OF assms] by simp

lemma cancel_data_roundtrip_witness:
  "ParseCancel (CallbackData ''tiktok'' 42 ''ab-1'')
     = Some \<lparr>cd_scenario = ''tiktok'', cd_user = 42, cd_token = ''ab-1''\<rparr>
   \<and> ParseQueue (QueueCallbackData (- 7)) = Some (- 7)"
  using cancel_data_roundtrip [of "''tiktok''" "''ab-1''" 42]
    cancel_data_roundtrip [of "''tiktok''" "''ab-1''" "- 7"]
  by (simp add: in_int64_def int64_min_def int64_max_def)

text \<open>A cancel flag is another key than any lock.\<close>

lemma cancelKey_not_lockKey [simp]: "cancelKey c sc u tok \<noteq> lockKey c' u' \<or> c \<noteq> c'"
  by (auto simp: cancelKey_def lockKey_def key_def cancelPrefix_def lockPrefix_def)

lemma SetDownloadCancelled_holder:
  assumes "lawful_redis R \<alpha>"
  shows "lock_holder c (\<alpha> (snd (SetDownloadCancelled R c sc u tok ttl s))) = lock_holder c (\<alpha> s)"
proof -
  obtain e s' where x: "exec R (CSet (cancelKey c sc u tok) (RText ''1'') ttl) s = (e, s')"
    by (cases "exec R (CSet (cancelKey c sc u tok) (RText ''1'') ttl) s")
  have "cancelKey c sc u tok \<noteq> lockKey c u'" for u' using cancelKey_not_lockKey by blast
  with exec_cases [OF assms x] x show ?thesis
    by (auto simp: SetDownloadCancelled_def lock_holder_def fun_eq_iff)
qed

lemma cancel_press_frame:
  fixes w :: "'s world"
  assumes "lawful_redis (b_redis B) \<alpha>" "ParseCancel (q_data q) = Some d"
  defines "w' \<equiv> onCancelDownload B q w"
  shows "u_id (q_from q) \<noteq> cd_user d \<Longrightarrow>
      w_st w' = w_st w \<and> (\<exists>t. w_log w' = w_log w @ [Answer (q_id q) t True])"
    and "u \<noteq> u_id (q_from q) \<or> lock_holder (b_prefix B) (\<alpha> (w_st w)) u
        \<noteq> Some (RText (lock_value (cd_scenario d) (cd_token d))) \<Longrightarrow>
      lock_holder (b_prefix B) (\<alpha> (w_st w')) u = lock_holder (b_prefix B) (\<alpha> (w_st w)) u"
proof -
  show "w_st w' = w_st w \<and> (\<exists>t. w_log w' = w_log w @ [Answer (q_id q) t True])"
    if "u_id (q_from q) \<noteq> cd_user d"
    using that assms(2) by (simp add: w'_def onCancelDownload_def Let_def)
next
  assume other: "u \<noteq> u_id (q_from q) \<or> lock_holder (b_prefix B) (\<alpha> (w_st w)) u
        \<noteq> Some (RText (lock_value (cd_scenario d) (cd_token d)))"
  show "lock_holder (b_prefix B) (\<alpha> (w_st w')) u = lock_holder (b_prefix B) (\<alpha> (w_st w)) u"
  proof (cases "u_id (q_from q) = cd_user d")
    case False
    then show ?thesis using assms(2) by (simp add: w'_def onCancelDownload_def Let_def)
  next
    case True
    define s1 where "s1 = snd (SetDownloadCancelled (b_redis B) (b_prefix B) (cd_scenario d)
      (cd_user d) (cd_token d) (hours 2) (w_st w))"
    obtain e s2 where rel: "ReleaseUserLock (b_redis B) (b_prefix B) (cd_user d) (cd_scenario d)
        (cd_token d) s1 = (e, s2)"
      by fastforce
    have h1: "lock_holder (b_prefix B) (\<alpha> s1) = lock_holder (b_prefix B) (\<alpha> (w_st w))"
      unfolding s1_def by (rule SetDownloadCancelled_holder) (rule assms(1))
    have "w_st w' = s2"
      using True assms(2) rel by (simp add: w'_def onCancelDownload_def Let_def s1_def)
    moreover have "lock_holder (b_prefix B) (\<alpha> s2) u = lock_holder (b_prefix B) (\<alpha> s1) u"
      by (cases rule: release_cases [OF assms(1) rel]) (use other True h1 in auto)
    ultimately show ?thesis by (simp add: h1)
  qed
qed

lemma cancel_press_works:
  assumes "lawful_redis (b_redis B) \<alpha>" "reliable_redis (b_redis B)"
    and "ParseCancel (q_data q) = Some d" "u_id (q_from q) = cd_user d"
    and "lock_holder (b_prefix B) (\<alpha> (w_st w)) (cd_user d)
      = Some (RText (lock_value (cd_scenario d) (cd_token d)))"
  shows "lock_holder (b_prefix B) (\<alpha> (w_st (onCancelDownload B q w))) (cd_user d) = None
    \<and> live_val (\<alpha> (w_st (onCancelDownload B q w)))
        (cancelKey (b_prefix B) (cd_scenario d) (cd_user d) (cd_token d)) = Some (RText ''1'')"
proof -
  let ?k = "cancelKey (b_prefix B) (cd_scenario d) (cd_user d) (cd_token d)"
  obtain e1 s1 where set: "SetDownloadCancelled (b_redis B) (b_prefix B) (cd_scenario d)
      (cd_user d) (cd_token d) (hours 2) (w_st w) = (e1, s1)" by fastforce
  obtain e2 s2 where rel: "ReleaseUserLock (b_redis B) (b_prefix B) (cd_user d) (cd_scenario d)
      (cd_token d) s1 = (e2, s2)" by fastforce
  have st: "w_st (onCancelDownload B q w) = s2"
    using assms(3,4) set rel by (simp add: onCancelDownload_def Let_def)
  have "e1 = None" using set reliable_exec [OF assms(2)] by (simp add: SetDownloadCancelled_def)
  with exec_cases [OF assms(1) set [unfolded SetDownloadCancelled_def]]
  have flag: "live_val (\<alpha> s1) ?k = Some (RText ''1'')"
    by (simp add: visible_def deadline_def hours_def second_def)
  have "lock_holder (b_prefix B) (\<alpha> s1) = lock_holder (b_prefix B) (\<alpha> (w_st w))"
    using SetDownloadCancelled_holder [OF assms(1)] set by (metis snd_conv)
  moreover have "e2 = None" using rel reliable_exec [OF assms(2)] by (simp add: ReleaseUserLock_def)
  ultimately have drop: "\<alpha> s2 = drop_key (lockKey (b_prefix B) (cd_user d)) (\<alpha> s1)"
    by (cases rule: release_cases [OF assms(1) rel]) (use assms(5) in auto)
  have "lockKey (b_prefix B) (cd_user d) \<noteq> ?k" using cancelKey_not_lockKey by metis
  with drop flag st show ?thesis by (simp add: lock_holder_def)
qed

text \<open>
  C27. Only the owner of a download cancels it, and only that download: a press by anybody else
  changes no state and does nothing but answer the press; a press on a stale button, one
  whose scene and token are not those of the lock now held, leaves the new lock alone, as it
  leaves every other user's; and, with a Redis that answers every call, the owner's press on the button of the running
  download sets the flag its worker polls and frees the lock.
\<close>

theorem cancel_own_download_only:
  fixes w :: "'s world"
  assumes "lawful_redis (b_redis B) \<alpha>" "ParseCancel (q_data q) = Some d"
  defines "w' \<equiv> onCancelDownload B q w" and "c \<equiv> b_prefix B"
    and "v \<equiv> RText (lock_value (cd_scenario d) (cd_token d))"
  shows "(u_id (q_from q) \<noteq> cd_user d \<longrightarrow>
      w_st w' = w_st w \<and> (\<exists>t. w_log w' = w_log w @ [Answer (q_id q) t True]))
    \<and> (u \<noteq> u_id (q_from q) \<or> lock_holder c (\<alpha> (w_st w)) u \<noteq> Some v \<longrightarrow>
      lock_holder c (\<alpha> (w_st w')) u = lock_holder c (\<alpha> (w_st w)) u)
    \<and> (reliable_redis (b_redis B) \<and> u_id (q_from q) = cd_user d
        \<and> lock_holder c (\<alpha> (w_st w)) (cd_user d) = Some v \<longrightarrow>
      lock_holder c (\<alpha> (w_st w')) (cd_user d) = None
      \<and> live_val (\<alpha> (w_st w')) (cancelKey c (cd_scenario d) (cd_user d) (cd_token d)) = Some (RText ''1''))"
  unfolding w'_def c_def v_def
  using cancel_press_frame [OF assms(1,2)] cancel_press_works [OF assms(1) _ assms(2)] by blast

definition sample_env :: "redis_db bot_env" where
  "sample_env = \<lparr>b_redis = ref_redis, b_prefix = [], b_cfg = loaded (\<lambda>_. []),
     b_answer = (\<lambda>evs e. Inr (int (length evs))), b_lang = (\<lambda>evs u. Inr ''en''),
     b_token = (\<lambda>evs. ''tok''), b_now = db_now,
     b_settings = (\<lambda>evs u. Inr \<lparr>us_ratio = [], us_no_watermark = False\<rparr>),
     b_paid = (\<lambda>evs u p. (False, None)), b_link_banned = (\<lambda>evs h. Inr False),
     b_hash = (\<lambda>s. s), b_probe = (\<lambda>evs u t. Inl ''no yt-dlp'')\<rparr>"

text \<open>Somebody else's press on the button of user 7 leaves her lock; her own press frees it.\<close>

definition sample_cancel :: "int \<Rightarrow> callback" where
  "sample_cancel u = \<lparr>q_id = ''q'', q_from = \<lparr>u_id = u, u_name = [], u_first = []\<rparr>,
     q_data = CallbackData ''tiktok'' 7 ''t'', q_msg = None\<rparr>"

lemma cancel_own_download_only_witness:
  "let s = snd (AcquireUserLock ref_redis [] ''t'' 7 ''tiktok'' (hours 1) empty_db);
       w = \<lparr>w_st = s, w_fsm = newFSM, w_log = []\<rparr> in
   w_st (onCancelDownload sample_env (sample_cancel 8) w) = s
   \<and> lock_holder [] (w_st (onCancelDownload sample_env (sample_cancel 7) w)) 7 = None"
proof -
  let ?s = "snd (AcquireUserLock ref_redis [] ''t'' 7 ''tiktok'' (hours 1) empty_db)"
  let ?d = "\<lparr>cd_scenario = ''tiktok'', cd_user = 7, cd_token = ''t''\<rparr>"
  have p: "ParseCancel (q_data (sample_cancel u)) = Some ?d" for u
    using buttons_parse(1) [of "''tiktok''" "''t''" 7]
    by (simp add: sample_cancel_def in_int64_def int64_min_def int64_max_def)
  have law: "lawful_redis (b_redis sample_env) (\<lambda>db. db)" "reliable_redis (b_redis sample_env)"
    using lawful_ref_redis reliable_ref by (simp_all add: sample_env_def)
  have "b_prefix sample_env = []" by (simp add: sample_env_def)
  moreover have "lock_holder [] ?s 7 = Some (RText (lock_value ''tiktok'' ''t''))"
    by (simp add: AcquireUserLock_def lock_holder_def key_exists_def empty_db_def live_val_def
        live_zset_def visible_def deadline_def hours_def second_def put_val_def)
  moreover have "u_id (q_from (sample_cancel u)) = u" for u by (simp add: sample_cancel_def)
  ultimately show ?thesis
    using cancel_own_download_only [OF law(1) p [of 8], of "\<lparr>w_st = ?s, w_fsm = newFSM, w_log = []\<rparr>"]
      cancel_own_download_only [OF law(1) p [of 7], of "\<lparr>w_st = ?s, w_fsm = newFSM, w_log = []\<rparr>"] law(2)
    by simp
qed

subsection \<open>What the command leaves behind\<close>

text \<open>Redis and the task lists are different data: a Redis command changes no task list.\<close>

definition separate :: "'s redis \<Rightarrow> ('s \<Rightarrow> 'v) \<Rightarrow> bool" where
  "separate R view \<longleftrightarrow> (\<forall>cs s. view (snd (R cs s)) = view s)"

lemma separate_call: "separate R view \<Longrightarrow> view (snd (call R c s)) = view s"
proof -
  assume "separate R view"
  then have "view (snd (R [c] s)) = view s" unfolding separate_def by simp
  then show ?thesis by (auto simp: call_def split: prod.splits sum.splits)
qed

lemma separate_exec: "separate R view \<Longrightarrow> view (snd (exec R c s)) = view s"
  using separate_call [of R view c s] by (auto simp: exec_def split: prod.splits)

lemma separate_get: "separate R view \<Longrightarrow> view (snd (GetActiveDownload R c u s)) = view s"
  using separate_call [of R view "CGet (lockKey c u)" s]
  by (auto simp: GetActiveDownload_def split: prod.splits sum.splits reply.splits rval.splits
      list.splits)

lemma cancel_refs_view:
  "separate (b_redis B) view \<Longrightarrow> view (w_st (cancel_refs B u rs w)) = view (w_st w)"
  by (induction rs arbitrary: w) (simp_all add: SetDownloadCancelled_def separate_exec)

lemma onClear_view:
  assumes "separate (b_redis B) view" "m_from m = Some u"
  shows "\<exists>s1 res refs err s2. view s1 = view (w_st w)
    \<and> ClearUserTasks insp (u_id u) [] s1 = (res, refs, err, s2)
    \<and> view (w_st (onClear (Inr insp) B m w)) = view s2"
proof -
  note sep = separate_exec [OF assms(1)] separate_get [OF assms(1)]
  obtain a w1 where g: "on_st (GetActiveDownload (b_redis B) (b_prefix B) (u_id u)) w = (a, w1)"
    by fastforce
  have v1: "view (w_st w1) = view (w_st w)"
    using sep(2) [of "b_prefix B" "u_id u" "w_st w"] on_st_eqD [OF g] by simp
  define active where "active = (case a of Inl _ \<Rightarrow> None | Inr x \<Rightarrow> x)"
  define w2 where "w2 = (case active of None \<Rightarrow> w1
    | Some x \<Rightarrow> do_st (SetDownloadCancelled (b_redis B) (b_prefix B) (ad_scenario x) (u_id u)
        (ad_token x) (hours 2)) w1)"
  have v2: "view (w_st w2) = view (w_st w1)"
    by (cases active) (simp_all add: w2_def SetDownloadCancelled_def sep)
  define w3 where "w3 = do_st (ForceReleaseUserLock (b_redis B) (b_prefix B) (u_id u)) w2"
  have v3: "view (w_st w3) = view (w_st w2)"
    by (simp add: w3_def ForceReleaseUserLock_def sep)
  obtain res refs err s2 where c: "ClearUserTasks insp (u_id u) [] (w_st w3) = (res, refs, err, s2)"
    by (metis prod_cases4)
  have "view (w_st (onClear (Inr insp) B m w)) = view s2"
    using c cancel_refs_view [OF assms(1)]
    by (cases err) (simp_all add: onClear_def assms(2) g Let_def active_def [symmetric]
        w2_def [symmetric] w3_def [symmetric] on_st_def [of _ w3])
  with c v1 v2 v3 show ?thesis by metis
qed

text \<open>
  The command \<open>/clear\<close> removes none of the user's waiting jobs: it passes no queue names, so
  it only looks at the broker's default queue, while every job the bot enqueues for a user waits
  on another one. Whatever Redis and Telegram answer, the list of that queue is the same
  afterwards, even when the user is told that everything was cleared.
\<close>

theorem clear_command_removes_no_job:
  assumes "lawful_inspector insp view" "separate (b_redis B) view" "ids_unique (view (w_st w))"
    and "m_from m = Some u"
    and "rq \<in> {EnqueueDownload id p, EnqueueTikTok id p, EnqueuePinterestDefault id p,
      EnqueueInstagram id p, EnqueueReddit id p, EnqueueTikTokCarousel id p,
      EnqueueSpotify id pm, EnqueueSoundCloud id pm, EnqueueYandexMusic id pm}"
  shows "view (w_st (onClear (Inr insp) B m w)) l (rq_queue rq) = view (w_st w) l (rq_queue rq)"
proof -
  obtain s1 res refs err s2 where *: "view s1 = view (w_st w)"
    "ClearUserTasks insp (u_id u) [] s1 = (res, refs, err, s2)"
    "view (w_st (onClear (Inr insp) B m w)) = view s2"
    using onClear_view [OF assms(2,4)] by blast
  have "rq_queue rq \<notin> set (effective_queues [])"
    using assms(5) QueueFor_not_default [of p]
    by (auto simp: enqueue_defs request_def effective_queues_def QueueDownload_def
        defaultQueueName_def)
  moreover have "ids_unique (view s1)" using assms(3) *(1) by simp
  ultimately have "view s2 l (rq_queue rq) = view s1 l (rq_queue rq)"
    using clear_user_frame [OF assms(1) _ *(2)] unfolding clear_frame_def by blast
  with * show ?thesis by simp
qed

text \<open>A state that holds both: Redis on the left, the task lists on the right.\<close>

definition pair_redis :: "(redis_db \<times> 'v) redis" where
  "pair_redis cs s = (case redis_run cs (fst s) of (rs, db) \<Rightarrow> (Inr rs, (db, snd s)))"

definition pair_inspector ::
  "(redis_db \<times> (tlist \<Rightarrow> string \<Rightarrow> task list)) inspector" where
  "pair_inspector =
     \<lparr>insp_list = (\<lambda>l q s. case insp_list ref_inspector l q (snd s) of (r, v) \<Rightarrow> (r, (fst s, v))),
      insp_cancel = (\<lambda>i s. case insp_cancel ref_inspector i (snd s) of (r, v) \<Rightarrow> (r, (fst s, v))),
      insp_delete = (\<lambda>q i s. case insp_delete ref_inspector q i (snd s) of (r, v) \<Rightarrow> (r, (fst s, v)))\<rparr>"

lemma lawful_pair_inspector: "lawful_inspector pair_inspector snd"
  using lawful_ref_inspector
  by (simp add: lawful_inspector_def pair_inspector_def split_beta)

lemma separate_pair: "separate pair_redis snd"
  by (simp add: separate_def pair_redis_def split_beta)

definition pair_env :: "(redis_db \<times> (tlist \<Rightarrow> string \<Rightarrow> task list)) bot_env" where
  "pair_env = \<lparr>b_redis = pair_redis, b_prefix = [], b_cfg = loaded (\<lambda>_. []),
     b_answer = (\<lambda>evs e. Inr (int (length evs))), b_lang = (\<lambda>evs u. Inr ''en''),
     b_token = (\<lambda>evs. ''tok''), b_now = (\<lambda>s. db_now (fst s)),
     b_settings = (\<lambda>evs u. Inr \<lparr>us_ratio = [], us_no_watermark = False\<rparr>),
     b_paid = (\<lambda>evs u p. (False, None)), b_link_banned = (\<lambda>evs h. Inr False),
     b_hash = (\<lambda>s. s), b_probe = (\<lambda>evs u t. Inl ''no yt-dlp'')\<rparr>"

lemma clear_command_removes_no_job_witness:
  "let m = \<lparr>m_chat = 1, m_type = ''private'', m_id = 5,
        m_from = Some \<lparr>u_id = 1, u_name = [], u_first = []\<rparr>, m_text = ''/clear'', m_caption = [],
        m_media = False\<rparr>;
       w = \<lparr>w_st = (empty_db, sample_view QueueDownload), w_fsm = newFSM, w_log = []\<rparr> in
   snd (w_st (onClear (Inr pair_inspector) pair_env m w)) LPending QueueDownload
     = [sample_task ''a'' 1, sample_task ''b'' 2]"
proof -
  let ?m = "\<lparr>m_chat = 1, m_type = ''private'', m_id = 5,
        m_from = Some \<lparr>u_id = 1, u_name = [], u_first = []\<rparr>, m_text = ''/clear'', m_caption = [],
        m_media = False\<rparr>"
  let ?w = "\<lparr>w_st = (empty_db, sample_view QueueDownload), w_fsm = newFSM, w_log = []\<rparr>"
  have sep: "separate (b_redis pair_env) snd"
    using separate_pair by (simp add: pair_env_def)
  have ids: "ids_unique (snd (w_st ?w))" by (simp add: ids_unique_sample)
  have q: "rq_queue (EnqueueTikTok id zero_download) = QueueDownload"
    by (simp add: EnqueueTikTok_def request_def)
  have v: "sample_view QueueDownload LPending QueueDownload = [sample_task ''a'' 1, sample_task ''b'' 2]"
    by (simp add: sample_view_def)
  show ?thesis
    using clear_command_removes_no_job [OF lawful_pair_inspector sep ids,
        of ?m "\<lparr>u_id = 1, u_name = [], u_first = []\<rparr>" "EnqueueTikTok id zero_download"
        zero_download undefined LPending]
    by (simp add: q v)
qed

end
