(* ===== verification/Gofloat.thy ===== *)
theory Gofloat
  imports Prelude
begin

text \<open>
  The floating-point numbers the sources parse from text: \<open>strconv.ParseFloat\<close>, comparisons with
  the special values, and the conversions to integers. A finite number is the exact rational, so rounding
  is idealised; infinities and NaN are kept because \<open>ParseFloat\<close> returns them without an error.
\<close>

datatype gofloat = Fin rat | PosInf | NegInf | NaN

fun fl_less :: "gofloat \<Rightarrow> gofloat \<Rightarrow> bool" where
  "fl_less (Fin a) (Fin b) \<longleftrightarrow> a < b"
| "fl_less (Fin a) PosInf \<longleftrightarrow> True"
| "fl_less NegInf (Fin b) \<longleftrightarrow> True"
| "fl_less NegInf PosInf \<longleftrightarrow> True"
| "fl_less _ _ \<longleftrightarrow> False"

definition fl_le :: "gofloat \<Rightarrow> gofloat \<Rightarrow> bool" where
  "fl_le x y \<longleftrightarrow> fl_less x y \<or> x = y \<and> x \<noteq> NaN"

text \<open>Adding a number to a finite total.\<close>

fun fl_add :: "rat \<Rightarrow> gofloat \<Rightarrow> gofloat" where
  "fl_add a (Fin b) = Fin (a + b)"
| "fl_add a x = x"

fun finite_fl :: "gofloat \<Rightarrow> bool" where
  "finite_fl (Fin a) = True"
| "finite_fl _ = False"

fun fin_of :: "gofloat \<Rightarrow> rat" where
  "fin_of (Fin a) = a"
| "fin_of _ = 0"

subsection \<open>ParseFloat\<close>

definition max_float_bound :: rat where
  "max_float_bound = 2 ^ 1024 - 2 ^ 970"

definition digits_of :: "string \<Rightarrow> string \<times> string" where
  "digits_of s = (takeWhile is_digit s, dropWhile is_digit s)"

definition nat_of_digits :: "string \<Rightarrow> nat" where
  "nat_of_digits ds = foldl (\<lambda>a c. 10 * a + digit_val c) 0 ds"

definition pow10 :: "int \<Rightarrow> rat" where
  "pow10 e = (if e < 0 then 1 / 10 ^ nat (- e) else 10 ^ nat e)"

text \<open>The exponent part: absent, or \<open>e\<close> with an optional sign and at least one digit.\<close>

definition parse_exponent :: "string \<Rightarrow> int option" where
  "parse_exponent s =
     (case s of
        [] \<Rightarrow> Some 0
      | c # r \<Rightarrow>
          if lower_char c \<noteq> CHR ''e'' then None
          else
            let (neg, ds) = split_sign r in
            if ds = [] \<or> \<not> list_all is_digit ds then None
            else Some (if neg then - int (nat_of_digits ds) else int (nat_of_digits ds)))"

definition parse_decimal :: "string \<Rightarrow> rat option" where
  "parse_decimal s =
     (let (ip, r) = digits_of s;
          (fp, r) = (case r of
                       c # r' \<Rightarrow> if c = CHR ''.'' then digits_of r' else ([], r)
                     | [] \<Rightarrow> ([], []))
      in if ip = [] \<and> fp = [] then None
         else case parse_exponent r of
           None \<Rightarrow> None
         | Some e \<Rightarrow> Some (of_nat (nat_of_digits (ip @ fp)) * pow10 (e - int (length fp))))"

text \<open>
  Hexadecimal floats are not read. A finite text beyond the largest float is a range error, so
  it is \<open>None\<close> here, as the callers test the error first.
\<close>

definition parse_float :: "string \<Rightarrow> gofloat option" where
  "parse_float s =
     (let (neg, r) = split_sign s; l = to_lower r in
      if l = ''inf'' \<or> l = ''infinity'' then Some (if neg then NegInf else PosInf)
      else if to_lower s = ''nan'' then Some NaN
      else case parse_decimal r of
        None \<Rightarrow> None
      | Some v \<Rightarrow>
          if v \<ge> max_float_bound then None else Some (Fin (if neg then - v else v)))"

text \<open>Conversion of a finite number to an integer truncates toward zero.\<close>

definition trunc :: "rat \<Rightarrow> int" where
  "trunc x = (if x < 0 then - \<lfloor>- x\<rfloor> else \<lfloor>x\<rfloor>)"

lemma trunc_nonneg: "0 \<le> x \<Longrightarrow> 0 \<le> trunc x"
  by (simp add: trunc_def)

end
