(* ===== verification/Youtube.thy ===== *)
theory Youtube
  imports Gofloat Telegram
begin

text \<open>
  \<open>go/internal/youtube\<close>: titles and ids (\<open>title.go\<close>), trim ranges (\<open>trim.go\<close>), the choice of
  formats (\<open>probe.go\<close>), the texts and buttons of the format card (\<open>card.go\<close>, \<open>keyboards.go\<close>) and
  the pending session in Redis (\<open>session.go\<close>). yt-dlp's answer is an argument of \<open>Probe\<close>.
\<close>

subsection \<open>File names (path/filepath)\<close>

definition strip_slashes :: "string \<Rightarrow> string" where
  "strip_slashes p = trim_right_set ''/'' p"

definition after_last :: "char \<Rightarrow> string \<Rightarrow> string" where
  "after_last c s = rev (takeWhile (\<lambda>x. x \<noteq> c) (rev s))"

definition file_base :: "string \<Rightarrow> string" where
  "file_base p =
     (if p = [] then ''.''
      else let q = strip_slashes p in if q = [] then ''/'' else after_last CHR ''/'' q)"

definition file_ext :: "string \<Rightarrow> string" where
  "file_ext p =
     (let last = after_last CHR ''/'' p in
      if CHR ''.'' \<in> set last then CHR ''.'' # after_last CHR ''.'' last else [])"

subsection \<open>Titles and ids (title.go)\<close>

definition is_id_char :: "char \<Rightarrow> bool" where
  "is_id_char c \<longleftrightarrow> is_alnum c \<or> c = CHR ''-'' \<or> c = CHR ''_''"

definition isVideoID :: "string \<Rightarrow> bool" where
  "isVideoID s \<longleftrightarrow> length s = 11 \<and> list_all is_id_char s"

fun drop_ratio :: "string list \<Rightarrow> string \<Rightarrow> string" where
  "drop_ratio [] base = base"
| "drop_ratio (r # rs) base =
     (if has_suffix base (''_'' @ r) then trim_suffix base (''_'' @ r) else drop_ratio rs base)"

definition DisplayTitle :: "string \<Rightarrow> string" where
  "DisplayTitle path =
     (let base = drop_ratio [''9_16'', ''16_9'', ''21_9''] (trim_suffix (file_base path) (file_ext path));
          base = (case last_index_char base CHR ''_'' of
                    None \<Rightarrow> base
                  | Some i \<Rightarrow>
                      if i > 0 \<and> isVideoID (drop (i + 1) base) then take i base else base)
      in trim_right_set ''_'' (trim_space base))"

fun video_id_in :: "string list \<Rightarrow> string \<Rightarrow> string" where
  "video_id_in [] url = []"
| "video_id_in (m # ms) url =
     (case index_of url m of
        None \<Rightarrow> video_id_in ms url
      | Some i \<Rightarrow>
          let rest = drop (i + length m) url in
          if length rest < 11 then video_id_in ms url
          else if isVideoID (take 11 rest) then take 11 rest
          else video_id_in ms url)"

definition VideoID :: "string \<Rightarrow> string" where
  "VideoID url =
     video_id_in [''watch?v='', ''/shorts/'', ''youtu.be/'', ''/embed/'', ''&v='', ''/live/''] url"

subsection \<open>Trim ranges (trim.go)\<close>

datatype trim_error = ErrTrimFormat | ErrTrimOrder | ErrTrimRange

definition em_dash :: string where "em_dash = [CHR 0xE2, CHR 0x80, CHR 0x94]"
definition en_dash :: string where "en_dash = [CHR 0xE2, CHR 0x80, CHR 0x93]"
definition minus_sign :: string where "minus_sign = [CHR 0xE2, CHR 0x88, CHR 0x92]"

text \<open>The replacer: at each place the first of the four that is there becomes a hyphen.\<close>

fun normalize_dashes :: "string \<Rightarrow> string" where
  "normalize_dashes (a # b # c # s) =
     (if [a, b, c] = em_dash \<or> [a, b, c] = en_dash \<or> [a, b, c] = minus_sign
      then CHR ''-'' # normalize_dashes s
      else if a = CHR ''.'' \<and> b = CHR ''.'' then CHR ''-'' # normalize_dashes (c # s)
      else a # normalize_dashes (b # c # s))"
| "normalize_dashes [a, b] = (if a = CHR ''.'' \<and> b = CHR ''.'' then ''-'' else [a, b])"
| "normalize_dashes s = s"

definition unitSeconds :: "nat \<Rightarrow> nat \<Rightarrow> rat" where
  "unitSeconds fieldCount index = 60 ^ (fieldCount - 1 - index)"

fun sum_fields :: "nat \<Rightarrow> nat \<Rightarrow> rat \<Rightarrow> string list \<Rightarrow> trim_error + gofloat" where
  "sum_fields n i acc [] = Inr (Fin acc)"
| "sum_fields n i acc (f # fs) =
     (let field = trim_space f in
      if field = [] then Inl ErrTrimFormat
      else if fs = [] then
        (case parse_float field of
           None \<Rightarrow> Inl ErrTrimFormat
         | Some v \<Rightarrow> if fl_less v (Fin 0) then Inl ErrTrimFormat else Inr (fl_add acc v))
      else
        (case atoi field of
           None \<Rightarrow> Inl ErrTrimFormat
         | Some v \<Rightarrow>
             if v < 0 then Inl ErrTrimFormat
             else sum_fields n (Suc i) (acc + of_int v * unitSeconds n i) fs))"

definition parseTimecode :: "string \<Rightarrow> trim_error + gofloat" where
  "parseTimecode raw =
     (let s = trim_space raw in
      if s = [] then Inl ErrTrimFormat
      else
        let fields = split_char CHR '':'' s in
        if length fields > 3 then Inl ErrTrimFormat
        else sum_fields (length fields) 0 0 fields)"

text \<open>\<open>check_range\<close> is the tail of \<open>ParseRange\<close>, after both times are read.\<close>

definition check_range :: "gofloat \<Rightarrow> gofloat \<Rightarrow> int \<Rightarrow> trim_error + gofloat \<times> gofloat" where
  "check_range start stop durationSec =
     (let d = Fin (of_int durationSec) in
      if durationSec > 0 \<and> fl_le d start then Inl ErrTrimRange
      else
        let stop = (if durationSec > 0 \<and> fl_less d stop then d else stop) in
        if fl_le stop start then Inl ErrTrimOrder else Inr (start, stop))"

definition ParseRange :: "string \<Rightarrow> int \<Rightarrow> trim_error + gofloat \<times> gofloat" where
  "ParseRange inp durationSec =
     (case split_char CHR ''-'' (normalize_dashes inp) of
        [p0, p1] \<Rightarrow>
          (case parseTimecode p0 of
             Inl e \<Rightarrow> Inl e
           | Inr start \<Rightarrow>
               (case parseTimecode p1 of
                  Inl e \<Rightarrow> Inl e
                | Inr stop \<Rightarrow> check_range start stop durationSec))
      | _ \<Rightarrow> Inl ErrTrimFormat)"

text \<open>The verb \<open>%02d\<close> on a number that is not negative.\<close>

definition pad2 :: "int \<Rightarrow> string" where
  "pad2 n = (if n < 10 then CHR ''0'' # itoa n else itoa n)"

definition FormatDuration :: "int \<Rightarrow> string" where
  "FormatDuration sec =
     (let sec = (if sec < 0 then 0 else sec);
          h = sec div 3600; m = sec mod 3600 div 60; s = sec mod 60 in
      if h > 0 then itoa h @ '':'' @ pad2 m @ '':'' @ pad2 s
      else itoa m @ '':'' @ pad2 s)"

definition FormatRange :: "rat \<Rightarrow> rat \<Rightarrow> string" where
  "FormatRange start stop =
     FormatDuration (trunc start) @ en_dash @ FormatDuration (trunc (stop + 1 / 2))"

text \<open>\<open>FormatFloat(x, 'f', 2, 64)\<close> of a number that is not negative.\<close>

definition show_f2 :: "rat \<Rightarrow> string" where
  "show_f2 x = (let n = \<lfloor>x * 100 + 1 / 2\<rfloor> in itoa (n div 100) @ ''.'' @ pad2 (n mod 100))"

definition DownloadSection :: "rat \<Rightarrow> rat \<Rightarrow> string" where
  "DownloadSection start stop = ''*'' @ show_f2 start @ ''-'' @ show_f2 stop"

definition FormatSize :: "int \<Rightarrow> string" where
  "FormatSize bytes =
     (let mb = 1048576 in
      if bytes \<ge> mb then itoa ((bytes + mb div 2) div mb) @ '' MB''
      else
        let kb = (bytes + 512) div 1024; kb = (if kb < 1 then 1 else kb) in
        itoa kb @ '' KB'')"

subsection \<open>Formats (probe.go)\<close>

record format =
  f_id :: string
  f_ext :: string
  f_vcodec :: string
  f_acodec :: string
  f_width :: int
  f_height :: int
  f_size :: int
  f_size_approx :: int
  f_tbr :: rat
  f_abr :: rat

record meta =
  me_id :: string
  me_title :: string
  me_uploader :: string
  me_channel :: string
  me_duration :: rat
  me_formats :: "format list"

record yt_option =
  o_height :: int
  o_size :: int
  o_format :: string

definition Author :: "meta \<Rightarrow> string" where
  "Author m = (if trim_space (me_uploader m) \<noteq> [] then me_uploader m else me_channel m)"

definition DurationSec :: "meta \<Rightarrow> int" where
  "DurationSec m = (if me_duration m \<le> 0 then 0 else trunc (me_duration m + 1 / 2))"

definition DefaultHeights :: "int list" where
  "DefaultHeights = [144, 240, 360, 480, 720, 1080]"

fun collect_heights :: "string list \<Rightarrow> int list \<Rightarrow> int list" where
  "collect_heights [] out = out"
| "collect_heights (v # vs) out =
     (case atoi (trim_space v) of
        None \<Rightarrow> collect_heights vs out
      | Some h \<Rightarrow>
          if h \<le> 0 \<or> h \<in> set out then collect_heights vs out
          else collect_heights vs (out @ [h]))"

definition AllowedHeights :: "string list \<Rightarrow> int list" where
  "AllowedHeights values =
     (let out = collect_heights values [] in
      if out = [] then DefaultHeights else sort out)"

definition hasVideo :: "format \<Rightarrow> bool" where
  "hasVideo f \<longleftrightarrow> f_vcodec f \<noteq> [] \<and> f_vcodec f \<noteq> ''none''"

definition hasAudio :: "format \<Rightarrow> bool" where
  "hasAudio f \<longleftrightarrow> f_acodec f \<noteq> [] \<and> f_acodec f \<noteq> ''none''"

definition shortSide :: "format \<Rightarrow> int" where
  "shortSide f =
     (if f_width f > 0 \<and> f_height f > 0 \<and> f_width f < f_height f then f_width f else f_height f)"

definition videoCodecRank :: "string \<Rightarrow> int" where
  "videoCodecRank codec =
     (let c = to_lower codec in
      if has_prefix c ''avc1'' \<or> has_prefix c ''h264'' then 0
      else if has_prefix c ''vp9'' \<or> has_prefix c ''vp09'' then 1
      else if has_prefix c ''av01'' then 2
      else 3)"

definition audioCodecRank :: "string \<Rightarrow> int" where
  "audioCodecRank codec =
     (let c = to_lower codec in
      if has_prefix c ''mp4a'' \<or> has_prefix c ''aac'' then 0
      else if has_prefix c ''opus'' then 1
      else 2)"

definition formatSize :: "format \<Rightarrow> rat \<Rightarrow> int" where
  "formatSize f duration =
     (if f_size f > 0 then f_size f
      else if f_size_approx f > 0 then f_size_approx f
      else if f_tbr f > 0 \<and> duration > 0 then trunc (f_tbr f * 1000 * duration / 8)
      else 0)"

definition betterVideo :: "format \<Rightarrow> format \<Rightarrow> rat \<Rightarrow> bool" where
  "betterVideo a b duration =
     (if hasAudio a \<noteq> hasAudio b then hasAudio a
      else
        let ra = videoCodecRank (f_vcodec a); rb = videoCodecRank (f_vcodec b) in
        if ra \<noteq> rb then ra < rb
        else
          let sa = formatSize a duration; sb = formatSize b duration in
          if sa = 0 \<or> sb = 0 then sb = 0 \<and> sa > 0 else sa < sb)"

definition audioBitrate :: "format \<Rightarrow> rat" where
  "audioBitrate f = (if f_abr f > 0 then f_abr f else f_tbr f)"

definition betterAudio :: "format \<Rightarrow> format \<Rightarrow> bool" where
  "betterAudio f best =
     (let ra = audioCodecRank (f_acodec f); rb = audioCodecRank (f_acodec best) in
      if ra \<noteq> rb then ra < rb else audioBitrate f > audioBitrate best)"

fun best_audio_loop :: "format list \<Rightarrow> format option \<Rightarrow> format option" where
  "best_audio_loop [] best = best"
| "best_audio_loop (f # fs) best =
     (if hasVideo f \<or> \<not> hasAudio f then best_audio_loop fs best
      else case best of
        None \<Rightarrow> best_audio_loop fs (Some f)
      | Some b \<Rightarrow> best_audio_loop fs (if betterAudio f b then Some f else Some b))"

definition bestAudio :: "format list \<Rightarrow> format option" where
  "bestAudio formats = best_audio_loop formats None"

fun by_height_loop ::
  "rat \<Rightarrow> format list \<Rightarrow> (int \<Rightarrow> format option) \<Rightarrow> int \<Rightarrow> format option" where
  "by_height_loop dur [] byHeight = byHeight"
| "by_height_loop dur (f # fs) byHeight =
     (if \<not> hasVideo f then by_height_loop dur fs byHeight
      else
        let h = shortSide f in
        if h = 0 then by_height_loop dur fs byHeight
        else by_height_loop dur fs
          (case byHeight h of
             None \<Rightarrow> byHeight(h := Some f)
           | Some cur \<Rightarrow> if betterVideo f cur dur then byHeight(h := Some f) else byHeight))"

definition option_at ::
  "rat \<Rightarrow> format option \<Rightarrow> (int \<Rightarrow> format option) \<Rightarrow> int \<Rightarrow> yt_option option" where
  "option_at dur audio byHeight h =
     (case byHeight h of
        None \<Rightarrow> None
      | Some f \<Rightarrow>
          let size = formatSize f dur in
          if hasAudio f then Some \<lparr>o_height = h, o_size = size, o_format = f_id f\<rparr>
          else case audio of
            None \<Rightarrow> None
          | Some a \<Rightarrow> Some \<lparr>o_height = h, o_size = size + formatSize a dur,
                            o_format = f_id f @ ''+'' @ f_id a\<rparr>)"

definition Options :: "meta option \<Rightarrow> int list \<Rightarrow> yt_option list" where
  "Options m allowed =
     (case m of
        None \<Rightarrow> []
      | Some m \<Rightarrow>
          List.map_filter (option_at (me_duration m) (bestAudio (me_formats m))
            (by_height_loop (me_duration m) (me_formats m) (\<lambda>_. None))) allowed)"

subsection \<open>The card and its buttons (card.go, keyboards.go)\<close>

definition opt_line :: "string \<Rightarrow> (string \<Rightarrow> msg_text) \<Rightarrow> msg_text list" where
  "opt_line v f = (let t = trim_space v in if t \<noteq> [] then [f t] else [])"

definition card_sizes :: "string \<Rightarrow> yt_option list \<Rightarrow> msg_text list" where
  "card_sizes lang opts = List.map (\<lambda>opt. Loc ''youtube.card_size_line'' lang
       [(''quality'', itoa (o_height opt)), (''size'', FormatSize (o_size opt))])
     (filter (\<lambda>opt. \<not> o_size opt \<le> 0) opts)"

text \<open>The lines of the card, which the code joins with newlines.\<close>

definition Card :: "string \<Rightarrow> meta option \<Rightarrow> yt_option list \<Rightarrow> string \<Rightarrow> msg_text list" where
  "Card lang m opts trimLabel =
     (case m of
        None \<Rightarrow> []
      | Some m \<Rightarrow>
          opt_line (me_title m) (\<lambda>t. Loc ''youtube.card_title'' lang [(''title'', t)])
          @ opt_line (Author m) (\<lambda>a. Loc ''youtube.card_author'' lang [(''author'', a)])
          @ (if DurationSec m > 0
             then [Loc ''youtube.card_duration'' lang [(''duration'', FormatDuration (DurationSec m))]]
             else []))
     @ (if trimLabel \<noteq> [] then [Loc ''youtube.card_trim'' lang [(''range'', trimLabel)]] else [])
     @ (if card_sizes lang opts \<noteq> [] then Lit [] # card_sizes lang opts else [])
     @ [Lit [], Loc ''youtube.choose_format'' lang []]"

definition ValidRatios :: "string list" where
  "ValidRatios = [''16_9'', ''21_9'', ''9_16'']"

definition RatioSetFromStrings :: "string list \<Rightarrow> string set" where
  "RatioSetFromStrings values =
     (let out = set (filter (\<lambda>v. v \<noteq> []) (List.map trim_space values)) in
      if out = {} then set ValidRatios else out)"

definition qualitiesPerRow :: nat where "qualitiesPerRow = 3"

definition quality_button :: "string \<Rightarrow> yt_option \<Rightarrow> button" where
  "quality_button lang opt =
     button (Loc ''youtube.btn_quality'' lang [(''quality'', itoa (o_height opt))])
       (''quality:'' @ itoa (o_height opt))"

text \<open>The loop of \<open>FormatKeyboard\<close>: the finished rows and the row being filled.\<close>

fun quality_rows :: "string \<Rightarrow> yt_option list \<Rightarrow> keyboard \<Rightarrow> button list \<Rightarrow> keyboard" where
  "quality_rows lang [] rows row = (if length row > 0 then rows @ [row] else rows)"
| "quality_rows lang (opt # opts) rows row =
     (let row = row @ [quality_button lang opt] in
      if length row = qualitiesPerRow then quality_rows lang opts (rows @ [row]) []
      else quality_rows lang opts rows row)"

definition FormatKeyboard :: "string \<Rightarrow> yt_option list \<Rightarrow> bool \<Rightarrow> bool \<Rightarrow> keyboard" where
  "FormatKeyboard lang opts mp3Enabled trimEnabled =
     quality_rows lang opts [] []
     @ (if mp3Enabled then [[button (Loc ''youtube.btn_mp3'' lang []) ''yt:mp3'']] else [])
     @ (if trimEnabled then [[button (Loc ''youtube.btn_trim'' lang []) ''yt:trim'']] else [])"

definition TrimPromptKeyboard :: "string \<Rightarrow> keyboard" where
  "TrimPromptKeyboard lang = [[button (Loc ''youtube.btn_trim_cancel'' lang []) ''yt:trimoff'']]"

definition FormatRatioLabel :: "string \<Rightarrow> string" where
  "FormatRatioLabel ratio = List.map (\<lambda>c. if c = CHR ''_'' then CHR '':'' else c) ratio"

definition ProcessingMessage :: "string \<Rightarrow> int \<Rightarrow> msg_text" where
  "ProcessingMessage lang quality = Loc ''youtube.processing'' lang [(''quality'', itoa quality)]"

definition ProcessingAudioMessage :: "string \<Rightarrow> msg_text" where
  "ProcessingAudioMessage lang = Loc ''youtube.processing_audio'' lang []"

definition BuildFormat :: "int \<Rightarrow> string \<Rightarrow> string" where
  "BuildFormat targetHeight aspectRatio =
     (let dim = (if aspectRatio = ''9_16'' then ''width'' else ''height'');
          cap = ''['' @ dim @ ''<='' @ itoa targetHeight @ '']'' in
      ''bestvideo'' @ cap @ ''[vcodec^=avc1]+bestaudio[acodec^=mp4a]/''
      @ ''bestvideo'' @ cap @ ''+bestaudio/''
      @ ''best'' @ cap @ ''[ext=mp4]/''
      @ ''best'' @ cap @ ''/''
      @ ''bestvideo+bestaudio/best'')"

definition FormatSelector :: "string \<Rightarrow> int \<Rightarrow> string \<Rightarrow> string" where
  "FormatSelector formatID targetHeight aspectRatio =
     (let fallback = BuildFormat targetHeight aspectRatio in
      if trim_space formatID = [] then fallback else formatID @ ''/'' @ fallback)"

subsection \<open>The pending session (session.go)\<close>

record session =
  s_user :: int
  s_url :: string
  s_chat :: int
  s_message :: int
  s_lang :: string
  s_title :: string
  s_author :: string
  s_duration :: int
  s_options :: "yt_option list"
  s_awaiting :: bool
  s_start :: gofloat
  s_end :: gofloat

definition session_meta :: "session \<Rightarrow> meta" where
  "session_meta s = \<lparr>me_id = [], me_title = s_title s, me_uploader = s_author s, me_channel = [],
     me_duration = of_int (s_duration s), me_formats = []\<rparr>"

definition TrimLabel :: "session \<Rightarrow> string" where
  "TrimLabel s =
     (if fl_le (s_end s) (s_start s) then [] else FormatRange (fin_of (s_start s)) (fin_of (s_end s)))"

fun OptionFor :: "yt_option list \<Rightarrow> int \<Rightarrow> yt_option option" where
  "OptionFor [] height = None"
| "OptionFor (opt # opts) height = (if o_height opt = height then Some opt else OptionFor opts height)"

definition option_obj :: "yt_option \<Rightarrow> jobject" where
  "option_obj opt = [(''height'', JInt (o_height opt)), (''size_bytes'', JInt (o_size opt)),
     (''format_id'', JStr (o_format opt))]"

definition option_of :: "jobject \<Rightarrow> yt_option option" where
  "option_of ob =
     Option.bind (get_int ob ''height'') (\<lambda>h.
     Option.bind (get_int ob ''size_bytes'') (\<lambda>z.
     Option.bind (get_str ob ''format_id'') (\<lambda>f.
       Some \<lparr>o_height = h, o_size = z, o_format = f\<rparr>)))"

fun options_of :: "jobject list \<Rightarrow> yt_option list option" where
  "options_of [] = Some []"
| "options_of (ob # obs) =
     Option.bind (option_of ob) (\<lambda>opt. Option.bind (options_of obs) (\<lambda>opts. Some (opt # opts)))"

definition get_options :: "jobject \<Rightarrow> yt_option list option" where
  "get_options ob =
     (case jget ob ''options'' of
        JNull \<Rightarrow> Some []
      | JObjs obs \<Rightarrow> options_of obs
      | _ \<Rightarrow> None)"

definition omit_options :: "yt_option list \<Rightarrow> jobject" where
  "omit_options opts =
     (if opts = [] then [] else [(''options'', JObjs (List.map option_obj opts))])"

text \<open>A number that is not finite has no JSON form: \<open>Marshal\<close> fails.\<close>

definition marshal_session :: "session \<Rightarrow> rval result" where
  "marshal_session s =
     (if \<not> finite_fl (s_start s) \<or> \<not> finite_fl (s_end s) then Inl ''json: unsupported value''
      else Inr (RDoc (Some (
        [(''user_id'', JInt (s_user s)), (''url'', JStr (s_url s)), (''chat_id'', JInt (s_chat s)),
         (''message_id'', JInt (s_message s)), (''lang'', JStr (s_lang s))]
        @ omit_str ''title'' (s_title s)
        @ omit_str ''author'' (s_author s)
        @ omit_int ''duration_sec'' (s_duration s)
        @ omit_options (s_options s)
        @ omit_bool ''awaiting_trim'' (s_awaiting s)
        @ omit_float ''trim_start'' (fin_of (s_start s))
        @ omit_float ''trim_end'' (fin_of (s_end s))))))"

definition unmarshal_session :: "rval \<Rightarrow> session option" where
  "unmarshal_session v =
     (case v of
        RText t \<Rightarrow> None
      | RDoc b \<Rightarrow> Option.bind b (\<lambda>ob.
     Option.bind (get_int ob ''user_id'') (\<lambda>user.
     Option.bind (get_str ob ''url'') (\<lambda>url.
     Option.bind (get_int ob ''chat_id'') (\<lambda>chat.
     Option.bind (get_int ob ''message_id'') (\<lambda>mid.
     Option.bind (get_str ob ''lang'') (\<lambda>lang.
     Option.bind (get_str ob ''title'') (\<lambda>title.
     Option.bind (get_str ob ''author'') (\<lambda>author.
     Option.bind (get_int ob ''duration_sec'') (\<lambda>dur.
     Option.bind (get_options ob) (\<lambda>opts.
     Option.bind (get_bool ob ''awaiting_trim'') (\<lambda>aw.
     Option.bind (get_float ob ''trim_start'') (\<lambda>ts.
     Option.bind (get_float ob ''trim_end'') (\<lambda>te.
       Some \<lparr>s_user = user, s_url = url, s_chat = chat, s_message = mid, s_lang = lang,
         s_title = title, s_author = author, s_duration = dur, s_options = opts,
         s_awaiting = aw, s_start = Fin ts, s_end = Fin te\<rparr>))))))))))))))"

definition sessionTTL :: nat where "sessionTTL = 15 * 60 * second"
definition metaTTL :: nat where "metaTTL = 3600 * second"

definition sessionKey :: "int \<Rightarrow> string" where
  "sessionKey userID = ''yt_pending:'' @ itoa userID"

definition metaKey :: "string \<Rightarrow> string" where
  "metaKey videoID = ''yt_meta:'' @ videoID"

definition session_Save :: "'s redis \<Rightarrow> session \<Rightarrow> 's \<Rightarrow> go_error option \<times> 's" where
  "session_Save R ss s =
     (case marshal_session ss of
        Inl e \<Rightarrow> (Some e, s)
      | Inr raw \<Rightarrow> exec R (CSet (sessionKey (s_user ss)) raw sessionTTL) s)"

definition session_Get :: "'s redis \<Rightarrow> int \<Rightarrow> 's \<Rightarrow> session option result \<times> 's" where
  "session_Get R userID s =
     (case call R (CGet (sessionKey userID)) s of
        (Inl e, s) \<Rightarrow> (Inl e, s)
      | (Inr (RpVal raw), s) \<Rightarrow> (Inr (unmarshal_session raw), s)
      | (Inr _, s) \<Rightarrow> (Inr None, s))"

definition session_mutate ::
  "'s redis \<Rightarrow> int \<Rightarrow> (session \<Rightarrow> session) \<Rightarrow> 's \<Rightarrow> session option result \<times> 's" where
  "session_mutate R userID change s =
     (case session_Get R userID s of
        (Inl e, s) \<Rightarrow> (Inl e, s)
      | (Inr None, s) \<Rightarrow> (Inr None, s)
      | (Inr (Some ss), s) \<Rightarrow>
          (case session_Save R (change ss) s of
             (Some e, s) \<Rightarrow> (Inl e, s)
           | (None, s) \<Rightarrow> (Inr (Some (change ss)), s)))"

definition SetAwaitingTrim :: "'s redis \<Rightarrow> int \<Rightarrow> bool \<Rightarrow> 's \<Rightarrow> session option result \<times> 's" where
  "SetAwaitingTrim R userID awaiting s =
     session_mutate R userID (\<lambda>ss. ss\<lparr>s_awaiting := awaiting\<rparr>) s"

definition SetTrim ::
  "'s redis \<Rightarrow> int \<Rightarrow> gofloat \<Rightarrow> gofloat \<Rightarrow> 's \<Rightarrow> session option result \<times> 's" where
  "SetTrim R userID start stop s =
     session_mutate R userID (\<lambda>ss. ss\<lparr>s_awaiting := False, s_start := start, s_end := stop\<rparr>) s"

definition session_Clear :: "'s redis \<Rightarrow> int \<Rightarrow> 's \<Rightarrow> go_error option \<times> 's" where
  "session_Clear R userID s = exec R (CDel (sessionKey userID)) s"

text \<open>The cache of probe answers: a document is kept as what \<open>ParseMeta\<close> makes of it.\<close>

definition format_obj :: "format \<Rightarrow> jobject" where
  "format_obj f = [(''format_id'', JStr (f_id f)), (''ext'', JStr (f_ext f)),
     (''vcodec'', JStr (f_vcodec f)), (''acodec'', JStr (f_acodec f)),
     (''width'', JInt (f_width f)), (''height'', JInt (f_height f)),
     (''filesize'', JInt (f_size f)), (''filesize_approx'', JInt (f_size_approx f)),
     (''tbr'', JFloat (f_tbr f)), (''abr'', JFloat (f_abr f))]"

definition format_of :: "jobject \<Rightarrow> format option" where
  "format_of ob =
     Option.bind (get_str ob ''format_id'') (\<lambda>i.
     Option.bind (get_str ob ''ext'') (\<lambda>ext.
     Option.bind (get_str ob ''vcodec'') (\<lambda>vc.
     Option.bind (get_str ob ''acodec'') (\<lambda>ac.
     Option.bind (get_int ob ''width'') (\<lambda>w.
     Option.bind (get_int ob ''height'') (\<lambda>h.
     Option.bind (get_int ob ''filesize'') (\<lambda>z.
     Option.bind (get_int ob ''filesize_approx'') (\<lambda>za.
     Option.bind (get_float ob ''tbr'') (\<lambda>tbr.
     Option.bind (get_float ob ''abr'') (\<lambda>abr.
       Some \<lparr>f_id = i, f_ext = ext, f_vcodec = vc, f_acodec = ac, f_width = w, f_height = h,
         f_size = z, f_size_approx = za, f_tbr = tbr, f_abr = abr\<rparr>))))))))))"

fun formats_of :: "jobject list \<Rightarrow> format list option" where
  "formats_of [] = Some []"
| "formats_of (ob # obs) =
     Option.bind (format_of ob) (\<lambda>f. Option.bind (formats_of obs) (\<lambda>fs. Some (f # fs)))"

definition marshal_meta :: "meta \<Rightarrow> rval" where
  "marshal_meta m = RDoc (Some
     [(''id'', JStr (me_id m)), (''title'', JStr (me_title m)), (''uploader'', JStr (me_uploader m)),
      (''channel'', JStr (me_channel m)), (''duration'', JFloat (me_duration m)),
      (''formats'', JObjs (List.map format_obj (me_formats m)))])"

definition ParseMeta :: "rval \<Rightarrow> meta result" where
  "ParseMeta v =
     (case v of
        RText t \<Rightarrow> Inl ''parse yt-dlp metadata''
      | RDoc b \<Rightarrow>
          (case Option.bind b (\<lambda>ob.
             Option.bind (get_str ob ''id'') (\<lambda>i.
             Option.bind (get_str ob ''title'') (\<lambda>title.
             Option.bind (get_str ob ''uploader'') (\<lambda>up.
             Option.bind (get_str ob ''channel'') (\<lambda>ch.
             Option.bind (get_float ob ''duration'') (\<lambda>d.
             Option.bind (case jget ob ''formats'' of
                            JNull \<Rightarrow> Some [] | JObjs obs \<Rightarrow> formats_of obs | _ \<Rightarrow> None) (\<lambda>fs.
               Some \<lparr>me_id = i, me_title = title, me_uploader = up, me_channel = ch,
                 me_duration = d, me_formats = fs\<rparr>))))))) of
             None \<Rightarrow> Inl ''parse yt-dlp metadata''
           | Some m \<Rightarrow> Inr m))"

definition GetMeta :: "'s redis \<Rightarrow> string \<Rightarrow> 's \<Rightarrow> meta option \<times> 's" where
  "GetMeta R videoID s =
     (if videoID = [] then (None, s)
      else case call R (CGet (metaKey videoID)) s of
        (Inr (RpVal raw), s) \<Rightarrow>
          ((case ParseMeta raw of Inl e \<Rightarrow> None | Inr m \<Rightarrow> Some m), s)
      | (_, s) \<Rightarrow> (None, s))"

definition SaveMeta :: "'s redis \<Rightarrow> meta option \<Rightarrow> 's \<Rightarrow> 's" where
  "SaveMeta R m s =
     (case m of
        None \<Rightarrow> s
      | Some m \<Rightarrow>
          if me_id m = [] then s else snd (exec R (CSet (metaKey (me_id m)) (marshal_meta m) metaTTL) s))"

text \<open>\<open>Probe\<close>: \<open>run\<close> is the output of yt-dlp for the url under the timeout, or its error.\<close>

definition Probe :: "(string \<Rightarrow> nat \<Rightarrow> rval result) \<Rightarrow> string \<Rightarrow> nat \<Rightarrow> meta result" where
  "Probe run url timeout =
     (let timeout = (if timeout = 0 then 30 * second else timeout) in
      case run url timeout of
        Inl e \<Rightarrow> Inl (''yt-dlp probe failed: '' @ e)
      | Inr out \<Rightarrow> ParseMeta out)"

end
