(* ===== verification/Handler_Bot.thy ===== *)
theory Handler_Bot
  imports Cancel_Flow Settings Link_Parser Youtube
begin

text \<open>
  The bot's message path (\<open>handler/bot.go\<close>, \<open>deps.go\<close>, \<open>spam.go\<close>, \<open>ban.go\<close>, \<open>routing.go\<close>,
  \<open>payments.go\<close>) and its YouTube flow (\<open>handler/youtube.go\<close>): what is filtered, in which order, which
  links take the user lock, what is enqueued, and what is given back when a step fails. The
  handlers of the three music services and of the operator's pending input are arguments.
\<close>

subsection \<open>Guards (deps.go, ban.go, routing.go, payments.go)\<close>

definition isAdmin :: "('s, 'b) bot_env_scheme \<Rightarrow> int \<Rightarrow> bool" where
  "isAdmin B userID \<longleftrightarrow>
     c_AdminTelegramID (b_cfg B) \<noteq> 0 \<and> userID = c_AdminTelegramID (b_cfg B)"

definition sceneForPlatform :: "string \<Rightarrow> string" where
  "sceneForPlatform platform =
     (if platform = ''tiktok'' then ''tiktok''
      else if platform = ''spotify'' then ''spotify''
      else if platform = ''soundcloud'' then ''soundcloud''
      else platform)"

definition shouldAcquireUserLock :: "int \<Rightarrow> bool \<Rightarrow> int \<Rightarrow> bool" where
  "shouldAcquireUserLock userID batch adminID =
     (if batch then False else if adminID \<noteq> 0 \<and> userID = adminID then False else True)"

definition messageBody :: "message \<Rightarrow> string" where
  "messageBody m = (if m_text m \<noteq> [] then m_text m else m_caption m)"

definition shouldSkipIncomingMessage :: "message \<Rightarrow> bool" where
  "shouldSkipIncomingMessage m =
     (let body = messageBody m in
      if body = [] \<or> m_from m = None then True else has_prefix body ''/'')"

definition extractMessageLinks :: "message \<Rightarrow> parsed_link list" where
  "extractMessageLinks m = ExtractURLs (messageBody m)"

definition checkBanned :: "'s bot_env \<Rightarrow> message \<Rightarrow> string \<Rightarrow> 's world \<Rightarrow> bool \<times> 's world" where
  "checkBanned B m lang w =
     (case m_from m of
        None \<Rightarrow> (False, w)
      | Some u \<Rightarrow>
          if isAdmin B (u_id u) then (False, w)
          else
            let ((banned, err), w) = on_st (\<lambda>s. case IsUserBanned (b_redis B) (u_id u) s of
                                        (b, e, s) \<Rightarrow> ((b, e), s)) w in
            if err \<noteq> None \<or> \<not> banned then (False, w)
            else
              let w = reply B (m_chat m) ''ban.shadow_reply'' lang w;
                  admin = c_AdminTelegramID (b_cfg B);
                  w = (if isAdmin B admin then
                         let who = (if u_name u \<noteq> [] then ''@'' @ u_name u else itoa (u_id u));
                             w = post B (Send admin (Loc ''ban.admin_notice'' ''ru''
                                    [(''user'', who), (''chat'', itoa (m_chat m))]) []) w in
                         if m_text m \<noteq> [] then post B (Forward admin (m_chat m) (m_id m)) w else w
                       else w) in
              (True, w))"

definition watermarkProduct :: string where "watermarkProduct = ''no_watermark''"

definition wmEntitled :: "'s bot_env \<Rightarrow> int \<Rightarrow> 's world \<Rightarrow> bool" where
  "wmEntitled B userID w =
     (if isAdmin B userID then True else fst (b_paid B (w_log w) userID watermarkProduct))"

definition noWatermarkFor :: "'s bot_env \<Rightarrow> int \<Rightarrow> 's world \<Rightarrow> bool" where
  "noWatermarkFor B userID w =
     (case b_settings B (w_log w) userID of
        Inl e \<Rightarrow> False
      | Inr us \<Rightarrow> us_no_watermark us \<and> wmEntitled B userID w)"

subsection \<open>Spam (spam.go)\<close>

fun check_links :: "'s bot_env \<Rightarrow> nat \<Rightarrow> parsed_link list \<Rightarrow> 's world \<Rightarrow> bool \<times> 's world" where
  "check_links B window [] w = (True, w)"
| "check_links B window (l # ls) w =
     (let h = b_hash B (link_url l) in
      if b_link_banned B (w_log w) h = Inr True then (False, w)
      else
        (case on_st (AllowURLDedup (b_redis B) (b_prefix B) h window) w of
           (Inl e, w) \<Rightarrow> check_links B window ls w
         | (Inr ok, w) \<Rightarrow> if \<not> ok then (False, w) else check_links B window ls w))"

definition allowGroupLinks :: "'s bot_env \<Rightarrow> message \<Rightarrow> 's world \<Rightarrow> bool \<times> 's world" where
  "allowGroupLinks B m w =
     (let body = messageBody m in
      if m_type m = ''private'' \<or> body = [] then (True, w)
      else
        let links = ExtractURLs body in
        if links = [] then (True, w)
        else
          let secs = c_SpamDedupWindowSeconds (b_cfg B);
              window = (if secs \<le> 0 then 300 * second else nat secs * second) in
          check_links B window links w)"

subsection \<open>Rate limit and locks (bot.go)\<close>

definition limit_chat :: "'s bot_env \<Rightarrow> message \<Rightarrow> string \<Rightarrow> 's world \<Rightarrow> bool \<times> 's world" where
  "limit_chat B m lang w =
     (case on_st (\<lambda>s. AllowRateLimit (b_redis B) (b_prefix B) (b_now B s) ''chat'' (m_chat m)
                    (c_RateLimitChatPerMinute (b_cfg B)) (60 * second) s) w of
        (Inl e, w) \<Rightarrow> (True, w)
      | (Inr ok, w) \<Rightarrow>
          if \<not> ok then
            (False, if m_type m \<noteq> ''private'' then reply B (m_chat m) ''errors.chat_rate_limit'' lang w
                    else w)
          else (True, w))"

definition allowRateLimit :: "'s bot_env \<Rightarrow> message \<Rightarrow> string \<Rightarrow> 's world \<Rightarrow> bool \<times> 's world" where
  "allowRateLimit B m lang w =
     (case m_from m of
        None \<Rightarrow> limit_chat B m lang w
      | Some u \<Rightarrow>
          if isAdmin B (u_id u) then (True, w)
          else
            (case on_st (\<lambda>s. AllowRateLimit (b_redis B) (b_prefix B) (b_now B s) ''user'' (u_id u)
                           (c_RateLimitUserPerMinute (b_cfg B)) (60 * second) s) w of
               (Inl e, w) \<Rightarrow> (True, w)
             | (Inr ok, w) \<Rightarrow>
                 if \<not> ok then
                   (False, if m_type m = ''private''
                      then post B (Send (m_chat m) (Loc ''errors.rate_limit'' lang
                        [(''count'', itoa (c_RateLimitUserPerMinute (b_cfg B))), (''window'', ''60'')]) []) w
                      else w)
                 else limit_chat B m lang w))"

text \<open>Times to live in microseconds.\<close>

definition lockTTL :: "config \<Rightarrow> string \<Rightarrow> nat" where
  "lockTTL cfg scene =
     (let base = c_DownloadTimeoutSeconds cfg; base = (if base < 60 then 60 else base) in
      nat (base + 30) * second)"

definition musicLockTTL :: "config \<Rightarrow> string \<Rightarrow> int \<Rightarrow> nat" where
  "musicLockTTL cfg scene trackCount =
     (let n = (if trackCount < 1 then 1 else trackCount) in
      if scene = ''spotify'' then nat (c_SpotifyTrackTimeoutSeconds cfg * n + 90) * second
      else if scene = ''yandexmusic'' then nat (c_YandexMusicTrackTimeoutSeconds cfg * n + 90) * second
      else if scene = ''soundcloud'' then nat (c_SoundCloudTrackTimeoutSeconds cfg * n + 90) * second
      else lockTTL cfg scene)"

definition acquireUserLock ::
  "'s bot_env \<Rightarrow> int \<Rightarrow> string \<Rightarrow> nat \<Rightarrow> 's world \<Rightarrow> (string \<times> bool) result \<times> 's world" where
  "acquireUserLock B userID scene ttl w =
     (if isAdmin B userID then (Inr ([], True), w)
      else on_st (AcquireUserLock (b_redis B) (b_prefix B) (b_token B (w_log w)) userID scene ttl) w)"

definition replyBusy :: "'s bot_env \<Rightarrow> message \<Rightarrow> int \<Rightarrow> string \<Rightarrow> 's world \<Rightarrow> 's world" where
  "replyBusy B m userID lang w =
     post B (Send (m_chat m) (Loc ''errors.busy'' lang []) (QueueButton lang userID)) w"

definition release_token :: "'s bot_env \<Rightarrow> int \<Rightarrow> string \<Rightarrow> string \<Rightarrow> 's world \<Rightarrow> 's world" where
  "release_token B userID scene token w =
     (if token \<noteq> [] then do_st (ReleaseUserLock (b_redis B) (b_prefix B) userID scene token) w else w)"

subsection \<open>Enqueueing a link (bot.go)\<close>

definition link_payload ::
  "'s bot_env \<Rightarrow> message \<Rightarrow> int \<Rightarrow> string \<Rightarrow> parsed_link \<Rightarrow> string \<Rightarrow> string \<Rightarrow> int \<Rightarrow> 's world
     \<Rightarrow> download_payload" where
  "link_payload B m userID lang link scene token status w =
     zero_download\<lparr>dp_url := link_url link, dp_platform := platform_string (link_platform link),
       dp_chat := m_chat m, dp_user := userID, dp_message := status, dp_lang := lang,
       dp_lock_token := token, dp_lock_scene := scene, dp_x_status := x_status_id link,
       dp_format := ''best'', dp_no_watermark := noWatermarkFor B userID w\<rparr>"

text \<open>The switch on the task type.\<close>

definition request_for :: "string \<Rightarrow> download_payload \<Rightarrow> request" where
  "request_for taskType p =
     (if taskType = TypeTikTok then EnqueueTikTok id p
      else if taskType = TypePinterest then EnqueuePinterestDefault id p
      else if taskType = TypeInstagram then EnqueueInstagram id p
      else if taskType = TypeReddit then EnqueueReddit id p
      else EnqueueDownload id p)"

text \<open>\<open>enqueue\<close> after the lock was taken or not needed.\<close>

definition enqueue_with ::
  "'s bot_env \<Rightarrow> message \<Rightarrow> int \<Rightarrow> string \<Rightarrow> parsed_link \<Rightarrow> string \<Rightarrow> string \<Rightarrow> string \<Rightarrow> 's world
     \<Rightarrow> go_error option \<times> 's world" where
  "enqueue_with B m userID lang link scene taskType token w =
     (let kb = (if token \<noteq> [] then cancel_Keyboard lang scene userID token else []) in
      case emit B (Send (m_chat m) (Loc ''download.downloading'' lang []) kb) w of
        (Inl e, w) \<Rightarrow> (Some e, release_token B userID scene token w)
      | (Inr status, w) \<Rightarrow>
          (let p = link_payload B m userID lang link scene token status w in
           case emit B (Job (request_for taskType p)) w of
             (Inl e, w) \<Rightarrow> (Some (''enqueue: '' @ e), release_token B userID scene token w)
           | (Inr _, w) \<Rightarrow> (None, w)))"

definition enqueue ::
  "'s bot_env \<Rightarrow> message \<Rightarrow> int \<Rightarrow> string \<Rightarrow> parsed_link \<Rightarrow> string \<Rightarrow> string \<Rightarrow> bool \<Rightarrow> 's world
     \<Rightarrow> go_error option \<times> 's world" where
  "enqueue B m userID lang link scene taskType batch w =
     (if shouldAcquireUserLock userID batch (c_AdminTelegramID (b_cfg B)) then
        (case acquireUserLock B userID scene (lockTTL (b_cfg B) scene) w of
           (Inl e, w) \<Rightarrow> (Some e, w)
         | (Inr (token, ok), w) \<Rightarrow>
             if \<not> ok then (None, replyBusy B m userID lang w)
             else enqueue_with B m userID lang link scene taskType token w)
      else enqueue_with B m userID lang link scene taskType [] w)"

definition enqueueOrReplyError ::
  "'s bot_env \<Rightarrow> message \<Rightarrow> int \<Rightarrow> string \<Rightarrow> parsed_link \<Rightarrow> string \<Rightarrow> string \<Rightarrow> bool \<Rightarrow> 's world
     \<Rightarrow> 's world" where
  "enqueueOrReplyError B m userID lang link scene taskType batch w =
     (case enqueue B m userID lang link scene taskType batch w of
        (Some e, w) \<Rightarrow> reply B (m_chat m) ''errors.generic'' lang w
      | (None, w) \<Rightarrow> w)"

subsection \<open>YouTube (youtube.go)\<close>

definition probeTimeout :: nat where "probeTimeout = 30 * second"

definition defaultQualities :: "string list" where
  "defaultQualities = [''144'', ''240'', ''360'', ''480'', ''720'', ''1080'']"

definition cur_list :: "'s bot_env \<Rightarrow> string \<Rightarrow> string list \<Rightarrow> 's world \<Rightarrow> string list \<times> 's world" where
  "cur_list B k fallback w =
     on_st (CurrentStringList (b_redis B) (Some (b_cfg B)) k fallback) w"

definition cur_bool :: "'s bot_env \<Rightarrow> string \<Rightarrow> bool \<Rightarrow> 's world \<Rightarrow> bool \<times> 's world" where
  "cur_bool B k fallback w = on_st (CurrentBool (b_redis B) (Some (b_cfg B)) k fallback) w"

definition topAllowedQuality :: "'s bot_env \<Rightarrow> 's world \<Rightarrow> int \<times> 's world" where
  "topAllowedQuality B w =
     (let (qs, w) = cur_list B ''youtube.allowed_qualities'' defaultQualities w;
          heights = AllowedHeights qs in
      (heights ! (length heights - 1), w))"

definition probeYouTube :: "'s bot_env \<Rightarrow> string \<Rightarrow> 's world \<Rightarrow> meta option \<times> 's world" where
  "probeYouTube B url w =
     (case on_st (GetMeta (b_redis B) (VideoID url)) w of
        (Some m, w) \<Rightarrow> (Some m, w)
      | (None, w) \<Rightarrow>
          (case Probe (b_probe B (w_log w)) url probeTimeout of
             Inl e \<Rightarrow> (None, w)
           | Inr m \<Rightarrow> (Some m, do_st (\<lambda>s. ((), SaveMeta (b_redis B) (Some m) s)) w)))"

definition youtubeOptions :: "'s bot_env \<Rightarrow> meta option \<Rightarrow> 's world \<Rightarrow> yt_option list \<times> 's world" where
  "youtubeOptions B m w =
     (let (qs, w) = cur_list B ''youtube.allowed_qualities'' defaultQualities w;
          allowed = AllowedHeights qs; opts = Options m allowed in
      if length opts > 0 then (opts, w)
      else (List.map (\<lambda>h. \<lparr>o_height = h, o_size = 0, o_format = []\<rparr>) allowed, w))"

definition renderFormatCard :: "'s bot_env \<Rightarrow> session \<Rightarrow> 's world \<Rightarrow> 's world" where
  "renderFormatCard B ss w =
     (let (mp3, w) = cur_bool B ''youtube.mp3_enabled'' True w;
          (trim, w) = cur_bool B ''youtube.trim_enabled'' True w in
      post B (Edit (s_chat ss) (s_message ss)
        (Cat (Card (s_lang ss) (Some (session_meta ss)) (s_options ss) (TrimLabel ss)))
        (FormatKeyboard (s_lang ss) (s_options ss) mp3 trim)) w)"

definition startYouTubeShortsDownload ::
  "'s bot_env \<Rightarrow> message \<Rightarrow> int \<Rightarrow> string \<Rightarrow> parsed_link \<Rightarrow> 's world \<Rightarrow> 's world" where
  "startYouTubeShortsDownload B m userID lang link w =
     (case emit B (Send (m_chat m) (Loc ''download.downloading'' lang []) []) w of
        (Inl e, w) \<Rightarrow> w
      | (Inr status, w) \<Rightarrow>
          (let (quality, w) = topAllowedQuality B w;
               p = zero_download\<lparr>dp_url := link_url link, dp_platform := ''youtube'',
                     dp_chat := m_chat m, dp_user := userID, dp_message := status, dp_lang := lang,
                     dp_quality := quality, dp_no_watermark := noWatermarkFor B userID w\<rparr> in
           case emit B (Job (EnqueueDownload id p)) w of
             (Inl e, w) \<Rightarrow> reply B (m_chat m) ''errors.generic'' lang w
           | (Inr _, w) \<Rightarrow> w))"

definition handleYouTubeLink ::
  "'s bot_env \<Rightarrow> message \<Rightarrow> int \<Rightarrow> string \<Rightarrow> parsed_link \<Rightarrow> 's world \<Rightarrow> 's world" where
  "handleYouTubeLink B m userID lang link w =
     (if IsYouTubeShorts (link_url link) then startYouTubeShortsDownload B m userID lang link w
      else case emit B (Send (m_chat m) (Loc ''youtube.fetching_info'' lang []) []) w of
        (Inl e, w) \<Rightarrow> w
      | (Inr status, w) \<Rightarrow>
          (let (pm, w) = probeYouTube B (link_url link) w;
               (opts, w) = youtubeOptions B pm w;
               ss = \<lparr>s_user = userID, s_url = link_url link, s_chat = m_chat m, s_message = status,
                     s_lang = lang, s_title = [], s_author = [], s_duration = 0, s_options = opts,
                     s_awaiting = False, s_start = Fin 0, s_end = Fin 0\<rparr>;
               ss = (case pm of
                       None \<Rightarrow> ss
                     | Some x \<Rightarrow> ss\<lparr>s_title := me_title x, s_author := Author x,
                                   s_duration := DurationSec x\<rparr>);
               w = do_st (session_Save (b_redis B) ss) w in
           renderFormatCard B ss w))"

definition youtubeSession :: "'s bot_env \<Rightarrow> callback \<Rightarrow> 's world \<Rightarrow> session option \<times> 's world" where
  "youtubeSession B q w =
     (let uid = u_id (q_from q) in
      case q_msg q of
        None \<Rightarrow> (None, ack B q w)
      | Some (chat, mid) \<Rightarrow>
          if uid = 0 then (None, ack B q w)
          else
            let (r, w) = on_st (session_Get (b_redis B) uid) w;
                expired = (None, toast B q ''youtube.session_expired'' (userLang B uid w) True w) in
            case r of
              Inr (Some ss) \<Rightarrow>
                if s_user ss \<noteq> uid then expired
                else
                  let ss = (if s_lang ss = [] then ss\<lparr>s_lang := userLang B uid w\<rparr> else ss) in
                  (Some (ss\<lparr>s_message := mid, s_chat := chat\<rparr>), w)
            | _ \<Rightarrow> expired)"

definition youtubeAspectRatio :: "'s bot_env \<Rightarrow> int \<Rightarrow> 's world \<Rightarrow> string \<times> 's world" where
  "youtubeAspectRatio B userID w =
     (case b_settings B (w_log w) userID of
        Inl e \<Rightarrow> ([], w)
      | Inr us \<Rightarrow>
          let ratio = us_ratio us in
          if ratio = [] \<or> ratio = ''ask'' then ([], w)
          else
            let (rs, w) = cur_list B ''youtube.allowed_ratios'' [''16_9'', ''21_9'', ''9_16''] w in
            if ratio \<notin> RatioSetFromStrings rs then ([], w) else (ratio, w))"

definition buildYouTubePayload :: "session \<Rightarrow> yt_option \<Rightarrow> bool \<Rightarrow> string \<Rightarrow> download_payload" where
  "buildYouTubePayload ss opt audioOnly aspectRatio =
     (let p = zero_download\<lparr>dp_url := s_url ss, dp_platform := ''youtube'', dp_chat := s_chat ss,
            dp_user := s_user ss, dp_message := s_message ss, dp_lang := s_lang ss,
            dp_title := s_title ss, dp_author := s_author ss, dp_audio_only := audioOnly,
            dp_trim_start := fin_of (s_start ss), dp_trim_end := fin_of (s_end ss)\<rparr> in
      if audioOnly then p
      else p\<lparr>dp_quality := o_height opt, dp_aspect := aspectRatio, dp_format := o_format opt\<rparr>)"

definition startYouTubeDownload ::
  "'s bot_env \<Rightarrow> session \<Rightarrow> yt_option \<Rightarrow> bool \<Rightarrow> 's world \<Rightarrow> 's world" where
  "startYouTubeDownload B ss opt audioOnly w =
     (let w = do_st (session_Clear (b_redis B) (s_user ss)) w;
          statusText = (if audioOnly then ProcessingAudioMessage (s_lang ss)
                        else ProcessingMessage (s_lang ss) (o_height opt));
          w = post B (Edit (s_chat ss) (s_message ss) statusText []) w;
          (ratio, w) = (if audioOnly then ([], w) else youtubeAspectRatio B (s_user ss) w);
          p = (buildYouTubePayload ss opt audioOnly ratio)\<lparr>dp_no_watermark :=
                 noWatermarkFor B (s_user ss) w\<rparr> in
      case emit B (Job (EnqueueDownload id p)) w of
        (Inl e, w) \<Rightarrow> reply B (s_chat ss) ''errors.generic'' (s_lang ss) w
      | (Inr _, w) \<Rightarrow> w)"

definition onQualityChoice :: "'s bot_env \<Rightarrow> callback \<Rightarrow> 's world \<Rightarrow> 's world" where
  "onQualityChoice B q w =
     (case youtubeSession B q w of
        (None, w) \<Rightarrow> w
      | (Some ss, w) \<Rightarrow>
          (case atoi (trim_prefix (q_data q) ''quality:'') of
             None \<Rightarrow> ack B q w
           | Some quality \<Rightarrow>
               (case OptionFor (s_options ss) quality of
                  None \<Rightarrow> toast B q ''youtube.session_expired'' (s_lang ss) True w
                | Some opt \<Rightarrow> startYouTubeDownload B ss opt False (ack B q w))))"

definition onYouTubeAction :: "'s bot_env \<Rightarrow> callback \<Rightarrow> 's world \<Rightarrow> 's world" where
  "onYouTubeAction B q w =
     (case youtubeSession B q w of
        (None, w) \<Rightarrow> w
      | (Some ss, w) \<Rightarrow>
          let w = ack B q w; uid = u_id (q_from q); act = trim_prefix (q_data q) ''yt:'' in
          if act = ''mp3'' then
            startYouTubeDownload B ss \<lparr>o_height = 0, o_size = 0, o_format = []\<rparr> True w
          else if act = ''trim'' then
            (case on_st (SetAwaitingTrim (b_redis B) uid True) w of
               (Inr (Some new), w) \<Rightarrow>
                 post B (Edit (s_chat new) (s_message new) (Loc ''youtube.trim_prompt'' (s_lang new) [])
                   (TrimPromptKeyboard (s_lang new))) w
             | (_, w) \<Rightarrow> w)
          else if act = ''trimoff'' then
            (case on_st (SetTrim (b_redis B) uid (Fin 0) (Fin 0)) w of
               (Inr (Some new), w) \<Rightarrow> renderFormatCard B new w
             | (_, w) \<Rightarrow> w)
          else w)"

definition trimErrorText :: "trim_error \<Rightarrow> string" where
  "trimErrorText e =
     (case e of
        ErrTrimOrder \<Rightarrow> ''youtube.trim_order''
      | ErrTrimRange \<Rightarrow> ''youtube.trim_out_of_range''
      | ErrTrimFormat \<Rightarrow> ''youtube.trim_invalid'')"

definition handleYouTubeTrimInput ::
  "'s bot_env \<Rightarrow> message \<Rightarrow> int \<Rightarrow> string \<Rightarrow> 's world \<Rightarrow> bool \<times> 's world" where
  "handleYouTubeTrimInput B m userID lang w =
     (case on_st (session_Get (b_redis B) userID) w of
        (Inr (Some ss), w) \<Rightarrow>
          if \<not> s_awaiting ss then (False, w)
          else
            let body = trim_space (messageBody m) in
            if body = [] \<or> ExtractURLs body \<noteq> [] then
              (False, do_st (SetAwaitingTrim (b_redis B) userID False) w)
            else
              (case ParseRange body (s_duration ss) of
                 Inl e \<Rightarrow> (True, reply B (m_chat m) (trimErrorText e) lang w)
               | Inr (start, stop) \<Rightarrow>
                   (case on_st (SetTrim (b_redis B) userID start stop) w of
                      (Inr (Some new), w) \<Rightarrow> (True, renderFormatCard B new w)
                    | (_, w) \<Rightarrow> (True, reply B (m_chat m) ''youtube.session_expired'' lang w)))
      | (_, w) \<Rightarrow> (False, w))"

subsection \<open>Dispatch (bot.go)\<close>

text \<open>The handlers of the music services, for a message of a user.\<close>

record 's music_handlers =
  mh_spotify :: "message \<Rightarrow> int \<Rightarrow> string \<Rightarrow> parsed_link \<Rightarrow> 's world \<Rightarrow> 's world"
  mh_yandex :: "message \<Rightarrow> int \<Rightarrow> string \<Rightarrow> parsed_link \<Rightarrow> 's world \<Rightarrow> 's world"
  mh_soundcloud :: "message \<Rightarrow> int \<Rightarrow> string \<Rightarrow> string \<Rightarrow> 's world \<Rightarrow> 's world"

definition if_enabled ::
  "'s bot_env \<Rightarrow> message \<Rightarrow> string \<Rightarrow> string \<Rightarrow> ('s world \<Rightarrow> 's world) \<Rightarrow> 's world \<Rightarrow> 's world" where
  "if_enabled B m lang platform go w =
     (case on_st (PlatformEnabled (b_redis B) (Some (b_cfg B)) platform) w of
        (on, w) \<Rightarrow> if \<not> on then reply B (m_chat m) (platform @ ''.disabled'') lang w else go w)"

definition dispatchLink ::
  "'s bot_env \<Rightarrow> 's music_handlers \<Rightarrow> message \<Rightarrow> int \<Rightarrow> string \<Rightarrow> parsed_link \<Rightarrow> bool \<Rightarrow> 's world
     \<Rightarrow> 's world" where
  "dispatchLink B mh m userID lang link batch w =
     (case link_platform link of
        PlatformSpotify \<Rightarrow> if_enabled B m lang ''spotify'' (mh_spotify mh m userID lang link) w
      | PlatformYandexMusic \<Rightarrow> if_enabled B m lang ''yandexmusic'' (mh_yandex mh m userID lang link) w
      | PlatformSoundCloud \<Rightarrow>
          if_enabled B m lang ''soundcloud'' (mh_soundcloud mh m userID lang (link_url link)) w
      | PlatformPinterest \<Rightarrow> if_enabled B m lang ''pinterest''
          (enqueueOrReplyError B m userID lang link ''pinterest'' TypePinterest batch) w
      | PlatformTikTok \<Rightarrow> enqueueOrReplyError B m userID lang link ''tiktok'' TypeTikTok batch w
      | PlatformInstagram \<Rightarrow> if_enabled B m lang ''instagram''
          (enqueueOrReplyError B m userID lang link ''instagram'' TypeInstagram batch) w
      | PlatformReddit \<Rightarrow> if_enabled B m lang ''reddit''
          (enqueueOrReplyError B m userID lang link ''reddit'' TypeReddit batch) w
      | PlatformUnknown \<Rightarrow> reply B (m_chat m) ''errors.unsupported'' lang w
      | PlatformYouTube \<Rightarrow>
          if \<not> c_YouTubeEnabled (b_cfg B) then reply B (m_chat m) ''errors.unsupported'' lang w
          else handleYouTubeLink B m userID lang link w
      | p \<Rightarrow> enqueueOrReplyError B m userID lang link (platform_string p) TypeDownload batch w)"

fun dispatch_all ::
  "'s bot_env \<Rightarrow> 's music_handlers \<Rightarrow> message \<Rightarrow> int \<Rightarrow> string \<Rightarrow> bool \<Rightarrow> parsed_link list \<Rightarrow> 's world
     \<Rightarrow> 's world" where
  "dispatch_all B mh m userID lang batch [] w = w"
| "dispatch_all B mh m userID lang batch (l # ls) w =
     dispatch_all B mh m userID lang batch ls (dispatchLink B mh m userID lang l batch w)"

text \<open>\<open>adminFSM\<close> is the handler of the operator's pending input, of theory \<open>Handler_Admin\<close>.\<close>

definition onText ::
  "'s bot_env \<Rightarrow> 's music_handlers \<Rightarrow> (message \<Rightarrow> string \<Rightarrow> 's world \<Rightarrow> bool \<times> 's world)
     \<Rightarrow> message \<Rightarrow> 's world \<Rightarrow> 's world" where
  "onText B mh adminFSM m w =
     (if shouldSkipIncomingMessage m then w
      else case m_from m of
        None \<Rightarrow> w
      | Some u \<Rightarrow>
          let lang = userLang B (u_id u) w;
              (banned, w) = checkBanned B m lang w in
          if banned then w
          else
            let (ok, w) = allowGroupLinks B m w in
            if \<not> ok then w
            else
              let (used, w) = adminFSM m lang w in
              if used then w
              else
                let (used, w) = handleYouTubeTrimInput B m (u_id u) lang w in
                if used then w
                else
                  let (ok, w) = allowRateLimit B m lang w in
                  if \<not> ok then w
                  else
                    let links = extractMessageLinks m in
                    dispatch_all B mh m (u_id u) lang (length links > 1) links w)"

definition onDirectMedia :: "'s bot_env \<Rightarrow> message \<Rightarrow> 's world \<Rightarrow> 's world" where
  "onDirectMedia B m w =
     (case m_from m of
        None \<Rightarrow> w
      | Some u \<Rightarrow>
          if \<not> m_media m then w
          else if has_prefix (m_caption m) ''/'' then w
          else reply B (m_chat m) ''errors.send_link'' (userLang B (u_id u) w) w)"

definition onUnknownCallback :: "'s bot_env \<Rightarrow> callback \<Rightarrow> 's world \<Rightarrow> 's world" where
  "onUnknownCallback B q w =
     (let lang = (if u_id (q_from q) \<noteq> 0 then userLang B (u_id (q_from q)) w else ''en'') in
      toast B q ''errors.callback_invalid'' lang True w)"

end
