(* ===== verification/Youtube_Props.thy ===== *)
theory Youtube_Props
  imports Youtube "HOL-Library.Product_Lexorder" "HOL-Library.Sublist"
begin

text \<open>
  The properties of \<open>go/internal/youtube\<close>: the quality ladder and the choice of formats, trim ranges
  and their display, the layout of the card's buttons, and the pending session.
\<close>

subsection \<open>Heights and formats\<close>

lemma collect_heights_ok:
  "distinct out \<Longrightarrow> list_all (\<lambda>h. 0 < h) out \<Longrightarrow>
   distinct (collect_heights vs out) \<and> list_all (\<lambda>h. 0 < h) (collect_heights vs out)"
  by (induction vs arbitrary: out) (auto split: option.splits)

text \<open>
  The quality ladder is a strictly ascending list of positive heights and is never empty,
  whatever text the operator stored, so the last element \<open>topAllowedQuality\<close> reads exists and is the
  largest.
\<close>

theorem allowed_heights_ladder:
  "AllowedHeights vs \<noteq> [] \<and> sorted_wrt (<) (AllowedHeights vs)
   \<and> list_all (\<lambda>h. 0 < h \<and> h \<le> last (AllowedHeights vs)) (AllowedHeights vs)"
proof -
  let ?hs = "AllowedHeights vs"
  have ok: "distinct (collect_heights vs [])" "list_all (\<lambda>h. 0 < h) (collect_heights vs [])"
    using collect_heights_ok [of "[]" vs] by simp_all
  have ne: "?hs \<noteq> []"
    by (simp add: AllowedHeights_def DefaultHeights_def Let_def) (metis length_0_conv length_sort)
  have strict: "sorted_wrt (<) ?hs"
    using ok(1) by (simp add: AllowedHeights_def DefaultHeights_def Let_def strict_sorted_iff)
  have pos: "list_all (\<lambda>h. 0 < h) ?hs"
    using ok(2) by (simp add: AllowedHeights_def DefaultHeights_def Let_def list_all_iff)
  have "h \<le> last ?hs" if "h \<in> set ?hs" for h
    using strict ne that
    by (metis append_butlast_last_id less_imp_le order_refl rotate1.simps(2) set_ConsD set_rotate1
        sorted_wrt_append list.set_intros(1))
  with ne strict pos show ?thesis by (simp add: list_all_iff)
qed

text \<open>The preference orders as keys: smaller is better.\<close>

definition vkey :: "rat \<Rightarrow> format \<Rightarrow> int \<times> int \<times> int \<times> int" where
  "vkey dur f = (if hasAudio f then 0 else 1, videoCodecRank (f_vcodec f),
     if formatSize f dur = 0 then 1 else 0, formatSize f dur)"

definition akey :: "format \<Rightarrow> int \<times> rat" where
  "akey f = (audioCodecRank (f_acodec f), - audioBitrate f)"

lemma formatSize_nonneg: "0 \<le> formatSize f dur"
  by (auto simp: formatSize_def intro!: trunc_nonneg)

lemma betterVideo_key: "betterVideo a b dur \<longleftrightarrow> vkey dur a < vkey dur b"
  using formatSize_nonneg [of a dur] formatSize_nonneg [of b dur]
  by (auto simp: betterVideo_def vkey_def Let_def less_prod_def less_eq_prod_def)

lemma betterAudio_key: "betterAudio a b \<longleftrightarrow> akey a < akey b"
  by (auto simp: betterAudio_def akey_def Let_def less_prod_def less_eq_prod_def)

definition candidate :: "int \<Rightarrow> format \<Rightarrow> bool" where
  "candidate h f \<longleftrightarrow> hasVideo f \<and> shortSide f = h \<and> h \<noteq> 0"

definition best_at :: "rat \<Rightarrow> format set \<Rightarrow> int \<Rightarrow> format option \<Rightarrow> bool" where
  "best_at dur seen h x \<longleftrightarrow>
     (case x of
        None \<Rightarrow> \<forall>g\<in>seen. \<not> candidate h g
      | Some f \<Rightarrow> f \<in> seen \<and> candidate h f \<and> (\<forall>g\<in>seen. candidate h g \<longrightarrow> vkey dur f \<le> vkey dur g))"

lemma best_at_skip: "best_at dur seen h x \<Longrightarrow> \<not> candidate h f \<Longrightarrow> best_at dur (insert f seen) h x"
  by (auto simp: best_at_def split: option.splits)

lemma best_at_step:
  assumes "best_at dur seen h x" "candidate h f"
  shows "best_at dur (insert f seen) h
    (case x of None \<Rightarrow> Some f | Some cur \<Rightarrow> if betterVideo f cur dur then Some f else Some cur)"
  using assms by (auto simp: best_at_def betterVideo_key split: option.splits)

lemma by_height_loop_best:
  "\<forall>h. best_at dur seen h (m h) \<Longrightarrow> best_at dur (seen \<union> set fs) h (by_height_loop dur fs m h)"
proof (induction fs arbitrary: seen m)
  case (Cons f fs)
  define m' where "m' = (if \<not> hasVideo f \<or> shortSide f = 0 then m
    else (case m (shortSide f) of
             None \<Rightarrow> m(shortSide f := Some f)
           | Some cur \<Rightarrow> if betterVideo f cur dur then m(shortSide f := Some f) else m))"
  have loop: "by_height_loop dur (f # fs) m = by_height_loop dur fs m'"
    by (simp add: m'_def Let_def)
  have "best_at dur (insert f seen) h (m' h)" for h
  proof (cases "candidate h f")
    case True
    then have "m' h = (case m h of None \<Rightarrow> Some f
        | Some cur \<Rightarrow> if betterVideo f cur dur then Some f else Some cur)"
      by (auto simp: m'_def candidate_def split: option.splits)
    then show ?thesis using best_at_step [OF _ True] Cons.prems by simp
  next
    case False
    then have "m' h = m h"
      by (auto simp: m'_def candidate_def split: option.splits)
    then show ?thesis using best_at_skip [OF _ False] Cons.prems by simp
  qed
  with Cons.IH [of "insert f seen" m'] show ?case unfolding loop by simp
qed simp

definition audio_only :: "format \<Rightarrow> bool" where
  "audio_only f \<longleftrightarrow> \<not> hasVideo f \<and> hasAudio f"

lemma best_audio_loop_best:
  "(case best of None \<Rightarrow> True | Some b \<Rightarrow> audio_only b) \<Longrightarrow>
   best_audio_loop fs best = Some a \<Longrightarrow>
   (a \<in> set fs \<or> best = Some a) \<and> audio_only a
   \<and> (\<forall>b \<in> set fs. audio_only b \<longrightarrow> akey a \<le> akey b)
   \<and> (\<forall>b. best = Some b \<longrightarrow> akey a \<le> akey b)"
proof (induction fs arbitrary: best)
  case (Cons f fs)
  show ?case
  proof (cases "audio_only f")
    case False
    with Cons show ?thesis by (auto simp: audio_only_def)
  next
    case True
    define b' where "b' = (case best of None \<Rightarrow> f | Some b \<Rightarrow> if betterAudio f b then f else b)"
    have loop: "best_audio_loop (f # fs) best = best_audio_loop fs (Some b')"
      using True by (auto simp: audio_only_def b'_def split: option.splits)
    have le: "akey b' \<le> akey f" "\<And>b. best = Some b \<Longrightarrow> akey b' \<le> akey b"
      by (auto simp: b'_def betterAudio_key split: option.splits)
    have "audio_only b'" "b' = f \<or> best = Some b'"
      using True Cons.prems(1) by (auto simp: b'_def split: option.splits)
    with Cons.IH [of "Some b'"] Cons.prems(2) loop le show ?thesis by fastforce
  qed
qed simp

text \<open>
  C35. Every quality built from the metadata of a probe is real and is the best choice: its height is in the allowed
  ladder and is the short side of some video format of the probe, which no other format of that
  height beats; a format without sound is joined with an audio track that no other audio track beats;
  and the qualities come in the order of the ladder. (Without metadata, or when nothing matches, the card offers the ladder itself.)
\<close>

theorem options_offer_best_formats:
  assumes "opt \<in> set (Options (Some m) allowed)"
  shows "o_height opt \<in> set allowed \<and> subseq (List.map o_height (Options (Some m) allowed)) allowed
    \<and> (\<exists>f \<in> set (me_formats m). candidate (o_height opt) f
        \<and> (\<forall>g \<in> set (me_formats m). candidate (o_height opt) g \<longrightarrow> \<not> betterVideo g f (me_duration m))
        \<and> (if hasAudio f then o_format opt = f_id f
           else \<exists>a \<in> set (me_formats m). audio_only a \<and> o_format opt = f_id f @ ''+'' @ f_id a
             \<and> (\<forall>b \<in> set (me_formats m). audio_only b \<longrightarrow> \<not> betterAudio b a)))"
proof -
  let ?fs = "me_formats m" and ?d = "me_duration m"
  let ?by = "by_height_loop ?d ?fs (\<lambda>_. None)"
  let ?at = "option_at ?d (bestAudio ?fs) ?by"
  have best: "best_at ?d (set ?fs) h (?by h)" for h
    using by_height_loop_best [of ?d "{}" "\<lambda>_. None"] by (simp add: best_at_def)
  have height: "o_height x = h" if "?at h = Some x" for h x
    using that by (auto simp: option_at_def Let_def split: option.splits if_splits)
  have order: "subseq (List.map o_height (List.map_filter ?at hs)) hs" for hs
  proof (induction hs)
    case (Cons h hs)
    then show ?case by (cases "?at h") (auto simp: List.map_filter_def dest: height)
  qed (simp add: List.map_filter_def)
  obtain h where h: "h \<in> set allowed" "?at h = Some opt"
    using assms by (auto simp: Options_def List.map_filter_def)
  then obtain f where f: "?by h = Some f" by (auto simp: option_at_def split: option.splits)
  with best [of h] have fb: "f \<in> set ?fs" "candidate h f"
    "\<And>g. g \<in> set ?fs \<Longrightarrow> candidate h g \<Longrightarrow> \<not> betterVideo g f ?d"
    by (auto simp: best_at_def betterVideo_key)
  have audio: "if hasAudio f then o_format opt = f_id f
      else \<exists>a \<in> set ?fs. audio_only a \<and> o_format opt = f_id f @ ''+'' @ f_id a
        \<and> (\<forall>b \<in> set ?fs. audio_only b \<longrightarrow> \<not> betterAudio b a)"
  proof (cases "hasAudio f")
    case True
    with h(2) f show ?thesis by (auto simp: option_at_def Let_def)
  next
    case False
    with h(2) f obtain a where a: "bestAudio ?fs = Some a" "o_format opt = f_id f @ ''+'' @ f_id a"
      by (auto simp: option_at_def Let_def split: option.splits)
    have "a \<in> set ?fs \<and> audio_only a \<and> (\<forall>b \<in> set ?fs. audio_only b \<longrightarrow> \<not> betterAudio b a)"
      using best_audio_loop_best [of None ?fs a] a(1)
      by (auto simp: bestAudio_def betterAudio_key)
    with a(2) False show ?thesis by auto
  qed
  from order [of allowed] have "subseq (List.map o_height (Options (Some m) allowed)) allowed"
    by (simp add: Options_def)
  moreover have "o_height opt = h" using height [OF h(2)] .
  ultimately show ?thesis using h(1) fb audio by blast
qed

definition sample_meta :: meta where
  "sample_meta = \<lparr>me_id = ''x'', me_title = [], me_uploader = [], me_channel = [], me_duration = 10,
     me_formats = [\<lparr>f_id = ''18'', f_ext = ''mp4'', f_vcodec = ''avc1'', f_acodec = ''mp4a'',
       f_width = 640, f_height = 360, f_size = 5, f_size_approx = 0, f_tbr = 0, f_abr = 0\<rparr>]\<rparr>"

lemma options_offer_best_formats_witness:
  "\<exists>f \<in> set (me_formats sample_meta). candidate 360 f"
proof -
  have "\<lparr>o_height = 360, o_size = 5, o_format = ''18''\<rparr> \<in> set (Options (Some sample_meta) [360])"
    by (simp add: Options_def sample_meta_def option_at_def hasVideo_def hasAudio_def shortSide_def
        formatSize_def List.map_filter_def)
  from options_offer_best_formats [OF this] show ?thesis by auto
qed

subsection \<open>Trim ranges\<close>

lemma nat_of_digits_read:
  assumes "list_all is_digit ds"
  shows "read_nat a ds = Some (foldl (\<lambda>a c. 10 * a + digit_val c) a ds)"
  using assms by (induction ds arbitrary: a) simp_all

lemma parse_decimal_nonneg: "parse_decimal s = Some v \<Longrightarrow> 0 \<le> v"
  by (auto simp: parse_decimal_def pow10_def Let_def split: prod.splits option.splits if_splits)

definition timecode_ok :: "gofloat \<Rightarrow> bool" where
  "timecode_ok v \<longleftrightarrow> (case v of Fin a \<Rightarrow> 0 \<le> a | PosInf \<Rightarrow> True | NaN \<Rightarrow> True | NegInf \<Rightarrow> False)"

lemma sum_fields_ok: "0 \<le> acc \<Longrightarrow> sum_fields n i acc fs = Inr v \<Longrightarrow> timecode_ok v"
proof (induction fs arbitrary: i acc)
  case (Cons f fs)
  show ?case
  proof (cases "fs = []")
    case True
    with Cons.prems obtain x where "\<not> fl_less x (Fin 0)" "v = fl_add acc x"
      by (auto simp: Let_def split: if_splits option.splits)
    with Cons.prems(1) show ?thesis by (cases x) (simp_all add: timecode_ok_def)
  next
    case False
    with Cons.prems obtain n' where "0 \<le> n'"
      "sum_fields n (Suc i) (acc + of_int n' * unitSeconds n i) fs = Inr v"
      by (auto simp: Let_def not_less split: if_splits option.splits)
    moreover from this(1) Cons.prems(1) have "0 \<le> acc + of_int n' * unitSeconds n i"
      by (simp add: unitSeconds_def)
    ultimately show ?thesis using Cons.IH by blast
  qed
qed (auto simp: timecode_ok_def)

lemma parseTimecode_ok: "parseTimecode raw = Inr v \<Longrightarrow> timecode_ok v"
  by (auto simp: parseTimecode_def Let_def split: if_splits intro: sum_fields_ok [of 0])

lemma check_range_ok:
  assumes "timecode_ok x" "timecode_ok y" "check_range x y d = Inr (start, stop)"
  shows "(\<exists>a b. start = Fin a \<and> stop = Fin b \<and> 0 \<le> a \<and> a < b \<and> (0 < d \<longrightarrow> b \<le> of_int d))
    \<or> start = NaN \<or> stop = NaN \<or> d \<le> 0 \<and> stop = PosInf"
  using assms by (cases x; cases y)
    (auto simp: check_range_def timecode_ok_def fl_le_def Let_def split: if_splits)

text \<open>
  A trim range that is accepted with ordinary numbers is a proper fragment: it starts at or
  after 0, ends after it starts, and ends within the video when its length is known. The other
  outcomes are exactly the special values: a bound that is NaN, or an infinite end when the
  length is unknown.
\<close>

theorem parse_range_bounds:
  assumes "ParseRange inp d = Inr (start, stop)"
  shows "(\<exists>a b. start = Fin a \<and> stop = Fin b \<and> 0 \<le> a \<and> a < b \<and> (0 < d \<longrightarrow> b \<le> of_int d))
    \<or> start = NaN \<or> stop = NaN \<or> d \<le> 0 \<and> stop = PosInf"
proof -
  from assms obtain p0 p1 x y where "parseTimecode p0 = Inr x" "parseTimecode p1 = Inr y"
    "check_range x y d = Inr (start, stop)"
    by (auto simp: ParseRange_def split: list.splits sum.splits)
  then show ?thesis using check_range_ok parseTimecode_ok by blast
qed

lemma parse_digits:
  assumes "list_all is_digit ds" "ds \<noteq> []"
  shows "parse_decimal ds = Some (of_nat (nat_of_digits ds))"
proof -
  have d: "digits_of ds = (ds, [])"
    using assms(1) by (simp add: digits_of_def list_all_iff)
  show ?thesis
    using assms(2) by (simp add: parse_decimal_def d Let_def parse_exponent_def pow10_def)
qed

lemma parse_float_digits:
  assumes "list_all is_digit ds" "ds \<noteq> []" "of_nat (nat_of_digits ds) < max_float_bound"
  shows "parse_float ds = Some (Fin (of_nat (nat_of_digits ds)))"
proof -
  from assms(1,2) obtain c r where ds: "ds = c # r" "is_digit c" by (cases ds) auto
  then have low: "lower_char c = c" by (auto simp: lower_char_def char_class_defs)
  have ne: "c \<noteq> CHR ''i''" "c \<noteq> CHR ''n''"
    using ds(2) by (auto simp: char_class_defs code_of_def)
  have "split_sign ds = (False, ds)"
    by (rule split_sign_digits) (use assms in \<open>auto simp: list_all_iff\<close>)
  with assms ne low show ?thesis
    by (simp add: parse_float_def Let_def parse_digits ds(1) to_lower_def)
qed

lemma pad2_digits: "0 \<le> n \<Longrightarrow> list_all is_digit (pad2 n)"
  by (auto simp: pad2_def itoa_def list_all_iff is_digit_def between_def dest: show_nat_digits)

lemma itoa_digits: "0 \<le> n \<Longrightarrow> list_all is_digit (itoa n)"
  by (auto simp: itoa_def list_all_iff dest: show_nat_digits)

lemma read_pad2: "0 \<le> n \<Longrightarrow> read_nat 0 (pad2 n) = Some (nat n)"
  by (simp add: pad2_def itoa_def read_show_nat is_digit_def between_def digit_val_def)

lemma nat_of_pad2: "0 \<le> n \<Longrightarrow> nat_of_digits (pad2 n) = nat n"
  using nat_of_digits_read [OF pad2_digits, of n 0] read_pad2 [of n]
  by (simp add: nat_of_digits_def)

lemma atoi_digits:
  assumes "list_all is_digit ds" "ds \<noteq> []" "read_nat 0 ds = Some m" "int m \<le> int64_max"
  shows "atoi ds = Some (int m)"
proof -
  have "split_sign ds = (False, ds)"
    by (rule split_sign_digits) (use assms in \<open>auto simp: list_all_iff\<close>)
  with assms show ?thesis by (simp add: atoi_def atoi_full_def int64_min_def)
qed

lemma pad2_ne [simp]: "pad2 n \<noteq> []"
  by (simp add: pad2_def)

lemma digit_field:
  assumes "list_all is_digit ds"
  shows "trim_space ds = ds" "CHR '':'' \<notin> set ds" "CHR ''-'' \<notin> set ds" "CHR ''.'' \<notin> set ds"
    "CHR 0xE2 \<notin> set ds"
proof -
  show "trim_space ds = ds"
    by (rule trim_space_id) (use assms in \<open>auto simp: list_all_iff dest: is_digit_not_space\<close>)
  have "\<not> is_digit CHR '':''" "\<not> is_digit CHR ''-''" "\<not> is_digit CHR ''.''" "\<not> is_digit CHR 0xE2"
    by (simp_all add: char_class_defs code_of_def)
  then show "CHR '':'' \<notin> set ds" "CHR ''-'' \<notin> set ds" "CHR ''.'' \<notin> set ds" "CHR 0xE2 \<notin> set ds"
    using assms by (auto simp: list_all_iff)
qed

lemma pad2_time:
  assumes "0 \<le> n" "n < 60"
  shows "atoi (pad2 n) = Some n" "parse_float (pad2 n) = Some (Fin (of_int n))"
proof -
  have "atoi (pad2 n) = Some (int (nat n))"
    by (rule atoi_digits) (use assms read_pad2 pad2_digits in \<open>simp_all add: int64_max_def\<close>)
  with assms show "atoi (pad2 n) = Some n" by simp
  have "rat_of_nat (nat n) \<le> 60" using assms by simp
  also have "(60::rat) < max_float_bound" by (simp add: max_float_bound_def)
  finally have "parse_float (pad2 n) = Some (Fin (of_nat (nat n)))"
    using parse_float_digits [OF pad2_digits pad2_ne, of n] nat_of_pad2 assms by simp
  with assms show "parse_float (pad2 n) = Some (Fin (of_int n))" by (simp add: of_nat_nat)
qed

definition time_char :: "char \<Rightarrow> bool" where
  "time_char c \<longleftrightarrow> is_digit c \<or> c = CHR '':''"

lemma FormatDuration_chars: "list_all time_char (FormatDuration n)"
proof -
  have "list_all time_char ds" if "list_all is_digit ds" for ds
    using that by (auto simp: list_all_iff time_char_def)
  then show ?thesis
    by (auto simp: FormatDuration_def Let_def pad2_digits itoa_digits time_char_def)
qed

lemma split_two_times:
  "CHR '':'' \<notin> set a \<Longrightarrow> CHR '':'' \<notin> set b \<Longrightarrow> split_char CHR '':'' (a @ '':'' @ b) = [a, b]"
  by (simp add: split_char_append split_char_no_sep)

lemma split_three_times:
  "CHR '':'' \<notin> set a \<Longrightarrow> CHR '':'' \<notin> set b \<Longrightarrow> CHR '':'' \<notin> set c \<Longrightarrow>
   split_char CHR '':'' (a @ '':'' @ b @ '':'' @ c) = [a, b, c]"
  by (simp add: split_char_append split_char_no_sep)

lemma sum_three_times:
  assumes "0 \<le> h" "h \<le> int64_max" "0 \<le> m" "m < 60" "0 \<le> s" "s < 60"
  shows "sum_fields 3 0 0 [itoa h, pad2 m, pad2 s]
    = Inr (Fin (of_int h * 3600 + of_int m * 60 + of_int s))"
proof -
  have "atoi (itoa h) = Some h"
    using assms(1,2) by (intro atoi_itoa) (simp add: in_int64_def int64_min_def)
  moreover have "trim_space (pad2 m) = pad2 m" "trim_space (pad2 s) = pad2 s"
    using digit_field(1) [OF pad2_digits] assms(3,5) by simp_all
  ultimately show ?thesis
    using assms pad2_time [of m] pad2_time [of s] by (simp add: unitSeconds_def)
qed

lemma sum_two_times:
  assumes "0 \<le> m" "m \<le> int64_max" "0 \<le> s" "s < 60"
  shows "sum_fields 2 0 0 [itoa m, pad2 s] = Inr (Fin (of_int m * 60 + of_int s))"
proof -
  have "atoi (itoa m) = Some m"
    using assms(1,2) by (intro atoi_itoa) (simp add: in_int64_def int64_min_def)
  moreover have "trim_space (pad2 s) = pad2 s"
    using digit_field(1) [OF pad2_digits] assms(3) by simp
  ultimately show ?thesis
    using assms pad2_time [of s] by (simp add: unitSeconds_def)
qed

lemma parse_FormatDuration:
  assumes "0 \<le> n" "n \<le> int64_max"
  shows "parseTimecode (FormatDuration n) = Inr (Fin (of_int n))"
proof -
  let ?h = "n div 3600" and ?m = "n mod 3600 div 60" and ?s = "n mod 60"
  have b: "0 \<le> ?h" "0 \<le> ?m" "?m < 60" "0 \<le> ?s" "?s < 60"
    using assms by (auto simp: div_less_iff_less_mult pos_imp_zdiv_nonneg_iff)
  have tsp: "trim_space (FormatDuration n) = FormatDuration n"
    using FormatDuration_chars [of n]
    by (intro trim_space_id) (auto simp: list_all_iff time_char_def is_space_def char_class_defs code_of_def)
  have ne: "FormatDuration n \<noteq> []" by (simp add: FormatDuration_def Let_def)
  have nn: "(if n < 0 then 0 else n) = n" using assms(1) by simp
  note fh = digit_field [OF itoa_digits [OF b(1)]] and fm = digit_field [OF pad2_digits [OF b(2)]]
    and fs = digit_field [OF pad2_digits [OF b(4)]] and fm' = digit_field [OF itoa_digits [OF b(2)]]
  show ?thesis
  proof (cases "0 < ?h")
    case True
    have split: "split_char CHR '':'' (FormatDuration n) = [itoa ?h, pad2 ?m, pad2 ?s]"
    proof -
      have "FormatDuration n = itoa ?h @ '':'' @ pad2 ?m @ '':'' @ pad2 ?s"
        unfolding FormatDuration_def Let_def nn by (rule if_P) (rule True)
      then show ?thesis using split_three_times [OF fh(2) fm(2) fs(2)] by simp
    qed
    have "?h \<le> n" using assms(1) div_le_dividend [of "nat n" 3600]
      by (simp add: le_nat_iff zdiv_int [symmetric] nat_div_distrib [symmetric])
    then have "?h \<le> int64_max" using assms(2) by linarith
    note sum = sum_three_times [OF b(1) this b(2-5)]
    have eq: "of_int ?h * 3600 + of_int ?m * 60 + of_int ?s = (of_int n :: rat)"
    proof -
      have "n mod 3600 mod 60 = n mod 60" by (rule mod_mod_cancel) simp
      then have "?m * 60 + ?s = n mod 3600" using div_mult_mod_eq [of "n mod 3600" 60] by simp
      then have "?h * 3600 + ?m * 60 + ?s = ?h * 3600 + n mod 3600" by linarith
      also have "\<dots> = n" by (rule div_mult_mod_eq)
      finally have "of_int (?h * 3600 + ?m * 60 + ?s) = (of_int n :: rat)" by (rule arg_cong)
      then show ?thesis by (simp only: of_int_add of_int_mult of_int_numeral)
    qed
    have len: "length [itoa ?h, pad2 ?m, pad2 ?s] = 3" by simp
    show ?thesis
      unfolding parseTimecode_def tsp Let_def split len sum eq using ne by simp
  next
    case False
    then have small: "n < 3600" "n mod 3600 = n" using assms by auto
    have split: "split_char CHR '':'' (FormatDuration n) = [itoa ?m, pad2 ?s]"
    proof -
      have "FormatDuration n = itoa ?m @ '':'' @ pad2 ?s"
        unfolding FormatDuration_def Let_def nn by (rule if_not_P) (rule False)
      then show ?thesis using split_two_times [OF fm'(2) fs(2)] by simp
    qed
    have "?m \<le> int64_max" using b(3) by (simp add: int64_max_def)
    note sum = sum_two_times [OF b(2) this b(4,5)]
    have eq: "of_int ?m * 60 + of_int ?s = (of_int n :: rat)"
    proof -
      have "?m * 60 + ?s = n" using div_mult_mod_eq [of n 60] small(2) by simp
      then have "of_int (?m * 60 + ?s) = (of_int n :: rat)" by (rule arg_cong)
      then show ?thesis by (simp only: of_int_add of_int_mult of_int_numeral)
    qed
    have len: "length [itoa ?m, pad2 ?s] = 2" by simp
    show ?thesis
      unfolding parseTimecode_def tsp Let_def split len sum eq using ne by simp
  qed
qed

lemma normalize_skip:
  "list_all time_char u \<Longrightarrow> normalize_dashes (u @ v) = u @ normalize_dashes v"
proof (induction u)
  case (Cons x u)
  then have x: "x \<noteq> CHR 0xE2" "x \<noteq> CHR ''.''"
    by (auto simp: time_char_def char_class_defs code_of_def)
  obtain w where w: "u @ v = w" by blast
  have "normalize_dashes (x # w) = x # normalize_dashes w" for w
  proof (cases w)
    case (Cons b w')
    with x show ?thesis
      by (cases w') (simp_all add: em_dash_def en_dash_def minus_sign_def)
  qed simp
  with Cons show ?case by simp
qed simp

lemma normalize_id: "list_all time_char u \<Longrightarrow> normalize_dashes u = u"
  using normalize_skip [of u "[]"] by simp

lemma normalize_en_dash: "normalize_dashes (en_dash @ v) = CHR ''-'' # normalize_dashes v"
  by (simp add: en_dash_def em_dash_def)

lemma parse_FormatRange:
  assumes "0 \<le> a" "a < b" "b \<le> int64_max"
  shows "ParseRange (FormatRange (of_int a) (of_int b)) 0 = Inr (Fin (of_int a), Fin (of_int b))"
proof -
  have tr: "trunc (of_int a) = a" "trunc (of_int b + 1 / 2) = b"
    using assms by (simp_all add: trunc_def floor_eq_iff)
  have norm: "normalize_dashes (FormatRange (of_int a) (of_int b))
      = FormatDuration a @ CHR ''-'' # FormatDuration b"
    unfolding FormatRange_def tr normalize_skip [OF FormatDuration_chars] normalize_en_dash
      normalize_id [OF FormatDuration_chars] ..
  have nodash: "CHR ''-'' \<notin> set (FormatDuration k)" for k
    using FormatDuration_chars [of k]
    by (auto simp: list_all_iff time_char_def char_class_defs code_of_def)
  have "split_char CHR ''-'' (normalize_dashes (FormatRange (of_int a) (of_int b)))
      = [FormatDuration a, FormatDuration b]"
    unfolding norm by (simp add: split_char_append split_char_no_sep nodash)
  moreover have "check_range (Fin (of_int a)) (Fin (of_int b)) 0
      = Inr (Fin (of_int a), Fin (of_int b))"
    using assms(2) by (simp add: check_range_def fl_le_def Let_def)
  ultimately show ?thesis
    using assms parse_FormatDuration [of a] parse_FormatDuration [of b]
    by (simp add: ParseRange_def)
qed

text \<open>
  What the card shows for a fragment of whole seconds is text that the range parser reads
  back as the same fragment, the en dash included.
\<close>

theorem displayed_range_parses_back:
  assumes "0 \<le> a" "a < b" "b \<le> int64_max"
  shows "ParseRange (FormatRange (of_int a) (of_int b)) 0 = Inr (Fin (of_int a), Fin (of_int b))"
  using assms by (rule parse_FormatRange)

lemma displayed_range_parses_back_witness:
  "ParseRange (FormatRange (of_int 80) (of_int 3725)) 0 = Inr (Fin (of_int 80), Fin (of_int 3725))"
  by (rule displayed_range_parses_back) (simp_all add: int64_max_def)

lemma parse_range_bounds_witness:
  "\<exists>start stop. ParseRange (FormatRange (of_int 80) (of_int 90)) 0 = Inr (start, stop)
     \<and> start \<noteq> NegInf"
proof -
  have r: "ParseRange (FormatRange (of_int 80) (of_int 90)) 0 = Inr (Fin (of_int 80), Fin (of_int 90))"
    by (rule parse_FormatRange) (simp_all add: int64_max_def)
  from parse_range_bounds [OF r] r show ?thesis by blast
qed

subsection \<open>The card's buttons\<close>

lemma quality_rows_concat:
  "concat (quality_rows lang opts rows row) = concat rows @ row @ List.map (quality_button lang) opts"
  by (induction opts arbitrary: rows row) (auto simp: Let_def)

lemma quality_rows_width:
  assumes "\<forall>r \<in> set rows. length r = 3" "length row < 3"
  shows "\<exists>full rest. quality_rows lang opts rows row = full @ rest \<and> (\<forall>r \<in> set full. length r = 3)
    \<and> (rest = [] \<or> (\<exists>r. rest = [r] \<and> 0 < length r \<and> length r < 3))"
  using assms
proof (induction opts arbitrary: rows row)
  case Nil
  then show ?case
    by (intro exI [of _ rows] exI [of _ "if length row > 0 then [row] else []"]) auto
next
  case (Cons opt opts)
  then show ?case by (auto simp: Let_def qualitiesPerRow_def)
qed

text \<open>
  The card has a button for every offered quality, once each and in order, laid out in full
  rows of three and at most one shorter row at the end, followed by the audio and trim buttons when
  they are enabled.
\<close>

theorem format_keyboard_layout:
  "\<exists>full rest. FormatKeyboard lang opts mp3 trim =
      full @ rest
      @ (if mp3 then [[button (Loc ''youtube.btn_mp3'' lang []) ''yt:mp3'']] else [])
      @ (if trim then [[button (Loc ''youtube.btn_trim'' lang []) ''yt:trim'']] else [])
    \<and> concat (full @ rest) = List.map (quality_button lang) opts
    \<and> list_all (\<lambda>r. length r = 3) full
    \<and> length rest \<le> 1 \<and> list_all (\<lambda>r. 0 < length r \<and> length r < 3) rest"
proof -
  obtain full rest where rows: "quality_rows lang opts [] [] = full @ rest"
    "\<forall>r \<in> set full. length r = 3"
    "rest = [] \<or> (\<exists>r. rest = [r] \<and> 0 < length r \<and> length r < 3)"
    using quality_rows_width [of "[]" "[]" lang opts] by auto
  have "concat (full @ rest) = List.map (quality_button lang) opts"
    using quality_rows_concat [of lang opts "[]" "[]"] rows(1) by simp
  with rows show ?thesis
    by (intro exI [of _ full] exI [of _ rest]) (auto simp: FormatKeyboard_def list_all_iff)
qed

subsection \<open>The pending session\<close>

definition option_in_range :: "yt_option \<Rightarrow> bool" where
  "option_in_range opt \<longleftrightarrow> in_int64 (o_height opt) \<and> in_int64 (o_size opt)"

lemma option_roundtrip: "option_in_range opt \<Longrightarrow> option_of (option_obj opt) = Some opt"
  by (simp add: option_of_def option_obj_def option_in_range_def get_int_def get_str_def jget_def)

lemma options_roundtrip:
  "list_all option_in_range opts \<Longrightarrow> options_of (List.map option_obj opts) = Some opts"
  by (induction opts) (simp_all add: option_roundtrip)

definition session_in_range :: "session \<Rightarrow> bool" where
  "session_in_range ss \<longleftrightarrow> in_int64 (s_user ss) \<and> in_int64 (s_chat ss) \<and> in_int64 (s_message ss)
     \<and> in_int64 (s_duration ss) \<and> list_all option_in_range (s_options ss)"

lemma get_omit_options [simp]:
  "k \<noteq> ''options'' \<Longrightarrow> get_str (xs @ omit_options opts) k = get_str xs k"
  "k \<noteq> ''options'' \<Longrightarrow> get_int (xs @ omit_options opts) k = get_int xs k"
  "k \<noteq> ''options'' \<Longrightarrow> get_bool (xs @ omit_options opts) k = get_bool xs k"
  "k \<noteq> ''options'' \<Longrightarrow> get_float (xs @ omit_options opts) k = get_float xs k"
  by (simp_all add: omit_options_def get_str_def get_int_def get_bool_def get_float_def jget_def)

lemma get_options_omit [simp]:
  "k \<noteq> ''options'' \<Longrightarrow> get_options (xs @ omit_str k t) = get_options xs"
  "k \<noteq> ''options'' \<Longrightarrow> get_options (xs @ omit_int k n) = get_options xs"
  "k \<noteq> ''options'' \<Longrightarrow> get_options (xs @ omit_bool k c) = get_options xs"
  "k \<noteq> ''options'' \<Longrightarrow> get_options (xs @ omit_float k x) = get_options xs"
  by (simp_all add: get_options_def)

lemma get_options_same [simp]:
  "get_options xs = Some [] \<Longrightarrow> list_all option_in_range opts \<Longrightarrow>
   get_options (xs @ omit_options opts) = Some opts"
  by (simp add: omit_options_def get_options_def jget_append_last options_roundtrip)

definition session_required :: "session \<Rightarrow> jobject" where
  "session_required s =
     [(''user_id'', JInt (s_user s)), (''url'', JStr (s_url s)), (''chat_id'', JInt (s_chat s)),
      (''message_id'', JInt (s_message s)), (''lang'', JStr (s_lang s))]"

lemma session_required_get [simp]:
  "in_int64 (s_user s) \<Longrightarrow> get_int (session_required s) ''user_id'' = Some (s_user s)"
  "get_str (session_required s) ''url'' = Some (s_url s)"
  "in_int64 (s_chat s) \<Longrightarrow> get_int (session_required s) ''chat_id'' = Some (s_chat s)"
  "in_int64 (s_message s) \<Longrightarrow> get_int (session_required s) ''message_id'' = Some (s_message s)"
  "get_str (session_required s) ''lang'' = Some (s_lang s)"
  "get_str (session_required s) ''title'' = Some []"
  "get_str (session_required s) ''author'' = Some []"
  "get_int (session_required s) ''duration_sec'' = Some 0"
  "get_options (session_required s) = Some []"
  "get_bool (session_required s) ''awaiting_trim'' = Some False"
  "get_float (session_required s) ''trim_start'' = Some 0"
  "get_float (session_required s) ''trim_end'' = Some 0"
  by (simp_all add: session_required_def jget_def get_str_def get_int_def get_bool_def
      get_float_def get_options_def)

lemma session_roundtrip:
  assumes "session_in_range ss" "marshal_session ss = Inr raw"
  shows "unmarshal_session raw = Some ss"
proof -
  from assms(2) obtain a b where fin: "s_start ss = Fin a" "s_end ss = Fin b"
    by (cases "s_start ss"; cases "s_end ss") (auto simp: marshal_session_def)
  have raw: "raw = RDoc (Some (session_required ss
      @ omit_str ''title'' (s_title ss) @ omit_str ''author'' (s_author ss)
      @ omit_int ''duration_sec'' (s_duration ss) @ omit_options (s_options ss)
      @ omit_bool ''awaiting_trim'' (s_awaiting ss)
      @ omit_float ''trim_start'' a @ omit_float ''trim_end'' b))"
    using assms(2) fin by (simp add: marshal_session_def session_required_def)
  have ranges: "in_int64 (s_user ss)" "in_int64 (s_chat ss)" "in_int64 (s_message ss)"
    "in_int64 (s_duration ss)" "list_all option_in_range (s_options ss)"
    using assms(1) by (simp_all add: session_in_range_def)
  show ?thesis
    unfolding raw unmarshal_session_def
    using ranges fin by (simp add: left_append del: append_assoc)
qed

definition stored_session :: "redis_db \<Rightarrow> int \<Rightarrow> session option" where
  "stored_session db u =
     (case live_val db (sessionKey u) of None \<Rightarrow> None | Some v \<Rightarrow> unmarshal_session v)"

lemma session_Get_cases:
  assumes "lawful_redis R \<alpha>" "session_Get R u s = (r, s1)"
  shows "\<alpha> s1 = \<alpha> s \<and> (r = Inr (stored_session (\<alpha> s) u) \<or> (\<exists>e. r = Inl e))"
  by (rule call_cases [OF assms(1), of "CGet (sessionKey u)" s])
    (use assms(2) in \<open>auto simp: session_Get_def stored_session_def split: option.splits\<close>)

lemma session_Save_ok:
  assumes "lawful_redis R \<alpha>" "session_in_range ss" "session_Save R ss s = (None, s1)"
  shows "stored_session (\<alpha> s1) (s_user ss) = Some ss"
    "u \<noteq> s_user ss \<Longrightarrow> stored_session (\<alpha> s1) u = stored_session (\<alpha> s) u"
proof -
  from assms(3) obtain raw where raw: "marshal_session ss = Inr raw"
    "exec R (CSet (sessionKey (s_user ss)) raw sessionTTL) s = (None, s1)"
    by (auto simp: session_Save_def split: sum.splits)
  from exec_cases [OF assms(1) raw(2)]
  have s1: "\<alpha> s1 = put_val (sessionKey (s_user ss)) (Some (raw, deadline (db_now (\<alpha> s)) sessionTTL)) (\<alpha> s)"
    by simp
  show "stored_session (\<alpha> s1) (s_user ss) = Some ss"
    using session_roundtrip [OF assms(2) raw(1)] by (simp add: stored_session_def s1)
  show "u \<noteq> s_user ss \<Longrightarrow> stored_session (\<alpha> s1) u = stored_session (\<alpha> s) u"
    by (auto simp: stored_session_def s1 sessionKey_def)
qed

text \<open>
  The pending session: a trim range that is stored without an error is there afterwards,
  with the waiting flag cleared and every other field as it was; nobody else's session changes;
  and a range with a bound that is not a number is never stored, because the session then has no
  JSON form.
\<close>

theorem trim_update_is_stored:
  assumes "lawful_redis R \<alpha>" "SetTrim R u start stop s = (Inr (Some ss), s1)"
    and "stored_session (\<alpha> s) u = Some old" "session_in_range old" "s_user old = u"
  shows "ss = old\<lparr>s_awaiting := False, s_start := start, s_end := stop\<rparr>
    \<and> stored_session (\<alpha> s1) u = Some ss
    \<and> (u' \<noteq> u \<longrightarrow> stored_session (\<alpha> s1) u' = stored_session (\<alpha> s) u')
    \<and> finite_fl start \<and> finite_fl stop"
proof -
  obtain r s0 where g: "session_Get R u s = (r, s0)" by (cases "session_Get R u s")
  from session_Get_cases [OF assms(1) g] assms(2,3) g
  have r: "r = Inr (Some old)" and a0: "\<alpha> s0 = \<alpha> s"
    by (auto simp: SetTrim_def session_mutate_def split: sum.splits)
  let ?new = "old\<lparr>s_awaiting := False, s_start := start, s_end := stop\<rparr>"
  from assms(2) g r have save: "session_Save R ?new s0 = (None, s1)" and ss: "ss = ?new"
    by (auto simp: SetTrim_def session_mutate_def split: option.splits prod.splits)
  have range: "session_in_range ?new" using assms(4) by (simp add: session_in_range_def)
  note stored = session_Save_ok [OF assms(1) range save]
  have "finite_fl start \<and> finite_fl stop"
    using save by (auto simp: session_Save_def marshal_session_def split: if_splits)
  with stored a0 ss assms(5) show ?thesis by auto
qed

definition sample_session :: session where
  "sample_session = \<lparr>s_user = 7, s_url = ''u'', s_chat = 7, s_message = 3, s_lang = ''en'',
     s_title = [], s_author = [], s_duration = 60,
     s_options = [\<lparr>o_height = 360, o_size = 5, o_format = ''18''\<rparr>], s_awaiting = True,
     s_start = Fin 0, s_end = Fin 0\<rparr>"

lemma sample_session_in_range: "session_in_range sample_session"
  by (simp add: session_in_range_def sample_session_def option_in_range_def in_int64_def
      int64_min_def int64_max_def)

lemma trim_update_is_stored_witness:
  "stored_session (snd (SetTrim ref_redis 7 (Fin 5) (Fin 9)
     (snd (session_Save ref_redis sample_session empty_db)))) 7
   = Some (sample_session\<lparr>s_awaiting := False, s_start := Fin 5, s_end := Fin 9\<rparr>)"
proof -
  let ?s = "snd (session_Save ref_redis sample_session empty_db)"
  let ?new = "sample_session\<lparr>s_awaiting := False, s_start := Fin 5, s_end := Fin 9\<rparr>"
  have "session_Save ref_redis sample_session empty_db = (None, ?s)"
    by (simp add: session_Save_def marshal_session_def sample_session_def exec_def err_of_def)
  from session_Save_ok(1) [OF lawful_ref_redis sample_session_in_range this]
  have st: "stored_session ?s 7 = Some sample_session" by (simp add: sample_session_def)
  obtain r s0 where g: "session_Get ref_redis 7 ?s = (r, s0)" by (cases "session_Get ref_redis 7 ?s")
  have r: "r = Inr (Some sample_session)"
    using g st by (auto simp: session_Get_def stored_session_def split: option.splits)
  have save: "fst (session_Save ref_redis ?new s0) = None"
    by (simp add: session_Save_def marshal_session_def sample_session_def exec_def err_of_def)
  have "SetTrim ref_redis 7 (Fin 5) (Fin 9) ?s
      = (Inr (Some ?new), snd (SetTrim ref_redis 7 (Fin 5) (Fin 9) ?s))"
    using g r save
    by (cases "session_Save ref_redis ?new s0") (simp add: SetTrim_def session_mutate_def)
  from trim_update_is_stored [OF lawful_ref_redis this st sample_session_in_range, of undefined]
  show ?thesis by (simp add: sample_session_def)
qed

text \<open>
  The range parser accepts the special values of the float parser: \<open>nan-5\<close> is a range for a
  video of ten minutes, and \<open>0-inf\<close> one for a video of unknown length. Such a session cannot be
  written back, so the user is told that the session expired.
\<close>

theorem trim_special_values:
  "ParseRange ''nan-5'' 600 = Inr (NaN, Fin 5) \<and> ParseRange ''0-inf'' 0 = Inr (Fin 0, PosInf)
   \<and> session_Save R (ss\<lparr>s_start := NaN\<rparr>) s = (Some ''json: unsupported value'', s)
   \<and> session_Save R (ss\<lparr>s_start := Fin 0, s_end := PosInf\<rparr>) s
     = (Some ''json: unsupported value'', s)"
proof (intro conjI)
  have sp: "trim_space ''nan'' = ''nan''" "trim_space ''inf'' = ''inf''" "trim_space ''5'' = ''5''"
    "trim_space ''0'' = ''0''"
    by (simp_all add: trim_space_def trim_left_def is_space_def)
  have fl: "parse_float ''nan'' = Some NaN" "parse_float ''inf'' = Some PosInf"
    by (simp_all add: parse_float_def split_sign_def to_lower_def lower_char_def is_upper_def
        between_def code_of_def)
  have num: "parse_float ''5'' = Some (Fin 5)" "parse_float ''0'' = Some (Fin 0)"
    using parse_float_digits [of "''5''"] parse_float_digits [of "''0''"]
    by (simp_all add: is_digit_def between_def nat_of_digits_def digit_val_def code_of_def
        max_float_bound_def)
  show "ParseRange ''nan-5'' 600 = Inr (NaN, Fin 5)"
    by (simp add: ParseRange_def parseTimecode_def sp fl num em_dash_def en_dash_def minus_sign_def
        check_range_def fl_le_def)
  show "ParseRange ''0-inf'' 0 = Inr (Fin 0, PosInf)"
    by (simp add: ParseRange_def parseTimecode_def sp fl num em_dash_def en_dash_def minus_sign_def
        check_range_def fl_le_def)
qed (simp_all add: session_Save_def marshal_session_def)

end
