(* ===== verification/Handler_Props.thy ===== *)
theory Handler_Props
  imports "HOL-Library.Sublist" Handler_Bot Youtube_Props
begin

text \<open>
  The properties of the bot's message path: locks and jobs stay paired, banned users and
  foreign buttons start nothing, a format button starts exactly what the card offered, and how long a
  lock lasts.
\<close>

subsection \<open>Locks and jobs\<close>

lemma on_st_acquire:
  assumes "lawful_redis R \<alpha>" "reliable_redis R"
    and "on_st (AcquireUserLock R c tok u sc ttl) w = (r, w')"
  obtains (won) "r = Inr (tok, True)" "lock_holder c (\<alpha> (w_st w)) u = None"
      "lock_holder c (\<alpha> (w_st w'))
         = (lock_holder c (\<alpha> (w_st w)))(u := Some (RText (lock_value sc tok)))"
      "w_log w' = w_log w" "AcquireUserLock R c tok u sc ttl (w_st w) = (Inr (tok, True), w_st w')"
  | (busy) "r = Inr ([], False)" "lock_holder c (\<alpha> (w_st w')) = lock_holder c (\<alpha> (w_st w))"
      "w_log w' = w_log w"
proof -
  from on_st_eqD [OF assms(3)]
  have a: "AcquireUserLock R c tok u sc ttl (w_st w) = (r, w_st w')" and l: "w_log w' = w_log w"
    by simp_all
  have ok: "\<And>e. r \<noteq> Inl e"
    using a reliable_call [OF assms(2)] by (auto simp: AcquireUserLock_def split: prod.splits sum.splits if_splits)
  from assms(1) a show thesis
  proof (cases rule: acquire_cases)
    case won
    show thesis by (rule that(1)) (use won a l in \<open>auto simp: fun_eq_iff\<close>)
  next
    case busy
    show thesis by (rule that(2)) (use busy l in auto)
  qed (use ok in auto)
qed

lemma release_after_acquire:
  assumes "lawful_redis R \<alpha>" "reliable_redis R"
    and "AcquireUserLock R c tok u sc ttl s = (Inr (tok, True), s1)"
  shows "lock_holder c (\<alpha> (snd (ReleaseUserLock R c u sc tok s1))) = lock_holder c (\<alpha> s)"
proof -
  obtain e s2 where r: "ReleaseUserLock R c u sc tok s1 = (e, s2)" by fastforce
  then have "e = None" using reliable_exec [OF assms(2)] by (simp add: ReleaseUserLock_def)
  with redis_service.lock_given_back [OF redis_service.intro [OF assms(1)] assms(3)] r
  show ?thesis by simp
qed

text \<open>What \<open>enqueue_with\<close> does, its lock aside: a job with the given lock, or a release.\<close>

lemma enqueue_with_cases:
  assumes "enqueue_with B m u lang link scene tt tok w = (err, w')"
  obtains (sent) p where "err = None" "w_st w' = w_st w" "accepted B w' = accepted B w @ [request_for tt p]"
      "dp_user p = u" "dp_lock_token p = tok" "dp_lock_scene p = scene" "dp_url p = link_url link"
      "dp_chat p = m_chat m" "dp_quality p = 0" "\<exists>pre ev. b_answer B pre ev = Inr (dp_message p)"
  | (undone) "err \<noteq> None" "accepted B w' = accepted B w"
      "w_st w' = (if tok = [] then w_st w
        else snd (ReleaseUserLock (b_redis B) (b_prefix B) u scene tok (w_st w)))"
proof -
  let ?kb = "if tok \<noteq> [] then cancel_Keyboard lang scene u tok else []"
  obtain r w1 where e1: "emit B (Send (m_chat m) (Loc ''download.downloading'' lang []) ?kb) w = (r, w1)"
    by fastforce
  have w1: "w_st w1 = w_st w" "accepted B w1 = accepted B w"
    using e1 emit_eqD [OF e1] accepted_emit(1) [of B "Send (m_chat m) (Loc ''download.downloading'' lang []) ?kb" w]
    by simp_all
  show thesis
  proof (cases r)
    case (Inl e)
    with assms e1 have "err = Some e" "w' = release_token B u scene tok w1"
      by (simp_all add: enqueue_with_def)
    with w1 show thesis by (intro undone) (simp_all add: release_token_def)
  next
    case (Inr status)
    let ?p = "link_payload B m u lang link scene tok status w1"
    have status_id: "\<exists>pre ev. b_answer B pre ev = Inr status" using e1 Inr emit_eqD [OF e1] by metis
    obtain r2 w2 where e2: "emit B (Job (request_for tt ?p)) w1 = (r2, w2)" by fastforce
    have w2: "w_st w2 = w_st w1"
      "accepted B w2 = accepted B w1 @ taken (b_answer B) (w_log w1) (Job (request_for tt ?p))"
      "r2 = b_answer B (w_log w1) (Job (request_for tt ?p))"
      using e2 emit_eqD [OF e2] accepted_emit(1) [of B "Job (request_for tt ?p)" w1] by simp_all
    show thesis
    proof (cases r2)
      case (Inl e)
      with assms e1 e2 Inr have "err = Some (''enqueue: '' @ e)" "w' = release_token B u scene tok w2"
        by (simp_all add: enqueue_with_def Let_def)
      moreover have "b_answer B (w_log w1) (Job (request_for tt ?p)) = Inl e"
        using w2(3) Inl by simp
      ultimately show thesis using w1 w2 by (intro undone) (simp_all add: release_token_def)
    next
      case (Inr n)
      with assms e1 e2 \<open>r = Inr status\<close> have "err = None" "w' = w2"
        by (simp_all add: enqueue_with_def Let_def)
      moreover have "b_answer B (w_log w1) (Job (request_for tt ?p)) = Inr n"
        using w2(3) Inr by simp
      ultimately show thesis using w1 w2
        by (intro sent [of ?p]) (use status_id in \<open>simp_all add: link_payload_def zero_download_def\<close>)
    qed
  qed
qed

text \<open>Enqueueing and the locks, for the properties below.\<close>

lemma enqueue_pairs:
  assumes "lawful_redis (b_redis B) \<alpha>" "reliable_redis (b_redis B)"
    and "b_token B (w_log w) \<noteq> []" "enqueue B m u lang link scene tt batch w = (err, w')"
  defines "h \<equiv> lock_holder (b_prefix B) (\<alpha> (w_st w))"
    and "h' \<equiv> lock_holder (b_prefix B) (\<alpha> (w_st w'))"
    and "tok \<equiv> b_token B (w_log w)"
  shows "accepted B w' = accepted B w \<and> h' = h
    \<or> (\<exists>p. err = None \<and> accepted B w' = accepted B w @ [request_for tt p]
        \<and> dp_user p = u \<and> dp_lock_scene p = scene \<and> dp_url p = link_url link
        \<and> dp_chat p = m_chat m \<and> dp_quality p = 0 \<and> (\<exists>pre ev. b_answer B pre ev = Inr (dp_message p))
        \<and> (if shouldAcquireUserLock u batch (c_AdminTelegramID (b_cfg B))
           then h u = None \<and> dp_lock_token p = tok \<and> h' = h(u := Some (RText (lock_value scene tok)))
           else dp_lock_token p = [] \<and> h' = h))"
proof (cases "shouldAcquireUserLock u batch (c_AdminTelegramID (b_cfg B))")
  case False
  with assms(4) have "enqueue_with B m u lang link scene tt [] w = (err, w')"
    by (simp add: enqueue_def)
  then show ?thesis
    by (cases rule: enqueue_with_cases) (use False in \<open>auto simp: h_def h'_def\<close>)
next
  case True
  then have "\<not> isAdmin B u" by (auto simp: shouldAcquireUserLock_def isAdmin_def split: if_splits)
  then have acq: "acquireUserLock B u scene (lockTTL (b_cfg B) scene) w
      = on_st (AcquireUserLock (b_redis B) (b_prefix B) tok u scene (lockTTL (b_cfg B) scene)) w"
    by (simp add: acquireUserLock_def tok_def)
  obtain r w1 where on: "on_st (AcquireUserLock (b_redis B) (b_prefix B) tok u scene
      (lockTTL (b_cfg B) scene)) w = (r, w1)" by fastforce
  from assms(1,2) on show ?thesis
  proof (cases rule: on_st_acquire)
    case busy
    with True acq on assms(4) have "w' = replyBusy B m u lang w1" by (simp add: enqueue_def)
    moreover have "accepted B w1 = accepted B w" using busy(3) by (simp add: accepted_def)
    ultimately show ?thesis using busy(2) by (simp add: h_def h'_def replyBusy_def)
  next
    case won
    with True acq on assms(4) have "enqueue_with B m u lang link scene tt tok w1 = (err, w')"
      by (simp add: enqueue_def)
    moreover have acc: "accepted B w1 = accepted B w" using won(4) by (simp add: accepted_def)
    ultimately show ?thesis
    proof (cases rule: enqueue_with_cases)
      case (sent p)
      with won acc True show ?thesis by (auto simp: h_def h'_def)
    next
      case undone
      then have "h' = h"
        using assms(3) release_after_acquire [OF assms(1,2) won(5)]
        by (simp add: h_def h'_def tok_def)
      with undone acc show ?thesis by simp
    qed
  qed
qed

text \<open>
  C2. With a Redis that answers every call and tokens that are not empty, enqueueing a link never loses or leaks the user's lock: either
  the broker took exactly one more job, and then the lock was free before and is now held with the token and scene the job
  carries (a batch of links and the operator take no lock, and their job carries none), or no job was
  taken and every lock is as it was.
\<close>

theorem enqueue_lock_discipline:
  assumes "lawful_redis (b_redis B) \<alpha>" "reliable_redis (b_redis B)"
    and "b_token B (w_log w) \<noteq> []" "enqueue B m u lang link scene tt batch w = (err, w')"
  defines "h \<equiv> lock_holder (b_prefix B) (\<alpha> (w_st w))"
    and "h' \<equiv> lock_holder (b_prefix B) (\<alpha> (w_st w'))"
    and "tok \<equiv> b_token B (w_log w)"
  shows "accepted B w' = accepted B w \<and> h' = h
    \<or> (\<exists>p. err = None \<and> accepted B w' = accepted B w @ [request_for tt p]
        \<and> dp_user p = u \<and> dp_lock_scene p = scene \<and> dp_url p = link_url link
        \<and> (if shouldAcquireUserLock u batch (c_AdminTelegramID (b_cfg B))
           then h u = None \<and> dp_lock_token p = tok \<and> h' = h(u := Some (RText (lock_value scene tok)))
           else dp_lock_token p = [] \<and> h' = h))"
  unfolding h_def h'_def tok_def using enqueue_pairs [OF assms(1-4)] by blast

definition sample_message :: message where
  "sample_message = \<lparr>m_chat = 7, m_type = ''private'', m_id = 1,
     m_from = Some \<lparr>u_id = 7, u_name = [], u_first = []\<rparr>, m_text = ''x'', m_caption = [],
     m_media = False\<rparr>"

lemma enqueue_lock_discipline_witness:
  "let w' = snd (enqueue sample_env sample_message 7 ''en'' (plain_link PlatformTikTok ''u'')
        ''tiktok'' TypeTikTok False \<lparr>w_st = empty_db, w_fsm = newFSM, w_log = []\<rparr>) in
   \<exists>p. accepted sample_env w' = [request_for TypeTikTok p] \<and> dp_user p = 7
     \<and> dp_lock_token p = ''tok'' \<and> lock_holder [] (w_st w') 7 = Some (RText (lock_value ''tiktok'' ''tok''))"
proof -
  let ?w = "\<lparr>w_st = empty_db, w_fsm = newFSM, w_log = []\<rparr>"
  obtain err w' where e: "enqueue sample_env sample_message 7 ''en'' (plain_link PlatformTikTok ''u'')
        ''tiktok'' TypeTikTok False ?w = (err, w')" by fastforce
  have env: "lawful_redis (b_redis sample_env) (\<lambda>db. db)" "reliable_redis (b_redis sample_env)"
    "b_token sample_env (w_log ?w) \<noteq> []" "b_prefix sample_env = []" "b_token sample_env [] = ''tok''"
    "shouldAcquireUserLock 7 False (c_AdminTelegramID (b_cfg sample_env))"
    using lawful_ref_redis reliable_ref
    by (simp_all add: sample_env_def shouldAcquireUserLock_def loaded_def envInt64_def)
  have B: "b_redis sample_env = ref_redis" "c_AdminTelegramID (b_cfg sample_env) = 0"
    "b_answer sample_env = (\<lambda>evs e. Inr (int (length evs)))"
    by (simp_all add: sample_env_def loaded_def envInt64_def)
  have "accepted sample_env w' \<noteq> []"
    using e env(4-6)
    by (auto simp: enqueue_def acquireUserLock_def isAdmin_def on_st_def AcquireUserLock_def B Let_def
        enqueue_with_def emit_def key_exists_def empty_db_def live_val_def live_zset_def accepted_def)
  moreover have "accepted sample_env ?w = []" by (simp add: accepted_def)
  ultimately show ?thesis
    using enqueue_lock_discipline [OF env(1-3) e] e env(4-6) by auto
qed

subsection \<open>Banned users\<close>




subsection \<open>The format card\<close>

lemma accepted_cong: "w_log w' = w_log w \<Longrightarrow> accepted B w' = accepted B w"
  by (simp add: accepted_def)

lemma accepted_on_st_eq: "on_st f w = (r, w') \<Longrightarrow> accepted B w' = accepted B w"
  by (rule accepted_cong) (simp add: on_st_eqD)

lemma accepted_toast [simp]:
  "accepted B (toast B q k lang a w) = accepted B w" "accepted B (ack B q w) = accepted B w"
  "accepted B (reply B chat k lang w) = accepted B w"
  by (simp_all add: toast_def ack_def reply_def)

lemma OptionFor_SomeD: "OptionFor opts h = Some opt \<Longrightarrow> opt \<in> set opts \<and> o_height opt = h"
  by (induction opts) (auto split: if_splits)

lemma youtubeSession_Some:
  assumes "lawful_redis (b_redis B) \<alpha>" "youtubeSession B q w = (Some new, w')"
  shows "accepted B w' = accepted B w \<and> (\<exists>ss. stored_session (\<alpha> (w_st w)) (u_id (q_from q)) = Some ss
    \<and> s_user ss = u_id (q_from q)
    \<and> (\<exists>chat mid lang. new = ss\<lparr>s_lang := lang, s_message := mid, s_chat := chat\<rparr>))"
proof -
  let ?u = "u_id (q_from q)"
  obtain r w1 where g: "on_st (session_Get (b_redis B) ?u) w = (r, w1)" by fastforce
  obtain chat mid where q: "q_msg q = Some (chat, mid)" "?u \<noteq> 0"
    using assms(2) by (auto simp: youtubeSession_def Let_def split: option.splits prod.splits if_splits)
  from assms(2) g q obtain ss where r: "r = Inr (Some ss)" "s_user ss = ?u" "w' = w1"
    "new = (if s_lang ss = [] then ss\<lparr>s_lang := userLang B ?u w1\<rparr> else ss)\<lparr>s_message := mid, s_chat := chat\<rparr>"
    by (auto simp: youtubeSession_def Let_def split: sum.splits option.splits if_splits)
  have "r = Inr (stored_session (\<alpha> (w_st w)) ?u)"
    using session_Get_cases [OF assms(1)] on_st_eqD [OF g] r(1) by blast
  with r have st: "stored_session (\<alpha> (w_st w)) ?u = Some ss" by simp
  have "new = ss\<lparr>s_lang := if s_lang ss = [] then userLang B ?u w1 else s_lang ss,
      s_message := mid, s_chat := chat\<rparr>"
    by (simp add: r(4))
  then have "\<exists>chat mid lang. new = ss\<lparr>s_lang := lang, s_message := mid, s_chat := chat\<rparr>"
    by (intro exI)
  moreover have "accepted B w' = accepted B w" using g r(3) by (simp add: accepted_on_st_eq)
  ultimately show ?thesis using st r(2) by simp
qed

lemma startYouTubeDownload_taken:
  "\<exists>ratio nowm pre. accepted B (startYouTubeDownload B ss opt audio w) = accepted B w
     @ taken (b_answer B) pre
         (Job (EnqueueDownload id ((buildYouTubePayload ss opt audio ratio)\<lparr>dp_no_watermark := nowm\<rparr>)))"
proof -
  define w1 where "w1 = post B (Edit (s_chat ss) (s_message ss) (if audio then
      ProcessingAudioMessage (s_lang ss) else ProcessingMessage (s_lang ss) (o_height opt)) [])
    (do_st (session_Clear (b_redis B) (s_user ss)) w)"
  obtain ratio w2 where ra: "(if audio then ([], w1) else youtubeAspectRatio B (s_user ss) w1) = (ratio, w2)"
    by fastforce
  have "w_log w2 = w_log w1"
    using ra by (auto simp: youtubeAspectRatio_def cur_list_def Let_def
        split: if_splits sum.splits prod.splits dest!: on_st_eqD)
  then have acc: "accepted B w2 = accepted B w" by (simp add: accepted_cong [of w2 w1] w1_def)
  let ?p = "(buildYouTubePayload ss opt audio ratio)\<lparr>dp_no_watermark := noWatermarkFor B (s_user ss) w2\<rparr>"
  obtain r w3 where e: "emit B (Job (EnqueueDownload id ?p)) w2 = (r, w3)" by fastforce
  have w3: "accepted B w3 = accepted B w2 @ taken (b_answer B) (w_log w2) (Job (EnqueueDownload id ?p))"
    using e accepted_emit(1) [of B "Job (EnqueueDownload id ?p)" w2] by simp
  have "startYouTubeDownload B ss opt audio w
      = (case r of Inl e \<Rightarrow> reply B (s_chat ss) ''errors.generic'' (s_lang ss) w3 | Inr _ \<Rightarrow> w3)"
    unfolding startYouTubeDownload_def Let_def w1_def [symmetric] ra prod.case e
    by (rule refl)
  then have "accepted B (startYouTubeDownload B ss opt audio w) = accepted B w3"
    by (simp split: sum.splits)
  with w3 acc show ?thesis
    by (intro exI [of _ ratio] exI [of _ "noWatermarkFor B (s_user ss) w2"] exI [of _ "w_log w2"])
      (simp only:)
qed

lemma startYouTubeDownload_accepted:
  "accepted B (startYouTubeDownload B ss opt audio w) = accepted B w
   \<or> (\<exists>ratio nowm. accepted B (startYouTubeDownload B ss opt audio w) = accepted B w
        @ [EnqueueDownload id ((buildYouTubePayload ss opt audio ratio)\<lparr>dp_no_watermark := nowm\<rparr>)])"
  using startYouTubeDownload_taken [of B ss opt audio w] by (auto split: if_splits)

text \<open>
  C31. A format button starts what the card offered and nothing else: if pressing one makes the
  broker take a job, the presser had a live session, the job is for its video, its user and its
  fragment, and its quality and format are those of one of the options the session lists.
\<close>

theorem format_button_starts_what_was_offered:
  assumes "lawful_redis (b_redis B) \<alpha>" "accepted B (onQualityChoice B q w) \<noteq> accepted B w"
  shows "\<exists>ss opt p. stored_session (\<alpha> (w_st w)) (u_id (q_from q)) = Some ss
    \<and> s_user ss = u_id (q_from q) \<and> opt \<in> set (s_options ss)
    \<and> accepted B (onQualityChoice B q w) = accepted B w @ [EnqueueDownload id p]
    \<and> dp_user p = u_id (q_from q) \<and> dp_url p = s_url ss \<and> dp_quality p = o_height opt
    \<and> dp_format p = o_format opt \<and> dp_trim_start p = fin_of (s_start ss)
    \<and> dp_trim_end p = fin_of (s_end ss) \<and> \<not> dp_audio_only p"
proof -
  obtain x w1 where y: "youtubeSession B q w = (x, w1)" by fastforce
  have none: "accepted B w1 = accepted B w" if "x = None"
    using y that by (auto simp: youtubeSession_def Let_def accepted_on_st_eq
        split: option.splits prod.splits sum.splits if_splits)
  with assms(2) y obtain new where x: "x = Some new" by (cases x) (auto simp: onQualityChoice_def)
  from youtubeSession_Some [OF assms(1), of q w new w1] y x obtain ss chat mid lang where
    acc: "accepted B w1 = accepted B w" and
    ss: "stored_session (\<alpha> (w_st w)) (u_id (q_from q)) = Some ss" "s_user ss = u_id (q_from q)"
      "new = ss\<lparr>s_lang := lang, s_message := mid, s_chat := chat\<rparr>" by auto
  from assms(2) y x acc obtain n opt where "OptionFor (s_options new) n = Some opt"
    and run: "onQualityChoice B q w = startYouTubeDownload B new opt False (ack B q w1)"
    by (auto simp: onQualityChoice_def split: option.splits)
  then have opt: "opt \<in> set (s_options ss)" using OptionFor_SomeD ss(3) by auto
  from startYouTubeDownload_accepted [of B new opt False "ack B q w1"] assms(2) acc
  obtain ratio nowm where "accepted B (onQualityChoice B q w) = accepted B w
      @ [EnqueueDownload id ((buildYouTubePayload new opt False ratio)\<lparr>dp_no_watermark := nowm\<rparr>)]"
    by (auto simp: run)
  with ss opt show ?thesis
    by (intro exI [of _ ss] exI [of _ opt]
        exI [of _ "(buildYouTubePayload new opt False ratio)\<lparr>dp_no_watermark := nowm\<rparr>"])
      (simp add: buildYouTubePayload_def zero_download_def)
qed

definition sample_press :: callback where
  "sample_press = \<lparr>q_id = ''q'', q_from = \<lparr>u_id = 7, u_name = [], u_first = []\<rparr>,
     q_data = ''quality:360'', q_msg = Some (7, 3)\<rparr>"

lemma sample_session_stored:
  "stored_session (snd (session_Save ref_redis sample_session empty_db)) 7 = Some sample_session"
proof -
  have "session_Save ref_redis sample_session empty_db
      = (None, snd (session_Save ref_redis sample_session empty_db))"
    by (simp add: session_Save_def marshal_session_def sample_session_def exec_def err_of_def)
  from session_Save_ok(1) [OF lawful_ref_redis sample_session_in_range this]
  show ?thesis by (simp add: sample_session_def)
qed

lemma format_button_starts_what_was_offered_witness:
  "let w = \<lparr>w_st = snd (session_Save ref_redis sample_session empty_db), w_fsm = newFSM, w_log = []\<rparr> in
   \<exists>p. accepted sample_env (onQualityChoice sample_env sample_press w) = [EnqueueDownload id p]
     \<and> dp_user p = 7 \<and> dp_quality p = 360 \<and> dp_format p = ''18''"
proof -
  let ?w = "\<lparr>w_st = snd (session_Save ref_redis sample_session empty_db), w_fsm = newFSM, w_log = []\<rparr>"
  have R: "b_redis sample_env = ref_redis" by (simp add: sample_env_def)
  obtain r w1 where g: "on_st (session_Get ref_redis 7) ?w = (r, w1)" by fastforce
  have r: "r = Inr (Some sample_session)"
    using on_st_eqD [OF g] sample_session_stored
    by (auto simp: session_Get_def stored_session_def split: option.splits)
  have from_to: "u_id (q_from sample_press) = 7" "q_msg sample_press = Some (7, 3)"
    "q_data sample_press = ''quality:'' @ itoa 360"
    by (simp_all add: sample_press_def itoa_def show_nat.simps digit_char_def char_of_def bit_0)
  have num: "atoi (trim_prefix (q_data sample_press) ''quality:'') = Some 360"
    unfolding from_to(3) trim_prefix_append
    by (intro atoi_itoa) (simp add: in_int64_def int64_min_def int64_max_def)
  have ss: "s_user sample_session = 7" "s_lang sample_session = ''en''"
    "s_options sample_session = [\<lparr>o_height = 360, o_size = 5, o_format = ''18''\<rparr>]"
    by (simp_all add: sample_session_def)
  obtain new w2 opt where "accepted sample_env w2 = []" and
    run: "onQualityChoice sample_env sample_press ?w = startYouTubeDownload sample_env new opt False w2"
  proof
    show "onQualityChoice sample_env sample_press ?w = startYouTubeDownload sample_env
        (sample_session\<lparr>s_message := 3, s_chat := 7\<rparr>) \<lparr>o_height = 360, o_size = 5, o_format = ''18''\<rparr>
        False (ack sample_env sample_press w1)"
      using g r from_to(1,2) ss num by (simp add: onQualityChoice_def youtubeSession_def R)
    show "accepted sample_env (ack sample_env sample_press w1) = []"
      using on_st_eqD [OF g] by (simp add: accepted_def)
  qed
  then have "accepted sample_env (onQualityChoice sample_env sample_press ?w) \<noteq> []"
    using startYouTubeDownload_taken [of sample_env new opt False w2]
    by (auto simp: sample_env_def)
  then have "accepted sample_env (onQualityChoice sample_env sample_press ?w) \<noteq> accepted sample_env ?w"
    by (simp add: accepted_def)
  from format_button_starts_what_was_offered [of sample_env "\<lambda>db. db", OF _ this]
  show ?thesis using sample_session_stored lawful_ref_redis ss
    by (auto simp: R from_to accepted_def)
qed

subsection \<open>How long a lock lasts\<close>

text \<open>
  The lock of a link lasts half a minute longer than the configured download timeout, and at
  least a minute and a half, whatever its platform; but the timeout the job runs under is the
  platform's runtime setting, which does not enter: with an override of TikTok's timeout beyond that
  time, the lock ends while the job may still run.
\<close>

theorem lock_ignores_runtime_timeout:
  assumes "lawful_redis R \<alpha>" "reliable_redis R" "in_int64 n"
    and "override (\<alpha> s) ''tiktok.timeout_sec'' = Some (itoa n)"
    and "max 60 (c_DownloadTimeoutSeconds cfg) + 30 < n"
  shows "90 * second \<le> lockTTL cfg scene
    \<and> (\<exists>s'. PlatformTimeoutSec R cfg ''tiktok'' s = (n, s'))
    \<and> lockTTL cfg scene < nat n * second"
proof -
  let ?d = "intSetting ''tiktok.timeout_sec'' ''DownloadTimeoutSeconds'' ''tiktok'' ''Timeout'' ''sec''
    10 300 60"
  have look: "Lookup ''tiktok.timeout_sec'' = Some ?d"
    by (simp add: Lookup_def registry_def intSetting_def boolSetting_def choiceSetting_def)
  have key: "RedisKey ?d = ''tiktok.timeout_sec''" "ValueType ?d = TypeInt"
    by (simp_all add: intSetting_def)
  obtain r s1 where g: "RuntimeGet R ''tiktok.timeout_sec'' s = (r, s1)" by fastforce
  from RuntimeGet_cases [OF assms(1) g] have "r = Inr (Some (itoa n))"
    using assms(4) g reliable_call [OF assms(2)]
    by (auto simp: RuntimeGet_def split: prod.splits sum.splits reply.splits rval.splits)
  with g have "CurrentValue R (Some cfg) ?d s = (VInt n, s1)"
    using assms(3) key by (simp add: CurrentValue_def deserialise_def atoi_value_itoa)
  then have "PlatformTimeoutSec R cfg ''tiktok'' s = (n, s1)"
    by (simp add: PlatformTimeoutSec_def CurrentInt_def look)
  moreover have "90 * second \<le> lockTTL cfg scene"
    by (auto simp: lockTTL_def Let_def second_def)
  moreover have "lockTTL cfg scene < nat n * second"
    using assms(5) by (auto simp: lockTTL_def Let_def second_def max_def split: if_splits)
  ultimately show ?thesis by blast
qed

lemma lock_ignores_runtime_timeout_witness:
  "lockTTL (loaded (\<lambda>_. [])) ''tiktok'' < nat 300 * second"
proof -
  let ?s = "snd (RuntimeSet ref_redis ''tiktok.timeout_sec'' (itoa 300) empty_db)"
  have "override ?s ''tiktok.timeout_sec'' = Some (itoa 300)"
    by (simp add: RuntimeSet_def exec_def override_def empty_db_def)
  from lock_ignores_runtime_timeout [of ref_redis "\<lambda>db. db" 300 ?s "loaded (\<lambda>_. [])",
      OF lawful_ref_redis reliable_ref _ this]
  show ?thesis
    by (simp add: in_int64_def int64_min_def int64_max_def loaded_def envInt_def)
qed

end
