(* ===== verification/Db_Store.thy ===== *)
theory Db_Store
  imports Gofloat "HOL-Library.AList"
begin

text \<open>
  The tables of the database and the statements of \<open>go/internal/db\<close> (\<open>store.go\<close>, \<open>enum.go\<close>, \<open>spam.go\<close>,
  \<open>broadcast.go\<close>, \<open>test_urls.go\<close>), with the keys, foreign keys and enum types of the schema. A table
  is a list of rows in the order of insertion. Every statement is atomic; the \<open>n\<close>-th one fails with
  the error \<open>F n\<close>, if there is one, and then changes nothing, so any pattern of failures is covered.
  Columns that no statement reads back (\<open>created_at\<close> of users, chats and purchases) are left out.
\<close>

subsection \<open>Rows and tables\<close>

record user_row =
  ur_username :: "string option"
  ur_first :: "string option"
  ur_language :: string
  ur_bot :: "string option"

record settings_row =
  sr_quality :: string
  sr_ratio :: string
  sr_no_watermark :: bool

record purchase =
  pu_user :: int
  pu_product :: string
  pu_stars :: int
  pu_currency :: string
  pu_charge :: string

record download_row =
  dl_user :: int
  dl_chat :: int
  dl_url :: string
  dl_platform :: string
  dl_status :: string
  dl_bot :: string
  dl_size :: int
  dl_error :: "string option"
  dl_created :: nat

record broadcast =
  bc_id :: int
  bc_admin :: int
  bc_text :: string
  bc_audience :: string
  bc_status :: string
  bc_total :: int
  bc_sent :: int
  bc_failed :: int
  bc_blocked :: int
  bc_created :: nat
  bc_started :: "nat option"
  bc_finished :: "nat option"

record delivery =
  dv_broadcast :: int
  dv_user :: int
  dv_status :: string
  dv_error :: "string option"
  dv_sent :: "nat option"

record test_row =
  tr_id :: int
  tr_url :: string
  tr_platform :: string
  tr_status :: string
  tr_error :: "string option"
  tr_media :: "string option"
  tr_size :: "int option"
  tr_duration :: "int option"
  tr_checked :: "nat option"
  tr_updated :: nat

record database =
  d_bots :: "string list"
  d_users :: "(int \<times> user_row) list"
  d_bot_lang :: "((int \<times> string) \<times> string) list"
  d_settings :: "(int \<times> settings_row) list"
  d_chats :: "(int \<times> string) list"
  d_downloads :: "download_row list"
  d_purchases :: "purchase list"
  d_banned_links :: "string list"
  d_broadcasts :: "broadcast list"
  d_next_broadcast :: int
  d_deliveries :: "delivery list"
  d_tests :: "test_row list"
  d_next_test :: int
  d_now :: nat
  d_stmts :: nat

text \<open>One statement: its number is used up, and its answer is the error, when it fails, or its own.\<close>

type_synonym fault = "nat \<Rightarrow> go_error option"

definition stmt ::
  "fault \<Rightarrow> (database \<Rightarrow> 'r result \<times> database) \<Rightarrow> database \<Rightarrow> 'r result \<times> database" where
  "stmt F f db =
     (let n = d_stmts db; db = db\<lparr>d_stmts := Suc n\<rparr> in
      case F n of Some e \<Rightarrow> (Inl e, db) | None \<Rightarrow> f db)"

text \<open>A statement that answers with its error only.\<close>

definition exec_stmt ::
  "fault \<Rightarrow> (database \<Rightarrow> 'r result \<times> database) \<Rightarrow> database \<Rightarrow> go_error option \<times> database" where
  "exec_stmt F f db = (case stmt F f db of (Inl e, db) \<Rightarrow> (Some e, db) | (Inr _, db) \<Rightarrow> (None, db))"

text \<open>One statement after another, stopping at the first error.\<close>

definition and_then ::
  "(database \<Rightarrow> go_error option \<times> database) \<Rightarrow> (database \<Rightarrow> go_error option \<times> database)
     \<Rightarrow> database \<Rightarrow> go_error option \<times> database" where
  "and_then f g db = (case f db of (Some e, db) \<Rightarrow> (Some e, db) | (None, db) \<Rightarrow> g db)"

definition no_rows :: go_error where "no_rows = ''no rows in result set''"

definition fk_violation :: go_error where "fk_violation = ''violates foreign key constraint''"

definition bad_enum :: go_error where "bad_enum = ''invalid input value for enum''"

definition has_key :: "'k \<Rightarrow> ('k \<times> 'v) list \<Rightarrow> bool" where
  "has_key k xs \<longleftrightarrow> k \<in> fst ` set xs"

subsection \<open>Enumerations (enum.go)\<close>

definition toDBLanguage :: "string \<Rightarrow> string" where
  "toDBLanguage lang =
     (let l = to_lower (trim_space lang) in
      if l = ''ru'' then ''RU'' else if l = ''kk'' then ''KK'' else ''EN'')"

definition fromDBLanguage :: "string \<Rightarrow> string" where
  "fromDBLanguage lang =
     (let l = to_upper (trim_space lang) in
      if l = ''RU'' then ''ru'' else if l = ''KK'' then ''kk'' else ''en'')"

definition toDBPlatform :: "string \<Rightarrow> string" where
  "toDBPlatform platform = to_upper (trim_space platform)"

definition FromDBPlatform :: "string \<Rightarrow> string" where
  "FromDBPlatform platform = to_lower (trim_space platform)"

definition toDBDownloadStatus :: "string \<Rightarrow> string" where
  "toDBDownloadStatus status = to_upper (trim_space status)"

text \<open>The enum types of the schema (\<open>db/models.py\<close> and the migrations).\<close>

definition platform_enum :: "string list" where
  "platform_enum = [''YOUTUBE'', ''TIKTOK'', ''INSTAGRAM'', ''X'', ''SPOTIFY'', ''SOUNDCLOUD'',
     ''PINTEREST'', ''TWITCH'', ''REDDIT'', ''UNKNOWN'']"

definition delivery_status_enum :: "string list" where
  "delivery_status_enum = [''PENDING'', ''SENT'', ''FAILED'', ''BLOCKED'']"

definition download_status_enum :: "string list" where
  "download_status_enum = [''QUEUED'', ''FETCHING'', ''DOWNLOADING'', ''TRANSCODING'', ''SENDING'',
     ''COMPLETED'', ''FAILED'']"

definition broadcast_status_enum :: "string list" where
  "broadcast_status_enum = [''DRAFT'', ''QUEUED'', ''RUNNING'', ''COMPLETED'', ''FAILED'', ''CANCELLED'']"

definition nullable :: "string \<Rightarrow> string option" where
  "nullable s = (if s = [] then None else Some s)"

subsection \<open>Users and settings (store.go)\<close>

text \<open>\<open>INSERT INTO users ... ON CONFLICT (id) DO NOTHING\<close>: a foreign key is checked for a new row only.\<close>

definition insert_user :: "int \<Rightarrow> user_row \<Rightarrow> database \<Rightarrow> unit result \<times> database" where
  "insert_user u r db =
     (if has_key u (d_users db) then (Inr (), db)
      else case ur_bot r of
        Some b \<Rightarrow> if b \<in> set (d_bots db) then (Inr (), db\<lparr>d_users := d_users db @ [(u, r)]\<rparr>)
                  else (Inl fk_violation, db)
      | None \<Rightarrow> (Inr (), db\<lparr>d_users := d_users db @ [(u, r)]\<rparr>))"

definition plain_user :: "string \<Rightarrow> string option \<Rightarrow> user_row" where
  "plain_user lang botID = \<lparr>ur_username = None, ur_first = None, ur_language = lang, ur_bot = botID\<rparr>"

definition GetUserLanguage :: "fault \<Rightarrow> int \<Rightarrow> string \<Rightarrow> database \<Rightarrow> string result \<times> database" where
  "GetUserLanguage F u botID db =
     (case stmt F (\<lambda>db. (case map_of (d_bot_lang db) (u, botID) of
                          None \<Rightarrow> Inl no_rows | Some l \<Rightarrow> Inr l, db)) db of
        (Inr lang, db) \<Rightarrow> (Inr (fromDBLanguage lang), db)
      | (Inl _, db) \<Rightarrow>
          (case stmt F (\<lambda>db. (case map_of (d_users db) u of
                               None \<Rightarrow> Inl no_rows | Some r \<Rightarrow> Inr (ur_language r), db)) db of
             (Inr lang, db) \<Rightarrow> (Inr (fromDBLanguage lang), db)
           | (Inl e, db) \<Rightarrow> (Inl e, db)))"

definition UserExists :: "fault \<Rightarrow> int \<Rightarrow> database \<Rightarrow> bool result \<times> database" where
  "UserExists F u db = stmt F (\<lambda>db. (Inr (has_key u (d_users db)), db)) db"

definition setUserBotLanguage ::
  "fault \<Rightarrow> int \<Rightarrow> string \<Rightarrow> string \<Rightarrow> database \<Rightarrow> go_error option \<times> database" where
  "setUserBotLanguage F u botID lang db =
     exec_stmt F (\<lambda>db.
       if \<not> has_key (u, botID) (d_bot_lang db)
          \<and> \<not> (has_key u (d_users db) \<and> botID \<in> set (d_bots db))
       then (Inl fk_violation, db)
       else (Inr (), db\<lparr>d_bot_lang := AList.update (u, botID) (toDBLanguage lang) (d_bot_lang db)\<rparr>)) db"

definition CreateUser ::
  "fault \<Rightarrow> int \<Rightarrow> string \<Rightarrow> string \<Rightarrow> string \<Rightarrow> string \<Rightarrow> database
     \<Rightarrow> go_error option \<times> database" where
  "CreateUser F u username firstName lang botID =
     and_then
       (exec_stmt F (insert_user u \<lparr>ur_username = nullable username, ur_first = nullable firstName,
          ur_language = toDBLanguage lang, ur_bot = Some botID\<rparr>))
       (setUserBotLanguage F u botID lang)"

definition set_user_lang :: "string \<Rightarrow> user_row \<Rightarrow> user_row" where
  "set_user_lang lang r = r\<lparr>ur_language := lang\<rparr>"

definition SetUserLanguage ::
  "fault \<Rightarrow> int \<Rightarrow> string \<Rightarrow> string \<Rightarrow> database \<Rightarrow> go_error option \<times> database" where
  "SetUserLanguage F u lang botID =
     and_then
       (exec_stmt F (\<lambda>db.
          case map_of (d_users db) u of
            None \<Rightarrow> insert_user u (plain_user (toDBLanguage lang) (Some botID)) db
          | Some r \<Rightarrow> (Inr (), db\<lparr>d_users :=
              AList.update u (set_user_lang (toDBLanguage lang) r) (d_users db)\<rparr>)))
       (setUserBotLanguage F u botID lang)"

definition default_settings :: settings_row where
  "default_settings = \<lparr>sr_quality = ''ask'', sr_ratio = ''ask'', sr_no_watermark = False\<rparr>"

text \<open>
  \<open>INSERT INTO user_settings ... ON CONFLICT (user_id) DO UPDATE\<close>: \<open>change\<close> applied to the row, or to
  the column defaults when there is none.
\<close>

definition upsert_settings ::
  "int \<Rightarrow> (settings_row \<Rightarrow> settings_row) \<Rightarrow> database \<Rightarrow> unit result \<times> database" where
  "upsert_settings u change db =
     (case map_of (d_settings db) u of
        Some r \<Rightarrow> (Inr (), db\<lparr>d_settings := AList.update u (change r) (d_settings db)\<rparr>)
      | None \<Rightarrow>
          if has_key u (d_users db)
          then (Inr (), db\<lparr>d_settings := d_settings db @ [(u, change default_settings)]\<rparr>)
          else (Inl fk_violation, db))"

definition ensure_user :: "fault \<Rightarrow> int \<Rightarrow> database \<Rightarrow> go_error option \<times> database" where
  "ensure_user F u = exec_stmt F (insert_user u (plain_user ''EN'' None))"

text \<open>The value beside an error is the zero one.\<close>

definition zero_settings :: settings_row where
  "zero_settings = \<lparr>sr_quality = [], sr_ratio = [], sr_no_watermark = False\<rparr>"

definition GetOrCreateUserSettings ::
  "fault \<Rightarrow> int \<Rightarrow> database \<Rightarrow> settings_row \<times> go_error option \<times> database" where
  "GetOrCreateUserSettings F u db =
     (case stmt F (\<lambda>db. (case map_of (d_settings db) u of None \<Rightarrow> Inl no_rows | Some r \<Rightarrow> Inr r, db)) db of
        (Inr r, db) \<Rightarrow> (r, None, db)
      | (Inl _, db) \<Rightarrow>
          (case and_then (ensure_user F u)
                  (exec_stmt F (\<lambda>db. if has_key u (d_settings db) then (Inr (), db)
                                     else upsert_settings u (\<lambda>r. r) db)) db of
             (Some e, db) \<Rightarrow> (zero_settings, Some e, db)
           | (None, db) \<Rightarrow> (default_settings, None, db)))"

definition upsertSetting ::
  "fault \<Rightarrow> int \<Rightarrow> (settings_row \<Rightarrow> settings_row) \<Rightarrow> database \<Rightarrow> go_error option \<times> database" where
  "upsertSetting F u change =
     and_then (ensure_user F u) (exec_stmt F (upsert_settings u change))"

definition SetYouTubeQuality :: "fault \<Rightarrow> int \<Rightarrow> string \<Rightarrow> database \<Rightarrow> go_error option \<times> database" where
  "SetYouTubeQuality F u quality = upsertSetting F u (\<lambda>r. r\<lparr>sr_quality := quality\<rparr>)"

definition SetYouTubeRatio :: "fault \<Rightarrow> int \<Rightarrow> string \<Rightarrow> database \<Rightarrow> go_error option \<times> database" where
  "SetYouTubeRatio F u ratio = upsertSetting F u (\<lambda>r. r\<lparr>sr_ratio := ratio\<rparr>)"

definition SetNoWatermark :: "fault \<Rightarrow> int \<Rightarrow> bool \<Rightarrow> database \<Rightarrow> go_error option \<times> database" where
  "SetNoWatermark F u enabled =
     and_then (ensure_user F u) (exec_stmt F (upsert_settings u (\<lambda>r. r\<lparr>sr_no_watermark := enabled\<rparr>)))"

definition ResetUserSettings :: "fault \<Rightarrow> int \<Rightarrow> database \<Rightarrow> go_error option \<times> database" where
  "ResetUserSettings F u =
     and_then
       (exec_stmt F (\<lambda>db. (Inr (), db\<lparr>d_users :=
          List.map (\<lambda>(v, r). (v, if v = u then set_user_lang ''EN'' r else r)) (d_users db)\<rparr>)))
       (exec_stmt F (upsert_settings u (\<lambda>_. default_settings)))"

subsection \<open>Purchases, downloads and banned links (store.go, spam.go)\<close>

definition HasPurchase :: "fault \<Rightarrow> int \<Rightarrow> string \<Rightarrow> database \<Rightarrow> (bool \<times> go_error option) \<times> database" where
  "HasPurchase F u product db =
     (case stmt F (\<lambda>db. (Inr (\<exists>p \<in> set (d_purchases db). pu_user p = u \<and> pu_product p = product), db)) db of
        (Inr b, db) \<Rightarrow> ((b, None), db)
      | (Inl e, db) \<Rightarrow> ((False, Some e), db))"

definition RecordPurchase ::
  "fault \<Rightarrow> int \<Rightarrow> string \<Rightarrow> int \<Rightarrow> string \<Rightarrow> string \<Rightarrow> database
     \<Rightarrow> (bool \<times> go_error option) \<times> database" where
  "RecordPurchase F u product stars currency charge db =
     (case stmt F (\<lambda>db.
        if \<exists>p \<in> set (d_purchases db). pu_charge p = charge then (Inr False, db)
        else if \<not> has_key u (d_users db) then (Inl fk_violation, db)
        else (Inr True, db\<lparr>d_purchases := d_purchases db @
               [\<lparr>pu_user = u, pu_product = product, pu_stars = stars, pu_currency = currency,
                 pu_charge = charge\<rparr>]\<rparr>)) db of
        (Inr b, db) \<Rightarrow> ((b, None), db)
      | (Inl e, db) \<Rightarrow> ((False, Some e), db))"

definition insert_chat :: "int \<Rightarrow> string \<Rightarrow> database \<Rightarrow> unit result \<times> database" where
  "insert_chat c typ db =
     (Inr (), if has_key c (d_chats db) then db else db\<lparr>d_chats := d_chats db @ [(c, typ)]\<rparr>)"

definition insert_download :: "download_row \<Rightarrow> database \<Rightarrow> unit result \<times> database" where
  "insert_download r db =
     (if dl_platform r \<notin> set platform_enum \<or> dl_status r \<notin> set download_status_enum
      then (Inl bad_enum, db)
      else if \<not> has_key (dl_user r) (d_users db) \<or> \<not> has_key (dl_chat r) (d_chats db)
              \<or> dl_bot r \<notin> set (d_bots db)
      then (Inl fk_violation, db)
      else (Inr (), db\<lparr>d_downloads := d_downloads db @ [r]\<rparr>))"

definition RecordDownloadForBot ::
  "fault \<Rightarrow> int \<Rightarrow> int \<Rightarrow> string \<Rightarrow> string \<Rightarrow> string \<Rightarrow> rat \<Rightarrow> string \<Rightarrow> string \<Rightarrow> database
     \<Rightarrow> go_error option \<times> database" where
  "RecordDownloadForBot F u c url platform status sizeMB errMsg botID =
     and_then (exec_stmt F (insert_user u (plain_user ''EN'' (Some botID))))
     (and_then (exec_stmt F (insert_chat c (if c = u then ''private'' else ''group'')))
       (exec_stmt F (\<lambda>db. insert_download
          \<lparr>dl_user = u, dl_chat = c, dl_url = url, dl_platform = toDBPlatform platform,
           dl_status = toDBDownloadStatus status, dl_bot = botID, dl_size = trunc (sizeMB * 1024 * 1024),
           dl_error = nullable errMsg, dl_created = d_now db\<rparr> db)))"

definition RecordDownload ::
  "fault \<Rightarrow> int \<Rightarrow> int \<Rightarrow> string \<Rightarrow> string \<Rightarrow> string \<Rightarrow> rat \<Rightarrow> string \<Rightarrow> database
     \<Rightarrow> go_error option \<times> database" where
  "RecordDownload F u c url platform status sizeMB errMsg =
     RecordDownloadForBot F u c url platform status sizeMB errMsg ''saveinator''"

definition IsLinkBanned :: "fault \<Rightarrow> string \<Rightarrow> database \<Rightarrow> bool result \<times> database" where
  "IsLinkBanned F urlHash db =
     stmt F (\<lambda>db. (Inr (take 64 urlHash \<in> set (d_banned_links db)), db)) db"

subsection \<open>Broadcasts (broadcast.go)\<close>

definition CreateBroadcast :: "fault \<Rightarrow> int \<Rightarrow> string \<Rightarrow> database \<Rightarrow> int result \<times> database" where
  "CreateBroadcast F adminID body db =
     stmt F (\<lambda>db.
       let i = d_next_broadcast db in
       (Inr i, db\<lparr>d_broadcasts := d_broadcasts db @
          [\<lparr>bc_id = i, bc_admin = adminID, bc_text = body, bc_audience = ''ALL'', bc_status = ''DRAFT'',
            bc_total = 0, bc_sent = 0, bc_failed = 0, bc_blocked = 0, bc_created = d_now db,
            bc_started = None, bc_finished = None\<rparr>],
          d_next_broadcast := i + 1\<rparr>)) db"

definition find_broadcast :: "int \<Rightarrow> database \<Rightarrow> broadcast option" where
  "find_broadcast i db = find (\<lambda>b. bc_id b = i) (d_broadcasts db)"

definition GetBroadcast :: "fault \<Rightarrow> int \<Rightarrow> database \<Rightarrow> broadcast result \<times> database" where
  "GetBroadcast F i db =
     stmt F (\<lambda>db. (case find_broadcast i db of None \<Rightarrow> Inl no_rows | Some b \<Rightarrow> Inr b, db)) db"

text \<open>\<open>UPDATE broadcasts SET ... WHERE id = i\<close>.\<close>

definition update_broadcast ::
  "int \<Rightarrow> (broadcast \<Rightarrow> broadcast) \<Rightarrow> database \<Rightarrow> unit result \<times> database" where
  "update_broadcast i change db =
     (Inr (), db\<lparr>d_broadcasts := List.map (\<lambda>b. if bc_id b = i then change b else b) (d_broadcasts db)\<rparr>)"

definition UpdateBroadcastText :: "fault \<Rightarrow> int \<Rightarrow> string \<Rightarrow> database \<Rightarrow> go_error option \<times> database" where
  "UpdateBroadcastText F i body = exec_stmt F (update_broadcast i (\<lambda>b. b\<lparr>bc_text := body\<rparr>))"

definition UpdateBroadcastStatus ::
  "fault \<Rightarrow> int \<Rightarrow> string \<Rightarrow> int \<Rightarrow> database \<Rightarrow> go_error option \<times> database" where
  "UpdateBroadcastStatus F i status recipients =
     exec_stmt F (\<lambda>db.
       if status \<notin> set broadcast_status_enum then (Inl bad_enum, db)
       else if status = ''QUEUED'' then
         update_broadcast i (\<lambda>b. b\<lparr>bc_status := status, bc_total := recipients\<rparr>) db
       else if status = ''RUNNING'' then
         update_broadcast i (\<lambda>b. b\<lparr>bc_status := status, bc_started := Some (d_now db),
           bc_total := recipients\<rparr>) db
       else if status = ''COMPLETED'' \<or> status = ''FAILED'' \<or> status = ''CANCELLED'' then
         update_broadcast i (\<lambda>b. b\<lparr>bc_status := status, bc_finished := Some (d_now db)\<rparr>) db
       else update_broadcast i (\<lambda>b. b\<lparr>bc_status := status\<rparr>) db)"

definition UpdateBroadcastProgress ::
  "fault \<Rightarrow> int \<Rightarrow> int \<Rightarrow> int \<Rightarrow> int \<Rightarrow> database \<Rightarrow> go_error option \<times> database" where
  "UpdateBroadcastProgress F i sent failed blocked =
     exec_stmt F (update_broadcast i
       (\<lambda>b. b\<lparr>bc_sent := sent, bc_failed := failed, bc_blocked := blocked\<rparr>))"

definition CompleteBroadcast ::
  "fault \<Rightarrow> int \<Rightarrow> int \<Rightarrow> int \<Rightarrow> int \<Rightarrow> database \<Rightarrow> go_error option \<times> database" where
  "CompleteBroadcast F i sent failed blocked =
     exec_stmt F (\<lambda>db. update_broadcast i
       (\<lambda>b. b\<lparr>bc_status := ''COMPLETED'', bc_sent := sent, bc_failed := failed, bc_blocked := blocked,
              bc_finished := Some (d_now db)\<rparr>) db)"

definition FailBroadcast :: "fault \<Rightarrow> int \<Rightarrow> database \<Rightarrow> go_error option \<times> database" where
  "FailBroadcast F i = UpdateBroadcastStatus F i ''FAILED'' 0"

text \<open>Newest first; of rows of the same instant, the later one.\<close>

definition newest_first :: "broadcast list \<Rightarrow> broadcast list" where
  "newest_first bs = rev (sort_key bc_created bs)"

definition ListBroadcasts :: "fault \<Rightarrow> nat \<Rightarrow> database \<Rightarrow> broadcast list result \<times> database" where
  "ListBroadcasts F limit db = stmt F (\<lambda>db. (Inr (take limit (newest_first (d_broadcasts db))), db)) db"

definition is_active :: "broadcast \<Rightarrow> bool" where
  "is_active b \<longleftrightarrow> bc_status b = ''QUEUED'' \<or> bc_status b = ''RUNNING''"

definition GetActiveBroadcast :: "fault \<Rightarrow> database \<Rightarrow> broadcast option result \<times> database" where
  "GetActiveBroadcast F db =
     stmt F (\<lambda>db. (Inr (find is_active (newest_first (d_broadcasts db))), db)) db"

definition users_with :: "string \<Rightarrow> database \<Rightarrow> int list" where
  "users_with lang db = List.map fst (filter (\<lambda>(u, r). ur_language r = lang) (d_users db))"

text \<open>The rows of the last thirty days; the clock counts microseconds.\<close>

definition month :: nat where "month = 30 * 24 * 3600 * 1000000"

definition active_users :: "database \<Rightarrow> int list" where
  "active_users db =
     remdups (List.map dl_user (filter (\<lambda>r. d_now db \<le> dl_created r + month) (d_downloads db)))"

definition recipients_of :: "string \<Rightarrow> database \<Rightarrow> int list" where
  "recipients_of audience db =
     (if audience = ''ru'' then users_with ''RU'' db
      else if audience = ''en'' then users_with ''EN'' db
      else if audience = ''active'' then active_users db
      else List.map fst (d_users db))"

definition CountBroadcastRecipients :: "fault \<Rightarrow> string \<Rightarrow> database \<Rightarrow> int result \<times> database" where
  "CountBroadcastRecipients F audience db =
     stmt F (\<lambda>db. (Inr (int (length (recipients_of audience db))), db)) db"

definition BroadcastRecipientIDs :: "fault \<Rightarrow> string \<Rightarrow> database \<Rightarrow> int list result \<times> database" where
  "BroadcastRecipientIDs F audience db = stmt F (\<lambda>db. (Inr (recipients_of audience db), db)) db"

definition is_delivery :: "int \<Rightarrow> int \<Rightarrow> delivery \<Rightarrow> bool" where
  "is_delivery i u d \<longleftrightarrow> dv_broadcast d = i \<and> dv_user d = u"

text \<open>A failed existence check counts as no row.\<close>

definition SaveBroadcastDelivery ::
  "fault \<Rightarrow> int \<Rightarrow> int \<Rightarrow> string \<Rightarrow> string \<Rightarrow> database \<Rightarrow> go_error option \<times> database" where
  "SaveBroadcastDelivery F i u status errMsg db =
     (let (r, db) = stmt F (\<lambda>db. (Inr (\<exists>d \<in> set (d_deliveries db). is_delivery i u d), db)) db in
      if r = Inr True then
        exec_stmt F (\<lambda>db.
          if status \<notin> set delivery_status_enum then (Inl bad_enum, db)
          else (Inr (), db\<lparr>d_deliveries := List.map (\<lambda>d. if is_delivery i u d
           then d\<lparr>dv_status := status, dv_error := nullable errMsg,
                  dv_sent := (if status = ''SENT'' then Some (d_now db) else dv_sent d)\<rparr> else d)
           (d_deliveries db)\<rparr>)) db
      else
        exec_stmt F (\<lambda>db.
          if status \<notin> set delivery_status_enum then (Inl bad_enum, db)
          else if find_broadcast i db = None then (Inl fk_violation, db)
          else (Inr (), db\<lparr>d_deliveries := d_deliveries db @
            [\<lparr>dv_broadcast = i, dv_user = u, dv_status = status, dv_error = nullable errMsg,
              dv_sent = (if status = ''SENT'' then Some (d_now db) else None)\<rparr>]\<rparr>)) db)"

subsection \<open>The test checklist (test_urls.go)\<close>

definition TestStatusPending :: string where "TestStatusPending = ''PENDING''"
definition TestStatusRunning :: string where "TestStatusRunning = ''RUNNING''"
definition TestStatusPassed :: string where "TestStatusPassed = ''PASSED''"
definition TestStatusFailed :: string where "TestStatusFailed = ''FAILED''"

lemmas test_status_defs =
  TestStatusPending_def TestStatusRunning_def TestStatusPassed_def TestStatusFailed_def

definition ErrDuplicateTestURL :: go_error where "ErrDuplicateTestURL = ''test url already exists''"

definition ListTestURLs :: "fault \<Rightarrow> database \<Rightarrow> test_row list result \<times> database" where
  "ListTestURLs F db = stmt F (\<lambda>db. (Inr (sort_key tr_id (d_tests db)), db)) db"

text \<open>The sequence of the key is used up even when the row is a duplicate.\<close>

definition CreateTestURL :: "fault \<Rightarrow> string \<Rightarrow> string \<Rightarrow> database \<Rightarrow> test_row result \<times> database" where
  "CreateTestURL F url platform db =
     stmt F (\<lambda>db.
       let i = d_next_test db; db = db\<lparr>d_next_test := i + 1\<rparr>;
           row = \<lparr>tr_id = i, tr_url = url, tr_platform = platform, tr_status = TestStatusPending,
                  tr_error = None, tr_media = None, tr_size = None, tr_duration = None,
                  tr_checked = None, tr_updated = d_now db\<rparr> in
       if \<exists>r \<in> set (d_tests db). tr_url r = url then (Inl ErrDuplicateTestURL, db)
       else (Inr row, db\<lparr>d_tests := d_tests db @ [row]\<rparr>)) db"

definition DeleteTestURL :: "fault \<Rightarrow> int \<Rightarrow> database \<Rightarrow> go_error option \<times> database" where
  "DeleteTestURL F i =
     exec_stmt F (\<lambda>db. (Inr (), db\<lparr>d_tests := filter (\<lambda>r. tr_id r \<noteq> i) (d_tests db)\<rparr>))"

definition staleness :: nat where "staleness = 15 * 60 * 1000000"

definition claimable :: "nat \<Rightarrow> test_row \<Rightarrow> bool" where
  "claimable now r \<longleftrightarrow> tr_status r = TestStatusPending
     \<or> tr_status r = TestStatusRunning \<and> tr_updated r + staleness < now"

definition claim_row :: "nat \<Rightarrow> test_row \<Rightarrow> test_row" where
  "claim_row now r = r\<lparr>tr_status := TestStatusRunning, tr_updated := now\<rparr>"

definition update_test :: "int \<Rightarrow> (test_row \<Rightarrow> test_row) \<Rightarrow> test_row list \<Rightarrow> test_row list" where
  "update_test i change rs = List.map (\<lambda>r. if tr_id r = i then change r else r) rs"

definition ClaimNextTestURL :: "fault \<Rightarrow> database \<Rightarrow> test_row option result \<times> database" where
  "ClaimNextTestURL F db =
     stmt F (\<lambda>db.
       case sort_key tr_id (filter (claimable (d_now db)) (d_tests db)) of
         [] \<Rightarrow> (Inr None, db)
       | r # _ \<Rightarrow> (Inr (Some (claim_row (d_now db) r)),
                  db\<lparr>d_tests := update_test (tr_id r) (claim_row (d_now db)) (d_tests db)\<rparr>)) db"

definition finish_row ::
  "nat \<Rightarrow> string \<Rightarrow> string \<Rightarrow> string \<Rightarrow> int \<Rightarrow> int \<Rightarrow> test_row \<Rightarrow> test_row" where
  "finish_row now status errMsg mediaType fileSize durationMS r =
     r\<lparr>tr_status := status, tr_error := nullable errMsg, tr_media := nullable mediaType,
       tr_size := Some fileSize, tr_duration := Some durationMS, tr_checked := Some now,
       tr_updated := now\<rparr>"

definition FinishTestURL ::
  "fault \<Rightarrow> int \<Rightarrow> string \<Rightarrow> string \<Rightarrow> string \<Rightarrow> int \<Rightarrow> int \<Rightarrow> database
     \<Rightarrow> go_error option \<times> database" where
  "FinishTestURL F i status errMsg mediaType fileSize durationMS =
     exec_stmt F (\<lambda>db. (Inr (), db\<lparr>d_tests :=
       update_test i (finish_row (d_now db) status errMsg mediaType fileSize durationMS) (d_tests db)\<rparr>))"

definition finished :: "test_row \<Rightarrow> bool" where
  "finished r \<longleftrightarrow> tr_status r = TestStatusPassed \<or> tr_status r = TestStatusFailed"

definition requeue_row :: "nat \<Rightarrow> test_row \<Rightarrow> test_row" where
  "requeue_row now r =
     r\<lparr>tr_status := TestStatusPending, tr_error := None, tr_media := None, tr_size := None,
       tr_duration := None, tr_updated := now\<rparr>"

definition RequeueTestURLs :: "fault \<Rightarrow> int option \<Rightarrow> database \<Rightarrow> int result \<times> database" where
  "RequeueTestURLs F i db =
     stmt F (\<lambda>db.
       let sel = (\<lambda>r. finished r \<and> (case i of None \<Rightarrow> True | Some j \<Rightarrow> tr_id r = j)) in
       (Inr (int (length (filter sel (d_tests db)))),
        db\<lparr>d_tests := List.map (\<lambda>r. if sel r then requeue_row (d_now db) r else r) (d_tests db)\<rparr>)) db"

end
