(* ===== verification/Db_Props.thy ===== *)
theory Db_Props
  imports Db_Store
begin

text \<open>
  Properties of the database layer: the integrity of the tables under every sequence of operations
  and failures, what a language choice and a reset leave, the purchase ledger and the test checklist.
\<close>

subsection \<open>Integrity of the tables\<close>

named_theorems db_inv \<open>what one operation keeps\<close>

definition languages :: "string set" where "languages = {''EN'', ''RU'', ''KK''}"

definition keys :: "('k \<times> 'v) list \<Rightarrow> 'k set" where "keys xs = fst ` set xs"

lemma has_key_keys: "has_key k xs \<longleftrightarrow> k \<in> keys xs"
  by (simp add: has_key_def keys_def)

lemma keys_simps [simp]:
  "keys [] = {}" "keys (xs @ ys) = keys xs \<union> keys ys" "keys [(k, v)] = {k}"
  "keys (AList.update k v xs) = insert k (keys xs)"
  "keys (List.map (\<lambda>(a, b). (a, f a b)) xs) = keys xs"
  by (force simp: keys_def update_conv' dom_update)+

definition users_ok :: "database \<Rightarrow> bool" where
  "users_ok db \<longleftrightarrow> distinct (List.map fst (d_users db))
     \<and> (\<forall>(u, r) \<in> set (d_users db). ur_language r \<in> languages
          \<and> ur_bot r \<in> insert None (Some ` set (d_bots db)))"

definition prefs_ok :: "database \<Rightarrow> bool" where
  "prefs_ok db \<longleftrightarrow> distinct (List.map fst (d_bot_lang db)) \<and> distinct (List.map fst (d_settings db))
     \<and> (\<forall>((u, b), l) \<in> set (d_bot_lang db). u \<in> keys (d_users db) \<and> b \<in> set (d_bots db) \<and> l \<in> languages)
     \<and> keys (d_settings db) \<subseteq> keys (d_users db)"

definition ledger_ok :: "database \<Rightarrow> bool" where
  "ledger_ok db \<longleftrightarrow> distinct (List.map pu_charge (d_purchases db))
     \<and> pu_user ` set (d_purchases db) \<subseteq> keys (d_users db)"

definition downloads_ok :: "database \<Rightarrow> bool" where
  "downloads_ok db \<longleftrightarrow> distinct (List.map fst (d_chats db))
     \<and> (\<forall>r \<in> set (d_downloads db). dl_user r \<in> keys (d_users db) \<and> dl_chat r \<in> keys (d_chats db)
          \<and> dl_bot r \<in> set (d_bots db) \<and> dl_platform r \<in> set platform_enum \<and> dl_status r \<in> set download_status_enum)"

definition broadcasts_ok :: "database \<Rightarrow> bool" where
  "broadcasts_ok db \<longleftrightarrow> distinct (List.map bc_id (d_broadcasts db))
     \<and> (\<forall>b \<in> set (d_broadcasts db). bc_id b < d_next_broadcast db
          \<and> bc_status b \<in> set broadcast_status_enum)
     \<and> dv_broadcast ` set (d_deliveries db) \<subseteq> bc_id ` set (d_broadcasts db)
     \<and> dv_status ` set (d_deliveries db) \<subseteq> set delivery_status_enum"

definition tests_ok :: "database \<Rightarrow> bool" where
  "tests_ok db \<longleftrightarrow> distinct (List.map tr_id (d_tests db)) \<and> distinct (List.map tr_url (d_tests db))
     \<and> (\<forall>r \<in> set (d_tests db). tr_id r < d_next_test db)"

definition db_ok :: "database \<Rightarrow> bool" where
  "db_ok db \<longleftrightarrow> users_ok db \<and> prefs_ok db \<and> ledger_ok db \<and> downloads_ok db \<and> broadcasts_ok db
     \<and> tests_ok db"

lemmas table_defs =
  db_ok_def users_ok_def prefs_ok_def ledger_ok_def downloads_ok_def broadcasts_ok_def tests_ok_def

lemma db_ok_stmts [simp]: "db_ok (db\<lparr>d_stmts := n\<rparr>) = db_ok db"
  by (simp add: table_defs)

text \<open>Statements and sequences of them.\<close>

lemma stmt_inv:
  assumes "\<And>db. db_ok db \<Longrightarrow> db_ok (snd (f db))" "db_ok db"
  shows "db_ok (snd (stmt F f db))"
  using assms by (auto simp: stmt_def Let_def split: option.splits)

lemma exec_inv:
  assumes "\<And>db. db_ok db \<Longrightarrow> db_ok (snd (f db))" "db_ok db"
  shows "db_ok (snd (exec_stmt F f db))"
  using stmt_inv [of f db F, OF assms] by (auto simp: exec_stmt_def split: prod.splits sum.splits)

lemma then_inv:
  assumes "\<And>db. db_ok db \<Longrightarrow> db_ok (snd (f db))" "\<And>db. db_ok db \<Longrightarrow> db_ok (snd (g db))" "db_ok db"
  shows "db_ok (snd (and_then f g db))"
  using assms(1) [OF assms(3)] assms(2)
  by (auto simp: and_then_def split: prod.splits option.splits)

lemma toDBLanguage_languages [simp]: "toDBLanguage l \<in> languages"
  by (simp add: toDBLanguage_def languages_def Let_def)

lemma EN_languages [simp]: "''EN'' \<in> languages"
  by (simp add: languages_def)

lemma insert_user_inv:
  "ur_language r \<in> languages \<Longrightarrow> db_ok db \<Longrightarrow> db_ok (snd (insert_user u r db))"
  by (auto simp: insert_user_def table_defs has_key_keys keys_def image_iff split: option.splits)

lemma set_update_subset: "set (AList.update k v xs) \<subseteq> insert (k, v) (set xs)"
  by (induction xs) auto

lemma setUserBotLanguage_inv: "db_ok db \<Longrightarrow> db_ok (snd (setUserBotLanguage F u b lang db))"
  unfolding setUserBotLanguage_def
  by (rule exec_inv)
    (auto simp: table_defs has_key_keys distinct_update keys_def dest!: subsetD [OF set_update_subset]; force)

lemma map_of_keys: "map_of xs k = Some v \<Longrightarrow> k \<in> keys xs" "map_of xs k = None \<Longrightarrow> k \<notin> keys xs"
  by (force simp: keys_def map_of_eq_None_iff dest: map_of_SomeD)+

lemma keysI: "(k, v) \<in> set xs \<Longrightarrow> k \<in> keys xs"
  by (force simp: keys_def)

lemma distinct_fst_snoc [simp]:
  "distinct (List.map fst (xs @ [(k, v)])) \<longleftrightarrow> distinct (List.map fst xs) \<and> k \<notin> keys xs"
  by (auto simp: keys_def)

lemma upsert_settings_inv: "db_ok db \<Longrightarrow> db_ok (snd (upsert_settings u f db))"
  by (auto simp: upsert_settings_def table_defs has_key_keys distinct_update
      simp del: map_append dest: map_of_keys keysI split: option.splits)

lemma map_users_inv:
  "db_ok db \<Longrightarrow> db_ok (db\<lparr>d_users :=
     List.map (\<lambda>(v, r). (v, if v = u then set_user_lang ''EN'' r else r)) (d_users db)\<rparr>)"
  by (auto simp: table_defs set_user_lang_def comp_def split_beta keys_def image_image)

lemma update_user_inv:
  assumes "db_ok db" "map_of (d_users db) u = Some r"
  shows "db_ok (db\<lparr>d_users := AList.update u (set_user_lang (toDBLanguage l) r) (d_users db)\<rparr>)"
proof -
  have r: "(u, r) \<in> set (d_users db)" using assms(2) by (rule map_of_SomeD)
  then have u: "insert u (keys (d_users db)) = keys (d_users db)" by (force simp: keys_def)
  have "users_ok (db\<lparr>d_users := AList.update u (set_user_lang (toDBLanguage l) r) (d_users db)\<rparr>)"
    using assms(1) r unfolding users_ok_def db_ok_def
    by (auto simp: distinct_update set_user_lang_def dest!: subsetD [OF set_update_subset])
  with assms(1) show ?thesis by (simp add: table_defs u)
qed

lemma update_broadcast_inv:
  assumes "\<And>b. bc_id (f b) = bc_id b" "\<And>b. bc_status (f b) \<in> insert (bc_status b) (set broadcast_status_enum)"
    and "db_ok db"
  shows "db_ok (snd (update_broadcast i f db))"
proof -
  define g where "g = (\<lambda>b. if bc_id b = i then f b else b)"
  have g: "bc_id (g b) = bc_id b" "bc_status (g b) \<in> insert (bc_status b) (set broadcast_status_enum)" for b
    using assms(1,2) by (simp_all add: g_def)
  have "\<forall>b \<in> set (d_broadcasts db). bc_status (g b) \<in> set broadcast_status_enum"
    using g(2) assms(3) unfolding db_ok_def broadcasts_ok_def by (metis insertE)
  with assms(3) have "db_ok (db\<lparr>d_broadcasts := List.map g (d_broadcasts db)\<rparr>)"
    by (simp add: table_defs g(1) comp_def image_image)
  then show ?thesis by (simp add: update_broadcast_def g_def)
qed

lemma delivery_status_inv:
  assumes "db_ok db" "st \<in> set delivery_status_enum"
    and "\<forall>d. dv_broadcast (f d) = dv_broadcast d \<and> dv_status (f d) \<in> {dv_status d, st}"
  shows "db_ok (db\<lparr>d_deliveries := List.map f (d_deliveries db)\<rparr>)"
proof -
  have "dv_status ` set (d_deliveries db) \<subseteq> set delivery_status_enum"
    using assms(1) by (simp add: db_ok_def broadcasts_ok_def)
  moreover have "dv_status (f d) \<in> insert st (dv_status ` set (d_deliveries db))" if "d \<in> set (d_deliveries db)" for d
    using assms(3) that by (metis imageI insertCI insertE singletonD)
  ultimately have "(\<lambda>d. dv_status (f d)) ` set (d_deliveries db) \<subseteq> set delivery_status_enum"
    using assms(2) by blast
  with assms(1,3) show ?thesis by (simp add: table_defs image_image)
qed

lemma find_broadcast_SomeD: "find_broadcast i db = Some b \<Longrightarrow> b \<in> set (d_broadcasts db) \<and> bc_id b = i"
  by (auto simp: find_broadcast_def find_Some_iff)

lemma delivery_new_inv:
  assumes "db_ok db" "find_broadcast (dv_broadcast d) db \<noteq> None" "dv_status d \<in> set delivery_status_enum"
  shows "db_ok (db\<lparr>d_deliveries := d_deliveries db @ [d]\<rparr>)"
proof -
  from assms(2) have "dv_broadcast d \<in> bc_id ` set (d_broadcasts db)"
    by (force dest!: find_broadcast_SomeD)
  with assms(1,3) show ?thesis by (simp add: table_defs)
qed

lemma map_tests_inv:
  assumes "db_ok db" "\<And>r. tr_id (f r) = tr_id r" "\<And>r. tr_url (f r) = tr_url r"
  shows "db_ok (db\<lparr>d_tests := List.map f (d_tests db)\<rparr>)"
  using assms by (simp add: table_defs comp_def)

lemma test_row_simps [simp]:
  "tr_id (claim_row n r) = tr_id r" "tr_url (claim_row n r) = tr_url r"
  "tr_id (finish_row n st e m z d r) = tr_id r" "tr_url (finish_row n st e m z d r) = tr_url r"
  "tr_id (requeue_row n r) = tr_id r" "tr_url (requeue_row n r) = tr_url r"
  by (simp_all add: claim_row_def finish_row_def requeue_row_def)

text \<open>The operations that write.\<close>

datatype db_op =
    DCreateUser int string string string string
  | DSetUserLanguage int string string
  | DGetOrCreateUserSettings int
  | DSetYouTubeQuality int string
  | DSetYouTubeRatio int string
  | DSetNoWatermark int bool
  | DResetUserSettings int
  | DRecordPurchase int string int string string
  | DRecordDownload int int string string string rat string string
  | DCreateBroadcast int string
  | DUpdateBroadcastText int string
  | DUpdateBroadcastStatus int string int
  | DUpdateBroadcastProgress int int int int
  | DCompleteBroadcast int int int int
  | DSaveBroadcastDelivery int int string string
  | DCreateTestURL string string
  | DDeleteTestURL int
  | DClaimNextTestURL
  | DFinishTestURL int string string string int int
  | DRequeueTestURLs "int option"
  | DWait nat

fun db_exec :: "fault \<Rightarrow> db_op \<Rightarrow> database \<Rightarrow> database" where
  "db_exec F (DCreateUser u n f l b) db = snd (CreateUser F u n f l b db)"
| "db_exec F (DSetUserLanguage u l b) db = snd (SetUserLanguage F u l b db)"
| "db_exec F (DGetOrCreateUserSettings u) db = snd (snd (GetOrCreateUserSettings F u db))"
| "db_exec F (DSetYouTubeQuality u q) db = snd (SetYouTubeQuality F u q db)"
| "db_exec F (DSetYouTubeRatio u r) db = snd (SetYouTubeRatio F u r db)"
| "db_exec F (DSetNoWatermark u e) db = snd (SetNoWatermark F u e db)"
| "db_exec F (DResetUserSettings u) db = snd (ResetUserSettings F u db)"
| "db_exec F (DRecordPurchase u p s c i) db = snd (RecordPurchase F u p s c i db)"
| "db_exec F (DRecordDownload u c url p s z e b) db = snd (RecordDownloadForBot F u c url p s z e b db)"
| "db_exec F (DCreateBroadcast a t) db = snd (CreateBroadcast F a t db)"
| "db_exec F (DUpdateBroadcastText i t) db = snd (UpdateBroadcastText F i t db)"
| "db_exec F (DUpdateBroadcastStatus i s n) db = snd (UpdateBroadcastStatus F i s n db)"
| "db_exec F (DUpdateBroadcastProgress i s f b) db = snd (UpdateBroadcastProgress F i s f b db)"
| "db_exec F (DCompleteBroadcast i s f b) db = snd (CompleteBroadcast F i s f b db)"
| "db_exec F (DSaveBroadcastDelivery i u s e) db = snd (SaveBroadcastDelivery F i u s e db)"
| "db_exec F (DCreateTestURL u p) db = snd (CreateTestURL F u p db)"
| "db_exec F (DDeleteTestURL i) db = snd (DeleteTestURL F i db)"
| "db_exec F DClaimNextTestURL db = snd (ClaimNextTestURL F db)"
| "db_exec F (DFinishTestURL i s e m z d) db = snd (FinishTestURL F i s e m z d db)"
| "db_exec F (DRequeueTestURLs i) db = snd (RequeueTestURLs F i db)"
| "db_exec F (DWait n) db = db\<lparr>d_now := d_now db + n\<rparr>"

lemma user_ops_inv:
  assumes "db_ok db"
  shows "db_ok (snd (CreateUser F u n f l b db))" "db_ok (snd (SetUserLanguage F u l b db))"
    "db_ok (snd (ensure_user F u db))" "db_ok (snd (upsertSetting F u g db))"
    "db_ok (snd (SetNoWatermark F u e db))" "db_ok (snd (ResetUserSettings F u db))"
  unfolding CreateUser_def SetUserLanguage_def ensure_user_def upsertSetting_def SetNoWatermark_def
    ResetUserSettings_def
  by ((intro then_inv exec_inv setUserBotLanguage_inv assms insert_user_inv upsert_settings_inv;
      auto simp: plain_user_def intro: insert_user_inv map_users_inv update_user_inv split: option.splits)+)

lemma settings_read_inv: "db_ok db \<Longrightarrow> db_ok (snd (snd (GetOrCreateUserSettings F u db)))"
proof -
  let ?read = "\<lambda>db. (case map_of (d_settings db) u of None \<Rightarrow> Inl no_rows | Some r \<Rightarrow> Inr r, db)"
  let ?mk = "and_then (ensure_user F u)
    (exec_stmt F (\<lambda>db. if has_key u (d_settings db) then (Inr (), db) else upsert_settings u (\<lambda>r. r) db))"
  assume ok: "db_ok db"
  obtain r db1 where q: "stmt F ?read db = (r, db1)" by fastforce
  obtain e db2 where m: "?mk db1 = (e, db2)" by fastforce
  have "db_ok (snd (stmt F ?read db))" by (rule stmt_inv [OF _ ok]) simp
  then have ok1: "db_ok db1" using q by simp
  have "db_ok (snd (?mk db1))"
    by (intro then_inv exec_inv user_ops_inv ok1) (simp_all add: upsert_settings_inv)
  then have "db_ok db2" using m by simp
  with q m ok1 show ?thesis
    by (simp add: GetOrCreateUserSettings_def split: sum.splits option.splits)
qed

lemma purchase_inv: "db_ok db \<Longrightarrow> db_ok (snd (RecordPurchase F u p st c i db))"
proof -
  let ?f = "\<lambda>db. if \<exists>q \<in> set (d_purchases db). pu_charge q = i then (Inr False, db)
        else if \<not> has_key u (d_users db) then (Inl fk_violation, db)
        else (Inr True, db\<lparr>d_purchases := d_purchases db @
               [\<lparr>pu_user = u, pu_product = p, pu_stars = st, pu_currency = c, pu_charge = i\<rparr>]\<rparr>)"
  assume "db_ok db"
  then have "db_ok (snd (stmt F ?f db))"
    by (rule stmt_inv [rotated]) (auto simp: table_defs has_key_keys image_iff)
  then show ?thesis by (auto simp: RecordPurchase_def split: prod.splits sum.splits)
qed

lemma insert_download_inv: "db_ok db \<Longrightarrow> db_ok (snd (insert_download r db))"
  by (auto simp: insert_download_def table_defs has_key_keys)

lemma insert_chat_inv: "db_ok db \<Longrightarrow> db_ok (snd (insert_chat c t db))"
  by (auto simp: insert_chat_def table_defs has_key_keys simp del: map_append)

lemma record_download_inv: "db_ok db \<Longrightarrow> db_ok (snd (RecordDownloadForBot F u c url p st z e b db))"
  unfolding RecordDownloadForBot_def
  by (intro then_inv exec_inv insert_chat_inv insert_download_inv insert_user_inv)
    (simp_all add: plain_user_def)

lemma broadcast_ops_inv:
  assumes "db_ok db"
  shows "db_ok (snd (UpdateBroadcastText F i t db))" "db_ok (snd (UpdateBroadcastStatus F i st n db))"
    "db_ok (snd (UpdateBroadcastProgress F i a b c db))" "db_ok (snd (CompleteBroadcast F i a b c db))"
proof -
  note inv = update_broadcast_inv
  show "db_ok (snd (UpdateBroadcastText F i t db))"
    unfolding UpdateBroadcastText_def by (rule exec_inv [OF inv assms]) simp_all
  show "db_ok (snd (UpdateBroadcastProgress F i a b c db))"
    unfolding UpdateBroadcastProgress_def by (rule exec_inv [OF inv assms]) simp_all
  show "db_ok (snd (CompleteBroadcast F i a b c db))"
    unfolding CompleteBroadcast_def
    by (rule exec_inv [OF inv assms]) (simp_all add: broadcast_status_enum_def)
  have "db_ok (snd (update_broadcast i (\<lambda>b. b\<lparr>bc_status := st, bc_total := n\<rparr>) db))"
    "db_ok (snd (update_broadcast i (\<lambda>b. b\<lparr>bc_status := st, bc_started := t, bc_total := n\<rparr>) db))"
    "db_ok (snd (update_broadcast i (\<lambda>b. b\<lparr>bc_status := st, bc_finished := t\<rparr>) db))"
    "db_ok (snd (update_broadcast i (\<lambda>b. b\<lparr>bc_status := st\<rparr>) db))"
    if "db_ok db" "st \<in> set broadcast_status_enum" for db t st
    by (rule inv; simp add: that)+
  then show "db_ok (snd (UpdateBroadcastStatus F i st n db))"
    unfolding UpdateBroadcastStatus_def by (intro exec_inv [OF _ assms]) simp
qed

lemma create_broadcast_inv: "db_ok db \<Longrightarrow> db_ok (snd (CreateBroadcast F a t db))"
  unfolding CreateBroadcast_def
  by (rule stmt_inv) (auto simp: table_defs Let_def broadcast_status_enum_def image_iff)

lemma delivery_inv: "db_ok db \<Longrightarrow> db_ok (snd (SaveBroadcastDelivery F i u st e db))"
proof -
  let ?q = "\<lambda>db. (Inr (\<exists>d \<in> set (d_deliveries db). is_delivery i u d), db)"
  assume "db_ok db"
  then have "db_ok (snd (stmt F ?q db))" by (rule stmt_inv [rotated]) simp
  then show ?thesis
    unfolding SaveBroadcastDelivery_def Let_def
    by (auto split: prod.splits intro!: exec_inv delivery_status_inv [where st = st] delivery_new_inv)
qed

lemma test_ops_inv:
  assumes "db_ok db"
  shows "db_ok (snd (CreateTestURL F u p db))" "db_ok (snd (DeleteTestURL F i db))"
    "db_ok (snd (ClaimNextTestURL F db))" "db_ok (snd (FinishTestURL F i st e m z d db))"
    "db_ok (snd (RequeueTestURLs F j db))"
proof -
  show "db_ok (snd (CreateTestURL F u p db))"
    unfolding CreateTestURL_def
    by (rule stmt_inv [OF _ assms]) (auto simp: table_defs Let_def image_iff less_Suc_eq)
  show "db_ok (snd (DeleteTestURL F i db))"
    unfolding DeleteTestURL_def
    by (rule exec_inv [OF _ assms]) (auto simp: table_defs distinct_map_filter)
  show "db_ok (snd (ClaimNextTestURL F db))"
    unfolding ClaimNextTestURL_def update_test_def
    by (rule stmt_inv [OF _ assms]) (auto intro!: map_tests_inv split: list.splits)
  show "db_ok (snd (FinishTestURL F i st e m z d db))"
    unfolding FinishTestURL_def update_test_def
    by (rule exec_inv [OF _ assms]) (auto intro!: map_tests_inv)
  show "db_ok (snd (RequeueTestURLs F j db))"
    unfolding RequeueTestURLs_def
    by (rule stmt_inv [OF _ assms]) (auto simp: Let_def intro!: map_tests_inv)
qed

lemma db_ok_wait [simp]: "db_ok (db\<lparr>d_now := n\<rparr>) = db_ok db"
  by (simp add: table_defs)

lemma db_exec_inv: "db_ok db \<Longrightarrow> db_ok (db_exec F q db)"
  by (cases q)
    (simp_all add: user_ops_inv settings_read_inv purchase_inv record_download_inv broadcast_ops_inv
      create_broadcast_inv delivery_inv test_ops_inv SetYouTubeQuality_def SetYouTubeRatio_def)

subsection \<open>The tables of a new database\<close>

definition empty_tables :: database where
  "empty_tables = \<lparr>d_bots = [''saveinator''], d_users = [], d_bot_lang = [], d_settings = [],
     d_chats = [], d_downloads = [], d_purchases = [], d_banned_links = [], d_broadcasts = [],
     d_next_broadcast = 1, d_deliveries = [], d_tests = [], d_next_test = 1, d_now = 0, d_stmts = 0\<rparr>"

lemma empty_tables_ok: "db_ok empty_tables"
  by (simp add: table_defs empty_tables_def)

subsection \<open>The ledger\<close>

text \<open>A part \<open>g\<close> of the tables that no statement of an operation writes is kept by the operation.\<close>

definition keeps :: "(database \<Rightarrow> 'v) \<Rightarrow> (database \<Rightarrow> 'r \<times> database) \<Rightarrow> bool" where
  "keeps g f \<longleftrightarrow> (\<forall>db. g (snd (f db)) = g db)"

definition off_count :: "(database \<Rightarrow> 'v) \<Rightarrow> bool" where
  "off_count g \<longleftrightarrow> (\<forall>db n. g (db\<lparr>d_stmts := n\<rparr>) = g db)"

lemma keeps_stmt [db_inv]: "off_count g \<Longrightarrow> keeps g f \<Longrightarrow> keeps g (stmt F f)"
  by (simp add: keeps_def off_count_def stmt_def Let_def split: option.splits)

lemma keeps_exec [db_inv]: "off_count g \<Longrightarrow> keeps g f \<Longrightarrow> keeps g (exec_stmt F f)"
  using keeps_stmt [of g f F]
  by (simp add: keeps_def exec_stmt_def split_beta split: sum.splits)

lemma keeps_then [db_inv]: "keeps g f \<Longrightarrow> keeps g h \<Longrightarrow> keeps g (and_then f h)"
  by (simp add: keeps_def and_then_def split_beta split: option.splits)

lemma off_count_purchases [simp]: "off_count d_purchases"
  by (simp add: off_count_def)

lemma keeps_purchases [db_inv]:
  "keeps d_purchases (insert_user u r)" "keeps d_purchases (upsert_settings u c)"
  "keeps d_purchases (insert_chat ch t)" "keeps d_purchases (insert_download dl)"
  "keeps d_purchases (update_broadcast i ub)"
  by (auto simp: keeps_def insert_user_def upsert_settings_def insert_chat_def insert_download_def
      update_broadcast_def split: option.splits)

lemma keeps_purchases_ops [db_inv]:
  "keeps d_purchases (setUserBotLanguage F u b l)" "keeps d_purchases (ensure_user F u)"
  "keeps d_purchases (CreateUser F u n f l b)" "keeps d_purchases (SetUserLanguage F u l b)"
  "keeps d_purchases (upsertSetting F u c)" "keeps d_purchases (SetNoWatermark F u e)"
  "keeps d_purchases (ResetUserSettings F u)" "keeps d_purchases (RecordDownloadForBot F u ch url p s z er b)"
proof -
  show lang: "keeps d_purchases (setUserBotLanguage F u b l)" for b l
    unfolding setUserBotLanguage_def by (intro db_inv) (simp_all add: keeps_def)
  show ens: "keeps d_purchases (ensure_user F u)"
    unfolding ensure_user_def by (intro db_inv) simp_all
  show "keeps d_purchases (CreateUser F u n f l b)"
    unfolding CreateUser_def by (intro db_inv lang) simp_all
  show "keeps d_purchases (SetUserLanguage F u l b)"
    unfolding SetUserLanguage_def
    by (intro db_inv lang) (auto simp: keeps_def insert_user_def split: option.splits)
  show "keeps d_purchases (upsertSetting F u c)" "keeps d_purchases (SetNoWatermark F u e)"
    unfolding upsertSetting_def SetNoWatermark_def by (intro db_inv ens; simp)+
  show "keeps d_purchases (ResetUserSettings F u)"
    unfolding ResetUserSettings_def by (intro db_inv) (simp_all add: keeps_def)
  show "keeps d_purchases (RecordDownloadForBot F u ch url p s z er b)"
    unfolding RecordDownloadForBot_def
    by (intro db_inv) (simp_all add: keeps_def insert_download_def)
qed

lemma keepsD: "keeps g f \<Longrightarrow> g (snd (f db)) = g db"
  by (simp add: keeps_def)

lemma keeps_purchases_rows [db_inv]:
  "keeps d_purchases (SaveBroadcastDelivery F i u st e)" "keeps d_purchases (CreateBroadcast F a t)"
  "keeps d_purchases (UpdateBroadcastStatus F i st n)" "keeps d_purchases (CreateTestURL F url p)"
  "keeps d_purchases (ClaimNextTestURL F)" "keeps d_purchases (RequeueTestURLs F j)"
proof -
  show "keeps d_purchases (SaveBroadcastDelivery F i u st e)"
    by (auto simp: keeps_def SaveBroadcastDelivery_def exec_stmt_def stmt_def Let_def split: option.splits)
  show "keeps d_purchases (CreateBroadcast F a t)"
    unfolding CreateBroadcast_def by (intro db_inv) (simp_all add: keeps_def Let_def)
  show "keeps d_purchases (UpdateBroadcastStatus F i st n)"
    unfolding UpdateBroadcastStatus_def
    by (intro db_inv) (simp_all add: keeps_def update_broadcast_def)
  show "keeps d_purchases (CreateTestURL F url p)"
    unfolding CreateTestURL_def by (intro db_inv) (simp_all add: keeps_def Let_def)
  show "keeps d_purchases (ClaimNextTestURL F)"
    unfolding ClaimNextTestURL_def by (intro db_inv) (simp_all add: keeps_def split: list.splits)
  show "keeps d_purchases (RequeueTestURLs F j)"
    unfolding RequeueTestURLs_def by (intro db_inv) (simp_all add: keeps_def Let_def)
qed

lemma GetOrCreate_keeps_purchases: "d_purchases (snd (snd (GetOrCreateUserSettings F u db))) = d_purchases db"
proof -
  let ?read = "\<lambda>db. (case map_of (d_settings db) u of None \<Rightarrow> Inl no_rows | Some r \<Rightarrow> Inr r, db)"
  let ?mk = "and_then (ensure_user F u)
    (exec_stmt F (\<lambda>db. if has_key u (d_settings db) then (Inr (), db) else upsert_settings u (\<lambda>r. r) db))"
  obtain r db1 where q: "stmt F ?read db = (r, db1)" by fastforce
  obtain e db2 where m: "?mk db1 = (e, db2)" by fastforce
  have "keeps d_purchases (stmt F ?read)" by (intro db_inv) (simp_all add: keeps_def)
  moreover have "keeps d_purchases ?mk"
    by (intro db_inv) (use keeps_purchases in \<open>auto simp: keeps_def\<close>)
  ultimately have "d_purchases db1 = d_purchases db" "d_purchases db2 = d_purchases db"
    using q m keepsD [of d_purchases "stmt F ?read" db] keepsD [of d_purchases ?mk db1] by simp_all
  with q m show ?thesis by (simp add: GetOrCreateUserSettings_def split: sum.splits option.splits)
qed

lemma RecordPurchase_cases:
  assumes "RecordPurchase F u p st c i db = ((b, e), db')"
  obtains (new) "b" "e = None" "i \<notin> pu_charge ` set (d_purchases db)"
      "d_purchases db' = d_purchases db @
         [\<lparr>pu_user = u, pu_product = p, pu_stars = st, pu_currency = c, pu_charge = i\<rparr>]"
  | (old) "\<not> b" "d_purchases db' = d_purchases db"
proof -
  let ?new = "b \<and> e = None \<and> i \<notin> pu_charge ` set (d_purchases db) \<and> d_purchases db' = d_purchases db @
         [\<lparr>pu_user = u, pu_product = p, pu_stars = st, pu_currency = c, pu_charge = i\<rparr>]"
  have "?new \<or> \<not> b \<and> d_purchases db' = d_purchases db"
    using assms by (auto simp: RecordPurchase_def stmt_def Let_def image_iff split: option.splits if_splits)
  with new old show thesis by blast
qed

lemma ledger_grows: "\<exists>xs. d_purchases (db_exec F q db) = d_purchases db @ xs"
proof (cases q)
  case (DRecordPurchase u p st c i)
  then show ?thesis
    by (cases "RecordPurchase F u p st c i db") (auto elim!: RecordPurchase_cases)
qed (simp_all add: db_inv [THEN keepsD] GetOrCreate_keeps_purchases SetYouTubeQuality_def
    SetYouTubeRatio_def UpdateBroadcastText_def UpdateBroadcastProgress_def CompleteBroadcast_def
    DeleteTestURL_def FinishTestURL_def exec_stmt_def stmt_def Let_def update_broadcast_def
    split: option.splits)

lemma ledger_run_grows: "\<exists>xs. d_purchases (fold (db_exec F) ops db) = d_purchases db @ xs"
proof (induction ops arbitrary: db)
  case (Cons q ops)
  then show ?case using ledger_grows [of F q db] by (metis append.assoc fold_simps(2))
qed simp

text \<open>
  A payment is booked once and for ever: after a purchase was recorded, the user has the product
  after any further operations and failures, and a redelivery of the same charge books nothing,
  whoever it names.
\<close>

theorem purchase_booked_once:
  fixes ops :: "db_op list"
  assumes "RecordPurchase F u p st c i db = ((True, None), db1)"
  defines "db2 \<equiv> fold (db_exec F) ops db1"
  shows "(HasPurchase F u p db2 = ((b, None), db3) \<longrightarrow> b)
    \<and> fst (fst (RecordPurchase F u' p' st' c' i db2)) = False
    \<and> d_purchases (snd (RecordPurchase F u' p' st' c' i db2)) = d_purchases db2"
proof -
  from assms(1) have "\<exists>q \<in> set (d_purchases db1). pu_user q = u \<and> pu_product q = p \<and> pu_charge q = i"
    by (cases rule: RecordPurchase_cases) auto
  then obtain q where q1: "q \<in> set (d_purchases db1)" and
    q2: "pu_user q = u" "pu_product q = p" "pu_charge q = i" by blast
  from ledger_run_grows [of F ops db1] q1 have "q \<in> set (d_purchases db2)" by (auto simp: db2_def)
  note q = this q2
  obtain b' e db' where r: "RecordPurchase F u' p' st' c' i db2 = ((b', e), db')"
    by (metis surj_pair)
  then have "\<not> b' \<and> d_purchases db' = d_purchases db2"
    by (cases rule: RecordPurchase_cases) (use q in auto)
  moreover have "HasPurchase F u p db2 = ((b, None), db3) \<longrightarrow> b"
    using q by (auto simp: HasPurchase_def stmt_def Let_def split: option.splits)
  ultimately show ?thesis using r by auto
qed

lemma purchase_booked_once_witness:
  "let db1 = snd (RecordPurchase (\<lambda>_. None) 7 ''p'' 10 ''XTR'' ''c1''
        (snd (SetNoWatermark (\<lambda>_. None) 7 True empty_tables)));
       db2 = fold (db_exec (\<lambda>_. None)) [DResetUserSettings 7, DWait 5] db1 in
   d_purchases (snd (RecordPurchase (\<lambda>_. None) 8 ''p'' 10 ''XTR'' ''c1'' db2)) = d_purchases db2"
proof -
  let ?db = "snd (SetNoWatermark (\<lambda>_. None) 7 True empty_tables)"
  have "RecordPurchase (\<lambda>_. None) 7 ''p'' 10 ''XTR'' ''c1'' ?db
      = ((True, None), snd (RecordPurchase (\<lambda>_. None) 7 ''p'' 10 ''XTR'' ''c1'' ?db))"
    by (simp add: empty_tables_def SetNoWatermark_def ensure_user_def and_then_def exec_stmt_def stmt_def
        insert_user_def plain_user_def has_key_def upsert_settings_def RecordPurchase_def)
  from purchase_booked_once [OF this, of "[DResetUserSettings 7, DWait 5]" False undefined 8 "''p''" 10 "''XTR''"]
  show ?thesis by (simp only: Let_def)
qed

subsection \<open>Languages\<close>

text \<open>
  A language chosen for a bot reads back as chosen, and a reset of the settings does not undo it:
  the reset writes the global language only, while the per-bot row is what is read first.
\<close>

theorem reset_keeps_chosen_language:
  assumes "SetUserLanguage F u lang botID db = (None, db1)" "lang \<in> {''en'', ''ru'', ''kk''}"
    and "F (d_stmts db1) = None"
  shows "fst (GetUserLanguage F u botID db1) = Inr lang
    \<and> (ResetUserSettings F u db1 = (None, db2) \<and> F (d_stmts db2) = None \<longrightarrow>
         fst (GetUserLanguage F u botID db2) = Inr lang)"
proof -
  from assms(1) have l: "map_of (d_bot_lang db1) (u, botID) = Some (toDBLanguage lang)"
    by (auto simp: SetUserLanguage_def and_then_def setUserBotLanguage_def exec_stmt_def stmt_def Let_def
        update_conv' split: prod.splits option.splits sum.splits if_splits)
  have norm: "fromDBLanguage (toDBLanguage lang) = lang"
    using assms(2)
    by (auto simp: fromDBLanguage_def toDBLanguage_def to_lower_def to_upper_def trim_space_def
        trim_left_def is_space_def lower_char_def upper_char_def char_class_defs code_of_def char_of_def)
  have "keeps d_bot_lang (ResetUserSettings F u)"
    unfolding ResetUserSettings_def
    by (intro db_inv) (auto simp: keeps_def off_count_def upsert_settings_def split: option.splits)
  then have "d_bot_lang db2 = d_bot_lang db1" if "ResetUserSettings F u db1 = (None, db2)"
    using that keepsD [of d_bot_lang "ResetUserSettings F u" db1] by simp
  then show ?thesis
    using l norm assms(3) by (auto simp: GetUserLanguage_def stmt_def Let_def)
qed

lemma reset_keeps_chosen_language_witness:
  "let F = (\<lambda>_. None); db1 = snd (SetUserLanguage F 7 ''ru'' ''saveinator'' empty_tables);
       db2 = snd (ResetUserSettings F 7 db1) in
   fst (GetUserLanguage F 7 ''saveinator'' db2) = Inr ''ru''"
proof -
  let ?F = "\<lambda>_. None"
  let ?db1 = "snd (SetUserLanguage ?F 7 ''ru'' ''saveinator'' empty_tables)"
  have s: "SetUserLanguage ?F 7 ''ru'' ''saveinator'' empty_tables = (None, ?db1)"
    "ResetUserSettings ?F 7 ?db1 = (None, snd (ResetUserSettings ?F 7 ?db1))"
    by (simp_all add: SetUserLanguage_def ResetUserSettings_def and_then_def exec_stmt_def stmt_def
        empty_tables_def insert_user_def plain_user_def has_key_def setUserBotLanguage_def
        upsert_settings_def Let_def)
  from reset_keeps_chosen_language [OF s(1), of "snd (ResetUserSettings ?F 7 ?db1)"] s(2)
  show ?thesis by (simp only: Let_def) simp
qed

end
