(* ===== verification/Ytdlp.thy ===== *)
theory Ytdlp
  imports Config
begin

text \<open>
  \<open>go/internal/ytdlp\<close> with the option builder of \<open>worker/ytdlp_opts.go\<close> and the error texts of
  \<open>worker/user_error.go\<close>: the command line of a download, the media files it left, and the class of
  its error. A file has a size and its data; running the
  program is the caller's parameter.
\<close>

subsection \<open>Files\<close>

datatype node = Dir | File int string

type_synonym files = "string \<Rightarrow> node option"

text \<open>\<open>filepath.Ext\<close>: from the last dot of the last element, or nothing.\<close>

definition base_name :: "string \<Rightarrow> string" where
  "base_name p = rev (takeWhile (\<lambda>c. c \<noteq> CHR ''/'') (rev p))"

definition ext :: "string \<Rightarrow> string" where
  "ext p =
     (let b = base_name p in
      if CHR ''.'' \<in> set b then CHR ''.'' # rev (takeWhile (\<lambda>c. c \<noteq> CHR ''.'') (rev b)) else [])"

definition join_path :: "string \<Rightarrow> string \<Rightarrow> string" where
  "join_path dir name = (if dir = [] then name else dir @ ''/'' @ name)"

definition videoExtensions :: "string list" where
  "videoExtensions = [''.mp4'', ''.webm'', ''.mkv'', ''.mov'', ''.m4v'']"

definition imageExtensions :: "string list" where
  "imageExtensions = [''.jpg'', ''.jpeg'', ''.png'', ''.webp'']"

definition is_video :: "string \<Rightarrow> bool" where "is_video f \<longleftrightarrow> to_lower (ext f) \<in> set videoExtensions"

definition is_image :: "string \<Rightarrow> bool" where "is_image f \<longleftrightarrow> to_lower (ext f) \<in> set imageExtensions"

text \<open>The entries of a directory: names with what they are.\<close>

definition FindMediaFiles :: "string \<Rightarrow> (string \<times> node) list result \<Rightarrow> string list result" where
  "FindMediaFiles dir entries =
     (case entries of
        Inl e \<Rightarrow> Inl e
      | Inr es \<Rightarrow> Inr (List.map (\<lambda>(n, _). join_path dir n)
          (filter (\<lambda>(n, d). d \<noteq> Dir \<and> (is_video n \<or> is_image n)) es)))"

text \<open>\<open>os.Stat\<close> of a path; the size of a directory is not used by any caller.\<close>

definition file_size :: "files \<Rightarrow> string \<Rightarrow> int option" where
  "file_size fs f = (case fs f of Some (File n _) \<Rightarrow> Some n | Some Dir \<Rightarrow> Some 0 | None \<Rightarrow> None)"

text \<open>\<open>fileSize\<close>: 0 for a file that cannot be read.\<close>

definition size_of :: "files \<Rightarrow> string \<Rightarrow> int" where
  "size_of fs f = (case file_size fs f of None \<Rightarrow> 0 | Some n \<Rightarrow> n)"

fun largest_loop :: "files \<Rightarrow> string list \<Rightarrow> string \<Rightarrow> int \<Rightarrow> string" where
  "largest_loop fs [] best bestSize = best"
| "largest_loop fs (f # rest) best bestSize =
     (if \<not> is_video f then largest_loop fs rest best bestSize
      else case file_size fs f of
        None \<Rightarrow> largest_loop fs rest best bestSize
      | Some n \<Rightarrow>
          if n > bestSize then largest_loop fs rest f n else largest_loop fs rest best bestSize)"

definition LargestVideo :: "files \<Rightarrow> string list \<Rightarrow> string" where
  "LargestVideo fs xs = largest_loop fs xs [] 0"

definition ImageFiles :: "string list \<Rightarrow> string list" where
  "ImageFiles xs = filter is_image xs"

definition fileExists :: "files \<Rightarrow> string \<Rightarrow> bool" where
  "fileExists fs path =
     (if trim_space path = [] then False
      else case fs path of Some (File n _) \<Rightarrow> n > 0 | _ \<Rightarrow> False)"

subsection \<open>The command line (downloader.go)\<close>

record options =
  FormatID :: string
  Platform :: string
  TikTokCookies :: string
  TikTokCookiesFromBrowser :: string
  InstagramCookies :: string
  InstagramCookiesFromBrowser :: string
  RedditCookies :: string
  RedditCookiesFromBrowser :: string
  Referer :: string
  ExtractorArgs :: string
  Impersonate :: string
  UserAgent :: string
  Timeout :: nat
  DownloadSections :: string

text \<open>Copies a cookie file into the task's directory; \<open>copies\<close> tells whether that succeeds.\<close>

definition writableCookiesPath ::
  "(string \<Rightarrow> bool) \<Rightarrow> string \<Rightarrow> string \<Rightarrow> files \<Rightarrow> string option \<times> files" where
  "writableCookiesPath copies src workDir fs =
     (if \<not> copies src then (None, fs)
      else let dest = join_path workDir ''yt-dlp-cookies.txt'' in (Some dest, fs(dest := fs src)))"

definition prepare_cookie ::
  "(string \<Rightarrow> bool) \<Rightarrow> string \<Rightarrow> string \<Rightarrow> files \<Rightarrow> string \<times> files" where
  "prepare_cookie copies outputDir path fs =
     (if fileExists fs path then
        (case writableCookiesPath copies path outputDir fs of
           (Some dest, fs) \<Rightarrow> (dest, fs)
         | (None, fs) \<Rightarrow> (path, fs))
      else (path, fs))"

definition prepareCookieOptions ::
  "(string \<Rightarrow> bool) \<Rightarrow> string \<Rightarrow> options \<Rightarrow> files \<Rightarrow> options \<times> files" where
  "prepareCookieOptions copies outputDir opts fs =
     (let (tt, fs) = prepare_cookie copies outputDir (TikTokCookies opts) fs;
          (ig, fs) = prepare_cookie copies outputDir (InstagramCookies opts) fs;
          (rd, fs) = prepare_cookie copies outputDir (RedditCookies opts) fs in
      (opts\<lparr>TikTokCookies := tt, InstagramCookies := ig, RedditCookies := rd\<rparr>, fs))"

definition cookie_args :: "files \<Rightarrow> string \<Rightarrow> string \<Rightarrow> string list" where
  "cookie_args fs path browser =
     (if fileExists fs path then [''--cookies'', path]
      else if trim_space browser \<noteq> [] then [''--cookies-from-browser'', trim_space browser]
      else [])"

definition platform_cookie_args :: "files \<Rightarrow> options \<Rightarrow> string list" where
  "platform_cookie_args fs opts =
     (if Platform opts = ''tiktok'' then
        cookie_args fs (TikTokCookies opts) (TikTokCookiesFromBrowser opts)
      else if Platform opts = ''instagram'' then
        cookie_args fs (InstagramCookies opts) (InstagramCookiesFromBrowser opts)
      else if Platform opts = ''reddit'' then
        cookie_args fs (RedditCookies opts) (RedditCookiesFromBrowser opts)
      else [])"

definition opt_arg :: "string \<Rightarrow> string \<Rightarrow> string list" where
  "opt_arg flag v = (if trim_space v \<noteq> [] then [flag, trim_space v] else [])"

definition format_args :: "options \<Rightarrow> bool \<Rightarrow> string list" where
  "format_args opts skip =
     (if FormatID opts \<noteq> [] \<and> \<not> skip then [''-f'', FormatID opts, ''--merge-output-format'', ''mp4'']
      else if \<not> skip then [''-f'', ''best''] else [])"

definition buildArgs ::
  "(string \<Rightarrow> bool) \<Rightarrow> string \<Rightarrow> string \<Rightarrow> options \<Rightarrow> bool \<Rightarrow> files \<Rightarrow> string list \<times> files" where
  "buildArgs copies url outputDir opts skip fs =
     (let (prepared, fs) = prepareCookieOptions copies outputDir opts fs in
      ([''--quiet'', ''--no-warnings'', ''--no-playlist'', ''-o'',
        join_path outputDir ''%(title).100s_%(id)s.%(ext)s'']
       @ format_args opts skip
       @ (if Platform opts = ''youtube'' \<and> \<not> skip then [''-S'', ''codec:vp9:av01:h264,+size,+br''] else [])
       @ (if DownloadSections opts \<noteq> [] \<and> \<not> skip
          then [''--download-sections'', DownloadSections opts, ''--force-keyframes-at-cuts''] else [])
       @ (if skip then [''--skip-download''] else [])
       @ platform_cookie_args fs prepared
       @ opt_arg ''--referer'' (Referer opts)
       @ opt_arg ''--extractor-args'' (ExtractorArgs opts)
       @ opt_arg ''--impersonate'' (Impersonate opts)
       @ opt_arg ''--user-agent'' (UserAgent opts)
       @ [url], fs))"

text \<open>
  \<open>run\<close> without the preview flag: the directory is made, then the program runs; \<open>prog\<close> answers with its
  output, its error and the files after it.
\<close>

definition run_ytdlp ::
  "go_error option \<Rightarrow> (string list \<Rightarrow> files \<Rightarrow> (string \<times> go_error option) \<times> files) \<Rightarrow> (string \<Rightarrow> bool)
     \<Rightarrow> string \<Rightarrow> string \<Rightarrow> options \<Rightarrow> files \<Rightarrow> go_error option \<times> files" where
  "run_ytdlp mkdir prog copies url outputDir opts fs =
     (case mkdir of
        Some e \<Rightarrow> (Some e, fs)
      | None \<Rightarrow>
          let (args, fs) = buildArgs copies url outputDir opts False fs in
          (case prog args fs of
             ((out, Some e), fs) \<Rightarrow> (Some (''yt-dlp failed: '' @ e @ '': '' @ trim_space out), fs)
           | ((out, None), fs) \<Rightarrow> (None, fs)))"

subsection \<open>Options of the worker (worker/ytdlp_opts.go)\<close>

definition extractorArgsForPlatform :: "string \<Rightarrow> string" where
  "extractorArgsForPlatform platform =
     (if platform = ''tiktok'' then ''tiktok:player_client=web'' else [])"

definition refererForPlatform :: "string \<Rightarrow> string \<Rightarrow> string" where
  "refererForPlatform platform tiktokReferer =
     (if platform = ''tiktok'' then
        (if trim_space tiktokReferer \<noteq> [] then trim_space tiktokReferer else ''https://www.tiktok.com/'')
      else [])"

definition user_agent :: string where
  "user_agent = ''Mozilla/5.0 (Windows NT 10.0; Win64; x64) AppleWebKit/537.36 '' @
     ''(KHTML, like Gecko) Chrome/139.0.0.0 Safari/537.36''"

text \<open>\<open>synced\<close> is \<open>cookies.SyncFromMount\<close> for a path: the writable copy, or nothing.\<close>

definition synced_cookies :: "(string \<Rightarrow> string) \<Rightarrow> string \<Rightarrow> string \<Rightarrow> string" where
  "synced_cookies synced path browser =
     (if trim_space browser = [] \<and> synced path \<noteq> [] then synced path else path)"

definition ytdlpOpts :: "config \<Rightarrow> (string \<Rightarrow> string) \<Rightarrow> string \<Rightarrow> string \<Rightarrow> nat \<Rightarrow> options" where
  "ytdlpOpts cfg synced platform formatID timeout =
     \<lparr>FormatID = formatID, Platform = platform,
      TikTokCookies = synced_cookies synced (c_TikTokCookiesPath cfg) (c_TikTokCookiesFromBrowser cfg),
      TikTokCookiesFromBrowser = c_TikTokCookiesFromBrowser cfg,
      InstagramCookies =
        synced_cookies synced (c_InstagramCookiesPath cfg) (c_InstagramCookiesFromBrowser cfg),
      InstagramCookiesFromBrowser = c_InstagramCookiesFromBrowser cfg,
      RedditCookies = synced_cookies synced (c_RedditCookiesPath cfg) (c_RedditCookiesFromBrowser cfg),
      RedditCookiesFromBrowser = c_RedditCookiesFromBrowser cfg,
      Referer = refererForPlatform platform (c_TikTokReferer cfg),
      ExtractorArgs = extractorArgsForPlatform platform, Impersonate = [], UserAgent = user_agent,
      Timeout = timeout, DownloadSections = []\<rparr>"

subsection \<open>Errors (errors.go, worker/user_error.go)\<close>

definition says :: "go_error \<Rightarrow> string list \<Rightarrow> bool" where
  "says e ps \<longleftrightarrow> list_ex (contains (to_lower e)) ps"

definition unavailable_texts :: "string list" where
  "unavailable_texts = [''requested format is not available'', ''only images are available'', ''po token'',
     ''drm protected'', ''captcha'']"

definition not_found_texts :: "string list" where
  "not_found_texts = [''no video formats found'', ''no video file found'', ''no media files found'',
     ''unsupported url'', ''video not available, status code'', ''permission to view this post'',
     ''video unavailable'', ''private video'', ''login required'', ''sign in to confirm'',
     ''content isn't available'', ''has been removed'']"

definition rate_texts :: "string list" where
  "rate_texts = [''429'', ''too many requests'', ''rate limit'', ''rate-limit'']"

definition network_texts :: "string list" where
  "network_texts = [''connection refused'', ''no such host'', ''network is unreachable'', ''i/o timeout'',
     ''tls handshake'', ''connection reset'']"

definition IsNoVideoFormatsError :: "go_error option \<Rightarrow> bool" where
  "IsNoVideoFormatsError err = (case err of None \<Rightarrow> False | Some e \<Rightarrow> says e [''no video formats found''])"

definition IsFormatUnavailableError :: "go_error option \<Rightarrow> bool" where
  "IsFormatUnavailableError err = (case err of None \<Rightarrow> False | Some e \<Rightarrow> says e unavailable_texts)"

definition IsUnexpectedWebpageError :: "go_error option \<Rightarrow> bool" where
  "IsUnexpectedWebpageError err =
     (case err of None \<Rightarrow> False | Some e \<Rightarrow> says e [''unexpected response from webpage request''])"

definition UserFacingErrorKey :: "go_error option \<Rightarrow> string" where
  "UserFacingErrorKey err =
     (case err of
        None \<Rightarrow> []
      | Some e \<Rightarrow>
          if says e [''context deadline exceeded'', ''timed out''] then ''download.timeout''
          else if IsFormatUnavailableError err \<or> IsUnexpectedWebpageError err
          then ''errors.format_unavailable''
          else if says e not_found_texts then ''errors.not_found''
          else if says e rate_texts then ''errors.rate_limited''
          else if says e network_texts then ''errors.network''
          else [])"

definition IsNetworkError :: "go_error option \<Rightarrow> bool" where
  "IsNetworkError err \<longleftrightarrow> err \<noteq> None \<and> UserFacingErrorKey err = ''errors.network''"

definition IsTimeoutError :: "go_error option \<Rightarrow> bool" where
  "IsTimeoutError err \<longleftrightarrow> err \<noteq> None \<and> UserFacingErrorKey err = ''download.timeout''"

definition IsRetryableError :: "go_error option \<Rightarrow> bool" where
  "IsRetryableError err \<longleftrightarrow> IsNetworkError err \<or> IsTimeoutError err"

end
