(* ===== verification/Ytdlp_Props.thy ===== *)
theory Ytdlp_Props
  imports Ytdlp
begin

text \<open>
  Properties of the download layer: which file a download sends, and whose cookies it uses.
\<close>

subsection \<open>The file that is sent\<close>

text \<open>A video whose size is known.\<close>

definition sized_video :: "files \<Rightarrow> string \<Rightarrow> int \<Rightarrow> bool" where
  "sized_video fs f n \<longleftrightarrow> is_video f \<and> file_size fs f = Some n"

lemma largest_loop_best:
  assumes "largest_loop fs xs best n = r"
  shows "(r = best \<and> (\<forall>f \<in> set xs. \<forall>k. sized_video fs f k \<longrightarrow> k \<le> n))
    \<or> (\<exists>k. r \<in> set xs \<and> sized_video fs r k \<and> n < k \<and> (\<forall>f \<in> set xs. \<forall>j. sized_video fs f j \<longrightarrow> j \<le> k))"
  using assms
proof (induction xs arbitrary: best n)
  case (Cons f xs)
  show ?case
  proof (cases "\<exists>k. sized_video fs f k \<and> n < k")
    case True
    then obtain k where k: "sized_video fs f k" "n < k" by blast
    with Cons.prems have "largest_loop fs xs f k = r" by (auto simp: sized_video_def)
    from Cons.IH [OF this] k show ?thesis by (fastforce simp: sized_video_def)
  next
    case False
    with Cons.prems have "largest_loop fs xs best n = r"
      by (auto simp: sized_video_def split: if_splits option.splits)
    note ih = Cons.IH [OF this]
    have le: "\<forall>k. sized_video fs f k \<longrightarrow> k \<le> n" using False by (meson not_less)
    from ih show ?thesis
    proof
      assume "r = best \<and> (\<forall>f \<in> set xs. \<forall>k. sized_video fs f k \<longrightarrow> k \<le> n)"
      with le show ?thesis by simp
    next
      assume "\<exists>k. r \<in> set xs \<and> sized_video fs r k \<and> n < k
        \<and> (\<forall>f \<in> set xs. \<forall>j. sized_video fs f j \<longrightarrow> j \<le> k)"
      with le show ?thesis by (metis (no_types) less_imp_le list.set_intros(2) order.trans set_ConsD)
    qed
  qed
qed simp

text \<open>
  The video a download sends is one of the files found whose size no other video exceeds; there
  is none exactly when every video is empty or unreadable. (A name is never empty.)
\<close>

theorem largest_video_is_largest:
  fixes fs :: files
  assumes "[] \<notin> set xs"
  defines "r \<equiv> LargestVideo fs xs"
  shows "if r = [] then \<forall>f \<in> set xs. \<forall>k. sized_video fs f k \<longrightarrow> k \<le> 0
    else \<exists>k. r \<in> set xs \<and> sized_video fs r k \<and> 0 < k
      \<and> (\<forall>f \<in> set xs. \<forall>j. sized_video fs f j \<longrightarrow> j \<le> k)"
  using largest_loop_best [of fs xs "[]" 0 r] assms by (auto simp: LargestVideo_def)

lemma largest_video_is_largest_witness:
  "let fs = [''/t/a.mp4'' \<mapsto> File 3 ''x'', ''/t/b.MKV'' \<mapsto> File 9 ''y'', ''/t/c.jpg'' \<mapsto> File 99 ''z''] in
   LargestVideo fs [''/t/a.mp4'', ''/t/b.MKV'', ''/t/c.jpg''] = ''/t/b.MKV''
   \<and> (\<exists>k. sized_video fs ''/t/b.MKV'' k \<and> 0 < k)"
proof -
  let ?fs = "[''/t/a.mp4'' \<mapsto> File 3 ''x'', ''/t/b.MKV'' \<mapsto> File 9 ''y'', ''/t/c.jpg'' \<mapsto> File 99 ''z'']"
  have "LargestVideo ?fs [''/t/a.mp4'', ''/t/b.MKV'', ''/t/c.jpg''] = ''/t/b.MKV''"
    by (simp add: LargestVideo_def is_video_def ext_def base_name_def Let_def videoExtensions_def
        file_size_def to_lower_def lower_char_def char_class_defs code_of_def char_of_def bit_0)
  with largest_video_is_largest [of "[''/t/a.mp4'', ''/t/b.MKV'', ''/t/c.jpg'']" ?fs]
  show ?thesis by (auto simp: Let_def)
qed

subsection \<open>Cookies\<close>

lemma prepare_cookie_simps:
  "fileExists fs p \<Longrightarrow> copies p \<Longrightarrow> prepare_cookie copies dir p fs
     = (join_path dir ''yt-dlp-cookies.txt'', fs(join_path dir ''yt-dlp-cookies.txt'' := fs p))"
  by (simp add: prepare_cookie_def writableCookiesPath_def Let_def)

lemma buildArgs_split:
  assumes "prepareCookieOptions copies dir opts fs = (prepared, fs')"
  shows "\<exists>u v. buildArgs copies url dir opts skip fs = (u @ platform_cookie_args fs' prepared @ v, fs')"
proof -
  have mid: "\<exists>u v. a1 @ a2 @ a3 @ a4 @ a5 @ x @ b1 @ b2 @ b3 @ b4 @ b5 = u @ x @ v"
    for a1 a2 a3 a4 a5 x b1 b2 b3 b4 b5 :: "string list"
    by (metis append_assoc)
  show ?thesis
    unfolding buildArgs_def assms Let_def prod.case prod.inject by (simp only: mid simp_thms)
qed

text \<open>
  The cookie files of the three platforms are copied to one and the same path, one after the
  other: when all three exist and can be copied, a TikTok (or Instagram) download is run with
  \<open>--cookies\<close> naming a file that holds Reddit's cookies.
\<close>

theorem cookies_of_another_platform:
  fixes skip :: bool and url :: string
  assumes "fileExists fs (TikTokCookies opts)" "fileExists fs (InstagramCookies opts)"
    and "fileExists fs (RedditCookies opts)" "copies = (\<lambda>_. True)"
    and "join_path dir ''yt-dlp-cookies.txt'' \<notin> {TikTokCookies opts, InstagramCookies opts, RedditCookies opts}"
    and "Platform opts \<in> {''tiktok'', ''instagram''}" "dir \<noteq> []" "\<forall>c \<in> set dir. \<not> is_space c"
  defines "r \<equiv> buildArgs copies url dir opts skip fs" and "dest \<equiv> join_path dir ''yt-dlp-cookies.txt''"
  shows "(\<exists>u v. fst r = u @ [''--cookies'', dest] @ v) \<and> snd r dest = fs (RedditCookies opts)"
proof -
  let ?fs1 = "fs(dest := fs (TikTokCookies opts))" and ?fs2 = "fs(dest := fs (InstagramCookies opts))"
  let ?fs3 = "fs(dest := fs (RedditCookies opts))"
  have ne: "dest \<noteq> TikTokCookies opts" "dest \<noteq> InstagramCookies opts" "dest \<noteq> RedditCookies opts"
    using assms(5) by (auto simp: dest_def)
  have ex: "fileExists (fs(dest := d)) p = fileExists fs p" if "dest \<noteq> p" for d p
    using that by (simp add: fileExists_def)
  have prep: "prepareCookieOptions copies dir opts fs
      = (opts\<lparr>TikTokCookies := dest, InstagramCookies := dest, RedditCookies := dest\<rparr>, ?fs3)"
    using assms(1-4) ne ex
    by (simp add: prepareCookieOptions_def prepare_cookie_simps dest_def [symmetric])
  have "\<not> is_space c" if "c \<in> set dest" for c
    using that assms(7,8) by (auto simp: dest_def join_path_def is_space_def)
  then have "trim_space dest = dest" by (rule trim_space_id)
  then have "trim_space dest \<noteq> []" by (simp add: dest_def join_path_def)
  then have "fileExists ?fs3 dest" using assms(3) by (simp add: fileExists_def split: if_splits)
  then have "platform_cookie_args ?fs3 (opts\<lparr>TikTokCookies := dest, InstagramCookies := dest,
      RedditCookies := dest\<rparr>) = [''--cookies'', dest]"
    using assms(6) by (auto simp: platform_cookie_args_def cookie_args_def)
  with buildArgs_split [OF prep, of url skip] obtain u v where
    "r = (u @ [''--cookies'', dest] @ v, ?fs3)" by (auto simp: r_def)
  then show ?thesis by auto
qed

lemma cookies_of_another_platform_witness:
  "let fs = [''/s/t'' \<mapsto> File 1 ''tiktok'', ''/s/i'' \<mapsto> File 1 ''instagram'', ''/s/r'' \<mapsto> File 1 ''reddit''];
       opts = (ytdlpOpts (loaded (\<lambda>_. [])) (\<lambda>_. []) ''tiktok'' ''best'' 60)
         \<lparr>TikTokCookies := ''/s/t'', InstagramCookies := ''/s/i'', RedditCookies := ''/s/r''\<rparr> in
   snd (buildArgs (\<lambda>_. True) ''u'' ''/tmp'' opts False fs) ''/tmp/yt-dlp-cookies.txt'' = Some (File 1 ''reddit'')"
proof -
  let ?fs = "[''/s/t'' \<mapsto> File 1 ''tiktok'', ''/s/i'' \<mapsto> File 1 ''instagram'', ''/s/r'' \<mapsto> File 1 ''reddit'']"
  let ?o = "(ytdlpOpts (loaded (\<lambda>_. [])) (\<lambda>_. []) ''tiktok'' ''best'' 60)
         \<lparr>TikTokCookies := ''/s/t'', InstagramCookies := ''/s/i'', RedditCookies := ''/s/r''\<rparr>"
  have ex: "fileExists ?fs ''/s/t''" "fileExists ?fs ''/s/i''" "fileExists ?fs ''/s/r''"
    by (simp_all add: fileExists_def trim_space_def trim_left_def is_space_def)
  have "snd (buildArgs (\<lambda>_. True) ''u'' ''/tmp'' ?o False ?fs) (join_path ''/tmp'' ''yt-dlp-cookies.txt'')
      = ?fs (RedditCookies ?o)"
    by (rule cookies_of_another_platform [THEN conjunct2])
      (use ex in \<open>simp_all add: ytdlpOpts_def join_path_def is_space_def\<close>)
  then show ?thesis by (simp add: Let_def join_path_def)
qed

end
