(* ===== verification/Test_Urls.thy ===== *)
theory Test_Urls
  imports Db_Props Ytdlp Youtube Settings Link_Parser
begin

text \<open>
  The checklist of test links: the background runner (\<open>worker/test_urls.go\<close>) that claims a row, runs its
  platform's scenario and stores the outcome, and the requests of the dashboard (\<open>dash/test_urls.go\<close>).
  yt-dlp, the file system and the platform clients are given by an environment.
\<close>

subsection \<open>The environment of a run\<close>

record reddit_thread =
  th_has_text :: bool
  th_comments :: nat
  th_media :: "(string \<times> string) list"
  th_permalink :: string

record test_env =
  te_tempdir :: "test_row \<Rightarrow> string result"
  te_ytdlp :: "string \<Rightarrow> string \<Rightarrow> options \<Rightarrow> go_error option"
  te_entries :: "string \<Rightarrow> (string \<times> node) list result"
  te_files :: files
  te_photos :: "string \<Rightarrow> string list result"
  te_pins :: "string \<Rightarrow> (string \<times> int) list result"
  te_thread_id :: "string \<Rightarrow> string"
  te_thread :: "string \<Rightarrow> reddit_thread result"
  te_image :: "string \<Rightarrow> string result"
  te_opts :: "string \<Rightarrow> string \<Rightarrow> options"
  te_duration :: "test_row \<Rightarrow> nat"

type_synonym outcome = "string \<times> string \<times> string \<times> int"

definition testMaxErrorMessage :: nat where "testMaxErrorMessage = 500"

definition testYouTubeQuality :: int where "testYouTubeQuality = 720"

definition truncateTestErr :: "go_error \<Rightarrow> string" where
  "truncateTestErr e = take testMaxErrorMessage (trim_space e)"

definition failed :: "string \<Rightarrow> outcome" where
  "failed msg = (TestStatusFailed, msg, [], 0)"

definition passed :: "string \<Rightarrow> int \<Rightarrow> outcome" where
  "passed media n = (TestStatusPassed, [], media, n)"

definition testDirMedia :: "test_env \<Rightarrow> string \<Rightarrow> outcome" where
  "testDirMedia E dir =
     (case FindMediaFiles dir (te_entries E dir) of
        Inl e \<Rightarrow> failed (truncateTestErr e)
      | Inr fs \<Rightarrow>
          let video = LargestVideo (te_files E) fs; images = ImageFiles fs in
          if video \<noteq> [] then passed ''video'' (size_of (te_files E) video)
          else if images = [] then failed ''downloaded but no media files found''
          else passed ''photos'' (sum_list (List.map (size_of (te_files E)) images)))"

definition testYtdlpPlatform :: "test_env \<Rightarrow> string \<Rightarrow> string \<Rightarrow> string \<Rightarrow> outcome" where
  "testYtdlpPlatform E url platform dir =
     (let format = (if platform = ''youtube'' then FormatSelector [] testYouTubeQuality [] else ''best'') in
      case te_ytdlp E url dir (te_opts E platform format) of
        Some e \<Rightarrow> failed (truncateTestErr e)
      | None \<Rightarrow> testDirMedia E dir)"

definition testXPhotos :: "test_env \<Rightarrow> string \<Rightarrow> outcome" where
  "testXPhotos E url =
     (case te_photos E url of
        Inl e \<Rightarrow> failed (truncateTestErr e)
      | Inr paths \<Rightarrow>
          if paths = [] then failed ''no photos downloaded''
          else passed ''photos'' (sum_list (List.map (size_of (te_files E)) paths)))"

definition testX :: "test_env \<Rightarrow> string \<Rightarrow> string \<Rightarrow> outcome" where
  "testX E url dir =
     (if te_ytdlp E url dir (te_opts E ''x'' ''best'') = None \<and> fst (testDirMedia E dir) = TestStatusPassed
      then testDirMedia E dir else testXPhotos E url)"

definition testPinterest :: "test_env \<Rightarrow> string \<Rightarrow> outcome" where
  "testPinterest E url =
     (case te_pins E url of
        Inl e \<Rightarrow> failed (truncateTestErr e)
      | Inr [] \<Rightarrow> failed ''no media items returned''
      | Inr ((typ, n) # _) \<Rightarrow> passed (if typ = ''video'' then ''video'' else ''photos'') n)"

definition testReddit :: "test_env \<Rightarrow> string \<Rightarrow> string \<Rightarrow> outcome" where
  "testReddit E url dir =
     (if te_thread_id E url = [] then failed ''no thread id in url''
      else case te_thread E (te_thread_id E url) of
        Inl e \<Rightarrow> failed (truncateTestErr e)
      | Inr th \<Rightarrow>
          if \<not> th_has_text th \<and> th_comments th = 0 \<and> th_media th = [] then failed ''thread has no content''
          else (case th_media th of
            [] \<Rightarrow> passed ''text'' 0
          | (typ, murl) # _ \<Rightarrow>
              if typ = ''video'' then
                (case te_ytdlp E (th_permalink th) (join_path dir ''video'')
                        (te_opts E ''reddit'' ''bv*+ba/b'') of
                   Some e \<Rightarrow> failed (truncateTestErr e)
                 | None \<Rightarrow> testDirMedia E (join_path dir ''video''))
              else
                (case te_image E murl of
                   Inl e \<Rightarrow> failed (truncateTestErr e)
                 | Inr path \<Rightarrow>
                     (case file_size (te_files E) path of
                        None \<Rightarrow> failed ''no such file''
                      | Some n \<Rightarrow> passed (if typ = ''gif'' then ''video'' else ''photos'') n))))"

definition executeTestURL :: "test_env \<Rightarrow> test_row \<Rightarrow> outcome" where
  "executeTestURL E row =
     (case te_tempdir E row of
        Inl e \<Rightarrow> failed (''temp dir: '' @ e)
      | Inr dir \<Rightarrow>
          let p = tr_platform row in
          if p = ''youtube'' \<or> p = ''tiktok'' \<or> p = ''instagram''
          then testYtdlpPlatform E (tr_url row) p dir
          else if p = ''x'' then testX E (tr_url row) dir
          else if p = ''pinterest'' then testPinterest E (tr_url row)
          else if p = ''reddit'' then testReddit E (tr_url row) dir
          else failed (''platform not testable: '' @ p))"

subsection \<open>The runner\<close>

definition runTestURL :: "fault \<Rightarrow> test_env \<Rightarrow> test_row \<Rightarrow> database \<Rightarrow> database" where
  "runTestURL F E row db =
     (let (status, errMsg, mediaType, n) = executeTestURL E row; d = te_duration E row in
      snd (FinishTestURL F (tr_id row) status errMsg mediaType n (int (d div 1000))
        (db\<lparr>d_now := d_now db + d\<rparr>)))"

text \<open>The loop, with fuel; \<open>None\<close> when the fuel runs out.\<close>

fun drainTestURLs :: "nat \<Rightarrow> fault \<Rightarrow> test_env \<Rightarrow> database \<Rightarrow> database option" where
  "drainTestURLs 0 F E db = None"
| "drainTestURLs (Suc n) F E db =
     (case ClaimNextTestURL F db of
        (Inl e, db) \<Rightarrow> Some db
      | (Inr None, db) \<Rightarrow> Some db
      | (Inr (Some row), db) \<Rightarrow> drainTestURLs n F E (runTestURL F E row db))"

subsection \<open>The dashboard's requests (dash/test_urls.go)\<close>

definition testablePlatforms :: "string list" where
  "testablePlatforms = [''youtube'', ''tiktok'', ''instagram'', ''x'', ''pinterest'', ''reddit'']"

definition testablePlatform :: "string \<Rightarrow> (string \<times> string) result" where
  "testablePlatform s =
     (case ExtractURLs s of
        [] \<Rightarrow> Inl ''no link found''
      | link # _ \<Rightarrow>
          let p = platform_string (link_platform link) in
          if p \<notin> set testablePlatforms
          then Inl (''platform '' @ quote @ p @ quote @
            '' is not testable (supported: youtube, tiktok, instagram, x, pinterest, reddit)'')
          else Inr (p, link_url link))"

text \<open>A response: its status and, for a request that was carried out, what it answers.\<close>

datatype response =
    RError nat string
  | RRow test_row
  | RRows "test_row list" "(string \<times> nat) list"
  | RRequeued int
  | RDone

definition status_count :: "string \<Rightarrow> test_row list \<Rightarrow> nat" where
  "status_count st rows = length (filter (\<lambda>r. tr_status r = st) rows)"

definition handleTestURLs :: "fault \<Rightarrow> database \<Rightarrow> response \<times> database" where
  "handleTestURLs F db =
     (case ListTestURLs F db of
        (Inl e, db) \<Rightarrow> (RError 500 e, db)
      | (Inr rows, db) \<Rightarrow>
          (RRows rows [(''pending'', status_count TestStatusPending rows),
             (''running'', status_count TestStatusRunning rows),
             (''passed'', status_count TestStatusPassed rows),
             (''failed'', status_count TestStatusFailed rows)], db))"

definition handleTestURLCreate :: "fault \<Rightarrow> string result \<Rightarrow> database \<Rightarrow> response \<times> database" where
  "handleTestURLCreate F req db =
     (case req of
        Inl e \<Rightarrow> (RError 400 (''invalid body: '' @ e), db)
      | Inr s \<Rightarrow>
          (case testablePlatform s of
             Inl e \<Rightarrow> (RError 400 e, db)
           | Inr (platform, url) \<Rightarrow>
               (case CreateTestURL F url platform db of
                  (Inl e, db) \<Rightarrow>
                    if e = ErrDuplicateTestURL then (RError 409 ''url is already on the list'', db)
                    else (RError 500 e, db)
                | (Inr row, db) \<Rightarrow> (RRow row, db))))"

definition handleTestURLRun :: "fault \<Rightarrow> database \<Rightarrow> response \<times> database" where
  "handleTestURLRun F db =
     (case RequeueTestURLs F None db of
        (Inl e, db) \<Rightarrow> (RError 500 e, db)
      | (Inr n, db) \<Rightarrow> (RRequeued n, db))"

definition handleTestURLRerun :: "fault \<Rightarrow> string \<Rightarrow> database \<Rightarrow> response \<times> database" where
  "handleTestURLRerun F param db =
     (case atoi param of
        None \<Rightarrow> (RError 400 ''invalid id'', db)
      | Some i \<Rightarrow>
          if i \<le> 0 then (RError 400 ''invalid id'', db)
          else (case RequeueTestURLs F (Some i) db of
            (Inl e, db) \<Rightarrow> (RError 500 e, db)
          | (Inr n, db) \<Rightarrow>
              if n = 0 then (RError 404 ''row not found or not finished'', db) else (RRequeued n, db)))"

definition handleTestURLDelete :: "fault \<Rightarrow> string \<Rightarrow> database \<Rightarrow> response \<times> database" where
  "handleTestURLDelete F param db =
     (case atoi param of
        None \<Rightarrow> (RError 400 ''invalid id'', db)
      | Some i \<Rightarrow>
          if i \<le> 0 then (RError 400 ''invalid id'', db)
          else (case DeleteTestURL F i db of
            (Some e, db) \<Rightarrow> (RError 500 e, db)
          | (None, db) \<Rightarrow> (RDone, db)))"

end
