(* ===== verification/Test_Urls_Props.thy ===== *)
theory Test_Urls_Props
  imports Test_Urls
begin

text \<open>
  Properties of the checklist: the runner's loop ends and leaves nothing to run, and, with several
  workers running side by side, a row is never run twice at once as long as no run outlasts the time
  after which a running row counts as stale.
\<close>

subsection \<open>The loop ends\<close>

lemma executeTestURL_status:
  "executeTestURL E row = (st, e, m, n) \<Longrightarrow> st = TestStatusPassed \<or> st = TestStatusFailed"
  by (auto simp: executeTestURL_def testYtdlpPlatform_def testX_def testXPhotos_def testPinterest_def
      testReddit_def testDirMedia_def passed_def failed_def Let_def
      split: sum.splits option.splits list.splits if_splits)

lemma test_status_distinct [simp]:
  "TestStatusPending \<noteq> TestStatusPassed" "TestStatusPending \<noteq> TestStatusFailed"
  "TestStatusRunning \<noteq> TestStatusPassed" "TestStatusRunning \<noteq> TestStatusFailed"
  "TestStatusPassed \<noteq> TestStatusRunning" "TestStatusFailed \<noteq> TestStatusRunning"
  "TestStatusPassed \<noteq> TestStatusPending" "TestStatusFailed \<noteq> TestStatusPending"
  "TestStatusPending \<noteq> TestStatusRunning" "TestStatusRunning \<noteq> TestStatusPending"
  by (simp_all add: test_status_defs)

definition unfinished :: "database \<Rightarrow> nat" where
  "unfinished db = length (filter (\<lambda>r. \<not> finished r) (d_tests db))"

text \<open>What a claim and the run after it do to the rows, when no statement fails.\<close>

lemma claim_cases:
  assumes "ClaimNextTestURL F db = (r, db')"
  obtains (err) e where "r = Inl e" "d_tests db' = d_tests db" "d_now db' = d_now db"
      "d_next_test db' = d_next_test db"
  | (none) "r = Inr None" "d_tests db' = d_tests db" "\<forall>x \<in> set (d_tests db). \<not> claimable (d_now db) x"
      "d_now db' = d_now db" "d_next_test db' = d_next_test db"
  | (row) x where "r = Inr (Some (claim_row (d_now db) x))" "x \<in> set (d_tests db)"
      "claimable (d_now db) x" "d_now db' = d_now db" "d_next_test db' = d_next_test db"
      "d_tests db' = update_test (tr_id x) (claim_row (d_now db)) (d_tests db)"
proof -
  let ?c = "sort_key tr_id (filter (claimable (d_now db)) (d_tests db))"
  show thesis
  proof (cases ?c)
    case Nil
    then have "filter (claimable (d_now db)) (d_tests db) = []" by (metis length_0_conv length_sort)
    then have no: "\<forall>x \<in> set (d_tests db). \<not> claimable (d_now db) x"
      by (simp add: filter_empty_conv)
    show thesis
    proof (cases "F (d_stmts db)")
      case None
      with assms Nil no show thesis by (intro none) (auto simp: ClaimNextTestURL_def stmt_def Let_def)
    next
      case (Some e)
      with assms show thesis by (intro err [of e]) (auto simp: ClaimNextTestURL_def stmt_def Let_def)
    qed
  next
    case (Cons x xs)
    then have "x \<in> set ?c" by simp
    then have x: "x \<in> set (d_tests db)" "claimable (d_now db) x" by simp_all
    with assms Cons show thesis
      by (cases "F (d_stmts db)") (auto simp: ClaimNextTestURL_def stmt_def Let_def intro: err row)
  qed
qed


text \<open>One turn of the loop: one row fewer to run, every other row as it was, the claimed one finished.\<close>

lemma turn:
  fixes E :: test_env
  assumes "db_ok db" "F = (\<lambda>_. None)" "ClaimNextTestURL F db = (Inr (Some row), db1)"
  defines "db2 \<equiv> runTestURL F E row db1"
  shows "db_ok db2 \<and> unfinished db2 < unfinished db
    \<and> (\<exists>i f. d_tests db2 = update_test i f (d_tests db) \<and> (\<forall>r. finished (f r) \<and> tr_id (f r) = tr_id r))"
proof -
  from assms(3) obtain x where x: "row = claim_row (d_now db) x" "x \<in> set (d_tests db)"
      "claimable (d_now db) x" "d_now db1 = d_now db"
      "d_tests db1 = update_test (tr_id x) (claim_row (d_now db)) (d_tests db)"
    by (cases rule: claim_cases) auto
  obtain st e m n where o: "executeTestURL E row = (st, e, m, n)" by (metis surj_pair)
  define now where "now = d_now db1 + te_duration E row"
  define f where "f = (\<lambda>r. finish_row now st e m n (int (te_duration E row div 1000)) (claim_row (d_now db) r))"
  have f: "finished (f r)" "tr_id (f r) = tr_id r" for r
    using executeTestURL_status [OF o] by (auto simp: f_def finish_row_def finished_def)
  have "d_tests db2 = update_test (tr_id x) (\<lambda>r. finish_row now st e m n (int (te_duration E row div 1000)) r)
      (d_tests db1)"
    using o x(1) assms(2) by (simp add: db2_def runTestURL_def FinishTestURL_def exec_stmt_def stmt_def
        Let_def now_def)
  then have t: "d_tests db2 = update_test (tr_id x) f (d_tests db)"
    unfolding x(5) by (auto simp: update_test_def f_def)
  have nf: "\<not> finished x" using x(3) by (auto simp: claimable_def finished_def)
  have "length (filter (\<lambda>r. \<not> finished r) (update_test (tr_id x) f rs))
      \<le> length (filter (\<lambda>r. \<not> finished r) rs)" for rs
    using f by (induction rs) (auto simp: update_test_def)
  moreover have "length (filter (\<lambda>r. \<not> finished r) (update_test (tr_id x) f (a @ x # b)))
      < length (filter (\<lambda>r. \<not> finished r) (a @ x # b))" for a b
    using calculation [of a] calculation [of b] f nf by (simp add: update_test_def)
  moreover obtain a b where "d_tests db = a @ x # b" using x(2) by (meson split_list)
  ultimately have "unfinished db2 < unfinished db" by (simp add: unfinished_def t)
  moreover have "db_ok db2"
  proof -
    have "db_ok db1" using db_exec_inv [OF assms(1), of F DClaimNextTestURL] assms(3) by simp
    then have "db_ok (db1\<lparr>d_now := now\<rparr>)" by simp
    then show ?thesis using o
      by (simp add: db2_def runTestURL_def Let_def test_ops_inv now_def)
  qed
  ultimately show ?thesis using t f by blast
qed

text \<open>The identifiers of the rows that wait or are done.\<close>

definition settled :: "database \<Rightarrow> int set" where
  "settled db = tr_id ` {x \<in> set (d_tests db). tr_status x = TestStatusPending \<or> finished x}"

lemma settled_code:
  "settled db = set (List.map tr_id (filter (\<lambda>x. tr_status x = TestStatusPending \<or> finished x) (d_tests db)))"
  by (auto simp: settled_def)

lemma settled_update:
  assumes "d_tests db2 = update_test i f (d_tests db)" "\<And>r. finished (f r)" "\<And>r. tr_id (f r) = tr_id r"
  shows "settled db \<subseteq> settled db2" "List.map tr_id (d_tests db2) = List.map tr_id (d_tests db)"
proof -
  show "List.map tr_id (d_tests db2) = List.map tr_id (d_tests db)"
    using assms(3) by (simp add: assms(1) update_test_def comp_def)
  show "settled db \<subseteq> settled db2"
  proof
    fix k assume "k \<in> settled db"
    then obtain x where x: "x \<in> set (d_tests db)" "k = tr_id x"
      "tr_status x = TestStatusPending \<or> finished x" by (auto simp: settled_def)
    let ?y = "if tr_id x = i then f x else x"
    have "?y \<in> set (d_tests db2)" using x(1) by (auto simp: assms(1) update_test_def)
    moreover have "tr_id ?y = k" "tr_status ?y = TestStatusPending \<or> finished ?y"
      using x assms(2,3) by simp_all
    ultimately show "k \<in> settled db2" unfolding settled_def by blast
  qed
qed

text \<open>
  C37. The runner's loop ends: when no statement fails, as many turns as there are unfinished rows, and
  one more, are enough, whatever the runs answer and however long they take; then no row is left to
  claim, every row that was waiting or finished is finished, and the rows are the same ones in the same
  order.
\<close>

theorem drain_ends:
  assumes "db_ok db" "F = (\<lambda>_. None)" "unfinished db < n"
  shows "\<exists>db'. drainTestURLs n F E db = Some db' \<and> db_ok db'
    \<and> (\<forall>r \<in> set (d_tests db'). \<not> claimable (d_now db') r)
    \<and> List.map tr_id (d_tests db') = List.map tr_id (d_tests db)
    \<and> (\<forall>r \<in> set (d_tests db'). tr_id r \<in> settled db \<longrightarrow> finished r)"
  using assms(1,3)
proof (induction n arbitrary: db)
  case (Suc n)
  obtain r db1 where c: "ClaimNextTestURL F db = (r, db1)" by fastforce
  have ok1: "db_ok db1" using db_exec_inv [OF Suc.prems(1), of F DClaimNextTestURL] c by simp
  from c show ?case
  proof (cases rule: claim_cases)
    case (err e)
    with c assms(2) show ?thesis
      by (auto simp: ClaimNextTestURL_def stmt_def Let_def split: list.splits)
  next
    case none
    have "finished x" if "x \<in> set (d_tests db)" "tr_id x \<in> settled db" for x
    proof -
      from that(2) obtain y where y: "y \<in> set (d_tests db)" "tr_id y = tr_id x"
        "tr_status y = TestStatusPending \<or> finished y" by (auto simp: settled_def)
      moreover have "x = y"
        using Suc.prems(1) y(1,2) that(1) by (auto simp: table_defs distinct_map inj_on_def)
      ultimately show ?thesis using none(3) by (auto simp: claimable_def)
    qed
    with none c ok1 show ?thesis by simp
  next
    case (row x)
    let ?row = "claim_row (d_now db) x"
    define db2 where "db2 = runTestURL F E ?row db1"
    from turn [OF Suc.prems(1) assms(2), of ?row db1 E] c row(1) obtain i f where
      t: "db_ok db2" "unfinished db2 < unfinished db" "d_tests db2 = update_test i f (d_tests db)"
        "\<And>r. finished (f r)" "\<And>r. tr_id (f r) = tr_id r"
      unfolding db2_def by blast
    from Suc.IH [OF t(1)] t(2) Suc.prems(2) obtain db' where
      "drainTestURLs n F E db2 = Some db'" "db_ok db'"
      "\<forall>r \<in> set (d_tests db'). \<not> claimable (d_now db') r"
      "List.map tr_id (d_tests db') = List.map tr_id (d_tests db2)"
      "\<forall>r \<in> set (d_tests db'). tr_id r \<in> settled db2 \<longrightarrow> finished r" by auto
    with c row(1) settled_update [OF t(3-5)] show ?thesis by (auto simp: db2_def)
  qed
qed simp

definition sample_run_env :: test_env where
  "sample_run_env = \<lparr>te_tempdir = (\<lambda>r. Inr ''/t''), te_ytdlp = (\<lambda>u d opts. Some ''timed out''),
     te_entries = (\<lambda>d. Inr []), te_files = (\<lambda>_. None), te_photos = (\<lambda>u. Inr []), te_pins = (\<lambda>u. Inr [(''video'', 5)]),
     te_thread_id = (\<lambda>u. []), te_thread = (\<lambda>u. Inl ''x''), te_image = (\<lambda>u. Inl ''x''),
     te_opts = (\<lambda>p f. ytdlpOpts (loaded (\<lambda>_. [])) (\<lambda>_. []) p f 0), te_duration = (\<lambda>r. 5000)\<rparr>"

lemma drain_ends_witness:
  "let F = (\<lambda>_. None); db = fold (db_exec F) [DCreateTestURL ''u1'' ''pinterest'', DCreateTestURL ''u2'' ''x'']
       empty_tables in
   \<exists>db'. drainTestURLs 3 F sample_run_env db = Some db' \<and> (\<forall>r \<in> set (d_tests db'). finished r)
     \<and> length (d_tests db') = 2"
proof -
  let ?F = "\<lambda>_. None"
  let ?db = "fold (db_exec ?F) [DCreateTestURL ''u1'' ''pinterest'', DCreateTestURL ''u2'' ''x''] empty_tables"
  have ok: "db_ok ?db" using empty_tables_ok by (simp add: db_exec_inv del: db_exec.simps)
  have rows: "List.map tr_id (d_tests ?db) = [1, 2]" "settled ?db = {1, 2}" "unfinished ?db = 2"
    by (simp_all add: settled_code unfinished_def CreateTestURL_def stmt_def empty_tables_def Let_def
        finished_def test_status_defs)
  from drain_ends [OF ok refl, of 3 sample_run_env] rows obtain db' where
    d: "drainTestURLs 3 ?F sample_run_env ?db = Some db'" "List.map tr_id (d_tests db') = [1, 2]"
      "\<forall>r \<in> set (d_tests db'). tr_id r \<in> {1, 2} \<longrightarrow> finished r" by auto
  have "tr_id r \<in> {1, 2}" if "r \<in> set (d_tests db')" for r
    using that arg_cong [OF d(2), of set] by auto
  moreover have "length (d_tests db') = 2" using arg_cong [OF d(2), of length] by simp
  ultimately show ?thesis using d(1,3) by (simp only: Let_def) blast
qed

subsection \<open>Several workers\<close>

text \<open>
  The state that workers share: the tables, and the runs under way, each a row's identifier and the time
  of its claim. A step is one worker's claim, the end of a run (stored, or lost with its worker), a
  request of the dashboard, or time that passes; no run lasts longer than \<open>L\<close>.
\<close>

type_synonym runners = "database \<times> (int \<times> nat) list"

inductive runner_step :: "nat \<Rightarrow> fault \<Rightarrow> runners \<Rightarrow> runners \<Rightarrow> bool" for L :: nat and F :: fault where
  Claim: "ClaimNextTestURL F db = (Inr (Some r), db') \<Longrightarrow>
    runner_step L F (db, runs) (db', (tr_id r, d_now db') # runs)"
| NoClaim: "ClaimNextTestURL F db = (r, db') \<Longrightarrow> r = Inr None \<or> r = Inl e \<Longrightarrow>
    runner_step L F (db, runs) (db', runs)"
| Finish: "FinishTestURL F i st e m z d db = (err, db') \<Longrightarrow>
    runner_step L F (db, a @ (i, t) # b) (db', a @ b)"
| Crash: "runner_step L F (db, a @ (i, t) # b) (db, a @ b)"
| Create: "CreateTestURL F url p db = (r, db') \<Longrightarrow> runner_step L F (db, runs) (db', runs)"
| Delete: "DeleteTestURL F i db = (err, db') \<Longrightarrow> runner_step L F (db, runs) (db', runs)"
| Requeue: "RequeueTestURLs F j db = (r, db') \<Longrightarrow> runner_step L F (db, runs) (db', runs)"
| Wait: "\<forall>(i, t) \<in> set runs. d_now db + n \<le> t + L \<Longrightarrow>
    runner_step L F (db, runs) (db\<lparr>d_now := d_now db + n\<rparr>, runs)"

inductive_cases runner_stepE: "runner_step L F s s'"

inductive_simps wait_step: "runner_step L F (db, runs) (db\<lparr>d_now := d_now db + n\<rparr>, runs)"

text \<open>Every run under way holds its row: one run per row, and the row, if it still exists, is its.\<close>

definition holds_row :: "database \<Rightarrow> int \<Rightarrow> nat \<Rightarrow> bool" where
  "holds_row db i t \<longleftrightarrow> i < d_next_test db \<and> t \<le> d_now db
     \<and> (\<forall>r \<in> set (d_tests db). tr_id r = i \<longrightarrow> tr_status r = TestStatusRunning \<and> tr_updated r = t)"

fun runs_ok :: "nat \<Rightarrow> runners \<Rightarrow> bool" where
  "runs_ok L (db, runs) \<longleftrightarrow> db_ok db \<and> distinct (List.map fst runs)
     \<and> (\<forall>(i, t) \<in> set runs. holds_row db i t \<and> d_now db \<le> t + L)"

lemma finish_tests:
  assumes "FinishTestURL F i st e m z d db = (err, db')"
  shows "d_now db' = d_now db \<and> d_next_test db' = d_next_test db
    \<and> (\<exists>f. d_tests db' = update_test i f (d_tests db) \<and> (\<forall>r. tr_id (f r) = tr_id r))"
proof (cases "F (d_stmts db)")
  case None
  with assms show ?thesis
    by (intro conjI exI [of _ "finish_row (d_now db) st e m z d"])
      (auto simp: FinishTestURL_def exec_stmt_def stmt_def Let_def)
next
  case (Some x)
  with assms show ?thesis
    by (intro conjI exI [of _ "\<lambda>r. r"])
      (auto simp: FinishTestURL_def exec_stmt_def stmt_def Let_def update_test_def)
qed

lemma create_tests:
  assumes "CreateTestURL F url p db = (r, db')"
  shows "d_now db' = d_now db \<and> d_next_test db \<le> d_next_test db'
    \<and> (\<forall>x \<in> set (d_tests db'). x \<in> set (d_tests db) \<or> tr_id x = d_next_test db)"
  using assms by (auto simp: CreateTestURL_def stmt_def Let_def split: option.splits if_splits)

lemma delete_tests:
  assumes "DeleteTestURL F i db = (r, db')"
  shows "d_now db' = d_now db \<and> d_next_test db' = d_next_test db \<and> set (d_tests db') \<subseteq> set (d_tests db)"
  using assms by (auto simp: DeleteTestURL_def exec_stmt_def stmt_def Let_def split: option.splits)

lemma requeue_tests:
  assumes "RequeueTestURLs F j db = (r, db')"
  shows "d_now db' = d_now db \<and> d_next_test db' = d_next_test db
    \<and> (\<forall>x \<in> set (d_tests db'). x \<in> set (d_tests db)
        \<or> (\<exists>y \<in> set (d_tests db). tr_id x = tr_id y \<and> finished y))"
  using assms
  by (auto simp: RequeueTestURLs_def stmt_def Let_def requeue_row_def split: option.splits if_splits)

lemma runs_ok_step:
  assumes "runner_step L F s s'" "runs_ok L s" "L \<le> staleness"
  shows "runs_ok L s'"
  using assms
proof (cases rule: runner_step.cases)
  case (Claim db r db' runs)
  then have ok: "db_ok db'" using db_exec_inv [of db F DClaimNextTestURL] assms(2) by simp
  from Claim(3) obtain x where x: "r = claim_row (d_now db) x" "x \<in> set (d_tests db)"
      "claimable (d_now db) x" "d_now db' = d_now db" "d_next_test db' = d_next_test db"
      "d_tests db' = update_test (tr_id x) (claim_row (d_now db)) (d_tests db)"
    by (cases rule: claim_cases) auto
  have free: "tr_id x \<noteq> i" if "(i, t) \<in> set runs" for i t
    using that assms(2,3) Claim(1) x(2,3)
    by (auto simp: holds_row_def claimable_def staleness_def dest!: bspec)
  have "holds_row db' (tr_id x) (d_now db)"
    using x assms(2) Claim(1) by (auto simp: holds_row_def update_test_def claim_row_def table_defs)
  moreover have "holds_row db' i t" if "(i, t) \<in> set runs" for i t
  proof -
    have "holds_row db i t" using that assms(2) Claim(1) by auto
    with free [OF that] x(4-6) show ?thesis by (auto simp: holds_row_def update_test_def)
  qed
  moreover have "d_now db \<le> t + L" if "(i, t) \<in> set runs" for i t
    using that assms(2) Claim(1) by auto
  moreover have "tr_id x \<notin> fst ` set runs" using free by force
  ultimately show ?thesis
    using Claim(1,2) ok x(1,4) assms(2) by auto
next
  case (NoClaim db r db' e runs)
  then have "db_ok db'" using db_exec_inv [of db F DClaimNextTestURL] assms(2) by simp
  moreover from NoClaim(3) have "d_tests db' = d_tests db \<and> d_now db' = d_now db
      \<and> d_next_test db' = d_next_test db"
    by (cases rule: claim_cases) (use NoClaim(4) in auto)
  ultimately show ?thesis using NoClaim(1,2) assms(2) by (simp add: holds_row_def)
next
  case (Finish i st e m z d db err db' a t b)
  then have ok: "db_ok db'" using test_ops_inv(4) [of db F i st e m z d] assms(2) by simp
  from finish_tests [OF Finish(3)] obtain f where
    f: "d_now db' = d_now db" "d_next_test db' = d_next_test db"
      "d_tests db' = update_test i f (d_tests db)" "\<And>r. tr_id (f r) = tr_id r" by blast
  have "holds_row db' j u \<and> d_now db' \<le> u + L" if "(j, u) \<in> set (a @ b)" for j u
  proof -
    have "j \<noteq> i" "holds_row db j u \<and> d_now db \<le> u + L"
      using that assms(2) Finish(1) by (auto simp: image_iff)
    then show ?thesis using f by (auto simp: holds_row_def update_test_def)
  qed
  with ok Finish(1,2) assms(2) show ?thesis by auto
next
  case (Crash db a i t b)
  with assms(2) show ?thesis by auto
next
  case (Create url p db r db' runs)
  then have "db_ok db'" using test_ops_inv(1) [of db F url p] assms(2) by simp
  with Create(1,2) assms(2) create_tests [OF Create(3)] show ?thesis
    by (fastforce simp: holds_row_def)
next
  case (Delete i db err db' runs)
  then have "db_ok db'" using test_ops_inv(2) [of db F i] assms(2) by simp
  with Delete(1,2) assms(2) delete_tests [OF Delete(3)] show ?thesis
    by (fastforce simp: holds_row_def)
next
  case (Requeue j db r db' runs)
  then have "db_ok db'" using test_ops_inv(5) [of db F j] assms(2) by simp
  with Requeue(1,2) assms(2) requeue_tests [OF Requeue(3)] show ?thesis
    by (fastforce simp: holds_row_def finished_def)
next
  case (Wait runs db n)
  with assms(2) show ?thesis by (auto simp: holds_row_def)
qed

text \<open>
  C36. With any number of workers, and with requests of the dashboard, crashes and failing statements
  in between, no row is run twice at once, as long as no run outlasts the quarter of an hour after
  which a running row counts as stale.
\<close>

theorem rows_run_once_at_a_time:
  assumes "db_ok db" "(runner_step L F)\<^sup>*\<^sup>* (db, []) (db', runs)" "L \<le> staleness"
  shows "distinct (List.map fst runs)"
proof -
  have "runs_ok L s'" if "(runner_step L F)\<^sup>*\<^sup>* s s'" "runs_ok L s" for s s'
    using that by (induction rule: rtranclp_induct) (auto intro: runs_ok_step [OF _ _ assms(3)])
  from this [OF assms(2)] show ?thesis using assms(1) by simp
qed

text \<open>One row, claimed at once and again a little more than a quarter of an hour later.\<close>

definition listed :: database where
  "listed = snd (CreateTestURL (\<lambda>_. None) ''u'' ''youtube'' empty_tables)"

definition claimed :: database where
  "claimed = snd (ClaimNextTestURL (\<lambda>_. None) listed)"

definition later :: database where
  "later = claimed\<lparr>d_now := d_now claimed + Suc staleness\<rparr>"

lemmas run_tables = listed_def claimed_def later_def empty_tables_def CreateTestURL_def
  ClaimNextTestURL_def stmt_def update_test_def claim_row_def claimable_def

lemma first_claim: "runner_step L (\<lambda>_. None) (listed, []) (claimed, [(1, 0)])"
  using runner_step.Claim [of "\<lambda>_. None" listed _ claimed L "[]"]
  by (simp add: run_tables Let_def)

lemma listed_step: "runner_step L (\<lambda>_. None) (empty_tables, []) (listed, [])"
  by (rule runner_step.Create [of _ "''u''" "''youtube''" _ "fst (CreateTestURL (\<lambda>_. None) ''u'' ''youtube'' empty_tables)"])
    (simp add: listed_def)

lemma rows_run_once_at_a_time_witness:
  "(runner_step staleness (\<lambda>_. None))\<^sup>*\<^sup>* (empty_tables, []) (claimed, [(1, 0)])
   \<and> distinct (List.map fst [(1 :: int, 0 :: nat)])"
proof -
  have r: "(runner_step staleness (\<lambda>_. None))\<^sup>*\<^sup>* (empty_tables, []) (claimed, [(1, 0)])"
    by (rule rtranclp.rtrancl_into_rtrancl [where b = "(listed, [])"])
      (auto intro: listed_step first_claim)
  from rows_run_once_at_a_time [OF empty_tables_ok r] r show ?thesis by simp
qed

text \<open>
  The time after which a row counts as stale is shorter than the timeouts an operator may set: YouTube's
  may be an hour, and with runs that long a second worker claims a row that is still being run.
\<close>

theorem long_runs_overlap:
  "map_option MaxValue (Lookup ''youtube.timeout_sec'') = Some 3600
   \<and> (\<exists>db t. (runner_step (3600 * 1000000) (\<lambda>_. None))\<^sup>*\<^sup>* (empty_tables, []) (db, [(1, t), (1, 0)]))"
proof
  show "map_option MaxValue (Lookup ''youtube.timeout_sec'') = Some 3600"
    by (simp add: Lookup_def registry_def intSetting_def boolSetting_def choiceSetting_def)
  let ?step = "runner_step (3600 * 1000000) (\<lambda>_. None)"
  have "?step (claimed, [(1, 0)]) (later, [(1, 0)])"
    unfolding later_def by (rule runner_step.Wait) (simp add: run_tables staleness_def Let_def test_status_defs)
  moreover have "?step (later, [(1, 0)]) (snd (ClaimNextTestURL (\<lambda>_. None) later), [(1, Suc staleness), (1, 0)])"
    using runner_step.Claim [of "\<lambda>_. None" later _ "snd (ClaimNextTestURL (\<lambda>_. None) later)" "3600 * 1000000" "[(1, 0)]"]
    by (simp add: run_tables Let_def test_status_defs)
  ultimately have "?step\<^sup>*\<^sup>* (empty_tables, [])
      (snd (ClaimNextTestURL (\<lambda>_. None) later), [(1, Suc staleness), (1, 0)])"
    using listed_step [of "3600 * 1000000"] first_claim [of "3600 * 1000000"]
    by (meson rtranclp.rtrancl_refl rtranclp.rtrancl_into_rtrancl)
  then show "\<exists>db t. ?step\<^sup>*\<^sup>* (empty_tables, []) (db, [(1, t), (1, 0)])" by blast
qed

end
