(* ===== verification/Video.thy ===== *)
theory Video
  imports Ytdlp Gofloat
begin

text \<open>
  \<open>go/internal/video/processor.go\<close>: what is probed of a video, when it is encoded again and what
  happens to the files. The programs ffmpeg and ffprobe and the failures of removing and renaming a
  file are given by a host; floats are exact, with the special values a probe may print.
\<close>

subsection \<open>The host\<close>

text \<open>
  Running a program gives its output, its error and the files after it; the context's deadline is part
  of that answer. A map is iterated in any order, which the host chooses at each call, and
  the conversion of an infinite or undefined float to an integer is the implementation's choice.
\<close>

record host =
  h_run :: "string list \<Rightarrow> nat \<Rightarrow> files \<Rightarrow> (string \<times> go_error option) \<times> files"
  h_output :: "string list \<Rightarrow> files \<Rightarrow> string result"
  h_remove :: "string \<Rightarrow> files \<Rightarrow> go_error option"
  h_rename :: "string \<Rightarrow> string \<Rightarrow> files \<Rightarrow> go_error option"
  h_order :: "files \<Rightarrow> int \<Rightarrow> (int \<times> int) list"
  h_odd_int :: "gofloat \<Rightarrow> int"

definition os_remove :: "host \<Rightarrow> string \<Rightarrow> files \<Rightarrow> go_error option \<times> files" where
  "os_remove H p fs =
     (if fs p = None then (Some ''no such file or directory'', fs)
      else case h_remove H p fs of
        Some e \<Rightarrow> (Some e, fs)
      | None \<Rightarrow> (None, fs(p := None)))"

definition os_rename :: "host \<Rightarrow> string \<Rightarrow> string \<Rightarrow> files \<Rightarrow> go_error option \<times> files" where
  "os_rename H p q fs =
     (if fs p = None then (Some ''no such file or directory'', fs)
      else case h_rename H p q fs of
        Some e \<Rightarrow> (Some e, fs)
      | None \<Rightarrow> (None, (fs(p := None))(q := fs p)))"

definition fl_div :: "rat \<Rightarrow> gofloat \<Rightarrow> gofloat" where
  "fl_div a x =
     (case x of
        Fin b \<Rightarrow>
          if b \<noteq> 0 then Fin (a / b) else if a > 0 then PosInf else if a < 0 then NegInf else NaN
      | NaN \<Rightarrow> NaN
      | _ \<Rightarrow> Fin 0)"

definition fl_to_int :: "host \<Rightarrow> gofloat \<Rightarrow> int" where
  "fl_to_int H x = (case x of Fin q \<Rightarrow> trunc q | _ \<Rightarrow> h_odd_int H x)"

subsection \<open>Running ffmpeg and ffprobe\<close>

definition runFFmpegWithTimeout ::
  "host \<Rightarrow> string list \<Rightarrow> nat \<Rightarrow> files \<Rightarrow> go_error option \<times> files" where
  "runFFmpegWithTimeout H args timeout fs =
     (case h_run H args timeout fs of
        ((out, Some err), fs) \<Rightarrow>
          let detail = trim_space out; detail = (if detail = [] then err else detail) in
          (Some (take 500 detail), fs)
      | ((out, None), fs) \<Rightarrow>
          if fs (last args) = None then (Some ''ffmpeg produced no output file'', fs) else (None, fs))"

definition minute :: nat where "minute = 60 * 1000000"

definition runFFmpeg :: "host \<Rightarrow> string list \<Rightarrow> files \<Rightarrow> go_error option \<times> files" where
  "runFFmpeg H args = runFFmpegWithTimeout H args (5 * minute)"

definition probeDurationSeconds :: "host \<Rightarrow> string \<Rightarrow> files \<Rightarrow> gofloat result" where
  "probeDurationSeconds H path fs =
     (case h_output H [''ffprobe'', ''-v'', ''error'', ''-show_entries'', ''format=duration'',
                       ''-of'', ''csv=p=0'', path] fs of
        Inl e \<Rightarrow> Inl e
      | Inr out \<Rightarrow>
          (case parse_float (trim_space out) of
             None \<Rightarrow> Inl ''invalid syntax''
           | Some d \<Rightarrow> Inr d))"

definition probeDimensions :: "host \<Rightarrow> string \<Rightarrow> files \<Rightarrow> (int \<times> int) result" where
  "probeDimensions H path fs =
     (case h_output H [''ffprobe'', ''-v'', ''error'', ''-select_streams'', ''v:0'',
                       ''-show_entries'', ''stream=width,height'', ''-of'', ''csv=p=0:s=x'', path] fs of
        Inl e \<Rightarrow> Inl e
      | Inr out \<Rightarrow>
          (case split_char CHR ''x'' (trim_space out) of
             [ws, hs] \<Rightarrow>
               (case (atoi ws, atoi hs) of
                  (Some w, Some h) \<Rightarrow> Inr (w, h)
                | _ \<Rightarrow> Inl ''invalid dimensions'')
           | _ \<Rightarrow> Inl ''invalid ffprobe output''))"

definition Probe_video :: "host \<Rightarrow> string \<Rightarrow> files \<Rightarrow> (int \<times> int \<times> gofloat) result" where
  "Probe_video H path fs =
     (case probeDimensions H path fs of
        Inl e \<Rightarrow> Inl e
      | Inr (w, h) \<Rightarrow>
          (case probeDurationSeconds H path fs of
             Inl e \<Rightarrow> Inr (w, h, Fin 0)
           | Inr d \<Rightarrow> Inr (w, h, d)))"

definition HasAudioStream :: "host \<Rightarrow> string \<Rightarrow> files \<Rightarrow> bool result" where
  "HasAudioStream H path fs =
     (case h_output H [''ffprobe'', ''-v'', ''error'', ''-select_streams'', ''a'',
                       ''-show_entries'', ''stream=codec_type'', ''-of'', ''csv=p=0'', path] fs of
        Inl e \<Rightarrow> Inl e
      | Inr out \<Rightarrow> Inr (trim_space out \<noteq> []))"

text \<open>The function of the same name in \<open>ytdlp/downloader.go\<close>: a failing probe counts as sound.\<close>

definition has_audio :: "host \<Rightarrow> string \<Rightarrow> files \<Rightarrow> bool" where
  "has_audio H path fs =
     (case h_output H [''ffprobe'', ''-v'', ''error'', ''-select_streams'', ''a'',
                       ''-show_entries'', ''stream=index'', ''-of'', ''csv=p=0'', path] fs of
        Inl e \<Rightarrow> True
      | Inr out \<Rightarrow> trim_space out \<noteq> [])"

definition probeSAR :: "host \<Rightarrow> string \<Rightarrow> files \<Rightarrow> string result" where
  "probeSAR H path fs =
     (case h_output H [''ffprobe'', ''-v'', ''error'', ''-select_streams'', ''v:0'',
                       ''-show_entries'', ''stream=sample_aspect_ratio'', ''-of'', ''csv=p=0'', path] fs of
        Inl e \<Rightarrow> Inl e
      | Inr out \<Rightarrow> Inr (trim_space out))"

subsection \<open>A fixed aspect ratio\<close>

definition ratioDimensions :: "string \<Rightarrow> (int \<Rightarrow> (int \<times> int) option) option" where
  "ratioDimensions = map_of
     [(''16_9'', map_of [(1080, (1920, 1080)), (720, (1280, 720)), (480, (854, 480)), (360, (640, 360)),
        (240, (426, 240)), (144, (256, 144))]),
      (''21_9'', map_of [(1080, (2560, 1080)), (720, (1680, 720)), (480, (1120, 480)), (360, (840, 360)),
        (240, (560, 240)), (144, (336, 144))]),
      (''9_16'', map_of [(1080, (1080, 1920)), (720, (720, 1280)), (480, (480, 854)), (360, (360, 640)),
        (240, (240, 426)), (144, (144, 256))])]"

definition aspect_path :: "string \<Rightarrow> string \<Rightarrow> string" where
  "aspect_path sourcePath aspectRatio =
     trim_suffix sourcePath (ext sourcePath) @ ''_'' @ aspectRatio @ ''.mp4''"

definition ApplyAspectRatio ::
  "host \<Rightarrow> string \<Rightarrow> string \<Rightarrow> int \<Rightarrow> files \<Rightarrow> string result \<times> files" where
  "ApplyAspectRatio H sourcePath aspectRatio quality fs =
     (case ratioDimensions aspectRatio of
        None \<Rightarrow> (Inl (''unsupported aspect ratio: '' @ aspectRatio), fs)
      | Some ratioMap \<Rightarrow>
          (case ratioMap quality of
             None \<Rightarrow> (Inl (''unsupported quality for ratio: '' @ itoa quality), fs)
           | Some (width, height) \<Rightarrow>
               let outputPath = aspect_path sourcePath aspectRatio in
               if probeDimensions H sourcePath fs = Inr (width, height) then
                 if sourcePath = outputPath then (Inr sourcePath, fs)
                 else
                   (case runFFmpeg H [''ffmpeg'', ''-y'', ''-i'', sourcePath, ''-c'', ''copy'',
                                      ''-movflags'', ''+faststart'', outputPath] fs of
                      (Some e, fs) \<Rightarrow> (Inl e, fs)
                    | (None, fs) \<Rightarrow> (Inr outputPath, fs))
               else
                 let wh = itoa width @ '':'' @ itoa height;
                     vf = ''scale='' @ wh @ '':force_original_aspect_ratio=increase,crop='' @ wh;
                     base = [''ffmpeg'', ''-y'', ''-i'', sourcePath, ''-vf'', vf, ''-c:v'', ''libx264'',
                             ''-preset'', ''ultrafast'', ''-crf'', ''28'', ''-threads'', ''1'',
                             ''-movflags'', ''+faststart''] in
                 (case runFFmpeg H (base @ [''-c:a'', ''copy'', outputPath]) fs of
                    (None, fs) \<Rightarrow> (Inr outputPath, fs)
                  | (Some _, fs) \<Rightarrow>
                      (case runFFmpeg H (base @ [''-c:a'', ''aac'', ''-b:a'', ''128k'', outputPath]) fs of
                         (None, fs) \<Rightarrow> (Inr outputPath, fs)
                       | (Some e, fs) \<Rightarrow> (Inl e, fs)))))"

subsection \<open>Target bitrates\<close>

definition bitrateLadderKbps :: "(int \<times> int) list" where
  "bitrateLadderKbps = [(2160, 12000), (1440, 8000), (1080, 4500), (720, 2500), (480, 1200), (360, 700)]"

text \<open>The loop over the ladder in the order the map is iterated in.\<close>

fun bitrate_loop :: "int \<Rightarrow> (int \<times> int) list \<Rightarrow> int \<Rightarrow> int \<Rightarrow> int" where
  "bitrate_loop height [] best bestDiff = best"
| "bitrate_loop height ((h, kbps) # rest) best bestDiff =
     (let diff = \<bar>h - height\<bar> in
      if bestDiff = -1 \<or> diff < bestDiff then bitrate_loop height rest kbps diff
      else bitrate_loop height rest best bestDiff)"

definition targetBitrateKbps :: "(int \<times> int) list \<Rightarrow> int \<Rightarrow> int" where
  "targetBitrateKbps order height = bitrate_loop height order 0 (-1)"

definition fitHeights :: "int list" where "fitHeights = [0, 720, 480, 360, 240]"

fun fit_loop :: "(int \<Rightarrow> (int \<times> int) list) \<Rightarrow> int \<Rightarrow> int \<Rightarrow> int list \<Rightarrow> int \<Rightarrow> int" where
  "fit_loop order src budget [] result = result"
| "fit_loop order src budget (h # hs) result =
     (if h \<noteq> 0 \<and> h > src then result
      else
        let cand = (if h = 0 then src else h) in
        if budget \<ge> targetBitrateKbps (order cand) cand div 2 then cand
        else fit_loop order src budget hs cand)"

definition fitHeight :: "(int \<Rightarrow> (int \<times> int) list) \<Rightarrow> int \<Rightarrow> int \<Rightarrow> int" where
  "fitHeight order srcShortSide videoKbpsBudget =
     fit_loop order srcShortSide videoKbpsBudget fitHeights srcShortSide"

subsection \<open>Smaller files\<close>

text \<open>The end of both encodings: the new file takes the place of the source.\<close>

definition swap_in :: "host \<Rightarrow> string \<Rightarrow> string \<Rightarrow> string \<Rightarrow> files \<Rightarrow> bool \<times> files" where
  "swap_in H tmpPath sourcePath finalPath fs =
     (let (gone, fs) =
        (if finalPath \<noteq> sourcePath then
           (case os_remove H sourcePath fs of
              (Some _, fs) \<Rightarrow> (False, snd (os_remove H tmpPath fs))
            | (None, fs) \<Rightarrow> (True, fs))
         else (True, fs)) in
      if \<not> gone then (False, fs)
      else
        (case os_rename H tmpPath finalPath fs of
           (Some _, fs) \<Rightarrow> (False, fs)
         | (None, fs) \<Rightarrow> (True, fs)))"

definition kbps :: "int \<Rightarrow> string" where "kbps n = itoa n @ ''k''"

definition CompressIfOversized ::
  "host \<Rightarrow> string \<Rightarrow> int \<Rightarrow> files \<Rightarrow> string \<times> files" where
  "CompressIfOversized H sourcePath minDurationSec fs =
     (case probeDurationSeconds H sourcePath fs of
        Inl _ \<Rightarrow> (sourcePath, fs)
      | Inr duration \<Rightarrow>
          if fl_less duration (Fin (of_int minDurationSec)) then (sourcePath, fs)
          else
            (case (probeDimensions H sourcePath fs, file_size fs sourcePath) of
               (Inr (_, height), Some bytes) \<Rightarrow>
                 let currentKbps = (case fl_div (of_int (bytes * 8)) duration of
                                      Fin q \<Rightarrow> Fin (q / 1000) | x \<Rightarrow> x);
                     target = targetBitrateKbps (h_order H fs height) height in
                 if fl_le currentKbps (Fin (of_int target * 12 / 10)) then (sourcePath, fs)
                 else
                   let base = trim_suffix sourcePath (ext sourcePath);
                       tmpPath = base @ ''_compressed_tmp.mp4'';
                       finalPath = base @ ''.mp4'' in
                   (case runFFmpegWithTimeout H
                           [''ffmpeg'', ''-y'', ''-i'', sourcePath, ''-c:v'', ''libx264'', ''-preset'', ''slow'',
                            ''-crf'', ''23'', ''-maxrate'', kbps (target * 12 div 10), ''-bufsize'',
                            kbps (target * 2), ''-c:a'', ''copy'', ''-movflags'', ''+faststart'', tmpPath]
                           (20 * minute) fs of
                      (Some _, fs) \<Rightarrow> (sourcePath, snd (os_remove H tmpPath fs))
                    | (None, fs) \<Rightarrow>
                        (case swap_in H tmpPath sourcePath finalPath fs of
                           (True, fs) \<Rightarrow> (finalPath, fs)
                         | (False, fs) \<Rightarrow> (sourcePath, fs)))
             | _ \<Rightarrow> (sourcePath, fs)))"

text \<open>The bitrates of \<open>CompressToFit\<close>: the budget of the picture and of the sound.\<close>

definition fit_bitrates :: "host \<Rightarrow> int \<Rightarrow> gofloat \<Rightarrow> bool \<Rightarrow> int \<times> int" where
  "fit_bitrates H maxBytes duration hasAudio =
     (let totalKbps = (case fl_div (of_int maxBytes * 8 * 95 / 100) duration of
                         Fin q \<Rightarrow> Fin (q / 1000) | x \<Rightarrow> x);
          audioKbps = (if \<not> hasAudio then 0 else if fl_le (Fin 256) totalKbps then 128 else 64) in
      (fl_to_int H totalKbps - audioKbps, audioKbps))"

definition fit_args :: "string \<Rightarrow> string \<Rightarrow> int \<Rightarrow> int \<Rightarrow> bool \<Rightarrow> string \<Rightarrow> string list" where
  "fit_args sourcePath vf videoKbps audioKbps hasAudio tmpPath =
     [''ffmpeg'', ''-y'', ''-i'', sourcePath]
     @ (if vf \<noteq> [] then [''-vf'', vf] else [])
     @ [''-c:v'', ''libx264'', ''-preset'', ''medium'', ''-b:v'', kbps videoKbps, ''-maxrate'',
        kbps (videoKbps * 12 div 10), ''-bufsize'', kbps (videoKbps * 2), ''-pix_fmt'', ''yuv420p'']
     @ (if hasAudio then [''-c:a'', ''aac'', ''-b:a'', kbps audioKbps] else [''-an''])
     @ [''-movflags'', ''+faststart'', tmpPath]"

definition fit_filter :: "host \<Rightarrow> string \<Rightarrow> int \<Rightarrow> files \<Rightarrow> string" where
  "fit_filter H sourcePath videoKbps fs =
     (let side = (case probeDimensions H sourcePath fs of Inl _ \<Rightarrow> 0 | Inr (w, h) \<Rightarrow> if h < w then h else w);
          fitted = fitHeight (h_order H fs) side videoKbps in
      if side > 0 \<and> fitted \<noteq> side then ''scale=-2:'' @ itoa fitted else [])"

definition CompressToFit :: "host \<Rightarrow> string \<Rightarrow> int \<Rightarrow> files \<Rightarrow> (string \<times> bool) \<times> files" where
  "CompressToFit H sourcePath maxBytes fs =
     (case (probeDurationSeconds H sourcePath fs, HasAudioStream H sourcePath fs) of
        (Inr duration, Inr hasAudio) \<Rightarrow>
          let (videoKbps, audioKbps) = fit_bitrates H maxBytes duration hasAudio in
          if fl_le duration (Fin 0) \<or> videoKbps < 120 then ((sourcePath, False), fs)
          else
            let base = trim_suffix sourcePath (ext sourcePath);
                tmpPath = base @ ''_fittmp.mp4'';
                finalPath = base @ ''.mp4'' in
            (case runFFmpegWithTimeout H (fit_args sourcePath (fit_filter H sourcePath videoKbps fs)
                    videoKbps audioKbps hasAudio tmpPath) (30 * minute) fs of
               (Some _, fs) \<Rightarrow> ((sourcePath, False), snd (os_remove H tmpPath fs))
             | (None, fs) \<Rightarrow>
                 if (case file_size fs tmpPath of None \<Rightarrow> True | Some n \<Rightarrow> n > maxBytes)
                 then ((sourcePath, False), snd (os_remove H tmpPath fs))
                 else
                   (case swap_in H tmpPath sourcePath finalPath fs of
                      (True, fs) \<Rightarrow> ((finalPath, True), fs)
                    | (False, fs) \<Rightarrow> ((sourcePath, False), fs)))
      | _ \<Rightarrow> ((sourcePath, False), fs))"

subsection \<open>Thumbnails, sound and pixel shape\<close>

definition GenerateThumbnail :: "host \<Rightarrow> string \<Rightarrow> files \<Rightarrow> string result \<times> files" where
  "GenerateThumbnail H videoPath fs =
     (let thumbPath = trim_suffix videoPath (ext videoPath) @ ''_thumb.jpg'' in
      case runFFmpegWithTimeout H
             [''ffmpeg'', ''-y'', ''-ss'', ''00:00:00.1'', ''-i'', videoPath, ''-frames:v'', ''1'', ''-vf'',
              ''scale='' @ [CHR 0x27] @ ''min(320,iw)'' @ [CHR 0x27] @ '':'' @ [CHR 0x27] @ ''min(320,ih)'' @
                [CHR 0x27] @ '':force_original_aspect_ratio=decrease'',
              ''-q:v'', ''4'', thumbPath] (30 * 1000000) fs of
        (Some e, fs) \<Rightarrow> (Inl e, fs)
      | (None, fs) \<Rightarrow> (Inr thumbPath, fs))"

text \<open>The end shared by the two functions below: the source goes, the new file takes its name.\<close>

definition replace_source ::
  "host \<Rightarrow> string \<Rightarrow> string \<Rightarrow> files \<Rightarrow> (string \<times> go_error option) \<times> files" where
  "replace_source H outputPath sourcePath fs =
     (case os_remove H sourcePath fs of
        (Some e, fs) \<Rightarrow> ((sourcePath, Some e), snd (os_remove H outputPath fs))
      | (None, fs) \<Rightarrow>
          let finalPath = trim_suffix sourcePath (ext sourcePath) @ ''.mp4'' in
          (case os_rename H outputPath finalPath fs of
             (Some e, fs) \<Rightarrow> ((sourcePath, Some e), fs)
           | (None, fs) \<Rightarrow> ((finalPath, None), fs)))"

definition MuxAudioFrom ::
  "host \<Rightarrow> string \<Rightarrow> string \<Rightarrow> files \<Rightarrow> (string \<times> go_error option) \<times> files" where
  "MuxAudioFrom H videoPath audioSourcePath fs =
     (let outputPath = trim_suffix videoPath (ext videoPath) @ ''_muxed.mp4'' in
      case runFFmpegWithTimeout H
             [''ffmpeg'', ''-y'', ''-i'', videoPath, ''-i'', audioSourcePath, ''-map'', ''0:v:0'',
              ''-map'', ''1:a:0'', ''-c:v'', ''copy'', ''-c:a'', ''copy'', ''-shortest'',
              ''-movflags'', ''+faststart'', outputPath] (3 * minute) fs of
        (Some e, fs) \<Rightarrow> ((videoPath, Some e), fs)
      | (None, fs) \<Rightarrow> replace_source H outputPath videoPath fs)"

definition NormalizeSAR :: "host \<Rightarrow> string \<Rightarrow> files \<Rightarrow> string \<times> files" where
  "NormalizeSAR H sourcePath fs =
     (case probeSAR H sourcePath fs of
        Inl _ \<Rightarrow> (sourcePath, fs)
      | Inr sar \<Rightarrow>
          if sar \<in> {[], ''0:1'', ''1:1'', ''N/A''} then (sourcePath, fs)
          else
            let outputPath = trim_suffix sourcePath (ext sourcePath) @ ''_sar1.mp4'' in
            (case runFFmpegWithTimeout H
                    [''ffmpeg'', ''-y'', ''-i'', sourcePath, ''-vf'', ''scale=trunc(iw*sar/2)*2:ih,setsar=1'',
                     ''-c:v'', ''libx264'', ''-preset'', ''veryfast'', ''-crf'', ''20'',
                     ''-c:a'', ''copy'', ''-movflags'', ''+faststart'', outputPath] (3 * minute) fs of
               (Some _, fs) \<Rightarrow> (sourcePath, fs)
             | (None, fs) \<Rightarrow>
                 (case replace_source H outputPath sourcePath fs of ((path, _), fs) \<Rightarrow> (path, fs))))"

end
