(* ===== verification/Video_Props.thy ===== *)
theory Video_Props
  imports Video
begin

text \<open>
  What the encoding functions keep: files other than the ones they name stay, a file made to fit does
  fit, the output height is the tallest the bitrate sustains (where the loop gets that far), and where
  the result depends on the order a map is iterated in.
\<close>

subsection \<open>Laws of the host\<close>

text \<open>A program writes the file named last on its command line and no other, and no directory there.\<close>

definition lawful_host :: "host \<Rightarrow> bool" where
  "lawful_host H \<longleftrightarrow>
     (\<forall>args t fs p. p \<noteq> last args \<longrightarrow> snd (h_run H args t fs) p = fs p)"

text \<open>Removing and renaming an existing file work.\<close>

definition reliable_host :: "host \<Rightarrow> bool" where
  "reliable_host H \<longleftrightarrow> (\<forall>p q fs. h_remove H p fs = None \<and> h_rename H p q fs = None)"

lemma run_frame:
  assumes "lawful_host H" "runFFmpegWithTimeout H args t fs = (e, fs')"
  shows "p \<noteq> last args \<Longrightarrow> fs' p = fs p" "e = None \<Longrightarrow> fs' (last args) \<noteq> None"
proof -
  obtain out err fs1 where r: "h_run H args t fs = ((out, err), fs1)" by (metis prod.exhaust)
  with assms(2) have "fs' = fs1" by (auto simp: runFFmpegWithTimeout_def Let_def split: option.splits if_splits)
  moreover from assms(1) r have "p \<noteq> last args \<Longrightarrow> fs1 p = fs p"
    by (metis lawful_host_def snd_conv)
  ultimately show "p \<noteq> last args \<Longrightarrow> fs' p = fs p" by simp
  show "e = None \<Longrightarrow> fs' (last args) \<noteq> None"
    using assms(2) r by (auto simp: runFFmpegWithTimeout_def Let_def split: option.splits if_splits)
qed

lemma remove_frame: "os_remove H p fs = (e, fs') \<Longrightarrow> q \<noteq> p \<Longrightarrow> fs' q = fs q"
  by (auto simp: os_remove_def split: if_splits option.splits)

lemma remove_done: "os_remove H p fs = (None, fs') \<Longrightarrow> fs' = fs(p := None)"
  by (auto simp: os_remove_def split: if_splits option.splits)

lemma rename_frame: "os_rename H p q fs = (e, fs') \<Longrightarrow> x \<notin> {p, q} \<Longrightarrow> fs' x = fs x"
  by (auto simp: os_rename_def split: if_splits option.splits)

lemma rename_done: "os_rename H p q fs = (None, fs') \<Longrightarrow> fs' = (fs(p := None))(q := fs p)"
  by (auto simp: os_rename_def split: if_splits option.splits)

lemma reliable_ops:
  assumes "reliable_host H" "fs p \<noteq> None"
  shows "fst (os_remove H p fs) = None" "fst (os_rename H p q fs) = None"
  using assms by (auto simp: reliable_host_def os_remove_def os_rename_def)

subsection \<open>Names\<close>

lemma ext_cases: "ext p = [] \<or> (\<exists>r. ext p = CHR ''.'' # r)"
  by (auto simp: ext_def Let_def)

lemma ext_suffix: "\<exists>u. p = u @ ext p"
proof -
  let ?b = "base_name p"
  obtain v where b: "p = v @ ?b"
    by (metis base_name_def rev_append rev_rev_ident takeWhile_dropWhile_id)
  show ?thesis
  proof (cases "CHR ''.'' \<in> set ?b")
    case True
    then obtain u z where z: "?b = u @ CHR ''.'' # z" "CHR ''.'' \<notin> set z" by (meson split_list_last)
    have "takeWhile (\<lambda>c. c \<noteq> CHR ''.'') (rev z @ CHR ''.'' # rev u) = rev z"
      using z(2) by (subst takeWhile_append2) auto
    then have "ext p = CHR ''.'' # z" using True z(1) by (simp add: ext_def)
    with b z(1) show ?thesis by (metis append.assoc)
  qed (simp add: ext_def)
qed

lemma trim_suffix_append: "trim_suffix (u @ e) e = u"
  by (simp add: trim_suffix_def has_suffix_def has_prefix_def)

lemma base_ext: "trim_suffix p (ext p) @ ext p = p"
  using ext_suffix [of p] trim_suffix_append by metis

text \<open>A name made from the base and a suffix that is not an extension is another file.\<close>

lemma other_name:
  assumes "x \<noteq> CHR ''.''"
  shows "trim_suffix p (ext p) @ x # s \<noteq> p"
proof
  assume "trim_suffix p (ext p) @ x # s = p"
  then have "x # s = ext p" using base_ext [of p] by (metis same_append_eq)
  with ext_cases [of p] assms show False by auto
qed

subsection \<open>Fitting a file into the upload limit\<close>

lemma swap_in_cases:
  assumes "swap_in H tmp src final fs = (ok, fs')" "tmp \<noteq> src" "tmp \<noteq> final" "fs tmp \<noteq> None"
  shows "p \<notin> {src, tmp, final} \<Longrightarrow> fs' p = fs p"
    and "ok \<Longrightarrow> fs' final = fs tmp \<and> fs' tmp = None \<and> (final \<noteq> src \<longrightarrow> fs' src = None)"
    and "reliable_host H \<Longrightarrow> fs src \<noteq> None \<Longrightarrow> ok"
proof -
  obtain e1 fs1 where r: "os_remove H src fs = (e1, fs1)" by fastforce
  obtain e2 fs2 where r2: "os_remove H tmp fs1 = (e2, fs2)" by fastforce
  obtain e3 fs3 where r3: "os_rename H tmp final (if final = src then fs else fs1) = (e3, fs3)" by fastforce
  note rs = r r2 r3
  show "p \<notin> {src, tmp, final} \<Longrightarrow> fs' p = fs p"
    using assms(1) rs remove_frame [OF r] remove_frame [OF r2] rename_frame [OF r3]
    by (auto simp: swap_in_def split: if_splits option.splits)
  show "ok \<Longrightarrow> fs' final = fs tmp \<and> fs' tmp = None \<and> (final \<noteq> src \<longrightarrow> fs' src = None)"
    using assms rs by (auto simp: swap_in_def dest!: remove_done rename_done split: if_splits option.splits)
  assume h: "reliable_host H" "fs src \<noteq> None"
  then have e1: "e1 = None" using reliable_ops(1) [of H fs src] h r by simp
  then have "fs1 tmp = fs tmp" using remove_frame [OF r assms(2)] by simp
  then have "e3 = None"
    using reliable_ops(2) [OF h(1), of "if final = src then fs else fs1" tmp final] r3 assms(4) by simp
  with e1 assms(1) rs show ok by (auto simp: swap_in_def split: if_splits)
qed

lemma fit_args_last: "last (fit_args src vf v a b tmp) = tmp"
  by (simp add: fit_args_def)

lemma fitted_fits:
  fixes src :: string
  assumes "lawful_host H" "fs src = Some nd" "CompressToFit H src m fs = ((path, ok), fs')"
  defines "b \<equiv> trim_suffix src (ext src)"
  shows "(if ok then path = b @ ''.mp4'' \<and> (\<exists>n. file_size fs' path = Some n \<and> n \<le> m)
        \<and> fs' (b @ ''_fittmp.mp4'') = None \<and> (path \<noteq> src \<longrightarrow> fs' src = None)
      else path = src \<and> (reliable_host H \<longrightarrow> fs' src = fs src))
    \<and> (\<forall>p. p \<notin> {src, b @ ''.mp4'', b @ ''_fittmp.mp4''} \<longrightarrow> fs' p = fs p)"
proof -
  let ?tmp = "b @ ''_fittmp.mp4''" and ?final = "b @ ''.mp4''"
  have ne: "?tmp \<noteq> src" "?tmp \<noteq> ?final" using other_name [of "CHR ''_''" src "''fittmp.mp4''"] by (auto simp: b_def)
  show ?thesis
  proof (cases "fs' = fs \<and> path = src \<and> \<not> ok")
    case False
    with assms(3) obtain d a where da: "probeDurationSeconds H src fs = Inr d" "HasAudioStream H src fs = Inr a"
      by (auto simp: CompressToFit_def split: sum.splits)
    obtain vk ak where k: "fit_bitrates H m d a = (vk, ak)" by fastforce
    let ?args = "fit_args src (fit_filter H src vk fs) vk ak a ?tmp"
    obtain e fs1 where r: "runFFmpegWithTimeout H ?args (30 * minute) fs = (e, fs1)" by fastforce
    have f1: "fs1 p = fs p" if "p \<noteq> ?tmp" for p using run_frame(1) [OF assms(1) r] that by (simp add: fit_args_last)
    let ?fail = "e \<noteq> None \<or> (case file_size fs1 ?tmp of None \<Rightarrow> True | Some n \<Rightarrow> n > m)"
    from False assms(3) da k r have c: "
       (if ?fail then ((src, False), snd (os_remove H ?tmp fs1))
        else case swap_in H ?tmp src ?final fs1 of (True, f) \<Rightarrow> ((?final, True), f) | (False, f) \<Rightarrow> ((src, False), f))
       = ((path, ok), fs')"
      unfolding b_def by (auto simp: CompressToFit_def Let_def split: if_splits option.splits)
    show ?thesis
    proof (cases ?fail)
      case True
      obtain e2 fs2 where "os_remove H ?tmp fs1 = (e2, fs2)" by fastforce
      with c True f1 ne remove_frame [OF this] show ?thesis by auto
    next
      case F: False
      then obtain n where n: "file_size fs1 ?tmp = Some n" "n \<le> m" by (auto split: option.splits)
      then have t: "fs1 ?tmp \<noteq> None" by (cases "fs1 ?tmp") (auto simp: file_size_def)
      obtain k' fs2 where w: "swap_in H ?tmp src ?final fs1 = (k', fs2)" by fastforce
      note sw = swap_in_cases [OF w ne t]
      from c F w have o: "ok = k'" "fs' = fs2" "path = (if k' then ?final else src)" by (auto split: bool.splits)
      have "\<forall>p. p \<notin> {src, ?final, ?tmp} \<longrightarrow> fs' p = fs p" using sw(1) f1 o(2) by auto
      moreover have "file_size fs' path = Some n" if "ok"
        using sw(2) that o n(1) by (simp add: file_size_def)
      moreover have "reliable_host H \<Longrightarrow> ok" using sw(3) o f1 [of src] ne assms(2) by auto
      ultimately show ?thesis using sw(2) o n(2) by auto
    qed
  qed (use assms(2) in auto)
qed

text \<open>
  C20. A video made to fit an upload limit does fit: when the result is used, it is the file under the
  source's base name with the extension mp4, no longer than the limit, and source and working file are
  gone. Otherwise the source is kept as it was (unless files cannot be removed or renamed). No other
  file is touched.
\<close>

theorem fitted_video_fits:
  fixes src :: string
  assumes "lawful_host H" "fs src = Some nd" "CompressToFit H src m fs = ((path, ok), fs')"
  defines "b \<equiv> trim_suffix src (ext src)"
  shows "(if ok then path = b @ ''.mp4'' \<and> (\<exists>n. file_size fs' path = Some n \<and> n \<le> m)
        \<and> fs' (b @ ''_fittmp.mp4'') = None \<and> (path \<noteq> src \<longrightarrow> fs' src = None)
      else path = src \<and> (reliable_host H \<longrightarrow> fs' src = fs src))
    \<and> (\<forall>p. p \<notin> {src, b @ ''.mp4'', b @ ''_fittmp.mp4''} \<longrightarrow> fs' p = fs p)"
  unfolding b_def by (rule fitted_fits [OF assms(1-3)])

text \<open>A host for examples: ffmpeg writes a file of a given size, probes give a given text.\<close>

definition sample_host :: "int \<Rightarrow> (string list \<Rightarrow> string result) \<Rightarrow> host" where
  "sample_host n out =
     \<lparr>h_run = (\<lambda>args t fs. (([], None), fs(last args := Some (File n [])))), h_output = (\<lambda>args fs. out args),
      h_remove = (\<lambda>_ _. None), h_rename = (\<lambda>_ _ _. None), h_order = (\<lambda>_ _. bitrateLadderKbps),
      h_odd_int = (\<lambda>_. 0)\<rparr>"

lemma sample_host_ok: "lawful_host (sample_host n out)" "reliable_host (sample_host n out)"
  by (simp_all add: sample_host_def lawful_host_def reliable_host_def)

lemma sample_host_sel:
  "h_run (sample_host n out) args t fs = (([], None), fs(last args := Some (File n [])))"
  "h_remove (sample_host n out) p fs = None" "h_rename (sample_host n out) p q fs = None"
  by (simp_all add: sample_host_def)

text \<open>A minute of 1280x720 without sound.\<close>

definition sample_probe :: "string list \<Rightarrow> string result" where
  "sample_probe args =
     (if ''format=duration'' \<in> set args then Inr ''60.0''
      else if ''stream=codec_type'' \<in> set args then Inr []
      else Inr ''1280x720'')"

lemma sample_steps:
  "probeDurationSeconds (sample_host n sample_probe) ''/t/a.webm'' fs = Inr (Fin 60)"
  "HasAudioStream (sample_host n sample_probe) ''/t/a.webm'' fs = Inr False"
  "fit_bitrates (sample_host n out) 10000000 (Fin 60) False = (1266, 0)"
  "fl_le (Fin 60) (Fin 0) = False"
proof -
  have "parse_decimal ''60.0'' = Some 60" "split_sign ''60.0'' = (False, ''60.0'')"
    "to_lower ''60.0'' = ''60.0''" "trim_space ''60.0'' = ''60.0''" by code_simp+
  moreover have "\<not> max_float_bound \<le> 60" by (simp add: max_float_bound_def)
  ultimately have "parse_float (trim_space ''60.0'') = Some (Fin 60)" by (simp add: parse_float_def)
  then show "probeDurationSeconds (sample_host n sample_probe) ''/t/a.webm'' fs = Inr (Fin 60)"
    by (simp add: probeDurationSeconds_def sample_host_def sample_probe_def)
  show "HasAudioStream (sample_host n sample_probe) ''/t/a.webm'' fs = Inr False"
    by (simp add: HasAudioStream_def sample_host_def sample_probe_def trim_space_def trim_left_def trim_right_set_def)
  show "fit_bitrates (sample_host n out) 10000000 (Fin 60) False = (1266, 0)"
    by (simp add: fit_bitrates_def fl_div_def fl_to_int_def trunc_def floor_eq_iff)
  show "fl_le (Fin 60) (Fin 0) = False" by (simp add: fl_le_def)
qed

lemma fitted_video_fits_witness:
  "let H = sample_host 9000000 sample_probe; fs = [''/t/a.webm'' \<mapsto> File 80000000 ''v''];
       (r, fs') = CompressToFit H ''/t/a.webm'' 10000000 fs in
   snd r \<and> fst r = ''/t/a.mp4'' \<and> fs' ''/t/a.webm'' = None
   \<and> (\<exists>n. file_size fs' ''/t/a.mp4'' = Some n \<and> n \<le> 10000000)"
proof -
  let ?H = "sample_host 9000000 sample_probe" and ?fs = "[''/t/a.webm'' \<mapsto> File 80000000 ''v'']"
  have base: "trim_suffix ''/t/a.webm'' (ext ''/t/a.webm'') = ''/t/a''" by code_simp
  obtain path ok fs' where c: "CompressToFit ?H ''/t/a.webm'' 10000000 ?fs = ((path, ok), fs')"
    by (metis prod.exhaust)
  have "snd (fst (CompressToFit ?H ''/t/a.webm'' 10000000 ?fs))"
    by (simp add: CompressToFit_def sample_steps base Let_def runFFmpegWithTimeout_def fit_args_last
        swap_in_def os_remove_def os_rename_def file_size_def sample_host_sel)
  with c have ok by simp
  with fitted_video_fits [OF sample_host_ok(1) _ c, of "File 80000000 ''v''"] base c show ?thesis
    by (auto split: if_splits)
qed

subsection \<open>The output height\<close>

text \<open>A height the budget sustains: at least half of its target bitrate.\<close>

definition sustains :: "(int \<Rightarrow> (int \<times> int) list) \<Rightarrow> int \<Rightarrow> int \<Rightarrow> bool" where
  "sustains order budget h \<longleftrightarrow> targetBitrateKbps (order h) h div 2 \<le> budget"

lemma fit_loop_first:
  assumes "\<forall>h \<in> set hs. h \<noteq> 0 \<and> h \<le> src"
  shows "fit_loop order src budget hs result =
     (case find (sustains order budget) hs of Some h \<Rightarrow> h | None \<Rightarrow> last (result # hs))"
  using assms by (induction hs arbitrary: result) (auto simp: Let_def sustains_def split: option.splits)

text \<open>
  From a source of 720 lines or more, the fit pass takes the tallest of the source's own height and
  the four steps below it that the bitrate sustains, and the lowest step when it sustains none. From a
  smaller source it never steps down, however small the budget: the first step, 720, is above
  the source, and the loop stops there instead of passing on to the next.
\<close>

theorem fit_height_steps_down:
  "(if src < 720 \<and> src \<noteq> 0 then fitHeight order src budget = src
    else if src = 0 then fitHeight order src budget = 0
    else let steps = [src, 720, 480, 360, 240]; r = fitHeight order src budget in
      r \<in> set steps
      \<and> (\<forall>h \<in> set steps. r < h \<longrightarrow> \<not> sustains order budget h)
      \<and> (sustains order budget r \<or> r = 240))"
proof -
  have small: "fitHeight order src budget = src" if "src < 720"
    using that by (simp add: fitHeight_def fitHeights_def Let_def)
  have "fitHeight order src budget = (case find (sustains order budget) [src, 720, 480, 360, 240] of
      Some h \<Rightarrow> h | None \<Rightarrow> 240)" if "720 \<le> src"
  proof -
    have "fitHeight order src budget = (if sustains order budget src then src
        else fit_loop order src budget [720, 480, 360, 240] src)"
      by (simp add: fitHeight_def fitHeights_def Let_def sustains_def)
    also have "\<dots> = (if sustains order budget src then src
        else case find (sustains order budget) [720, 480, 360, 240] of Some h \<Rightarrow> h | None \<Rightarrow> 240)"
      using that by (subst fit_loop_first) (auto split: option.splits)
    finally show ?thesis by simp
  qed
  with small show ?thesis by (auto simp: Let_def split: if_splits)
qed

subsection \<open>The order of a map\<close>

lemma bitrate_loop_nearest:
  "\<exists>h. (h, bitrate_loop height xs k0 \<bar>h0 - height\<bar>) \<in> set ((h0, k0) # xs)
     \<and> (\<forall>(h', k) \<in> set ((h0, k0) # xs). \<bar>h - height\<bar> \<le> \<bar>h' - height\<bar>)"
proof (induction xs arbitrary: h0 k0)
  case (Cons x xs)
  obtain h k where x: "x = (h, k)" by fastforce
  show ?case
  proof (cases "\<bar>h - height\<bar> < \<bar>h0 - height\<bar>")
    case True
    obtain g where "(g, bitrate_loop height xs k \<bar>h - height\<bar>) \<in> set ((h, k) # xs)"
      "\<forall>(h', k') \<in> set ((h, k) # xs). \<bar>g - height\<bar> \<le> \<bar>h' - height\<bar>" using Cons.IH [of k h] by blast
    with True x show ?thesis by (intro exI [of _ g]) (auto simp: Let_def)
  next
    case False
    obtain g where "(g, bitrate_loop height xs k0 \<bar>h0 - height\<bar>) \<in> set ((h0, k0) # xs)"
      "\<forall>(h', k') \<in> set ((h0, k0) # xs). \<bar>g - height\<bar> \<le> \<bar>h' - height\<bar>" using Cons.IH [of k0 h0] by blast
    with False x show ?thesis by (intro exI [of _ g]) (auto simp: Let_def)
  qed
qed auto

lemma target_nearest:
  assumes "order \<noteq> []"
  shows "\<exists>h. (h, targetBitrateKbps order height) \<in> set order
    \<and> (\<forall>(h', k) \<in> set order. \<bar>h - height\<bar> \<le> \<bar>h' - height\<bar>)"
proof -
  obtain h0 k0 xs where o: "order = (h0, k0) # xs" using assms by (metis list.exhaust prod.exhaust)
  then have "targetBitrateKbps order height = bitrate_loop height xs k0 \<bar>h0 - height\<bar>"
    by (simp add: targetBitrateKbps_def Let_def)
  with bitrate_loop_nearest [of height xs k0 h0] o show ?thesis by simp
qed

lemma nearer: "\<bar>h - H\<bar> \<le> \<bar>h' - H\<bar> \<longleftrightarrow>
    (if h < h' then 2 * H \<le> h + h' else if h' < h then h + h' \<le> 2 * H else True)" for h h' H :: int
  by arith

definition nearest_step :: "int \<Rightarrow> int" where
  "nearest_step H = (if H < 420 then 700 else if H < 600 then 1200 else if H < 900 then 2500
     else if H < 1260 then 4500 else if H < 1800 then 8000 else 12000)"

lemma nearest_unique:
  assumes "(h, k) \<in> set bitrateLadderKbps" "\<forall>(h', k') \<in> set bitrateLadderKbps. \<bar>h - H\<bar> \<le> \<bar>h' - H\<bar>"
    and "H \<notin> {420, 600, 900, 1260, 1800}"
  shows "k = nearest_step H"
  using assms unfolding nearer by (auto simp: bitrateLadderKbps_def nearest_step_def)

lemma fit_height_steps_down_witness:
  "let r = fitHeight (\<lambda>_. bitrateLadderKbps) 1080 700 in
     r \<in> {1080, 720, 480, 360, 240} \<and> r < 720 \<and> sustains (\<lambda>_. bitrateLadderKbps) 700 r
     \<and> fitHeight (\<lambda>_. bitrateLadderKbps) 480 1 = 480"
proof -
  have no: "\<not> sustains (\<lambda>_. bitrateLadderKbps) 700 1080" "\<not> sustains (\<lambda>_. bitrateLadderKbps) 700 720"
    and yes: "sustains (\<lambda>_. bitrateLadderKbps) 700 480" "sustains (\<lambda>_. bitrateLadderKbps) 700 240"
    by (simp_all add: sustains_def targetBitrateKbps_def bitrateLadderKbps_def Let_def)
  from fit_height_steps_down [of 1080 "\<lambda>_. bitrateLadderKbps" 700]
    fit_height_steps_down [of 480 "\<lambda>_. bitrateLadderKbps" 1] no yes
  show ?thesis by (auto simp: Let_def)
qed

text \<open>
  The target bitrate does not depend on the order in which the ladder map is iterated, except for
  heights halfway between two steps: there two iteration orders give two targets, at 600 lines
  1200 and 2500.
\<close>

theorem bitrate_by_nearest_step:
  assumes "set order = set bitrateLadderKbps" "height \<notin> {420, 600, 900, 1260, 1800}"
  shows "targetBitrateKbps order height = targetBitrateKbps bitrateLadderKbps height
    \<and> targetBitrateKbps bitrateLadderKbps 600 \<noteq> targetBitrateKbps (rev bitrateLadderKbps) 600"
proof -
  let ?L = bitrateLadderKbps
  have "order \<noteq> []" "?L \<noteq> []" using assms(1) by (auto simp: bitrateLadderKbps_def)
  then have "targetBitrateKbps order height = nearest_step height" "targetBitrateKbps ?L height = nearest_step height"
    using nearest_unique [OF _ _ assms(2)] target_nearest [of order height] target_nearest [of ?L height]
    unfolding assms(1) by blast+
  then show ?thesis by (simp add: targetBitrateKbps_def bitrateLadderKbps_def)
qed

lemma bitrate_by_nearest_step_witness:
  "targetBitrateKbps (rev bitrateLadderKbps) 1088 = 4500 \<and> set (rev bitrateLadderKbps) = set bitrateLadderKbps"
  using bitrate_by_nearest_step [of "rev bitrateLadderKbps" 1088] set_rev [of bitrateLadderKbps]
  by (simp add: targetBitrateKbps_def bitrateLadderKbps_def)

end
