(* ===== verification/Worker_Base.thy ===== *)
theory Worker_Base
  imports Video Db_Store Handler_Bot
begin

text \<open>
  The world of the download workers and what all of them share: the handler's world with the tables of the
  database and a file system, the task's directory, cancellation and the release of the user's lock,
  error texts, captions, upload limits and the booking of the outcome (parts of \<open>worker/download.go\<close>,
  \<open>worker/user_error.go\<close>, \<open>worker/tiktok.go\<close>).
\<close>

subsection \<open>World and environment\<close>

record 's wworld = "'s world" +
  w_db :: database
  w_fs :: files

text \<open>A media item of a Pinterest board, and what the TikTok downloader returns.\<close>

record media_item =
  mi_title :: string
  mi_type :: string
  mi_path :: string
  mi_size :: int

record tiktok_result =
  tt_type :: string
  tt_title :: string
  tt_author :: string
  tt_images :: "string list"
  tt_video :: string
  tt_audio :: string
  tt_available :: bool
  tt_count :: int

text \<open>The arguments of the TikTok downloader.\<close>

record tiktok_settings =
  ts_referer :: string
  ts_timeout :: int
  ts_max_images :: int
  ts_audio :: bool
  ts_max_duration :: int

text \<open>
  Besides what the bot's environment has: the programs, which statements of the database fail, temporary
  directories, directory listings and modification times, whether the download's deadline has
  passed, the clients of the platforms, and the translator. An error of a client comes with the name of
  the sentinel error it wraps, if any.
\<close>

type_synonym client_error = "go_error \<times> string"

record 's work_env = "'s bot_env" +
  k_host :: host
  k_fault :: fault
  k_tmp :: "event list \<Rightarrow> string \<Rightarrow> string result"
  k_mkdir :: "event list \<Rightarrow> string \<Rightarrow> go_error option"
  k_copies :: "string \<Rightarrow> bool"
  k_synced :: "string \<Rightarrow> string"
  k_ytdlp :: "event list \<Rightarrow> string list \<Rightarrow> files \<Rightarrow> (string \<times> go_error option) \<times> files"
  k_readdir :: "files \<Rightarrow> string \<Rightarrow> (string \<times> node) list result"
  k_mtime :: "files \<Rightarrow> string \<Rightarrow> int option"
  k_expired :: "event list \<Rightarrow> bool"
  k_photos :: "event list \<Rightarrow> string \<Rightarrow> string \<Rightarrow> string \<Rightarrow> int \<Rightarrow> files
                 \<Rightarrow> (client_error + string \<times> string list) \<times> files"
  k_xtitle :: "event list \<Rightarrow> string \<Rightarrow> string \<Rightarrow> string"
  k_xclean :: "string \<Rightarrow> string"
  k_translate :: "event list \<Rightarrow> string \<Rightarrow> string"
  k_pins :: "event list \<Rightarrow> string \<Rightarrow> string \<Rightarrow> int \<Rightarrow> bool \<Rightarrow> bool \<Rightarrow> int \<Rightarrow> files
               \<Rightarrow> (client_error + media_item list) \<times> files"
  k_tiktok :: "event list \<Rightarrow> tiktok_settings \<Rightarrow> string \<Rightarrow> string \<Rightarrow> files \<Rightarrow> tiktok_result result \<times> files"
  k_carousel :: "event list \<Rightarrow> tiktok_settings \<Rightarrow> string \<Rightarrow> string \<Rightarrow> files \<Rightarrow> tiktok_result result \<times> files"

type_synonym 's job_step = "'s wworld \<Rightarrow> go_error option \<times> 's wworld"

subsection \<open>Steps shared by the workers\<close>

text \<open>Editing and deleting the status message; errors are dropped.\<close>

definition lang_of :: "download_payload \<Rightarrow> string" where
  "lang_of p = (if dp_lang p = [] then ''en'' else dp_lang p)"

definition say :: "('s, 'b) bot_env_scheme \<Rightarrow> download_payload \<Rightarrow> msg_text
    \<Rightarrow> ('s, 'w) world_scheme \<Rightarrow> ('s, 'w) world_scheme" where
  "say B p t w = post B (Edit (dp_chat p) (dp_message p) t []) w"

definition unsay :: "('s, 'b) bot_env_scheme \<Rightarrow> download_payload
    \<Rightarrow> ('s, 'w) world_scheme \<Rightarrow> ('s, 'w) world_scheme" where
  "unsay B p w = post B (Erase (dp_chat p) (dp_message p)) w"

definition book :: "'s work_env \<Rightarrow> download_payload \<Rightarrow> string \<Rightarrow> string \<Rightarrow> rat \<Rightarrow> string \<Rightarrow> 's wworld \<Rightarrow> 's wworld" where
  "book B p platform status sizeMB msg w =
     w\<lparr>w_db := snd (RecordDownload (k_fault B) (dp_user p) (dp_chat p) (dp_url p) platform status sizeMB msg
        (w_db w))\<rparr>"

definition maxAdminDebugLen :: nat where "maxAdminDebugLen = 3500"

definition ellipsis :: string where "ellipsis = [CHR 0xE2, CHR 0x80, CHR 0xA6]"

definition userFacingError ::
  "('s, 'b) bot_env_scheme \<Rightarrow> string \<Rightarrow> int \<Rightarrow> go_error option \<Rightarrow> msg_text" where
  "userFacingError B lang userID err =
     (let k = UserFacingErrorKey err;
          base = Loc (if k = [] then ''errors.generic'' else k) lang [] in
      case err of
        None \<Rightarrow> base
      | Some e \<Rightarrow>
          if \<not> isAdmin B userID then base
          else
            let detail = trim_space e;
                shown = (if length detail > maxAdminDebugLen then take maxAdminDebugLen detail @ ellipsis else detail) in
            if detail = [] then base
            else Cat [base, Loc ''errors.admin_debug'' lang [(''detail'', shown)]])"

text \<open>The error to the status message and the failure to the database; the task is then done.\<close>

definition fail_job :: "'s work_env \<Rightarrow> download_payload \<Rightarrow> string \<Rightarrow> rat \<Rightarrow> go_error \<Rightarrow> 's job_step" where
  "fail_job B p platform sizeMB e w =
     (None, book B p platform ''failed'' sizeMB e
        (say B p (userFacingError B (lang_of p) (dp_user p) (Some e)) w))"

text \<open>The same with a text of its own.\<close>

definition refuse_job ::
  "'s work_env \<Rightarrow> download_payload \<Rightarrow> string \<Rightarrow> msg_text \<Rightarrow> rat \<Rightarrow> string \<Rightarrow> 's job_step" where
  "refuse_job B p platform t sizeMB e w = (None, book B p platform ''failed'' sizeMB e (say B p t w))"

text \<open>The status message goes and the success is booked.\<close>

definition done_job :: "'s work_env \<Rightarrow> download_payload \<Rightarrow> string \<Rightarrow> rat \<Rightarrow> string \<Rightarrow> 's job_step" where
  "done_job B p platform sizeMB msg w = (None, book B p platform ''completed'' sizeMB msg (unsay B p w))"

definition checkCancelled ::
  "'s work_env \<Rightarrow> download_payload \<Rightarrow> 's wworld \<Rightarrow> bool \<times> 's wworld" where
  "checkCancelled B p w =
     (if dp_lock_token p = [] \<or> dp_lock_scene p = [] then (False, w)
      else
        (case on_st (\<lambda>s. case IsDownloadCancelled (b_redis B) (b_prefix B) (dp_lock_scene p) (dp_user p)
                            (dp_lock_token p) s of (b, e, s) \<Rightarrow> ((b, e), s)) w of
           ((cancelled, err), w) \<Rightarrow>
             if err \<noteq> None \<or> \<not> cancelled then (False, w)
             else (True, say B p (Loc ''download.cancelled'' (lang_of p) []) w)))"

definition releaseLock :: "'s work_env \<Rightarrow> download_payload \<Rightarrow> 's wworld \<Rightarrow> 's wworld" where
  "releaseLock B p w =
     (if dp_lock_token p = [] \<or> dp_lock_scene p = [] then w
      else do_st (ReleaseUserLock (b_redis B) (b_prefix B) (dp_user p) (dp_lock_scene p) (dp_lock_token p)) w)"

text \<open>The release is deferred, so it follows every way the handler ends.\<close>

definition release_after :: "'s work_env \<Rightarrow> download_payload \<Rightarrow> 's job_step \<Rightarrow> 's job_step" where
  "release_after B p body w = (case body w of (r, w) \<Rightarrow> (r, releaseLock B p w))"

definition unless_cancelled :: "'s work_env \<Rightarrow> download_payload \<Rightarrow> 's job_step \<Rightarrow> 's job_step" where
  "unless_cancelled B p body w =
     (case checkCancelled B p w of (True, w) \<Rightarrow> (None, w) | (False, w) \<Rightarrow> body w)"

text \<open>A temporary directory around a step; what is in it goes with it.\<close>

definition remove_all :: "string \<Rightarrow> files \<Rightarrow> files" where
  "remove_all dir fs = (\<lambda>p. if p = dir \<or> has_prefix p (dir @ ''/'') then None else fs p)"

definition in_temp_dir :: "'s work_env \<Rightarrow> string \<Rightarrow> (string \<Rightarrow> 's job_step) \<Rightarrow> 's job_step" where
  "in_temp_dir B prefix body w =
     (case k_tmp B (w_log w) prefix of
        Inl e \<Rightarrow> (Some e, w)
      | Inr dir \<Rightarrow>
          (case body dir (w\<lparr>w_fs := (w_fs w)(dir := Some Dir)\<rparr>) of
             (r, w) \<Rightarrow> (r, w\<lparr>w_fs := remove_all dir (w_fs w)\<rparr>)))"

definition Download :: "'s work_env \<Rightarrow> string \<Rightarrow> string \<Rightarrow> options \<Rightarrow> 's job_step" where
  "Download B url dir opts w =
     (case run_ytdlp (k_mkdir B (w_log w) dir) (k_ytdlp B (w_log w)) (k_copies B) url dir opts (w_fs w) of
        (err, fs) \<Rightarrow> (err, w\<lparr>w_fs := fs, w_log := w_log w @ [Exec [''yt-dlp'', FormatID opts, url]]\<rparr>))"

definition on_fs :: "(files \<Rightarrow> 'r \<times> files) \<Rightarrow> 's wworld \<Rightarrow> 'r \<times> 's wworld" where
  "on_fs f w = (case f (w_fs w) of (r, fs) \<Rightarrow> (r, w\<lparr>w_fs := fs\<rparr>))"

subsection \<open>Settings a worker reads\<close>

definition rt_int :: "('s, 'b) bot_env_scheme \<Rightarrow> string \<Rightarrow> int \<Rightarrow> ('s, 'w) world_scheme
    \<Rightarrow> int \<times> ('s, 'w) world_scheme" where
  "rt_int B k fallback = on_st (CurrentInt (b_redis B) (Some (b_cfg B)) k fallback)"

definition rt_bool :: "('s, 'b) bot_env_scheme \<Rightarrow> string \<Rightarrow> bool \<Rightarrow> ('s, 'w) world_scheme
    \<Rightarrow> bool \<times> ('s, 'w) world_scheme" where
  "rt_bool B k fallback = on_st (CurrentBool (b_redis B) (Some (b_cfg B)) k fallback)"

definition rt_max_mb :: "('s, 'b) bot_env_scheme \<Rightarrow> string \<Rightarrow> ('s, 'w) world_scheme
    \<Rightarrow> int \<times> ('s, 'w) world_scheme" where
  "rt_max_mb B platform = on_st (PlatformMaxFileMB (b_redis B) (b_cfg B) platform)"

definition maxFileMB :: "'s work_env \<Rightarrow> string \<Rightarrow> 's wworld \<Rightarrow> int \<times> 's wworld" where
  "maxFileMB B platform w =
     (let (limit, w) = rt_max_mb B platform w;
          (upload, w) = rt_int B ''global.telegram_upload_limit_mb'' (c_TelegramUploadLimitMB (b_cfg B)) w in
      (if upload > 0 \<and> limit > upload then upload else limit, w))"

text \<open>The timeout of a platform, ten minutes when it is not positive.\<close>

definition job_timeout :: "'s work_env \<Rightarrow> string \<Rightarrow> 's wworld \<Rightarrow> nat \<times> 's wworld" where
  "job_timeout B platform w =
     (let (secs, w) = on_st (PlatformTimeoutSec (b_redis B) (b_cfg B) platform) w in
      (if secs \<le> 0 then 600 * second else nat secs * second, w))"

subsection \<open>Sizes, captions and files\<close>

definition mb :: "int \<Rightarrow> rat" where "mb n = of_int n / (1024 * 1024)"

text \<open>Printing with one decimal, halves to even.\<close>

definition round_even :: "rat \<Rightarrow> int" where
  "round_even q =
     (let n = \<lfloor>q\<rfloor>; d = q - of_int n in
      if d > 1 / 2 \<or> d = 1 / 2 \<and> odd n then n + 1 else n)"

definition show_f1 :: "rat \<Rightarrow> string" where
  "show_f1 q = (let n = round_even (q * 10) in itoa (n div 10) @ ''.'' @ itoa (n mod 10))"

definition too_large :: "string \<Rightarrow> rat \<Rightarrow> int \<Rightarrow> msg_text" where
  "too_large lang sizeMB limit =
     Loc ''download.too_large'' lang [(''size'', show_f1 sizeMB), (''limit'', itoa limit)]"

definition via_bot :: "string \<Rightarrow> msg_text" where
  "via_bot lang = Loc ''download.via_bot'' lang [(''bot_username'', ''saveinator_bot'')]"

definition two_lines :: string where "two_lines = [CHR 0x0A, CHR 0x0A]"

definition buildMediaCaption :: "string \<Rightarrow> string \<Rightarrow> bool \<Rightarrow> msg_text" where
  "buildMediaCaption title lang noFooter =
     (let title = trim_space title in
      if noFooter then Lit title
      else if title = [] then via_bot lang
      else Cat [Lit (title @ two_lines), via_bot lang])"

definition sendFile ::
  "('s, 'b) bot_env_scheme \<Rightarrow> download_payload \<Rightarrow> string \<Rightarrow> string \<Rightarrow> string \<Rightarrow> string \<Rightarrow> bool
     \<Rightarrow> ('s, 'w) world_scheme \<Rightarrow> int result \<times> ('s, 'w) world_scheme" where
  "sendFile B p path title lang platform animation =
     emit B (Media (dp_chat p) path title lang platform animation (\<not> dp_no_watermark p))"

definition translateXTitle :: "'s work_env \<Rightarrow> string \<Rightarrow> 's wworld \<Rightarrow> string \<times> 's wworld" where
  "translateXTitle B title w =
     (let (auto_on, w) = rt_bool B ''x.auto_translate'' True w in
      if \<not> auto_on then (title, w)
      else
        let translated = k_translate B (w_log w) title in
        if translated = title then (title, w) else (title @ two_lines @ translated, w))"

end
