(* ===== verification/Worker_Download.thy ===== *)
theory Worker_Download
  imports Worker_Base
begin

text \<open>
  The download jobs (\<open>worker/download.go\<close>, \<open>worker/instagram.go\<close>, \<open>worker/tiktok.go\<close>,
  \<open>pinterest/title.go\<close>): each takes the payload of a task, downloads, checks the upload limit, sends and
  books the outcome. The result is the error returned to the broker; \<open>None\<close> means the task is done.
\<close>

subsection \<open>X photos\<close>

definition ExtractStatusID :: "string \<Rightarrow> string" where
  "ExtractStatusID url = (case find_submatch xStatusIDRegex url of None \<Rightarrow> [] | Some (_, g) \<Rightarrow> g 1)"

definition status_id :: "download_payload \<Rightarrow> string" where
  "status_id p = (if dp_x_status p = [] then ExtractStatusID (dp_url p) else dp_x_status p)"

definition buildXPhotoCaption ::
  "'s work_env \<Rightarrow> string \<Rightarrow> string \<Rightarrow> string \<Rightarrow> bool \<Rightarrow> 's wworld \<Rightarrow> msg_text \<times> 's wworld" where
  "buildXPhotoCaption B statusID resultTitle lang noFooter w =
     (let title = k_xclean B resultTitle;
          title = (if title = [] \<and> statusID \<noteq> [] then k_xtitle B (w_log w) statusID [] else title) in
      if title = [] then (buildMediaCaption title lang noFooter, w)
      else (case translateXTitle B title w of (t, w) \<Rightarrow> (buildMediaCaption t lang noFooter, w)))"

definition runXPhotos :: "'s work_env \<Rightarrow> download_payload \<Rightarrow> string \<Rightarrow> 's job_step" where
  "runXPhotos B p dir w =
     (let (maxItems, w) = rt_int B ''x.max_items_per_post'' 4 w;
          sid = status_id p;
          (r, w) = on_fs (k_photos B (w_log w) (dp_url p) dir sid maxItems) w in
      case r of
        Inl (e, kind) \<Rightarrow>
          refuse_job B p ''x''
            (if kind = ''not found'' then Loc ''x.text_only'' (lang_of p) []
             else userFacingError B (lang_of p) (dp_user p) (Some e)) 0 e w
      | Inr (title, paths) \<Rightarrow>
          let (caption, w) = buildXPhotoCaption B sid title (lang_of p) (dp_no_watermark p) w in
          (case emit B (Album (dp_chat p) paths caption) w of
             (Inl e, w) \<Rightarrow> fail_job B p ''x'' 0 e w
           | (Inr _, w) \<Rightarrow> done_job B p ''x'' 0 [] w))"

subsection \<open>Sending a video\<close>

definition video_title :: "'s work_env \<Rightarrow> download_payload \<Rightarrow> string \<Rightarrow> 's wworld \<Rightarrow> string \<times> 's wworld" where
  "video_title B p path w =
     (if dp_platform p = ''youtube'' then (DisplayTitle path, w)
      else if dp_platform p = ''x'' then translateXTitle B (k_xtitle B (w_log w) (status_id p) path) w
      else (file_base path, w))"

definition sendVideoResult :: "'s work_env \<Rightarrow> download_payload \<Rightarrow> string \<Rightarrow> 's job_step" where
  "sendVideoResult B p path w =
     (let sizeMB = mb (size_of (w_fs w) path);
          (limit, w) = maxFileMB B (dp_platform p) w in
      if sizeMB > of_int limit then
        refuse_job B p (dp_platform p) (too_large (lang_of p) sizeMB limit) sizeMB ''too large'' w
      else
        let (title, w) = video_title B p path w;
            animation = (dp_platform p = ''x'' \<and> \<not> has_audio (k_host B) path (w_fs w)) in
        (case sendFile B p path title (lang_of p) (dp_platform p) animation w of
           (Inl e, w) \<Rightarrow> fail_job B p (dp_platform p) sizeMB e w
         | (Inr _, w) \<Rightarrow> done_job B p (dp_platform p) sizeMB [] w))"

subsection \<open>The generic download\<close>

definition generic_format :: "download_payload \<Rightarrow> string" where
  "generic_format p =
     (if dp_format p = [] then if dp_platform p = ''reddit'' then ''bv*+ba/b'' else ''best''
      else dp_format p)"

definition runDownload :: "'s work_env \<Rightarrow> download_payload \<Rightarrow> 's job_step" where
  "runDownload B p w =
     in_temp_dir B ''saveinator-'' (\<lambda>dir w.
       let (timeout, w) = job_timeout B (dp_platform p) w;
           opts = ytdlpOpts (b_cfg B) (k_synced B) (dp_platform p) (generic_format p) timeout in
       case Download B (dp_url p) dir opts w of
         (Some e, w) \<Rightarrow>
           if dp_platform p = ''x'' then runXPhotos B p dir w
           else if IsRetryableError (Some e) then (Some e, w)
           else fail_job B p (dp_platform p) 0 e w
       | (None, w) \<Rightarrow>
           let found = FindMediaFiles dir (k_readdir B (w_fs w) dir) in
           if found = Inr [] \<or> \<not> is_ok found then
             if dp_platform p = ''x'' then runXPhotos B p dir w
             else fail_job B p (dp_platform p) 0
                    (case found of Inl e \<Rightarrow> e | Inr _ \<Rightarrow> ''no media files found'') w
           else
             let files = projr found; images = ImageFiles files;
                 video = LargestVideo (w_fs w) files in
             if video = [] \<and> images \<noteq> [] then
               (case emit B (Album (dp_chat p) images
                               (buildMediaCaption [] (lang_of p) (dp_no_watermark p))) w of
                  (Inl e, w) \<Rightarrow> (None, unsay B p (book B p (dp_platform p) ''failed'' 0 e w))
                | (Inr _, w) \<Rightarrow> (None, unsay B p (book B p (dp_platform p) ''completed'' 0 [] w)))
             else if video = [] then
               if dp_platform p = ''x'' then runXPhotos B p dir w
               else fail_job B p (dp_platform p) 0 ''no video file found'' w
             else sendVideoResult B p video w)
     (say B p (Loc ''download.downloading'' (lang_of p) []) w)"

subsection \<open>YouTube\<close>

definition downloadYouTubeVideo :: "'s work_env \<Rightarrow> download_payload \<Rightarrow> string \<Rightarrow> options \<Rightarrow> 's job_step" where
  "downloadYouTubeVideo B p dir opts w =
     (case Download B (dp_url p) dir opts w of
        (err, w) \<Rightarrow>
          if err = None \<or> \<not> IsFormatUnavailableError err then (err, w)
          else if k_expired B (w_log w) then (err, w)
          else Download B (dp_url p) dir (opts\<lparr>FormatID := BuildFormat (dp_quality p) (dp_aspect p)\<rparr>) w)"

definition ensureFitsUpload :: "'s work_env \<Rightarrow> string \<Rightarrow> 's wworld \<Rightarrow> string \<times> 's wworld" where
  "ensureFitsUpload B path w =
     (let (limitMB, w) = maxFileMB B ''youtube'' w in
      if limitMB \<le> 0 then (path, w)
      else if mb (size_of (w_fs w) path) \<le> of_int limitMB then (path, w)
      else
        let maxBytes = trunc (of_int limitMB * 1024 * 1024 * 98 / 100) in
        (case on_fs (CompressToFit (k_host B) path maxBytes) w of
           ((fitted, ok), w) \<Rightarrow> if \<not> ok then (path, w) else (fitted, w)))"

definition audioExtensions :: "string list" where
  "audioExtensions = [''.mp3'', ''.m4a'', ''.flac'', ''.wav'', ''.aac'', ''.opus'', ''.ogg'']"

text \<open>\<open>audio.findAudioFile\<close>: the entry modified last, the later one among equals.\<close>

fun newest_audio ::
  "(string \<Rightarrow> int option) \<Rightarrow> string \<Rightarrow> (string \<times> node) list \<Rightarrow> string \<Rightarrow> int \<Rightarrow> string" where
  "newest_audio mtime dir [] best bestTime = best"
| "newest_audio mtime dir ((n, d) # es) best bestTime =
     (if d = Dir \<or> to_lower (ext n) \<notin> set audioExtensions then newest_audio mtime dir es best bestTime
      else case mtime (join_path dir n) of
        None \<Rightarrow> newest_audio mtime dir es best bestTime
      | Some t \<Rightarrow>
          if t \<ge> bestTime then newest_audio mtime dir es (join_path dir n) t
          else newest_audio mtime dir es best bestTime)"

definition findAudioFile :: "(string \<Rightarrow> int option) \<Rightarrow> string \<Rightarrow> (string \<times> node) list result \<Rightarrow> string result" where
  "findAudioFile mtime dir entries =
     (case entries of
        Inl e \<Rightarrow> Inl e
      | Inr es \<Rightarrow>
          let best = newest_audio mtime dir es [] 0 in
          if best = [] then Inl ''no audio file found'' else Inr best)"

definition DownloadYouTubeAudio ::
  "'s work_env \<Rightarrow> string \<Rightarrow> string \<Rightarrow> string \<Rightarrow> string \<Rightarrow> 's wworld \<Rightarrow> string result \<times> 's wworld" where
  "DownloadYouTubeAudio B url dir format section_arg w =
     (case k_mkdir B (w_log w) dir of
        Some e \<Rightarrow> (Inl e, w)
      | None \<Rightarrow>
          let format = (if format = [] then ''mp3'' else format);
              args = [''--no-warnings'', ''--quiet'', ''--no-playlist'', ''-f'', ''bestaudio/best'', ''-o'',
                      join_path dir ''%(title).100s.%(ext)s'', ''--extract-audio'', ''--audio-format'', format]
                     @ (if section_arg \<noteq> []
                        then [''--download-sections'', section_arg, ''--force-keyframes-at-cuts''] else [])
                     @ [url] in
          (case on_fs (k_ytdlp B (w_log w) args) w of
             ((out, err), w) \<Rightarrow>
               let w = w\<lparr>w_log := w_log w @ [Exec [''yt-dlp'', ''bestaudio/best'', url]]\<rparr> in
               (case err of
                  Some e \<Rightarrow>
                    (Inl (if trim_space out = [] then e else trim_space out @ '': '' @ e), w)
                | None \<Rightarrow> (findAudioFile (k_mtime B (w_fs w)) dir (k_readdir B (w_fs w) dir), w))))"

definition trim_section :: "download_payload \<Rightarrow> string" where
  "trim_section p = (if IsTrimmed p then DownloadSection (dp_trim_start p) (dp_trim_end p) else [])"

definition runYouTubeAudio :: "'s work_env \<Rightarrow> download_payload \<Rightarrow> string \<Rightarrow> 's job_step" where
  "runYouTubeAudio B p dir w =
     (case DownloadYouTubeAudio B (dp_url p) dir ''mp3'' (trim_section p) w of
        (Inl e, w) \<Rightarrow> if IsRetryableError (Some e) then (Some e, w) else fail_job B p ''youtube'' 0 e w
      | (Inr path, w) \<Rightarrow>
          let sizeMB = mb (size_of (w_fs w) path); (limit, w) = maxFileMB B ''youtube'' w in
          if sizeMB > of_int limit then
            refuse_job B p ''youtube'' (too_large (lang_of p) sizeMB limit) sizeMB ''too large'' w
          else
            let title = (if dp_title p = [] then DisplayTitle path else dp_title p) in
            (case emit B (Sound (dp_chat p) path title (dp_author p) 0 []) w of
               (Inl e, w) \<Rightarrow> fail_job B p ''youtube'' sizeMB e w
             | (Inr _, w) \<Rightarrow> done_job B p ''youtube'' sizeMB [] w))"

text \<open>Both optional encodings, then the pass that makes the file fit.\<close>

definition process_video ::
  "'s work_env \<Rightarrow> download_payload \<Rightarrow> string \<Rightarrow> 's wworld \<Rightarrow> string result \<times> 's wworld" where
  "process_video B p source w =
     (let (r, w) =
        (if dp_aspect p \<noteq> [] then
           (case rt_bool B ''youtube.transcode_enabled'' (c_YouTubeTranscodeEnabled (b_cfg B)) w of
              (True, w) \<Rightarrow> on_fs (ApplyAspectRatio (k_host B) source (dp_aspect p) (dp_quality p)) w
            | (False, w) \<Rightarrow> (Inr source, w))
         else (Inr source, w)) in
      case r of
        Inl e \<Rightarrow> (Inl e, w)
      | Inr processed \<Rightarrow>
          (case rt_bool B ''youtube.compress_long_enabled'' (c_YouTubeCompressLongEnabled (b_cfg B)) w of
             (False, w) \<Rightarrow> (Inr processed, w)
           | (True, w) \<Rightarrow>
               let (minDuration, w) = rt_int B ''youtube.compress_min_duration_sec''
                     (c_YouTubeCompressMinDurationSec (b_cfg B)) w;
                   (path, w) = on_fs (CompressIfOversized (k_host B) processed minDuration) w in
               (Inr path, w)))"

definition runYouTubeDownload :: "'s work_env \<Rightarrow> download_payload \<Rightarrow> 's job_step" where
  "runYouTubeDownload B p =
     in_temp_dir B ''saveinator-yt-'' (\<lambda>dir w.
       let (timeout, w) = job_timeout B ''youtube'' w in
       if dp_audio_only p then runYouTubeAudio B p dir w
       else
         let opts = ytdlpOpts (b_cfg B) (k_synced B) ''youtube''
                      (FormatSelector (dp_format p) (dp_quality p) (dp_aspect p)) timeout;
             opts = (if IsTrimmed p then opts\<lparr>DownloadSections := trim_section p\<rparr> else opts) in
         (case downloadYouTubeVideo B p dir opts w of
            (Some e, w) \<Rightarrow> if IsRetryableError (Some e) then (Some e, w) else fail_job B p ''youtube'' 0 e w
          | (None, w) \<Rightarrow>
              (case FindMediaFiles dir (k_readdir B (w_fs w) dir) of
                 Inl e \<Rightarrow> fail_job B p ''youtube'' 0 e w
               | Inr files \<Rightarrow>
                   let source = LargestVideo (w_fs w) files in
                   if source = [] then fail_job B p ''youtube'' 0 ''no video file found'' w
                   else
                     (case process_video B p source w of
                        (Inl e, w) \<Rightarrow> fail_job B p ''youtube'' 0 e w
                      | (Inr processed, w) \<Rightarrow>
                          (case ensureFitsUpload B processed w of
                             (path, w) \<Rightarrow> sendVideoResult B p path w)))))"

definition bad_payload :: go_error where "bad_payload = ''invalid character in task payload''"

definition handleDownload :: "'s work_env \<Rightarrow> body \<Rightarrow> 's job_step" where
  "handleDownload B payload w =
     (case unmarshal_download payload of
        None \<Rightarrow> (Some bad_payload, w)
      | Some p \<Rightarrow>
          release_after B p (unless_cancelled B p
            (if dp_platform p = ''youtube'' \<and> (dp_quality p > 0 \<or> dp_audio_only p)
             then runYouTubeDownload B p else runDownload B p)) w)"

end
