(* ===== verification/Worker_Platforms.thy ===== *)
theory Worker_Platforms
  imports Worker_Download
begin

text \<open>
  The jobs of single platforms: Pinterest (the rest of \<open>worker/download.go\<close> and \<open>pinterest/title.go\<close>),
  Instagram (\<open>worker/instagram.go\<close>) and TikTok (\<open>worker/tiktok.go\<close>). The clients that fetch the
  pages are part of the environment.
\<close>

subsection \<open>Pinterest\<close>

definition isPinID :: "string \<Rightarrow> bool" where
  "isPinID s \<longleftrightarrow> 10 \<le> length s \<and> length s \<le> 20 \<and> list_all is_digit s"

text \<open>The part before and after the first underscore, when there is one past the start.\<close>

definition board_name :: "string \<Rightarrow> bool" where
  "board_name rest =
     (let i = takeWhile (\<lambda>c. c \<noteq> CHR ''_'') rest; typ = drop (Suc (length i)) rest in
      CHR ''_'' \<in> set rest \<and> i \<noteq> [] \<and> isPinID i \<and> (typ = ''image'' \<or> typ = ''video''))"

definition pin_title :: "string \<Rightarrow> string" where
  "pin_title path =
     (let b = trim_space (trim_suffix (file_base path) (file_ext path)) in
      if b = [] then []
      else if has_prefix b ''pin_'' \<and> isPinID (trim_prefix b ''pin_'') then []
      else if has_prefix b ''board_'' \<and> board_name (trim_prefix b ''board_'') then []
      else b)"

definition item_title :: "media_item \<Rightarrow> string" where
  "item_title it = (if mi_title it = [] then pin_title (mi_path it) else mi_title it)"

text \<open>The first video, or the largest item, or the first.\<close>

fun pick_loop :: "media_item list \<Rightarrow> media_item option \<Rightarrow> media_item option" where
  "pick_loop [] best = best"
| "pick_loop (it # its) best =
     (if mi_type it = ''video'' then Some it
      else if mi_size it > (case best of None \<Rightarrow> 0 | Some b \<Rightarrow> mi_size b) then pick_loop its (Some it)
      else pick_loop its best)"

definition pickPinterestItem :: "media_item list \<Rightarrow> media_item" where
  "pickPinterestItem items =
     (case pick_loop items None of
        Some it \<Rightarrow> if mi_type it = ''video'' \<or> mi_path it \<noteq> [] then it else hd items
      | None \<Rightarrow> hd items)"

record pin_sent =
  ps_images :: "string list"
  ps_total :: int
  ps_any :: bool

fun send_items ::
  "'s work_env \<Rightarrow> download_payload \<Rightarrow> int \<Rightarrow> int \<Rightarrow> media_item list \<Rightarrow> pin_sent \<Rightarrow> 's wworld
     \<Rightarrow> pin_sent \<times> 's wworld" where
  "send_items B p imageLimit videoLimit [] acc w = (acc, w)"
| "send_items B p imageLimit videoLimit (it # its) acc w =
     (if w_fs w (mi_path it) = None then send_items B p imageLimit videoLimit its acc w
      else if mi_type it = ''video'' then
        if mb (mi_size it) > of_int videoLimit then send_items B p imageLimit videoLimit its acc w
        else
          (case sendFile B p (mi_path it) (item_title it) (lang_of p) ''pinterest'' False w of
             (Inl e, w) \<Rightarrow> send_items B p imageLimit videoLimit its acc w
           | (Inr _, w) \<Rightarrow> send_items B p imageLimit videoLimit its
               (acc\<lparr>ps_total := ps_total acc + mi_size it, ps_any := True\<rparr>) w)
      else if mb (mi_size it) > of_int imageLimit then send_items B p imageLimit videoLimit its acc w
      else send_items B p imageLimit videoLimit its
             (acc\<lparr>ps_images := ps_images acc @ [mi_path it], ps_total := ps_total acc + mi_size it\<rparr>) w)"

definition sendPinterestItems :: "'s work_env \<Rightarrow> download_payload \<Rightarrow> media_item list \<Rightarrow> 's job_step" where
  "sendPinterestItems B p items w =
     (let (imageLimit, w) = rt_int B ''global.document_limit_mb'' (c_SendDocumentLimitMB (b_cfg B)) w;
          (videoLimit, w) = rt_max_mb B ''pinterest'' w;
          (acc, w) = send_items B p imageLimit videoLimit items
                       \<lparr>ps_images = [], ps_total = 0, ps_any = False\<rparr> w;
          (ok, w) =
            (if ps_images acc \<noteq> [] then
               (case emit B (Album (dp_chat p) (ps_images acc)
                               (buildMediaCaption [] (lang_of p) (dp_no_watermark p))) w of
                  (Inl e, w) \<Rightarrow> (ps_any acc, w)
                | (Inr _, w) \<Rightarrow> (True, w))
             else (ps_any acc, w)) in
      if \<not> ok then
        refuse_job B p ''pinterest'' (Loc ''pinterest.all_too_large'' (lang_of p) []) 0
          ''all items too large or missing'' w
      else done_job B p ''pinterest'' (mb (ps_total acc)) [] w)"

definition send_pin :: "'s work_env \<Rightarrow> download_payload \<Rightarrow> media_item \<Rightarrow> 's job_step" where
  "send_pin B p it w =
     (let (videoLimit, w) = rt_max_mb B ''pinterest'' w;
          (limit, w) = (if mi_type it = ''image''
             then rt_int B ''global.document_limit_mb'' (c_SendDocumentLimitMB (b_cfg B)) w
             else (videoLimit, w));
          sizeMB = mb (mi_size it) in
      if sizeMB > of_int limit then
        refuse_job B p ''pinterest'' (Loc ''pinterest.all_too_large'' (lang_of p) []) sizeMB ''too large'' w
      else if w_fs w (mi_path it) = None then
        fail_job B p ''pinterest'' 0 (''stat '' @ mi_path it @ '': no such file or directory'') w
      else
        (case sendFile B p (mi_path it) (item_title it) (lang_of p) ''pinterest'' False w of
           (Inl e, w) \<Rightarrow> fail_job B p ''pinterest'' sizeMB e w
         | (Inr _, w) \<Rightarrow> done_job B p ''pinterest'' sizeMB [] w))"

definition runPinterest :: "'s work_env \<Rightarrow> download_payload \<Rightarrow> 's job_step" where
  "runPinterest B p w =
     in_temp_dir B ''saveinator-pin-'' (\<lambda>dir w.
       let (timeout, w) = rt_int B ''pinterest.timeout_sec'' (c_PinterestTimeoutSeconds (b_cfg B)) w;
           (maxItems, w) = rt_int B ''pinterest.max_items_per_board'' (c_PinterestMaxItems (b_cfg B)) w;
           (images, w) = rt_bool B ''pinterest.download_images'' (c_PinterestDownloadImages (b_cfg B)) w;
           (videos, w) = rt_bool B ''pinterest.download_videos'' (c_PinterestDownloadVideos (b_cfg B)) w;
           (r, w) = on_fs (k_pins B (w_log w) (dp_url p) dir maxItems images videos timeout) w in
       case r of
         Inl (e, kind) \<Rightarrow>
           if kind = ''no media'' then
             refuse_job B p ''pinterest'' (Loc ''pinterest.no_media'' (lang_of p) []) 0 ''no media'' w
           else fail_job B p ''pinterest'' 0 e w
       | Inr [] \<Rightarrow> refuse_job B p ''pinterest'' (Loc ''pinterest.no_media'' (lang_of p) []) 0 ''no media'' w
       | Inr items \<Rightarrow>
           if length items > 1 then sendPinterestItems B p items w
           else send_pin B p (pickPinterestItem items) w)
     (say B p (Loc ''download.downloading'' (lang_of p) []) w)"

definition handlePinterest :: "'s work_env \<Rightarrow> body \<Rightarrow> 's job_step" where
  "handlePinterest B payload w =
     (case unmarshal_download payload of
        None \<Rightarrow> (Some bad_payload, w)
      | Some q \<Rightarrow>
          let p = q\<lparr>dp_platform := ''pinterest''\<rparr> in
          release_after B p (unless_cancelled B p (runPinterest B p)) w)"

subsection \<open>Instagram\<close>

definition instagramTitle :: "string \<Rightarrow> string" where
  "instagramTitle path = trim_suffix (file_base path) (file_ext path)"

definition sendInstagramVideo :: "'s work_env \<Rightarrow> download_payload \<Rightarrow> string \<Rightarrow> 's wworld \<Rightarrow> 's wworld" where
  "sendInstagramVideo B p path w =
     (case sendFile B p path (instagramTitle path) (lang_of p) ''instagram'' False w of
        (Inl e, w) \<Rightarrow> snd (fail_job B p ''instagram'' 0 e w)
      | (Inr _, w) \<Rightarrow> book B p ''instagram'' ''completed'' 0 [] w)"

text \<open>A slice of a negative length panics; the limit is at least 1 (see the registry).\<close>

definition sendInstagramPhotos ::
  "'s work_env \<Rightarrow> download_payload \<Rightarrow> string list \<Rightarrow> 's wworld \<Rightarrow> 's wworld" where
  "sendInstagramPhotos B p images w =
     (let (maxItems, w) = rt_int B ''instagram.carousel_max_items'' 20 w;
          images = (if int (length images) > maxItems then take (nat maxItems) images else images) in
      case emit B (Album (dp_chat p) images (buildMediaCaption [] (lang_of p) (dp_no_watermark p))) w of
        (Inl e, w) \<Rightarrow> snd (fail_job B p ''instagram'' 0 e w)
      | (Inr _, w) \<Rightarrow> book B p ''instagram'' ''completed'' 0 [] w)"

definition runInstagram :: "'s work_env \<Rightarrow> download_payload \<Rightarrow> 's job_step" where
  "runInstagram B p w =
     in_temp_dir B ''saveinator-instagram-'' (\<lambda>dir w.
       let (timeout, w) = job_timeout B ''instagram'' w in
       case Download B (dp_url p) dir (ytdlpOpts (b_cfg B) (k_synced B) ''instagram'' ''best'' timeout) w of
         (Some e, w) \<Rightarrow>
           if IsRetryableError (Some e) then (Some e, w) else fail_job B p ''instagram'' 0 e w
       | (None, w) \<Rightarrow>
           (case FindMediaFiles dir (k_readdir B (w_fs w) dir) of
              Inl e \<Rightarrow> fail_job B p ''instagram'' 0 e w
            | Inr files \<Rightarrow>
                let video = LargestVideo (w_fs w) files; images = ImageFiles files in
                if video = [] \<and> images = [] then
                  refuse_job B p ''instagram'' (Loc ''instagram.no_media'' (lang_of p) []) 0 ''no media found'' w
                else
                  let w = (if video = [] then sendInstagramPhotos B p images w
                           else sendInstagramVideo B p video w) in
                  (None, unsay B p w)))
     (say B p (Loc ''download.downloading'' (lang_of p) []) w)"

definition handleInstagram :: "'s work_env \<Rightarrow> body \<Rightarrow> 's job_step" where
  "handleInstagram B payload w =
     (case unmarshal_download payload of
        None \<Rightarrow> (Some bad_payload, w)
      | Some q \<Rightarrow>
          let p = q\<lparr>dp_platform := ''instagram''\<rparr> in
          release_after B p (unless_cancelled B p (runInstagram B p)) w)"

subsection \<open>TikTok\<close>

definition stringsJoin :: "string list \<Rightarrow> string \<Rightarrow> string" where
  "stringsJoin parts sep = (case parts of [] \<Rightarrow> [] | x # xs \<Rightarrow> foldl (\<lambda>out q. out @ sep @ q) x xs)"

definition buildTikTokCaption :: "string \<Rightarrow> string \<Rightarrow> string \<Rightarrow> bool \<Rightarrow> msg_text" where
  "buildTikTokCaption title author lang noFooter =
     (let parts = (if title \<noteq> [] then [title] else []) @ (if author \<noteq> [] then [''@'' @ author] else []);
          content = stringsJoin parts [CHR 0x0A] in
      if noFooter then Lit content
      else if content = [] then via_bot lang
      else Cat [Lit (content @ two_lines), via_bot lang])"

definition partial_notice :: "string \<Rightarrow> tiktok_result \<Rightarrow> msg_text" where
  "partial_notice lang r =
     Loc ''tiktok.carousel_partial'' lang
       [(''count'', itoa (int (length (tt_images r)))), (''total'', itoa (tt_count r))]"

text \<open>The photos of a post, a notice when some are missing, and its sound.\<close>

definition send_carousel :: "'s work_env \<Rightarrow> download_payload \<Rightarrow> tiktok_result \<Rightarrow> 's job_step" where
  "send_carousel B p r w =
     (if tt_images r = [] \<and> tt_audio r = [] then
        refuse_job B p ''tiktok'' (Loc ''tiktok.carousel_empty'' (lang_of p) []) 0 ''carousel empty'' w
      else
        (case emit B (Album (dp_chat p) (tt_images r)
                 (buildTikTokCaption (tt_title r) (tt_author r) (lang_of p) (dp_no_watermark p))) w of
           (Inl e, w) \<Rightarrow> fail_job B p ''tiktok'' 0 e w
         | (Inr _, w) \<Rightarrow>
             let w = (if tt_available r \<and> tt_count r > 0 \<and> int (length (tt_images r)) < tt_count r
                      then post B (Send (dp_chat p) (partial_notice (lang_of p) r) []) w else w);
                 w = (if tt_audio r \<noteq> []
                      then post B (Sound (dp_chat p) (tt_audio r) (tt_title r) (tt_author r) 0 []) w else w) in
             done_job B p ''tiktok'' 0 [] w))"

definition tiktok_reads ::
  "'s work_env \<Rightarrow> 's wworld \<Rightarrow> tiktok_settings \<times> 's wworld" where
  "tiktok_reads B w =
     (let cfg = b_cfg B;
          (referer, w) = on_st (CurrentString (b_redis B) (Some cfg) ''tiktok.referer'' (c_TikTokReferer cfg)) w;
          (timeout, w) = on_st (PlatformTimeoutSec (b_redis B) cfg ''tiktok'') w;
          (images, w) = rt_int B ''tiktok.carousel_max_items'' (c_TikTokCarouselMaxItems cfg) w;
          (audio, w) = rt_bool B ''tiktok.carousel_audio_enabled'' (c_TikTokCarouselAudioEnabled cfg) w;
          (duration, w) = rt_int B ''tiktok.max_duration_sec'' (c_TikTokMaxDurationSec cfg) w in
      (\<lparr>ts_referer = referer, ts_timeout = timeout, ts_max_images = images, ts_audio = audio,
        ts_max_duration = duration\<rparr>, w))"

text \<open>The carousel job reads the limit of images first and takes no sound.\<close>

definition carousel_reads ::
  "'s work_env \<Rightarrow> 's wworld \<Rightarrow> tiktok_settings \<times> 's wworld" where
  "carousel_reads B w =
     (let cfg = b_cfg B;
          (images, w) = rt_int B ''tiktok.carousel_max_items'' (c_TikTokCarouselMaxItems cfg) w;
          (referer, w) = on_st (CurrentString (b_redis B) (Some cfg) ''tiktok.referer'' (c_TikTokReferer cfg)) w;
          (timeout, w) = on_st (PlatformTimeoutSec (b_redis B) cfg ''tiktok'') w;
          (duration, w) = rt_int B ''tiktok.max_duration_sec'' (c_TikTokMaxDurationSec cfg) w in
      (\<lparr>ts_referer = referer, ts_timeout = timeout, ts_max_images = images, ts_audio = False,
        ts_max_duration = duration\<rparr>, w))"

definition runTikTok :: "'s work_env \<Rightarrow> download_payload \<Rightarrow> 's job_step" where
  "runTikTok B p w =
     in_temp_dir B ''saveinator-tiktok-'' (\<lambda>dir w.
       let (settings, w) = tiktok_reads B w in
       case on_fs (k_tiktok B (w_log w) settings (dp_url p) dir) w of
         (Inl e, w) \<Rightarrow>
           if IsRetryableError (Some e) then (Some e, w) else fail_job B p ''tiktok'' 0 e w
       | (Inr r, w) \<Rightarrow>
           if tt_type r = ''carousel'' \<or> tt_type r = ''audio_only'' then send_carousel B p r w
           else if tt_type r = ''video'' then
             if tt_video r = [] then fail_job B p ''tiktok'' 0 ''no video file found'' w
             else
               (case sendFile B p (tt_video r) (tt_title r) (lang_of p) ''tiktok'' False w of
                  (Inl e, w) \<Rightarrow> fail_job B p ''tiktok'' 0 e w
                | (Inr _, w) \<Rightarrow> done_job B p ''tiktok'' 0 [] w)
           else fail_job B p ''tiktok'' 0 ''unsupported tiktok post type'' w)
     (say B p (Loc ''download.downloading'' (lang_of p) []) w)"

definition handleTikTok :: "'s work_env \<Rightarrow> body \<Rightarrow> 's job_step" where
  "handleTikTok B payload w =
     (case unmarshal_download payload of
        None \<Rightarrow> (Some bad_payload, w)
      | Some q \<Rightarrow>
          let p = q\<lparr>dp_platform := ''tiktok''\<rparr> in
          release_after B p (unless_cancelled B p (runTikTok B p)) w)"

definition carouselKey :: "string \<Rightarrow> string" where "carouselKey token = ''ttk_carousel:'' @ token"

definition runTikTokCarouselImages :: "'s work_env \<Rightarrow> download_payload \<Rightarrow> 's job_step" where
  "runTikTokCarouselImages B p w =
     (case in_temp_dir B ''saveinator-tiktok-carousel-'' (\<lambda>dir w.
         let (settings, w) = carousel_reads B w in
         case on_fs (k_carousel B (w_log w) settings (dp_url p) dir) w of
           (Inl e, w) \<Rightarrow>
             (None, book B p ''tiktok'' ''failed'' 0 e
                (post B (Send (dp_chat p) (Loc ''tiktok.carousel_empty'' (lang_of p) []) []) w))
         | (Inr r, w) \<Rightarrow>
             if tt_images r = [] then
               (None, book B p ''tiktok'' ''failed'' 0 ''carousel empty''
                  (post B (Send (dp_chat p) (Loc ''tiktok.carousel_empty'' (lang_of p) []) []) w))
             else
               let w = (if tt_count r > 0 \<and> int (length (tt_images r)) < tt_count r
                        then post B (Send (dp_chat p) (partial_notice (lang_of p) r) []) w else w);
                   w = post B (Album (dp_chat p) (tt_images r)
                         (buildTikTokCaption (tt_title r) (tt_author r) (lang_of p) (dp_no_watermark p))) w in
               (None, book B p ''tiktok'' ''completed'' 0 [] w)) w of
        (r, w) \<Rightarrow>
          (r, if dp_session p \<noteq> [] then do_st (exec (b_redis B) (CDel (carouselKey (dp_session p)))) w else w))"

definition handleTikTokCarousel :: "'s work_env \<Rightarrow> body \<Rightarrow> 's job_step" where
  "handleTikTokCarousel B payload w =
     (case unmarshal_download payload of
        None \<Rightarrow> (Some bad_payload, w)
      | Some p \<Rightarrow> release_after B p (runTikTokCarouselImages B p) w)"

subsection \<open>Which handler takes a task\<close>

text \<open>The part of \<open>Register\<close> for the handlers modelled here.\<close>

definition handler_for :: "'s work_env \<Rightarrow> string \<Rightarrow> (body \<Rightarrow> 's job_step) option" where
  "handler_for B tt =
     (if tt = TypeDownload then Some (handleDownload B)
      else if tt = TypeTikTok then Some (handleTikTok B)
      else if tt = TypePinterest then Some (handlePinterest B)
      else if tt = TypeInstagram then Some (handleInstagram B)
      else if tt = TypeTikTokCarousel then Some (handleTikTokCarousel B)
      else None)"

end
