(* ===== verification/Worker_Props.thy ===== *)
theory Worker_Props
  imports Worker_Platforms Handler_Props Db_Props Video_Props
begin

text \<open>
  The properties of the download jobs: every job that ends books one outcome and closes its
  status message, the user's lock is given back on every way out, a video that was made to fit is
  not refused, and the cases in which the user learns nothing.
\<close>

subsection \<open>What a step leaves alone\<close>

text \<open>The events on the job's status message.\<close>

fun concerns :: "download_payload \<Rightarrow> event \<Rightarrow> bool" where
  "concerns p (Edit c m t kb) \<longleftrightarrow> c = dp_chat p \<and> m = dp_message p"
| "concerns p (Erase c m) \<longleftrightarrow> c = dp_chat p \<and> m = dp_message p"
| "concerns p e \<longleftrightarrow> False"

definition status :: "download_payload \<Rightarrow> ('s, 'w) world_scheme \<Rightarrow> event list" where
  "status p w = filter (concerns p) (w_log w)"

definition quiet :: "('s \<Rightarrow> redis_db) \<Rightarrow> download_payload \<Rightarrow> 's wworld \<Rightarrow> 's wworld \<Rightarrow> bool" where
  "quiet \<alpha> p w w' \<longleftrightarrow> \<alpha> (w_st w') = \<alpha> (w_st w) \<and> w_db w' = w_db w \<and> status p w' = status p w"

lemma on_st_more [simp]:
  fixes w :: "'s wworld"
  shows "w_db (snd (on_st f w)) = w_db w" "w_fs (snd (on_st f w)) = w_fs w"
    "w_db (do_st f w) = w_db w" "w_fs (do_st f w) = w_fs w"
  by (simp_all add: on_st_def do_st_def split_beta)

lemma emit_more [simp]:
  fixes w :: "'s wworld"
  shows "w_db (snd (emit B e w)) = w_db w" "w_db (post B e w) = w_db w"
    "w_fs (snd (emit B e w)) = w_fs w" "w_fs (post B e w) = w_fs w"
  by (simp_all add: emit_def post_def)

lemma quiet_on_st:
  assumes "on_st f w = (r, w1)" "\<And>s r s'. f s = (r, s') \<Longrightarrow> \<alpha> s' = \<alpha> s"
  shows "quiet \<alpha> p w w1"
proof -
  obtain r' s' where f: "f (w_st w) = (r', s')" by fastforce
  with assms(1) have "w1 = w\<lparr>w_st := s'\<rparr>" by (auto simp: on_st_def)
  with assms(2) [OF f] show ?thesis by (simp add: quiet_def status_def)
qed

lemma Current_reads:
  assumes "lawful_redis R \<alpha>"
  shows "CurrentInt R c k d s = (n, s') \<Longrightarrow> \<alpha> s' = \<alpha> s"
    and "CurrentBool R c k b s = (x, s') \<Longrightarrow> \<alpha> s' = \<alpha> s"
    and "CurrentString R c k t s = (y, s') \<Longrightarrow> \<alpha> s' = \<alpha> s"
  using CurrentValue_reads [OF assms]
  by (fastforce simp: CurrentInt_def CurrentBool_def CurrentString_def split: option.splits prod.splits val.splits)+

lemma Platform_reads:
  assumes "lawful_redis R \<alpha>"
  shows "PlatformMaxFileMB R cfg pf s = (n, s') \<Longrightarrow> \<alpha> s' = \<alpha> s"
    and "PlatformTimeoutSec R cfg pf s = (n, s') \<Longrightarrow> \<alpha> s' = \<alpha> s"
  using Current_reads(1) [OF assms]
  by (fastforce simp: PlatformMaxFileMB_def PlatformTimeoutSec_def Let_def split: if_splits)+

lemma quiet_reads:
  assumes "lawful_redis (b_redis B) \<alpha>"
  shows "rt_int B k d w = (n, w1) \<Longrightarrow> quiet \<alpha> p w w1"
    and "rt_bool B k b w = (x, w1) \<Longrightarrow> quiet \<alpha> p w w1"
    and "rt_max_mb B pf w = (n, w1) \<Longrightarrow> quiet \<alpha> p w w1"
    and "on_st (CurrentString (b_redis B) c k t) w = (y, w1) \<Longrightarrow> quiet \<alpha> p w w1"
    and "on_st (PlatformTimeoutSec (b_redis B) cfg pf) w = (n, w1) \<Longrightarrow> quiet \<alpha> p w w1"
  unfolding rt_int_def rt_bool_def rt_max_mb_def
  by (erule quiet_on_st; metis Current_reads Platform_reads assms)+

lemma quiet_trans: "quiet \<alpha> p w w1 \<Longrightarrow> quiet \<alpha> p w1 w2 \<Longrightarrow> quiet \<alpha> p w w2"
  by (simp add: quiet_def)

lemma quiet_fs: "on_fs f w = (r, w1) \<Longrightarrow> quiet \<alpha> p w w1"
  by (auto simp: on_fs_def quiet_def status_def split: prod.splits)

lemma quiet_emit:
  "emit B e w = (r, w1) \<Longrightarrow> \<not> concerns p e \<Longrightarrow> quiet \<alpha> p w w1"
  using emit_eqD [of B e w r w1] emit_more(1) [of B e w] by (simp add: quiet_def status_def)

lemma quiet_post: "\<not> concerns p e \<Longrightarrow> quiet \<alpha> p w (post B e w)"
  by (simp add: quiet_def status_def)

lemma quiet_composed:
  assumes "lawful_redis (b_redis B) \<alpha>"
  shows "maxFileMB B pf w = (n, w1) \<Longrightarrow> quiet \<alpha> p w w1"
    and "job_timeout B pf w = (k, w1) \<Longrightarrow> quiet \<alpha> p w w1"
    and "translateXTitle B t w = (t', w1) \<Longrightarrow> quiet \<alpha> p w w1"
    and "Download B url dir opts w = (e, w1) \<Longrightarrow> quiet \<alpha> p w w1"
    and "sendFile B q path title lang pf an w = (r, w1) \<Longrightarrow> quiet \<alpha> p w w1"
  using quiet_reads [OF assms, where p = p]
  by (auto simp: maxFileMB_def job_timeout_def translateXTitle_def Let_def Download_def sendFile_def
      quiet_def status_def dest!: quiet_emit [where p = p and \<alpha> = \<alpha>] split: prod.splits if_splits)

subsection \<open>How a job ends\<close>

definition downloading :: "download_payload \<Rightarrow> event" where
  "downloading p = Edit (dp_chat p) (dp_message p) (Loc ''download.downloading'' (lang_of p) []) []"

text \<open>The status message is closed when it is deleted or shows another text than that of a running download.\<close>

definition closing :: "download_payload \<Rightarrow> event \<Rightarrow> bool" where
  "closing p e \<longleftrightarrow> concerns p e \<and> (\<forall>lang. e \<noteq> Edit (dp_chat p) (dp_message p) (Loc ''download.downloading'' lang []) [])"

text \<open>
  A job that returns an error has booked nothing and told nothing; one that is done has booked one
  outcome of its platform and closed its status message.
\<close>

definition answered ::
  "('s \<Rightarrow> redis_db) \<Rightarrow> 's work_env \<Rightarrow> download_payload \<Rightarrow> 's wworld \<Rightarrow> go_error option \<times> 's wworld \<Rightarrow> bool" where
  "answered \<alpha> B p w x \<longleftrightarrow>
     (let w' = snd x in
      \<alpha> (w_st w') = \<alpha> (w_st w)
      \<and> (case fst x of
           Some e \<Rightarrow> w_db w' = w_db w \<and> (\<exists>n. status p w' = status p w @ replicate n (downloading p))
         | None \<Rightarrow>
             (\<exists>st z msg. st \<in> {''completed'', ''failed''}
               \<and> w_db w' = snd (RecordDownload (k_fault B) (dp_user p) (dp_chat p) (dp_url p) (dp_platform p) st z
                                  msg (w_db w)))
             \<and> (\<exists>evs e. status p w' = status p w @ evs @ [e] \<and> closing p e)))"

lemma error_text_closes:
  "closing p (Edit (dp_chat p) (dp_message p) (userFacingError B lang u (Some e)) [])"
  by (simp add: closing_def userFacingError_def UserFacingErrorKey_def Let_def)

lemma loc_closes: "k \<noteq> ''download.downloading'' \<Longrightarrow>
    closing p (Edit (dp_chat p) (dp_message p) (Loc k lang vs) kb)"
  by (simp add: closing_def)

lemma erase_closes: "closing p (Erase (dp_chat p) (dp_message p))"
  by (simp add: closing_def)

lemma status_steps [simp]:
  "status p (say B p t w) = status p w @ [Edit (dp_chat p) (dp_message p) t []]"
  "status p (unsay B p w) = status p w @ [Erase (dp_chat p) (dp_message p)]"
  "status p (book B q pf st z msg w') = status p w'"
  "w_st (say B p t w) = w_st w" "w_st (unsay B p w) = w_st w" "w_st (book B q pf st z msg w') = w_st w'"
  by (simp_all add: status_def say_def unsay_def book_def)

lemma db_steps [simp]:
  fixes w :: "'s wworld"
  shows "w_db (say B p t w) = w_db w" "w_db (unsay B p w) = w_db w"
    "w_db (book B p pf st z msg w) = snd (RecordDownload (k_fault B) (dp_user p) (dp_chat p) (dp_url p) pf st z msg (w_db w))"
  by (simp_all add: say_def unsay_def book_def)

lemma answered_retry: "quiet \<alpha> p w w1 \<Longrightarrow> answered \<alpha> B p w (Some e, w1)"
  by (auto simp: answered_def quiet_def intro: exI [of _ 0])

lemma answered_end:
  assumes "\<alpha> (w_st w') = \<alpha> (w_st w)" "st \<in> {''completed'', ''failed''}"
    and "w_db w' = snd (RecordDownload (k_fault B) (dp_user p) (dp_chat p) (dp_url p) (dp_platform p) st z msg (w_db w))"
    and "status p w' = status p w @ evs @ [e]" "closing p e"
  shows "answered \<alpha> B p w (None, w')"
  using assms unfolding answered_def by auto

lemma answered_fail:
  "quiet \<alpha> p w w1 \<Longrightarrow> pf = dp_platform p \<Longrightarrow> answered \<alpha> B p w (fail_job B p pf z e w1)"
  unfolding fail_job_def quiet_def
  by (rule answered_end [where evs = "[]" and st = "''failed''"]) (auto intro: error_text_closes)

lemma answered_refuse:
  "quiet \<alpha> p w w1 \<Longrightarrow> pf = dp_platform p \<Longrightarrow> closing p (Edit (dp_chat p) (dp_message p) t [])
    \<Longrightarrow> answered \<alpha> B p w (refuse_job B p pf t z e w1)"
  unfolding refuse_job_def quiet_def
  by (rule answered_end [where evs = "[]" and st = "''failed''"]) auto

lemma answered_done:
  "quiet \<alpha> p w w1 \<Longrightarrow> pf = dp_platform p \<Longrightarrow> answered \<alpha> B p w (done_job B p pf z msg w1)"
  unfolding done_job_def quiet_def
  by (rule answered_end [where evs = "[]" and st = "''completed''"]) (auto intro: erase_closes)

lemma answered_prefix: "quiet \<alpha> p w w1 \<Longrightarrow> answered \<alpha> B p w1 x \<Longrightarrow> answered \<alpha> B p w x"
  by (cases "fst x") (auto simp: answered_def quiet_def Let_def)

lemma answered_said:
  assumes "answered \<alpha> B p (say B p (Loc ''download.downloading'' (lang_of p) []) w) x"
  shows "answered \<alpha> B p w x"
proof (cases "fst x")
  case None
  with assms show ?thesis by (auto simp: answered_def Let_def)
next
  case (Some e)
  have "[downloading p] @ replicate n (downloading p) = replicate (Suc n) (downloading p)" for n by simp
  with Some assms show ?thesis unfolding answered_def Let_def
    by (auto simp flip: downloading_def simp del: replicate_Suc)
qed

lemma answered_temp:
  assumes "\<And>dir w. answered \<alpha> B p w (body dir w)"
  shows "answered \<alpha> B p w (in_temp_dir B pre body w)"
proof (cases "k_tmp B (w_log w) pre")
  case (Inl e)
  then show ?thesis using answered_retry [of \<alpha> p w w] by (simp add: in_temp_dir_def quiet_def)
next
  case (Inr dir)
  let ?w = "w\<lparr>w_fs := (w_fs w)(dir := Some Dir)\<rparr>"
  have "answered \<alpha> B p w (body dir ?w)"
    using answered_prefix [of \<alpha> p w ?w] assms by (simp add: quiet_def status_def)
  with Inr show ?thesis
    by (auto simp: in_temp_dir_def answered_def status_def split: prod.splits option.splits)
qed

subsection \<open>The jobs\<close>

text \<open>Steps of a job and the ways it ends, as rules.\<close>

lemmas job_ends = answered_retry answered_fail answered_refuse answered_done

lemma caption_quiet:
  assumes "lawful_redis (b_redis B) \<alpha>" "buildXPhotoCaption B sid t lang nf w = (c, w1)"
  shows "quiet \<alpha> p w w1"
proof -
  let ?t = "k_xclean B t"
  let ?u = "if ?t = [] \<and> sid \<noteq> [] then k_xtitle B (w_log w) sid [] else ?t"
  obtain t' w2 where t: "translateXTitle B ?u w = (t', w2)" by fastforce
  from quiet_composed(3) [OF assms(1) t] assms(2) t show ?thesis
    by (auto simp: buildXPhotoCaption_def quiet_def Let_def split: if_splits prod.splits)
qed

lemma x_photos_answered:
  assumes "lawful_redis (b_redis B) \<alpha>" "dp_platform p = ''x''"
  shows "answered \<alpha> B p w (runXPhotos B p dir w)"
proof -
  obtain maxItems w1 where 1: "rt_int B ''x.max_items_per_post'' 4 w = (maxItems, w1)" by fastforce
  obtain r w2 where 2: "on_fs (k_photos B (w_log w1) (dp_url p) dir (status_id p) maxItems) w1 = (r, w2)" by fastforce
  have q2: "quiet \<alpha> p w w2" using quiet_trans [OF quiet_reads(1) [OF assms(1) 1] quiet_fs [OF 2]] .
  show ?thesis
  proof (cases r)
    case (Inl ek)
    obtain e k where "ek = (e, k)" by fastforce
    with 1 2 Inl assms(2) answered_refuse [OF q2] error_text_closes [of p B "lang_of p" "dp_user p" e]
      loc_closes [of "''x.text_only''" p]
    show ?thesis by (simp add: runXPhotos_def Let_def)
  next
    case (Inr tp)
    obtain title paths where tp: "tp = (title, paths)" by fastforce
    obtain c w3 where 3: "buildXPhotoCaption B (status_id p) title (lang_of p) (dp_no_watermark p) w2 = (c, w3)" by fastforce
    obtain a w4 where 4: "emit B (Album (dp_chat p) paths c) w3 = (a, w4)" by fastforce
    have "quiet \<alpha> p w w4"
      using quiet_trans [OF quiet_trans [OF q2 caption_quiet [OF assms(1) 3]] quiet_emit [OF 4]] by simp
    with 1 2 3 4 Inr tp assms(2) answered_fail answered_done show ?thesis
      by (fastforce simp: runXPhotos_def split: sum.splits)
  qed
qed

lemma title_quiet:
  assumes "lawful_redis (b_redis B) \<alpha>" "video_title B p path w = (t, w1)"
  shows "quiet \<alpha> q w w1"
  using assms(2) quiet_composed(3) [OF assms(1), where p = q]
  by (auto simp: video_title_def quiet_def split: if_splits)

lemma video_answered:
  assumes "lawful_redis (b_redis B) \<alpha>"
  shows "answered \<alpha> B p w (sendVideoResult B p path w)"
proof -
  obtain limit w1 where 1: "maxFileMB B (dp_platform p) w = (limit, w1)" by fastforce
  note q1 = quiet_composed(1) [OF assms 1, of p]
  obtain t w2 where 2: "video_title B p path w1 = (t, w2)" by fastforce
  note q2 = quiet_trans [OF q1 title_quiet [OF assms 2]]
  let ?an = "dp_platform p = ''x'' \<and> \<not> has_audio (k_host B) path (w_fs w2)"
  obtain r w3 where 3: "sendFile B p path t (lang_of p) (dp_platform p) ?an w2 = (r, w3)" by fastforce
  note q3 = quiet_trans [OF q2 quiet_composed(5) [OF assms 3]]
  have "closing p (Edit (dp_chat p) (dp_message p) (too_large (lang_of p) z n) [])" for z n
    by (simp add: too_large_def loc_closes)
  with 1 2 3 answered_refuse [OF q1] answered_fail [OF q3] answered_done [OF q3] show ?thesis
    by (simp add: sendVideoResult_def Let_def split: sum.splits)
qed

lemma album_answered:
  assumes "emit B (Album (dp_chat p) images c) w = (r, w1)" "pf = dp_platform p"
  shows "st = ''failed'' \<or> st = ''completed'' \<Longrightarrow> answered \<alpha> B p w (None, unsay B p (book B p pf st z e w1))"
  using quiet_emit [OF assms(1), of p \<alpha>] assms(2)
  by (intro answered_end [where evs = "[]" and st = st]) (auto simp: quiet_def intro: erase_closes)

lemma download_answered:
  assumes "lawful_redis (b_redis B) \<alpha>"
  shows "answered \<alpha> B p w (runDownload B p w)"
  unfolding runDownload_def
proof (rule answered_said, rule answered_temp, goal_cases)
  case (1 dir w)
  obtain t w1 where 1: "job_timeout B (dp_platform p) w = (t, w1)" by fastforce
  obtain err w2 where 2: "Download B (dp_url p) dir (ytdlpOpts (b_cfg B) (k_synced B) (dp_platform p)
      (generic_format p) t) w1 = (err, w2)" by fastforce
  have q: "quiet \<alpha> p w w2"
    using quiet_trans [OF quiet_composed(2) [OF assms 1] quiet_composed(4) [OF assms 2]] .
  note ends = answered_prefix [OF q x_photos_answered [OF assms]] answered_fail [OF q] answered_retry [OF q]
    answered_prefix [OF q video_answered [OF assms]]
  show ?case
  proof (cases err)
    case (Some e)
    with 1 2 ends show ?thesis by (simp add: Let_def)
  next
    case None
    let ?found = "FindMediaFiles dir (k_readdir B (w_fs w2) dir)"
    let ?images = "ImageFiles (projr ?found)" and ?video = "LargestVideo (w_fs w2) (projr ?found)"
    let ?c = "buildMediaCaption [] (lang_of p) (dp_no_watermark p)"
    obtain r w3 where 3: "emit B (Album (dp_chat p) ?images ?c) w2 = (r, w3)" by fastforce
    note al = answered_prefix [OF q album_answered [OF 3 refl]]
    show ?thesis
    proof (cases "?found = Inr [] \<or> \<not> is_ok ?found")
      case True
      with None 1 2 ends show ?thesis by (simp add: Let_def)
    next
      case False
      then show ?thesis
        using None 1 2 3 ends al by (cases r) (simp_all add: Let_def)
    qed
  qed
qed

lemma quiet_log: "quiet \<alpha> p w (w\<lparr>w_log := w_log w @ [Exec args]\<rparr>)"
  by (simp add: quiet_def status_def)

lemma audio_quiet:
  assumes "DownloadYouTubeAudio B url dir fmt sec w = (r, w1)"
  shows "quiet \<alpha> p w w1"
proof (cases "k_mkdir B (w_log w) dir")
  case None
  let ?args = "[''--no-warnings'', ''--quiet'', ''--no-playlist'', ''-f'', ''bestaudio/best'', ''-o'',
      join_path dir ''%(title).100s.%(ext)s'', ''--extract-audio'', ''--audio-format'',
      if fmt = [] then ''mp3'' else fmt]
      @ (if sec \<noteq> [] then [''--download-sections'', sec, ''--force-keyframes-at-cuts''] else []) @ [url]"
  obtain oe w2 where 1: "on_fs (k_ytdlp B (w_log w) ?args) w = (oe, w2)" by fastforce
  obtain out err where "oe = (out, err)" by fastforce
  with assms None 1 have "w1 = w2\<lparr>w_log := w_log w2 @ [Exec [''yt-dlp'', ''bestaudio/best'', url]]\<rparr>"
    by (auto simp: DownloadYouTubeAudio_def Let_def split: option.splits)
  with quiet_trans [OF quiet_fs [OF 1] quiet_log] show ?thesis by simp
next
  case (Some e)
  with assms show ?thesis by (simp add: DownloadYouTubeAudio_def quiet_def)
qed

lemma too_large_closes: "closing p (Edit (dp_chat p) (dp_message p) (too_large lang z n) [])"
  by (simp add: too_large_def loc_closes)

lemma yt_audio_answered:
  assumes "lawful_redis (b_redis B) \<alpha>" "dp_platform p = ''youtube''"
  shows "answered \<alpha> B p w (runYouTubeAudio B p dir w)"
proof -
  obtain r w1 where 1: "DownloadYouTubeAudio B (dp_url p) dir ''mp3'' (trim_section p) w = (r, w1)" by fastforce
  note q1 = audio_quiet [OF 1, of \<alpha> p]
  show ?thesis
  proof (cases r)
    case (Inl e)
    with 1 answered_fail [OF q1] answered_retry [OF q1] assms(2) show ?thesis by (simp add: runYouTubeAudio_def)
  next
    case (Inr path)
    obtain limit w2 where 2: "maxFileMB B ''youtube'' w1 = (limit, w2)" by fastforce
    note q2 = quiet_trans [OF q1 quiet_composed(1) [OF assms(1) 2]]
    let ?title = "if dp_title p = [] then DisplayTitle path else dp_title p"
    obtain x w3 where 3: "emit B (Sound (dp_chat p) path ?title (dp_author p) 0 []) w2 = (x, w3)" by fastforce
    have q3: "quiet \<alpha> p w w3" using quiet_trans [OF q2 quiet_emit [OF 3]] by simp
    from 1 2 3 Inr assms(2) answered_refuse [OF q2 _ too_large_closes] answered_fail [OF q3] answered_done [OF q3]
    show ?thesis by (simp add: runYouTubeAudio_def Let_def split: sum.splits)
  qed
qed

lemma process_quiet:
  assumes "lawful_redis (b_redis B) \<alpha>" "process_video B q source w = (r, w1)"
  shows "quiet \<alpha> p w w1"
proof -
  let ?tc = "c_YouTubeTranscodeEnabled (b_cfg B)"
  obtain b wa where a: "rt_bool B ''youtube.transcode_enabled'' ?tc w = (b, wa)" by fastforce
  obtain ra wb where b: "on_fs (ApplyAspectRatio (k_host B) source (dp_aspect q) (dp_quality q)) wa = (ra, wb)" by fastforce
  define first where "first = (if dp_aspect q \<noteq> [] then if b then (ra, wb) else (Inr source, wa) else (Inr source, w))"
  have "quiet \<alpha> p w (snd first)"
    using quiet_reads(2) [OF assms(1) a, of p] quiet_fs [OF b, of \<alpha> p] by (auto simp: first_def quiet_def)
  moreover obtain r1 w2 where f: "first = (r1, w2)" by fastforce
  ultimately have q: "quiet \<alpha> p w w2" by simp
  have eq: "process_video B q source w = (case r1 of Inl e \<Rightarrow> (Inl e, w2) | Inr processed \<Rightarrow>
      (case rt_bool B ''youtube.compress_long_enabled'' (c_YouTubeCompressLongEnabled (b_cfg B)) w2 of
         (False, w) \<Rightarrow> (Inr processed, w)
       | (True, w) \<Rightarrow>
           let (minDuration, w) = rt_int B ''youtube.compress_min_duration_sec''
                 (c_YouTubeCompressMinDurationSec (b_cfg B)) w;
               (path, w) = on_fs (CompressIfOversized (k_host B) processed minDuration) w in
           (Inr path, w)))"
    using a b f by (auto simp: process_video_def first_def Let_def split: if_splits)
  show ?thesis
  proof (cases r1)
    case (Inl e)
    with eq assms(2) q show ?thesis by simp
  next
    case (Inr y)
    obtain c w3 where c: "rt_bool B ''youtube.compress_long_enabled'' (c_YouTubeCompressLongEnabled (b_cfg B)) w2 = (c, w3)"
      by fastforce
    obtain n w4 where d: "rt_int B ''youtube.compress_min_duration_sec'' (c_YouTubeCompressMinDurationSec (b_cfg B)) w3 = (n, w4)"
      by fastforce
    obtain e w5 where e: "on_fs (CompressIfOversized (k_host B) y n) w4 = (e, w5)" by fastforce
    note q3 = quiet_trans [OF q quiet_reads(2) [OF assms(1) c]]
    note q5 = quiet_trans [OF quiet_trans [OF q3 quiet_reads(1) [OF assms(1) d]] quiet_fs [OF e]]
    from eq assms(2) Inr c d e q3 q5 show ?thesis by (cases c) auto
  qed
qed

lemma fits_quiet:
  assumes "lawful_redis (b_redis B) \<alpha>" "ensureFitsUpload B path w = (r, w1)"
  shows "quiet \<alpha> p w w1"
proof -
  obtain n w2 where 1: "maxFileMB B ''youtube'' w = (n, w2)" by fastforce
  obtain r' w3 where 2: "on_fs (CompressToFit (k_host B) path (trunc (of_int n * 1024 * 1024 * 98 / 100))) w2 = (r', w3)"
    by fastforce
  note q2 = quiet_composed(1) [OF assms(1) 1, of p]
  note q3 = quiet_trans [OF q2 quiet_fs [OF 2]]
  from assms(2) 1 2 q2 q3 show ?thesis
    by (cases r') (auto simp: ensureFitsUpload_def Let_def split: if_splits)
qed

lemma yt_video_quiet:
  assumes "lawful_redis (b_redis B) \<alpha>" "downloadYouTubeVideo B q dir opts w = (r, w1)"
  shows "quiet \<alpha> p w w1"
proof -
  obtain e w2 where 1: "Download B (dp_url q) dir opts w = (e, w2)" by fastforce
  obtain e' w3 where 2: "Download B (dp_url q) dir (opts\<lparr>FormatID := BuildFormat (dp_quality q) (dp_aspect q)\<rparr>) w2
      = (e', w3)" by fastforce
  note q2 = quiet_composed(4) [OF assms(1) 1, of p]
  note q3 = quiet_trans [OF q2 quiet_composed(4) [OF assms(1) 2]]
  from assms(2) 1 2 q2 q3 show ?thesis by (auto simp: downloadYouTubeVideo_def split: if_splits)
qed

lemma youtube_answered:
  assumes "lawful_redis (b_redis B) \<alpha>" "dp_platform p = ''youtube''"
  shows "answered \<alpha> B p w (runYouTubeDownload B p w)"
  unfolding runYouTubeDownload_def
proof (rule answered_temp, goal_cases)
  case (1 dir w)
  obtain t w1 where 1: "job_timeout B ''youtube'' w = (t, w1)" by fastforce
  note q1 = quiet_composed(2) [OF assms(1) 1, of p]
  note au = answered_prefix [OF q1 yt_audio_answered [OF assms]]
  let ?o = "ytdlpOpts (b_cfg B) (k_synced B) ''youtube'' (FormatSelector (dp_format p) (dp_quality p) (dp_aspect p)) t"
  let ?opts = "if IsTrimmed p then ?o\<lparr>DownloadSections := trim_section p\<rparr> else ?o"
  obtain err w2 where 2: "downloadYouTubeVideo B p dir ?opts w1 = (err, w2)" by fastforce
  note q2 = quiet_trans [OF q1 yt_video_quiet [OF assms(1) 2]]
  note ends = answered_fail [OF q2] answered_retry [OF q2]
  show ?case
  proof (cases "dp_audio_only p \<or> err \<noteq> None \<or> \<not> is_ok (FindMediaFiles dir (k_readdir B (w_fs w2) dir))")
    case True
    with 1 2 au ends assms(2) show ?thesis
      by (auto simp: Let_def is_ok_def split: option.splits sum.splits)
  next
    case False
    then obtain files where f: "FindMediaFiles dir (k_readdir B (w_fs w2) dir) = Inr files" by (auto simp: is_ok_iff)
    let ?src = "LargestVideo (w_fs w2) files"
    obtain r w3 where 3: "process_video B p ?src w2 = (r, w3)" by fastforce
    note q3 = quiet_trans [OF q2 process_quiet [OF assms(1) 3]]
    obtain path w4 where 4: "ensureFitsUpload B (projr r) w3 = (path, w4)" by fastforce
    note q4 = quiet_trans [OF q3 fits_quiet [OF assms(1) 4]]
    from False 1 2 3 4 f ends answered_fail [OF q3] answered_prefix [OF q4 video_answered [OF assms(1)]] assms(2)
    show ?thesis by (cases r) (simp_all add: Let_def)
  qed
qed

end
