(* ===== verification/Worker_Sample.thy ===== *)
theory Worker_Sample
  imports Worker_Base Db_Props Video_Props
begin

text \<open>
  A concrete environment, world and job, on which the theories of the workers and of the handlers that use the
  database show that the hypotheses of their properties can hold.
\<close>

text \<open>An environment for examples: yt-dlp fails with a given error, every other program is missing.\<close>

definition sample_work_env :: "go_error \<Rightarrow> redis_db work_env" where
  "sample_work_env err = bot_env.extend sample_env
     \<lparr>k_host = sample_host 1 (\<lambda>_. Inl ''no ffprobe''), k_fault = (\<lambda>_. None), k_tmp = (\<lambda>evs pre. Inr ''/t''),
      k_mkdir = (\<lambda>evs d. None), k_copies = (\<lambda>_. False), k_synced = (\<lambda>p. p),
      k_ytdlp = (\<lambda>evs args fs. (([], Some err), fs)), k_readdir = (\<lambda>fs d. Inr []), k_mtime = (\<lambda>fs p. None),
      k_expired = (\<lambda>evs. False),
      k_photos = (\<lambda>evs u d i n fs. (Inl (''no photos'', ''not found''), fs)), k_xtitle = (\<lambda>evs i p. []),
      k_xclean = (\<lambda>t. t), k_translate = (\<lambda>evs t. t),
      k_pins = (\<lambda>evs u d n a b t fs. (Inl (''no pins'', ''no media''), fs)),
      k_tiktok = (\<lambda>evs ts u d fs. (Inl err, fs)), k_carousel = (\<lambda>evs ts u d fs. (Inl err, fs))\<rparr>"

lemma sample_work_sel [simp]:
  "b_redis (sample_work_env err) = ref_redis" "b_prefix (sample_work_env err) = []"
  "k_fault (sample_work_env err) = (\<lambda>_. None)" "b_answer (sample_work_env err) = (\<lambda>evs e. Inr (int (length evs)))"
  by (simp_all add: sample_work_env_def bot_env.extend_def sample_env_def)

definition sample_job :: download_payload where
  "sample_job = zero_download\<lparr>dp_url := ''u'', dp_platform := ''tiktok'', dp_chat := 7, dp_user := 7,
     dp_message := 3, dp_lock_token := ''t'', dp_lock_scene := ''tiktok''\<rparr>"

lemma sample_job_parses: "unmarshal_download (marshal_download sample_job) = Some sample_job"
  by (rule download_decodes)
    (simp_all add: sample_job_def zero_download_def in_int64_def int64_min_def int64_max_def)

definition sample_wworld :: "redis_db wworld" where
  "sample_wworld = \<lparr>w_st = snd (AcquireUserLock ref_redis [] ''t'' 7 ''tiktok'' (hours 1) empty_db),
     w_fsm = newFSM, w_log = [], w_db = empty_tables, w_fs = (\<lambda>_. None)\<rparr>"

end
