(* ===== verification/Worker_Answers.thy ===== *)
theory Worker_Answers
  imports Worker_Props Worker_Sample
begin

text \<open>
  The jobs of single platforms end as the others do, and what that gives for every task the worker
  takes: its lock is released, its outcome booked, its user answered; and where the answer gets lost.
\<close>

subsection \<open>Pinterest\<close>

lemma items_quiet:
  "send_items B q il vl its acc w = (r, w1) \<Longrightarrow> quiet \<alpha> p w w1"
proof (induction its arbitrary: acc w)
  case (Cons it its)
  obtain x w2 where 1: "sendFile B q (mi_path it) (item_title it) (lang_of q) ''pinterest'' False w = (x, w2)" by fastforce
  have q2: "quiet \<alpha> p w w2" using quiet_emit [OF 1 [unfolded sendFile_def]] by simp
  have IH: "send_items B q il vl its acc' w = (r, w1) \<Longrightarrow> quiet \<alpha> p w w1" for acc' w
    by (rule Cons.IH)
  from Cons.prems 1 IH quiet_trans [OF q2 IH] show ?case
    by (cases x) (auto split: if_splits)
qed (simp add: quiet_def)

lemma pin_items_answered:
  assumes "lawful_redis (b_redis B) \<alpha>" "dp_platform p = ''pinterest''"
  shows "answered \<alpha> B p w (sendPinterestItems B p items w)"
proof -
  obtain il w1 where 1: "rt_int B ''global.document_limit_mb'' (c_SendDocumentLimitMB (b_cfg B)) w = (il, w1)" by fastforce
  obtain vl w2 where 2: "rt_max_mb B ''pinterest'' w1 = (vl, w2)" by fastforce
  obtain acc w3 where 3: "send_items B p il vl items \<lparr>ps_images = [], ps_total = 0, ps_any = False\<rparr> w2 = (acc, w3)"
    by fastforce
  obtain x w4 where 4: "emit B (Album (dp_chat p) (ps_images acc)
      (buildMediaCaption [] (lang_of p) (dp_no_watermark p))) w3 = (x, w4)" by fastforce
  note q3 = quiet_trans [OF quiet_trans [OF quiet_reads(1) [OF assms(1) 1, of p] quiet_reads(3) [OF assms(1) 2]] items_quiet [OF 3]]
  have q4: "quiet \<alpha> p w w4" using quiet_trans [OF q3 quiet_emit [OF 4]] by simp
  have c: "closing p (Edit (dp_chat p) (dp_message p) (Loc ''pinterest.all_too_large'' l []) [])" for l
    by (simp add: loc_closes)
  from 1 2 3 4 assms(2) answered_refuse [OF q3 _ c] answered_refuse [OF q4 _ c] answered_done [OF q3] answered_done [OF q4]
  show ?thesis by (cases x) (auto simp: sendPinterestItems_def Let_def)
qed

lemma pin_answered:
  assumes "lawful_redis (b_redis B) \<alpha>" "dp_platform p = ''pinterest''"
  shows "answered \<alpha> B p w (send_pin B p it w)"
proof -
  obtain vl w1 where 1: "rt_max_mb B ''pinterest'' w = (vl, w1)" by fastforce
  note q1 = quiet_reads(3) [OF assms(1) 1, of p]
  obtain il w1' where b1: "rt_int B ''global.document_limit_mb'' (c_SendDocumentLimitMB (b_cfg B)) w1 = (il, w1')" by fastforce
  note qb = quiet_trans [OF q1 quiet_reads(1) [OF assms(1) b1]]
  define lim where "lim = (if mi_type it = ''image'' then (il, w1') else (vl, w1))"
  obtain limit w2 where 2: "lim = (limit, w2)" by fastforce
  then have q2: "quiet \<alpha> p w w2" using q1 qb by (auto simp: lim_def split: if_splits)
  obtain x w3 where 3: "sendFile B p (mi_path it) (item_title it) (lang_of p) ''pinterest'' False w2 = (x, w3)" by fastforce
  have q3: "quiet \<alpha> p w w3" using quiet_trans [OF q2 quiet_emit [OF 3 [unfolded sendFile_def]]] by simp
  have eq: "send_pin B p it w = (let sizeMB = mb (mi_size it) in
      if sizeMB > of_int limit then
        refuse_job B p ''pinterest'' (Loc ''pinterest.all_too_large'' (lang_of p) []) sizeMB ''too large'' w2
      else if w_fs w2 (mi_path it) = None then
        fail_job B p ''pinterest'' 0 (''stat '' @ mi_path it @ '': no such file or directory'') w2
      else (case (x, w3) of (Inl e, w) \<Rightarrow> fail_job B p ''pinterest'' sizeMB e w
         | (Inr _, w) \<Rightarrow> done_job B p ''pinterest'' sizeMB [] w))"
    using 1 b1 2 3 by (auto simp: send_pin_def lim_def Let_def split: if_splits)
  have c: "closing p (Edit (dp_chat p) (dp_message p) (Loc ''pinterest.all_too_large'' l []) [])" for l
    by (simp add: loc_closes)
  from eq assms(2) answered_refuse [OF q2 _ c] answered_fail [OF q2] answered_fail [OF q3] answered_done [OF q3]
  show ?thesis by (simp add: Let_def split: sum.splits)
qed

lemma pinterest_answered:
  assumes "lawful_redis (b_redis B) \<alpha>" "dp_platform p = ''pinterest''"
  shows "answered \<alpha> B p w (runPinterest B p w)"
  unfolding runPinterest_def
proof (rule answered_said, rule answered_temp, goal_cases)
  case (1 dir w)
  let ?c = "b_cfg B"
  obtain t w1 where 1: "rt_int B ''pinterest.timeout_sec'' (c_PinterestTimeoutSeconds ?c) w = (t, w1)" by fastforce
  obtain n w2 where 2: "rt_int B ''pinterest.max_items_per_board'' (c_PinterestMaxItems ?c) w1 = (n, w2)" by fastforce
  obtain i w3 where 3: "rt_bool B ''pinterest.download_images'' (c_PinterestDownloadImages ?c) w2 = (i, w3)" by fastforce
  obtain v w4 where 4: "rt_bool B ''pinterest.download_videos'' (c_PinterestDownloadVideos ?c) w3 = (v, w4)" by fastforce
  obtain r w5 where 5: "on_fs (k_pins B (w_log w4) (dp_url p) dir n i v t) w4 = (r, w5)" by fastforce
  note q2 = quiet_trans [OF quiet_reads(1) [OF assms(1) 1, of p] quiet_reads(1) [OF assms(1) 2]]
  note q4 = quiet_trans [OF quiet_trans [OF q2 quiet_reads(2) [OF assms(1) 3]] quiet_reads(2) [OF assms(1) 4]]
  note q5 = quiet_trans [OF q4 quiet_fs [OF 5]]
  have c: "closing p (Edit (dp_chat p) (dp_message p) (Loc ''pinterest.no_media'' l []) [])" for l
    by (simp add: loc_closes)
  note ends = answered_refuse [OF q5 _ c] answered_fail [OF q5]
    answered_prefix [OF q5 pin_answered [OF assms]] answered_prefix [OF q5 pin_items_answered [OF assms]]
  show ?case
  proof (cases r)
    case (Inl ek)
    obtain e k where "ek = (e, k)" by fastforce
    with Inl 1 2 3 4 5 ends assms(2) show ?thesis by (simp add: Let_def)
  next
    case (Inr items)
    with 1 2 3 4 5 ends assms(2) show ?thesis by (cases items) (simp_all add: Let_def)
  qed
qed

subsection \<open>Instagram\<close>

text \<open>A booked outcome and a deleted status message, whatever was written to it before.\<close>

lemma answered_erased:
  assumes "answered \<alpha> B p w (None, w1)"
  shows "answered \<alpha> B p w (None, unsay B p w1)"
proof -
  from assms obtain evs e where "status p w1 = status p w @ evs @ [e]" by (auto simp: answered_def Let_def)
  then have "status p (unsay B p w1) = status p w @ (evs @ [e]) @ [Erase (dp_chat p) (dp_message p)]" by simp
  with assms erase_closes [of p] show ?thesis unfolding answered_def Let_def by fastforce
qed

lemma answered_booked:
  assumes "quiet \<alpha> p w w1" "pf = dp_platform p"
  shows "answered \<alpha> B p w (None, unsay B p (book B p pf ''completed'' z msg w1))"
  using assms unfolding quiet_def
  by (intro answered_end [where evs = "[]" and st = "''completed''"]) (auto intro: erase_closes)

lemma insta_send_answered:
  assumes "quiet \<alpha> p w w1" "dp_platform p = ''instagram''" "\<not> concerns p ev" "emit B ev w1 = (x, w2)"
  shows "answered \<alpha> B p w (None, unsay B p (case x of Inl e \<Rightarrow> snd (fail_job B p ''instagram'' 0 e w2)
      | Inr _ \<Rightarrow> book B p ''instagram'' ''completed'' 0 [] w2))"
proof -
  note q = quiet_trans [OF assms(1) quiet_emit [OF assms(4,3)]]
  have "answered \<alpha> B p w (None, snd (fail_job B p ''instagram'' 0 e w2))" for e
    using answered_fail [OF q, of "''instagram''" B 0 e] assms(2) by (simp add: fail_job_def)
  with answered_booked [OF q, of "''instagram''"] assms(2) show ?thesis
    by (auto split: sum.splits intro: answered_erased)
qed

lemma instagram_answered:
  assumes "lawful_redis (b_redis B) \<alpha>" "dp_platform p = ''instagram''"
  shows "answered \<alpha> B p w (runInstagram B p w)"
  unfolding runInstagram_def
proof (rule answered_said, rule answered_temp, goal_cases)
  case (1 dir w)
  obtain t w1 where 1: "job_timeout B ''instagram'' w = (t, w1)" by fastforce
  obtain err w2 where 2: "Download B (dp_url p) dir (ytdlpOpts (b_cfg B) (k_synced B) ''instagram'' ''best'' t) w1 = (err, w2)"
    by fastforce
  note q = quiet_trans [OF quiet_composed(2) [OF assms(1) 1, of p] quiet_composed(4) [OF assms(1) 2]]
  have c: "closing p (Edit (dp_chat p) (dp_message p) (Loc ''instagram.no_media'' l []) [])" for l
    by (simp add: loc_closes)
  note ends = answered_refuse [OF q _ c] answered_fail [OF q] answered_retry [OF q]
  show ?case
  proof (cases "err \<noteq> None \<or> \<not> is_ok (FindMediaFiles dir (k_readdir B (w_fs w2) dir))")
    case True
    with 1 2 ends assms(2) show ?thesis by (auto simp: Let_def is_ok_def split: option.splits sum.splits)
  next
    case False
    then obtain files where f: "FindMediaFiles dir (k_readdir B (w_fs w2) dir) = Inr files" by (auto simp: is_ok_iff)
    let ?video = "LargestVideo (w_fs w2) files" and ?images = "ImageFiles files"
    obtain n w3 where 3: "rt_int B ''instagram.carousel_max_items'' 20 w2 = (n, w3)" by fastforce
    note q3 = quiet_trans [OF q quiet_reads(1) [OF assms(1) 3]]
    let ?im = "if int (length ?images) > n then take (nat n) ?images else ?images"
    let ?ev = "Album (dp_chat p) ?im (buildMediaCaption [] (lang_of p) (dp_no_watermark p))"
    obtain x w4 where 4: "emit B ?ev w3 = (x, w4)" by fastforce
    have photos: "answered \<alpha> B p w (None, unsay B p (sendInstagramPhotos B p ?images w2))"
      using insta_send_answered [OF q3 assms(2) _ 4] 3 4
      by (simp add: sendInstagramPhotos_def Let_def split: sum.splits)
    let ?sv = "Media (dp_chat p) ?video (instagramTitle ?video) (lang_of p) ''instagram'' False (\<not> dp_no_watermark p)"
    obtain y w5 where 5: "emit B ?sv w2 = (y, w5)" by fastforce
    have video: "answered \<alpha> B p w (None, unsay B p (sendInstagramVideo B p ?video w2))"
      using insta_send_answered [OF q assms(2) _ 5] 5
      by (simp add: sendInstagramVideo_def sendFile_def split: sum.splits)
    from False 1 2 f photos video ends assms(2) show ?thesis by (simp add: Let_def)
  qed
qed

subsection \<open>TikTok\<close>

lemma tiktok_reads_quiet:
  assumes "lawful_redis (b_redis B) \<alpha>" "tiktok_reads B w = (ts, w1)"
  shows "quiet \<alpha> p w w1"
proof -
  let ?c = "b_cfg B"
  obtain y w2 where 1: "on_st (CurrentString (b_redis B) (Some ?c) ''tiktok.referer'' (c_TikTokReferer ?c)) w = (y, w2)"
    by fastforce
  obtain t w3 where 2: "on_st (PlatformTimeoutSec (b_redis B) ?c ''tiktok'') w2 = (t, w3)" by fastforce
  obtain n w4 where 3: "rt_int B ''tiktok.carousel_max_items'' (c_TikTokCarouselMaxItems ?c) w3 = (n, w4)" by fastforce
  obtain b w5 where 4: "rt_bool B ''tiktok.carousel_audio_enabled'' (c_TikTokCarouselAudioEnabled ?c) w4 = (b, w5)" by fastforce
  obtain d w6 where 5: "rt_int B ''tiktok.max_duration_sec'' (c_TikTokMaxDurationSec ?c) w5 = (d, w6)" by fastforce
  note q3 = quiet_trans [OF quiet_reads(4) [OF assms(1) 1, of p] quiet_reads(5) [OF assms(1) 2]]
  note q5 = quiet_trans [OF quiet_trans [OF q3 quiet_reads(1) [OF assms(1) 3]] quiet_reads(2) [OF assms(1) 4]]
  from quiet_trans [OF q5 quiet_reads(1) [OF assms(1) 5]] assms(2) 1 2 3 4 5 show ?thesis
    by (simp add: tiktok_reads_def Let_def)
qed

lemma carousel_answered:
  assumes "dp_platform p = ''tiktok''"
  shows "answered \<alpha> B p w (send_carousel B p r w)"
proof -
  let ?cap = "buildTikTokCaption (tt_title r) (tt_author r) (lang_of p) (dp_no_watermark p)"
  obtain x w1 where 1: "emit B (Album (dp_chat p) (tt_images r) ?cap) w = (x, w1)" by fastforce
  have q1: "quiet \<alpha> p w w1" using quiet_emit [OF 1] by simp
  define w2 where "w2 = (if tt_available r \<and> tt_count r > 0 \<and> int (length (tt_images r)) < tt_count r
    then post B (Send (dp_chat p) (partial_notice (lang_of p) r) []) w1 else w1)"
  define w3 where "w3 = (if tt_audio r \<noteq> []
    then post B (Sound (dp_chat p) (tt_audio r) (tt_title r) (tt_author r) 0 []) w2 else w2)"
  have q2: "quiet \<alpha> p w w2" by (auto simp: w2_def intro: quiet_trans [OF q1 quiet_post] q1)
  have q3: "quiet \<alpha> p w w3" by (auto simp: w3_def intro: quiet_trans [OF q2 quiet_post] q2)
  have e: "quiet \<alpha> p w w" by (simp add: quiet_def)
  have "send_carousel B p r w = (if tt_images r = [] \<and> tt_audio r = [] then
        refuse_job B p ''tiktok'' (Loc ''tiktok.carousel_empty'' (lang_of p) []) 0 ''carousel empty'' w
      else case x of Inl e \<Rightarrow> fail_job B p ''tiktok'' 0 e w1 | Inr _ \<Rightarrow> done_job B p ''tiktok'' 0 [] w3)"
    using 1 by (simp add: send_carousel_def w2_def w3_def Let_def split: sum.splits)
  with answered_refuse [OF e, of "''tiktok''"] answered_fail [OF q1] answered_done [OF q3] assms show ?thesis
    by (simp add: loc_closes split: sum.splits)
qed

lemma tiktok_answered:
  assumes "lawful_redis (b_redis B) \<alpha>" "dp_platform p = ''tiktok''"
  shows "answered \<alpha> B p w (runTikTok B p w)"
  unfolding runTikTok_def
proof (rule answered_said, rule answered_temp, goal_cases)
  case (1 dir w)
  obtain ts w1 where 1: "tiktok_reads B w = (ts, w1)" by fastforce
  obtain x w2 where 2: "on_fs (k_tiktok B (w_log w1) ts (dp_url p) dir) w1 = (x, w2)" by fastforce
  note q = quiet_trans [OF tiktok_reads_quiet [OF assms(1) 1, of p] quiet_fs [OF 2]]
  note ends = answered_retry [OF q] answered_fail [OF q] answered_prefix [OF q carousel_answered [OF assms(2)]]
  show ?case
  proof (cases x)
    case (Inl e)
    with 1 2 ends assms(2) show ?thesis by (simp add: Let_def)
  next
    case (Inr r)
    obtain y w3 where 3: "sendFile B p (tt_video r) (tt_title r) (lang_of p) ''tiktok'' False w2 = (y, w3)" by fastforce
    have q3: "quiet \<alpha> p w w3" using quiet_trans [OF q quiet_emit [OF 3 [unfolded sendFile_def]]] by simp
    from Inr 1 2 3 ends assms(2) answered_fail [OF q3] answered_done [OF q3] show ?thesis
      by (simp add: Let_def split: sum.splits)
  qed
qed

subsection \<open>Every task\<close>

text \<open>The payload a handler works with: that of the task, with the handler's platform.\<close>

definition job_payload :: "string \<Rightarrow> download_payload \<Rightarrow> download_payload" where
  "job_payload tt p =
     (if tt = TypeTikTok then p\<lparr>dp_platform := ''tiktok''\<rparr>
      else if tt = TypePinterest then p\<lparr>dp_platform := ''pinterest''\<rparr>
      else if tt = TypeInstagram then p\<lparr>dp_platform := ''instagram''\<rparr>
      else p)"

definition download_types :: "string list" where
  "download_types = [TypeDownload, TypeTikTok, TypePinterest, TypeInstagram]"

lemma job_payload_sel [simp]:
  "dp_user (job_payload tt p) = dp_user p" "dp_lock_token (job_payload tt p) = dp_lock_token p"
  "dp_lock_scene (job_payload tt p) = dp_lock_scene p" "dp_chat (job_payload tt p) = dp_chat p"
  "dp_url (job_payload tt p) = dp_url p" "dp_message (job_payload tt p) = dp_message p"
  "dp_lang (job_payload tt p) = dp_lang p"
  by (simp_all add: job_payload_def)

lemma cancel_quiet:
  assumes "lawful_redis (b_redis B) \<alpha>" "checkCancelled B p w = (c, w1)"
  shows "\<not> c \<Longrightarrow> quiet \<alpha> p w w1"
    and "c \<Longrightarrow> \<exists>w2. quiet \<alpha> p w w2 \<and> w1 = say B p (Loc ''download.cancelled'' (lang_of p) []) w2"
proof -
  let ?f = "\<lambda>s. case IsDownloadCancelled (b_redis B) (b_prefix B) (dp_lock_scene p) (dp_user p) (dp_lock_token p) s of
      (b, e, s) \<Rightarrow> ((b, e), s)"
  obtain b e w2 where f: "on_st ?f w = ((b, e), w2)" by (metis prod.exhaust)
  have "\<alpha> s' = \<alpha> s" if "?f s = (r, s')" for s r s'
    by (rule call_cases [OF assms(1), of "CExists (cancelKey (b_prefix B) (dp_lock_scene p) (dp_user p) (dp_lock_token p))" s])
      (use that in \<open>auto simp: IsDownloadCancelled_def\<close>)
  from quiet_on_st [OF f this] have q: "quiet \<alpha> p w w2" .
  have w: "quiet \<alpha> p w w" by (simp add: quiet_def)
  show "\<not> c \<Longrightarrow> quiet \<alpha> p w w1"
    using assms(2) f q w by (auto simp: checkCancelled_def split: if_splits)
  show "c \<Longrightarrow> \<exists>w2. quiet \<alpha> p w w2 \<and> w1 = say B p (Loc ''download.cancelled'' (lang_of p) []) w2"
    using assms(2) f q by (auto simp: checkCancelled_def split: if_splits)
qed

text \<open>What a handler does: nothing but the notice when cancelled, a run that ends properly otherwise; then the release.\<close>

lemma handler_shape:
  assumes "lawful_redis (b_redis B) \<alpha>" "tt \<in> set download_types" "handler_for B tt = Some h"
    and "unmarshal_download body = Some p" "h body w = (r, w')"
  defines "q \<equiv> job_payload tt p"
  obtains (cancelled) w1 where "fst (checkCancelled B q w)" "r = None" "w' = releaseLock B q w1" "w_db w1 = w_db w"
      "\<alpha> (w_st w1) = \<alpha> (w_st w)" "status q w1 = status q w @ [Edit (dp_chat p) (dp_message p) (Loc ''download.cancelled'' (lang_of p) []) []]"
  | (ran) w1 where "\<not> fst (checkCancelled B q w)" "answered \<alpha> B q w (r, w1)" "w' = releaseLock B q w1"
proof -
  define run where "run = (if tt = TypeTikTok then runTikTok B q else if tt = TypePinterest then runPinterest B q
     else if tt = TypeInstagram then runInstagram B q
     else if dp_platform q = ''youtube'' \<and> (dp_quality q > 0 \<or> dp_audio_only q) then runYouTubeDownload B q
     else runDownload B q)"
  have a: "answered \<alpha> B q v (run v)" for v
    using tiktok_answered [OF assms(1)] pinterest_answered [OF assms(1)] instagram_answered [OF assms(1)]
      youtube_answered [OF assms(1)] download_answered [OF assms(1)]
    by (auto simp: run_def q_def job_payload_def task_type_defs)
  have run: "release_after B q (unless_cancelled B q run) w = (r, w')"
    using assms(2-5)
    by (auto simp: download_types_def handler_for_def run_def q_def job_payload_def task_type_defs
        handleDownload_def handleTikTok_def handlePinterest_def handleInstagram_def Let_def split: if_splits)
  obtain c w1 where c: "checkCancelled B q w = (c, w1)" by fastforce
  show thesis
  proof (cases c)
    case True
    then obtain w2 where w2: "quiet \<alpha> q w w2" "w1 = say B q (Loc ''download.cancelled'' (lang_of q) []) w2"
      using cancel_quiet(2) [OF assms(1) c] by blast
    with run c True have "r = None" "w' = releaseLock B q w1"
      by (simp_all add: release_after_def unless_cancelled_def)
    with w2 c True show thesis
      by (intro cancelled [of w1]) (simp_all add: quiet_def q_def lang_of_def)
  next
    case False
    obtain r1 w2 where x: "run w1 = (r1, w2)" by fastforce
    with run c False have "r = r1" "w' = releaseLock B q w2"
      by (simp_all add: release_after_def unless_cancelled_def)
    with answered_prefix [OF cancel_quiet(1) [OF assms(1) c False] a] x c False show thesis
      by (intro ran [of w2]) simp_all
  qed
qed

subsection \<open>The lock of a task\<close>

lemma release_job_lock:
  assumes "lawful_redis (b_redis B) \<alpha>" "reliable_redis (b_redis B)"
  shows "lock_holder (b_prefix B) (\<alpha> (w_st (releaseLock B p w)))
     = (let h = lock_holder (b_prefix B) (\<alpha> (w_st w)) in
        if dp_lock_token p \<noteq> [] \<and> dp_lock_scene p \<noteq> []
           \<and> h (dp_user p) = Some (RText (lock_value (dp_lock_scene p) (dp_lock_token p)))
        then h(dp_user p := None) else h)"
proof -
  obtain e s where r: "ReleaseUserLock (b_redis B) (b_prefix B) (dp_user p) (dp_lock_scene p) (dp_lock_token p) (w_st w) = (e, s)"
    by fastforce
  then have "e = None" using reliable_exec [OF assms(2)] by (simp add: ReleaseUserLock_def)
  from assms(1) r show ?thesis
    by (cases rule: release_cases) (use r \<open>e = None\<close> in \<open>auto simp: releaseLock_def Let_def fun_eq_iff\<close>)
qed

lemma job_lock:
  assumes "lawful_redis (b_redis B) \<alpha>" "reliable_redis (b_redis B)" "tt \<in> set download_types"
    and "handler_for B tt = Some h" "unmarshal_download body = Some p" "h body w = (r, w')"
  shows "lock_holder (b_prefix B) (\<alpha> (w_st w'))
     = (let l = lock_holder (b_prefix B) (\<alpha> (w_st w)) in
        if dp_lock_token p \<noteq> [] \<and> dp_lock_scene p \<noteq> []
           \<and> l (dp_user p) = Some (RText (lock_value (dp_lock_scene p) (dp_lock_token p)))
        then l(dp_user p := None) else l)"
  using assms(1,3-6)
proof (cases rule: handler_shape)
  case (cancelled w1)
  then show ?thesis using release_job_lock [OF assms(1,2), of "job_payload tt p" w1] by (simp add: Let_def)
next
  case (ran w1)
  then have "\<alpha> (w_st w1) = \<alpha> (w_st w)" by (simp add: answered_def Let_def)
  then show ?thesis using ran(3) release_job_lock [OF assms(1,2), of "job_payload tt p" w1] by (simp add: Let_def)
qed

text \<open>
  C6. With a Redis that answers every call, a download task gives its user's lock back however it ends: done, failed, cancelled,
  or about to be run again. If the lock still carries the task's scene and token it is free afterwards, a lock that has passed to
  another download stays, and no other user's lock is touched.
\<close>

theorem task_gives_lock_back:
  assumes "lawful_redis (b_redis B) \<alpha>" "reliable_redis (b_redis B)" "tt \<in> set download_types"
    and "handler_for B tt = Some h" "unmarshal_download body = Some p" "h body w = (r, w')"
  defines "l \<equiv> lock_holder (b_prefix B) (\<alpha> (w_st w))" and "l' \<equiv> lock_holder (b_prefix B) (\<alpha> (w_st w'))"
  shows "l' = (if dp_lock_token p \<noteq> [] \<and> dp_lock_scene p \<noteq> []
      \<and> l (dp_user p) = Some (RText (lock_value (dp_lock_scene p) (dp_lock_token p))) then l(dp_user p := None) else l)"
  using job_lock [OF assms(1-6)] by (simp add: l_def l'_def Let_def)

lemma task_gives_lock_back_witness:
  "lock_holder [] (w_st sample_wworld) 7 = Some (RText (lock_value ''tiktok'' ''t''))
   \<and> lock_holder [] (w_st (snd (handleTikTok (sample_work_env ''connection reset'') (marshal_download sample_job)
        sample_wworld))) 7 = None"
proof -
  let ?B = "sample_work_env ''connection reset''"
  obtain r w' where h: "handleTikTok ?B (marshal_download sample_job) sample_wworld = (r, w')" by fastforce
  have l: "lock_holder [] (w_st sample_wworld) 7 = Some (RText (lock_value ''tiktok'' ''t''))"
    by (simp add: sample_wworld_def AcquireUserLock_def lock_holder_def key_exists_def empty_db_def live_val_def
        live_zset_def visible_def deadline_def hours_def second_def put_val_def)
  have "handler_for ?B TypeTikTok = Some (handleTikTok ?B)" "TypeTikTok \<in> set download_types"
    by (simp_all add: handler_for_def download_types_def task_type_defs)
  with task_gives_lock_back [of ?B "\<lambda>db. db" TypeTikTok "handleTikTok ?B"
      "marshal_download sample_job" sample_job sample_wworld r w'] l lawful_ref_redis reliable_ref sample_job_parses h
  show ?thesis by (simp add: sample_job_def zero_download_def)
qed

text \<open>
  C4. From link to answer, with a Redis that answers every call: when a link of a user who takes locks was enqueued with a job,
  a download worker of the same bot that takes the job from the broker while nothing else touched Redis gives back exactly what
  enqueueing took: every lock is as it was before the message, whether the download worked or not. The ids of the user,
  the chat and the status message fit the integers of the payload, and the scene and the token are not empty.
\<close>

theorem enqueued_link_is_served:
  assumes "lawful_redis (b_redis B) \<alpha>" "reliable_redis (b_redis B)" "b_token B (w_log w) \<noteq> []" "scene \<noteq> []"
    and "enqueue B m u lang link scene tt False w = (err, w1)" "accepted B w1 \<noteq> accepted B w"
    and "b_redis W = b_redis B" "b_prefix W = b_prefix B" "\<alpha> (w_st v) = \<alpha> (w_st w1)"
    and "tt \<in> set download_types" "handler_for W tt = Some h" "in_int64 u"
    and "in_int64 (m_chat m)" "\<forall>pre ev n. b_answer B pre ev = Inr n \<longrightarrow> in_int64 n"
  shows "\<exists>p. accepted B w1 = accepted B w @ [request_for tt p] \<and> dp_user p = u \<and> dp_url p = link_url link
    \<and> lock_holder (b_prefix B) (\<alpha> (w_st (snd (h (rq_body (request_for tt p)) v))))
      = lock_holder (b_prefix B) (\<alpha> (w_st w))"
proof -
  let ?h = "lock_holder (b_prefix B) (\<alpha> (w_st w))" and ?tok = "b_token B (w_log w)"
  from enqueue_pairs [OF assms(1-3,5)] assms(6) obtain p where
    p: "accepted B w1 = accepted B w @ [request_for tt p]" "dp_user p = u" "dp_lock_scene p = scene" "dp_url p = link_url link"
    and i: "dp_chat p = m_chat m" "dp_quality p = 0" "\<exists>pre ev. b_answer B pre ev = Inr (dp_message p)"
    and l: "if shouldAcquireUserLock u False (c_AdminTelegramID (b_cfg B))
        then ?h u = None \<and> dp_lock_token p = ?tok
          \<and> lock_holder (b_prefix B) (\<alpha> (w_st w1)) = ?h(u := Some (RText (lock_value scene ?tok)))
        else dp_lock_token p = [] \<and> lock_holder (b_prefix B) (\<alpha> (w_st w1)) = ?h"
    by auto
  have zero: "in_int64 0" by (simp add: in_int64_def int64_min_def int64_max_def)
  have "lock_holder (b_prefix B) (\<alpha> (w_st (snd (h (rq_body (request_for tt p)) v)))) = ?h"
  proof -
    have "rq_body (request_for tt p) = marshal_download p"
      using assms(10) by (auto simp: request_for_def download_types_def enqueue_defs request_def)
    moreover have "unmarshal_download (marshal_download p) = Some p"
      using i zero assms(12-14) p(2) by (intro download_decodes) auto
    moreover obtain r v' where "h (rq_body (request_for tt p)) v = (r, v')" by fastforce
    ultimately have "lock_holder (b_prefix B) (\<alpha> (w_st v'))
      = (let g = lock_holder (b_prefix B) (\<alpha> (w_st v)) in
         if dp_lock_token p \<noteq> [] \<and> dp_lock_scene p \<noteq> []
            \<and> g (dp_user p) = Some (RText (lock_value (dp_lock_scene p) (dp_lock_token p)))
         then g(dp_user p := None) else g)"
      using job_lock [of W \<alpha> tt h "rq_body (request_for tt p)" p v r v'] assms(1,2,7,8,10,11) by simp
    with \<open>h (rq_body (request_for tt p)) v = (r, v')\<close> l p assms(3,4,9) show ?thesis
      by (auto simp: Let_def fun_eq_iff split: if_splits)
  qed
  with p show ?thesis by blast
qed

definition calm_env :: "redis_db bot_env" where
  "calm_env = sample_env\<lparr>b_answer := \<lambda>evs e. Inr 5\<rparr>"

definition sample_start :: "redis_db world" where
  "sample_start = \<lparr>w_st = empty_db, w_fsm = newFSM, w_log = []\<rparr>"

lemma enqueued_link_is_served_witness:
  "let w1 = snd (enqueue calm_env sample_message 7 ''en'' (plain_link PlatformTikTok ''u'') ''tiktok'' TypeTikTok
         False sample_start);
       W = sample_work_env ''connection reset''; v = sample_wworld\<lparr>w_st := w_st w1\<rparr> in
   \<exists>p. accepted calm_env w1 = [request_for TypeTikTok p] \<and> dp_user p = 7
     \<and> lock_holder [] (w_st (snd (handleTikTok W (rq_body (request_for TypeTikTok p)) v))) = lock_holder [] empty_db"
proof -
  let ?l = "plain_link PlatformTikTok ''u''" and ?W = "sample_work_env ''connection reset''"
  obtain err w1 where e: "enqueue calm_env sample_message 7 ''en'' ?l ''tiktok'' TypeTikTok False sample_start = (err, w1)"
    by fastforce
  have env: "b_redis calm_env = ref_redis" "b_prefix calm_env = []" "b_token calm_env = (\<lambda>evs. ''tok'')"
    "c_AdminTelegramID (b_cfg calm_env) = 0" "b_answer calm_env = (\<lambda>evs e. Inr 5)"
    by (simp_all add: calm_env_def sample_env_def loaded_def envInt64_def)
  have acc: "accepted calm_env w1 \<noteq> []"
    using e by (auto simp: enqueue_def shouldAcquireUserLock_def acquireUserLock_def isAdmin_def on_st_def
        AcquireUserLock_def env Let_def enqueue_with_def emit_def key_exists_def empty_db_def live_val_def
        live_zset_def accepted_def sample_start_def)
  have none: "accepted calm_env sample_start = []" by (simp add: accepted_def sample_start_def)
  have h: "handler_for ?W TypeTikTok = Some (handleTikTok ?W)" "TypeTikTok \<in> set download_types"
    "in_int64 7" "in_int64 5" "in_int64 (m_chat sample_message)"
    by (simp_all add: handler_for_def download_types_def task_type_defs in_int64_def int64_min_def int64_max_def
        sample_message_def)
  have "\<exists>p. accepted calm_env w1 = accepted calm_env sample_start @ [request_for TypeTikTok p] \<and> dp_user p = 7
      \<and> dp_url p = link_url ?l
      \<and> lock_holder (b_prefix calm_env) (w_st (snd (handleTikTok ?W (rq_body (request_for TypeTikTok p))
          (sample_wworld\<lparr>w_st := w_st w1\<rparr>)))) = lock_holder (b_prefix calm_env) (w_st sample_start)"
    by (rule enqueued_link_is_served [where \<alpha> = "\<lambda>db. db", OF _ _ _ _ e])
      (use acc none h env lawful_ref_redis reliable_ref in auto)
  with e none env show ?thesis by (auto simp: Let_def sample_start_def)
qed

subsection \<open>What is booked\<close>

lemma record_row_of:
  assumes "''saveinator'' \<in> set (d_bots db)" "toDBPlatform pf \<in> set platform_enum"
    and "st \<in> {''completed'', ''failed''}"
  shows "\<exists>row. d_downloads (snd (RecordDownload (\<lambda>_. None) u c url pf st z msg db)) = d_downloads db @ [row]
    \<and> dl_user row = u \<and> dl_chat row = c \<and> dl_url row = url \<and> dl_platform row = toDBPlatform pf
    \<and> dl_status row = toDBDownloadStatus st \<and> dl_status row \<in> {''COMPLETED'', ''FAILED''}"
proof -
  have st: "toDBDownloadStatus ''completed'' = ''COMPLETED''" "toDBDownloadStatus ''failed'' = ''FAILED''" by code_simp+
  have en: "''COMPLETED'' \<in> set download_status_enum" "''FAILED'' \<in> set download_status_enum"
    by (simp_all add: download_status_enum_def)
  show ?thesis using assms st en
    by (auto simp: RecordDownload_def RecordDownloadForBot_def and_then_def exec_stmt_def stmt_def Let_def
        insert_user_def insert_chat_def insert_download_def plain_user_def has_key_def)
qed

lemma record_row:
  assumes "''saveinator'' \<in> set (d_bots db)" "toDBPlatform pf \<in> set platform_enum"
    and "st \<in> {''completed'', ''failed''}"
  shows "\<exists>row. d_downloads (snd (RecordDownload (\<lambda>_. None) u c url pf st z msg db)) = d_downloads db @ [row]
    \<and> dl_user row = u \<and> dl_chat row = c \<and> dl_url row = url \<and> dl_platform row = toDBPlatform pf
    \<and> dl_status row \<in> {''COMPLETED'', ''FAILED''}"
  using record_row_of [OF assms, of u c url z msg] by blast

text \<open>
  C5. A download task that was not cancelled, with a database that answers, knows the bot and has the platform in its enumeration
  (the code ignores the error of the booking): when it is done it has booked exactly one download of its user, chat,
  link and platform, completed or failed, and its status message was deleted or shows the outcome. When it
  returns an error, to be run again, it has booked nothing, and all its user
  sees is still the text of a running download, after the last run as well.
\<close>

theorem task_books_one_outcome:
  assumes "lawful_redis (b_redis B) \<alpha>" "tt \<in> set download_types" "handler_for B tt = Some h"
    and "unmarshal_download body = Some p" "h body w = (r, w')" "k_fault B = (\<lambda>_. None)"
    and "''saveinator'' \<in> set (d_bots (w_db w))" "toDBPlatform (dp_platform (job_payload tt p)) \<in> set platform_enum"
    and "\<not> fst (checkCancelled B (job_payload tt p) w)"
  defines "old \<equiv> d_downloads (w_db w)" and "new \<equiv> d_downloads (w_db w')"
  shows "case r of
      None \<Rightarrow> (\<exists>row. new = old @ [row] \<and> dl_user row = dp_user p \<and> dl_chat row = dp_chat p
            \<and> dl_url row = dp_url p \<and> dl_platform row = toDBPlatform (dp_platform (job_payload tt p))
            \<and> dl_status row \<in> {''COMPLETED'', ''FAILED''})
          \<and> (\<exists>evs e. status p w' = status p w @ evs @ [e] \<and> closing p e)
    | Some e \<Rightarrow> new = old \<and> (\<exists>n. status p w' = status p w @ replicate n (downloading p))"
proof -
  let ?q = "job_payload tt p"
  have c: "concerns ?q = concerns p" "closing ?q = closing p" "downloading ?q = downloading p"
    "status ?q w1 = status p w1" for w1 :: "'a wworld"
  proof -
    show "concerns ?q = concerns p" by (rule ext) (auto elim!: concerns.elims)
    then show "closing ?q = closing p" "status ?q w1 = status p w1"
      by (auto simp: closing_def status_def intro!: ext)
    show "downloading ?q = downloading p" by (simp add: downloading_def lang_of_def)
  qed
  from assms(1-5) show ?thesis
  proof (cases rule: handler_shape)
    case cancelled
    with assms(9) show ?thesis by simp
  next
    case (ran w1)
    have w: "w_db w' = w_db w1" "status p w' = status p w1"
      using ran(3) by (auto simp: releaseLock_def status_def)
    show ?thesis
    proof (cases r)
      case None
      with ran(2) w c assms(6) obtain st z msg where
        "st \<in> {''completed'', ''failed''}" "w_db w' = snd (RecordDownload (\<lambda>_. None) (dp_user p) (dp_chat p) (dp_url p)
           (dp_platform ?q) st z msg (w_db w))" "\<exists>evs e. status p w' = status p w @ evs @ [e] \<and> closing p e"
        by (auto simp: answered_def Let_def)
      with record_row [OF assms(7,8)] None show ?thesis by (auto simp: old_def new_def)
    next
      case (Some e)
      with ran(2) w c show ?thesis by (auto simp: answered_def Let_def old_def new_def)
    qed
  qed
qed

lemma sample_work_tiktok:
  "k_tmp (sample_work_env err) = (\<lambda>evs pre. Inr ''/t'')"
  "k_tiktok (sample_work_env err) = (\<lambda>evs ts u d fs. (Inl err, fs))"
  by (simp_all add: sample_work_env_def bot_env.extend_def)

lemma task_books_one_outcome_witness:
  "let w' = snd (handleTikTok (sample_work_env ''private video'') (marshal_download sample_job) sample_wworld) in
   \<exists>row. d_downloads (w_db w') = [row] \<and> dl_user row = 7 \<and> dl_url row = ''u'' \<and> dl_platform row = ''TIKTOK''"
proof -
  let ?B = "sample_work_env ''private video''"
  obtain r w' where h: "handleTikTok ?B (marshal_download sample_job) sample_wworld = (r, w')" by fastforce
  have a: "handler_for ?B TypeTikTok = Some (handleTikTok ?B)" "TypeTikTok \<in> set download_types"
    by (simp_all add: handler_for_def download_types_def task_type_defs)
  have b: "toDBPlatform ''tiktok'' \<in> set platform_enum" by code_simp
  have c: "dp_platform (job_payload TypeTikTok sample_job) = ''tiktok''" "d_bots (w_db sample_wworld) = [''saveinator'']"
    "d_downloads (w_db sample_wworld) = []"
    by (simp_all add: job_payload_def sample_wworld_def empty_tables_def)
  have d: "\<not> fst (checkCancelled ?B (job_payload TypeTikTok sample_job) sample_wworld)"
    by (simp add: checkCancelled_def on_st_def IsDownloadCancelled_def sample_wworld_def key_exists_def live_val_def
        AcquireUserLock_def empty_db_def live_zset_def put_val_def cancelKey_def cancelPrefix_def lockKey_def lockPrefix_def key_def)
  have "\<not> IsRetryableError (Some ''private video'')" by code_simp
  with h d have "r = None"
    by (simp add: handleTikTok_def sample_job_parses release_after_def unless_cancelled_def runTikTok_def in_temp_dir_def
        sample_work_tiktok on_fs_def fail_job_def job_payload_def task_type_defs Let_def split: prod.splits bool.splits)
  moreover have "toDBPlatform ''tiktok'' = ''TIKTOK''" by code_simp
  moreover have "dp_user sample_job = 7" "dp_url sample_job = ''u''" by (simp_all add: sample_job_def)
  moreover note task_books_one_outcome [of ?B "\<lambda>db. db" TypeTikTok "handleTikTok ?B" "marshal_download sample_job" sample_job
      sample_wworld r w', OF _ a(2,1) sample_job_parses h]
  ultimately show ?thesis using b c d h lawful_ref_redis by auto
qed

subsection \<open>The upload limit\<close>

text \<open>The value a reliable Redis gives a worker.\<close>

definition int_setting :: "config \<Rightarrow> redis_db \<Rightarrow> string \<Rightarrow> int \<Rightarrow> int" where
  "int_setting cfg db k d =
     (case Lookup k of
        None \<Rightarrow> d
      | Some def \<Rightarrow> (case setting_of (Some cfg) db def of VInt n \<Rightarrow> n | _ \<Rightarrow> d))"

lemma int_setting_read:
  assumes "lawful_redis R \<alpha>" "reliable_redis R" "CurrentInt R (Some cfg) k d s = (n, s1)"
  shows "n = int_setting cfg (\<alpha> s) k d \<and> \<alpha> s1 = \<alpha> s"
proof (cases "Lookup k")
  case (Some def)
  obtain r s2 where g: "RuntimeGet R (RedisKey def) s = (r, s2)" by fastforce
  have "r \<noteq> Inl e" for e
    using g reliable_call [OF assms(2)] by (auto simp: RuntimeGet_def split: prod.splits sum.splits reply.splits option.splits rval.splits)
  with RuntimeGet_cases [OF assms(1) g] have "r = Inr (override (\<alpha> s) (RedisKey def))" "\<alpha> s2 = \<alpha> s" by auto
  with assms(3) Some g show ?thesis
    by (auto simp: CurrentInt_def CurrentValue_def int_setting_def setting_of_def split: option.splits val.splits)
qed (use assms(3) in \<open>auto simp: CurrentInt_def int_setting_def\<close>)

lemma trunc_le: "0 \<le> x \<Longrightarrow> of_int (trunc x) \<le> x"
  by (simp add: trunc_def of_int_floor_le)

text \<open>The effective limit: the platform's own, but not above what Telegram takes from a bot.\<close>

definition youtube_limit :: "config \<Rightarrow> redis_db \<Rightarrow> int" where
  "youtube_limit cfg db =
     (let own = int_setting cfg db ''youtube.max_file_mb'' (c_YouTubeMaxFileSizeMB cfg);
          tg = int_setting cfg db ''global.telegram_upload_limit_mb'' (c_TelegramUploadLimitMB cfg) in
      if tg > 0 then min own tg else own)"

lemma limit_read:
  assumes "lawful_redis (b_redis B) \<alpha>" "reliable_redis (b_redis B)" "maxFileMB B ''youtube'' w = (n, w1)"
  shows "n = youtube_limit (b_cfg B) (\<alpha> (w_st w))" "\<alpha> (w_st w1) = \<alpha> (w_st w)" "w_fs w1 = w_fs w"
    "w_log w1 = w_log w"
proof -
  have lk: "Lookup ''youtube.max_file_mb'' \<noteq> None"
    by (simp add: Lookup_def registry_def intSetting_def boolSetting_def choiceSetting_def)
  let ?c = "b_cfg B" and ?R = "b_redis B"
  obtain a w2 where 1: "rt_max_mb B ''youtube'' w = (a, w2)" by fastforce
  obtain b w3 where 2: "rt_int B ''global.telegram_upload_limit_mb'' (c_TelegramUploadLimitMB ?c) w2 = (b, w3)" by fastforce
  have i1: "CurrentInt ?R (Some ?c) ''youtube.max_file_mb'' (c_YouTubeMaxFileSizeMB ?c) (w_st w) = (a, w_st w2)"
    and l1: "w_log w2 = w_log w" "w_fs w2 = w_fs w"
    using on_st_eqD [of "PlatformMaxFileMB ?R ?c ''youtube''" w a w2] 1 lk on_st_more(2) [of "PlatformMaxFileMB ?R ?c ''youtube''" w]
    by (auto simp: rt_max_mb_def PlatformMaxFileMB_def)
  let ?g = "CurrentInt ?R (Some ?c) ''global.telegram_upload_limit_mb'' (c_TelegramUploadLimitMB ?c)"
  have i2: "?g (w_st w2) = (b, w_st w3)" and l2: "w_log w3 = w_log w2" "w_fs w3 = w_fs w2"
    using on_st_eqD [of ?g w2 b w3] 2 on_st_more(2) [of ?g w2] by (auto simp: rt_int_def)
  from assms(3) 1 2 have "w1 = w3" "n = (if b > 0 \<and> a > b then b else a)" by (auto simp: maxFileMB_def)
  with int_setting_read [OF assms(1,2) i1] int_setting_read [OF assms(1,2) i2] l1 l2
  show "n = youtube_limit (b_cfg B) (\<alpha> (w_st w))" "\<alpha> (w_st w1) = \<alpha> (w_st w)" "w_fs w1 = w_fs w" "w_log w1 = w_log w"
    by (auto simp: youtube_limit_def Let_def min_def)
qed

text \<open>What is sent after the pass that makes a video fit.\<close>

fun is_Media :: "event \<Rightarrow> bool" where
  "is_Media (Media c f t l pf an wm) = True"
| "is_Media e = False"

lemma fitted_result:
  assumes "lawful_redis (b_redis B) \<alpha>" "reliable_redis (b_redis B)" "lawful_host (k_host B)"
    and "dp_platform p = ''youtube''"
    and "ensureFitsUpload B path w = (path', w1)" "sendVideoResult B p path' w1 = (r, w2)"
  defines "L \<equiv> youtube_limit (b_cfg B) (\<alpha> (w_st w))" and "siz \<equiv> mb (size_of (w_fs w1) path')"
  shows "(if siz \<le> of_int L
      then \<exists>t e. w_log w2 = w_log w @ [Media (dp_chat p) path' t (lang_of p) ''youtube'' False (\<not> dp_no_watermark p), e]
        \<and> \<not> is_Media e
      else w_log w2 = w_log w @ [Edit (dp_chat p) (dp_message p) (too_large (lang_of p) siz L) []])
    \<and> (0 < L \<and> of_int L < mb (size_of (w_fs w) path)
        \<and> snd (fst (CompressToFit (k_host B) path (trunc (of_int L * 1024 * 1024 * 98 / 100)) (w_fs w)))
      \<longrightarrow> siz \<le> of_int L)"
proof -
  obtain n wa where 1: "maxFileMB B ''youtube'' w = (n, wa)" by fastforce
  note la = limit_read [OF assms(1,2) 1]
  let ?m = "trunc (of_int L * 1024 * 1024 * 98 / 100)"
  obtain f ok fs' where c: "CompressToFit (k_host B) path ?m (w_fs w) = ((f, ok), fs')" by (metis prod.exhaust)
  have n: "n = L" using la(1) by (simp add: L_def)
  have w1: "\<alpha> (w_st w1) = \<alpha> (w_st w)" "w_log w1 = w_log w"
    and fit: "0 < L \<Longrightarrow> of_int L < mb (size_of (w_fs w) path) \<Longrightarrow> ok \<Longrightarrow> path' = f \<and> w_fs w1 = fs'"
    using assms(5) 1 la n c
    by (auto simp: ensureFitsUpload_def on_fs_def Let_def split: if_splits)
  have small: "siz \<le> of_int L" if g: "0 < L" "of_int L < mb (size_of (w_fs w) path)" "ok"
  proof -
    obtain nd where "w_fs w path = Some nd" using g(1,2)
      by (cases "w_fs w path") (auto simp: size_of_def file_size_def mb_def)
    from fitted_fits [OF assms(3) this c] g(3) obtain k where k: "file_size fs' f = Some k" "k \<le> ?m" by auto
    have "of_int ?m \<le> (of_int L * 1024 * 1024 * 98 / 100 :: rat)" using g(1) by (intro trunc_le) simp
    with k(2) have "(of_int k :: rat) \<le> of_int L * 1024 * 1024 * 98 / 100"
      by (meson of_int_le_iff order_trans)
    moreover have "(of_int L :: rat) * 1024 * 1024 * 98 / 100 \<le> of_int L * (1024 * 1024)" using g(1) by simp
    ultimately have "mb k \<le> of_int L" by (simp add: mb_def field_simps)
    with fit g k(1) show ?thesis by (simp add: siz_def size_of_def)
  qed
  obtain n' wb where 2: "maxFileMB B ''youtube'' w1 = (n', wb)" by fastforce
  note lb = limit_read [OF assms(1,2) 2]
  have n': "n' = L" using lb(1) w1(1) by (simp add: L_def)
  let ?t = "DisplayTitle path'"
  let ?ev = "Media (dp_chat p) path' ?t (lang_of p) ''youtube'' False (\<not> dp_no_watermark p)"
  obtain x wc where 3: "emit B ?ev wb = (x, wc)" by fastforce
  have sent: "w_log wc = w_log w @ [?ev]" using emit_eqD [OF 3] lb(4) w1(2) by simp
  have "if siz \<le> of_int L then \<exists>t e. w_log w2 = w_log w @ [Media (dp_chat p) path' t (lang_of p) ''youtube'' False (\<not> dp_no_watermark p), e] \<and> \<not> is_Media e
      else w_log w2 = w_log w @ [Edit (dp_chat p) (dp_message p) (too_large (lang_of p) siz L) []]"
    using assms(4,6) 2 3 n' sent lb(4) w1(2)
    by (auto simp: sendVideoResult_def Let_def video_title_def sendFile_def siz_def [symmetric] refuse_job_def
        fail_job_def done_job_def say_def unsay_def book_def split: if_splits sum.splits)
  with small c show ?thesis by auto
qed

text \<open>
  A failed delivery on Instagram is written to the status message, which is then deleted: the user
  is told nothing.
\<close>

lemma instagram_failure_unseen:
  assumes "b_answer B (w_log w) (Media (dp_chat p) path (instagramTitle path) (lang_of p) ''instagram'' False
      (\<not> dp_no_watermark p)) = Inl e"
  shows "status p (unsay B p (sendInstagramVideo B p path w)) = status p w
     @ [Edit (dp_chat p) (dp_message p) (userFacingError B (lang_of p) (dp_user p) (Some e)) [],
        Erase (dp_chat p) (dp_message p)]"
  using assms
  by (simp add: sendInstagramVideo_def sendFile_def emit_def fail_job_def) (simp add: status_def)

end
