(* ===== verification/Upload_Props.thy ===== *)
theory Upload_Props
  imports Worker_Answers
begin

text \<open>
  The upload limit of a YouTube job (\<open>worker/download.go\<close>, \<open>runYouTubeDownload\<close>): what the whole job sends,
  from the download to the delivery.
\<close>

subsection \<open>The videos a job sends\<close>

definition media :: "('s, 'w) world_scheme \<Rightarrow> event list" where
  "media w = filter is_Media (w_log w)"

text \<open>The file a YouTube job has before the pass that makes it fit, and the world then; \<open>None\<close> when it gets none.\<close>

definition prepared_video :: "'s work_env \<Rightarrow> download_payload \<Rightarrow> 's wworld \<Rightarrow> (string \<times> 's wworld) option" where
  "prepared_video B p w =
     (case k_tmp B (w_log w) ''saveinator-yt-'' of
        Inl e \<Rightarrow> None
      | Inr dir \<Rightarrow>
          let (timeout, w) = job_timeout B ''youtube'' (w\<lparr>w_fs := (w_fs w)(dir := Some Dir)\<rparr>);
              opts = ytdlpOpts (b_cfg B) (k_synced B) ''youtube''
                       (FormatSelector (dp_format p) (dp_quality p) (dp_aspect p)) timeout;
              opts = (if IsTrimmed p then opts\<lparr>DownloadSections := trim_section p\<rparr> else opts) in
          if dp_audio_only p then None
          else (case downloadYouTubeVideo B p dir opts w of
             (Some e, w) \<Rightarrow> None
           | (None, w) \<Rightarrow>
               (case FindMediaFiles dir (k_readdir B (w_fs w) dir) of
                  Inl e \<Rightarrow> None
                | Inr files \<Rightarrow>
                    if LargestVideo (w_fs w) files = [] then None
                    else (case process_video B p (LargestVideo (w_fs w) files) w of
                       (Inl e, w) \<Rightarrow> None
                     | (Inr path, w) \<Rightarrow> Some (path, w)))))"

lemma log_reads:
  shows "on_st f w = (r, w1) \<Longrightarrow> media w1 = media w" "on_fs g w = (x, w1) \<Longrightarrow> media w1 = media w"
    "rt_int B k d w = (n, w1) \<Longrightarrow> media w1 = media w" "rt_bool B k b w = (y, w1) \<Longrightarrow> media w1 = media w"
    "job_timeout B pf w = (t, w1) \<Longrightarrow> media w1 = media w" "maxFileMB B pf w = (n, w1) \<Longrightarrow> media w1 = media w"
  by (auto simp: media_def on_st_def on_fs_def rt_int_def rt_bool_def rt_max_mb_def job_timeout_def maxFileMB_def
      split: prod.splits if_splits)

lemma log_download:
  "Download B url dir opts w = (e, w1) \<Longrightarrow> media w1 = media w"
  "downloadYouTubeVideo B p dir opts w = (e, w1) \<Longrightarrow> media w1 = media w"
  by (auto simp: media_def Download_def downloadYouTubeVideo_def split: prod.splits if_splits)

lemma log_process: "process_video B p source w = (r, w1) \<Longrightarrow> media w1 = media w"
  by (auto simp: process_video_def Let_def dest!: log_reads(2-4) split: prod.splits bool.splits sum.splits if_splits)

lemma log_ends:
  "media (snd (fail_job B p pf z e w)) = media w" "media (snd (refuse_job B p pf t z e w)) = media w"
  "media (snd (done_job B p pf z e w)) = media w" "media (w\<lparr>w_fs := fs\<rparr>) = media w"
  by (simp_all add: media_def fail_job_def refuse_job_def done_job_def say_def unsay_def book_def)

lemma log_audio: "media (snd (runYouTubeAudio B p dir w)) = media w"
proof -
  obtain r w1 where 1: "DownloadYouTubeAudio B (dp_url p) dir ''mp3'' (trim_section p) w = (r, w1)" by fastforce
  then have m: "media w1 = media w"
    by (auto simp: DownloadYouTubeAudio_def Let_def on_fs_def media_def split: option.splits prod.splits)
  obtain n w2 where 2: "maxFileMB B ''youtube'' w1 = (n, w2)" by fastforce
  have s: "media w3 = media w2" if "emit B (Sound c f t a d cv) w2 = (x, w3)" for c f t a d cv x w3
    using emit_eqD [OF that] by (simp add: media_def)
  show ?thesis using 1 2 m log_reads(6) [OF 2]
    by (auto simp: runYouTubeAudio_def Let_def log_ends dest: s split: sum.splits prod.splits)
qed

text \<open>The job in terms of the prepared file.\<close>

lemma youtube_job:
  assumes "runYouTubeDownload B p w = (r, w')"
  shows "case prepared_video B p w of
      None \<Rightarrow> media w' = media w
    | Some (path, v) \<Rightarrow> media v = media w
        \<and> (\<exists>fs. w' = (snd (case ensureFitsUpload B path v of (path', w1) \<Rightarrow> sendVideoResult B p path' w1))\<lparr>w_fs := fs\<rparr>)"
proof (cases "k_tmp B (w_log w) ''saveinator-yt-''")
  case (Inl e)
  with assms show ?thesis by (simp add: runYouTubeDownload_def in_temp_dir_def prepared_video_def)
next
  case (Inr dir)
  obtain t w1 where 1: "job_timeout B ''youtube'' (w\<lparr>w_fs := (w_fs w)(dir := Some Dir)\<rparr>) = (t, w1)" by fastforce
  have m1: "media w1 = media w" using log_reads(5) [OF 1] by (simp add: log_ends)
  let ?o = "ytdlpOpts (b_cfg B) (k_synced B) ''youtube'' (FormatSelector (dp_format p) (dp_quality p) (dp_aspect p)) t"
  let ?opts = "if IsTrimmed p then ?o\<lparr>DownloadSections := trim_section p\<rparr> else ?o"
  obtain err w2 where 2: "downloadYouTubeVideo B p dir ?opts w1 = (err, w2)" by fastforce
  have m2: "media w2 = media w" using log_download(2) [OF 2] m1 by simp
  show ?thesis
  proof (cases "dp_audio_only p \<or> err \<noteq> None \<or> \<not> is_ok (FindMediaFiles dir (k_readdir B (w_fs w2) dir))")
    case True
    with assms Inr 1 2 m1 m2 log_audio [of B p dir w1] show ?thesis
      by (auto simp: runYouTubeDownload_def in_temp_dir_def prepared_video_def Let_def is_ok_def log_ends
          fail_job_def say_def book_def media_def split: option.splits sum.splits prod.splits if_splits)
  next
    case False
    then obtain files where f: "FindMediaFiles dir (k_readdir B (w_fs w2) dir) = Inr files" by (auto simp: is_ok_iff)
    let ?src = "LargestVideo (w_fs w2) files"
    obtain x w3 where 3: "process_video B p ?src w2 = (x, w3)" by fastforce
    have m3: "media w3 = media w" using log_process [OF 3] m2 by simp
    note eqs = runYouTubeDownload_def in_temp_dir_def prepared_video_def Let_def
    show ?thesis
    proof (cases "?src = [] \<or> \<not> is_ok x")
      case True
      with False assms Inr 1 2 3 f m2 m3 show ?thesis
        by (cases x) (auto simp: eqs fail_job_def say_def book_def media_def split: if_splits)
    next
      case ok: False
      then obtain path where "x = Inr path" by (auto simp: is_ok_iff)
      with ok False assms Inr 1 2 3 f m3 show ?thesis
        by (auto simp: eqs split: prod.splits)
    qed
  qed
qed

text \<open>Until then the job only reads Redis.\<close>

lemma prepared_reads:
  assumes "lawful_redis (b_redis B) \<alpha>" "prepared_video B p w = Some (path, v)"
  shows "\<alpha> (w_st v) = \<alpha> (w_st w)"
proof -
  obtain dir where k: "k_tmp B (w_log w) ''saveinator-yt-'' = Inr dir"
    using assms(2) by (auto simp: prepared_video_def split: sum.splits)
  obtain t w1 where 1: "job_timeout B ''youtube'' (w\<lparr>w_fs := (w_fs w)(dir := Some Dir)\<rparr>) = (t, w1)" by fastforce
  let ?o = "ytdlpOpts (b_cfg B) (k_synced B) ''youtube'' (FormatSelector (dp_format p) (dp_quality p) (dp_aspect p)) t"
  let ?opts = "if IsTrimmed p then ?o\<lparr>DownloadSections := trim_section p\<rparr> else ?o"
  obtain err w2 where 2: "downloadYouTubeVideo B p dir ?opts w1 = (err, w2)" by fastforce
  obtain files where 3: "process_video B p (LargestVideo (w_fs w2) files) w2 = (Inr path, v)"
    using assms(2) k 1 2
    by (auto simp: prepared_video_def Let_def split: option.splits sum.splits prod.splits if_splits)
  from quiet_trans [OF quiet_composed(2) [OF assms(1) 1] quiet_trans [OF yt_video_quiet [OF assms(1) 2]
      process_quiet [OF assms(1) 3]], of p]
  show ?thesis by (simp add: quiet_def)
qed

text \<open>
  C19. A YouTube job for a chosen quality sends a video only within the effective upload limit, with a Redis that answers every call
  and an ffmpeg that writes no file but its output. The job sends no video at all when it gets no file ready (it is for the audio
  alone, or the download or an encoding fails). Otherwise the file goes through the pass that makes it fit, and what comes out is
  handed to Telegram, as the only video of the job, exactly when its size is within the limit; else the status message names the
  size and the limit. A file above a positive limit that the pass could encode is within the limit afterwards, so it is sent.
\<close>

theorem upload_limit_respected:
  assumes "lawful_redis (b_redis B) \<alpha>" "reliable_redis (b_redis B)" "lawful_host (k_host B)"
    and "dp_platform p = ''youtube''" "runYouTubeDownload B p w = (r, w')"
  shows "case prepared_video B p w of
      None \<Rightarrow> media w' = media w
    | Some (path, v) \<Rightarrow>
        (let L = youtube_limit (b_cfg B) (\<alpha> (w_st w));
             (path', w1) = ensureFitsUpload B path v;
             siz = mb (size_of (w_fs w1) path') in
         (if siz \<le> of_int L
          then \<exists>t. media w' = media w @ [Media (dp_chat p) path' t (lang_of p) ''youtube'' False (\<not> dp_no_watermark p)]
          else media w' = media w
            \<and> w_log w' = w_log v @ [Edit (dp_chat p) (dp_message p) (too_large (lang_of p) siz L) []])
         \<and> (0 < L \<and> of_int L < mb (size_of (w_fs v) path)
             \<and> snd (fst (CompressToFit (k_host B) path (trunc (of_int L * 1024 * 1024 * 98 / 100)) (w_fs v)))
           \<longrightarrow> siz \<le> of_int L))"
proof (cases "prepared_video B p w")
  case None
  with youtube_job [OF assms(5)] show ?thesis by simp
next
  case (Some pv)
  obtain path v where pv: "pv = (path, v)" by fastforce
  obtain path' w1 where e: "ensureFitsUpload B path v = (path', w1)" by fastforce
  obtain r2 w2 where s: "sendVideoResult B p path' w1 = (r2, w2)" by fastforce
  have m: "media v = media w" "w_log w' = w_log w2"
    using youtube_job [OF assms(5)] Some pv e s by auto
  have "\<alpha> (w_st v) = \<alpha> (w_st w)" using prepared_reads [OF assms(1)] Some pv by auto
  with fitted_result [OF assms(1-4) e s] Some pv e m show ?thesis
    by (auto simp: media_def Let_def split: if_splits)
qed

text \<open>
  A download of 80 megabytes and a limit of 50: ffmpeg makes a file of one byte, which is the only video sent.
\<close>

definition fit_env :: "redis_db work_env" where
  "fit_env = (sample_work_env [])\<lparr>k_host := sample_host 1 sample_probe,
     k_ytdlp := (\<lambda>evs args fs. (([], None), fs(''/t/a.webm'' \<mapsto> File 83886080 ''v''))),
     k_readdir := (\<lambda>fs d. Inr [(''a.webm'', File 83886080 ''v'')])\<rparr>"

definition fit_world :: "redis_db wworld" where
  "fit_world = sample_wworld\<lparr>w_st := empty_db\<rparr>"

definition fit_job :: download_payload where
  "fit_job = sample_job\<lparr>dp_platform := ''youtube''\<rparr>"

lemma fit_sel:
  "b_redis fit_env = ref_redis" "k_host fit_env = sample_host 1 sample_probe" "b_cfg fit_env = loaded (\<lambda>_. [])"
  "k_tmp fit_env = (\<lambda>evs pre. Inr ''/t'')" "k_mkdir fit_env = (\<lambda>evs d. None)"
  "k_ytdlp fit_env = (\<lambda>evs args fs. (([], None), fs(''/t/a.webm'' \<mapsto> File 83886080 ''v'')))"
  "k_readdir fit_env = (\<lambda>fs d. Inr [(''a.webm'', File 83886080 ''v'')])"
  "w_st fit_world = empty_db" "w_log fit_world = []" "dp_platform fit_job = ''youtube''" "dp_chat fit_job = 7"
  "\<not> dp_audio_only fit_job" "dp_aspect fit_job = []" "lang_of fit_job = ''en''"
  by (simp_all add: fit_env_def fit_world_def fit_job_def sample_work_env_def bot_env.extend_def sample_env_def
      sample_wworld_def sample_job_def zero_download_def lang_of_def)

lemma fit_limit: "youtube_limit (b_cfg fit_env) empty_db = 50"
proof -
  have lk: "Lookup ''youtube.max_file_mb'' = Some (intSetting ''youtube.max_file_mb'' ''YouTubeMaxFileSizeMB'' ''youtube'' ''Max file'' ''MB'' 1 1999 1999)"
    "Lookup ''global.telegram_upload_limit_mb'' = Some (intSetting ''global.telegram_upload_limit_mb'' ''TelegramUploadLimitMB'' ''global'' ''Telegram upload limit'' ''MB'' 1 1999 50)"
    by (simp_all add: Lookup_def registry_def intSetting_def boolSetting_def choiceSetting_def)
  have o: "override empty_db k = None" for k by (simp add: override_def empty_db_def)
  have d: "c_YouTubeMaxFileSizeMB (loaded (\<lambda>_. [])) = 1999" "c_TelegramUploadLimitMB (loaded (\<lambda>_. [])) = 50"
    by (simp_all add: loaded_def envInt_def)
  show ?thesis
    by (simp add: youtube_limit_def int_setting_def lk setting_of_def o fit_sel intSetting_def defaultFromConfig_def
        config_value_def d)
qed

text \<open>The settings the encoding pass reads are the defaults.\<close>

lemma fit_reads:
  assumes "w_st w = empty_db"
  shows "rt_bool fit_env ''youtube.compress_long_enabled'' b w = (True, w)"
    and "rt_int fit_env ''youtube.compress_min_duration_sec'' n w = (600, w)"
proof -
  have lk: "Lookup ''youtube.compress_long_enabled'' = Some (boolSetting ''youtube.compress_long_enabled'' ''YouTubeCompressLongEnabled'' ''youtube'' ''Compress long videos'' True)"
    "Lookup ''youtube.compress_min_duration_sec'' = Some (intSetting ''youtube.compress_min_duration_sec'' ''YouTubeCompressMinDurationSec'' ''youtube'' ''Compress min duration'' ''sec'' 60 86400 600)"
    by (simp_all add: Lookup_def registry_def intSetting_def boolSetting_def choiceSetting_def)
  have w: "w\<lparr>w_st := empty_db\<rparr> = w" using assms by simp
  have e: "db_hashes empty_db = (\<lambda>_. [])" by (simp add: empty_db_def)
  show "rt_bool fit_env ''youtube.compress_long_enabled'' b w = (True, w)"
    "rt_int fit_env ''youtube.compress_min_duration_sec'' n w = (600, w)"
    using w by (simp_all add: rt_bool_def rt_int_def on_st_def CurrentBool_def CurrentInt_def lk CurrentValue_def assms
        RuntimeGet_def ref_redis_def e fit_sel intSetting_def boolSetting_def defaultFromConfig_def config_value_def
        registry_default_def)
qed

lemma fit_prepared:
  "\<exists>v. prepared_video fit_env fit_job fit_world = Some (''/t/a.webm'', v) \<and> w_st v = empty_db
     \<and> w_fs v ''/t/a.webm'' = Some (File 83886080 ''v'')"
proof -
  let ?w = "fit_world\<lparr>w_fs := (w_fs fit_world)(''/t'' := Some Dir)\<rparr>"
  obtain t w1 where 1: "job_timeout fit_env ''youtube'' ?w = (t, w1)" by fastforce
  let ?o = "ytdlpOpts (b_cfg fit_env) (k_synced fit_env) ''youtube'' (FormatSelector (dp_format fit_job) (dp_quality fit_job) (dp_aspect fit_job)) t"
  let ?opts = "if IsTrimmed fit_job then ?o\<lparr>DownloadSections := trim_section fit_job\<rparr> else ?o"
  obtain e w2 where 2: "downloadYouTubeVideo fit_env fit_job ''/t'' ?opts w1 = (e, w2)" by fastforce
  obtain args fs0 where a: "buildArgs (k_copies fit_env) (dp_url fit_job) ''/t'' ?opts False (w_fs w1) = (args, fs0)" by fastforce
  have e: "e = None" and f: "w_fs w2 = fs0(''/t/a.webm'' \<mapsto> File 83886080 ''v'')"
    using 2 a by (auto simp: downloadYouTubeVideo_def Download_def run_ytdlp_def fit_sel)
  have "\<exists>p. quiet (\<lambda>db. db) p ?w w2"
    using quiet_trans [OF quiet_composed(2) [OF _ 1] yt_video_quiet [OF _ 2], of "\<lambda>db. db"] lawful_ref_redis
    by (auto simp: fit_sel)
  then have st: "w_st w2 = empty_db" by (auto simp: quiet_def fit_sel)
  have "is_video ''a.webm''" "join_path ''/t'' ''a.webm'' = ''/t/a.webm''" "is_video ''/t/a.webm''" by code_simp+
  then have v: "FindMediaFiles ''/t'' (Inr [(''a.webm'', File 83886080 ''v'')]) = Inr [''/t/a.webm'']"
    "LargestVideo (w_fs w2) [''/t/a.webm''] = ''/t/a.webm''"
    by (simp_all add: FindMediaFiles_def LargestVideo_def f file_size_def)
  have "process_video fit_env fit_job ''/t/a.webm'' w2 = (Inr ''/t/a.webm'', w2)"
    by (simp add: process_video_def fit_sel fit_reads [OF st] on_fs_def CompressIfOversized_def sample_steps)
  moreover have "k_tmp fit_env (w_log fit_world) pre = Inr ''/t''" "\<not> dp_audio_only fit_job"
    "k_readdir fit_env (w_fs w2) ''/t'' = Inr [(''a.webm'', File 83886080 ''v'')]" for pre by (simp_all add: fit_sel)
  ultimately show ?thesis using 1 2 e v f st
    by (simp add: prepared_video_def Let_def del: fun_upd_apply split del: if_split) simp
qed

lemma upload_limit_respected_witness:
  "\<exists>path t f. media (snd (runYouTubeDownload fit_env fit_job fit_world)) = [Media 7 path t ''en'' ''youtube'' False f]"
proof -
  obtain r w' where j: "runYouTubeDownload fit_env fit_job fit_world = (r, w')" by fastforce
  obtain v where v: "prepared_video fit_env fit_job fit_world = Some (''/t/a.webm'', v)"
    and fs: "w_fs v ''/t/a.webm'' = Some (File 83886080 ''v'')" using fit_prepared by auto
  obtain path w1 where e: "ensureFitsUpload fit_env ''/t/a.webm'' v = (path, w1)" by fastforce
  have base: "trim_suffix ''/t/a.webm'' (ext ''/t/a.webm'') = ''/t/a''" by code_simp
  have rates: "fit_bitrates (sample_host 1 sample_probe) 51380224 (Fin 60) False = (6508, 0)"
    by (simp add: fit_bitrates_def fl_div_def fl_to_int_def trunc_def floor_eq_iff)
  have "snd (fst (CompressToFit (sample_host 1 sample_probe) ''/t/a.webm'' 51380224 (w_fs v)))"
    by (simp add: CompressToFit_def sample_steps rates base Let_def runFFmpegWithTimeout_def fit_args_last
        swap_in_def os_remove_def os_rename_def file_size_def sample_host_sel fs)
  moreover have "trunc (50 * 1024 * 1024 * 98 / 100) = 51380224" by (simp add: trunc_def floor_eq_iff)
  moreover have "mb (size_of (w_fs v) ''/t/a.webm'') = 80" by (simp add: mb_def size_of_def file_size_def fs)
  moreover have "media fit_world = []" by (simp add: media_def fit_sel)
  ultimately show ?thesis
    using upload_limit_respected [of fit_env "\<lambda>db. db" fit_job fit_world r w'] j v e fit_limit
      lawful_ref_redis reliable_ref sample_host_ok
    by (auto simp: fit_sel Let_def split: if_splits)
qed

end
