(* ===== verification/Sender.thy ===== *)
theory Sender
  imports Video Handler_Bot
begin

text \<open>
  \<open>go/internal/sender/telegram.go\<close>: how files, albums and texts become requests to Telegram. An
  opened file is a handle with a position, because a request reads it to the end and a repeated request
  would send the rest, which is nothing; the handles are an explicit store. The client library and the
  service are given by the answer to each request.
\<close>

subsection \<open>Handles and requests\<close>

text \<open>A handle: the file's name, its bytes (none for a directory), the position and whether it is open.\<close>

record handle =
  h_name :: string
  h_data :: "string option"
  h_pos :: nat
  h_open :: bool

text \<open>What a request carries for a file: its name and what reading the handle gives, if it can be read.\<close>

datatype upload = Upload (up_name: string) (up_body: "string option")

text \<open>Texts of messages are rendered from plain text or decorated when they are HTML already.\<close>

datatype html = Render msg_text | Decorate msg_text

text \<open>The requests; a file is a handle's number when the request is built and an upload when it is sent.\<close>

datatype 'f call =
    AnimationReq int 'f msg_text "keyboard option"
  | PhotoReq int 'f msg_text "keyboard option"
  | VideoReq int 'f msg_text int int int "'f option" "keyboard option"
  | DocumentReq int 'f msg_text "keyboard option"
  | GroupReq int "('f \<times> msg_text) list"
  | AudioReq int 'f string string int "'f option"
  | EditReq int int html "keyboard option"
  | TextReq int html "keyboard option"
  | DeleteReq int int

text \<open>An error of the service (code and description) or of anything before it.\<close>

datatype send_error = Refused int string | Failed string

text \<open>
  The environment: the answer to a request after the requests before it, where the request leaves the
  position of a handle, which files cannot be opened, the programs, and the bot's own name.
\<close>

type_synonym requests = "upload call list"

record tg_api =
  a_answer :: "requests \<Rightarrow> upload call \<Rightarrow> send_error option"
  a_pos :: "requests \<Rightarrow> upload call \<Rightarrow> nat \<Rightarrow> nat"
  a_open :: "files \<Rightarrow> string \<Rightarrow> go_error option"
  a_host :: host
  a_me :: "string result"

record wire =
  v_fs :: files
  v_handles :: "nat \<Rightarrow> handle option"
  v_next :: nat
  v_calls :: requests

definition read_handle :: "wire \<Rightarrow> nat \<Rightarrow> upload" where
  "read_handle st i =
     (case v_handles st i of
        None \<Rightarrow> Upload [] None
      | Some h \<Rightarrow> Upload (h_name h)
          (if h_open h then map_option (drop (h_pos h)) (h_data h) else None))"

definition request :: "tg_api \<Rightarrow> nat call \<Rightarrow> wire \<Rightarrow> send_error option \<times> wire" where
  "request A r st =
     (let c = map_call (read_handle st) r; pre = v_calls st in
      (a_answer A pre c,
       st\<lparr>v_calls := pre @ [c],
         v_handles := (\<lambda>i. if i \<in> set_call r
           then map_option (\<lambda>h. h\<lparr>h_pos := a_pos A pre c i\<rparr>) (v_handles st i) else v_handles st i)\<rparr>))"

definition openInputFile :: "tg_api \<Rightarrow> string \<Rightarrow> wire \<Rightarrow> nat result \<times> wire" where
  "openInputFile A path st =
     (case v_fs st path of
        None \<Rightarrow> (Inl (''open file: open '' @ path @ '': no such file or directory''), st)
      | Some nd \<Rightarrow>
          (case a_open A (v_fs st) path of
             Some e \<Rightarrow> (Inl (''open file: '' @ e), st)
           | None \<Rightarrow>
               (Inr (v_next st),
                st\<lparr>v_next := Suc (v_next st),
                  v_handles := (v_handles st)(v_next st := Some
                    \<lparr>h_name = file_base path, h_data = (case nd of Dir \<Rightarrow> None | File _ c \<Rightarrow> Some c),
                     h_pos = 0, h_open = True\<rparr>)\<rparr>)))"

definition close_file :: "nat \<Rightarrow> wire \<Rightarrow> wire" where
  "close_file i st =
     st\<lparr>v_handles := (v_handles st)(i := map_option (\<lambda>h. h\<lparr>h_open := False\<rparr>) (v_handles st i))\<rparr>"

definition rewind :: "nat \<Rightarrow> wire \<Rightarrow> wire" where
  "rewind i st =
     st\<lparr>v_handles := (v_handles st)
       (i := map_option (\<lambda>h. if h_open h then h\<lparr>h_pos := 0\<rparr> else h) (v_handles st i))\<rparr>"

subsection \<open>Captions\<close>

definition NewWithUsername :: "string \<Rightarrow> string" where
  "NewWithUsername username = (if username = [] then ''saveinator_bot'' else username)"

definition ResolveBotUsername :: "tg_api \<Rightarrow> string \<Rightarrow> string" where
  "ResolveBotUsername A fallback =
     (let fallback = (if fallback = [] then ''saveinator_bot'' else fallback) in
      case a_me A of Inl e \<Rightarrow> fallback | Inr me \<Rightarrow> if me = [] then fallback else me)"

definition buildCaption :: "string \<Rightarrow> string \<Rightarrow> string \<Rightarrow> msg_text" where
  "buildCaption botUsername title lang =
     (let via = Loc ''download.via_bot'' lang [(''bot_username'', botUsername)]; title = trim_space title in
      if title \<noteq> [] then Cat [Lit (title @ [CHR 0x0A, CHR 0x0A]), via] else via)"

definition buildCleanCaption :: "string \<Rightarrow> msg_text" where
  "buildCleanCaption title = Lit (trim_space title)"

definition no_text :: msg_text where "no_text = Lit []"

definition isCaptionTooLong :: "send_error option \<Rightarrow> bool" where
  "isCaptionTooLong err =
     (case err of
        Some (Refused code description) \<Rightarrow> code = 400 \<and> contains description ''caption is too long''
      | _ \<Rightarrow> False)"

text \<open>The first attempt has the caption; preparing the retry clears it in the request.\<close>

definition resendWithoutCaption ::
  "(wire \<Rightarrow> wire) \<Rightarrow> (msg_text \<Rightarrow> wire \<Rightarrow> send_error option \<times> wire) \<Rightarrow> msg_text
     \<Rightarrow> wire \<Rightarrow> send_error option \<times> wire" where
  "resendWithoutCaption prepareRetry send caption st =
     (case send caption st of
        (err, st) \<Rightarrow> if \<not> isCaptionTooLong err then (err, st) else send no_text (prepareRetry st))"

subsection \<open>Photos and albums\<close>

definition sendPhoto :: "tg_api \<Rightarrow> int \<Rightarrow> string \<Rightarrow> msg_text \<Rightarrow> wire \<Rightarrow> send_error option \<times> wire" where
  "sendPhoto A chat path caption st =
     (case openInputFile A path st of
        (Inl e, st) \<Rightarrow> (Some (Failed e), st)
      | (Inr h, st) \<Rightarrow>
          (case resendWithoutCaption (rewind h) (\<lambda>cap. request A (PhotoReq chat h cap None)) caption st of
             (r, st) \<Rightarrow> (r, close_file h st)))"

text \<open>The media of one group; each handle is closed as soon as it is in the list.\<close>

fun open_chunk ::
  "tg_api \<Rightarrow> msg_text \<Rightarrow> string list \<Rightarrow> (nat \<times> msg_text) list \<Rightarrow> wire \<Rightarrow> (nat \<times> msg_text) list result \<times> wire" where
  "open_chunk A cap [] media st = (Inr media, st)"
| "open_chunk A cap (p # ps) media st =
     (case openInputFile A p st of
        (Inl e, st) \<Rightarrow> (Inl e, st)
      | (Inr h, st) \<Rightarrow> open_chunk A no_text ps (media @ [(h, cap)]) (close_file h st))"

fun send_each :: "tg_api \<Rightarrow> int \<Rightarrow> msg_text \<Rightarrow> string list \<Rightarrow> wire \<Rightarrow> send_error option \<times> wire" where
  "send_each A chat cap [] st = (None, st)"
| "send_each A chat cap (p # ps) st =
     (case sendPhoto A chat p cap st of
        (Some e, st) \<Rightarrow> (Some e, st)
      | (None, st) \<Rightarrow> send_each A chat no_text ps st)"

text \<open>The loop over groups of ten; the caption goes to the first photo of the first group only.\<close>

function album_chunks ::
  "tg_api \<Rightarrow> int \<Rightarrow> msg_text \<Rightarrow> string list \<Rightarrow> wire \<Rightarrow> send_error option \<times> wire" where
  "album_chunks A chat cap paths st =
     (if paths = [] then (None, st)
      else
        (case open_chunk A cap (take 10 paths) [] st of
           (Inl e, st) \<Rightarrow> (Some (Failed e), st)
         | (Inr media, st) \<Rightarrow>
             (case request A (GroupReq chat media) st of
                (None, st) \<Rightarrow> album_chunks A chat no_text (drop 10 paths) st
              | (Some _, st) \<Rightarrow>
                  (case send_each A chat cap (take 10 paths) st of
                     (Some e, st) \<Rightarrow> (Some e, st)
                   | (None, st) \<Rightarrow> album_chunks A chat no_text (drop 10 paths) st))))"
  by pat_completeness auto
termination by (relation "measure (\<lambda>(A, chat, cap, paths, st). length paths)") auto

declare album_chunks.simps [simp del]

definition SendPhotoAlbum ::
  "tg_api \<Rightarrow> int \<Rightarrow> string list \<Rightarrow> msg_text \<Rightarrow> wire \<Rightarrow> send_error option \<times> wire" where
  "SendPhotoAlbum A chat paths caption st =
     (case paths of
        [] \<Rightarrow> (None, st)
      | [p] \<Rightarrow> sendPhoto A chat p caption st
      | _ \<Rightarrow> album_chunks A chat caption paths st)"

subsection \<open>Files of any kind\<close>

record video_meta =
  vm_width :: int
  vm_height :: int
  vm_duration :: int
  vm_thumb :: "nat option"

text \<open>The thumbnail's file goes at once; its handle stays open until the video is sent.\<close>

definition probeVideoMeta :: "tg_api \<Rightarrow> string \<Rightarrow> wire \<Rightarrow> video_meta \<times> wire" where
  "probeVideoMeta A path st =
     (let H = a_host A;
          (w, h, d) = (case Probe_video H path (v_fs st) of
                         Inl _ \<Rightarrow> (0, 0, 0) | Inr (w, h, d) \<Rightarrow> (w, h, fl_to_int H d));
          m = \<lparr>vm_width = w, vm_height = h, vm_duration = d, vm_thumb = None\<rparr> in
      case GenerateThumbnail H path (v_fs st) of
        (Inl _, fs) \<Rightarrow> (m, st\<lparr>v_fs := fs\<rparr>)
      | (Inr thumbPath, fs) \<Rightarrow>
          (case openInputFile A thumbPath (st\<lparr>v_fs := fs\<rparr>) of
             (r, st) \<Rightarrow>
               (m\<lparr>vm_thumb := (case r of Inl _ \<Rightarrow> None | Inr tf \<Rightarrow> Some tf)\<rparr>,
                st\<lparr>v_fs := snd (os_remove H thumbPath (v_fs st))\<rparr>)))"

definition close_thumb :: "nat option \<Rightarrow> wire \<Rightarrow> wire" where
  "close_thumb t st = (case t of None \<Rightarrow> st | Some i \<Rightarrow> close_file i st)"

definition rewind_thumb :: "nat option \<Rightarrow> wire \<Rightarrow> wire" where
  "rewind_thumb t st = (case t of None \<Rightarrow> st | Some i \<Rightarrow> rewind i st)"

definition send_video ::
  "tg_api \<Rightarrow> int \<Rightarrow> string \<Rightarrow> nat \<Rightarrow> msg_text \<Rightarrow> keyboard option \<Rightarrow> wire \<Rightarrow> send_error option \<times> wire" where
  "send_video A chat path h caption markup st =
     (case probeVideoMeta A path st of
        (m, st) \<Rightarrow>
          (case resendWithoutCaption (\<lambda>st. rewind_thumb (vm_thumb m) (rewind h st))
                  (\<lambda>cap. request A (VideoReq chat h cap (vm_width m) (vm_height m) (vm_duration m)
                                      (vm_thumb m) markup)) caption st of
             (r, st) \<Rightarrow> (r, close_thumb (vm_thumb m) st)))"

definition send_media ::
  "tg_api \<Rightarrow> int \<Rightarrow> string \<Rightarrow> msg_text \<Rightarrow> bool \<Rightarrow> keyboard option \<Rightarrow> wire \<Rightarrow> send_error option \<times> wire" where
  "send_media A chat path caption animation markup st =
     (case openInputFile A path st of
        (Inl e, st) \<Rightarrow> (Some (Failed e), st)
      | (Inr h, st) \<Rightarrow>
          let sizeMB = of_int (size_of (v_fs st) path) / (1024 * 1024 :: rat);
              e = to_lower (ext path);
              again = (\<lambda>kind. resendWithoutCaption (rewind h) (\<lambda>cap. request A (kind chat h cap markup)) caption st);
              (r, st) =
                (if animation then again AnimationReq
                 else if e \<in> {''.jpg'', ''.jpeg'', ''.png'', ''.webp''} then again PhotoReq
                 else if e \<in> {''.mp4'', ''.webm'', ''.mov'', ''.mkv'', ''.m4v''} \<and> sizeMB \<le> 50
                   then send_video A chat path h caption markup st
                 else again DocumentReq) in
          (r, close_file h st))"

definition SendFile ::
  "tg_api \<Rightarrow> string \<Rightarrow> int \<Rightarrow> string \<Rightarrow> string \<Rightarrow> string \<Rightarrow> bool \<Rightarrow> wire \<Rightarrow> send_error option \<times> wire" where
  "SendFile A botUsername chat path title lang animation =
     send_media A chat path (buildCaption botUsername title lang) animation None"

definition SendFileNoFooter ::
  "tg_api \<Rightarrow> int \<Rightarrow> string \<Rightarrow> string \<Rightarrow> bool \<Rightarrow> wire \<Rightarrow> send_error option \<times> wire" where
  "SendFileNoFooter A chat path title animation =
     send_media A chat path (buildCleanCaption title) animation None"

definition SendFileWithMarkup ::
  "tg_api \<Rightarrow> string \<Rightarrow> int \<Rightarrow> string \<Rightarrow> string \<Rightarrow> string \<Rightarrow> bool \<Rightarrow> keyboard option
     \<Rightarrow> wire \<Rightarrow> send_error option \<times> wire" where
  "SendFileWithMarkup A botUsername chat path title lang animation markup =
     (if markup = None then SendFile A botUsername chat path title lang animation
      else send_media A chat path (buildCaption botUsername title lang) animation markup)"

definition SendAudio ::
  "tg_api \<Rightarrow> int \<Rightarrow> string \<Rightarrow> string \<Rightarrow> string \<Rightarrow> int \<Rightarrow> string \<Rightarrow> wire \<Rightarrow> send_error option \<times> wire" where
  "SendAudio A chat path title performer duration thumbnailPath st =
     (case openInputFile A path st of
        (Inl e, st) \<Rightarrow> (Some (Failed e), st)
      | (Inr h, st) \<Rightarrow>
          let (t, st) =
            (if thumbnailPath \<noteq> [] then
               (case openInputFile A thumbnailPath st of (Inl _, st) \<Rightarrow> (None, st) | (Inr tf, st) \<Rightarrow> (Some tf, st))
             else (None, st)) in
          (case request A (AudioReq chat h title performer (if duration > 0 then duration else 0) t) st of
             (r, st) \<Rightarrow> (r, close_file h (close_thumb t st))))"

subsection \<open>Texts\<close>

definition EditMessageMarkup ::
  "tg_api \<Rightarrow> int \<Rightarrow> int \<Rightarrow> msg_text \<Rightarrow> keyboard option \<Rightarrow> wire \<Rightarrow> send_error option \<times> wire" where
  "EditMessageMarkup A chat messageID t markup = request A (EditReq chat messageID (Render t) markup)"

definition EditMessage :: "tg_api \<Rightarrow> int \<Rightarrow> int \<Rightarrow> msg_text \<Rightarrow> wire \<Rightarrow> send_error option \<times> wire" where
  "EditMessage A chat messageID t = EditMessageMarkup A chat messageID t None"

definition EditMessageHTML ::
  "tg_api \<Rightarrow> int \<Rightarrow> int \<Rightarrow> msg_text \<Rightarrow> keyboard option \<Rightarrow> wire \<Rightarrow> send_error option \<times> wire" where
  "EditMessageHTML A chat messageID t markup = request A (EditReq chat messageID (Decorate t) markup)"

definition SendMessageMarkup ::
  "tg_api \<Rightarrow> int \<Rightarrow> msg_text \<Rightarrow> keyboard option \<Rightarrow> wire \<Rightarrow> send_error option \<times> wire" where
  "SendMessageMarkup A chat t markup = request A (TextReq chat (Decorate t) markup)"

definition DeleteMessage :: "tg_api \<Rightarrow> int \<Rightarrow> int \<Rightarrow> wire \<Rightarrow> send_error option \<times> wire" where
  "DeleteMessage A chat messageID = request A (DeleteReq chat messageID)"

end
