(* ===== verification/Sender_Props.thy ===== *)
theory Sender_Props
  imports Sender
begin

text \<open>
  What the sender delivers: albums photo by photo and in order, files whole also when a request is
  repeated, and no handle left open.
\<close>

subsection \<open>Single requests\<close>

text \<open>A file as a request carries it whole.\<close>

definition file_of :: "files \<Rightarrow> string \<Rightarrow> upload" where
  "file_of fs p = Upload (file_base p) (case fs p of Some (File _ c) \<Rightarrow> Some c | _ \<Rightarrow> None)"

text \<open>The requests that Telegram took, in order.\<close>

fun sent_from :: "tg_api \<Rightarrow> requests \<Rightarrow> requests \<Rightarrow> requests" where
  "sent_from A pre [] = []"
| "sent_from A pre (c # cs) = (if a_answer A pre c = None then [c] else []) @ sent_from A (pre @ [c]) cs"

definition sent :: "tg_api \<Rightarrow> wire \<Rightarrow> requests" where
  "sent A st = sent_from A [] (v_calls st)"

definition all_closed :: "wire \<Rightarrow> bool" where
  "all_closed st \<longleftrightarrow> (\<forall>i h. v_handles st i = Some h \<longrightarrow> \<not> h_open h)"

text \<open>Every open handle is one of the given ones.\<close>

definition open_within :: "nat set \<Rightarrow> wire \<Rightarrow> bool" where
  "open_within I st \<longleftrightarrow> (\<forall>i h. v_handles st i = Some h \<and> h_open h \<longrightarrow> i \<in> I)"

lemma all_closed_iff: "all_closed st \<longleftrightarrow> open_within {} st"
  by (auto simp: all_closed_def open_within_def)

lemma sent_from_append: "sent_from A pre (xs @ ys) = sent_from A pre xs @ sent_from A (pre @ xs) ys"
  by (induction xs arbitrary: pre) simp_all

lemma open_inputE:
  assumes "openInputFile A p st = (r, st1)"
  obtains e where "r = Inl e" "st1 = st"
  | h where "r = Inr h" "h = v_next st" "v_calls st1 = v_calls st" "v_fs st1 = v_fs st"
      "v_next st1 = Suc h" "read_handle st1 h = file_of (v_fs st) p"
      "\<And>i. i \<noteq> h \<Longrightarrow> v_handles st1 i = v_handles st i"
      "v_fs st p \<noteq> None" "\<exists>x. v_handles st1 h = Some x \<and> h_open x
         \<and> Upload (h_name x) (h_data x) = file_of (v_fs st) p"
proof (cases "\<exists>nd. v_fs st p = Some nd \<and> a_open A (v_fs st) p = None")
  case False
  then have "\<exists>e. openInputFile A p st = (Inl e, st)"
    by (auto simp: openInputFile_def split: option.splits)
  with assms that(1) show ?thesis by auto
next
  case True
  then obtain nd where nd: "v_fs st p = Some nd" "a_open A (v_fs st) p = None" by blast
  show ?thesis
    by (rule that(2) [of "v_next st"])
      (use assms nd in \<open>auto simp: openInputFile_def read_handle_def file_of_def option.map_ident split: node.splits\<close>)
qed

lemma request_facts:
  assumes "request A r st = (e, st1)"
  shows "e = a_answer A (v_calls st) (map_call (read_handle st) r)"
    and "v_calls st1 = v_calls st @ [map_call (read_handle st) r]"
    and "sent A st1 = sent A st @ (if e = None then [map_call (read_handle st) r] else [])"
    and "v_fs st1 = v_fs st" "v_next st1 = v_next st"
    and "open_within I st1 = open_within I st"
  using assms
  by (auto simp: request_def Let_def sent_def sent_from_append open_within_def option.map_comp o_def
      split: if_splits)

lemma close_facts:
  "v_calls (close_file i st) = v_calls st" "v_fs (close_file i st) = v_fs st" "sent A (close_file i st) = sent A st"
  "v_next (close_file i st) = v_next st"
  "open_within (insert i I) st \<Longrightarrow> open_within I (close_file i st)"
  "v_calls (rewind i st) = v_calls st" "v_fs (rewind i st) = v_fs st" "sent A (rewind i st) = sent A st"
  "v_next (rewind i st) = v_next st"
  by (auto simp: close_file_def rewind_def sent_def open_within_def split: if_splits)

lemma open_within_rewind [simp]: "open_within I (rewind i st) = open_within I st"
proof -
  have "(\<exists>h. v_handles (rewind i st) j = Some h \<and> h_open h) = (\<exists>h. v_handles st j = Some h \<and> h_open h)" for j
    by (cases "v_handles st i") (auto simp: rewind_def)
  then show ?thesis unfolding open_within_def by blast
qed

text \<open>Rewinding makes a handle that was opened whole again, whatever requests read of it.\<close>

definition whole :: "upload \<Rightarrow> nat \<Rightarrow> wire \<Rightarrow> bool" where
  "whole u i st \<longleftrightarrow> (\<exists>x. v_handles st i = Some x \<and> h_open x \<and> Upload (h_name x) (h_data x) = u)"

lemma whole_facts:
  "whole u i st \<Longrightarrow> read_handle (rewind i st) i = u"
  "whole u i st \<Longrightarrow> whole u i (rewind j st)"
  "whole u i st \<Longrightarrow> i \<noteq> j \<Longrightarrow> whole u i (close_file j st)"
  "i \<noteq> j \<Longrightarrow> read_handle (rewind j st) i = read_handle st i"
  by (auto simp: whole_def read_handle_def rewind_def close_file_def option.map_ident)

lemma fs_irrelevant [simp]:
  "whole u i (st\<lparr>v_fs := fs\<rparr>) = whole u i st" "read_handle (st\<lparr>v_fs := fs\<rparr>) i = read_handle st i"
  "open_within I (st\<lparr>v_fs := fs\<rparr>) = open_within I st"
  by (simp_all add: whole_def read_handle_def open_within_def)

lemma whole_request:
  assumes "whole u i st" "request A r st = (e, st1)"
  shows "whole u i st1"
  using assms by (auto simp: whole_def request_def Let_def)

lemma open_within_open:
  assumes "openInputFile A p st = (Inr h, st1)" "open_within I st"
  shows "open_within (insert h I) st1"
  using assms(1)
proof (cases rule: open_inputE)
  case (2 h')
  then show ?thesis using assms(2) unfolding open_within_def by (metis Inr_inject insertCI)
qed simp

text \<open>
  Sending with the retry, for a request whose files are whole handles: one request, or a second one without
  the caption after the first was refused for its caption; both carry the files from the start.
\<close>

lemma resend_whole:
  assumes "resendWithoutCaption prep (\<lambda>cap. request A (mk cap)) caption st = (r, st1)"
    and reads: "\<forall>cap. map_call (read_handle st) (mk cap) = full cap"
    and again: "\<forall>e s1. request A (mk caption) st = (e, s1) \<longrightarrow>
        (\<forall>cap. map_call (read_handle (prep s1)) (mk cap) = full cap) \<and> v_calls (prep s1) = v_calls s1
        \<and> v_fs (prep s1) = v_fs s1 \<and> v_next (prep s1) = v_next s1 \<and> (\<forall>I. open_within I (prep s1) = open_within I s1)"
  defines "ans1 \<equiv> a_answer A (v_calls st) (full caption)"
    and "ans2 \<equiv> a_answer A (v_calls st @ [full caption]) (full no_text)"
  shows "(if isCaptionTooLong ans1 then v_calls st1 = v_calls st @ [full caption, full no_text] \<and> r = ans2
        else v_calls st1 = v_calls st @ [full caption] \<and> r = ans1)
     \<and> sent A st1 = sent A st @ (if r \<noteq> None then [] else if isCaptionTooLong ans1 then [full no_text] else [full caption])
     \<and> v_fs st1 = v_fs st \<and> v_next st1 = v_next st \<and> (\<forall>I. open_within I st1 = open_within I st)"
proof -
  obtain e1 s1 where 1: "request A (mk caption) st = (e1, s1)" by fastforce
  note f1 = request_facts [OF 1]
  have e1: "e1 = ans1" and c1: "v_calls s1 = v_calls st @ [full caption]"
    using f1(1,2) by (simp_all add: reads ans1_def)
  show ?thesis
  proof (cases "isCaptionTooLong ans1")
    case False
    with assms(1) 1 e1 have "r = ans1" "st1 = s1" by (auto simp: resendWithoutCaption_def)
    with False f1 c1 e1 reads show ?thesis by auto
  next
    case True
    from again 1 have p: "(\<forall>cap. map_call (read_handle (prep s1)) (mk cap) = full cap) \<and> v_calls (prep s1) = v_calls s1
        \<and> v_fs (prep s1) = v_fs s1 \<and> v_next (prep s1) = v_next s1 \<and> (\<forall>I. open_within I (prep s1) = open_within I s1)"
      by blast
    obtain e2 s2 where 2: "request A (mk no_text) (prep s1) = (e2, s2)" by fastforce
    note f2 = request_facts [OF 2]
    from assms(1) 1 e1 True 2 have r: "r = e2" "st1 = s2" by (auto simp: resendWithoutCaption_def)
    from True have "ans1 \<noteq> None" by (auto simp: isCaptionTooLong_def split: option.splits)
    moreover have "e2 = ans2" "v_calls s2 = v_calls st @ [full caption, full no_text]"
      using f2(1,2) p c1 by (simp_all add: ans2_def)
    moreover have "sent A (prep s1) = sent A s1" using p by (simp add: sent_def)
    ultimately show ?thesis using True f1 f2 p e1 r reads by auto
  qed
qed

lemma photo_sent:
  assumes "sendPhoto A chat p cap st = (r, st1)"
  shows "v_fs st1 = v_fs st \<and> (\<forall>I. open_within I st \<longrightarrow> open_within I st1)
    \<and> (\<exists>c \<in> {cap, no_text}. sent A st1 = sent A st
          @ (if r = None then [PhotoReq chat (file_of (v_fs st) p) c None] else []))"
proof -
  obtain o1 s1 where 1: "openInputFile A p st = (o1, s1)" by fastforce
  then show ?thesis
  proof (cases rule: open_inputE)
    case (1 e)
    with assms \<open>openInputFile A p st = (o1, s1)\<close> show ?thesis by (auto simp: sendPhoto_def)
  next
    case (2 h)
    let ?u = "file_of (v_fs st) p" and ?mk = "\<lambda>cap. PhotoReq chat h cap None"
    obtain r2 s2 where r2: "resendWithoutCaption (rewind h) (\<lambda>cap. request A (?mk cap)) cap s1 = (r2, s2)"
      by fastforce
    have w: "whole ?u h s1" using 2(9) by (simp add: whole_def)
    have reads: "\<forall>cap. map_call (read_handle s1) (?mk cap) = PhotoReq chat ?u cap None" using 2(6) by simp
    have again: "\<forall>e s. request A (?mk cap) s1 = (e, s) \<longrightarrow>
        (\<forall>cap. map_call (read_handle (rewind h s)) (?mk cap) = PhotoReq chat ?u cap None)
        \<and> v_calls (rewind h s) = v_calls s \<and> v_fs (rewind h s) = v_fs s \<and> v_next (rewind h s) = v_next s
        \<and> (\<forall>I. open_within I (rewind h s) = open_within I s)"
      using whole_request [OF w] by (auto simp: close_facts whole_facts(1))
    note m = resend_whole [OF r2 reads again]
    then have a: "\<exists>c \<in> {cap, no_text}. sent A s2 = sent A s1 @ (if r2 = None then [PhotoReq chat ?u c None] else [])"
        "v_fs s2 = v_fs s1" "\<forall>I. open_within I s2 = open_within I s1"
      by (auto split: if_splits)
    have r: "r = r2" "st1 = close_file h s2"
      using assms \<open>openInputFile A p st = (o1, s1)\<close> 2(1) r2 by (auto simp: sendPhoto_def)
    have s: "sent A s1 = sent A st" using 2(3) by (simp add: sent_def)
    have "open_within I st1" if "open_within I st" for I
      using open_within_open [of A p st h s1 I] that \<open>openInputFile A p st = (o1, s1)\<close> 2(1) a r
      by (auto intro: close_facts)
    with a r s 2(4) show ?thesis by (auto simp: close_facts)
  qed
qed

subsection \<open>Albums\<close>

text \<open>
  What the client library documents of uploads: it reads the file when it builds the request, so a request with
  a file that cannot be read (closed, or a directory) fails before it reaches Telegram.
\<close>

definition lawful_api :: "tg_api \<Rightarrow> bool" where
  "lawful_api A \<longleftrightarrow>
     (\<forall>pre c. (\<exists>u \<in> set_call c. up_body u = None) \<longrightarrow> (\<exists>e. a_answer A pre c = Some (Failed e)))"

text \<open>The photos of some paths as single requests; only the first may have a caption.\<close>

fun shown :: "int \<Rightarrow> files \<Rightarrow> msg_text \<Rightarrow> string list \<Rightarrow> requests \<Rightarrow> bool" where
  "shown chat fs cap [] cs \<longleftrightarrow> cs = []"
| "shown chat fs cap (p # ps) cs \<longleftrightarrow>
     (case cs of
        [] \<Rightarrow> False
      | c # cs' \<Rightarrow> (c = PhotoReq chat (file_of fs p) cap None \<or> c = PhotoReq chat (file_of fs p) no_text None)
          \<and> shown chat fs no_text ps cs')"

lemma shown_append_rest:
  "shown chat fs no_text ps cs \<Longrightarrow> shown chat fs no_text qs ds \<Longrightarrow> shown chat fs no_text (ps @ qs) (cs @ ds)"
  by (induction ps arbitrary: cs) (auto split: list.splits)

lemma shown_append:
  "shown chat fs cap ps cs \<Longrightarrow> shown chat fs no_text qs ds \<Longrightarrow> ps \<noteq> [] \<Longrightarrow> shown chat fs cap (ps @ qs) (cs @ ds)"
  by (cases ps) (auto split: list.splits intro: shown_append_rest)

definition shut :: "wire \<Rightarrow> nat \<Rightarrow> bool" where
  "shut st i \<longleftrightarrow> i < v_next st \<and> (\<forall>h. v_handles st i = Some h \<longrightarrow> \<not> h_open h)"

lemma shut_body: "shut st i \<Longrightarrow> up_body (read_handle st i) = None"
  by (auto simp: shut_def read_handle_def split: option.splits)

lemma chunk_facts:
  assumes "open_chunk A cap ps media st = (r, st1)" "\<forall>(h, _) \<in> set media. shut st h"
  shows "v_fs st1 = v_fs st \<and> v_calls st1 = v_calls st \<and> (\<forall>I. open_within I st \<longrightarrow> open_within I st1)
    \<and> (\<forall>m. r = Inr m \<longrightarrow> (\<forall>(h, _) \<in> set m. shut st1 h) \<and> length m = length media + length ps)"
  using assms
proof (induction ps arbitrary: cap media st)
  case (Cons p ps)
  obtain o1 s1 where 1: "openInputFile A p st = (o1, s1)" by fastforce
  from 1 show ?case
  proof (cases rule: open_inputE)
    case (2 h)
    let ?s = "close_file h s1"
    from Cons.prems(1) 1 2(1) have run: "open_chunk A no_text ps (media @ [(h, cap)]) ?s = (r, st1)" by simp
    have "shut ?s i" if "shut st i" for i
      using that 2(2,5,7) by (auto simp: shut_def close_file_def)
    moreover have "shut ?s h" using 2(5) by (auto simp: shut_def close_file_def)
    ultimately have "\<forall>(i, _) \<in> set (media @ [(h, cap)]). shut ?s i" using Cons.prems(2) by auto
    note ih = Cons.IH [OF run this]
    have "open_within I ?s" if "open_within I st" for I
      using open_within_open [OF 1 [unfolded 2(1)] that] by (rule close_facts)
    with ih 2(3,4) show ?thesis by (auto simp: close_facts)
  qed (use Cons.prems 1 in auto)
qed auto

lemma each_sent:
  assumes "send_each A chat cap ps st = (r, st1)"
  shows "v_fs st1 = v_fs st \<and> (\<forall>I. open_within I st \<longrightarrow> open_within I st1)
    \<and> (\<exists>n cs. sent A st1 = sent A st @ cs \<and> shown chat (v_fs st) cap (take n ps) cs \<and> n \<le> length ps
        \<and> (r = None \<longleftrightarrow> n = length ps))"
  using assms
proof (induction ps arbitrary: cap st)
  case (Cons p ps)
  obtain e s1 where 1: "sendPhoto A chat p cap st = (e, s1)" by fastforce
  note p = photo_sent [OF 1]
  show ?case
  proof (cases e)
    case (Some x)
    with Cons.prems 1 p show ?thesis by (auto intro!: exI [of _ "0::nat"])
  next
    case None
    with Cons.prems 1 have "send_each A chat no_text ps s1 = (r, st1)" by simp
    note ih = Cons.IH [OF this]
    then obtain n cs where n: "sent A st1 = sent A s1 @ cs" "shown chat (v_fs s1) no_text (take n ps) cs"
      "n \<le> length ps" "(r = None) = (n = length ps)" by blast
    from p None obtain c where c: "c \<in> {cap, no_text}"
      "sent A s1 = sent A st @ [PhotoReq chat (file_of (v_fs st) p) c None]" by auto
    have "shown chat (v_fs st) cap (take (Suc n) (p # ps)) (PhotoReq chat (file_of (v_fs st) p) c None # cs)"
      using c n p by auto
    with c n p ih show ?thesis
      by (intro conjI) (auto intro!: exI [of _ "Suc n"])
  qed
qed (auto simp: all_closed_def)

lemma group_refused:
  assumes "lawful_api A" "request A (GroupReq chat media) st = (e, st1)" "\<forall>(h, _) \<in> set media. shut st h" "media \<noteq> []"
  shows "e \<noteq> None \<and> sent A st1 = sent A st \<and> v_fs st1 = v_fs st \<and> (\<forall>I. open_within I st1 = open_within I st)"
proof -
  obtain h c ms where m: "media = (h, c) # ms" using assms(4) by (cases media) auto
  then have "up_body (read_handle st h) = None" using assms(3) shut_body by auto
  then have "\<exists>u \<in> set_call (map_call (read_handle st) (GroupReq chat media)). up_body u = None" using m by auto
  with assms(1) have "\<exists>e. a_answer A (v_calls st) (map_call (read_handle st) (GroupReq chat media)) = Some (Failed e)"
    unfolding lawful_api_def by blast
  then show ?thesis using request_facts [OF assms(2)] by auto
qed

lemma chunks_sent:
  assumes "lawful_api A" "album_chunks A chat cap paths st = (r, st1)"
  shows "v_fs st1 = v_fs st \<and> (\<forall>I. open_within I st \<longrightarrow> open_within I st1)
    \<and> (\<exists>n cs. sent A st1 = sent A st @ cs \<and> shown chat (v_fs st) cap (take n paths) cs \<and> n \<le> length paths
        \<and> (r = None \<longleftrightarrow> n = length paths))"
  using assms
proof (induction A chat cap paths st rule: album_chunks.induct)
  case (1 A chat cap paths st)
  show ?case
  proof (cases "paths = []")
    case True
    with 1(4) show ?thesis by (simp add: album_chunks.simps)
  next
    case False
    let ?ps = "take 10 paths"
    obtain o1 s1 where o: "open_chunk A cap ?ps [] st = (o1, s1)" by fastforce
    note f = chunk_facts [OF o]
    show ?thesis
    proof (cases o1)
      case (Inl e)
      then have "r = Some (Failed e)" "st1 = s1" using 1(4) False o by (simp_all add: album_chunks.simps)
      with f False show ?thesis by (auto simp: sent_def intro!: exI [of _ "0::nat"])
    next
      case (Inr media)
      obtain e s2 where g: "request A (GroupReq chat media) s1 = (e, s2)" by fastforce
      have "media \<noteq> []" using f Inr False by (cases paths) auto
      then have g': "e \<noteq> None" "sent A s2 = sent A s1" "v_fs s2 = v_fs s1" "\<forall>I. open_within I s2 = open_within I s1"
        using group_refused [OF 1(3) g] f Inr by auto
      then obtain ge where ge: "e = Some ge" by blast
      obtain e3 s3 where s: "send_each A chat cap ?ps s2 = (e3, s3)" by fastforce
      note each = each_sent [OF s]
      have base: "sent A s2 = sent A st" "v_fs s2 = v_fs st" using f g' by (auto simp: sent_def)
      from each base obtain n cs where n: "sent A s3 = sent A st @ cs" "shown chat (v_fs st) cap (take n ?ps) cs"
        "n \<le> length ?ps" "(e3 = None) = (n = length ?ps)" by auto
      show ?thesis
      proof (cases e3)
        case (Some x)
        with 1(4) False o Inr g ge s have r: "r = Some x" "st1 = s3" by (simp_all add: album_chunks.simps)
        have "n < length ?ps" using n(3,4) Some by auto
        then have "take n ?ps = take n paths" "n < length paths" by (auto simp: min_def split: if_splits)
        with r n(1,2) each f g' base show ?thesis by auto
      next
        case None
        with 1(4) False o Inr g ge s have run: "album_chunks A chat no_text (drop 10 paths) s3 = (r, st1)"
          by (subst (asm) album_chunks.simps) simp
        note ih = 1(2) [OF False, of o1 s1 media e s2 ge e3 s3]
        have ih: "v_fs st1 = v_fs s3 \<and> (\<forall>I. open_within I s3 \<longrightarrow> open_within I st1)
            \<and> (\<exists>n cs. sent A st1 = sent A s3 @ cs \<and> shown chat (v_fs s3) no_text (take n (drop 10 paths)) cs
                \<and> n \<le> length (drop 10 paths) \<and> (r = None \<longleftrightarrow> n = length (drop 10 paths)))"
          using 1(2) [OF False o [symmetric] Inr g [symmetric] ge s [symmetric] None 1(3) run] by blast
        then obtain k ds where k: "sent A st1 = sent A s3 @ ds"
          "shown chat (v_fs s3) no_text (take k (drop 10 paths)) ds" "k \<le> length (drop 10 paths)"
          "(r = None) = (k = length (drop 10 paths))" by blast
        have whole: "n = length ?ps" using n(4) None by simp
        then have "take n ?ps = ?ps" by (metis order_refl take_all)
        with n(2) have "shown chat (v_fs st) cap ?ps cs" by metis
        moreover have "shown chat (v_fs st) no_text (take k (drop 10 paths)) ds" using k(2) each base by metis
        moreover have "?ps \<noteq> []" using False by simp
        ultimately have sh: "shown chat (v_fs st) cap (?ps @ take k (drop 10 paths)) (cs @ ds)"
          by (rule shown_append)
        have tk: "?ps @ take k (drop 10 paths) = take (n + k) paths"
        proof (cases "length paths \<le> 10")
          case True then show ?thesis using whole by simp
        next
          case False then show ?thesis using whole by (simp add: take_add)
        qed
        have len: "n + k \<le> length paths" "(r = None) = (n + k = length paths)"
          using whole k(3,4) by auto
        show ?thesis
          using ih each f g' base sh [unfolded tk] len n(1) k(1)
          by (intro conjI) (auto intro!: exI [of _ "n + k"] exI [of _ "cs @ ds"])
      qed
    qed
  qed
qed

lemma album_sent:
  assumes "lawful_api A" "SendPhotoAlbum A chat paths cap st = (r, st1)"
  shows "v_fs st1 = v_fs st \<and> (\<forall>I. open_within I st \<longrightarrow> open_within I st1)
    \<and> (\<exists>n cs. sent A st1 = sent A st @ cs \<and> shown chat (v_fs st) cap (take n paths) cs \<and> n \<le> length paths
        \<and> (r = None \<longleftrightarrow> n = length paths))"
proof -
  consider "paths = []" | p where "paths = [p]" | p q ps where "paths = p # q # ps" by (metis list.exhaust)
  then show ?thesis
  proof cases
    case 1
    with assms(2) show ?thesis by (auto simp: SendPhotoAlbum_def)
  next
    case 2
    with assms(2) have s: "sendPhoto A chat p cap st = (r, st1)" by (simp add: SendPhotoAlbum_def)
    have "send_each A chat cap paths st = (r, st1)" using s 2 by (cases r) simp_all
    then show ?thesis by (rule each_sent)
  next
    case 3
    with assms(2) have "album_chunks A chat cap paths st = (r, st1)" by (simp add: SendPhotoAlbum_def)
    then show ?thesis by (rule chunks_sent [OF assms(1)])
  qed
qed

text \<open>
  C26. An album reaches the chat photo by photo: those that arrive are a first part of the album, each photo once, whole and in
  order, the caption at most on the first, and the album succeeds exactly if this part is all of it. No group is ever taken,
  because each file of a group is closed before the request reads it, and a request whose file cannot be read fails; so the groups
  the code prepares are never seen. If every file handle was closed before, every one is closed after.
\<close>

theorem album_sends_one_by_one:
  assumes "lawful_api A" "SendPhotoAlbum A chat paths cap st = (r, st1)"
  shows "\<exists>n cs. sent A st1 = sent A st @ cs \<and> shown chat (v_fs st) cap (take n paths) cs
    \<and> n \<le> length paths \<and> (r = None \<longleftrightarrow> n = length paths) \<and> (all_closed st \<longrightarrow> all_closed st1)"
  using album_sent [OF assms] unfolding all_closed_iff by blast

text \<open>A service for examples: it takes what can be read, with captions of a kind only.\<close>

definition sample_host_off :: host where
  "sample_host_off = \<lparr>h_run = (\<lambda>args t fs. (([], Some ''no ffmpeg''), fs)), h_output = (\<lambda>args fs. Inl ''no ffprobe''),
     h_remove = (\<lambda>p fs. None), h_rename = (\<lambda>p q fs. None), h_order = (\<lambda>fs h. bitrateLadderKbps), h_odd_int = (\<lambda>x. 0)\<rparr>"

definition readable :: "upload call \<Rightarrow> bool" where
  "readable c \<longleftrightarrow>
     (case c of
        GroupReq chat media \<Rightarrow> list_all (\<lambda>(u, _). up_body u \<noteq> None) media
      | PhotoReq chat u cap kb \<Rightarrow> up_body u \<noteq> None
      | _ \<Rightarrow> False)"

definition sample_api :: tg_api where
  "sample_api = \<lparr>a_answer = (\<lambda>pre c. if \<not> readable c then Some (Failed ''file already closed'')
       else case c of PhotoReq chat u (Lit (x # xs)) kb \<Rightarrow> Some (Refused 400 ''message caption is too long'') | _ \<Rightarrow> None),
     a_pos = (\<lambda>pre c i. 1000), a_open = (\<lambda>fs p. None), a_host = sample_host_off, a_me = Inl ''offline''\<rparr>"

lemma sample_api_lawful: "lawful_api sample_api"
proof -
  have "\<not> readable c" if "u \<in> set_call c" "up_body u = None" for u and c :: "upload call"
    using that by (cases c) (force simp: readable_def list_all_iff)+
  then show ?thesis unfolding lawful_api_def sample_api_def by auto
qed

definition sample_wire :: wire where
  "sample_wire = \<lparr>v_fs = [''/t/1.jpg'' \<mapsto> File 3 ''one'', ''/t/2.jpg'' \<mapsto> File 3 ''two''], v_handles = (\<lambda>_. None),
     v_next = 0, v_calls = []\<rparr>"

lemma album_sends_one_by_one_witness:
  "\<exists>cs. sent sample_api (snd (SendPhotoAlbum sample_api 7 [''/t/1.jpg'', ''/t/2.jpg''] (Lit ''hi'') sample_wire)) = cs
     \<and> shown 7 (v_fs sample_wire) (Lit ''hi'') [''/t/1.jpg'', ''/t/2.jpg''] cs \<and> length cs = 2"
proof -
  let ?ps = "[''/t/1.jpg'', ''/t/2.jpg'']"
  obtain r st1 where s: "SendPhotoAlbum sample_api 7 ?ps (Lit ''hi'') sample_wire = (r, st1)"
    by fastforce
  have "fst (SendPhotoAlbum sample_api 7 ?ps (Lit ''hi'') sample_wire) = None" by code_simp
  with s have "r = None" by simp
  moreover have "sent sample_api sample_wire = []" by (simp add: sent_def sample_wire_def)
  ultimately show ?thesis using album_sends_one_by_one [OF sample_api_lawful s] s
    by (auto split: list.splits)
qed

subsection \<open>Single files\<close>

fun sent_file :: "upload call \<Rightarrow> upload option" where
  "sent_file (AnimationReq chat u cap kb) = Some u"
| "sent_file (PhotoReq chat u cap kb) = Some u"
| "sent_file (VideoReq chat u cap w h d t kb) = Some u"
| "sent_file (DocumentReq chat u cap kb) = Some u"
| "sent_file (AudioReq chat u ti pf d t) = Some u"
| "sent_file _ = None"

fun with_caption :: "msg_text \<Rightarrow> 'f call \<Rightarrow> 'f call" where
  "with_caption cap (AnimationReq chat u c kb) = AnimationReq chat u cap kb"
| "with_caption cap (PhotoReq chat u c kb) = PhotoReq chat u cap kb"
| "with_caption cap (VideoReq chat u c w h d t kb) = VideoReq chat u cap w h d t kb"
| "with_caption cap (DocumentReq chat u c kb) = DocumentReq chat u cap kb"
| "with_caption cap r = r"

fun req_kind :: "'f call \<Rightarrow> string" where
  "req_kind (AnimationReq chat u c kb) = ''animation''"
| "req_kind (PhotoReq chat u c kb) = ''photo''"
| "req_kind (VideoReq chat u c w h d t kb) = ''video''"
| "req_kind (DocumentReq chat u c kb) = ''document''"
| "req_kind _ = ''other''"

text \<open>The kind of message a file becomes: photos and small videos as such, everything else as a document.\<close>

definition media_kind :: "string \<Rightarrow> int \<Rightarrow> bool \<Rightarrow> string" where
  "media_kind path bytes animation =
     (if animation then ''animation''
      else if is_image path then ''photo''
      else if is_video path \<and> bytes \<le> 50 * 1024 * 1024 then ''video''
      else ''document'')"

text \<open>What a delivery of one file adds to the requests: one, or a second without its caption.\<close>

definition delivery :: "tg_api \<Rightarrow> wire \<Rightarrow> upload call \<Rightarrow> send_error option \<Rightarrow> wire \<Rightarrow> bool" where
  "delivery A st c r st1 \<longleftrightarrow>
     (let e = a_answer A (v_calls st) c; c' = with_caption no_text c in
      if isCaptionTooLong e then v_calls st1 = v_calls st @ [c, c'] \<and> r = a_answer A (v_calls st @ [c]) c'
      else v_calls st1 = v_calls st @ [c] \<and> r = e)"

lemma whole_open:
  assumes "openInputFile A p st = (r, st1)" "whole u i st" "i < v_next st"
  shows "whole u i st1"
  using assms(1)
proof (cases rule: open_inputE)
  case (2 h)
  with assms(2,3) show ?thesis by (simp add: whole_def)
qed (use assms in simp)

lemma probe_facts:
  assumes "probeVideoMeta A path st = (m, st1)"
  shows "v_calls st1 = v_calls st"
    and "\<And>u i. whole u i st \<Longrightarrow> i < v_next st \<Longrightarrow> whole u i st1 \<and> read_handle st1 i = read_handle st i"
    and "case vm_thumb m of None \<Rightarrow> (\<forall>I. open_within I st \<longrightarrow> open_within I st1)
       | Some t \<Rightarrow> t = v_next st \<and> whole (read_handle st1 t) t st1 \<and> (\<forall>I. open_within I st \<longrightarrow> open_within (insert t I) st1)"
proof -
  let ?H = "a_host A"
  obtain g fs where g: "GenerateThumbnail ?H path (v_fs st) = (g, fs)" by fastforce
  have "v_calls st1 = v_calls st \<and> (\<forall>u i. whole u i st \<and> i < v_next st \<longrightarrow> whole u i st1 \<and> read_handle st1 i = read_handle st i)
    \<and> (case vm_thumb m of None \<Rightarrow> (\<forall>I. open_within I st \<longrightarrow> open_within I st1)
       | Some t \<Rightarrow> t = v_next st \<and> whole (read_handle st1 t) t st1 \<and> (\<forall>I. open_within I st \<longrightarrow> open_within (insert t I) st1))"
  proof (cases g)
    case (Inl e)
    with assms g have "st1 = st\<lparr>v_fs := fs\<rparr>" "vm_thumb m = None"
      by (auto simp: probeVideoMeta_def Let_def split: sum.splits prod.splits)
    then show ?thesis by simp
  next
    case (Inr thumb)
    let ?s0 = "st\<lparr>v_fs := fs\<rparr>"
    obtain o1 s1 where 1: "openInputFile A thumb ?s0 = (o1, s1)" by fastforce
    with assms g Inr have st1: "st1 = s1\<lparr>v_fs := snd (os_remove ?H thumb (v_fs s1))\<rparr>"
      "vm_thumb m = (case o1 of Inl _ \<Rightarrow> None | Inr tf \<Rightarrow> Some tf)"
      by (auto simp: probeVideoMeta_def Let_def split: sum.splits prod.splits)
    have keep: "whole u i s1" "read_handle s1 i = read_handle st i" if "whole u i st" "i < v_next st" for u i
    proof -
      show "whole u i s1" using whole_open [OF 1, of u i] that by (simp add: whole_def)
      from 1 show "read_handle s1 i = read_handle st i"
        by (cases rule: open_inputE) (use that in \<open>auto simp: read_handle_def\<close>)
    qed
    have ow: "open_within I ?s0 = open_within I st" for I by simp
    from 1 show ?thesis
    proof (cases rule: open_inputE)
      case a: (1 e)
      with st1 keep ow show ?thesis by simp
    next
      case b: (2 h)
      have "whole (read_handle s1 h) h s1" using b(6,9) by (simp add: whole_def)
      moreover have "open_within (insert h I) s1" if "open_within I st" for I
        using open_within_open [of A thumb ?s0 h s1 I] 1 b(1) that ow by simp
      ultimately show ?thesis using st1 keep b(1,2,3) by simp blast
    qed
  qed
  then show "v_calls st1 = v_calls st"
    "\<And>u i. whole u i st \<Longrightarrow> i < v_next st \<Longrightarrow> whole u i st1 \<and> read_handle st1 i = read_handle st i"
    "case vm_thumb m of None \<Rightarrow> (\<forall>I. open_within I st \<longrightarrow> open_within I st1)
       | Some t \<Rightarrow> t = v_next st \<and> whole (read_handle st1 t) t st1 \<and> (\<forall>I. open_within I st \<longrightarrow> open_within (insert t I) st1)"
    by blast+
qed

lemma with_caption_map [simp]:
  "map_call f (with_caption cap c) = with_caption cap (map_call f c)" "set_call (with_caption cap c) = set_call c"
  "with_caption cap (with_caption cap' c) = with_caption cap c"
  by (cases c; simp)+

lemma resend_delivery:
  assumes "resendWithoutCaption prep (\<lambda>cap. request A (mk cap)) caption st = (r, st1)"
    and mk: "\<forall>cap. mk cap = with_caption cap (mk no_text)"
    and files: "\<forall>i \<in> set_call (mk no_text). whole (read_handle st i) i st"
    and again: "\<And>s u i. i \<in> set_call (mk no_text) \<Longrightarrow> whole u i s \<Longrightarrow> read_handle (prep s) i = u"
    and keep: "\<And>s. v_calls (prep s) = v_calls s \<and> v_fs (prep s) = v_fs s \<and> v_next (prep s) = v_next s
        \<and> (\<forall>I. open_within I (prep s) = open_within I s)"
  shows "delivery A st (map_call (read_handle st) (mk caption)) r st1 \<and> (\<forall>I. open_within I st1 = open_within I st)"
proof -
  let ?full = "\<lambda>cap. map_call (read_handle st) (mk cap)"
  have set: "set_call (mk cap) = set_call (mk no_text)" for cap
    by (subst mk [rule_format]) (rule with_caption_map)
  have "map_call (read_handle (prep s)) (mk cap) = ?full cap" if "request A (mk caption) st = (e, s)" for e s cap
  proof (rule call.map_cong [OF refl])
    fix i assume "i \<in> set_call (mk cap)"
    then show "read_handle (prep s) i = read_handle st i"
      using files again whole_request [OF _ that] set by blast
  qed
  then have prep: "\<forall>e s. request A (mk caption) st = (e, s) \<longrightarrow>
      (\<forall>cap. map_call (read_handle (prep s)) (mk cap) = ?full cap) \<and> v_calls (prep s) = v_calls s
      \<and> v_fs (prep s) = v_fs s \<and> v_next (prep s) = v_next s \<and> (\<forall>I. open_within I (prep s) = open_within I s)"
    using keep by blast
  have "?full no_text = with_caption no_text (?full caption)"
  proof -
    have 1: "mk caption = with_caption caption (mk no_text)" and 2: "with_caption no_text (mk no_text) = mk no_text"
      using mk by metis+
    have "with_caption no_text (?full caption) = map_call (read_handle st) (with_caption no_text (mk no_text))"
      unfolding 1 by simp
    then show ?thesis unfolding 2 by simp
  qed
  with resend_whole [OF assms(1) _ prep] show ?thesis by (auto simp: delivery_def Let_def split: if_splits)
qed

lemma close_thumb_facts:
  "v_calls (close_thumb t st) = v_calls st" "v_next (close_thumb t st) = v_next st"
  "open_within (I \<union> set_option t) st \<Longrightarrow> open_within I (close_thumb t st)"
  "v_calls (rewind_thumb t st) = v_calls st" "v_fs (rewind_thumb t st) = v_fs st"
  "v_next (rewind_thumb t st) = v_next st" "open_within I (rewind_thumb t st) = open_within I st"
  by (cases t; simp add: close_thumb_def rewind_thumb_def close_facts)+

lemma video_sent:
  assumes "send_video A chat path h cap kb st = (r, st1)" "whole u h st" "read_handle st h = u" "h < v_next st"
  shows "(\<exists>w ht d t. delivery A st (VideoReq chat u cap w ht d t kb) r st1)
    \<and> (\<forall>I. open_within I st \<longrightarrow> open_within I st1)"
proof -
  obtain m s1 where p: "probeVideoMeta A path st = (m, s1)" by fastforce
  note f = probe_facts [OF p]
  let ?t = "vm_thumb m"
  let ?mk = "\<lambda>cap. VideoReq chat h cap (vm_width m) (vm_height m) (vm_duration m) ?t kb"
  let ?prep = "\<lambda>st. rewind_thumb ?t (rewind h st)"
  obtain r2 s2 where r2: "resendWithoutCaption ?prep (\<lambda>cap. request A (?mk cap)) cap s1 = (r2, s2)" by fastforce
  have th: "whole (read_handle s1 t) t s1" "t \<noteq> h" if "?t = Some t" for t
    using f(3) that assms(4) by auto
  have ow: "open_within (I \<union> set_option ?t) s1" if "open_within I st" for I
    using f(3) that by (auto split: option.splits)
  have files: "\<forall>i \<in> set_call (?mk no_text). whole (read_handle s1 i) i s1"
    using f(2) [OF assms(2,4)] assms(3) th by auto
  have again: "read_handle (?prep s) i = v" if "i \<in> set_call (?mk no_text)" "whole v i s" for s v i
    using that th(2) by (cases ?t) (auto simp: rewind_thumb_def whole_facts)
  have keep: "v_calls (?prep s) = v_calls s \<and> v_fs (?prep s) = v_fs s \<and> v_next (?prep s) = v_next s
      \<and> (\<forall>I. open_within I (?prep s) = open_within I s)" for s
    by (simp add: close_thumb_facts close_facts)
  note d = resend_delivery [OF r2 _ files again keep, simplified]
  have "map_call (read_handle s1) (?mk cap) =
      VideoReq chat u cap (vm_width m) (vm_height m) (vm_duration m) (map_option (read_handle s1) ?t) kb"
    using f(2) [OF assms(2,4)] assms(3) by simp
  moreover have r: "r = r2" "st1 = close_thumb ?t s2" using assms(1) p r2 by (auto simp: send_video_def)
  ultimately have "delivery A st (VideoReq chat u cap (vm_width m) (vm_height m) (vm_duration m)
      (map_option (read_handle s1) ?t) kb) r st1"
    using d f(1) by (simp add: delivery_def close_thumb_facts Let_def)
  moreover have "open_within I st1" if "open_within I st" for I
    using ow [OF that] d r by (simp add: close_thumb_facts)
  ultimately show ?thesis by blast
qed

lemma media_sent:
  assumes "send_media A chat path cap animation kb st = (r, st1)"
    and "v_fs st path = Some (File n body)" "a_open A (v_fs st) path = None"
  shows "(\<exists>c. delivery A st c r st1 \<and> req_kind c = media_kind path n animation
      \<and> sent_file c = Some (Upload (file_base path) (Some body)) \<and> with_caption cap c = c)
    \<and> (\<forall>I. open_within I st \<longrightarrow> open_within I st1)"
proof -
  obtain o1 s1 where o: "openInputFile A path st = (o1, s1)" by fastforce
  with assms(2,3) have "o1 = Inr (v_next st)" by (auto simp: openInputFile_def)
  from o show ?thesis
  proof (cases rule: open_inputE)
    case (2 h)
    let ?u = "file_of (v_fs st) path" and ?e = "to_lower (ext path)"
    have u: "?u = Upload (file_base path) (Some body)" using assms(2) by (simp add: file_of_def)
    have w: "whole ?u h s1" and rd: "read_handle s1 h = ?u" and nx: "h < v_next s1"
      using 2(5,6,9) by (simp_all add: whole_def)
    have bytes: "size_of (v_fs s1) path = n" using assms(2) 2(4) by (simp add: size_of_def file_size_def)
    have mb: "of_int n / (1024 * 1024) \<le> (50 :: rat) \<longleftrightarrow> n \<le> 50 * 1024 * 1024"
      by (simp add: pos_divide_le_eq)
    have again: "delivery A s1 (map_call (read_handle s1) (mk cap)) r2 s2 \<and> (\<forall>I. open_within I s2 = open_within I s1)"
      if "resendWithoutCaption (rewind h) (\<lambda>cap. request A (mk cap)) cap s1 = (r2, s2)"
        "\<forall>cap. mk cap = with_caption cap (mk no_text)" "set_call (mk no_text) = {h}" for mk r2 s2
      by (rule resend_delivery [OF that(1,2)]) (use that(3) w rd in \<open>auto simp: whole_facts close_facts\<close>)
    let ?run = "(if animation then resendWithoutCaption (rewind h) (\<lambda>cap. request A (AnimationReq chat h cap kb)) cap s1
         else if ?e \<in> {''.jpg'', ''.jpeg'', ''.png'', ''.webp''}
           then resendWithoutCaption (rewind h) (\<lambda>cap. request A (PhotoReq chat h cap kb)) cap s1
         else if ?e \<in> {''.mp4'', ''.webm'', ''.mov'', ''.mkv'', ''.m4v''} \<and> n \<le> 50 * 1024 * 1024
           then send_video A chat path h cap kb s1
         else resendWithoutCaption (rewind h) (\<lambda>cap. request A (DocumentReq chat h cap kb)) cap s1)"
    obtain r2 s2 where run: "?run = (r2, s2)" using that by (rule prod.exhaust)
    have "send_media A chat path cap animation kb st = (case ?run of (r, st) \<Rightarrow> (r, close_file h st))"
      by (simp only: send_media_def o 2(1) prod.case sum.case Let_def bytes mb)
    then have fin: "r = r2" "st1 = close_file h s2" using assms(1) run by (simp_all only: prod.case prod.inject)
    have st: "delivery A s1 c r2 s2 \<Longrightarrow> delivery A st c r st1" for c
      using 2(3) fin by (simp add: delivery_def Let_def close_facts)
    have kinds: "is_image path \<longleftrightarrow> ?e \<in> {''.jpg'', ''.jpeg'', ''.png'', ''.webp''}"
      "is_video path \<longleftrightarrow> ?e \<in> {''.mp4'', ''.webm'', ''.mov'', ''.mkv'', ''.m4v''}"
      by (auto simp: is_image_def is_video_def imageExtensions_def videoExtensions_def)
    have "(\<exists>c. delivery A s1 c r2 s2 \<and> req_kind c = media_kind path n animation \<and> sent_file c = Some ?u \<and> with_caption cap c = c)
      \<and> (\<forall>I. open_within I s1 \<longrightarrow> open_within I s2)"
    proof -
      consider (anim) "animation" | (img) "\<not> animation" "is_image path"
        | (vid) "\<not> animation" "\<not> is_image path" "is_video path" "n \<le> 50 * 1024 * 1024"
        | (doc) "\<not> animation" "\<not> is_image path" "\<not> (is_video path \<and> n \<le> 50 * 1024 * 1024)" by blast
      then show ?thesis
      proof cases
        case anim
        then have "resendWithoutCaption (rewind h) (\<lambda>cap. request A (AnimationReq chat h cap kb)) cap s1 = (r2, s2)"
          using run by simp
        from again [OF this] anim rd show ?thesis by (auto simp: media_kind_def)
      next
        case img
        then have "resendWithoutCaption (rewind h) (\<lambda>cap. request A (PhotoReq chat h cap kb)) cap s1 = (r2, s2)"
          using run kinds by simp
        from again [OF this] img rd show ?thesis by (auto simp: media_kind_def)
      next
        case vid
        then have "send_video A chat path h cap kb s1 = (r2, s2)" using run kinds by (simp split: if_splits)
        from video_sent [OF this w rd nx] vid show ?thesis by (auto simp: media_kind_def)
      next
        case doc
        then have "resendWithoutCaption (rewind h) (\<lambda>cap. request A (DocumentReq chat h cap kb)) cap s1 = (r2, s2)"
          using run kinds by (simp split: if_splits)
        from again [OF this] doc rd show ?thesis by (auto simp: media_kind_def)
      qed
    qed
    moreover have "open_within I st1" if "open_within I st" "\<forall>I. open_within I s1 \<longrightarrow> open_within I s2" for I
      using open_within_open [OF o [unfolded 2(1)] that(1)] that(2) fin by (auto intro: close_facts)
    ultimately show ?thesis using st u by metis
  qed (use \<open>o1 = Inr (v_next st)\<close> in simp)
qed

text \<open>
  C39. A file that exists and can be opened is sent whole, also when it has to be sent twice: one request with the caption, and a
  second one without it exactly if Telegram refused the first for its caption; each carries the file from its first byte, and
  the answer to the last is the result. What is asked for as an animation goes as one; else images go as photos, videos
  up to 50 MB as videos, and the rest as documents. If every file handle was closed before, every one is closed after.
\<close>

theorem media_sent_whole:
  assumes "send_media A chat path cap animation kb st = (r, st1)"
    and "v_fs st path = Some (File n body)" "a_open A (v_fs st) path = None" "all_closed st"
  shows "(\<exists>c. delivery A st c r st1 \<and> req_kind c = media_kind path n animation
      \<and> sent_file c = Some (Upload (file_base path) (Some body)) \<and> with_caption cap c = c) \<and> all_closed st1"
  using media_sent [OF assms(1-3)] assms(4) unfolding all_closed_iff by blast

lemma media_sent_whole_witness:
  "\<exists>c. delivery sample_api sample_wire c (fst (send_media sample_api 7 ''/t/1.jpg'' (Lit ''hi'') False None sample_wire))
       (snd (send_media sample_api 7 ''/t/1.jpg'' (Lit ''hi'') False None sample_wire))
     \<and> req_kind c = ''photo'' \<and> sent_file c = Some (Upload ''1.jpg'' (Some ''one''))"
proof -
  let ?run = "send_media sample_api 7 ''/t/1.jpg'' (Lit ''hi'') False None sample_wire"
  have fs: "v_fs sample_wire ''/t/1.jpg'' = Some (File 3 ''one'')" "all_closed sample_wire"
    "a_open sample_api (v_fs sample_wire) ''/t/1.jpg'' = None"
    by (simp_all add: sample_wire_def all_closed_def sample_api_def)
  have "media_kind ''/t/1.jpg'' 3 False = ''photo''" "file_base ''/t/1.jpg'' = ''1.jpg''" by code_simp+
  with media_sent_whole [of sample_api 7 "''/t/1.jpg''" "Lit ''hi''" False None sample_wire "fst ?run" "snd ?run" 3 "''one''"] fs
  show ?thesis by auto
qed

end
