(* ===== verification/Handler_Users.thy ===== *)
theory Handler_Users
  imports Worker_Base
begin

text \<open>
  The handlers that keep what the bot knows of a user: the welcome and the choice of a language
  (\<open>handler/bot.go\<close>), the settings menu (\<open>handler/settings.go\<close>) and the purchase of the footer's removal
  (\<open>handler/payments.go\<close>), over the tables of the database. A text inside another text is given by its key.
\<close>

subsection \<open>Reading and writing the database\<close>

definition on_db :: "(database \<Rightarrow> 'r \<times> database) \<Rightarrow> 's wworld \<Rightarrow> 'r \<times> 's wworld" where
  "on_db f w = (case f (w_db w) of (r, db) \<Rightarrow> (r, w\<lparr>w_db := db\<rparr>))"

definition do_db :: "(database \<Rightarrow> 'r \<times> database) \<Rightarrow> 's wworld \<Rightarrow> 's wworld" where
  "do_db f w = snd (on_db f w)"

definition bot_id :: string where "bot_id = ''saveinator''"

definition db_lang :: "'s work_env \<Rightarrow> int \<Rightarrow> 's wworld \<Rightarrow> string \<times> 's wworld" where
  "db_lang B u w =
     (case on_db (GetUserLanguage (k_fault B) u bot_id) w of
        (Inl e, w) \<Rightarrow> (''en'', w)
      | (Inr lang, w) \<Rightarrow> (if lang = [] then ''en'' else lang, w))"

definition user_row_settings :: "'s work_env \<Rightarrow> int \<Rightarrow> 's wworld \<Rightarrow> settings_row \<times> 's wworld" where
  "user_row_settings B u = on_db (\<lambda>db. case GetOrCreateUserSettings (k_fault B) u db of (r, e, db) \<Rightarrow> (r, db))"

definition entitled :: "'s work_env \<Rightarrow> int \<Rightarrow> 's wworld \<Rightarrow> bool \<times> 's wworld" where
  "entitled B u w =
     (if isAdmin B u then (True, w)
      else on_db (\<lambda>db. case HasPurchase (k_fault B) u watermarkProduct db of ((paid, e), db) \<Rightarrow> (paid, db)) w)"

subsection \<open>Welcome and language (bot.go)\<close>

definition onStart :: "'s work_env \<Rightarrow> message \<Rightarrow> 's wworld \<Rightarrow> 's wworld" where
  "onStart B m w =
     (case m_from m of
        None \<Rightarrow> w
      | Some u \<Rightarrow>
          let (lang, w) = db_lang B (u_id u) w;
              (known, w) = on_db (UserExists (k_fault B) (u_id u)) w in
          if known = Inr True then reply B (m_chat m) ''onboarding.welcome'' lang w
          else post B (Send (m_chat m) (Loc ''onboarding.language_prompt'' ''en'' [])
                 [[button (Loc ''onboarding.btn_en'' ''en'' []) ''lang|en'',
                   button (Loc ''onboarding.btn_ru'' ''en'' []) ''lang|ru'']]) w)"

definition onLanguageChosen :: "'s work_env \<Rightarrow> callback \<Rightarrow> 's wworld \<Rightarrow> 's wworld" where
  "onLanguageChosen B q w =
     (let u = q_from q in
      if u_id u = 0 \<or> q_msg q = None then ack B q w
      else
        (case split_char CHR ''|'' (q_data q) of
           [_, lang] \<Rightarrow>
             if lang \<noteq> ''en'' \<and> lang \<noteq> ''ru'' then ack B q w
             else
               let w = do_db (CreateUser (k_fault B) (u_id u) (u_name u) (u_first u) lang bot_id) w in
               ack B q (edit_msg B q (Loc ''onboarding.welcome'' lang []) [] w)
         | _ \<Rightarrow> ack B q w))"

subsection \<open>The settings menu (settings.go)\<close>

definition languageLabel :: "string \<Rightarrow> string" where
  "languageLabel code = (if code = ''ru'' then ''onboarding.btn_ru'' else ''onboarding.btn_en'')"

definition ratioLabel :: "string \<Rightarrow> string" where
  "ratioLabel v =
     (if v = ''16_9'' then ''settings.ratio_16_9''
      else if v = ''21_9'' then ''settings.ratio_21_9''
      else if v = ''9_16'' then ''settings.ratio_9_16''
      else ''settings.ratio_ask'')"

definition state_key :: "settings_row \<Rightarrow> string" where
  "state_key r = (if sr_no_watermark r then ''watermark.state_off'' else ''watermark.state_on'')"

definition nl :: string where "nl = [CHR 0x0A]"

definition settingsSummary :: "'s work_env \<Rightarrow> int \<Rightarrow> string \<Rightarrow> 's wworld \<Rightarrow> msg_text \<times> 's wworld" where
  "settingsSummary B u lang w =
     (let (r, w) = user_row_settings B u w;
          (l, w) = on_db (GetUserLanguage (k_fault B) u bot_id) w;
          userLang = (case l of Inl _ \<Rightarrow> lang | Inr x \<Rightarrow> if x = [] then lang else x) in
      (Cat [Loc ''settings.title'' lang [], Lit (nl @ nl),
            Loc ''settings.lang_line'' lang [(''language'', languageLabel userLang)], Lit nl,
            Loc ''settings.ratio_line'' lang [(''ratio'', ratioLabel (sr_ratio r))], Lit nl,
            Loc ''settings.wm_line'' lang [(''state'', state_key r)]], w))"

definition settingsMenuKeyboard :: "string \<Rightarrow> keyboard" where
  "settingsMenuKeyboard lang =
     [[button (Loc ''settings.btn_lang'' lang []) ''settings|lang''],
      [button (Loc ''settings.btn_ratio'' lang []) ''settings|ratio''],
      [button (Loc ''settings.btn_wm'' lang []) ''settings|wm''],
      [button (Loc ''settings.btn_reset'' lang []) ''settings|reset'']]"

definition to_menu :: "string \<Rightarrow> button list" where
  "to_menu lang = [button (Loc ''settings.btn_back'' lang []) ''settings|menu'']"

definition onSettings :: "'s work_env \<Rightarrow> message \<Rightarrow> 's wworld \<Rightarrow> 's wworld" where
  "onSettings B m w =
     (case m_from m of
        None \<Rightarrow> w
      | Some u \<Rightarrow>
          let (lang, w) = db_lang B (u_id u) w; (t, w) = settingsSummary B (u_id u) lang w in
          post B (Send (m_chat m) t (settingsMenuKeyboard lang)) w)"

definition editSettingsMenu :: "'s work_env \<Rightarrow> callback \<Rightarrow> string \<Rightarrow> 's wworld \<Rightarrow> 's wworld" where
  "editSettingsMenu B q lang w =
     (let (t, w) = settingsSummary B (u_id (q_from q)) lang w in
      edit_msg B q t (settingsMenuKeyboard lang) w)"

definition editSettingsLang :: "'s work_env \<Rightarrow> callback \<Rightarrow> string \<Rightarrow> 's wworld \<Rightarrow> 's wworld" where
  "editSettingsLang B q lang w =
     edit_msg B q (Loc ''settings.lang_prompt'' lang [])
       [[button (Loc ''onboarding.btn_en'' lang []) ''settings|lang|en'',
         button (Loc ''onboarding.btn_ru'' lang []) ''settings|lang|ru''], to_menu lang] w"

definition editSettingsRatio :: "'s work_env \<Rightarrow> callback \<Rightarrow> string \<Rightarrow> 's wworld \<Rightarrow> 's wworld" where
  "editSettingsRatio B q lang w =
     edit_msg B q (Loc ''settings.ratio_prompt'' lang [])
       [[button (Loc ''settings.ratio_ask'' lang []) ''settings|ratio|ask''],
        [button (Loc ''settings.ratio_16_9'' lang []) ''settings|ratio|16_9'',
         button (Loc ''settings.ratio_21_9'' lang []) ''settings|ratio|21_9''],
        [button (Loc ''settings.ratio_9_16'' lang []) ''settings|ratio|9_16''], to_menu lang] w"

definition botUsername :: "'s work_env \<Rightarrow> string" where
  "botUsername B =
     (let u = trim_space (c_BotUsername (b_cfg B)) in
      if u \<noteq> [] then trim_prefix u ''@'' else ''saveinator_bot'')"

definition watermarkPriceStars :: int where "watermarkPriceStars = 10"

definition editSettingsWatermark :: "'s work_env \<Rightarrow> callback \<Rightarrow> string \<Rightarrow> 's wworld \<Rightarrow> 's wworld" where
  "editSettingsWatermark B q lang w =
     (let u = u_id (q_from q);
          (may, w) = entitled B u w;
          (r, w) = user_row_settings B u w;
          price = itoa watermarkPriceStars in
      if may then
        edit_msg B q (Loc ''watermark.prompt_unlocked'' lang
            [(''state'', state_key r), (''bot_username'', botUsername B)])
          [[button (Loc ''watermark.btn_enable'' lang []) ''settings|wm|on'',
            button (Loc ''watermark.btn_disable'' lang []) ''settings|wm|off''], to_menu lang] w
      else
        edit_msg B q (Loc ''watermark.prompt_locked'' lang
            [(''price'', price), (''bot_username'', botUsername B)])
          [[button (Loc ''watermark.btn_buy'' lang [(''price'', price)]) ''settings|wm|buy''], to_menu lang] w)"

text \<open>The invoice: its title, description and price label are texts of the product.\<close>

definition sendWatermarkInvoice :: "'s work_env \<Rightarrow> int \<Rightarrow> string \<Rightarrow> string \<Rightarrow> 's wworld \<Rightarrow> 's wworld" where
  "sendWatermarkInvoice B chat chatType lang w =
     (if chatType \<noteq> ''private'' then reply B chat ''watermark.dm_hint'' lang w
      else post B (Invoice chat watermarkProduct watermarkPriceStars) w)"

definition settings_watermark ::
  "'s work_env \<Rightarrow> callback \<Rightarrow> string \<Rightarrow> string list \<Rightarrow> string \<Rightarrow> 's wworld \<Rightarrow> 's wworld" where
  "settings_watermark B q chatType args lang w =
     (let u = u_id (q_from q); chat = (case q_msg q of None \<Rightarrow> 0 | Some (c, _) \<Rightarrow> c) in
      case args of
        [] \<Rightarrow> editSettingsWatermark B q lang w
      | [a] \<Rightarrow>
          if a = ''on'' \<or> a = ''off'' then
            let (may, w) = entitled B u w;
                w = (if may then do_db (SetNoWatermark (k_fault B) u (a = ''on'')) w else w) in
            editSettingsWatermark B q lang w
          else if a = ''buy'' then sendWatermarkInvoice B chat chatType lang w
          else w
      | _ \<Rightarrow> w)"

text \<open>\<open>chatType\<close> is the type of the chat of the button's message.\<close>

definition onSettingsCallback :: "'s work_env \<Rightarrow> string \<Rightarrow> callback \<Rightarrow> 's wworld \<Rightarrow> 's wworld" where
  "onSettingsCallback B chatType q w =
     (let u = u_id (q_from q) in
      if u = 0 \<or> q_msg q = None then ack B q w
      else
        let (lang, w) = db_lang B u w in
        (case split_char CHR ''|'' (q_data q) of
           tag # what # args \<Rightarrow>
             if tag \<noteq> ''settings'' then ack B q w
             else
               ack B q
                 (if what = ''menu'' then editSettingsMenu B q lang w
                  else if what = ''lang'' then
                    (case args of
                       [l] \<Rightarrow> editSettingsMenu B q l (do_db (SetUserLanguage (k_fault B) u l bot_id) w)
                     | _ \<Rightarrow> editSettingsLang B q lang w)
                  else if what = ''ratio'' then
                    (case args of
                       [r] \<Rightarrow> editSettingsMenu B q lang (do_db (SetYouTubeRatio (k_fault B) u r) w)
                     | _ \<Rightarrow> editSettingsRatio B q lang w)
                  else if what = ''wm'' then settings_watermark B q chatType args lang w
                  else if what = ''reset'' then
                    editSettingsMenu B q ''en'' (do_db (ResetUserSettings (k_fault B) u) w)
                  else w)
         | _ \<Rightarrow> ack B q w))"

subsection \<open>Payments (payments.go)\<close>

record payment =
  py_payload :: string
  py_amount :: int
  py_currency :: string
  py_charge :: string

definition onPreCheckoutQuery :: "'s work_env \<Rightarrow> string \<Rightarrow> string \<Rightarrow> 's wworld \<Rightarrow> 's wworld" where
  "onPreCheckoutQuery B queryID payload w =
     (let ok = (payload = watermarkProduct) in
      post B (Checkout queryID ok (if \<not> ok then Some (Loc ''watermark.pay_error'' ''en'' []) else None)) w)"

definition onSuccessfulPayment :: "'s work_env \<Rightarrow> message \<Rightarrow> payment option \<Rightarrow> 's wworld \<Rightarrow> 's wworld" where
  "onSuccessfulPayment B m sp w =
     (case (m_from m, sp) of
        (Some user, Some p) \<Rightarrow>
          let u = u_id user in
          if py_payload p \<noteq> watermarkProduct then w
          else
            let (r, w) = on_db (RecordPurchase (k_fault B) u watermarkProduct (py_amount p)
                           (py_currency p) (py_charge p)) w;
                w = (if fst r then do_db (SetNoWatermark (k_fault B) u True) w else w);
                (lang, w) = db_lang B u w in
            reply B (m_chat m) ''watermark.purchased'' lang w
      | _ \<Rightarrow> w)"

end
