(* ===== verification/Handler_Users_Props.thy ===== *)
theory Handler_Users_Props
  imports Handler_Users Worker_Sample
begin

text \<open>
  Properties of the handlers that keep what the bot knows of a user: the footer is off only for those who may
  turn it off, whatever they press, and a payment unlocks it at once.
\<close>

subsection \<open>What a statement does to settings and purchases\<close>

text \<open>The users whose footer is off, and those who bought its removal.\<close>

definition footer_off :: "database \<Rightarrow> int set" where
  "footer_off db = {u. \<exists>r. map_of (d_settings db) u = Some r \<and> sr_no_watermark r}"

definition buyers :: "database \<Rightarrow> int set" where
  "buyers db = {u. \<exists>p \<in> set (d_purchases db). pu_user p = u \<and> pu_product p = watermarkProduct}"

named_theorems calm_rules \<open>statements that turn no footer off and lose no purchase\<close>

definition calm :: "int set \<Rightarrow> database \<Rightarrow> database \<Rightarrow> bool" where
  "calm V db db' \<longleftrightarrow> footer_off db' \<subseteq> footer_off db \<union> V \<and> buyers db \<subseteq> buyers db'"

lemma calm_refl [simp]: "calm V db db" by (simp add: calm_def)

lemma calm_trans: "calm V a b \<Longrightarrow> calm V b c \<Longrightarrow> calm V a c" by (auto simp: calm_def)

lemma calm_weaken: "calm {} a b \<Longrightarrow> calm V a b" by (auto simp: calm_def)

lemma calm_count [simp]: "calm V (db\<lparr>d_stmts := n\<rparr>) db' = calm V db db'" "calm V db (db'\<lparr>d_stmts := n\<rparr>) = calm V db db'"
  by (simp_all add: calm_def footer_off_def buyers_def)

lemma calm_stmt: "(\<And>db. calm V db (snd (f db))) \<Longrightarrow> calm V db (snd (stmt F f db))"
proof -
  assume f: "\<And>db. calm V db (snd (f db))"
  let ?db = "db\<lparr>d_stmts := Suc (d_stmts db)\<rparr>"
  have "calm V db (snd (f ?db))" using f [of ?db] calm_count(1) [where V = V and db = db and db' = "snd (f ?db)"] by blast
  then show ?thesis by (simp add: stmt_def Let_def split: option.splits)
qed

lemma calm_exec: "(\<And>db. calm V db (snd (f db))) \<Longrightarrow> calm V db (snd (exec_stmt F f db))"
  using calm_stmt [of V f db F] by (simp add: exec_stmt_def split_beta split: sum.splits)

lemma calm_then:
  "(\<And>db. calm V db (snd (f db))) \<Longrightarrow> (\<And>db. calm V db (snd (g db))) \<Longrightarrow> calm V db (snd (and_then f g db))"
  by (simp add: and_then_def split_beta split: option.splits) (metis calm_trans)

lemma calm_tables:
  assumes "d_settings db' = d_settings db" "d_purchases db' = d_purchases db"
  shows "calm V db db'"
  using assms by (simp add: calm_def footer_off_def buyers_def)

lemma calm_insert_user: "calm V db (snd (insert_user u r db))"
  by (rule calm_tables) (auto simp: insert_user_def split: option.splits)

lemma calm_upsert:
  assumes "\<And>r. sr_no_watermark (c r) \<Longrightarrow> sr_no_watermark r \<or> u \<in> V"
  shows "calm V db (snd (upsert_settings u c db))"
proof -
  have "sr_no_watermark (c default_settings) \<Longrightarrow> u \<in> V" using assms [of default_settings] by (simp add: default_settings_def)
  then show ?thesis using assms
    by (auto simp: upsert_settings_def calm_def footer_off_def buyers_def update_conv' map_add_Some_iff
        split: option.splits if_splits)
qed

lemma calm_lang: "calm V db (snd (setUserBotLanguage F u b l db))"
  unfolding setUserBotLanguage_def by (rule calm_exec) (auto intro: calm_tables)

lemma calm_ensure: "calm V db (snd (ensure_user F u db))"
  unfolding ensure_user_def by (rule calm_exec) (rule calm_insert_user)

lemma calm_ops [calm_rules]:
  "calm V db (snd (CreateUser F u n f l b db))" "calm V db (snd (SetUserLanguage F u l b db))"
  "calm V db (snd (SetYouTubeRatio F u x db))" "calm V db (snd (ResetUserSettings F u db))"
  "calm V db (snd (GetUserLanguage F u b db))" "calm V db (snd (UserExists F u db))"
  "calm V db (snd (HasPurchase F u p db))" "calm V db (snd (RecordPurchase F u p st c i db))"
  "calm V db (snd (snd (GetOrCreateUserSettings F u db)))"
  "u \<in> V \<Longrightarrow> calm V db (snd (SetNoWatermark F u e db))"
proof -
  show "calm V db (snd (CreateUser F u n f l b db))"
    unfolding CreateUser_def by (intro calm_then calm_exec calm_insert_user calm_lang)
  show "calm V db (snd (SetUserLanguage F u l b db))"
    unfolding SetUserLanguage_def
    by (intro calm_then calm_exec calm_lang) (auto intro: calm_insert_user calm_tables split: option.splits)
  show "calm V db (snd (SetYouTubeRatio F u x db))"
    unfolding SetYouTubeRatio_def upsertSetting_def by (intro calm_then calm_exec calm_ensure calm_upsert) simp
  show "calm V db (snd (ResetUserSettings F u db))"
    unfolding ResetUserSettings_def
    by (intro calm_then calm_exec calm_upsert) (auto intro: calm_tables simp: default_settings_def)
  show "calm V db (snd (GetUserLanguage F u b db))" "calm V db (snd (UserExists F u db))"
    "calm V db (snd (HasPurchase F u p db))"
    by (auto simp: GetUserLanguage_def UserExists_def HasPurchase_def stmt_def Let_def split: option.splits)
  show "calm V db (snd (RecordPurchase F u p st c i db))"
  proof -
    obtain b e db' where "RecordPurchase F u p st c i db = ((b, e), db')" by (metis surj_pair)
    moreover from this have "d_settings db' = d_settings db"
      by (auto simp: RecordPurchase_def stmt_def Let_def split: option.splits if_splits)
    ultimately show ?thesis
      by (auto elim!: RecordPurchase_cases simp: calm_def footer_off_def buyers_def)
  qed
  show "calm V db (snd (snd (GetOrCreateUserSettings F u db)))"
  proof -
    let ?read = "\<lambda>db. (case map_of (d_settings db) u of None \<Rightarrow> Inl no_rows | Some r \<Rightarrow> Inr r, db)"
    let ?mk = "and_then (ensure_user F u)
      (exec_stmt F (\<lambda>db. if has_key u (d_settings db) then (Inr (), db) else upsert_settings u (\<lambda>r. r) db))"
    obtain r db1 where q: "stmt F ?read db = (r, db1)" by fastforce
    obtain e db2 where m: "?mk db1 = (e, db2)" by fastforce
    have c1: "calm V db (snd (stmt F ?read db))" for db by (rule calm_stmt) simp
    have c2: "calm V db (snd (?mk db))" for db
      by (intro calm_then calm_exec calm_ensure) (simp add: calm_upsert)
    have "calm V db db1" using c1 [of db] unfolding q by simp
    moreover have "calm V db1 db2" using c2 [of db1] unfolding m by simp
    ultimately have "calm V db db1" "calm V db1 db2" .
    then have "calm V db db2" by (rule calm_trans)
    with q m \<open>calm V db db1\<close> show ?thesis
      by (simp add: GetOrCreateUserSettings_def split: sum.splits option.splits)
  qed
  show "calm V db (snd (SetNoWatermark F u e db))" if "u \<in> V"
    unfolding SetNoWatermark_def by (intro calm_then calm_exec calm_ensure calm_upsert) (simp add: that)
qed

subsection \<open>What a handler does\<close>

definition wcalm :: "int set \<Rightarrow> 's wworld \<Rightarrow> 's wworld \<Rightarrow> bool" where
  "wcalm V w w' \<longleftrightarrow> calm V (w_db w) (w_db w')"

lemma wcalm_refl [simp]: "wcalm V w w" by (simp add: wcalm_def)

lemma wcalm_trans [trans]: "wcalm V a b \<Longrightarrow> wcalm V b c \<Longrightarrow> wcalm V a c"
  unfolding wcalm_def by (rule calm_trans)

lemma db_emit_more [simp]:
  fixes w :: "'s wworld"
  shows "w_db (snd (emit B e w)) = w_db w" "w_db (post B e w) = w_db w" "w_db (ack B q w) = w_db w"
    "w_db (reply B chat k lang w) = w_db w" "w_db (edit_msg B q t kb w) = w_db w"
  by (simp_all add: emit_def post_def ack_def reply_def edit_msg_def split: option.splits)

lemma wcalm_emit [simp]:
  "wcalm V w (post B e w') = wcalm V w w'" "wcalm V w (ack B q w') = wcalm V w w'"
  "wcalm V w (reply B chat k lang w') = wcalm V w w'" "wcalm V w (edit_msg B q t kb w') = wcalm V w w'"
  by (simp_all add: wcalm_def)

lemma wcalm_db: "on_db f w = (r, w1) \<Longrightarrow> calm V (w_db w) (snd (f (w_db w))) \<Longrightarrow> wcalm V w w1"
  by (auto simp: on_db_def wcalm_def split: prod.splits)

lemma wcalm_do: "calm V (w_db w) (snd (f (w_db w))) \<Longrightarrow> wcalm V w (do_db f w)"
  by (simp add: do_db_def on_db_def wcalm_def split_beta)

lemma wcalm_reads:
  "db_lang B u w = (l, w1) \<Longrightarrow> wcalm V w w1"
  "user_row_settings B u w = (r, w2) \<Longrightarrow> wcalm V w w2"
  "entitled B u w = (b, w3) \<Longrightarrow> wcalm V w w3"
  "settingsSummary B u lang w = (t, w4) \<Longrightarrow> wcalm V w w4"
proof -
  show lang: "wcalm V w w1" if "db_lang B u w = (l, w1)" for l w w1
  proof -
    obtain r w' where r: "on_db (GetUserLanguage (k_fault B) u bot_id) w = (r, w')" by fastforce
    with that have "w1 = w'" by (auto simp: db_lang_def split: sum.splits if_splits)
    with wcalm_db [OF r calm_rules(5)] show ?thesis by simp
  qed
  show row: "wcalm V w w2" if "user_row_settings B u w = (r, w2)" for r w w2
    using that unfolding user_row_settings_def
    by (rule wcalm_db) (use calm_rules(9) in \<open>simp add: split_beta\<close>)
  show "wcalm V w w3" if "entitled B u w = (b, w3)"
  proof (cases "isAdmin B u")
    case False
    with that have "on_db (\<lambda>db. case HasPurchase (k_fault B) u watermarkProduct db of ((paid, e), db) \<Rightarrow> (paid, db)) w = (b, w3)"
      by (simp add: entitled_def)
    then show ?thesis by (rule wcalm_db) (use calm_rules(7) in \<open>simp add: split_beta\<close>)
  qed (use that in \<open>simp add: entitled_def\<close>)
  show "wcalm V w w4" if "settingsSummary B u lang w = (t, w4)"
  proof -
    obtain r w' where 1: "user_row_settings B u w = (r, w')" by fastforce
    obtain l w'' where 2: "on_db (GetUserLanguage (k_fault B) u bot_id) w' = (l, w'')" by fastforce
    from that 1 2 have "w4 = w''" by (auto simp: settingsSummary_def Let_def)
    with wcalm_trans [OF row [OF 1] wcalm_db [OF 2 calm_rules(5)]] show ?thesis by simp
  qed
qed

text \<open>Who is entitled is the operator or a buyer.\<close>

lemma entitled_buyer:
  assumes "entitled B u w = (True, w1)"
  shows "isAdmin B u \<or> u \<in> buyers (w_db w)"
  using assms
  by (auto simp: entitled_def on_db_def HasPurchase_def stmt_def Let_def buyers_def split: if_splits prod.splits option.splits)

definition may_turn_off :: "'s work_env \<Rightarrow> database \<Rightarrow> int set" where
  "may_turn_off B db = {u. isAdmin B u} \<union> buyers db"

definition footer_paid :: "'s work_env \<Rightarrow> database \<Rightarrow> bool" where
  "footer_paid B db \<longleftrightarrow> footer_off db \<subseteq> may_turn_off B db"

lemma footer_paid_calm:
  assumes "footer_paid B db" "calm V db db'" "V \<subseteq> may_turn_off B db'"
  shows "footer_paid B db'"
  using assms by (auto simp: footer_paid_def calm_def may_turn_off_def)

text \<open>What a handler may do to the flags: turn the footer off for those who are entitled in the end.\<close>

definition fair :: "'s work_env \<Rightarrow> 's wworld \<Rightarrow> 's wworld \<Rightarrow> bool" where
  "fair B w w' \<longleftrightarrow> wcalm (may_turn_off B (w_db w')) w w'"

lemma fair_wcalm: "wcalm {} w w' \<Longrightarrow> fair B w w'"
  by (simp add: fair_def wcalm_def calm_weaken)

lemma fair_trans: "fair B a b \<Longrightarrow> fair B b c \<Longrightarrow> fair B a c"
  by (auto simp: fair_def wcalm_def calm_def may_turn_off_def)

lemma fair_emit [simp]:
  "fair B w (post B' e w') = fair B w w'" "fair B w (ack B' q w') = fair B w w'"
  "fair B w (reply B' chat k lang w') = fair B w w'" "fair B w (edit_msg B' q t kb w') = fair B w w'"
  by (simp_all add: fair_def)

lemma fair_toggle:
  assumes "isAdmin B u \<or> u \<in> buyers (w_db w)"
  shows "fair B w (do_db (SetNoWatermark (k_fault B) u e) w)"
proof -
  let ?w = "do_db (SetNoWatermark (k_fault B) u e) w"
  have "wcalm {u} w ?w" by (rule wcalm_do) (simp add: calm_rules)
  with assms show ?thesis by (auto simp: fair_def wcalm_def calm_def may_turn_off_def)
qed

lemma fair_menu: "fair B w (editSettingsMenu B q lang w)"
proof -
  obtain t w' where "settingsSummary B (u_id (q_from q)) lang w = (t, w')" by fastforce
  then show ?thesis by (auto simp: editSettingsMenu_def intro: fair_wcalm wcalm_reads)
qed

lemma fair_watermark: "fair B w (editSettingsWatermark B q lang w)"
proof -
  obtain m w1 where 1: "entitled B (u_id (q_from q)) w = (m, w1)" by fastforce
  obtain r w2 where 2: "user_row_settings B (u_id (q_from q)) w1 = (r, w2)" by fastforce
  have "wcalm {} w w2" by (rule wcalm_trans [OF wcalm_reads(3) [OF 1] wcalm_reads(2) [OF 2]])
  with 1 2 show ?thesis by (auto simp: editSettingsWatermark_def Let_def intro: fair_wcalm)
qed

lemma fair_wm:
  "fair B w (settings_watermark B q ct args lang w)"
proof -
  let ?u = "u_id (q_from q)"
  obtain may w1 where e: "entitled B ?u w = (may, w1)" by fastforce
  have keep: "wcalm {} w w1" by (rule wcalm_reads(3) [OF e])
  have "fair B w (editSettingsWatermark B q lang
      (if may then do_db (SetNoWatermark (k_fault B) ?u b) w1 else w1))" for b
  proof (cases may)
    case True
    with e have "entitled B ?u w = (True, w1)" by simp
    then have "isAdmin B ?u \<or> ?u \<in> buyers (w_db w)" by (rule entitled_buyer)
    then have "isAdmin B ?u \<or> ?u \<in> buyers (w_db w1)" using keep by (auto simp: wcalm_def calm_def)
    from fair_trans [OF fair_wcalm [OF keep] fair_trans [OF fair_toggle [OF this] fair_watermark]]
    show ?thesis using True by simp
  next
    case False
    then show ?thesis using fair_trans [OF fair_wcalm [OF keep] fair_watermark] by simp
  qed
  moreover have "fair B w w" by (simp add: fair_wcalm)
  ultimately show ?thesis using e fair_watermark
    by (auto simp: settings_watermark_def sendWatermarkInvoice_def Let_def split: list.splits)
qed

lemma fair_do_menu:
  assumes "\<And>db. calm {} db (snd (f db))"
  shows "fair B w (editSettingsMenu B q lang (do_db f w))"
  by (rule fair_trans [OF fair_wcalm [OF wcalm_do] fair_menu]) (rule assms)

lemma fair_button: "fair B w (onSettingsCallback B ct q w)"
proof -
  let ?u = "u_id (q_from q)"
  obtain lang w1 where l: "db_lang B ?u w = (lang, w1)" by fastforce
  have keep: "fair B w w1" by (rule fair_wcalm [OF wcalm_reads(1) [OF l]])
  have "fair B w1 (editSettingsMenu B q lang w1)" "fair B w1 (settings_watermark B q ct args lang w1)"
    "fair B w1 (editSettingsMenu B q l (do_db (SetUserLanguage (k_fault B) ?u l bot_id) w1))"
    "fair B w1 (editSettingsMenu B q lang (do_db (SetYouTubeRatio (k_fault B) ?u r) w1))"
    "fair B w1 (editSettingsMenu B q ''en'' (do_db (ResetUserSettings (k_fault B) ?u) w1))"
    "fair B w1 (editSettingsLang B q lang w1)" "fair B w1 (editSettingsRatio B q lang w1)" "fair B w1 w1" for args l r
    by (auto simp: fair_menu fair_wm fair_do_menu calm_rules editSettingsLang_def editSettingsRatio_def fair_wcalm)
  note here = this [THEN fair_trans [OF keep]]
  show ?thesis
  proof (cases "split_char CHR ''|'' (q_data q)")
    case Nil
    then show ?thesis using l keep by (simp add: onSettingsCallback_def fair_wcalm)
  next
    case (Cons tag rest)
    then show ?thesis
      using l here by (cases rest) (auto simp: onSettingsCallback_def Let_def fair_wcalm split: list.splits)
  qed
qed

lemma fair_start: "fair B w (onStart B m w)"
proof (cases "m_from m")
  case (Some u)
  obtain l w1 where 1: "db_lang B (u_id u) w = (l, w1)" by fastforce
  obtain k w2 where 2: "on_db (UserExists (k_fault B) (u_id u)) w1 = (k, w2)" by fastforce
  have "wcalm {} w w2" by (rule wcalm_trans [OF wcalm_reads(1) [OF 1] wcalm_db [OF 2 calm_rules(6)]])
  then show ?thesis using Some 1 2 by (auto simp: onStart_def intro: fair_wcalm)
qed (simp add: onStart_def fair_wcalm)

lemma fair_language: "fair B w (onLanguageChosen B q w)"
proof -
  have "fair B w (do_db (CreateUser (k_fault B) u n f l b) w)" for u n f l b
    by (intro fair_wcalm wcalm_do calm_rules)
  then show ?thesis
    by (auto simp: onLanguageChosen_def Let_def fair_wcalm split: list.splits)
qed

lemma fair_settings: "fair B w (onSettings B m w)"
proof (cases "m_from m")
  case (Some u)
  obtain l w1 where 1: "db_lang B (u_id u) w = (l, w1)" by fastforce
  obtain t w2 where 2: "settingsSummary B (u_id u) l w1 = (t, w2)" by fastforce
  have "wcalm {} w w2" by (rule wcalm_trans [OF wcalm_reads(1) [OF 1] wcalm_reads(4) [OF 2]])
  then show ?thesis using Some 1 2 by (auto simp: onSettings_def intro: fair_wcalm)
qed (simp add: onSettings_def fair_wcalm)

lemma payment_steps:
  assumes "m_from m = Some user" "py_payload p = watermarkProduct"
  obtains b e w1 w2 where
    "RecordPurchase (k_fault B) (u_id user) watermarkProduct (py_amount p) (py_currency p) (py_charge p) (w_db w)
       = ((b, e), w_db w1)"
    "w2 = (if b then do_db (SetNoWatermark (k_fault B) (u_id user) True) w1 else w1)"
    "w_db (onSuccessfulPayment B m (Some p) w)
       = w_db (snd (db_lang B (u_id user) w2))"
proof -
  let ?f = "RecordPurchase (k_fault B) (u_id user) watermarkProduct (py_amount p) (py_currency p) (py_charge p)"
  obtain b e db1 where r: "?f (w_db w) = ((b, e), db1)" by (metis surj_pair)
  then have o: "on_db ?f w = ((b, e), w\<lparr>w_db := db1\<rparr>)" by (simp add: on_db_def)
  show thesis
    by (rule that [of b e "w\<lparr>w_db := db1\<rparr>", OF _ refl])
      (use assms r o in \<open>simp_all add: onSuccessfulPayment_def Let_def split_beta\<close>)
qed

lemma fair_payment: "fair B w (onSuccessfulPayment B m sp w)"
proof (cases "\<exists>user p. m_from m = Some user \<and> sp = Some p \<and> py_payload p = watermarkProduct")
  case False
  then have "onSuccessfulPayment B m sp w = w" by (auto simp: onSuccessfulPayment_def split: option.splits)
  then show ?thesis by (simp add: fair_wcalm)
next
  case True
  then obtain user p where u: "m_from m = Some user" "sp = Some p" "py_payload p = watermarkProduct" by blast
  from payment_steps [OF u(1,3), of B w] obtain b e w1 w2 where s:
    "RecordPurchase (k_fault B) (u_id user) watermarkProduct (py_amount p) (py_currency p) (py_charge p) (w_db w)
       = ((b, e), w_db w1)"
    "w2 = (if b then do_db (SetNoWatermark (k_fault B) (u_id user) True) w1 else w1)"
    "w_db (onSuccessfulPayment B m (Some p) w) = w_db (snd (db_lang B (u_id user) w2))" by blast
  have w1: "fair B w w1" by (rule fair_wcalm) (use calm_rules(8) s(1) in \<open>metis wcalm_def snd_conv\<close>)
  have "b \<Longrightarrow> u_id user \<in> buyers (w_db w1)"
    using s(1) by (auto elim!: RecordPurchase_cases simp: buyers_def)
  then have "fair B w1 w2" using s(2) by (cases b) (auto simp: fair_wcalm intro!: fair_toggle)
  moreover have "fair B w2 (snd (db_lang B (u_id user) w2))" by (rule fair_wcalm, rule wcalm_reads(1), rule prod.collapse [symmetric])
  ultimately have "fair B w (snd (db_lang B (u_id user) w2))" using w1 fair_trans by blast
  then show ?thesis using s(3) u(2) by (simp add: fair_def wcalm_def)
qed

text \<open>
  Everything users do with their settings, and whatever else happens in between without touching settings or
  purchases.
\<close>

inductive user_event :: "'s work_env \<Rightarrow> 's wworld \<Rightarrow> 's wworld \<Rightarrow> bool" for B where
  start: "user_event B w (onStart B m w)"
| language: "user_event B w (onLanguageChosen B q w)"
| menu: "user_event B w (onSettings B m w)"
| button: "user_event B w (onSettingsCallback B ct q w)"
| checkout: "user_event B w (onPreCheckoutQuery B qid pl w)"
| payment: "user_event B w (onSuccessfulPayment B m sp w)"
| elsewhere: "d_settings (w_db w') = d_settings (w_db w) \<Longrightarrow> d_purchases (w_db w') = d_purchases (w_db w)
    \<Longrightarrow> user_event B w w'"

lemma user_event_fair: "user_event B w w' \<Longrightarrow> fair B w w'"
proof (induction rule: user_event.induct)
  case (elsewhere w' w)
  then show ?case by (simp add: fair_def wcalm_def calm_tables)
qed (simp_all add: fair_start fair_language fair_settings fair_button fair_payment onPreCheckoutQuery_def fair_wcalm Let_def)

text \<open>
  C21. The footer is off only for the operator and for users with a recorded purchase. Whatever buttons
  users press, forged ones included, in whatever order, and whichever statements of the database fail, this
  stays so.
\<close>

theorem footer_off_is_paid:
  assumes "footer_paid B (w_db w)" "(user_event B)\<^sup>*\<^sup>* w w'"
  shows "footer_paid B (w_db w')"
  using assms(2,1)
proof (induction rule: rtranclp_induct)
  case (step v v')
  then show ?case using user_event_fair [of B v v'] by (auto simp: fair_def wcalm_def intro: footer_paid_calm)
qed

text \<open>A press of user 7, and what follows from an empty database.\<close>

definition press :: "string \<Rightarrow> callback" where
  "press data = \<lparr>q_id = ''q'', q_from = \<lparr>u_id = 7, u_name = [], u_first = ''Ann''\<rparr>, q_data = data, q_msg = Some (7, 3)\<rparr>"

definition says :: "string \<Rightarrow> message" where
  "says t = \<lparr>m_chat = 7, m_type = ''private'', m_id = 4, m_from = Some \<lparr>u_id = 7, u_name = [], u_first = ''Ann''\<rparr>,
     m_text = t, m_caption = [], m_media = False\<rparr>"

definition stars :: payment where
  "stars = \<lparr>py_payload = watermarkProduct, py_amount = 10, py_currency = ''XTR'', py_charge = ''c1''\<rparr>"

lemma footer_off_is_paid_witness:
  "let B = sample_work_env []; w1 = onLanguageChosen B (press ''lang|en'') sample_wworld;
       w2 = onSettingsCallback B ''private'' (press ''settings|wm|on'') w1;
       w3 = onSuccessfulPayment B (says []) (Some stars) w2 in
   footer_paid B (w_db w2) \<and> footer_paid B (w_db w3)"
proof -
  let ?B = "sample_work_env []"
  let ?w1 = "onLanguageChosen ?B (press ''lang|en'') sample_wworld"
  let ?w2 = "onSettingsCallback ?B ''private'' (press ''settings|wm|on'') ?w1"
  have ok: "footer_paid ?B (w_db sample_wworld)"
    by (simp add: footer_paid_def footer_off_def sample_wworld_def empty_tables_def)
  have 2: "(user_event ?B)\<^sup>*\<^sup>* sample_wworld ?w2"
    by (meson language button rtranclp.rtrancl_into_rtrancl rtranclp.rtrancl_refl)
  then have 3: "(user_event ?B)\<^sup>*\<^sup>* sample_wworld (onSuccessfulPayment ?B (says []) (Some stars) ?w2)"
    by (rule rtranclp.rtrancl_into_rtrancl) (rule payment)
  show ?thesis using footer_off_is_paid [OF ok 2] footer_off_is_paid [OF ok 3] by (simp add: Let_def)
qed

subsection \<open>A payment\<close>

lemma clear_statements:
  "F (d_stmts db) = None \<Longrightarrow> stmt F f db = f (db\<lparr>d_stmts := Suc (d_stmts db)\<rparr>)"
  by (simp add: stmt_def Let_def)

lemma lang_keeps:
  "d_settings (w_db (snd (db_lang B u w))) = d_settings (w_db w)"
  "d_purchases (w_db (snd (db_lang B u w))) = d_purchases (w_db w)"
  by (auto simp: db_lang_def on_db_def GetUserLanguage_def stmt_def Let_def split: sum.splits prod.splits option.splits if_splits)

lemma toggle_on:
  assumes "\<forall>n. F n = None" "has_key u (d_users db)"
  shows "\<exists>r. map_of (d_settings (snd (SetNoWatermark F u True db))) u = Some r \<and> sr_no_watermark r"
    and "v \<noteq> u \<Longrightarrow> map_of (d_settings (snd (SetNoWatermark F u True db))) v = map_of (d_settings db) v"
    and "d_purchases (snd (SetNoWatermark F u True db)) = d_purchases db"
  using assms
  by (auto simp: SetNoWatermark_def and_then_def exec_stmt_def stmt_def Let_def ensure_user_def insert_user_def
      upsert_settings_def update_conv' map_add_def split: option.splits)

lemma purchase_new:
  assumes "\<forall>n. F n = None" "has_key u (d_users db)" "i \<notin> pu_charge ` set (d_purchases db)"
  shows "\<exists>db1. RecordPurchase F u p st c i db = ((True, None), db1)
    \<and> d_purchases db1 = d_purchases db @
        [\<lparr>pu_user = u, pu_product = p, pu_stars = st, pu_currency = c, pu_charge = i\<rparr>]
    \<and> d_settings db1 = d_settings db \<and> d_users db1 = d_users db"
  using assms by (auto simp: RecordPurchase_def stmt_def Let_def image_iff)

lemma purchase_old:
  assumes "\<forall>n. F n = None" "i \<in> pu_charge ` set (d_purchases db)"
  shows "\<exists>db1. RecordPurchase F u p st c i db = ((False, None), db1)
    \<and> d_purchases db1 = d_purchases db \<and> d_settings db1 = d_settings db"
  using assms by (auto simp: RecordPurchase_def stmt_def Let_def image_iff)

text \<open>
  C22. A payment unlocks the footer's removal at once: with a working database, the first delivery of a payment
  of a known user books exactly this purchase and turns the footer off for this user and for nobody else. A payment
  that is delivered again, at any later time, changes no setting and books nothing, also when the user
  has turned the footer on again in between.
\<close>

theorem payment_unlocks:
  assumes "m_from m = Some user" "py_payload p = watermarkProduct" "\<forall>n. k_fault B n = None"
    and "has_key (u_id user) (d_users (w_db w))" "py_charge p \<notin> pu_charge ` set (d_purchases (w_db w))"
  defines "w' \<equiv> onSuccessfulPayment B m (Some p) w"
  shows "d_purchases (w_db w') = d_purchases (w_db w) @
           [\<lparr>pu_user = u_id user, pu_product = watermarkProduct, pu_stars = py_amount p,
             pu_currency = py_currency p, pu_charge = py_charge p\<rparr>]
    \<and> footer_off (w_db w') = insert (u_id user) (footer_off (w_db w))
    \<and> (\<forall>v. py_charge p \<in> pu_charge ` set (d_purchases (w_db v)) \<longrightarrow>
        d_settings (w_db (onSuccessfulPayment B m (Some p) v)) = d_settings (w_db v)
        \<and> d_purchases (w_db (onSuccessfulPayment B m (Some p) v)) = d_purchases (w_db v))"
proof -
  let ?row = "\<lparr>pu_user = u_id user, pu_product = watermarkProduct, pu_stars = py_amount p,
      pu_currency = py_currency p, pu_charge = py_charge p\<rparr>"
  from payment_steps [OF assms(1,2), of B w] obtain b e w1 w2 where s:
    "RecordPurchase (k_fault B) (u_id user) watermarkProduct (py_amount p) (py_currency p) (py_charge p) (w_db w)
       = ((b, e), w_db w1)"
    "w2 = (if b then do_db (SetNoWatermark (k_fault B) (u_id user) True) w1 else w1)"
    "w_db w' = w_db (snd (db_lang B (u_id user) w2))" unfolding w'_def by blast
  have r: "b" "d_purchases (w_db w1) = d_purchases (w_db w) @ [?row]" "d_settings (w_db w1) = d_settings (w_db w)"
    "d_users (w_db w1) = d_users (w_db w)"
    using s(1) purchase_new [OF assms(3-5), of watermarkProduct "py_amount p" "py_currency p"] by auto
  have w2: "w_db w2 = snd (SetNoWatermark (k_fault B) (u_id user) True (w_db w1))"
    using s(2) r(1) by (simp add: do_db_def on_db_def split_beta)
  have known: "has_key (u_id user) (d_users (w_db w1))" using r(4) assms(4) by simp
  note t = toggle_on [OF assms(3) known, folded w2]
  have off: "footer_off (w_db w2) = insert (u_id user) (footer_off (w_db w))"
  proof (rule set_eqI)
    fix v
    show "v \<in> footer_off (w_db w2) \<longleftrightarrow> v \<in> insert (u_id user) (footer_off (w_db w))"
      using t(1) t(2) [of v] r(3) by (cases "v = u_id user") (auto simp: footer_off_def)
  qed
  have rep: "d_settings (w_db (onSuccessfulPayment B m (Some p) v)) = d_settings (w_db v)
      \<and> d_purchases (w_db (onSuccessfulPayment B m (Some p) v)) = d_purchases (w_db v)"
    if old: "py_charge p \<in> pu_charge ` set (d_purchases (w_db v))" for v
  proof -
    from payment_steps [OF assms(1,2), of B v] obtain b e v1 v2 where v:
      "RecordPurchase (k_fault B) (u_id user) watermarkProduct (py_amount p) (py_currency p) (py_charge p) (w_db v)
         = ((b, e), w_db v1)"
      "v2 = (if b then do_db (SetNoWatermark (k_fault B) (u_id user) True) v1 else v1)"
      "w_db (onSuccessfulPayment B m (Some p) v) = w_db (snd (db_lang B (u_id user) v2))" by blast
    have "\<not> b \<and> d_purchases (w_db v1) = d_purchases (w_db v) \<and> d_settings (w_db v1) = d_settings (w_db v)"
      using v(1) purchase_old [OF assms(3) old, of "u_id user" watermarkProduct "py_amount p" "py_currency p"] by auto
    with v(2,3) show ?thesis by (simp add: lang_keeps)
  qed
  show ?thesis using s(3) r(2) t(3) off rep by (simp add: lang_keeps footer_off_def)
qed

lemma payment_unlocks_witness:
  "let B = sample_work_env []; w1 = onLanguageChosen B (press ''lang|en'') sample_wworld;
       w2 = onSuccessfulPayment B (says []) (Some stars) w1 in
   7 \<in> footer_off (w_db w2) \<and> 7 \<in> buyers (w_db w2)
   \<and> d_purchases (w_db (onSuccessfulPayment B (says []) (Some stars) w2)) = d_purchases (w_db w2)"
proof -
  let ?B = "sample_work_env []"
  let ?w1 = "onLanguageChosen ?B (press ''lang|en'') sample_wworld"
  have "split_char CHR ''|'' ''lang|en'' = [''lang'', ''en'']" by code_simp
  then have "w_db ?w1 = snd (CreateUser (\<lambda>_. None) 7 [] ''Ann'' ''en'' bot_id empty_tables)"
    by (simp add: onLanguageChosen_def press_def Let_def do_db_def on_db_def split_beta sample_wworld_def)
  moreover have "has_key 7 (d_users (snd (CreateUser (\<lambda>_. None) 7 [] ''Ann'' ''en'' bot_id empty_tables)))"
    "d_purchases (snd (CreateUser (\<lambda>_. None) 7 [] ''Ann'' ''en'' bot_id empty_tables)) = []"
    by (simp_all add: CreateUser_def and_then_def exec_stmt_def stmt_def Let_def insert_user_def setUserBotLanguage_def
        empty_tables_def has_key_def bot_id_def)
  ultimately have pre: "has_key 7 (d_users (w_db ?w1))" "py_charge stars \<notin> pu_charge ` set (d_purchases (w_db ?w1))"
    by simp_all
  have m: "m_from (says []) = Some \<lparr>u_id = 7, u_name = [], u_first = ''Ann''\<rparr>" "py_payload stars = watermarkProduct"
    by (simp_all add: says_def stars_def)
  from payment_unlocks [OF m, of ?B ?w1] pre
  show ?thesis by (auto simp: Let_def buyers_def stars_def)
qed

end
