(* ===== verification/Handler_Broadcast.thy ===== *)
theory Handler_Broadcast
  imports Handler_Users
begin

text \<open>
  Messages to all users: the operator's dialogue (\<open>handler/broadcast.go\<close>) and the job that sends them
  (\<open>worker/broadcast.go\<close>). Pauses between messages are left out.
\<close>

subsection \<open>The dialogue\<close>

text \<open>\<open>editAdminText\<close> of \<open>handler/admin.go\<close>; its error is only logged.\<close>

definition editAdminText ::
  "('s, 'b) bot_env_scheme \<Rightarrow> int \<times> int \<Rightarrow> msg_text \<Rightarrow> keyboard \<Rightarrow> ('s, 'w) world_scheme \<Rightarrow> ('s, 'w) world_scheme" where
  "editAdminText B pos t kb w = post B (Edit (fst pos) (snd pos) t kb) w"

definition answer_text ::
  "('s, 'b) bot_env_scheme \<Rightarrow> callback \<Rightarrow> msg_text \<Rightarrow> bool \<Rightarrow> ('s, 'w) world_scheme \<Rightarrow> ('s, 'w) world_scheme" where
  "answer_text B q t alert w = post B (Answer (q_id q) (Some t) alert) w"

definition broadcastMenuKeyboard :: "string \<Rightarrow> keyboard" where
  "broadcastMenuKeyboard lang =
     [[button (Loc ''broadcast.btn_create'' lang []) ''broadcast|create''],
      [button (Loc ''broadcast.btn_history'' lang []) ''broadcast|history''],
      [button (Loc ''broadcast.btn_status'' lang []) ''broadcast|status''],
      [button (Loc ''broadcast.btn_back'' lang []) ''admin|menu'']]"

definition back_to_broadcasts :: "string \<Rightarrow> button list" where
  "back_to_broadcasts lang = [button (Loc ''broadcast.btn_back'' lang []) ''broadcast|menu'']"

definition onBroadcast :: "'s work_env \<Rightarrow> message \<Rightarrow> 's wworld \<Rightarrow> 's wworld" where
  "onBroadcast B m w =
     (case m_from m of
        None \<Rightarrow> w
      | Some u \<Rightarrow>
          if \<not> isAdmin B (u_id u) then w
          else
            let w = fsm_clear (u_id u) w; (lang, w) = db_lang B (u_id u) w in
            post B (Send (m_chat m) (Loc ''broadcast.menu_title'' lang []) (broadcastMenuKeyboard lang)) w)"

text \<open>The audiences and states that have a name in the locale files; others are shown as they are.\<close>

definition broadcastAudienceLabel :: "string \<Rightarrow> string" where
  "broadcastAudienceLabel audience =
     (if audience \<in> {''all'', ''ru'', ''kk'', ''en'', ''active''}
      then ''broadcast.audience_label_'' @ audience else audience)"

definition broadcastStatusLabel :: "string \<Rightarrow> string" where
  "broadcastStatusLabel status =
     (let s = to_lower status in
      if s \<in> {''draft'', ''queued'', ''running'', ''completed'', ''failed'', ''cancelled''}
      then ''broadcast.status_'' @ s else status)"

definition audience_button :: "string \<Rightarrow> int \<Rightarrow> string \<Rightarrow> button list" where
  "audience_button lang i a =
     [button (Loc (''broadcast.audience_'' @ a) lang []) (''broadcast|audience|'' @ itoa i @ ''|'' @ a)]"

definition showAudienceSelection :: "'s work_env \<Rightarrow> int \<Rightarrow> int \<Rightarrow> string \<Rightarrow> 's wworld \<Rightarrow> 's wworld" where
  "showAudienceSelection B chat i lang w =
     post B (Send chat (Loc ''broadcast.audience_prompt'' lang [])
       (List.map (audience_button lang i) [''all'', ''ru'', ''en'', ''active'', ''test''] @ [back_to_broadcasts lang])) w"

definition broadcastSaveText ::
  "'s work_env \<Rightarrow> message \<Rightarrow> int \<Rightarrow> string \<Rightarrow> string \<Rightarrow> int \<Rightarrow> 's wworld \<Rightarrow> bool \<times> 's wworld" where
  "broadcastSaveText B m u lang t existingID w =
     (if trim_space t = [] then (True, post B (Send (m_chat m) (Lit ''Text cannot be empty.'') []) w)
      else
        let w = fsm_clear u w;
            (r, w) =
              (if existingID > 0 then
                 (case on_db (UpdateBroadcastText (k_fault B) existingID t) w of
                    (Some e, w) \<Rightarrow> (Inl e, w) | (None, w) \<Rightarrow> (Inr existingID, w))
               else on_db (CreateBroadcast (k_fault B) u t) w) in
        case r of
          Inl e \<Rightarrow> (True, w)
        | Inr i \<Rightarrow> (True, showAudienceSelection B (m_chat m) i lang w))"

definition showBroadcastPreview ::
  "'s work_env \<Rightarrow> callback \<Rightarrow> int \<times> int \<Rightarrow> int \<Rightarrow> string \<Rightarrow> string \<Rightarrow> 's wworld \<Rightarrow> 's wworld" where
  "showBroadcastPreview B q pos i audience lang w =
     (case on_db (GetBroadcast (k_fault B) i) w of
        (Inl e, w) \<Rightarrow> answer_text B q (Lit ''Broadcast not found.'') False w
      | (Inr bc, w) \<Rightarrow>
          let (r, w) = on_db (CountBroadcastRecipients (k_fault B) audience) w;
              n = (case r of Inl _ \<Rightarrow> 0 | Inr n \<Rightarrow> n);
              preview = Cat [Loc ''broadcast.preview_title'' lang [(''text'', bc_text bc)], Lit (nl @ nl),
                Loc ''broadcast.preview_audience'' lang [(''audience'', broadcastAudienceLabel audience)], Lit nl,
                Loc ''broadcast.preview_recipients'' lang [(''count'', itoa n)], Lit (nl @ nl),
                Loc ''broadcast.preview_confirm'' lang []];
              kb = [[button (Loc ''broadcast.btn_send'' lang []) (''broadcast|send|'' @ itoa i @ ''|'' @ audience)],
                    [button (Loc ''broadcast.btn_edit_text'' lang []) (''broadcast|edit_text|'' @ itoa i)],
                    [button (Loc ''broadcast.btn_test'' lang []) (''broadcast|audience|'' @ itoa i @ ''|test'')],
                    [button (Loc ''broadcast.btn_cancel'' lang []) (''broadcast|cancel|'' @ itoa i)]] in
          ack B q (editAdminText B pos preview kb w))"

definition queueBroadcast ::
  "'s work_env \<Rightarrow> callback \<Rightarrow> int \<times> int \<Rightarrow> int \<Rightarrow> string \<Rightarrow> string \<Rightarrow> 's wworld \<Rightarrow> 's wworld" where
  "queueBroadcast B q pos i audience lang w =
     (case on_db (BroadcastRecipientIDs (k_fault B) audience) w of
        (Inl e, w) \<Rightarrow> answer_text B q (Lit ''Failed to load recipients.'') False w
      | (Inr ids, w) \<Rightarrow>
          let n = int (length ids);
              w = do_db (UpdateBroadcastStatus (k_fault B) i ''QUEUED'' n) w;
              w = (case emit B (Job (EnqueueBroadcast id
                          \<lparr>bp_id = i, bp_audience = audience, bp_users = ids\<rparr>)) w of
                     (Inl e, w) \<Rightarrow> do_db (FailBroadcast (k_fault B) i) w
                   | (Inr _, w) \<Rightarrow> w);
              t = Loc ''broadcast.starting'' lang
                    [(''audience'', broadcastAudienceLabel audience), (''recipients'', itoa n)] in
          ack B q (editAdminText B pos t (broadcastMenuKeyboard lang) w))"

definition history_line :: "(nat \<Rightarrow> string) \<Rightarrow> string \<Rightarrow> broadcast \<Rightarrow> msg_text" where
  "history_line fmt_time lang bc =
     Loc ''broadcast.history_line'' lang
       [(''id'', itoa (bc_id bc)), (''status'', broadcastStatusLabel (bc_status bc)),
        (''audience'', broadcastAudienceLabel (to_lower (bc_audience bc))), (''sent'', itoa (bc_sent bc)),
        (''total'', itoa (bc_total bc)), (''created'', fmt_time (bc_created bc))]"

text \<open>\<open>fmt_time\<close> prints a time of the database.\<close>

definition showBroadcastHistory ::
  "'s work_env \<Rightarrow> (nat \<Rightarrow> string) \<Rightarrow> int \<times> int \<Rightarrow> string \<Rightarrow> 's wworld \<Rightarrow> 's wworld" where
  "showBroadcastHistory B fmt_time pos lang w =
     (case on_db (ListBroadcasts (k_fault B) 20) w of
        (Inr (bc # bcs), w) \<Rightarrow>
          editAdminText B pos
            (Cat (join_lines (Loc ''broadcast.history_title'' lang [] # List.map (history_line fmt_time lang) (bc # bcs))))
            [back_to_broadcasts lang] w
      | (_, w) \<Rightarrow>
          editAdminText B pos (Loc ''broadcast.history_empty'' lang []) [back_to_broadcasts lang] w)"

definition showBroadcastStatus :: "'s work_env \<Rightarrow> int \<times> int \<Rightarrow> string \<Rightarrow> 's wworld \<Rightarrow> 's wworld" where
  "showBroadcastStatus B pos lang w =
     (case on_db (GetActiveBroadcast (k_fault B)) w of
        (Inr (Some a), w) \<Rightarrow>
          editAdminText B pos
            (Loc ''broadcast.active_title'' lang
              [(''id'', itoa (bc_id a)), (''status'', broadcastStatusLabel (bc_status a)),
               (''audience'', broadcastAudienceLabel (to_lower (bc_audience a))), (''sent'', itoa (bc_sent a)),
               (''total'', itoa (bc_total a)), (''failed'', itoa (bc_failed a)), (''blocked'', itoa (bc_blocked a))])
            [back_to_broadcasts lang] w
      | (_, w) \<Rightarrow> editAdminText B pos (Loc ''broadcast.no_active'' lang []) [back_to_broadcasts lang] w)"

text \<open>The copy the operator sends to himself.\<close>

definition send_test :: "'s work_env \<Rightarrow> callback \<Rightarrow> int \<Rightarrow> string \<Rightarrow> 's wworld \<Rightarrow> 's wworld" where
  "send_test B q i lang w =
     (case on_db (GetBroadcast (k_fault B) i) w of
        (Inl e, w) \<Rightarrow> answer_text B q (Lit ''Broadcast not found.'') False w
      | (Inr bc, w) \<Rightarrow>
          (case emit B (Send (u_id (q_from q)) (Lit (bc_text bc)) []) w of
             (Inl e, w) \<Rightarrow> answer_text B q (Lit ''Failed to send test message.'') False w
           | (Inr _, w) \<Rightarrow> answer_text B q (Loc ''broadcast.test_sent'' lang []) False w))"

definition onBroadcastCallback ::
  "'s work_env \<Rightarrow> (nat \<Rightarrow> string) \<Rightarrow> callback \<Rightarrow> 's wworld \<Rightarrow> 's wworld" where
  "onBroadcastCallback B fmt_time q w =
     (let u = u_id (q_from q) in
      if u = 0 \<or> \<not> isAdmin B u then ack B q w
      else case q_msg q of
        None \<Rightarrow> ack B q w
      | Some pos \<Rightarrow>
          let (lang, w) = db_lang B u w in
          (case split_char CHR ''|'' (q_data q) of
             tag # what # args \<Rightarrow>
               if tag \<noteq> ''broadcast'' then ack B q w
               else if what = ''menu'' then
                 ack B q (editAdminText B pos (Loc ''broadcast.menu_title'' lang []) (broadcastMenuKeyboard lang)
                   (fsm_clear u w))
               else if what = ''create'' then
                 ack B q (editAdminText B pos (Loc ''broadcast.enter_text'' lang []) [back_to_broadcasts lang]
                   (fsm_set u ''broadcast_text'' [] w))
               else if what = ''history'' then ack B q (showBroadcastHistory B fmt_time pos lang w)
               else if what = ''status'' then ack B q (showBroadcastStatus B pos lang w)
               else if what = ''audience'' \<and> length args \<ge> 2 then
                 (if args ! 1 = ''test'' then send_test B q (atoi_value (args ! 0)) lang w
                  else showBroadcastPreview B q pos (atoi_value (args ! 0)) (args ! 1) lang w)
               else if what = ''send'' \<and> length args \<ge> 2 then
                 queueBroadcast B q pos (atoi_value (args ! 0)) (args ! 1) lang w
               else if what = ''edit_text'' \<and> length args \<ge> 1 then
                 ack B q (editAdminText B pos (Loc ''broadcast.enter_text'' lang []) [back_to_broadcasts lang]
                   (fsm_set u ''broadcast_edit'' [(''broadcast_id'', args ! 0)] w))
               else if what = ''cancel'' \<and> length args \<ge> 1 then
                 ack B q (editAdminText B pos (Loc ''broadcast.cancelled'' lang []) (broadcastMenuKeyboard lang)
                   (fsm_clear u (do_db (UpdateBroadcastStatus (k_fault B) (atoi_value (args ! 0)) ''CANCELLED'' 0) w)))
               else ack B q w
           | _ \<Rightarrow> ack B q w))"

subsection \<open>The job\<close>

definition get_ints :: "jobject \<Rightarrow> string \<Rightarrow> int list option" where
  "get_ints ob k =
     (case jget ob k of
        JNull \<Rightarrow> Some [] | JInts ns \<Rightarrow> if list_all in_int64 ns then Some ns else None | _ \<Rightarrow> None)"

definition unmarshal_broadcast :: "body \<Rightarrow> broadcast_payload option" where
  "unmarshal_broadcast b = Option.bind b (\<lambda>ob.
     Option.bind (get_int ob ''broadcast_id'') (\<lambda>i.
     Option.bind (get_str ob ''audience'') (\<lambda>a.
     Option.bind (get_ints ob ''user_ids'') (\<lambda>us.
       Some \<lparr>bp_id = i, bp_audience = a, bp_users = us\<rparr>))))"

text \<open>
  What \<open>errors.As\<close> finds in an error: nothing, or the code and the pause of an error of the service. The finder is
  an argument.
\<close>

type_synonym api_error = "go_error \<Rightarrow> (int \<times> int) option"

definition isBlockedError :: "api_error \<Rightarrow> go_error \<Rightarrow> bool" where
  "isBlockedError api e =
     (case api e of Some (code, _) \<Rightarrow> code = 403 | None \<Rightarrow> contains (to_lower e) ''forbidden'')"

definition extractRetryAfter :: "api_error \<Rightarrow> go_error \<Rightarrow> int" where
  "extractRetryAfter api e = (case api e of Some (_, s) \<Rightarrow> if s > 0 then s else 0 | None \<Rightarrow> 0)"

definition truncateErr :: "go_error \<Rightarrow> string" where
  "truncateErr e = (if length e > 500 then take 500 e else e)"

definition sendBroadcastMessage :: "'s work_env \<Rightarrow> int \<Rightarrow> string \<Rightarrow> 's wworld \<Rightarrow> int result \<times> 's wworld" where
  "sendBroadcastMessage B u t w = emit B (Send u (Lit t) []) w"

record tally =
  n_sent :: int
  n_failed :: int
  n_blocked :: int

text \<open>One recipient: the status that is stored with its error text.\<close>

definition deliver ::
  "'s work_env \<Rightarrow> api_error \<Rightarrow> string \<Rightarrow> int \<Rightarrow> 's wworld \<Rightarrow> (string \<times> string) \<times> 's wworld" where
  "deliver B api t u w =
     (case sendBroadcastMessage B u t w of
        (Inr _, w) \<Rightarrow> ((''SENT'', []), w)
      | (Inl e, w) \<Rightarrow>
          if isBlockedError api e then ((''BLOCKED'', []), w)
          else if extractRetryAfter api e > 0 then
            (case sendBroadcastMessage B u t w of
               (Inr _, w) \<Rightarrow> ((''SENT'', []), w)
             | (Inl e2, w) \<Rightarrow> ((''FAILED'', truncateErr e2), w))
          else ((''FAILED'', truncateErr e), w))"

definition count_delivery :: "string \<Rightarrow> tally \<Rightarrow> tally" where
  "count_delivery st c =
     (if st = ''SENT'' then c\<lparr>n_sent := n_sent c + 1\<rparr>
      else if st = ''BLOCKED'' then c\<lparr>n_blocked := n_blocked c + 1\<rparr>
      else c\<lparr>n_failed := n_failed c + 1\<rparr>)"

fun broadcast_loop ::
  "'s work_env \<Rightarrow> api_error \<Rightarrow> int \<Rightarrow> string \<Rightarrow> int \<Rightarrow> int \<Rightarrow> int list \<Rightarrow> tally \<Rightarrow> 's wworld \<Rightarrow> tally \<times> 's wworld" where
  "broadcast_loop B api i t batchSize idx [] c w = (c, w)"
| "broadcast_loop B api i t batchSize idx (u # us) c w =
     (case deliver B api t u w of
        ((st, err), w) \<Rightarrow>
          let w = do_db (SaveBroadcastDelivery (k_fault B) i u st err) w;
              c = count_delivery st c;
              w = (if batchSize > 0 \<and> (idx + 1) mod batchSize = 0
                   then do_db (UpdateBroadcastProgress (k_fault B) i (n_sent c) (n_failed c) (n_blocked c)) w
                   else w) in
          broadcast_loop B api i t batchSize (idx + 1) us c w)"

definition run_broadcast :: "'s work_env \<Rightarrow> api_error \<Rightarrow> broadcast_payload \<Rightarrow> 's job_step" where
  "run_broadcast B api p w =
     (case on_db (GetBroadcast (k_fault B) (bp_id p)) w of
        (Inl e, w) \<Rightarrow> (Some e, w)
      | (Inr bc, w) \<Rightarrow>
          let w = do_db (UpdateBroadcastStatus (k_fault B) (bp_id p) ''RUNNING'' (int (length (bp_users p)))) w;
              (delay, w) = rt_int B ''global.broadcast_delay_ms'' (c_BroadcastDelayMS (b_cfg B)) w;
              (batchSize, w) = rt_int B ''global.broadcast_batch_size'' (c_BroadcastBatchSize (b_cfg B)) w;
              (c, w) = broadcast_loop B api (bp_id p) (bc_text bc) batchSize 0 (bp_users p)
                         \<lparr>n_sent = 0, n_failed = 0, n_blocked = 0\<rparr> w in
          (None, do_db (CompleteBroadcast (k_fault B) (bp_id p) (n_sent c) (n_failed c) (n_blocked c)) w))"

definition handleBroadcast :: "'s work_env \<Rightarrow> api_error \<Rightarrow> body \<Rightarrow> 's job_step" where
  "handleBroadcast B api payload w =
     (case unmarshal_broadcast payload of
        None \<Rightarrow> (Some ''invalid character in task payload'', w)
      | Some p \<Rightarrow> run_broadcast B api p w)"

end
