(* ===== verification/Handler_Admin.thy ===== *)
theory Handler_Admin
  imports Handler_Broadcast "HOL-Library.Signed_Division"
begin

text \<open>
  The operator's panel (\<open>handler/admin.go\<close>, \<open>handler/stats_format.go\<close>, \<open>handleAdminFSM\<close> of \<open>handler/ban.go\<close>
  and the labels of \<open>runtime/registry.go\<close>): menus, the values of runtime settings, bans and numbers of users.
  Labels are the English ones.
\<close>

subsection \<open>Labels and menus\<close>

definition ServiceLabel :: "string \<Rightarrow> string" where
  "ServiceLabel service =
     (case map_of [(''youtube'', ''YouTube''), (''tiktok'', ''TikTok''), (''x'', ''X / Twitter''),
         (''spotify'', ''Spotify''), (''yandexmusic'', ''Yandex Music''), (''soundcloud'', ''SoundCloud''),
         (''pinterest'', ''Pinterest''), (''instagram'', ''Instagram''), (''global'', ''Global'')] service of
        Some l \<Rightarrow> l
      | None \<Rightarrow> service)"

definition KindLabel :: "setting \<Rightarrow> string" where "KindLabel def = LabelEN def"

definition service_button :: "string \<Rightarrow> button" where
  "service_button s = button (Lit (ServiceLabel s)) (''admin|svc|'' @ s)"

text \<open>Two services in a row.\<close>

fun pairs :: "'a list \<Rightarrow> 'a list list" where
  "pairs (a # b # xs) = [a, b] # pairs xs"
| "pairs [a] = [[a]]"
| "pairs [] = []"

definition adminMainKeyboard :: "string \<Rightarrow> keyboard" where
  "adminMainKeyboard lang =
     pairs (List.map service_button ServiceOrder) @
     [[button (Loc ''admin.btn_global'' lang []) ''admin|svc|global''],
      [button (Loc ''admin.btn_broadcasts'' lang []) ''admin|broadcasts'',
       button (Loc ''admin.btn_users'' lang []) ''admin|stats''],
      [button (Loc ''admin.btn_bans'' lang []) ''admin|bans'',
       button (Loc ''admin.btn_reset_all'' lang []) ''admin|confirm|reset_all'']]"

definition back_to :: "string \<Rightarrow> string \<Rightarrow> button list" where
  "back_to lang d = [button (Loc ''admin.btn_back'' lang []) d]"

definition arrow :: string where
  "arrow = [CHR 0x20, CHR 0xE2, CHR 0x86, CHR 0x92, CHR 0x20]"

definition setting_buttons :: "string \<Rightarrow> setting \<Rightarrow> keyboard" where
  "setting_buttons lang def =
     (let change = Loc ''admin.btn_change'' lang [(''label'', KindLabel def)] in
      case ValueType def of
        TypeBool \<Rightarrow> [[button change (''admin|edit_bool|'' @ RedisKey def)]]
      | TypeEnum \<Rightarrow> List.map (\<lambda>v. [button (Lit (KindLabel def @ arrow @ v))
            (''admin|set_enum|'' @ RedisKey def @ ''|'' @ v)]) (Allowed def)
      | _ \<Rightarrow> [[button change (''admin|edit|'' @ RedisKey def)]])"

definition serviceKeyboard :: "string \<Rightarrow> string \<Rightarrow> keyboard" where
  "serviceKeyboard service lang =
     concat (List.map (setting_buttons lang) (ServiceSettings service)) @
     [[button (Loc ''admin.btn_reset_service'' lang []) (''admin|confirm|reset_svc|'' @ service)],
      back_to lang ''admin|menu'']"

definition statsKeyboard :: "string \<Rightarrow> keyboard" where
  "statsKeyboard lang =
     [[button (Loc ''admin.btn_stats_refresh'' lang []) ''admin|stats|refresh'',
       button (Loc ''admin.btn_back'' lang []) ''admin|menu'']]"

definition backToBansKeyboard :: "string \<Rightarrow> keyboard" where
  "backToBansKeyboard lang = [back_to lang ''admin|bans'']"

definition bansKeyboard :: "string \<Rightarrow> int list \<Rightarrow> keyboard" where
  "bansKeyboard lang ids =
     List.map (\<lambda>i. [button (Loc ''admin.btn_unban_user'' lang [(''user_id'', itoa i)]) (''admin|unban|'' @ itoa i)]) ids @
     [[button (Loc ''admin.btn_ban_add'' lang []) ''admin|ban|add''], back_to lang ''admin|menu'']"

subsection \<open>The values of a service\<close>

definition rt_value :: "'s work_env \<Rightarrow> setting \<Rightarrow> 's wworld \<Rightarrow> val \<times> 's wworld" where
  "rt_value B def = on_st (CurrentValue (b_redis B) (Some (b_cfg B)) def)"

fun setting_lines :: "'s work_env \<Rightarrow> string \<Rightarrow> setting list \<Rightarrow> 's wworld \<Rightarrow> msg_text list \<times> 's wworld" where
  "setting_lines B lang [] w = ([], w)"
| "setting_lines B lang (def # defs) w =
     (let (v, w) = rt_value B def w; (ls, w) = setting_lines B lang defs w in
      (Loc ''admin.setting_line'' lang [(''label'', KindLabel def), (''value'', FormatValue v def)] # ls, w))"

definition serviceSummary :: "'s work_env \<Rightarrow> string \<Rightarrow> string \<Rightarrow> 's wworld \<Rightarrow> msg_text \<times> 's wworld" where
  "serviceSummary B service lang w =
     (let title = Loc ''admin.service_title'' lang [(''service'', ServiceLabel service)];
          defs = ServiceSettings service;
          (ls, w) = (if defs = [] then ([Loc ''admin.no_settings'' lang []], w) else setting_lines B lang defs w) in
      (Cat (join_lines (title # ls @ [Loc ''admin.hot_swap_hint'' lang []])), w))"

definition show_service :: "'s work_env \<Rightarrow> int \<times> int \<Rightarrow> string \<Rightarrow> string \<Rightarrow> 's wworld \<Rightarrow> 's wworld" where
  "show_service B pos service lang w =
     (let (t, w) = serviceSummary B service lang w in editAdminText B pos t (serviceKeyboard service lang) w)"

definition rt_set :: "'s work_env \<Rightarrow> string \<Rightarrow> val \<Rightarrow> 's wworld \<Rightarrow> 's wworld" where
  "rt_set B k v = do_st (SetValue (b_redis B) k v)"

fun rt_reset :: "'s work_env \<Rightarrow> setting list \<Rightarrow> 's wworld \<Rightarrow> 's wworld" where
  "rt_reset B [] w = w"
| "rt_reset B (def # defs) w = rt_reset B defs (do_st (Reset (b_redis B) (RedisKey def)) w)"

definition edit_hint :: "setting \<Rightarrow> string" where
  "edit_hint def =
     (if ValueType def = TypeInt \<and> (MinValue def > 0 \<or> MaxValue def > 0)
      then nl @ ''(min='' @ itoa (MinValue def) @ '', max='' @ itoa (MaxValue def) @ '')'' else []) @
     (if ValueType def = TypeList \<and> Allowed def \<noteq> []
      then nl @ ''(allowed: '' @ join_str '', '' (Allowed def) @ '')'' else [])"

definition adminStartEdit ::
  "'s work_env \<Rightarrow> callback \<Rightarrow> int \<times> int \<Rightarrow> string \<Rightarrow> string \<Rightarrow> 's wworld \<Rightarrow> 's wworld" where
  "adminStartEdit B q pos k lang w =
     (case Lookup k of
        None \<Rightarrow> ack B q w
      | Some def \<Rightarrow>
          let w = fsm_set (u_id (q_from q)) ''admin_edit'' [(''redis_key'', k), (''service'', Service def)] w;
              (v, w) = rt_value B def w;
              t = Cat [Loc ''admin.enter_value'' lang
                    [(''service'', ServiceLabel (Service def)), (''label'', KindLabel def),
                     (''current'', FormatValue v def)], Lit (edit_hint def)] in
          ack B q (editAdminText B pos t [back_to lang (''admin|svc|'' @ Service def)] w))"

definition adminSaveEdit ::
  "'s work_env \<Rightarrow> message \<Rightarrow> int \<Rightarrow> string \<Rightarrow> string \<Rightarrow> string \<Rightarrow> 's wworld \<Rightarrow> bool \<times> 's wworld" where
  "adminSaveEdit B m u lang k raw w =
     (case Lookup k of
        None \<Rightarrow> (True, fsm_clear u w)
      | Some def \<Rightarrow>
          (case Validate def raw of
             Some e \<Rightarrow> (True, post B (Send (m_chat m) (Loc ''admin.invalid_value'' lang [(''error'', e)]) []) w)
           | None \<Rightarrow>
               let v = Parse def raw;
                   w = fsm_clear u (rt_set B k v w);
                   w = post B (Send (m_chat m) (Loc ''admin.saved'' lang
                         [(''label'', KindLabel def), (''value'', FormatValue v def)]) []) w;
                   (t, w) = serviceSummary B (Service def) lang w in
               (True, post B (Send (m_chat m) t (serviceKeyboard (Service def) lang)) w)))"

definition adminSetEnum ::
  "'s work_env \<Rightarrow> callback \<Rightarrow> int \<times> int \<Rightarrow> string \<Rightarrow> string \<Rightarrow> string \<Rightarrow> 's wworld \<Rightarrow> 's wworld" where
  "adminSetEnum B q pos k v lang w =
     (case Lookup k of
        None \<Rightarrow> ack B q w
      | Some def \<Rightarrow>
          if ValueType def \<noteq> TypeEnum then ack B q w
          else (case Validate def v of
            Some e \<Rightarrow> answer_text B q (Loc ''admin.invalid_value'' lang [(''error'', e)]) True w
          | None \<Rightarrow>
              answer_text B q (Loc ''admin.saved'' lang [(''label'', KindLabel def), (''value'', v)]) False
                (show_service B pos (Service def) lang (rt_set B k (VStr v) w))))"

definition adminToggleBool ::
  "'s work_env \<Rightarrow> callback \<Rightarrow> int \<times> int \<Rightarrow> string \<Rightarrow> string \<Rightarrow> 's wworld \<Rightarrow> 's wworld" where
  "adminToggleBool B q pos k lang w =
     (case Lookup k of
        None \<Rightarrow> ack B q w
      | Some def \<Rightarrow>
          let (v, w) = rt_value B def w in
          answer_text B q (Loc ''admin.reset_done_toast'' lang []) False
            (show_service B pos (Service def) lang (rt_set B k (VBool (\<not> is_true v)) w)))"

definition yes_no :: "string \<Rightarrow> string \<Rightarrow> string \<Rightarrow> keyboard" where
  "yes_no lang y n = [[button (Loc ''admin.confirm_yes'' lang []) y, button (Loc ''admin.confirm_no'' lang []) n]]"

definition adminConfirm ::
  "'s work_env \<Rightarrow> callback \<Rightarrow> int \<times> int \<Rightarrow> string list \<Rightarrow> string \<Rightarrow> 's wworld \<Rightarrow> 's wworld" where
  "adminConfirm B q pos args lang w =
     ack B q (case args of
        [] \<Rightarrow> w
      | what # rest \<Rightarrow>
          if what = ''reset_all'' then
            editAdminText B pos (Loc ''admin.confirm_reset_all'' lang [])
              (yes_no lang ''admin|confirm|reset_all_yes'' ''admin|menu'') w
          else if what = ''reset_all_yes'' then
            editAdminText B pos (Loc ''admin.reset_all_done'' lang []) (adminMainKeyboard lang)
              (fsm_clear (u_id (q_from q)) (do_st (ResetAll (b_redis B)) w))
          else if rest = [] then w
          else if what = ''reset_svc'' then
            editAdminText B pos (Loc ''admin.confirm_reset_service'' lang [(''service'', ServiceLabel (hd rest))])
              (yes_no lang (''admin|confirm|reset_svc_yes|'' @ hd rest) (''admin|svc|'' @ hd rest)) w
          else if what = ''reset_svc_yes'' then
            show_service B pos (hd rest) lang (rt_reset B (ServiceSettings (hd rest)) w)
          else w)"

definition adminReset ::
  "'s work_env \<Rightarrow> callback \<Rightarrow> int \<times> int \<Rightarrow> string list \<Rightarrow> string \<Rightarrow> 's wworld \<Rightarrow> 's wworld" where
  "adminReset B q pos args lang w =
     ack B q (case args of
        [] \<Rightarrow> w
      | what # rest \<Rightarrow>
          if what = ''all'' then
            editAdminText B pos (Loc ''admin.reset_all_done'' lang []) (adminMainKeyboard lang)
              (do_st (ResetAll (b_redis B)) w)
          else if what = ''svc'' \<and> rest \<noteq> [] then
            show_service B pos (hd rest) lang (rt_reset B (ServiceSettings (hd rest)) w)
          else w)"

subsection \<open>Bans\<close>

definition ban_line :: "string \<Rightarrow> int \<Rightarrow> msg_text" where
  "ban_line lang i = Loc ''admin.ban_user_line'' lang [(''user_id'', itoa i)]"

definition showBans :: "'s work_env \<Rightarrow> int \<times> int \<Rightarrow> string \<Rightarrow> 's wworld \<Rightarrow> 's wworld" where
  "showBans B pos lang w =
     (let (r, w) = on_st (ListBannedUsers (b_redis B)) w;
          ids = (case r of Inl _ \<Rightarrow> [] | Inr ids \<Rightarrow> ids);
          ls = (if ids = [] then [Loc ''admin.bans_empty'' lang []] else List.map (ban_line lang) ids) in
      editAdminText B pos (Cat (join_lines (Loc ''admin.bans_title'' lang [] # ls @ [Loc ''admin.bans_hint'' lang []])))
        (bansKeyboard lang ids) w)"

definition adminSaveBan :: "'s work_env \<Rightarrow> message \<Rightarrow> int \<Rightarrow> string \<Rightarrow> string \<Rightarrow> 's wworld \<Rightarrow> bool \<times> 's wworld" where
  "adminSaveBan B m u lang raw w =
     (let say = (\<lambda>t w. post B (Send (m_chat m) t []) w) in
      case atoi (trim_space raw) of
        None \<Rightarrow> (True, say (Loc ''admin.invalid_user_id'' lang []) w)
      | Some uid \<Rightarrow>
          if uid \<le> 0 then (True, say (Loc ''admin.invalid_user_id'' lang []) w)
          else if uid = u then (True, say (Loc ''admin.cannot_ban_self'' lang []) w)
          else
            let w = fsm_clear u (do_st (BanUser (b_redis B) uid) w) in
            (True, say (Loc ''admin.ban_added'' lang [(''user_id'', itoa uid)]) w))"

definition press_unban :: "'s work_env \<Rightarrow> callback \<Rightarrow> int \<times> int \<Rightarrow> string \<Rightarrow> string \<Rightarrow> 's wworld \<Rightarrow> 's wworld" where
  "press_unban B q pos arg lang w =
     (let (removed, w) = on_st (\<lambda>s. case UnbanUser (b_redis B) (atoi_value arg) s of (b, _, s) \<Rightarrow> (b, s)) w;
          k = (if removed then ''admin.unban_done'' else ''admin.unban_not_found'') in
      answer_text B q (Loc k lang [(''user_id'', arg)]) False (showBans B pos lang w))"

subsection \<open>Numbers of users\<close>

definition dash :: string where "dash = [CHR 0xE2, CHR 0x80, CHR 0x94]"

definition formatPct :: "int \<Rightarrow> int \<Rightarrow> string" where
  "formatPct part whole = (if whole \<le> 0 then dash else itoa ((100 * part) sdiv whole) @ ''%'')"

definition formatStickiness :: "int \<Rightarrow> int \<Rightarrow> string" where
  "formatStickiness dau mau = (if mau \<le> 0 then dash else itoa ((100 * dau) sdiv mau) @ ''%'')"

definition formatSuccessRate :: "int \<Rightarrow> int \<Rightarrow> string" where
  "formatSuccessRate completed failed =
     (let whole = completed + failed in
      if whole \<le> 0 then dash
      else itoa ((100 * completed) sdiv whole) @ ''% ('' @ itoa completed @ ''/'' @ itoa whole @ '')'')"

text \<open>The verb \<open>%+d\<close>.\<close>

definition signed :: "int \<Rightarrow> string" where
  "signed n = (if n < 0 then itoa n else ''+'' @ itoa n)"

definition formatGrowthDelta :: "int \<Rightarrow> int \<Rightarrow> string \<Rightarrow> msg_text" where
  "formatGrowthDelta today yesterday lang =
     (let diff = today - yesterday in
      if diff = 0 then Cat [Lit '' '', Loc ''admin.stats_growth_same'' lang []]
      else
        Loc ''admin.stats_growth_delta'' lang
          [(''diff'', signed diff),
           (''pct'', if yesterday > 0 then signed ((100 * diff) sdiv yesterday) @ ''%'' else ''new'')])"

definition middot :: string where "middot = [CHR 0x20, CHR 0xC2, CHR 0xB7, CHR 0x20]"

definition formatStatsDownloads :: "int \<Rightarrow> int \<Rightarrow> int \<Rightarrow> string" where
  "formatStatsDownloads today d7 d30 = itoa today @ middot @ ''7d: '' @ itoa d7 @ middot @ ''30d: '' @ itoa d30"

definition formatStatsDownloadsRU :: "int \<Rightarrow> int \<Rightarrow> int \<Rightarrow> string" where
  "formatStatsDownloadsRU today d7 d30 =
     (let d = [CHR 0xD0, CHR 0xB4] in
      itoa today @ middot @ ''7'' @ d @ '': '' @ itoa d7 @ middot @ ''30'' @ d @ '': '' @ itoa d30)"

record user_stats =
  TotalUsers :: int
  NewToday :: int
  NewYesterday :: int
  New7d :: int
  New30d :: int
  DAU :: int
  WAU :: int
  MAU :: int
  UsersWithDownloads :: int
  ReturningUsers :: int
  DownloadsToday :: int
  Downloads7d :: int
  Downloads30d :: int
  Completed30d :: int
  Failed30d :: int
  LanguageEN :: int
  LanguageRU :: int
  LanguageKK :: int
  TopPlatforms7d :: "(string \<times> int) list"
  BannedCount' :: int

text \<open>The query of the statistics (from the number of banned users) and the printed time, as arguments.\<close>

record stats_source =
  ss_fetch :: "int \<Rightarrow> user_stats result"
  ss_updated :: string

text \<open>The text, as its parts: the arguments of the body that are texts of their own stand after it.\<close>

definition stats_args :: "user_stats \<Rightarrow> int \<Rightarrow> string \<Rightarrow> string \<Rightarrow> (string \<times> string) list" where
  "stats_args st active updated lang =
     [(''updated'', updated), (''total'', itoa (TotalUsers st)), (''new_today'', itoa (NewToday st)),
      (''new_7d'', itoa (New7d st)), (''new_30d'', itoa (New30d st)), (''active_now'', itoa active),
      (''dau'', itoa (DAU st)), (''wau'', itoa (WAU st)), (''mau'', itoa (MAU st)),
      (''stickiness'', formatStickiness (DAU st) (MAU st)),
      (''downloads_line'', (if lang = ''ru'' then formatStatsDownloadsRU else formatStatsDownloads)
         (DownloadsToday st) (Downloads7d st) (Downloads30d st)),
      (''success_rate'', formatSuccessRate (Completed30d st) (Failed30d st)),
      (''with_downloads'', itoa (UsersWithDownloads st)),
      (''with_downloads_pct'', formatPct (UsersWithDownloads st) (TotalUsers st)),
      (''returning'', itoa (ReturningUsers st)), (''banned'', itoa (BannedCount' st))]"

definition platform_lines :: "user_stats \<Rightarrow> string \<Rightarrow> msg_text list" where
  "platform_lines st lang =
     (if TopPlatforms7d st = [] then [Loc ''admin.stats_platforms_empty'' lang []]
      else join_lines (List.map (\<lambda>(p, n). Loc ''admin.stats_platform_line'' lang
             [(''platform'', ServiceLabel (FromDBPlatform p)), (''count'', itoa n)]) (TopPlatforms7d st)))"

definition lang_line :: "user_stats \<Rightarrow> string \<Rightarrow> msg_text" where
  "lang_line st lang = Loc ''admin.stats_lang_line'' lang
     [(''en'', itoa (LanguageEN st)), (''en_pct'', formatPct (LanguageEN st) (TotalUsers st)),
      (''ru'', itoa (LanguageRU st)), (''ru_pct'', formatPct (LanguageRU st) (TotalUsers st)),
      (''kk'', itoa (LanguageKK st)), (''kk_pct'', formatPct (LanguageKK st) (TotalUsers st))]"

definition returning_pct :: "user_stats \<Rightarrow> string \<Rightarrow> msg_text" where
  "returning_pct st lang =
     (let p = formatPct (ReturningUsers st) (UsersWithDownloads st) in
      if UsersWithDownloads st > 0 then Loc ''admin.stats_returning_pct_suffix'' lang [(''pct'', p)] else Lit p)"

definition renderStats :: "'s work_env \<Rightarrow> stats_source \<Rightarrow> string \<Rightarrow> 's wworld \<Rightarrow> msg_text \<times> 's wworld" where
  "renderStats B ss lang w =
     (let (n, w) = on_st (\<lambda>s. case BannedCount (b_redis B) s of (n, _, s) \<Rightarrow> (n, s)) w in
      case ss_fetch ss n of
        Inl e \<Rightarrow> (Loc ''errors.generic'' lang [], w)
      | Inr st \<Rightarrow>
          let (r, w) = on_st (CountActiveUsers (b_redis B) (b_now B (w_st w)) (30 * 60 * 1000000)) w;
              active = (case r of Inl _ \<Rightarrow> 0 | Inr n \<Rightarrow> n) in
          (Cat ([Loc ''admin.stats_title'' lang [], Lit (nl @ nl),
              Loc ''admin.stats_body'' lang (stats_args st active (ss_updated ss) lang),
              formatGrowthDelta (NewToday st) (NewYesterday st) lang, returning_pct st lang, lang_line st lang] @
              platform_lines st lang @ [Loc ''admin.stats_download_note'' lang []]), w))"

subsection \<open>Commands, presses and typed input\<close>

definition onAdmin :: "'s work_env \<Rightarrow> message \<Rightarrow> 's wworld \<Rightarrow> 's wworld" where
  "onAdmin B m w =
     (case m_from m of
        None \<Rightarrow> w
      | Some u \<Rightarrow>
          if \<not> isAdmin B (u_id u) then w
          else
            let (lang, w) = db_lang B (u_id u) (fsm_clear (u_id u) w) in
            post B (Send (m_chat m) (Loc ''admin.menu_title'' lang []) (adminMainKeyboard lang)) w)"

definition onStats :: "'s work_env \<Rightarrow> stats_source \<Rightarrow> message \<Rightarrow> 's wworld \<Rightarrow> 's wworld" where
  "onStats B ss m w =
     (case m_from m of
        None \<Rightarrow> w
      | Some u \<Rightarrow>
          if \<not> isAdmin B (u_id u) then w
          else
            let (lang, w) = db_lang B (u_id u) (fsm_clear (u_id u) w); (t, w) = renderStats B ss lang w in
            post B (Send (m_chat m) t (statsKeyboard lang)) w)"

text \<open>The cases of the switch that end in the common answer.\<close>

definition admin_page ::
  "'s work_env \<Rightarrow> stats_source \<Rightarrow> callback \<Rightarrow> int \<times> int \<Rightarrow> string \<Rightarrow> string list \<Rightarrow> string \<Rightarrow> 's wworld \<Rightarrow> 's wworld" where
  "admin_page B ss q pos what args lang w =
     (let u = u_id (q_from q) in
      if what = ''menu'' then
        editAdminText B pos (Loc ''admin.menu_title'' lang []) (adminMainKeyboard lang) (fsm_clear u w)
      else if what = ''svc'' \<and> args \<noteq> [] then show_service B pos (hd args) lang (fsm_clear u w)
      else if what = ''bans'' then showBans B pos lang (fsm_clear u w)
      else if what = ''ban'' \<and> args \<noteq> [] \<and> hd args = ''add'' then
        editAdminText B pos (Loc ''admin.enter_ban_id'' lang []) (backToBansKeyboard lang) (fsm_set u ''admin_ban'' [] w)
      else if what = ''stats'' then
        (let (t, w) = renderStats B ss lang w in editAdminText B pos t (statsKeyboard lang) w)
      else if what = ''broadcasts'' then
        editAdminText B pos (Loc ''broadcast.menu_title'' lang []) (broadcastMenuKeyboard lang) (fsm_clear u w)
      else if what = ''edit'' \<and> args \<noteq> [] then adminStartEdit B q pos (hd args) lang w
      else w)"

definition onAdminCallback :: "'s work_env \<Rightarrow> stats_source \<Rightarrow> callback \<Rightarrow> 's wworld \<Rightarrow> 's wworld" where
  "onAdminCallback B ss q w =
     (let u = u_id (q_from q) in
      if u = 0 \<or> \<not> isAdmin B u then ack B q w
      else case q_msg q of
        None \<Rightarrow> ack B q w
      | Some pos \<Rightarrow>
          let (lang, w) = db_lang B u w in
          (case split_char CHR ''|'' (q_data q) of
             tag # what # args \<Rightarrow>
               if tag \<noteq> ''admin'' then ack B q w
               else if what = ''unban'' \<and> args \<noteq> [] then press_unban B q pos (hd args) lang w
               else if what = ''edit_bool'' \<and> args \<noteq> [] then adminToggleBool B q pos (hd args) lang w
               else if what = ''set_enum'' \<and> length args \<ge> 2 then adminSetEnum B q pos (hd args) (args ! 1) lang w
               else if what = ''confirm'' then adminConfirm B q pos args lang w
               else if what = ''reset'' then adminReset B q pos args lang w
               else ack B q (admin_page B ss q pos what args lang w)
           | _ \<Rightarrow> ack B q w))"

definition handleAdminFSM :: "'s work_env \<Rightarrow> message \<Rightarrow> string \<Rightarrow> 's wworld \<Rightarrow> bool \<times> 's wworld" where
  "handleAdminFSM B m lang w =
     (case m_from m of
        None \<Rightarrow> (False, w)
      | Some who \<Rightarrow>
          let u = u_id who in
          if \<not> isAdmin B u then (False, w)
          else case fsm_Get u (w_fsm w) of
            None \<Rightarrow> (False, w)
          | Some st \<Rightarrow>
              let t = trim_space (m_text m) in
              if t = [] then (True, w)
              else if pd_kind st = ''admin_edit'' then
                adminSaveEdit B m u lang (data_get (pd_data st) ''redis_key'') t w
              else if pd_kind st = ''admin_ban'' then adminSaveBan B m u lang t w
              else if pd_kind st = ''broadcast_text'' then broadcastSaveText B m u lang t 0 w
              else if pd_kind st = ''broadcast_edit'' then
                broadcastSaveText B m u lang t (atoi_value (data_get (pd_data st) ''broadcast_id'')) w
              else (False, fsm_clear u w))"

end
