(* ===== verification/Broadcast_Props.thy ===== *)
theory Broadcast_Props
  imports Handler_Broadcast Handler_Users_Props
begin

text \<open>
  Properties of messages to all users: each recipient is tried once, or twice after a pause, in order; what is
  counted and stored is what Telegram answered; and the recipients are the audience the operator chose.
\<close>

subsection \<open>Statements of a working database\<close>

definition delivery_of :: "int \<Rightarrow> int \<Rightarrow> database \<Rightarrow> string option" where
  "delivery_of i u db = map_option dv_status (find (is_delivery i u) (d_deliveries db))"

lemma find_map_same:
  assumes "\<And>x. P (f x) = P x"
  shows "find P (List.map f xs) = map_option f (find P xs)"
  using assms by (induction xs) auto

lemma find_append: "find P (xs @ ys) = (case find P xs of None \<Rightarrow> find P ys | Some x \<Rightarrow> Some x)"
  by (induction xs) auto

lemma save_delivery:
  fixes st e :: string and u :: int
  assumes "\<forall>n. F n = None" "find_broadcast i db \<noteq> None" "st \<in> set delivery_status_enum"
  defines "db' \<equiv> snd (SaveBroadcastDelivery F i u st e db)"
  shows "delivery_of i v db' = (if v = u then Some st else delivery_of i v db)"
    and "d_broadcasts db' = d_broadcasts db" "d_now db' = d_now db" "d_users db' = d_users db"
proof -
  have ch: "is_delivery i v (d\<lparr>dv_status := a, dv_error := b, dv_sent := c\<rparr>) = is_delivery i v d" for v d a b c
    by (simp add: is_delivery_def)
  show "delivery_of i v db' = (if v = u then Some st else delivery_of i v db)"
  proof (cases "\<exists>d \<in> set (d_deliveries db). is_delivery i u d")
    case True
    let ?f = "\<lambda>d. if is_delivery i u d then d\<lparr>dv_status := st, dv_error := nullable e,
        dv_sent := (if st = ''SENT'' then Some (d_now db) else dv_sent d)\<rparr> else d"
    have "d_deliveries db' = List.map ?f (d_deliveries db)"
      using True assms(1,3) by (simp add: db'_def SaveBroadcastDelivery_def exec_stmt_def stmt_def Let_def)
    moreover have "find (is_delivery i v) (List.map ?f (d_deliveries db)) = map_option ?f (find (is_delivery i v) (d_deliveries db))"
      by (rule find_map_same) (simp add: ch)
    moreover have "find (is_delivery i u) (d_deliveries db) \<noteq> None" using True by (auto simp: find_None_iff)
    moreover have "is_delivery i v d" if "find (is_delivery i v) (d_deliveries db) = Some d" for d
      using that by (auto simp: find_Some_iff)
    moreover have "dv_user d \<noteq> u" if "find (is_delivery i v) (d_deliveries db) = Some d" "v \<noteq> u" for d
      using that by (auto simp: find_Some_iff is_delivery_def)
    ultimately show ?thesis
      by (cases "find (is_delivery i v) (d_deliveries db)") (auto simp: delivery_of_def is_delivery_def)
  next
    case False
    let ?d = "\<lparr>dv_broadcast = i, dv_user = u, dv_status = st, dv_error = nullable e,
        dv_sent = (if st = ''SENT'' then Some (d_now db) else None)\<rparr>"
    have "d_deliveries db' = d_deliveries db @ [?d]"
      using False assms(1-3) by (auto simp: db'_def SaveBroadcastDelivery_def exec_stmt_def stmt_def Let_def find_broadcast_def)
    moreover have "find (is_delivery i u) (d_deliveries db) = None" using False by (auto simp: find_None_iff)
    ultimately show ?thesis
      by (auto simp: delivery_of_def find_append is_delivery_def split: option.splits)
  qed
  show "d_broadcasts db' = d_broadcasts db" "d_now db' = d_now db" "d_users db' = d_users db"
    using assms(1) by (auto simp: db'_def SaveBroadcastDelivery_def exec_stmt_def stmt_def Let_def split: if_splits)
qed

text \<open>A change of one row leaves its key.\<close>

lemma update_row:
  fixes db :: database and i :: int
  assumes "\<forall>n. F n = None" "\<And>b. bc_id (c b) = bc_id b"
  defines "db' \<equiv> snd (exec_stmt F (update_broadcast i c) db)"
  shows "find_broadcast j db' = (if j = i then map_option c (find_broadcast j db) else find_broadcast j db)"
    and "d_deliveries db' = d_deliveries db" "d_now db' = d_now db" "d_users db' = d_users db"
proof -
  let ?f = "\<lambda>b. if bc_id b = i then c b else b"
  have e: "db' = db\<lparr>d_stmts := Suc (d_stmts db), d_broadcasts := List.map ?f (d_broadcasts db)\<rparr>"
    using assms(1) by (simp add: db'_def exec_stmt_def stmt_def Let_def update_broadcast_def)
  have m: "find_broadcast j db' = map_option ?f (find_broadcast j db)"
    by (simp add: e find_broadcast_def find_map_same assms(2))
  have key: "bc_id b = j" if "find_broadcast j db = Some b" for b
    using that by (auto simp: find_broadcast_def find_Some_iff)
  show "find_broadcast j db' = (if j = i then map_option c (find_broadcast j db) else find_broadcast j db)"
    unfolding m by (cases "find_broadcast j db") (use key in auto)
  show "d_deliveries db' = d_deliveries db" "d_now db' = d_now db" "d_users db' = d_users db" by (simp_all add: e)
qed

subsection \<open>One recipient after the other\<close>

text \<open>The chats of the messages that Telegram took, in order.\<close>

fun reached_from :: "(event list \<Rightarrow> event \<Rightarrow> int result) \<Rightarrow> event list \<Rightarrow> event list \<Rightarrow> int list" where
  "reached_from ans pre [] = []"
| "reached_from ans pre (e # es) =
     (case e of Send c t kb \<Rightarrow> if is_ok (ans pre e) then [c] else [] | _ \<Rightarrow> []) @ reached_from ans (pre @ [e]) es"

lemma reached_append:
  "reached_from ans pre (xs @ ys) = reached_from ans pre xs @ reached_from ans (pre @ xs) ys"
  by (induction xs arbitrary: pre) simp_all

definition verdicts :: "string set" where "verdicts = {''SENT'', ''BLOCKED'', ''FAILED''}"

lemma deliver_facts:
  assumes "deliver B api t u w = ((st, err), w1)"
  shows "st \<in> verdicts \<and> w_db w1 = w_db w
    \<and> (\<exists>k \<in> {1, 2}. w_log w1 = w_log w @ replicate k (Send u (Lit t) [])
         \<and> reached_from (b_answer B) (w_log w) (replicate k (Send u (Lit t) [])) = (if st = ''SENT'' then [u] else []))"
proof -
  let ?m = "Send u (Lit t) []"
  have two: "replicate 2 ?m = [?m, ?m]" by (simp add: numeral_2_eq_2)
  show ?thesis
  proof (cases "b_answer B (w_log w) ?m")
    case (Inr n)
    with assms show ?thesis
      by (auto simp: deliver_def sendBroadcastMessage_def emit_def verdicts_def intro!: bexI [of _ "1::nat"])
  next
    case (Inl e)
    show ?thesis
    proof (cases "isBlockedError api e \<or> \<not> extractRetryAfter api e > 0")
      case True
      with assms Inl show ?thesis
        by (auto simp: deliver_def sendBroadcastMessage_def emit_def verdicts_def intro!: bexI [of _ "1::nat"] split: if_splits)
    next
      case False
      with assms Inl show ?thesis
        by (auto simp: deliver_def sendBroadcastMessage_def emit_def verdicts_def two split: sum.splits
            intro!: bexI [of _ "2::nat"])
    qed
  qed
qed

text \<open>What a list of verdicts counts.\<close>

definition tally_of :: "string list \<Rightarrow> tally" where
  "tally_of sts = \<lparr>n_sent = int (count_list sts ''SENT''), n_failed = int (count_list sts ''FAILED''),
     n_blocked = int (count_list sts ''BLOCKED'')\<rparr>"

lemma tally_snoc:
  assumes "st \<in> verdicts"
  shows "count_delivery st (tally_of sts) = tally_of (sts @ [st])"
  using assms by (auto simp: count_delivery_def tally_of_def verdicts_def count_list_append)

text \<open>A row but for its counts.\<close>

definition uncounted :: "broadcast \<Rightarrow> broadcast" where
  "uncounted b = b\<lparr>bc_sent := 0, bc_failed := 0, bc_blocked := 0\<rparr>"

definition row_of :: "int \<Rightarrow> database \<Rightarrow> broadcast option" where
  "row_of i db = map_option uncounted (find_broadcast i db)"

definition tries :: "string \<Rightarrow> int \<Rightarrow> event list \<Rightarrow> bool" where
  "tries t u es \<longleftrightarrow> es = [Send u (Lit t) []] \<or> es = [Send u (Lit t) [], Send u (Lit t) []]"

text \<open>One turn of the loop.\<close>

definition turn :: "'s work_env \<Rightarrow> api_error \<Rightarrow> int \<Rightarrow> string \<Rightarrow> int \<Rightarrow> int \<Rightarrow> int \<Rightarrow> tally \<Rightarrow> 's wworld \<Rightarrow> tally \<times> 's wworld" where
  "turn B api i t batchSize idx u c w =
     (case deliver B api t u w of
        ((st, err), w) \<Rightarrow>
          let w = do_db (SaveBroadcastDelivery (k_fault B) i u st err) w; c = count_delivery st c in
          (c, if batchSize > 0 \<and> (idx + 1) mod batchSize = 0
              then do_db (UpdateBroadcastProgress (k_fault B) i (n_sent c) (n_failed c) (n_blocked c)) w else w))"

lemma loop_turn:
  "broadcast_loop B api i t batchSize idx (u # us) c w =
     (case turn B api i t batchSize idx u c w of (c, w) \<Rightarrow> broadcast_loop B api i t batchSize (idx + 1) us c w)"
  by (simp add: turn_def Let_def split: prod.splits)

lemma do_db_sel:
  "w_db (do_db f w) = snd (f (w_db w))" "w_log (do_db f w) = w_log w"
  by (simp_all add: do_db_def on_db_def split_beta)

lemma progress_keeps:
  assumes "\<forall>n. F n = None"
  shows "row_of i (snd (UpdateBroadcastProgress F i a b c db)) = row_of i db"
    and "delivery_of i v (snd (UpdateBroadcastProgress F i a b c db)) = delivery_of i v db"
    and "d_now (snd (UpdateBroadcastProgress F i a b c db)) = d_now db"
  using update_row [OF assms, where db = db and i = i and c = "\<lambda>r. r\<lparr>bc_sent := a, bc_failed := b, bc_blocked := c\<rparr>"]
  by (simp_all add: UpdateBroadcastProgress_def row_of_def delivery_of_def option.map_comp o_def uncounted_def [abs_def])

lemma turn_facts:
  assumes "turn B api i t batchSize idx u (tally_of done) w = (c, w1)"
    and "\<forall>n. k_fault B n = None" "row_of i (w_db w) = Some bc"
  shows "\<exists>st es. st \<in> verdicts \<and> c = tally_of (done @ [st]) \<and> w_log w1 = w_log w @ es \<and> tries t u es
    \<and> reached_from (b_answer B) (w_log w) es = (if st = ''SENT'' then [u] else [])
    \<and> (\<forall>v. delivery_of i v (w_db w1) = (if v = u then Some st else delivery_of i v (w_db w)))
    \<and> row_of i (w_db w1) = Some bc \<and> d_now (w_db w1) = d_now (w_db w)"
proof -
  obtain st err wa where d: "deliver B api t u w = ((st, err), wa)" by (metis surj_pair)
  note df = deliver_facts [OF d]
  then obtain k where k: "k \<in> {1, 2}" "w_log wa = w_log w @ replicate k (Send u (Lit t) [])"
    "reached_from (b_answer B) (w_log w) (replicate k (Send u (Lit t) [])) = (if st = ''SENT'' then [u] else [])" by blast
  let ?wb = "do_db (SaveBroadcastDelivery (k_fault B) i u st err) wa"
  have row: "find_broadcast i (w_db wa) \<noteq> None" using df assms(3) by (auto simp: row_of_def)
  have en: "st \<in> set delivery_status_enum" using df by (auto simp: verdicts_def delivery_status_enum_def)
  note sd = save_delivery [OF assms(2) row en, where u = u and e = err]
  have c: "c = tally_of (done @ [st])" using assms(1) d df by (auto simp: turn_def Let_def tally_snoc)
  have w1: "w1 = ?wb \<or> w1 = do_db (UpdateBroadcastProgress (k_fault B) i (n_sent c) (n_failed c) (n_blocked c)) ?wb"
    using assms(1) d by (auto simp: turn_def Let_def split: if_splits)
  have b: "row_of i (w_db ?wb) = Some bc" "d_now (w_db ?wb) = d_now (w_db w)"
    "\<And>v. delivery_of i v (w_db ?wb) = (if v = u then Some st else delivery_of i v (w_db w))"
    using sd df assms(3) by (simp_all add: do_db_sel row_of_def find_broadcast_def)
  note up = progress_keeps [OF assms(2), where db = "w_db ?wb" and i = i and a = "n_sent c" and b = "n_failed c" and c = "n_blocked c"]
  have "row_of i (w_db w1) = row_of i (w_db ?wb)" "d_now (w_db w1) = d_now (w_db ?wb)" "w_log w1 = w_log wa"
    "delivery_of i v (w_db w1) = delivery_of i v (w_db ?wb)" for v
    using w1 up by (auto simp: do_db_sel)
  note e = this [unfolded b]
  show ?thesis using c k df e
    by (intro exI [of _ st] exI [of _ "replicate k (Send u (Lit t) [])"])
      (auto simp: tries_def numeral_2_eq_2)
qed

lemma loop_facts:
  assumes "broadcast_loop B api i t batch idx us (tally_of done) w = (c, w1)"
    and "\<forall>n. k_fault B n = None" "row_of i (w_db w) = Some bc" "distinct us"
  shows "\<exists>sts blocks. length sts = length us \<and> set sts \<subseteq> verdicts \<and> c = tally_of (done @ sts)
    \<and> w_log w1 = w_log w @ concat blocks \<and> list_all2 (tries t) us blocks
    \<and> reached_from (b_answer B) (w_log w) (concat blocks) = List.map fst (filter (\<lambda>(u, st). st = ''SENT'') (zip us sts))
    \<and> (\<forall>v. delivery_of i v (w_db w1) = (case map_of (zip us sts) v of None \<Rightarrow> delivery_of i v (w_db w) | Some st \<Rightarrow> Some st))
    \<and> row_of i (w_db w1) = Some bc \<and> d_now (w_db w1) = d_now (w_db w)"
  using assms
proof (induction us arbitrary: idx "done" w)
  case Nil
  then show ?case by (intro exI [of _ "[]"]) auto
next
  case (Cons u us)
  obtain ca wa where ta: "turn B api i t batch idx u (tally_of done) w = (ca, wa)" by (metis surj_pair)
  from turn_facts [OF ta Cons.prems(2,3)] obtain st es where a: "st \<in> verdicts" "ca = tally_of (done @ [st])"
    "w_log wa = w_log w @ es" "tries t u es" "reached_from (b_answer B) (w_log w) es = (if st = ''SENT'' then [u] else [])"
    "\<forall>v. delivery_of i v (w_db wa) = (if v = u then Some st else delivery_of i v (w_db w))"
    "row_of i (w_db wa) = Some bc" "d_now (w_db wa) = d_now (w_db w)" by blast
  have run: "broadcast_loop B api i t batch (idx + 1) us (tally_of (done @ [st])) wa = (c, w1)"
    using Cons.prems(1) ta a(2) by (simp only: loop_turn prod.case)
  from Cons.IH [OF run Cons.prems(2) a(7)] Cons.prems(4) obtain sts blocks where ih:
    "length sts = length us" "set sts \<subseteq> verdicts" "c = tally_of ((done @ [st]) @ sts)" "w_log w1 = w_log wa @ concat blocks"
    "list_all2 (tries t) us blocks"
    "reached_from (b_answer B) (w_log wa) (concat blocks) = List.map fst (filter (\<lambda>(u, st). st = ''SENT'') (zip us sts))"
    "\<forall>v. delivery_of i v (w_db w1) = (case map_of (zip us sts) v of None \<Rightarrow> delivery_of i v (w_db wa) | Some st \<Rightarrow> Some st)"
    "row_of i (w_db w1) = Some bc" "d_now (w_db w1) = d_now (w_db wa)" by auto
  have notin: "map_of (zip us sts) u = None" using Cons.prems(4) ih(1) by (simp add: map_of_zip_is_None)
  have "\<forall>v. delivery_of i v (w_db w1) = (case map_of (zip (u # us) (st # sts)) v of None \<Rightarrow> delivery_of i v (w_db w) | Some st \<Rightarrow> Some st)"
    using ih(7) a(6) notin by (auto split: option.splits)
  then show ?case using a ih
    by (intro exI [of _ "st # sts"] exI [of _ "es # blocks"]) (auto simp: reached_append)
qed

subsection \<open>The whole job\<close>

text \<open>What the job promises to leave in its row.\<close>

definition completed :: "nat \<Rightarrow> string list \<Rightarrow> broadcast \<Rightarrow> broadcast" where
  "completed now sts bc = bc\<lparr>bc_status := ''COMPLETED'', bc_total := int (length sts),
     bc_sent := int (count_list sts ''SENT''), bc_failed := int (count_list sts ''FAILED''),
     bc_blocked := int (count_list sts ''BLOCKED''), bc_started := Some now, bc_finished := Some now\<rparr>"

definition broadcast_fits :: "broadcast_payload \<Rightarrow> bool" where
  "broadcast_fits p \<longleftrightarrow> in_int64 (bp_id p) \<and> list_all in_int64 (bp_users p)"

lemma broadcast_payload_roundtrip:
  assumes "broadcast_fits p"
  shows "unmarshal_broadcast (marshal_broadcast p) = Some p"
  using assms by (simp add: unmarshal_broadcast_def marshal_broadcast_def broadcast_fits_def get_int_def get_str_def
      get_ints_def jget_def)

lemma read_row:
  assumes "\<forall>n. F n = None" "find_broadcast i db = Some bc"
  shows "\<exists>db1. GetBroadcast F i db = (Inr bc, db1) \<and> d_broadcasts db1 = d_broadcasts db
    \<and> d_deliveries db1 = d_deliveries db \<and> d_now db1 = d_now db"
  using assms by (auto simp: GetBroadcast_def stmt_def Let_def find_broadcast_def split: option.splits)

lemma start_row:
  fixes db :: database and n i :: int
  assumes "\<forall>n. F n = None"
  defines "db' \<equiv> snd (UpdateBroadcastStatus F i ''RUNNING'' n db)"
  shows "find_broadcast i db' = map_option (\<lambda>b. b\<lparr>bc_status := ''RUNNING'', bc_started := Some (d_now db), bc_total := n\<rparr>)
      (find_broadcast i db)"
    and "d_deliveries db' = d_deliveries db" "d_now db' = d_now db"
proof -
  let ?c = "\<lambda>b. b\<lparr>bc_status := ''RUNNING'', bc_started := Some (d_now db), bc_total := n\<rparr>"
  have "db' = snd (exec_stmt F (update_broadcast i ?c) db)"
    using assms(1) by (simp add: db'_def UpdateBroadcastStatus_def exec_stmt_def stmt_def Let_def broadcast_status_enum_def
        update_broadcast_def)
  then show "find_broadcast i db' = map_option ?c (find_broadcast i db)"
    and "d_deliveries db' = d_deliveries db" "d_now db' = d_now db"
    using update_row [OF assms(1), where c = ?c and db = db and i = i] by simp_all
qed

lemma complete_row:
  fixes db :: database and a b c i :: int
  assumes "\<forall>n. F n = None"
  defines "db' \<equiv> snd (CompleteBroadcast F i a b c db)"
  shows "find_broadcast i db' = map_option (\<lambda>r. r\<lparr>bc_status := ''COMPLETED'', bc_sent := a, bc_failed := b,
      bc_blocked := c, bc_finished := Some (d_now db)\<rparr>) (find_broadcast i db)"
    and "d_deliveries db' = d_deliveries db"
proof -
  let ?c = "\<lambda>r. r\<lparr>bc_status := ''COMPLETED'', bc_sent := a, bc_failed := b, bc_blocked := c, bc_finished := Some (d_now db)\<rparr>"
  have "db' = snd (exec_stmt F (update_broadcast i ?c) db)"
    using assms(1) by (simp add: db'_def CompleteBroadcast_def exec_stmt_def stmt_def Let_def update_broadcast_def)
  then show "find_broadcast i db' = map_option ?c (find_broadcast i db)" and "d_deliveries db' = d_deliveries db"
    using update_row [OF assms(1), where c = ?c and db = db and i = i] by simp_all
qed

lemma completed_row:
  assumes "uncounted r = uncounted (bc\<lparr>bc_status := ''RUNNING'', bc_started := Some now, bc_total := n\<rparr>)"
    "n = int (length sts)"
  shows "r\<lparr>bc_status := ''COMPLETED'', bc_sent := int (count_list sts ''SENT''), bc_failed := int (count_list sts ''FAILED''),
    bc_blocked := int (count_list sts ''BLOCKED''), bc_finished := Some now\<rparr> = completed now sts bc"
  using assms by (cases r; cases bc) (simp add: uncounted_def completed_def)

lemma broadcast_facts:
  assumes "\<forall>n. k_fault B n = None" "find_broadcast (bp_id p) (w_db w) = Some bc" "distinct (bp_users p)"
    and "run_broadcast B api p w = (r, w1)"
  shows "\<exists>sts blocks. r = None \<and> length sts = length (bp_users p) \<and> set sts \<subseteq> verdicts
    \<and> w_log w1 = w_log w @ concat blocks \<and> list_all2 (tries (bc_text bc)) (bp_users p) blocks
    \<and> reached_from (b_answer B) (w_log w) (concat blocks) = List.map fst (filter (\<lambda>(u, st). st = ''SENT'') (zip (bp_users p) sts))
    \<and> (\<forall>v. delivery_of (bp_id p) v (w_db w1) =
          (case map_of (zip (bp_users p) sts) v of None \<Rightarrow> delivery_of (bp_id p) v (w_db w) | Some st \<Rightarrow> Some st))
    \<and> find_broadcast (bp_id p) (w_db w1) = Some (completed (d_now (w_db w)) sts bc)"
proof -
  let ?i = "bp_id p" and ?us = "bp_users p" and ?F = "k_fault B"
  obtain db1 where g: "GetBroadcast ?F ?i (w_db w) = (Inr bc, db1)" and s1: "d_broadcasts db1 = d_broadcasts (w_db w)"
    "d_deliveries db1 = d_deliveries (w_db w)" "d_now db1 = d_now (w_db w)"
    using read_row [OF assms(1,2)] by blast
  let ?w1 = "w\<lparr>w_db := db1\<rparr>"
  let ?w2 = "do_db (UpdateBroadcastStatus ?F ?i ''RUNNING'' (int (length ?us))) ?w1"
  let ?now = "d_now (w_db w)"
  let ?run = "bc\<lparr>bc_status := ''RUNNING'', bc_started := Some ?now, bc_total := int (length ?us)\<rparr>"
  have on: "on_db (GetBroadcast ?F ?i) w = (Inr bc, ?w1)" by (simp add: on_db_def g)
  note st = start_row [OF assms(1), where i = ?i and n = "int (length ?us)" and db = db1]
  have w2: "w_log ?w2 = w_log w" "find_broadcast ?i (w_db ?w2) = Some ?run" "d_now (w_db ?w2) = ?now"
    "\<And>v. delivery_of ?i v (w_db ?w2) = delivery_of ?i v (w_db w)"
    using st s1 assms(2) by (simp_all add: do_db_sel find_broadcast_def delivery_of_def)
  obtain d w3 where r1: "rt_int B ''global.broadcast_delay_ms'' (c_BroadcastDelayMS (b_cfg B)) ?w2 = (d, w3)" by fastforce
  obtain n w4 where r2: "rt_int B ''global.broadcast_batch_size'' (c_BroadcastBatchSize (b_cfg B)) w3 = (n, w4)" by fastforce
  have keep: "w_db w' = w_db w0 \<and> w_log w' = w_log w0" if "rt_int B k f w0 = (x, w')" for k f x and w0 w' :: "'a wworld"
    using that by (auto simp: rt_int_def on_st_def split_beta)
  have w4: "w_db w4 = w_db ?w2" "w_log w4 = w_log w" using keep [OF r1] keep [OF r2] w2(1) by simp_all
  obtain c w5 where l: "broadcast_loop B api ?i (bc_text bc) n 0 ?us (tally_of []) w4 = (c, w5)" by (metis surj_pair)
  have row: "row_of ?i (w_db w4) = Some (uncounted ?run)" using w2(2) w4(1) by (simp add: row_of_def)
  from loop_facts [OF l assms(1) row assms(3)] obtain sts blocks where f: "length sts = length ?us" "set sts \<subseteq> verdicts"
    "c = tally_of sts" "w_log w5 = w_log w4 @ concat blocks" "list_all2 (tries (bc_text bc)) ?us blocks"
    "reached_from (b_answer B) (w_log w4) (concat blocks) = List.map fst (filter (\<lambda>(u, st). st = ''SENT'') (zip ?us sts))"
    "\<forall>v. delivery_of ?i v (w_db w5) = (case map_of (zip ?us sts) v of None \<Rightarrow> delivery_of ?i v (w_db w4) | Some st \<Rightarrow> Some st)"
    "row_of ?i (w_db w5) = Some (uncounted ?run)" "d_now (w_db w5) = d_now (w_db w4)" by auto
  from f(8) obtain r5 where r5: "find_broadcast ?i (w_db w5) = Some r5" "uncounted r5 = uncounted ?run"
    by (auto simp: row_of_def)
  let ?w6 = "do_db (CompleteBroadcast ?F ?i (n_sent c) (n_failed c) (n_blocked c)) w5"
  have zero: "\<lparr>n_sent = 0, n_failed = 0, n_blocked = 0\<rparr> = tally_of []" by (simp add: tally_of_def)
  have "run_broadcast B api p w = (None, ?w6)"
    unfolding run_broadcast_def on using r1 r2 l by (simp add: zero)
  with assms(4) have w1: "r = None" "w1 = ?w6" by simp_all
  note cr = complete_row [OF assms(1), where i = ?i and db = "w_db w5" and a = "n_sent c" and b = "n_failed c" and c = "n_blocked c"]
  have now: "d_now (w_db w5) = ?now" using f(9) w4(1) w2(3) by simp
  have "find_broadcast ?i (w_db w1) = Some (completed ?now sts bc)"
    using cr(1) r5(1) completed_row [OF r5(2), of sts] f(1,3) now by (simp add: w1 do_db_sel tally_of_def)
  moreover have "delivery_of ?i v (w_db w1) = delivery_of ?i v (w_db w5)" for v
    using cr(2) by (simp add: w1 do_db_sel delivery_of_def)
  moreover have "w_log w1 = w_log w @ concat blocks" using f(4) w4(2) by (simp add: w1 do_db_sel)
  moreover have "delivery_of ?i v (w_db w4) = delivery_of ?i v (w_db w)" for v using w2(4) [of v] w4(1) by simp
  ultimately have "\<forall>v. delivery_of ?i v (w_db w1) =
      (case map_of (zip ?us sts) v of None \<Rightarrow> delivery_of ?i v (w_db w) | Some st \<Rightarrow> Some st)"
    "find_broadcast ?i (w_db w1) = Some (completed ?now sts bc)" "w_log w1 = w_log w @ concat blocks"
    using f(7) by (auto split: option.splits)
  then show ?thesis using w1(1) f(1,2,5,6) w4(2) by (intro exI [of _ sts] exI [of _ blocks]) simp
qed

text \<open>
  C23. The job of a message to all users does what its row says afterwards. When the database answers and the row
  exists, and no user is listed twice: every user of the job is sent the text of the row once, or a second time
  after a pause, in the order of the list and nobody else is; the messages that Telegram took are those of the users
  whose delivery is stored as sent, one for each; every user has a delivery row with the verdict of his turn, other
  deliveries are as before; and the row is completed, with the number of users and the counts of the verdicts. This
  holds whatever the status of the row was.
\<close>

theorem broadcast_does_what_it_books:
  assumes "\<forall>n. k_fault B n = None" "find_broadcast (bp_id p) (w_db w) = Some bc" "distinct (bp_users p)" "broadcast_fits p"
    and "handleBroadcast B api (marshal_broadcast p) w = (r, w1)"
  shows "\<exists>sts blocks. r = None \<and> length sts = length (bp_users p) \<and> set sts \<subseteq> {''SENT'', ''BLOCKED'', ''FAILED''}
    \<and> w_log w1 = w_log w @ concat blocks \<and> list_all2 (tries (bc_text bc)) (bp_users p) blocks
    \<and> reached_from (b_answer B) (w_log w) (concat blocks) = List.map fst (filter (\<lambda>(u, st). st = ''SENT'') (zip (bp_users p) sts))
    \<and> (\<forall>v. delivery_of (bp_id p) v (w_db w1) =
          (case map_of (zip (bp_users p) sts) v of None \<Rightarrow> delivery_of (bp_id p) v (w_db w) | Some st \<Rightarrow> Some st))
    \<and> find_broadcast (bp_id p) (w_db w1) = Some (completed (d_now (w_db w)) sts bc)"
proof -
  from assms(5) have "run_broadcast B api p w = (r, w1)"
    by (simp add: handleBroadcast_def broadcast_payload_roundtrip [OF assms(4)])
  from broadcast_facts [OF assms(1,2,3) this] show ?thesis by (simp add: verdicts_def)
qed

definition sample_broadcast :: broadcast where
  "sample_broadcast = \<lparr>bc_id = 1, bc_admin = 7, bc_text = ''hello'', bc_audience = ''ALL'', bc_status = ''CANCELLED'',
     bc_total = 0, bc_sent = 0, bc_failed = 0, bc_blocked = 0, bc_created = 0, bc_started = None, bc_finished = Some 1\<rparr>"

lemma broadcast_does_what_it_books_witness:
  "let w = sample_wworld\<lparr>w_db := empty_tables\<lparr>d_broadcasts := [sample_broadcast]\<rparr>\<rparr>;
       p = \<lparr>bp_id = 1, bp_audience = ''all'', bp_users = [7, 8]\<rparr>;
       w1 = snd (handleBroadcast (sample_work_env []) (\<lambda>e. None) (marshal_broadcast p) w) in
   \<exists>sts. length sts = 2 \<and> find_broadcast 1 (w_db w1) = Some (completed (d_now (w_db w)) sts sample_broadcast)"
proof -
  let ?w = "sample_wworld\<lparr>w_db := empty_tables\<lparr>d_broadcasts := [sample_broadcast]\<rparr>\<rparr>"
  let ?p = "\<lparr>bp_id = 1, bp_audience = ''all'', bp_users = [7, 8]\<rparr>"
  have row: "find_broadcast (bp_id ?p) (w_db ?w) = Some sample_broadcast"
    by (simp add: find_broadcast_def sample_broadcast_def)
  have fits: "broadcast_fits ?p" by (simp add: broadcast_fits_def in_int64_def int64_min_def int64_max_def)
  obtain r w1 where run: "handleBroadcast (sample_work_env []) (\<lambda>e. None) (marshal_broadcast ?p) ?w = (r, w1)" by fastforce
  from broadcast_does_what_it_books [OF _ row _ fits run] have
    "\<exists>sts. length sts = 2 \<and> find_broadcast 1 (w_db w1) = Some (completed (d_now (w_db ?w)) sts sample_broadcast)" by force
  then show ?thesis using run by (simp add: Let_def)
qed

end
