(* ===== verification/Admin_Props.thy ===== *)
theory Admin_Props
  imports Handler_Admin Broadcast_Props
begin

text \<open>
  Properties of the operator's panel: whatever the operator presses and types, the stored settings stay valid and the
  operator is not banned; a value typed after pressing a setting is the one the workers read.
\<close>

subsection \<open>Statements that keep settings and bans\<close>

definition stored_ok :: "redis_db \<Rightarrow> bool" where
  "stored_ok db \<longleftrightarrow> (\<forall>k raw. override db k = Some raw \<longrightarrow>
     (\<exists>def v. Lookup k = Some def \<and> valid_value def v \<and> raw = serialise v def))"

definition policy_ok :: "('s, 'b) bot_env_scheme \<Rightarrow> redis_db \<Rightarrow> bool" where
  "policy_ok B db \<longleftrightarrow> stored_ok db \<and> c_AdminTelegramID (b_cfg B) \<notin> banned db"

lemma stored_upd:
  assumes "stored_ok db" "override db' = (override db)(k \<mapsto> serialise v def)" "Lookup k = Some def" "valid_value def v"
  shows "stored_ok db'"
  using assms by (auto simp: stored_ok_def)

lemma stored_less:
  assumes "stored_ok db" "override db' \<subseteq>\<^sub>m override db"
  shows "stored_ok db'"
  using assms by (fastforce simp: stored_ok_def map_le_def dom_def)

lemma key_differs: "runtimeSettingsKey \<noteq> bannedUsersKey" "bannedUsersKey \<noteq> runtimeSettingsKey"
  by (simp_all add: runtimeSettingsKey_def bannedUsersKey_def)

text \<open>What each statement does to the two, whether or not it reports an error.\<close>

lemma policy_set:
  assumes "lawful_redis R \<alpha>" "SetValue R k v s = (e, s1)" "Lookup k = Some def" "valid_value def v" "policy_ok B (\<alpha> s)"
  shows "policy_ok B (\<alpha> s1)"
proof -
  have "exec R (CHSet runtimeSettingsKey k (serialise v def)) s = (e, s1)"
    using assms(2,3) by (simp add: SetValue_def RuntimeSet_def)
  from exec_cases [OF assms(1) this] show ?thesis
  proof
    assume a: "\<alpha> s1 = snd (redis_step (CHSet runtimeSettingsKey k (serialise v def)) (\<alpha> s))"
    then have "override (\<alpha> s1) = (override (\<alpha> s))(k \<mapsto> serialise v def)"
      by (simp add: override_def update_conv')
    moreover have "banned (\<alpha> s1) = banned (\<alpha> s)" by (simp add: a banned_def)
    ultimately show ?thesis using stored_upd assms(3,4,5) by (auto simp: policy_ok_def)
  next
    assume "e \<noteq> None \<and> \<alpha> s1 = \<alpha> s"
    then show ?thesis using assms(5) by simp
  qed
qed

lemma policy_delete:
  assumes "lawful_redis R \<alpha>" "policy_ok B (\<alpha> s)"
  shows "Reset R k s = (e, s1) \<Longrightarrow> policy_ok B (\<alpha> s1)"
    and "ResetAll R s = (e, s1) \<Longrightarrow> policy_ok B (\<alpha> s1)"
proof -
  assume "Reset R k s = (e, s1)"
  from exec_cases [OF assms(1) this [unfolded Reset_def RuntimeDelete_def]]
  show "policy_ok B (\<alpha> s1)"
  proof
    assume a: "\<alpha> s1 = snd (redis_step (CHDel runtimeSettingsKey k) (\<alpha> s))"
    then have "override (\<alpha> s1) = (override (\<alpha> s))(k := None)" by (simp add: override_def delete_conv')
    then have "override (\<alpha> s1) \<subseteq>\<^sub>m override (\<alpha> s)" by (simp add: map_le_def)
    moreover have "banned (\<alpha> s1) = banned (\<alpha> s)" by (simp add: a banned_def)
    ultimately show ?thesis using stored_less assms(2) by (auto simp: policy_ok_def)
  qed (use assms(2) in simp)
next
  assume "ResetAll R s = (e, s1)"
  from exec_cases [OF assms(1) this [unfolded ResetAll_def RuntimeDeleteAll_def]]
  show "policy_ok B (\<alpha> s1)"
  proof
    assume a: "\<alpha> s1 = snd (redis_step (CDel runtimeSettingsKey) (\<alpha> s))"
    then have "override (\<alpha> s1) = Map.empty" "banned (\<alpha> s1) \<subseteq> banned (\<alpha> s)"
      by (auto simp: override_def banned_def split: if_splits)
    then show ?thesis using assms(2) by (auto simp: policy_ok_def stored_ok_def)
  qed (use assms(2) in simp)
qed

lemma policy_ban:
  assumes "lawful_redis R \<alpha>" "BanUser R u s = (e, s1)" "u \<noteq> c_AdminTelegramID (b_cfg B)" "policy_ok B (\<alpha> s)"
  shows "policy_ok B (\<alpha> s1)"
  using exec_cases [OF assms(1) assms(2) [unfolded BanUser_def]]
proof
  assume a: "\<alpha> s1 = snd (redis_step (CSAdd bannedUsersKey (itoa u)) (\<alpha> s))"
  then have "override (\<alpha> s1) = override (\<alpha> s)" by (simp add: override_def)
  moreover have "banned (\<alpha> s1) = insert u (banned (\<alpha> s))" using a ban_step(1) by simp
  ultimately show ?thesis using assms(3,4) by (simp add: policy_ok_def stored_ok_def)
qed (use assms(4) in simp)

lemma policy_unban:
  assumes "lawful_redis R \<alpha>" "UnbanUser R u s = (b, e, s1)" "policy_ok B (\<alpha> s)"
  shows "policy_ok B (\<alpha> s1)"
proof -
  have "\<alpha> s1 = snd (redis_step (CSRem bannedUsersKey (itoa u)) (\<alpha> s)) \<or> \<alpha> s1 = \<alpha> s"
    by (rule call_cases [OF assms(1), of "CSRem bannedUsersKey (itoa u)" s])
      (use assms(2) in \<open>auto simp: UnbanUser_def split: if_splits\<close>)
  then show ?thesis
  proof
    assume a: "\<alpha> s1 = snd (redis_step (CSRem bannedUsersKey (itoa u)) (\<alpha> s))"
    then have "override (\<alpha> s1) = override (\<alpha> s)" by (simp add: override_def)
    moreover have "banned (\<alpha> s1) = banned (\<alpha> s) - {u}" using a ban_step(2) by simp
    ultimately show ?thesis using assms(3) by (auto simp: policy_ok_def stored_ok_def)
  qed (use assms(3) in simp)
qed

lemma policy_reads:
  assumes "lawful_redis R \<alpha>" "policy_ok B (\<alpha> s)"
  shows "CurrentValue R cfg def s = (v, s1) \<Longrightarrow> policy_ok B (\<alpha> s1)"
    and "ListBannedUsers R s = (r, s1) \<Longrightarrow> policy_ok B (\<alpha> s1)"
    and "BannedCount R s = (n, e, s1) \<Longrightarrow> policy_ok B (\<alpha> s1)"
proof -
  assume "CurrentValue R cfg def s = (v, s1)"
  then show "policy_ok B (\<alpha> s1)" using CurrentValue_reads [OF assms(1)] assms(2) by metis
next
  assume "ListBannedUsers R s = (r, s1)"
  then have "\<alpha> s1 = \<alpha> s"
    by (cases rule: call_cases [OF assms(1), of "CSMembers bannedUsersKey" s])
      (auto simp: ListBannedUsers_def split: if_splits)
  then show "policy_ok B (\<alpha> s1)" using assms(2) by simp
next
  assume "BannedCount R s = (n, e, s1)"
  then have "\<alpha> s1 = \<alpha> s"
    by (cases rule: call_cases [OF assms(1), of "CSCard bannedUsersKey" s])
      (auto simp: BannedCount_def split: if_splits)
  then show "policy_ok B (\<alpha> s1)" using assms(2) by simp
qed

lemma policy_count:
  assumes "lawful_redis R \<alpha>" "policy_ok B (\<alpha> s)" "CountActiveUsers R now window s = (r, s1)"
  shows "policy_ok B (\<alpha> s1)"
proof -
  let ?cs = "[CZRemRange activeUsersKey (int now - int window), CZCount activeUsersKey (int now - int window)]"
  have keep: "override (snd (redis_run (take n ?cs) db)) = override db \<and> banned (snd (redis_run (take n ?cs) db)) = banned db" for n db
    by (cases n; cases "n - 1") (auto simp: override_def banned_def split_beta Let_def)
  obtain r' where run: "R ?cs s = (r', s1)" using assms(3) by (auto simp: CountActiveUsers_def split: prod.splits sum.splits)
  have law: "case R ?cs s of (Inl e, s') \<Rightarrow> (\<exists>n. \<alpha> s' = snd (redis_run (take n ?cs) (\<alpha> s)))
      | (Inr rs, s') \<Rightarrow> redis_run ?cs (\<alpha> s) = (rs, \<alpha> s')"
    using assms(1) [unfolded lawful_redis_def, rule_format] .
  from law run have "\<exists>n. \<alpha> s1 = snd (redis_run (take n ?cs) (\<alpha> s))"
  proof (cases r')
    case (Inr rs)
    with law run have "snd (redis_run (take 2 ?cs) (\<alpha> s)) = \<alpha> s1" by simp
    then show ?thesis by metis
  qed simp
  then obtain n where "\<alpha> s1 = snd (redis_run (take n ?cs) (\<alpha> s))" by blast
  with keep [of n "\<alpha> s"] show ?thesis using assms(2) by (simp add: policy_ok_def stored_ok_def)
qed

subsection \<open>Handlers\<close>

definition upholds :: "'s work_env \<Rightarrow> ('s \<Rightarrow> redis_db) \<Rightarrow> 's wworld \<Rightarrow> 's wworld \<Rightarrow> bool" where
  "upholds B \<alpha> w w' \<longleftrightarrow> (policy_ok B (\<alpha> (w_st w)) \<longrightarrow> policy_ok B (\<alpha> (w_st w')))"

lemma upholds_refl [simp]: "upholds B \<alpha> w w" by (simp add: upholds_def)

lemma upholds_trans: "upholds B \<alpha> a b \<Longrightarrow> upholds B \<alpha> b c \<Longrightarrow> upholds B \<alpha> a c" by (simp add: upholds_def)

lemma upholds_pure: "w_st w' = w_st w \<Longrightarrow> upholds B \<alpha> w w'" by (simp add: upholds_def)

lemma do_db_st [simp]: "w_st (do_db f w) = w_st w"
  by (simp add: do_db_def on_db_def split_beta)

lemma db_st: "on_db f w = (r, w1) \<Longrightarrow> w_st w1 = w_st w"
  by (auto simp: do_db_def on_db_def split: prod.splits)

lemma st_effects [simp]:
  "w_st (editAdminText B pos t kb w) = w_st w" "w_st (answer_text B q t a w) = w_st w" "w_st (ack B q w) = w_st w"
  by (simp_all add: editAdminText_def answer_text_def ack_def)

lemma db_lang_st: "db_lang B u w = (lang, w1) \<Longrightarrow> w_st w1 = w_st w"
  by (auto simp: db_lang_def dest!: db_st split: prod.splits sum.splits if_splits)

text \<open>Reading settings.\<close>

definition reads :: "('s \<Rightarrow> redis_db) \<Rightarrow> 's wworld \<Rightarrow> 's wworld \<Rightarrow> bool" where
  "reads \<alpha> w w1 \<longleftrightarrow> \<alpha> (w_st w1) = \<alpha> (w_st w) \<and> w_fsm w1 = w_fsm w"

lemma upholds_reads: "reads \<alpha> w w1 \<Longrightarrow> upholds B \<alpha> w w1"
  by (simp add: reads_def upholds_def)

lemma value_reads:
  assumes "lawful_redis (b_redis B) \<alpha>" "rt_value B def w = (v, w1)"
  shows "reads \<alpha> w w1"
    and "v = defaultFromConfig (Some (b_cfg B)) def \<or> v = setting_of (Some (b_cfg B)) (\<alpha> (w_st w)) def"
  using on_st_eqD [OF assms(2) [unfolded rt_value_def]] CurrentValue_reads [OF assms(1), of "Some (b_cfg B)" def "w_st w" v "w_st w1"]
  by (simp_all add: reads_def)

lemma lines_reads:
  assumes "lawful_redis (b_redis B) \<alpha>"
  shows "setting_lines B lang defs w = (ls, w1) \<Longrightarrow> reads \<alpha> w w1"
proof (induction defs arbitrary: w ls w1)
  case (Cons def defs)
  obtain v wa where a: "rt_value B def w = (v, wa)" by fastforce
  obtain l' wb where b: "setting_lines B lang defs wa = (l', wb)" by fastforce
  have "w1 = wb" using Cons.prems a b by simp
  then show ?case using value_reads(1) [OF assms a] Cons.IH [OF b] by (simp add: reads_def)
qed (simp add: reads_def)

lemma summary_reads:
  assumes "lawful_redis (b_redis B) \<alpha>" "serviceSummary B service lang w = (t, w1)"
  shows "reads \<alpha> w w1"
  using assms(2) lines_reads [OF assms(1)] reads_def [of \<alpha> w w]
  by (fastforce simp: serviceSummary_def Let_def split: prod.splits if_splits)

lemmas upholds_value = upholds_reads [OF value_reads(1)]

lemmas upholds_summary = upholds_reads [OF summary_reads]

lemma upholds_show:
  assumes "lawful_redis (b_redis B) \<alpha>"
  shows "upholds B \<alpha> w (show_service B pos service lang w)"
proof -
  obtain t w1 where s: "serviceSummary B service lang w = (t, w1)" by fastforce
  show ?thesis using upholds_summary [OF assms s] by (simp add: show_service_def s upholds_def)
qed

lemma upholds_set:
  assumes "lawful_redis (b_redis B) \<alpha>" "Lookup k = Some def" "valid_value def v"
  shows "upholds B \<alpha> w (rt_set B k v w)"
proof -
  obtain e s1 where s: "SetValue (b_redis B) k v (w_st w) = (e, s1)" by fastforce
  show ?thesis using policy_set [OF assms(1) s assms(2,3)] by (auto simp: upholds_def rt_set_def do_st_def s)
qed

lemma upholds_reset:
  assumes "lawful_redis (b_redis B) \<alpha>"
  shows "upholds B \<alpha> w (rt_reset B defs w)"
proof (induction defs arbitrary: w)
  case (Cons def defs)
  obtain e s1 where s: "Reset (b_redis B) (RedisKey def) (w_st w) = (e, s1)" by fastforce
  have "upholds B \<alpha> w (do_st (Reset (b_redis B) (RedisKey def)) w)"
    using policy_delete(1) [OF assms _ s] by (auto simp: upholds_def do_st_def s)
  then show ?case using upholds_trans Cons.IH by fastforce
qed simp

lemma upholds_reset_all:
  assumes "lawful_redis (b_redis B) \<alpha>"
  shows "upholds B \<alpha> w (do_st (ResetAll (b_redis B)) w)"
proof -
  obtain e s1 where s: "ResetAll (b_redis B) (w_st w) = (e, s1)" by fastforce
  show ?thesis using policy_delete(2) [OF assms _ s] by (auto simp: upholds_def do_st_def s)
qed

lemma upholds_bans:
  assumes "lawful_redis (b_redis B) \<alpha>"
  shows "upholds B \<alpha> w (showBans B pos lang w)"
proof -
  obtain r w1 where l: "on_st (ListBannedUsers (b_redis B)) w = (r, w1)" by fastforce
  from on_st_eqD [OF l] policy_reads(2) [OF assms, of B "w_st w" r "w_st w1"] have "upholds B \<alpha> w w1"
    by (simp add: upholds_def)
  then show ?thesis by (simp add: showBans_def l Let_def upholds_def)
qed

lemma upholds_unban:
  assumes "lawful_redis (b_redis B) \<alpha>"
  shows "upholds B \<alpha> w (press_unban B q pos arg lang w)"
proof -
  obtain b e s1 where u: "UnbanUser (b_redis B) (atoi_value arg) (w_st w) = (b, e, s1)" by (metis surj_pair)
  have "upholds B \<alpha> w (w\<lparr>w_st := s1\<rparr>)" using policy_unban [OF assms u] by (auto simp: upholds_def)
  from upholds_trans [OF this upholds_bans [OF assms]] show ?thesis
    by (simp add: press_unban_def on_st_def u Let_def upholds_def)
qed

lemma upholds_save_ban:
  assumes "lawful_redis (b_redis B) \<alpha>" "isAdmin B u"
  shows "upholds B \<alpha> w (snd (adminSaveBan B m u lang raw w))"
proof -
  have "policy_ok B (\<alpha> s) \<Longrightarrow> uid \<noteq> u \<Longrightarrow> policy_ok B (\<alpha> (snd (BanUser (b_redis B) uid s)))" for uid s
    using policy_ban [OF assms(1), of uid s] assms(2) by (metis isAdmin_def prod.collapse)
  then show ?thesis
    by (auto simp: adminSaveBan_def Let_def upholds_def do_st_def split_beta split: option.splits)
qed

lemma upholds_stats:
  assumes "lawful_redis (b_redis B) \<alpha>" "renderStats B ss lang w = (t, w1)"
  shows "upholds B \<alpha> w w1"
proof -
  obtain n e s1 where b: "BannedCount (b_redis B) (w_st w) = (n, e, s1)" by (metis surj_pair)
  obtain r s2 where c: "CountActiveUsers (b_redis B) (b_now B s1) (30 * 60 * 1000000) s1 = (r, s2)" by fastforce
  have "w_st w1 = s1 \<or> w_st w1 = s2"
    using assms(2) b c by (auto simp: renderStats_def on_st_def Let_def split: sum.splits)
  then show ?thesis
    using policy_reads(3) [OF assms(1) _ b] policy_count [OF assms(1) _ c] by (auto simp: upholds_def)
qed

lemma upholds_post: "upholds B \<alpha> w w' \<Longrightarrow> upholds B \<alpha> w (post B e w')"
  by (simp add: upholds_def)

lemma upholds_ack [simp]: "upholds B \<alpha> w (ack B q w') = upholds B \<alpha> w w'"
  by (simp add: upholds_def)

lemma upholds_start_edit:
  assumes "lawful_redis (b_redis B) \<alpha>"
  shows "upholds B \<alpha> w (adminStartEdit B q pos k lang w)"
proof (cases "Lookup k")
  case (Some def)
  let ?w = "fsm_set (u_id (q_from q)) ''admin_edit'' [(''redis_key'', k), (''service'', Service def)] w"
  obtain v w1 where v: "rt_value B def ?w = (v, w1)" by fastforce
  show ?thesis using upholds_value [OF assms v] by (simp add: adminStartEdit_def Some v Let_def upholds_def)
qed (simp add: adminStartEdit_def upholds_def)

lemma upholds_save_edit:
  assumes "lawful_redis (b_redis B) \<alpha>"
  shows "upholds B \<alpha> w (snd (adminSaveEdit B m u lang k raw w))"
proof (cases "Lookup k")
  case (Some def)
  show ?thesis
  proof (cases "Validate def raw")
    case None
    let ?w2 = "fsm_clear u (rt_set B k (Parse def raw) w)"
    let ?w3 = "post B (Send (m_chat m) (Loc ''admin.saved'' lang
        [(''label'', KindLabel def), (''value'', FormatValue (Parse def raw) def)]) []) ?w2"
    obtain t w4 where t: "serviceSummary B (Service def) lang ?w3 = (t, w4)" by fastforce
    have "upholds B \<alpha> w (rt_set B k (Parse def raw) w)" using upholds_set [OF assms Some Parse_valid [OF None]] .
    then show ?thesis using upholds_summary [OF assms t]
      by (simp add: adminSaveEdit_def Some None Let_def t upholds_def)
  qed (simp add: adminSaveEdit_def Some upholds_def)
qed (simp add: adminSaveEdit_def upholds_def)

lemma upholds_enum:
  assumes "lawful_redis (b_redis B) \<alpha>" "trim_space v = v"
  shows "upholds B \<alpha> w (adminSetEnum B q pos k v lang w)"
proof (cases "Lookup k")
  case (Some def)
  show ?thesis
  proof (cases "ValueType def = TypeEnum \<and> Validate def v = None")
    case True
    then have "valid_value def (VStr v)" using Parse_valid [of def v] assms(2) by (simp add: Parse_def Let_def)
    from upholds_trans [OF upholds_set [OF assms(1) Some this] upholds_show [OF assms(1)]]
    show ?thesis using True by (simp add: adminSetEnum_def Some upholds_def)
  qed (auto simp: adminSetEnum_def Some upholds_def split: option.splits)
qed (simp add: adminSetEnum_def upholds_def)

lemma upholds_toggle:
  assumes "lawful_redis (b_redis B) \<alpha>" "\<And>def. Lookup k = Some def \<Longrightarrow> ValueType def = TypeBool"
  shows "upholds B \<alpha> w (adminToggleBool B q pos k lang w)"
proof (cases "Lookup k")
  case (Some def)
  obtain v w1 where v: "rt_value B def w = (v, w1)" by fastforce
  have "valid_value def (VBool (\<not> is_true v))" using assms(2) [OF Some] by (simp add: valid_value_def)
  from upholds_trans [OF upholds_set [OF assms(1) Some this] upholds_show [OF assms(1)]]
  show ?thesis using upholds_value [OF assms(1) v] by (simp add: adminToggleBool_def Some v Let_def upholds_def)
qed (simp add: adminToggleBool_def upholds_def)

lemma upholds_confirm:
  assumes "lawful_redis (b_redis B) \<alpha>"
  shows "upholds B \<alpha> w (adminConfirm B q pos args lang w)" "upholds B \<alpha> w (adminReset B q pos args lang w)"
proof -
  have svc: "upholds B \<alpha> w (show_service B pos x lang (rt_reset B (ServiceSettings x) w))" for x
    using upholds_trans [OF upholds_reset [OF assms] upholds_show [OF assms]] .
  note all = upholds_reset_all [OF assms]
  show "upholds B \<alpha> w (adminConfirm B q pos args lang w)" "upholds B \<alpha> w (adminReset B q pos args lang w)"
    using svc all by (auto simp: adminConfirm_def adminReset_def upholds_def split: list.split)
qed

lemma upholds_page:
  assumes "lawful_redis (b_redis B) \<alpha>"
  shows "upholds B \<alpha> w (admin_page B ss q pos what args lang w)"
proof -
  obtain t w1 where t: "renderStats B ss lang w = (t, w1)" by fastforce
  have clear: "upholds B \<alpha> (fsm_clear u w) w' \<Longrightarrow> upholds B \<alpha> w w'" for u w' by (simp add: upholds_def)
  show ?thesis
    using upholds_stats [OF assms t] clear [OF upholds_show [OF assms]] clear [OF upholds_bans [OF assms]]
      upholds_start_edit [OF assms]
    by (auto simp: admin_page_def Let_def t upholds_def)
qed

text \<open>A press of a button the panel offers, as opposed to data made up by a client.\<close>

definition genuine :: "string \<Rightarrow> bool" where
  "genuine d =
     (case split_char CHR ''|'' d of
        tag # what # k # rest \<Rightarrow>
          (what = ''edit_bool'' \<longrightarrow> (case Lookup k of Some def \<Rightarrow> ValueType def = TypeBool | None \<Rightarrow> True))
          \<and> (what = ''set_enum'' \<and> rest \<noteq> [] \<longrightarrow> trim_space (hd rest) = hd rest)
      | _ \<Rightarrow> True)"

lemma upholds_button:
  assumes "lawful_redis (b_redis B) \<alpha>" "genuine (q_data q)"
  shows "upholds B \<alpha> w (onAdminCallback B ss q w)"
proof -
  let ?u = "u_id (q_from q)"
  have ack: "upholds B \<alpha> w (ack B q w)" for w by (simp add: upholds_def)
  show ?thesis
  proof (cases "(?u = 0 \<or> \<not> isAdmin B ?u) \<or> q_msg q = None")
    case True
    then show ?thesis using ack by (auto simp: onAdminCallback_def Let_def)
  next
    case op: False
    then obtain pos where pos: "q_msg q = Some pos" by auto
    obtain lang w1 where l: "db_lang B ?u w = (lang, w1)" by fastforce
    have st: "upholds B \<alpha> w w1" by (rule upholds_pure) (rule db_lang_st [OF l])
    show ?thesis
    proof (cases "\<exists>what args. split_char CHR ''|'' (q_data q) = ''admin'' # what # args")
      case False
      then have "onAdminCallback B ss q w = ack B q w1"
        using op False pos l by (auto simp: onAdminCallback_def Let_def split: list.split)
      then show ?thesis using st by (simp add: upholds_def)
    next
      case True
      then obtain what args where d: "split_char CHR ''|'' (q_data q) = ''admin'' # what # args" by blast
      have bool: "what = ''edit_bool'' \<Longrightarrow> args \<noteq> [] \<Longrightarrow> Lookup (hd args) = Some def \<Longrightarrow> ValueType def = TypeBool" for def
        using assms(2) d by (cases args) (auto simp: genuine_def)
      have enum: "what = ''set_enum'' \<Longrightarrow> length args \<ge> 2 \<Longrightarrow> trim_space (args ! 1) = args ! 1"
        using assms(2) d by (cases args; cases "tl args") (auto simp: genuine_def)
      have "upholds B \<alpha> w1 (onAdminCallback B ss q w)"
        using op pos l d upholds_unban [OF assms(1)] upholds_toggle [OF assms(1), of "hd args"] bool
          upholds_enum [OF assms(1)] enum upholds_confirm [OF assms(1)] upholds_page [OF assms(1)]
        by (simp add: onAdminCallback_def)
      then show ?thesis using upholds_trans st by blast
    qed
  qed
qed

text \<open>The panel only offers genuine buttons.\<close>

lemma registry_plain: "list_all (\<lambda>d. CHR ''|'' \<notin> set (RedisKey d) \<and> list_all (\<lambda>v. CHR ''|'' \<notin> set v \<and> trim_space v = v) (Allowed d)) registry"
  by (simp add: registry_def intSetting_def boolSetting_def choiceSetting_def trim_space_def trim_left_def is_space_def)

lemma registry_lookup: "list_all (\<lambda>d. Lookup (RedisKey d) = Some d) registry"
proof -
  have "distinct (List.map RedisKey registry)"
    by (simp add: registry_def intSetting_def boolSetting_def choiceSetting_def)
  then show ?thesis
    by (auto simp: list_all_iff Lookup_def rev_map [symmetric] o_def intro!: map_of_is_SomeI)
qed

lemma split_char_pair: "CHR ''|'' \<notin> set a \<Longrightarrow> split_char CHR ''|'' (a @ CHR ''|'' # b) = a # split_char CHR ''|'' b"
  by (simp add: split_char_append)

lemma offered_genuine:
  assumes "b \<in> set (concat (serviceKeyboard service lang))"
  shows "genuine (btn_data b)"
proof -
  have set: "genuine (btn_data b)" if "def \<in> set (ServiceSettings service)" "b \<in> set (concat (setting_buttons lang def))" for def
  proof -
    have r: "def \<in> set registry" using that(1) by (simp add: ServiceSettings_def)
    then have p: "CHR ''|'' \<notin> set (RedisKey def)" "\<And>v. v \<in> set (Allowed def) \<Longrightarrow> CHR ''|'' \<notin> set v \<and> trim_space v = v"
      using registry_plain by (auto simp: list_all_iff)
    have look: "ValueType def = TypeBool \<longrightarrow> (case Lookup (RedisKey def) of Some d \<Rightarrow> ValueType d = TypeBool | None \<Rightarrow> True)"
      using registry_lookup r by (auto simp: list_all_iff)
    show ?thesis
      using that(2) p look
      by (auto simp: setting_buttons_def button_def genuine_def Let_def split_char_no_sep split_char_pair split: value_type.splits)
  qed
  have other: "genuine (''admin|confirm|reset_svc|'' @ service)" "genuine ''admin|menu''"
    by (auto simp: genuine_def split: list.split)
  show ?thesis
    using assms set other by (auto simp: serviceKeyboard_def back_to_def button_def)
qed

subsection \<open>Everything the operator does\<close>

text \<open>
  One turn of the program as far as settings and bans are concerned: a command, a press or a typed text of any user,
  or something else that leaves both alone.
\<close>

inductive panel_event :: "'s work_env \<Rightarrow> stats_source \<Rightarrow> ('s \<Rightarrow> redis_db) \<Rightarrow> 's wworld \<Rightarrow> 's wworld \<Rightarrow> bool"
  for B ss \<alpha> where
  menu: "panel_event B ss \<alpha> w (onAdmin B m w)"
| stats: "panel_event B ss \<alpha> w (onStats B ss m w)"
| pressed: "genuine (q_data q) \<Longrightarrow> panel_event B ss \<alpha> w (onAdminCallback B ss q w)"
| typed: "panel_event B ss \<alpha> w (snd (handleAdminFSM B m lang w))"
| messages: "panel_event B ss \<alpha> w (onBroadcast B m w)"
| broadcast: "panel_event B ss \<alpha> w (onBroadcastCallback B fmt q w)"
| elsewhere: "override (\<alpha> (w_st w')) = override (\<alpha> (w_st w)) \<Longrightarrow> banned (\<alpha> (w_st w')) = banned (\<alpha> (w_st w))
    \<Longrightarrow> panel_event B ss \<alpha> w w'"

lemma on_db_st: "w_st (snd (on_db f w)) = w_st w"
  by (simp add: on_db_def split_beta)

lemma fst_on_db: "on_db f w = (fst (f (w_db w)), snd (on_db f w))"
  by (simp add: on_db_def split_beta)

lemma lang_st: "w_st (snd (db_lang B u w)) = w_st w"
  by (cases "db_lang B u w") (simp add: db_lang_st)

lemma broadcast_pages_st:
  "w_st (send_test B q i lang w) = w_st w"
  "w_st (showBroadcastHistory B fmt pos lang w) = w_st w"
  "w_st (showBroadcastStatus B pos lang w) = w_st w"
  "w_st (showBroadcastPreview B q pos i a lang w) = w_st w"
  "w_st (queueBroadcast B q pos i a lang w) = w_st w"
  "w_st (showAudienceSelection B chat i lang w) = w_st w"
  by (auto dest!: db_st simp: send_test_def showBroadcastHistory_def showBroadcastStatus_def showBroadcastPreview_def queueBroadcast_def
      showAudienceSelection_def Let_def emit_def split: prod.splits sum.splits list.splits option.splits)

lemma broadcast_st:
  "w_st (onBroadcast B m w) = w_st w" "w_st (onBroadcastCallback B fmt q w) = w_st w"
  "w_st (snd (broadcastSaveText B m u lang t i w)) = w_st w"
proof -
  show "w_st (onBroadcast B m w) = w_st w"
    by (cases "m_from m") (simp_all add: onBroadcast_def Let_def split_beta lang_st)
  show "w_st (onBroadcastCallback B fmt q w) = w_st w"
    by (simp add: onBroadcastCallback_def Let_def split_beta lang_st broadcast_pages_st split: option.split list.split)
  show "w_st (snd (broadcastSaveText B m u lang t i w)) = w_st w"
    by (auto simp: broadcastSaveText_def Let_def broadcast_pages_st on_db_st dest!: db_st split: prod.splits sum.splits option.splits)
qed

lemma panel_upholds:
  assumes "lawful_redis (b_redis B) \<alpha>" "panel_event B ss \<alpha> w w'"
  shows "upholds B \<alpha> w w'"
  using assms(2)
proof cases
  case (menu m)
  then show ?thesis
    by (auto simp: onAdmin_def Let_def upholds_def dest!: db_lang_st split: option.splits prod.splits if_splits)
next
  case (stats m)
  then show ?thesis using upholds_stats [OF assms(1)]
    by (fastforce simp: onStats_def Let_def upholds_def dest!: db_lang_st split: option.splits prod.splits if_splits)
next
  case (pressed q)
  then show ?thesis using upholds_button [OF assms(1)] by simp
next
  case (typed m lang)
  then show ?thesis
    using upholds_save_edit [OF assms(1)] upholds_save_ban [OF assms(1)]
    by (auto simp: handleAdminFSM_def Let_def upholds_def broadcast_st split: option.splits)
qed (simp_all add: upholds_def broadcast_st policy_ok_def stored_ok_def)

lemma panel_run:
  assumes "lawful_redis (b_redis B) \<alpha>" "(panel_event B ss \<alpha>)\<^sup>*\<^sup>* w w'"
  shows "upholds B \<alpha> w w'"
  using assms(2)
proof (induction rule: rtranclp_induct)
  case (step a b)
  then show ?case using upholds_trans panel_upholds [OF assms(1)] by blast
qed simp

text \<open>
  C24. Whatever is done with the operator's panel, in any order and by anyone, with a Redis that may fail at any call: if
  at first every stored override belongs to a setting of the registry and is the written form of a value that setting
  accepts, and the operator is not banned, this still holds afterwards. A number is accepted between the minimum and the
  maximum of its setting, where a minimum of 0 is no bound, so that negative numbers pass. Buttons are those the panel
  offers: a switch is pressed for a boolean setting and a choice has no outer spaces, and every button of the
  keyboard of a service is of this kind.
\<close>

theorem settings_stay_valid:
  assumes "lawful_redis (b_redis B) \<alpha>" "(panel_event B ss \<alpha>)\<^sup>*\<^sup>* w w'"
    and "stored_ok (\<alpha> (w_st w))" "c_AdminTelegramID (b_cfg B) \<notin> banned (\<alpha> (w_st w))"
  shows "stored_ok (\<alpha> (w_st w')) \<and> c_AdminTelegramID (b_cfg B) \<notin> banned (\<alpha> (w_st w'))
    \<and> (\<forall>service lang. \<forall>b \<in> set (concat (serviceKeyboard service lang)). genuine (btn_data b))"
  using panel_run [OF assms(1,2)] assms(3,4) offered_genuine by (auto simp: upholds_def policy_ok_def)

definition admin_env :: "redis_db work_env" where
  "admin_env = (sample_work_env [])\<lparr>b_cfg := (b_cfg (sample_work_env []))\<lparr>c_AdminTelegramID := 7\<rparr>\<rparr>"

definition no_stats :: stats_source where
  "no_stats = \<lparr>ss_fetch = (\<lambda>n. Inl ''no rows''), ss_updated = []\<rparr>"

lemma settings_stay_valid_witness:
  "let w1 = onAdminCallback admin_env no_stats (press ''admin|edit|reddit.max_comments'') (sample_wworld\<lparr>w_st := empty_db\<rparr>);
       w2 = snd (handleAdminFSM admin_env (says ''25'') ''en'' w1) in
   stored_ok (w_st w2) \<and> 7 \<notin> banned (w_st w2)"
proof -
  let ?w1 = "onAdminCallback admin_env no_stats (press ''admin|edit|reddit.max_comments'') (sample_wworld\<lparr>w_st := empty_db\<rparr>)"
  let ?w2 = "snd (handleAdminFSM admin_env (says ''25'') ''en'' ?w1)"
  have law: "lawful_redis (b_redis admin_env) (\<lambda>db. db)" by (simp add: admin_env_def lawful_ref_redis)
  have gen: "genuine (q_data (press ''admin|edit|reddit.max_comments''))" by (simp add: genuine_def press_def)
  have run: "(panel_event admin_env no_stats (\<lambda>db. db))\<^sup>*\<^sup>* (sample_wworld\<lparr>w_st := empty_db\<rparr>) ?w2"
    using panel_event.pressed [OF gen] panel_event.typed by (meson rtranclp.rtrancl_into_rtrancl rtranclp.rtrancl_refl)
  have "stored_ok empty_db" "7 \<notin> banned empty_db"
    by (simp_all add: stored_ok_def override_def banned_def empty_db_def)
  then show ?thesis
    using settings_stay_valid [OF law run] by (simp add: Let_def admin_env_def)
qed

lemma setting_read:
  assumes "lawful_redis (b_redis B) \<alpha>" "reliable_redis (b_redis B)"
  shows "fst (rt_value B def w) = setting_of (Some (b_cfg B)) (\<alpha> (w_st w)) def"
proof -
  obtain r s where g: "RuntimeGet (b_redis B) (RedisKey def) (w_st w) = (r, s)" by fastforce
  have "r \<noteq> Inl e" for e
    using g reliable_call [OF assms(2)] by (auto simp: RuntimeGet_def split: prod.splits sum.splits reply.splits option.splits rval.splits)
  with RuntimeGet_cases [OF assms(1) g] have "r = Inr (override (\<alpha> (w_st w)) (RedisKey def))" by auto
  then show ?thesis by (simp add: rt_value_def on_st_def CurrentValue_def g setting_of_def split_beta split: option.split)
qed

text \<open>
  C25. A value typed after pressing a setting takes effect. With a Redis that answers, when the operator presses the
  button of a setting that is typed and then sends a text the setting accepts, the text is consumed, the operator is
  no longer asked, every later read of the setting gives the parsed value, and no other setting changed.
\<close>

theorem typed_value_is_used:
  assumes "lawful_redis (b_redis B) \<alpha>" "reliable_redis (b_redis B)"
    and "isAdmin B (u_id u)" "q_from q = u" "q_msg q = Some pos" "q_data q = ''admin|edit|'' @ k" "Lookup k = Some def"
    and "m_from m = Some u" "trim_space (m_text m) = raw" "raw \<noteq> []" "Validate def raw = None"
    and "w1 = onAdminCallback B ss q w" "handleAdminFSM B m lang w1 = (used, w2)"
  shows "used \<and> w_fsm w2 (u_id u) = None \<and> fst (rt_value B def w2) = Parse def raw
    \<and> (def' \<noteq> def \<longrightarrow> def' \<in> set registry \<longrightarrow> setting_of cfg (\<alpha> (w_st w2)) def' = setting_of cfg (\<alpha> (w_st w)) def')"
proof -
  let ?u = "u_id u"
  have key: "RedisKey def = k" and reg: "def \<in> set registry"
    using Lookup_key [OF assms(7)] assms(7) by (auto simp: Lookup_def dest!: map_of_SomeD)
  then have plain: "CHR ''|'' \<notin> set k" using registry_plain by (auto simp: list_all_iff)
  then have split: "split_char CHR ''|'' (q_data q) = [''admin'', ''edit'', k]"
    by (simp add: assms(6) split_char_no_sep)
  have op: "?u \<noteq> 0" using assms(3) by (auto simp: isAdmin_def)
  obtain l wa where l: "db_lang B ?u w = (l, wa)" by fastforce
  let ?wb = "fsm_set ?u ''admin_edit'' [(''redis_key'', k), (''service'', Service def)] wa"
  obtain v wc where v: "rt_value B def ?wb = (v, wc)" by fastforce
  have w1: "\<alpha> (w_st w1) = \<alpha> (w_st w)"
    "w_fsm w1 ?u = Some \<lparr>pd_kind = ''admin_edit'', pd_data = [(''redis_key'', k), (''service'', Service def)]\<rparr>"
    using value_reads(1) [OF assms(1) v] db_lang_st [OF l] op assms(3,4,5,7)
    by (simp_all add: assms(12) onAdminCallback_def split l admin_page_def adminStartEdit_def v Let_def reads_def
        editAdminText_def ack_def)
  obtain e s2 where set: "SetValue (b_redis B) k (Parse def raw) (w_st w1) = (e, s2)" by fastforce
  then have "e = None"
    using reliable_exec [OF assms(2)] assms(7) by (auto simp: SetValue_def RuntimeSet_def)
  note ok = SetValue_ok [OF assms(1) set [unfolded this]]
  let ?w3 = "post B (Send (m_chat m) (Loc ''admin.saved'' lang
      [(''label'', KindLabel def), (''value'', FormatValue (Parse def raw) def)]) [])
      (fsm_clear ?u (w1\<lparr>w_st := s2\<rparr>))"
  obtain t w4 where t: "serviceSummary B (Service def) lang ?w3 = (t, w4)" by fastforce
  have res: "used" "w2 = post B (Send (m_chat m) t (serviceKeyboard (Service def) lang)) w4"
    using assms(3,7-11,13) w1(2) set t
    by (auto simp: handleAdminFSM_def fsm_Get_def Let_def adminSaveEdit_def rt_set_def do_st_def on_st_def data_get_def)
  have w2: "\<alpha> (w_st w2) = \<alpha> s2" "w_fsm w2 ?u = None"
    using summary_reads [OF assms(1) t] by (simp_all add: res(2) reads_def)
  have ov: "override (\<alpha> s2) = (override (\<alpha> (w_st w)))(k \<mapsto> serialise (Parse def raw) def)"
    using ok assms(7) w1(1) by auto
  have "setting_of (Some (b_cfg B)) (\<alpha> (w_st w2)) def = Parse def raw"
    using deserialise_serialise [OF Parse_valid [OF assms(11)]] key by (simp add: setting_of_def w2(1) ov)
  moreover have "fst (rt_value B def w2) = setting_of (Some (b_cfg B)) (\<alpha> (w_st w2)) def"
    by (rule setting_read [OF assms(1,2)])
  moreover have "RedisKey def' \<noteq> k" if "def' \<noteq> def" "def' \<in> set registry"
    using registry_lookup that assms(7) by (auto simp: list_all_iff)
  ultimately show ?thesis using res(1) w2 ov by (simp add: setting_of_def)
qed

lemma typed_value_is_used_witness:
  "\<exists>def w2. Lookup ''reddit.max_comments'' = Some def \<and> fst (rt_value admin_env def w2) = VInt 25"
proof -
  let ?k = "''reddit.max_comments''" and ?w = "sample_wworld\<lparr>w_st := empty_db\<rparr>"
  let ?d = "intSetting ?k ''RedditMaxComments'' ''reddit'' ''Max comments in article'' [] 0 100 10"
  have look: "Lookup ?k = Some ?d"
    by (simp add: Lookup_def registry_def intSetting_def boolSetting_def choiceSetting_def)
  have num: "atoi (itoa 25) = Some 25" "atoi_value (itoa 25) = 25" "trim_space (itoa 25) = itoa 25" "itoa 25 \<noteq> []"
    by (simp_all add: atoi_itoa atoi_value_itoa in_int64_def int64_min_def int64_max_def trim_space_itoa itoa_nonempty)
  have val: "Validate ?d (itoa 25) = None" and parse: "Parse ?d (itoa 25) = VInt 25"
    by (simp_all add: Validate_def Parse_def intSetting_def Let_def num)
  have env: "lawful_redis (b_redis admin_env) (\<lambda>db. db)" "reliable_redis (b_redis admin_env)" "isAdmin admin_env 7"
    by (simp_all add: admin_env_def lawful_ref_redis reliable_ref isAdmin_def)
  obtain used w2 where t: "handleAdminFSM admin_env (says (itoa 25)) ''en''
      (onAdminCallback admin_env no_stats (press (''admin|edit|'' @ ?k)) ?w) = (used, w2)" by fastforce
  have "fst (rt_value admin_env ?d w2) = Parse ?d (itoa 25)"
    using typed_value_is_used [OF env(1,2), of "q_from (press [])" "press (''admin|edit|'' @ ?k)" "(7, 3)" ?k ?d
        "says (itoa 25)" "itoa 25", OF _ _ _ _ look _ _ _ val refl t] env(3) num
    by (simp add: press_def says_def)
  then show ?thesis using look parse by auto
qed

end
