(* ===== verification/Music.thy ===== *)
theory Music
  imports Worker_Download
begin

text \<open>
  Music: releases of Spotify, Yandex Music and SoundCloud, their cards (\<open>spotify/card.go\<close>, \<open>yandexmusic/card.go\<close>,
  \<open>soundcloud/card.go\<close>), SoundCloud links (\<open>soundcloud/parser.go\<close>) and the search for a track on YouTube
  (\<open>audio/download.go\<close>).
\<close>

subsection \<open>Releases\<close>

record sp_track =
  st_id :: string
  st_title :: string
  st_artists :: string
  st_ms :: int
  st_url :: string
  st_disc :: int
  st_number :: int

record sp_release =
  sr_id :: string
  sr_title :: string
  sr_artists :: string
  sr_type :: string
  sr_date :: string
  sr_cover :: string
  sr_url :: string
  sr_tracks :: "sp_track list"

record ym_track =
  yt_id :: string
  yt_title :: string
  yt_artists :: string
  yt_ms :: int
  yt_url :: string

record ym_release =
  yr_id :: string
  yr_album :: string
  yr_album_title :: string
  yr_album_count :: int
  yr_title :: string
  yr_artists :: string
  yr_date :: string
  yr_cover :: string
  yr_url :: string
  yr_tracks :: "ym_track list"

record sc_track =
  ct_id :: string
  ct_title :: string
  ct_artist :: string
  ct_ms :: int
  ct_url :: string
  ct_artwork :: string
  ct_genre :: string
  ct_number :: int
  ct_fallback :: bool

record sc_release =
  cr_id :: string
  cr_title :: string
  cr_artist :: string
  cr_type :: string
  cr_artwork :: string
  cr_url :: string
  cr_tracks :: "sc_track list"

subsection \<open>Cards\<close>

text \<open>\<open>%d:%02d\<close> of the whole seconds; a negative length counts as nothing.\<close>

definition formatDuration :: "int \<Rightarrow> string" where
  "formatDuration millis = (let sec = (if millis < 0 then 0 else millis div 1000) in itoa (sec div 60) @ '':'' @ pad2 (sec mod 60))"

definition firstString :: "string list \<Rightarrow> string" where
  "firstString vs = (case filter (\<lambda>v. v \<noteq> []) vs of [] \<Rightarrow> [] | v # _ \<Rightarrow> v)"

definition no_download :: "string \<Rightarrow> string \<Rightarrow> bool \<Rightarrow> msg_text list" where
  "no_download k lang on = (if on then [] else [Lit [], Loc k lang []])"

definition sp_type_label :: "string \<Rightarrow> string" where
  "sp_type_label t = (if t \<in> {''album'', ''single'', ''compilation''} then ''spotify.type_'' @ t else t)"

definition sp_track_lines :: "sp_track \<Rightarrow> string \<Rightarrow> msg_text list" where
  "sp_track_lines t lang =
     [Loc ''spotify.track_card_title'' lang [(''artist'', st_artists t), (''title'', st_title t)],
      Loc ''spotify.duration'' lang [(''duration'', formatDuration (st_ms t))]]"

definition sp_album_lines :: "sp_release \<Rightarrow> string \<Rightarrow> msg_text list" where
  "sp_album_lines r lang =
     [Loc ''spotify.card_title'' lang [(''artist'', sr_artists r), (''name'', sr_title r)],
      Loc ''spotify.album_type'' lang [(''type'', sp_type_label (sr_type r))],
      Loc ''spotify.tracks_count'' lang [(''count'', itoa (int (length (sr_tracks r))))],
      Loc ''spotify.release_date'' lang [(''date'', sr_date r)]]"

definition sp_CardText :: "sp_release \<Rightarrow> string \<Rightarrow> bool \<Rightarrow> msg_text" where
  "sp_CardText r lang on =
     (let single = sr_type r = ''track'' \<or> length (sr_tracks r) = 1 in
      Cat (join_lines
        ((if single \<and> sr_tracks r \<noteq> [] then sp_track_lines (hd (sr_tracks r)) lang else sp_album_lines r lang)
         @ no_download ''spotify.no_download'' lang on)))"

definition sp_OpenKeyboard :: "sp_release \<Rightarrow> string \<Rightarrow> keyboard" where
  "sp_OpenKeyboard r lang = [[url_button (Loc ''spotify.btn_open'' lang []) (sr_url r)]]"

definition ym_CardText :: "ym_release \<Rightarrow> string \<Rightarrow> bool \<Rightarrow> msg_text" where
  "ym_CardText r lang on =
     (let lines = (case yr_tracks r of
            [t] \<Rightarrow>
              [Loc ''yandexmusic.track_card_title'' lang [(''artist'', yt_artists t), (''title'', yt_title t)],
               Loc ''yandexmusic.duration'' lang [(''duration'', formatDuration (yt_ms t))]]
              @ (if yr_album_title r \<noteq> []
                 then [Loc ''yandexmusic.album_name'' lang [(''name'', yr_album_title r)]] else [])
          | ts \<Rightarrow>
              [Loc ''yandexmusic.card_title'' lang [(''artist'', yr_artists r), (''name'', yr_title r)],
               Loc ''yandexmusic.tracks_count'' lang [(''count'', itoa (int (length ts)))]]
              @ (if yr_date r \<noteq> [] then [Loc ''yandexmusic.release_year'' lang [(''year'', yr_date r)]] else [])) in
      Cat (join_lines (lines @ no_download ''yandexmusic.no_download'' lang on)))"

definition AlbumCallbackPrefix :: string where "AlbumCallbackPrefix = ''ym:alb:''"

text \<open>A keyboard without buttons stands for none.\<close>

definition ym_OpenKeyboard :: "ym_release \<Rightarrow> string \<Rightarrow> keyboard" where
  "ym_OpenKeyboard r lang =
     (let row = (if yr_url r \<noteq> [] then [url_button (Loc ''yandexmusic.btn_open'' lang []) (yr_url r)] else [])
        @ (if length (yr_tracks r) = 1 \<and> yr_album r \<noteq> [] \<and> yr_album_count r > 1
           then [button (Loc ''yandexmusic.btn_download_album'' lang [(''count'', itoa (yr_album_count r))])
                   (AlbumCallbackPrefix @ yr_album r)]
           else []) in
      if row = [] then [] else [row])"

definition releaseUsesYouTubeFallback :: "sc_release \<Rightarrow> bool" where
  "releaseUsesYouTubeFallback r \<longleftrightarrow> list_ex ct_fallback (cr_tracks r)"

definition sc_track_lines :: "sc_release \<Rightarrow> sc_track \<Rightarrow> string \<Rightarrow> msg_text list" where
  "sc_track_lines r t lang =
     [Loc ''soundcloud.track_card_title'' lang
        [(''artist'', firstString [ct_artist t, cr_artist r]), (''title'', firstString [ct_title t, cr_title r])],
      Loc ''soundcloud.duration'' lang [(''duration'', formatDuration (ct_ms t))]]
     @ (if ct_genre t \<noteq> [] then [Loc ''soundcloud.genre'' lang [(''genre'', ct_genre t)]] else [])
     @ (if ct_fallback t then [Loc ''soundcloud.youtube_fallback_note'' lang []] else [])"

definition sc_list_lines :: "sc_release \<Rightarrow> string \<Rightarrow> msg_text list" where
  "sc_list_lines r lang =
     [Loc ''soundcloud.card_title'' lang [(''artist'', cr_artist r), (''name'', cr_title r)],
      Loc ''soundcloud.tracks_count'' lang [(''count'', itoa (int (length (cr_tracks r))))]]
     @ (if releaseUsesYouTubeFallback r then [Loc ''soundcloud.youtube_fallback_note'' lang []] else [])"

definition sc_CardText :: "sc_release \<Rightarrow> string \<Rightarrow> bool \<Rightarrow> msg_text" where
  "sc_CardText r lang on =
     (let single = cr_type r = ''track'' \<or> length (cr_tracks r) = 1 in
      Cat (join_lines
        ((if single \<and> cr_tracks r \<noteq> [] then sc_track_lines r (hd (cr_tracks r)) lang else sc_list_lines r lang)
         @ no_download ''soundcloud.no_download'' lang on)))"

definition sc_OpenKeyboard :: "sc_release \<Rightarrow> string \<Rightarrow> keyboard" where
  "sc_OpenKeyboard r lang = [[url_button (Loc ''soundcloud.btn_open'' lang []) (cr_url r)]]"

subsection \<open>SoundCloud links\<close>

datatype link_type = LinkTypeTrack | LinkTypePlaylist | LinkTypeShort

definition discoverPlaylist :: re where
  "discoverPlaylist = Seqs [scheme, www, ci ''soundcloud.com/discover/sets/'', Plus path_char]"

definition playlistURL :: re where
  "playlistURL = Seqs [scheme, www, ci ''soundcloud.com/'', Plus (word_i ''.-''), ci ''/sets/'', Plus path_char]"

definition trackURL :: re where
  "trackURL = Seqs [scheme, www, ci ''soundcloud.com/'', Plus (word_i ''.-''), lit ''/'', Plus (word_i ''.-'')]"

definition shortURL :: re where
  "shortURL = Seqs [scheme, ci ''on.soundcloud.com/'', Plus (word_i ''-'')]"

definition sc_patterns :: "(re \<times> link_type) list" where
  "sc_patterns = [(discoverPlaylist, LinkTypePlaylist), (playlistURL, LinkTypePlaylist), (shortURL, LinkTypeShort),
     (trackURL, LinkTypeTrack)]"

definition cut_at :: "string \<Rightarrow> string \<Rightarrow> string" where
  "cut_at s sep = (case index_of s sep of None \<Rightarrow> s | Some i \<Rightarrow> take i s)"

definition normalizeURL :: "string \<Rightarrow> string" where
  "normalizeURL url = trim_right_set ''/'' (cut_at (cut_at url ''?'') ''#'')"

fun sc_match :: "(re \<times> link_type) list \<Rightarrow> string \<Rightarrow> (link_type \<times> string) option" where
  "sc_match [] t = None"
| "sc_match ((r, typ) # rs) t =
     (let m = find_string r t in
      if m = [] then sc_match rs t
      else if typ = LinkTypeTrack \<and> contains (to_lower m) ''/sets/'' then sc_match rs t
      else Some (typ, normalizeURL m))"

definition ParseLink :: "string \<Rightarrow> (link_type \<times> string) result" where
  "ParseLink raw =
     (let t = trim_space raw in
      if t = [] then Inl ''invalid soundcloud url''
      else case sc_match sc_patterns t of None \<Rightarrow> Inl ''invalid soundcloud url'' | Some l \<Rightarrow> Inr l)"

subsection \<open>A track from YouTube or SoundCloud\<close>

text \<open>
  The search command with what decodes from its output (nothing when it does not decode; \<open>None\<close> is a null entry), a
  request for a picture (status, size, whether the whole body came), creating a file, and the decoders of the
  payload's release.
\<close>

record music_tools =
  mt_search :: "event list \<Rightarrow> string \<Rightarrow> (string \<times> rat) option list result"
  mt_get :: "event list \<Rightarrow> string \<Rightarrow> (int \<times> int \<times> bool) result"
  mt_create :: "event list \<Rightarrow> string \<Rightarrow> go_error option"
  mt_sp :: "string \<Rightarrow> sp_release result"
  mt_ym :: "string \<Rightarrow> ym_release result"
  mt_sc :: "string \<Rightarrow> sc_release result"
  mt_titles :: "string \<Rightarrow> string list result"

definition noted :: "event \<Rightarrow> 's wworld \<Rightarrow> 's wworld" where
  "noted e w = w\<lparr>w_log := w_log w @ [e]\<rparr>"

definition combineErrorText :: "go_error option \<Rightarrow> string list \<Rightarrow> string" where
  "combineErrorText err outputs = concat outputs @ (case err of None \<Rightarrow> [] | Some e \<Rightarrow> e)"

definition IsDRMProtectedError :: "go_error option \<Rightarrow> string list \<Rightarrow> bool" where
  "IsDRMProtectedError err outputs =
     (if err = None \<and> outputs = [] then False
      else contains (to_lower (combineErrorText err outputs)) ''drm protected'')"

text \<open>The candidates in the order of the search, or by closeness of their length (a stable sort).\<close>

definition candidates_of :: "(string \<times> rat) option list \<Rightarrow> (string \<times> rat) list" where
  "candidates_of es = filter (\<lambda>c. fst c \<noteq> []) (List.map_filter id es)"

definition pickSearchCandidates :: "(string \<times> rat) option list \<Rightarrow> int \<Rightarrow> (string \<times> rat) list" where
  "pickSearchCandidates es durationMS =
     (let cs = candidates_of es; target = of_int durationMS / 1000 in
      if durationMS > 0 then sort_key (\<lambda>c. \<bar>snd c - target\<bar>) cs else cs)"

definition resolveYouTubeSearch ::
  "music_tools \<Rightarrow> string \<Rightarrow> int \<Rightarrow> 's wworld \<Rightarrow> (string \<times> rat) list result \<times> 's wworld" where
  "resolveYouTubeSearch T query durationMS w =
     (let r = mt_search T (w_log w) query; w = noted (Exec [''yt-dlp'', ''ytsearch5:'' @ query]) w in
      (case r of
         Inl e \<Rightarrow> (Inl (''youtube search failed: '' @ combineErrorText (Some e) []), w)
       | Inr es \<Rightarrow>
           let cs = pickSearchCandidates es durationMS in
           (if cs = [] then Inl ''no youtube match for query'' else Inr cs, w)))"

definition maxSearchAttempts :: nat where "maxSearchAttempts = 3"

fun try_candidates ::
  "'s work_env \<Rightarrow> string \<Rightarrow> string \<Rightarrow> (string \<times> rat) list \<Rightarrow> go_error \<Rightarrow> 's wworld \<Rightarrow> string result \<times> 's wworld" where
  "try_candidates B dir format [] lastErr w = (Inl lastErr, w)"
| "try_candidates B dir format (c # cs) lastErr w =
     (case DownloadYouTubeAudio B (''https://www.youtube.com/watch?v='' @ fst c) dir format [] w of
        (Inr path, w) \<Rightarrow> (Inr path, w)
      | (Inl e, w) \<Rightarrow> if k_expired B (w_log w) then (Inl e, w) else try_candidates B dir format cs e w)"

definition DownloadFromYouTubeSearch ::
  "'s work_env \<Rightarrow> music_tools \<Rightarrow> string \<Rightarrow> string \<Rightarrow> string \<Rightarrow> int \<Rightarrow> 's wworld \<Rightarrow> string result \<times> 's wworld" where
  "DownloadFromYouTubeSearch B T query dir format durationMS w =
     (case resolveYouTubeSearch T query durationMS w of
        (Inl e, w) \<Rightarrow> (Inl e, w)
      | (Inr cs, w) \<Rightarrow>
          (case try_candidates B dir format (take maxSearchAttempts cs) [] w of
             (Inr path, w) \<Rightarrow> (Inr path, w)
           | (Inl e, w) \<Rightarrow> (Inl (''all youtube candidates failed for '' @ quote @ query @ quote @ '': '' @ e), w)))"

definition DownloadSoundCloudTrack ::
  "'s work_env \<Rightarrow> string \<Rightarrow> string \<Rightarrow> string \<Rightarrow> 's wworld \<Rightarrow> string result \<times> 's wworld" where
  "DownloadSoundCloudTrack B url dir format w =
     (case k_mkdir B (w_log w) dir of
        Some e \<Rightarrow> (Inl e, w)
      | None \<Rightarrow>
          let format = (if format = [] then ''mp3'' else format);
              args = [''--no-warnings'', ''--quiet'', ''--no-playlist'', ''-f'', ''bestaudio/best'', ''-o'',
                      join_path dir ''%(title).100s.%(ext)s'', ''--extract-audio'', ''--audio-format'', format, url] in
          (case on_fs (k_ytdlp B (w_log w) args) w of
             ((out, err), w) \<Rightarrow>
               let w = noted (Exec [''yt-dlp'', ''bestaudio/best'', url]) w in
               (case err of
                  Some e \<Rightarrow> (Inl (if trim_space out = [] then e else trim_space out @ '': '' @ e), w)
                | None \<Rightarrow> (findAudioFile (k_mtime B (w_fs w)) dir (k_readdir B (w_fs w) dir), w))))"

end
