(* ===== verification/Handler_Music.thy ===== *)
theory Handler_Music
  imports Music
begin

text \<open>
  Links of the music services in a chat (\<open>handler/music.go\<close>): the lock of the user, the card of the release, and the
  job that downloads its tracks.
\<close>

text \<open>
  The clients of the services and what \<open>encoding/json\<close> makes of a release. An error of a client comes with the name of
  the sentinel error it wraps.
\<close>

record music_clients =
  mc_spotify_on :: bool
  mc_spotify :: "event list \<Rightarrow> string \<Rightarrow> string \<Rightarrow> client_error + sp_release"
  mc_yandex_on :: bool
  mc_yandex :: "event list \<Rightarrow> string \<Rightarrow> string \<Rightarrow> client_error + ym_release"
  mc_soundcloud :: "event list \<Rightarrow> link_type \<times> string \<Rightarrow> int \<Rightarrow> client_error + sc_release"
  mc_sp_json :: "sp_release \<Rightarrow> string"
  mc_ym_json :: "ym_release \<Rightarrow> string"
  mc_sc_json :: "sc_release \<Rightarrow> string"

definition send_loc :: "'s bot_env \<Rightarrow> int \<Rightarrow> string \<Rightarrow> string \<Rightarrow> (string \<times> string) list \<Rightarrow> 's world \<Rightarrow> 's world" where
  "send_loc B chat k lang args w = post B (Send chat (Loc k lang args) []) w"

definition sendMusicCard :: "'s bot_env \<Rightarrow> int \<Rightarrow> string \<Rightarrow> msg_text \<Rightarrow> keyboard \<Rightarrow> 's world \<Rightarrow> 's world" where
  "sendMusicCard B chat cover t kb w =
     (if cover \<noteq> [] then post B (Cover chat cover t kb) w else post B (Send chat t kb) w)"

text \<open>What the three services share after the card: the status message, then the job, and the lock back on a failure.\<close>

definition zero_music :: music_payload where
  "zero_music = \<lparr>mp_platform = [], mp_chat = 0, mp_user = 0, mp_message = 0, mp_lang = [], mp_lock_token = [],
     mp_lock_scene = [], mp_link_type = [], mp_resource = [], mp_source_url = [], mp_release = []\<rparr>"

definition start_music_job ::
  "'s bot_env \<Rightarrow> int \<Rightarrow> int \<Rightarrow> string \<Rightarrow> string \<Rightarrow> string \<Rightarrow> nat \<Rightarrow> (music_payload \<Rightarrow> request) \<Rightarrow> music_payload
     \<Rightarrow> 's world \<Rightarrow> 's world" where
  "start_music_job B chat userID lang platform token n enqueue_it p w =
     (let kb = (if token \<noteq> [] then cancel_Keyboard lang platform userID token else []) in
      case emit B (Send chat (Loc (platform @ ''.download_starting'') lang [(''total'', itoa (int n))]) kb) w of
        (Inl e, w) \<Rightarrow> release_token B userID platform token w
      | (Inr mid, w) \<Rightarrow>
          (case emit B (Job (enqueue_it (p\<lparr>mp_platform := platform, mp_chat := chat, mp_user := userID, mp_message := mid,
                  mp_lang := lang, mp_lock_token := token, mp_lock_scene := platform\<rparr>))) w of
             (Inl e, w) \<Rightarrow>
               release_token B userID platform token
                 (post B (Edit chat mid (Loc (platform @ ''.download_failed'') lang []) []) w)
           | (Inr _, w) \<Rightarrow> w))"

definition rt_on :: "'s bot_env \<Rightarrow> string \<Rightarrow> bool \<Rightarrow> 's world \<Rightarrow> bool \<times> 's world" where
  "rt_on B k fallback = on_st (CurrentBool (b_redis B) (Some (b_cfg B)) k fallback)"

definition with_music_lock ::
  "'s bot_env \<Rightarrow> int \<Rightarrow> string \<Rightarrow> int \<Rightarrow> ('s world \<Rightarrow> 's world) \<Rightarrow> (string \<Rightarrow> 's world \<Rightarrow> 's world) \<Rightarrow> 's world \<Rightarrow> 's world" where
  "with_music_lock B userID scene maxTracks busy go w =
     (case acquireUserLock B userID scene (musicLockTTL (b_cfg B) scene maxTracks) w of
        (Inl e, w) \<Rightarrow> w
      | (Inr (token, ok), w) \<Rightarrow> if \<not> ok then busy w else go token w)"

text \<open>The card, and the job when downloads are on and there is a track; \<open>p\<close> is what the service fills in.\<close>

definition card_and_job ::
  "'s bot_env \<Rightarrow> int \<Rightarrow> int \<Rightarrow> string \<Rightarrow> string \<Rightarrow> string \<Rightarrow> bool \<Rightarrow> string \<Rightarrow> (bool \<Rightarrow> msg_text) \<Rightarrow> keyboard \<Rightarrow> nat
     \<Rightarrow> (music_payload \<Rightarrow> request) \<Rightarrow> music_payload \<Rightarrow> 's world \<Rightarrow> 's world" where
  "card_and_job B chat userID lang platform token fallback cover caption kb n enqueue_it p w =
     (let (on, w) = rt_on B (platform @ ''.download_enabled'') fallback w;
          w = sendMusicCard B chat cover (caption on) kb w in
      if \<not> on \<or> n = 0 then release_token B userID platform token w
      else start_music_job B chat userID lang platform token n enqueue_it p w)"

text \<open>From the lock on.\<close>

definition spotify_release ::
  "'s bot_env \<Rightarrow> music_clients \<Rightarrow> int \<Rightarrow> int \<Rightarrow> string \<Rightarrow> string \<Rightarrow> string \<Rightarrow> string \<Rightarrow> 's world \<Rightarrow> 's world" where
  "spotify_release B C chat userID lang typ i token w =
     (let stop = (\<lambda>k. release_token B userID ''spotify'' token (send_loc B chat k lang [] w)) in
      if \<not> c_SpotifyEnabled (b_cfg B) then stop ''spotify.disabled''
      else if \<not> mc_spotify_on C then stop ''spotify.not_configured''
      else case mc_spotify C (w_log w) typ i of
        Inl err \<Rightarrow>
          stop (if snd err = ''ErrNotFound'' then ''spotify.not_found''
                else if snd err = ''ErrAuth'' then ''spotify.not_configured'' else ''spotify.api_error'')
      | Inr r \<Rightarrow>
          card_and_job B chat userID lang ''spotify'' token (c_SpotifyDownloadEnabled (b_cfg B)) (sr_cover r)
            (sp_CardText r lang) (sp_OpenKeyboard r lang) (length (sr_tracks r)) (EnqueueSpotify id)
            (zero_music\<lparr>mp_link_type := typ, mp_resource := i, mp_release := mc_sp_json C r\<rparr>) w)"

definition handleSpotifyLink ::
  "'s bot_env \<Rightarrow> music_clients \<Rightarrow> message \<Rightarrow> int \<Rightarrow> string \<Rightarrow> parsed_link \<Rightarrow> 's world \<Rightarrow> 's world" where
  "handleSpotifyLink B C m userID lang link w =
     (if spotify_id link = [] \<or> spotify_typ link = [] then send_loc B (m_chat m) ''errors.unsupported'' lang [] w
      else with_music_lock B userID ''spotify'' (c_SpotifyLockMaxTracks (b_cfg B)) (replyBusy B m userID lang)
        (spotify_release B C (m_chat m) userID lang (spotify_typ link) (spotify_id link)) w)"

definition replyYandexFetchError :: "'s bot_env \<Rightarrow> int \<Rightarrow> string \<Rightarrow> client_error \<Rightarrow> 's world \<Rightarrow> 's world" where
  "replyYandexFetchError B chat lang err w =
     (let k = snd err in
      send_loc B chat (if k = ''ErrNotFound'' then ''yandexmusic.not_found''
        else if k = ''ErrAuth'' then ''yandexmusic.not_configured''
        else if k = ''ErrGeo'' then ''yandexmusic.geoblocked'' else ''yandexmusic.api_error'') lang [] w)"

definition sendYandexCardAndEnqueue ::
  "'s bot_env \<Rightarrow> music_clients \<Rightarrow> int \<Rightarrow> int \<Rightarrow> string \<Rightarrow> ym_release \<Rightarrow> string \<Rightarrow> 's world \<Rightarrow> 's world" where
  "sendYandexCardAndEnqueue B C chat userID lang r token w =
     (let p = (case yr_tracks r of
                 [t] \<Rightarrow> zero_music\<lparr>mp_link_type := ''track'', mp_resource := yt_id t, mp_source_url := yt_url t\<rparr>
               | _ \<Rightarrow> zero_music\<lparr>mp_link_type := ''album'', mp_resource := yr_album r, mp_source_url := yr_url r\<rparr>) in
      card_and_job B chat userID lang ''yandexmusic'' token (c_YandexMusicDownloadEnabled (b_cfg B)) (yr_cover r)
        (ym_CardText r lang) (ym_OpenKeyboard r lang) (length (yr_tracks r)) (EnqueueYandexMusic id)
        (p\<lparr>mp_release := mc_ym_json C r\<rparr>) w)"

text \<open>From the lock on, for a link and for the album button.\<close>

definition yandex_release ::
  "'s bot_env \<Rightarrow> music_clients \<Rightarrow> int \<Rightarrow> int \<Rightarrow> string \<Rightarrow> string \<Rightarrow> string \<Rightarrow> string \<Rightarrow> 's world \<Rightarrow> 's world" where
  "yandex_release B C chat userID lang albumID trackID token w =
     (if \<not> mc_yandex_on C then
        release_token B userID ''yandexmusic'' token (send_loc B chat ''yandexmusic.not_configured'' lang [] w)
      else case mc_yandex C (w_log w) albumID trackID of
        Inl err \<Rightarrow> release_token B userID ''yandexmusic'' token (replyYandexFetchError B chat lang err w)
      | Inr r \<Rightarrow> sendYandexCardAndEnqueue B C chat userID lang r token w)"

definition handleYandexMusicLink ::
  "'s bot_env \<Rightarrow> music_clients \<Rightarrow> message \<Rightarrow> int \<Rightarrow> string \<Rightarrow> parsed_link \<Rightarrow> 's world \<Rightarrow> 's world" where
  "handleYandexMusicLink B C m userID lang link w =
     (if yandex_album_id link = [] \<and> yandex_track_id link = [] then
        send_loc B (m_chat m) ''errors.unsupported'' lang [] w
      else with_music_lock B userID ''yandexmusic'' (c_YandexMusicLockMaxTracks (b_cfg B)) (replyBusy B m userID lang)
        (yandex_release B C (m_chat m) userID lang (yandex_album_id link) (yandex_track_id link)) w)"

definition isNumericID :: "string \<Rightarrow> bool" where
  "isNumericID s \<longleftrightarrow> s \<noteq> [] \<and> list_all is_digit s"

definition onYandexAlbumDownload :: "'s bot_env \<Rightarrow> music_clients \<Rightarrow> callback \<Rightarrow> 's world \<Rightarrow> 's world" where
  "onYandexAlbumDownload B C q w =
     (let userID = u_id (q_from q); w = ack B q w in
      case q_msg q of
        None \<Rightarrow> w
      | Some (chat, mid) \<Rightarrow>
          let albumID = trim_prefix (q_data q) AlbumCallbackPrefix in
          if userID = 0 \<or> \<not> has_prefix (q_data q) AlbumCallbackPrefix \<or> \<not> isNumericID albumID then w
          else
            let lang = userLang B userID w;
                (on, w) = on_st (PlatformEnabled (b_redis B) (Some (b_cfg B)) ''yandexmusic'') w in
            if \<not> on then send_loc B chat ''yandexmusic.disabled'' lang [] w
            else with_music_lock B userID ''yandexmusic'' (c_YandexMusicLockMaxTracks (b_cfg B))
              (\<lambda>w. post B (Send chat (Loc ''errors.busy'' lang []) (QueueButton lang userID)) w)
              (yandex_release B C chat userID lang albumID []) w)"

definition soundcloud_release ::
  "'s bot_env \<Rightarrow> music_clients \<Rightarrow> int \<Rightarrow> int \<Rightarrow> string \<Rightarrow> link_type \<times> string \<Rightarrow> string \<Rightarrow> 's world \<Rightarrow> 's world" where
  "soundcloud_release B C chat userID lang link token w =
     (if \<not> c_SoundCloudEnabled (b_cfg B) then
        release_token B userID ''soundcloud'' token (send_loc B chat ''soundcloud.disabled'' lang [] w)
      else
        let (maxTracks, w) = on_st (CurrentInt (b_redis B) (Some (b_cfg B)) ''soundcloud.max_tracks_per_playlist''
              (c_SoundCloudMaxTracks (b_cfg B))) w in
        case mc_soundcloud C (w_log w) link maxTracks of
          Inl err \<Rightarrow>
            release_token B userID ''soundcloud'' token
              (if snd err = ''ErrNotFound'' then send_loc B chat ''soundcloud.not_found'' lang [] w
               else if snd err = ''ErrTooLarge''
               then send_loc B chat ''soundcloud.playlist_too_large'' lang [(''limit'', itoa maxTracks)] w
               else send_loc B chat ''soundcloud.download_failed'' lang [] w)
        | Inr r \<Rightarrow>
            card_and_job B chat userID lang ''soundcloud'' token (c_SoundCloudDownloadEnabled (b_cfg B)) (cr_artwork r)
              (sc_CardText r lang) (sc_OpenKeyboard r lang) (length (cr_tracks r)) (EnqueueSoundCloud id)
              (zero_music\<lparr>mp_source_url := snd link, mp_release := mc_sc_json C r\<rparr>) w)"

definition handleSoundCloudLink ::
  "'s bot_env \<Rightarrow> music_clients \<Rightarrow> message \<Rightarrow> int \<Rightarrow> string \<Rightarrow> string \<Rightarrow> 's world \<Rightarrow> 's world" where
  "handleSoundCloudLink B C m userID lang rawURL w =
     (case ParseLink rawURL of
        Inl e \<Rightarrow> send_loc B (m_chat m) ''errors.unsupported'' lang [] w
      | Inr link \<Rightarrow>
          with_music_lock B userID ''soundcloud'' (c_SoundCloudMaxTracks (b_cfg B)) (replyBusy B m userID lang)
            (soundcloud_release B C (m_chat m) userID lang link) w)"

text \<open>The handlers that the dispatch of a message calls.\<close>

definition music_of :: "'s bot_env \<Rightarrow> music_clients \<Rightarrow> 's music_handlers" where
  "music_of B C = \<lparr>mh_spotify = handleSpotifyLink B C, mh_yandex = handleYandexMusicLink B C,
     mh_soundcloud = handleSoundCloudLink B C\<rparr>"

end
