(* ===== verification/Worker_Music.thy ===== *)
theory Worker_Music
  imports Music
begin

text \<open>
  The jobs of music releases (\<open>worker/music.go\<close>): one job at a time per release, the tracks one after the other, each
  found and sent as an audio file, and the outcome booked.
\<close>

subsection \<open>Status messages and locks\<close>

definition mp_language :: "music_payload \<Rightarrow> string" where
  "mp_language p = (if mp_lang p = [] then ''en'' else mp_lang p)"

definition status_edit :: "'s work_env \<Rightarrow> music_payload \<Rightarrow> msg_text \<Rightarrow> keyboard \<Rightarrow> 's wworld \<Rightarrow> 's wworld" where
  "status_edit B p t kb w = post B (Edit (mp_chat p) (mp_message p) t kb) w"

definition releaseMusicUserLock :: "'s work_env \<Rightarrow> music_payload \<Rightarrow> 's wworld \<Rightarrow> 's wworld" where
  "releaseMusicUserLock B p w =
     (if mp_lock_token p = [] \<or> mp_lock_scene p = [] then w
      else do_st (ReleaseUserLock (b_redis B) (b_prefix B) (mp_user p) (mp_lock_scene p) (mp_lock_token p)) w)"

definition releaseLockKey :: "string \<Rightarrow> music_payload \<Rightarrow> string" where
  "releaseLockKey platform p =
     (if platform = ''spotify'' then ''spotify:processing:'' @ mp_link_type p @ '':'' @ mp_resource p
      else if platform = ''yandexmusic'' then ''yandexmusic:processing:'' @ mp_link_type p @ '':'' @ mp_resource p
      else if platform = ''soundcloud'' then ''soundcloud:processing:'' @ mp_source_url p
      else platform @ '':processing'')"

definition releaseLockTTL :: "string \<Rightarrow> config \<Rightarrow> nat" where
  "releaseLockTTL platform cfg =
     (if platform = ''spotify'' then nat (c_SpotifyTrackTimeoutSeconds cfg * c_SpotifyLockMaxTracks cfg + 90) * second
      else if platform = ''yandexmusic'' then
        nat (c_YandexMusicTrackTimeoutSeconds cfg * c_YandexMusicLockMaxTracks cfg + 90) * second
      else if platform = ''soundcloud'' then
        nat (c_SoundCloudTrackTimeoutSeconds cfg * c_SoundCloudMaxTracks cfg + 90) * second
      else 1800 * second)"

definition music_cancelled :: "'s work_env \<Rightarrow> music_payload \<Rightarrow> 's wworld \<Rightarrow> bool \<times> 's wworld" where
  "music_cancelled B p =
     on_st (\<lambda>s. case IsDownloadCancelled (b_redis B) (b_prefix B) (mp_lock_scene p) (mp_user p) (mp_lock_token p) s of
        (c, _, s) \<Rightarrow> (c, s))"

definition track_text :: "string \<Rightarrow> string \<Rightarrow> nat \<Rightarrow> nat \<Rightarrow> string \<Rightarrow> msg_text" where
  "track_text k lang current whole title =
     Loc k lang [(''current'', itoa (int current)), (''total'', itoa (int whole)), (''title'', title)]"

definition downloadCoverArt ::
  "'s work_env \<Rightarrow> music_tools \<Rightarrow> string \<Rightarrow> string \<Rightarrow> 's wworld \<Rightarrow> string \<times> 's wworld" where
  "downloadCoverArt B T url dir w =
     (if url = [] then ([], w)
      else
        let r = mt_get T (w_log w) url; w = noted (Exec [''GET'', url]) w in
        case r of
          Inl e \<Rightarrow> ([], w)
        | Inr (status, n, whole) \<Rightarrow>
            if status \<ge> 400 then ([], w)
            else if k_mkdir B (w_log w) dir \<noteq> None then ([], w)
            else
              let path = join_path dir ''cover.jpg'' in
              if mt_create T (w_log w) path \<noteq> None then ([], w)
              else (if whole then path else [], w\<lparr>w_fs := (w_fs w)(path := Some (File n []))\<rparr>))"

definition beginMusicDownloadStatus ::
  "'s work_env \<Rightarrow> music_tools \<Rightarrow> music_payload \<Rightarrow> string \<Rightarrow> string \<Rightarrow> keyboard \<Rightarrow> 's wworld \<Rightarrow> 's wworld" where
  "beginMusicDownloadStatus B T p lang platform kb w =
     (case mt_titles T (mp_release p) of
        Inr (t # ts) \<Rightarrow>
          status_edit B p (track_text (platform @ ''.download_track'') lang 1 (Suc (length ts)) t) kb w
      | _ \<Rightarrow> status_edit B p (Loc (platform @ ''.download_starting'') lang [(''total'', ''1'')]) kb w)"

definition finishMusicDownload ::
  "'s work_env \<Rightarrow> music_payload \<Rightarrow> string \<Rightarrow> nat \<Rightarrow> nat \<Rightarrow> string \<Rightarrow> 's job_step" where
  "finishMusicDownload B p lang sent whole platform w =
     (let final = (if platform = ''spotify'' \<or> platform = ''yandexmusic'' then platform @ ''.download_none_found''
                   else ''soundcloud.download_failed'');
          w = (if sent = 0 then status_edit B p (Loc final lang []) [] w
               else post B (Erase (mp_chat p) (mp_message p)) w);
          url = (if mp_source_url p = [] then platform @ '':'' @ mp_resource p else mp_source_url p);
          (st, msg) = (if sent = 0 then (''failed'', ''0/'' @ itoa (int whole) @ '' tracks sent'') else (''completed'', [])) in
      (None, w\<lparr>w_db := snd (RecordDownload (k_fault B) (mp_user p) (mp_chat p) url platform st 0 msg (w_db w))\<rparr>))"

subsection \<open>The tracks of a release\<close>

text \<open>One track: its directory, what finds it, and how it is sent. The number of sent tracks comes back.\<close>

type_synonym 's finder = "string \<Rightarrow> 's wworld \<Rightarrow> string result \<times> 's wworld"

definition track_dir :: "string \<Rightarrow> nat \<Rightarrow> string" where
  "track_dir dir current = join_path dir (''track-'' @ itoa (int current))"

definition send_track ::
  "'s work_env \<Rightarrow> music_payload \<Rightarrow> string \<Rightarrow> msg_text \<Rightarrow> keyboard \<Rightarrow> string \<Rightarrow> string \<Rightarrow> int \<Rightarrow> string \<Rightarrow> 's wworld
     \<Rightarrow> bool \<times> 's wworld" where
  "send_track B p path status kb title performer msec cover w =
     (let w = status_edit B p status kb w in
      case emit B (Sound (mp_chat p) path title performer (trunc (of_int msec / 1000)) cover) w of
        (Inl e, w) \<Rightarrow> (False, w)
      | (Inr _, w) \<Rightarrow> (True, w))"

text \<open>Spotify and Yandex Music: title, artists and length of a track.\<close>

definition search_track ::
  "'s work_env \<Rightarrow> music_tools \<Rightarrow> music_payload \<Rightarrow> string \<Rightarrow> string \<Rightarrow> keyboard \<Rightarrow> string \<Rightarrow> string \<Rightarrow> string \<Rightarrow> nat \<Rightarrow> nat
     \<Rightarrow> string \<times> string \<times> int \<Rightarrow> 's wworld \<Rightarrow> bool \<times> 's wworld" where
  "search_track B T p lang platform kb format dir cover whole current t w =
     (case t of (title, artists, msec) \<Rightarrow>
        let w = status_edit B p (track_text (platform @ ''.download_track'') lang current whole title) kb w in
        case DownloadFromYouTubeSearch B T (artists @ '' - '' @ title) (track_dir dir current) format msec w of
          (Inl e, w) \<Rightarrow> (False, w)
        | (Inr path, w) \<Rightarrow>
            send_track B p path (track_text (platform @ ''.send_track'') lang current whole title) kb title artists msec cover w)"

text \<open>Every track unless the download is cancelled; then nothing (\<open>None\<close>) is left to finish.\<close>

fun each_track ::
  "'s work_env \<Rightarrow> music_payload \<Rightarrow> string \<Rightarrow> (nat \<Rightarrow> 't \<Rightarrow> 's wworld \<Rightarrow> bool \<times> 's wworld) \<Rightarrow> nat \<Rightarrow> 't list \<Rightarrow> nat
     \<Rightarrow> 's wworld \<Rightarrow> nat option \<times> 's wworld" where
  "each_track B p lang one current [] sent w = (Some sent, w)"
| "each_track B p lang one current (t # ts) sent w =
     (case music_cancelled B p w of
        (True, w) \<Rightarrow> (None, status_edit B p (Loc ''download.cancelled'' lang []) [] w)
      | (False, w) \<Rightarrow>
          (case one current t w of
             (ok, w) \<Rightarrow> each_track B p lang one (Suc current) ts (if ok then Suc sent else sent) w))"

definition download_tracks ::
  "'s work_env \<Rightarrow> music_payload \<Rightarrow> string \<Rightarrow> string \<Rightarrow> (nat \<Rightarrow> 't \<Rightarrow> 's wworld \<Rightarrow> bool \<times> 's wworld) \<Rightarrow> 't list \<Rightarrow> 's job_step" where
  "download_tracks B p lang platform one ts w =
     (case each_track B p lang one 1 ts 0 w of
        (None, w) \<Rightarrow> (None, w)
      | (Some sent, w) \<Rightarrow> finishMusicDownload B p lang sent (length ts) platform w)"

definition downloadSpotifyRelease ::
  "'s work_env \<Rightarrow> music_tools \<Rightarrow> music_payload \<Rightarrow> string \<Rightarrow> keyboard \<Rightarrow> 's job_step" where
  "downloadSpotifyRelease B T p lang kb w =
     (case mt_sp T (mp_release p) of
        Inl e \<Rightarrow> (Some (''decode release: '' @ e), w)
      | Inr r \<Rightarrow>
          if sr_tracks r = [] then
            (None, status_edit B p (Loc ''spotify.download_none_found'' lang []) [] w)
          else in_temp_dir B ''saveinator-spotify-*'' (\<lambda>dir w.
            let (cover, w) = downloadCoverArt B T (sr_cover r) dir w;
                (n, w) = rt_int B ''spotify.download_concurrency'' (c_SpotifyDownloadConcurrency (b_cfg B)) w;
                (timeout, w) = rt_int B ''spotify.track_timeout_sec'' (c_SpotifyTrackTimeoutSeconds (b_cfg B)) w in
            download_tracks B p lang ''spotify''
              (search_track B T p lang ''spotify'' kb (c_SpotifyDLOutputFormat (b_cfg B)) dir cover (length (sr_tracks r)))
              (List.map (\<lambda>t. (st_title t, st_artists t, st_ms t)) (sr_tracks r)) w) w)"

definition downloadYandexMusicRelease ::
  "'s work_env \<Rightarrow> music_tools \<Rightarrow> music_payload \<Rightarrow> string \<Rightarrow> keyboard \<Rightarrow> 's job_step" where
  "downloadYandexMusicRelease B T p lang kb w =
     (case mt_ym T (mp_release p) of
        Inl e \<Rightarrow> (Some (''decode release: '' @ e), w)
      | Inr r \<Rightarrow>
          if yr_tracks r = [] then
            (None, status_edit B p (Loc ''yandexmusic.download_none_found'' lang []) [] w)
          else in_temp_dir B ''saveinator-yandexmusic-*'' (\<lambda>dir w.
            let (cover, w) = downloadCoverArt B T (yr_cover r) dir w;
                (n, w) = rt_int B ''yandexmusic.download_concurrency'' (c_YandexMusicDownloadConcurrency (b_cfg B)) w;
                (timeout, w) = rt_int B ''yandexmusic.track_timeout_sec'' (c_YandexMusicTrackTimeoutSeconds (b_cfg B)) w in
            download_tracks B p lang ''yandexmusic''
              (search_track B T p lang ''yandexmusic'' kb (c_YandexMusicDLOutputFormat (b_cfg B)) dir cover (length (yr_tracks r)))
              (List.map (\<lambda>t. (yt_title t, yt_artists t, yt_ms t)) (yr_tracks r)) w) w)"

definition soundCloudYouTubeQuery :: "sc_track \<Rightarrow> sc_release \<Rightarrow> string" where
  "soundCloudYouTubeQuery t r =
     (let artist = firstString [ct_artist t, cr_artist r]; title = firstString [ct_title t, cr_title r] in
      if artist \<noteq> [] \<and> title \<noteq> [] then artist @ '' - '' @ title else firstString [title, artist])"

text \<open>From SoundCloud, or from YouTube when the track is marked so or turns out to be protected.\<close>

definition fetch_sc_track ::
  "'s work_env \<Rightarrow> music_tools \<Rightarrow> sc_release \<Rightarrow> string \<Rightarrow> string \<Rightarrow> msg_text \<Rightarrow> music_payload \<Rightarrow> keyboard \<Rightarrow> sc_track
     \<Rightarrow> 's wworld \<Rightarrow> string result \<times> 's wworld" where
  "fetch_sc_track B T r dir format youtube_status p kb t w =
     (let search = DownloadFromYouTubeSearch B T (soundCloudYouTubeQuery t r) dir format (ct_ms t) in
      if ct_fallback t then search w
      else case DownloadSoundCloudTrack B (ct_url t) dir format w of
        (Inr path, w) \<Rightarrow> (Inr path, w)
      | (Inl e, w) \<Rightarrow>
          if IsDRMProtectedError (Some e) [] then search (status_edit B p youtube_status kb w) else (Inl e, w))"

definition sc_one ::
  "'s work_env \<Rightarrow> music_tools \<Rightarrow> music_payload \<Rightarrow> string \<Rightarrow> keyboard \<Rightarrow> string \<Rightarrow> string \<Rightarrow> string \<Rightarrow> sc_release \<Rightarrow> nat
     \<Rightarrow> sc_track \<Rightarrow> 's wworld \<Rightarrow> bool \<times> 's wworld" where
  "sc_one B T p lang kb format dir cover r current t w =
     (let txt_of = (\<lambda>k. track_text k lang current (length (cr_tracks r)) (ct_title t));
          youtube = txt_of ''soundcloud.download_track_youtube'';
          w = status_edit B p (if ct_fallback t then youtube else txt_of ''soundcloud.download_track'') kb w in
      if ct_url t = [] \<and> \<not> ct_fallback t then (False, w)
      else case fetch_sc_track B T r (track_dir dir current) format youtube p kb t w of
        (Inl e, w) \<Rightarrow> (False, w)
      | (Inr path, w) \<Rightarrow>
          let w = status_edit B p (txt_of ''soundcloud.send_track'') kb w;
              (own, w) = (if ct_artwork t \<noteq> [] \<and> ct_artwork t \<noteq> cr_artwork r
                          then downloadCoverArt B T (ct_artwork t) (track_dir dir current) w else (cover, w)) in
          (case emit B (Sound (mp_chat p) path (ct_title t) (firstString [ct_artist t, cr_artist r])
                  (trunc (of_int (ct_ms t) / 1000)) own) w of
             (Inl e, w) \<Rightarrow> (False, w)
           | (Inr _, w) \<Rightarrow> (True, w)))"

definition downloadSoundCloudRelease ::
  "'s work_env \<Rightarrow> music_tools \<Rightarrow> music_payload \<Rightarrow> string \<Rightarrow> keyboard \<Rightarrow> 's job_step" where
  "downloadSoundCloudRelease B T p lang kb w =
     (case mt_sc T (mp_release p) of
        Inl e \<Rightarrow> (Some e, w)
      | Inr r \<Rightarrow>
          in_temp_dir B ''saveinator-soundcloud-*'' (\<lambda>dir w.
            let (cover, w) = downloadCoverArt B T (cr_artwork r) dir w;
                (n, w) = rt_int B ''soundcloud.download_concurrency'' (c_SoundCloudDownloadConcurrency (b_cfg B)) w;
                (timeout, w) = rt_int B ''soundcloud.track_timeout_sec'' (c_SoundCloudTrackTimeoutSeconds (b_cfg B)) w;
                (format, w) = on_st (CurrentString (b_redis B) (Some (b_cfg B)) ''soundcloud.audio_format''
                                (c_SoundCloudDLOutputFormat (b_cfg B))) w in
            download_tracks B p lang ''soundcloud'' (sc_one B T p lang kb format dir cover r) (cr_tracks r) w) w)"

subsection \<open>The job\<close>

definition runMusicDownload :: "'s work_env \<Rightarrow> music_tools \<Rightarrow> music_payload \<Rightarrow> string \<Rightarrow> 's job_step" where
  "runMusicDownload B T p platform w =
     (let lang = mp_language p; k = releaseLockKey platform p;
          (acquired, w) = on_st (\<lambda>s. case TryAcquireReleaseLock (b_redis B) k (releaseLockTTL platform (b_cfg B)) s of
                            (a, _, s) \<Rightarrow> (a, s)) w in
      if \<not> acquired then
        (None, releaseMusicUserLock B p (status_edit B p (Loc ''errors.busy'' lang []) [] w))
      else
        let kb = cancel_Keyboard lang (mp_lock_scene p) (mp_user p) (mp_lock_token p);
            w = beginMusicDownloadStatus B T p lang platform kb w;
            (r, w) = (if platform = ''spotify'' then downloadSpotifyRelease B T p lang kb w
                      else if platform = ''yandexmusic'' then downloadYandexMusicRelease B T p lang kb w
                      else if platform = ''soundcloud'' then downloadSoundCloudRelease B T p lang kb w
                      else (None, w)) in
        (r, releaseMusicUserLock B p (do_st (ReleaseReleaseLock (b_redis B) k) w)))"

definition music_failed :: "'s work_env \<Rightarrow> music_payload \<Rightarrow> string \<Rightarrow> 's job_step \<Rightarrow> 's job_step" where
  "music_failed B p platform body w =
     (case body w of
        (Some e, w) \<Rightarrow> (None, status_edit B p (Loc (platform @ ''.download_failed'') (mp_language p) []) [] w)
      | (None, w) \<Rightarrow> (None, w))"

definition handleSpotify :: "'s work_env \<Rightarrow> music_tools \<Rightarrow> body \<Rightarrow> 's job_step" where
  "handleSpotify B T payload w =
     (case unmarshal_music payload of
        None \<Rightarrow> (None, w)
      | Some p \<Rightarrow>
          if mp_chat p = 0 \<or> mp_message p = 0 then (None, w)
          else music_failed B p ''spotify'' (runMusicDownload B T p ''spotify'') w)"

definition handleYandexMusic :: "'s work_env \<Rightarrow> music_tools \<Rightarrow> body \<Rightarrow> 's job_step" where
  "handleYandexMusic B T payload w =
     (case unmarshal_music payload of
        None \<Rightarrow> (None, w)
      | Some p \<Rightarrow>
          if mp_chat p = 0 \<or> mp_message p = 0 then (None, w)
          else music_failed B p ''yandexmusic'' (runMusicDownload B T p ''yandexmusic'') w)"

definition handleSoundCloud :: "'s work_env \<Rightarrow> music_tools \<Rightarrow> body \<Rightarrow> 's job_step" where
  "handleSoundCloud B T payload w =
     (case unmarshal_music payload of
        None \<Rightarrow> (None, w)
      | Some p \<Rightarrow> music_failed B p ''soundcloud'' (runMusicDownload B T p ''soundcloud'') w)"

end
