(* ===== verification/Music_Props.thy ===== *)
theory Music_Props
  imports Handler_Music Worker_Music Handler_Props Worker_Answers
begin

text \<open>
  Properties of music links and their jobs: the lock of the user is handed to exactly one job or given back, the job
  gives back both locks, and what it books is what was sent.
\<close>

subsection \<open>From a link to a job\<close>

definition music_request :: "string \<Rightarrow> music_payload \<Rightarrow> request" where
  "music_request pf = (if pf = ''spotify'' then EnqueueSpotify id
     else if pf = ''yandexmusic'' then EnqueueYandexMusic id else EnqueueSoundCloud id)"

definition holders :: "('s, 'b) bot_env_scheme \<Rightarrow> ('s \<Rightarrow> redis_db) \<Rightarrow> ('s, 'w) world_scheme \<Rightarrow> int \<Rightarrow> rval option" where
  "holders B \<alpha> w = lock_holder (b_prefix B) (\<alpha> (w_st w))"

definition job_for :: "string \<Rightarrow> int \<Rightarrow> string \<Rightarrow> music_payload \<Rightarrow> bool" where
  "job_for pf u token p \<longleftrightarrow> mp_platform p = pf \<and> mp_user p = u \<and> mp_lock_scene p = pf \<and> mp_lock_token p = token"

text \<open>What follows the lock: a job that keeps it, or its release.\<close>

definition goes :: "'s bot_env \<Rightarrow> ('s \<Rightarrow> redis_db) \<Rightarrow> string \<Rightarrow> int \<Rightarrow> string \<Rightarrow> 's world \<Rightarrow> 's world \<Rightarrow> bool" where
  "goes B \<alpha> pf u token w w' \<longleftrightarrow>
     accepted B w' = accepted B w \<and> (\<exists>w1. \<alpha> (w_st w1) = \<alpha> (w_st w) \<and> w_st w' = w_st (release_token B u pf token w1))
     \<or> (\<exists>p. job_for pf u token p \<and> accepted B w' = accepted B w @ [music_request pf p] \<and> \<alpha> (w_st w') = \<alpha> (w_st w))"

definition calm_to :: "'s bot_env \<Rightarrow> ('s \<Rightarrow> redis_db) \<Rightarrow> 's world \<Rightarrow> 's world \<Rightarrow> bool" where
  "calm_to B \<alpha> w w1 \<longleftrightarrow> accepted B w1 = accepted B w \<and> \<alpha> (w_st w1) = \<alpha> (w_st w)"

lemma goes_later: "calm_to B \<alpha> w w1 \<Longrightarrow> goes B \<alpha> pf u token w1 w2 \<Longrightarrow> goes B \<alpha> pf u token w w2"
  by (auto simp: goes_def calm_to_def)

lemma accepted_release [simp]: "accepted B (release_token B u sc token w) = accepted B w"
  by (simp add: release_token_def accepted_def)

lemma goes_release: "calm_to B \<alpha> w w1 \<Longrightarrow> goes B \<alpha> pf u token w (release_token B u pf token w1)"
  by (auto simp: goes_def calm_to_def)

lemma calm_to_refl [simp]: "calm_to B \<alpha> w w" by (simp add: calm_to_def)

lemma calm_to_trans: "calm_to B \<alpha> a b \<Longrightarrow> calm_to B \<alpha> b c \<Longrightarrow> calm_to B \<alpha> a c" by (simp add: calm_to_def)

lemma calm_post [simp]:
  "calm_to B \<alpha> w (post B (Send c t kb) w1) = calm_to B \<alpha> w w1"
  "calm_to B \<alpha> w (post B (Edit c m t kb) w1) = calm_to B \<alpha> w w1"
  "calm_to B \<alpha> w (post B (Cover c url t kb) w1) = calm_to B \<alpha> w w1"
  "calm_to B \<alpha> w (post B (Answer i mt al) w1) = calm_to B \<alpha> w w1"
  by (simp_all add: calm_to_def post_def emit_def accepted_def accepted_from_append taken_def)

lemma calm_card [simp]:
  "calm_to B \<alpha> w (send_loc B chat k lang as w1) = calm_to B \<alpha> w w1"
  "calm_to B \<alpha> w (sendMusicCard B chat cover t kb w1) = calm_to B \<alpha> w w1"
  "calm_to B \<alpha> w (replyYandexFetchError B chat lang err w1) = calm_to B \<alpha> w w1"
  by (simp_all add: send_loc_def sendMusicCard_def replyYandexFetchError_def Let_def)

lemma calm_read:
  assumes "lawful_redis (b_redis B) \<alpha>"
  shows "rt_on B k d w = (on, w1) \<Longrightarrow> calm_to B \<alpha> w w1"
    and "on_st (CurrentInt (b_redis B) c k n) w = (i, w1) \<Longrightarrow> calm_to B \<alpha> w w1"
    and "on_st (PlatformEnabled (b_redis B) c pf) w = (on, w1) \<Longrightarrow> calm_to B \<alpha> w w1"
proof -
  assume "rt_on B k d w = (on, w1)"
  from on_st_eqD [OF this [unfolded rt_on_def]] show "calm_to B \<alpha> w w1"
    using Current_reads(2) [OF assms] by (auto simp: calm_to_def accepted_def)
next
  assume "on_st (CurrentInt (b_redis B) c k n) w = (i, w1)"
  from on_st_eqD [OF this] show "calm_to B \<alpha> w w1"
    using Current_reads(1) [OF assms] by (auto simp: calm_to_def accepted_def)
next
  assume "on_st (PlatformEnabled (b_redis B) c pf) w = (on, w1)"
  from on_st_eqD [OF this] show "calm_to B \<alpha> w w1"
    using CurrentValue_reads [OF assms] by (auto simp: calm_to_def accepted_def PlatformEnabled_def split: option.splits prod.splits)
qed

lemma job_goes:
  assumes "\<And>p. enq p = music_request pf p"
  shows "goes B \<alpha> pf u token w (start_music_job B chat u lang pf token n enq p w)"
proof -
  let ?kb = "if token \<noteq> [] then cancel_Keyboard lang pf u token else []"
  obtain r w1 where s: "emit B (Send chat (Loc (pf @ ''.download_starting'') lang [(''total'', itoa (int n))]) ?kb) w = (r, w1)"
    by fastforce
  have c1: "calm_to B \<alpha> w w1"
    using emit_eqD [OF s] by (simp add: calm_to_def accepted_def accepted_from_append taken_def)
  show ?thesis
  proof (cases r)
    case (Inl e)
    then show ?thesis using goes_release [OF c1] s by (simp add: start_music_job_def Let_def)
  next
    case (Inr mid)
    let ?p = "p\<lparr>mp_platform := pf, mp_chat := chat, mp_user := u, mp_message := mid, mp_lang := lang,
        mp_lock_token := token, mp_lock_scene := pf\<rparr>"
    obtain r2 w2 where j: "emit B (Job (enq ?p)) w1 = (r2, w2)" by fastforce
    note j2 = emit_eqD [OF j]
    show ?thesis
    proof (cases r2)
      case (Inl e2)
      with j2 have "b_answer B (w_log w1) (Job (enq ?p)) = Inl e2" by simp
      with j2 have "calm_to B \<alpha> w1 w2" by (simp add: calm_to_def accepted_def accepted_from_append taken_def)
      then have "calm_to B \<alpha> w (post B (Edit chat mid (Loc (pf @ ''.download_failed'') lang []) []) w2)"
        using calm_to_trans [OF c1] by simp
      from goes_release [OF this] show ?thesis using Inl Inr s j by (simp add: start_music_job_def Let_def)
    next
      case (Inr n2)
      with j2 have "b_answer B (w_log w1) (Job (enq ?p)) = Inr n2" by simp
      with j2 have "accepted B w2 = accepted B w1 @ [music_request pf ?p]" "w_st w2 = w_st w1"
        by (simp_all add: accepted_def accepted_from_append taken_def assms)
      with c1 have "goes B \<alpha> pf u token w w2"
        by (auto simp: goes_def calm_to_def job_for_def intro!: exI [of _ ?p])
      then show ?thesis using Inr \<open>r = Inr mid\<close> s j by (simp add: start_music_job_def Let_def)
    qed
  qed
qed

lemma release_holders:
  assumes "lawful_redis (b_redis B) \<alpha>" "reliable_redis (b_redis B)"
  shows "holders B \<alpha> (release_token B u sc token w)
     = (if token \<noteq> [] \<and> holders B \<alpha> w u = Some (RText (lock_value sc token)) then (holders B \<alpha> w)(u := None) else holders B \<alpha> w)"
proof -
  obtain e s where r: "ReleaseUserLock (b_redis B) (b_prefix B) u sc token (w_st w) = (e, s)" by fastforce
  then have "e = None" using reliable_exec [OF assms(2)] by (simp add: ReleaseUserLock_def)
  from assms(1) r show ?thesis
    by (cases rule: release_cases) (use r \<open>e = None\<close> in \<open>auto simp: release_token_def holders_def fun_eq_iff\<close>)
qed

text \<open>What a music link leaves: nothing, or one job that holds the lock.\<close>

definition linked :: "'s bot_env \<Rightarrow> ('s \<Rightarrow> redis_db) \<Rightarrow> string \<Rightarrow> int \<Rightarrow> string \<Rightarrow> 's world \<Rightarrow> 's world \<Rightarrow> bool" where
  "linked B \<alpha> pf u tok w w' \<longleftrightarrow>
     accepted B w' = accepted B w \<and> holders B \<alpha> w' = holders B \<alpha> w
     \<or> (\<exists>p. accepted B w' = accepted B w @ [music_request pf p]
          \<and> job_for pf u (if isAdmin B u then [] else tok) p
          \<and> (if isAdmin B u then holders B \<alpha> w' = holders B \<alpha> w
             else holders B \<alpha> w u = None \<and> holders B \<alpha> w' = (holders B \<alpha> w)(u := Some (RText (lock_value pf tok)))))"

lemma linked_calm: "calm_to B \<alpha> w w' \<Longrightarrow> linked B \<alpha> pf u tok w w'"
  by (simp add: linked_def calm_to_def holders_def)

lemma linked_idle [simp]: "linked B \<alpha> pf u tok w w" "linked B \<alpha> pf u tok w (post B (Send c t kb) w)"
  "linked B \<alpha> pf u tok w (send_loc B c k lang as w)"
  by (simp_all add: linked_calm)

lemma linked_later: "calm_to B \<alpha> w w1 \<Longrightarrow> linked B \<alpha> pf u tok w1 w2 \<Longrightarrow> linked B \<alpha> pf u tok w w2"
  unfolding linked_def calm_to_def holders_def by (cases "isAdmin B u") simp_all

lemma locked_link:
  assumes "lawful_redis (b_redis B) \<alpha>" "reliable_redis (b_redis B)" "b_token B (w_log w) \<noteq> []"
    and go: "\<And>token w0. goes B \<alpha> pf u token w0 (go token w0)" and busy: "\<And>w0. calm_to B \<alpha> w0 (busy w0)"
  shows "linked B \<alpha> pf u (b_token B (w_log w)) w (with_music_lock B u pf n busy go w)"
proof (cases "isAdmin B u")
  case True
  have "goes B \<alpha> pf u [] w (go [] w)" by (rule go)
  then have "linked B \<alpha> pf u (b_token B (w_log w)) w (go [] w)"
    using True by (auto simp: goes_def linked_def holders_def release_token_def)
  then show ?thesis using True by (simp add: with_music_lock_def acquireUserLock_def)
next
  case False
  let ?tok = "b_token B (w_log w)"
  obtain r w1 where a: "on_st (AcquireUserLock (b_redis B) (b_prefix B) ?tok u pf (musicLockTTL (b_cfg B) pf n)) w = (r, w1)"
    by fastforce
  have run: "with_music_lock B u pf n busy go w
      = (case (r, w1) of (Inl e, w) \<Rightarrow> w | (Inr (token, ok), w) \<Rightarrow> if \<not> ok then busy w else go token w)"
    using False a by (simp add: with_music_lock_def acquireUserLock_def)
  from assms(1,2) a show ?thesis
  proof (cases rule: on_st_acquire)
    case won
    have acc: "accepted B w1 = accepted B w" using won(4) by (simp add: accepted_def)
    from go [of ?tok w1] show ?thesis
    proof (unfold goes_def, elim disjE exE conjE)
      fix w2 assume "accepted B (go ?tok w1) = accepted B w1" "\<alpha> (w_st w2) = \<alpha> (w_st w1)"
        "w_st (go ?tok w1) = w_st (release_token B u pf ?tok w2)"
      moreover have "holders B \<alpha> (release_token B u pf ?tok w2) = holders B \<alpha> w"
        using release_holders [OF assms(1,2), of u pf ?tok w2] won(2,3) assms(3) calculation(2)
        by (auto simp: holders_def fun_eq_iff)
      ultimately show ?thesis using acc won(1) by (simp add: run linked_def holders_def)
    next
      fix p assume "job_for pf u ?tok p" "accepted B (go ?tok w1) = accepted B w1 @ [music_request pf p]"
        "\<alpha> (w_st (go ?tok w1)) = \<alpha> (w_st w1)"
      then show ?thesis using acc won(1-3) False by (auto simp: run linked_def holders_def)
    qed
  next
    case busy
    have "calm_to B \<alpha> w1 (busy w1)" by (rule assms(5))
    then show ?thesis using busy by (simp add: run linked_def calm_to_def holders_def accepted_def)
  qed
qed

lemma card_goes:
  assumes "lawful_redis (b_redis B) \<alpha>" "\<And>p. enq p = music_request pf p"
  shows "goes B \<alpha> pf u token w (card_and_job B chat u lang pf token d cover caption kb n enq p w)"
proof -
  obtain on w1 where o: "rt_on B (pf @ ''.download_enabled'') d w = (on, w1)" by fastforce
  have c: "calm_to B \<alpha> w (sendMusicCard B chat cover (caption on) kb w1)" using calm_read(1) [OF assms(1) o] by simp
  show ?thesis
    using goes_release [OF c] goes_later [OF c job_goes [of enq pf, OF assms(2)]]
    by (cases "on") (simp_all add: card_and_job_def o Let_def)
qed

lemma release_goes:
  assumes "lawful_redis (b_redis B) \<alpha>"
  shows "goes B \<alpha> ''spotify'' u token w (spotify_release B C chat u lang typ i token w)"
    and "goes B \<alpha> ''yandexmusic'' u token w (yandex_release B C chat u lang album track token w)"
    and "goes B \<alpha> ''soundcloud'' u token w (soundcloud_release B C chat u lang link token w)"
proof -
  note on_card = card_goes [OF assms]
  show "goes B \<alpha> ''spotify'' u token w (spotify_release B C chat u lang typ i token w)"
    by (auto simp: spotify_release_def Let_def music_request_def intro!: goes_release on_card split: sum.split)
  show "goes B \<alpha> ''yandexmusic'' u token w (yandex_release B C chat u lang album track token w)"
    by (auto simp: yandex_release_def sendYandexCardAndEnqueue_def Let_def music_request_def
        intro!: goes_release on_card split: sum.split)
  obtain n w1 where r: "on_st (CurrentInt (b_redis B) (Some (b_cfg B)) ''soundcloud.max_tracks_per_playlist''
      (c_SoundCloudMaxTracks (b_cfg B))) w = (n, w1)" by fastforce
  note c = calm_read(2) [OF assms r]
  show "goes B \<alpha> ''soundcloud'' u token w (soundcloud_release B C chat u lang link token w)"
  proof (cases "c_SoundCloudEnabled (b_cfg B)")
    case True
    then have "goes B \<alpha> ''soundcloud'' u token w1 (soundcloud_release B C chat u lang link token w)"
      by (auto simp: soundcloud_release_def Let_def music_request_def r intro!: goes_release on_card split: sum.split)
    then show ?thesis by (rule goes_later [OF c])
  next
    case False
    then show ?thesis by (simp add: soundcloud_release_def goes_release)
  qed
qed

lemma music_linked:
  assumes "lawful_redis (b_redis B) \<alpha>" "reliable_redis (b_redis B)" "b_token B (w_log w) \<noteq> []"
  shows "linked B \<alpha> ''spotify'' u (b_token B (w_log w)) w (handleSpotifyLink B C m u lang link w)"
    and "linked B \<alpha> ''yandexmusic'' u (b_token B (w_log w)) w (handleYandexMusicLink B C m u lang link w)"
    and "linked B \<alpha> ''soundcloud'' u (b_token B (w_log w)) w (handleSoundCloudLink B C m u lang url w)"
proof -
  note go = release_goes [OF assms(1)]
  show "linked B \<alpha> ''spotify'' u (b_token B (w_log w)) w (handleSpotifyLink B C m u lang link w)"
    and "linked B \<alpha> ''yandexmusic'' u (b_token B (w_log w)) w (handleYandexMusicLink B C m u lang link w)"
    and "linked B \<alpha> ''soundcloud'' u (b_token B (w_log w)) w (handleSoundCloudLink B C m u lang url w)"
    unfolding handleSpotifyLink_def handleYandexMusicLink_def handleSoundCloudLink_def replyBusy_def
    by (auto intro!: locked_link [OF assms] go split: sum.split)
qed

text \<open>
  C3. A link of a music service in a message never loses or leaks the user's lock. With a Redis that answers, either
  no job was taken by the broker and every lock is as it was, or exactly one job of the service was taken, and then
  the lock of the user was free and is now held with the token the job carries; the operator takes no lock and the
  job carries no token.
\<close>

theorem music_link_lock_discipline:
  assumes "lawful_redis (b_redis B) \<alpha>" "reliable_redis (b_redis B)" "b_token B (w_log w) \<noteq> []"
    and "link_platform link \<in> {PlatformSpotify, PlatformYandexMusic, PlatformSoundCloud}"
    and "w' = dispatchLink B (music_of B C) m u lang link batch w"
  defines "pf \<equiv> platform_string (link_platform link)" and "tok \<equiv> b_token B (w_log w)"
    and "h \<equiv> lock_holder (b_prefix B) (\<alpha> (w_st w))" and "h' \<equiv> lock_holder (b_prefix B) (\<alpha> (w_st w'))"
  shows "accepted B w' = accepted B w \<and> h' = h
    \<or> (\<exists>p. accepted B w' = accepted B w @ [music_request pf p] \<and> mp_platform p = pf \<and> mp_user p = u \<and> mp_lock_scene p = pf
        \<and> (if isAdmin B u then mp_lock_token p = [] \<and> h' = h
           else h u = None \<and> mp_lock_token p = tok \<and> h' = h(u := Some (RText (lock_value pf tok)))))"
proof -
  obtain on w1 where o: "on_st (PlatformEnabled (b_redis B) (Some (b_cfg B)) pf) w = (on, w1)" by fastforce
  have c: "calm_to B \<alpha> w w1" and lg: "w_log w1 = w_log w" using calm_read(3) [OF assms(1) o] on_st_eqD [OF o] by auto
  have tk: "b_token B (w_log w1) \<noteq> []" using assms(3) lg by simp
  have "linked B \<alpha> pf u tok w1 (reply B (m_chat m) k lang w1)" for k
    by (rule linked_calm) (simp add: reply_def)
  moreover note music_linked [OF assms(1,2) tk, unfolded lg, folded tok_def]
  ultimately have "linked B \<alpha> pf u tok w1 w'"
    using assms(4,5) o by (auto simp: dispatchLink_def if_enabled_def music_of_def pf_def split: platform.splits if_splits)
  from linked_later [OF c this] show ?thesis
    by (auto simp: linked_def holders_def job_for_def h_def h'_def split: if_splits)
qed

definition music_env :: "redis_db bot_env" where
  "music_env = sample_env\<lparr>b_cfg := (loaded (\<lambda>_. []))\<lparr>c_SpotifyEnabled := True\<rparr>\<rparr>"

definition sample_music :: music_clients where
  "sample_music =
     (let t = \<lparr>st_id = ''t'', st_title = ''One'', st_artists = ''A'', st_ms = 1000, st_url = ''u'', st_disc = 1, st_number = 1\<rparr>;
          r = \<lparr>sr_id = ''r'', sr_title = ''One'', sr_artists = ''A'', sr_type = ''track'', sr_date = ''2020'', sr_cover = [],
            sr_url = ''u'', sr_tracks = [t]\<rparr> in
      \<lparr>mc_spotify_on = True, mc_spotify = (\<lambda>_ _ _. Inr r), mc_yandex_on = False, mc_yandex = (\<lambda>_ _ _. Inl ([], [])),
        mc_soundcloud = (\<lambda>_ _ _. Inl ([], [])), mc_sp_json = (\<lambda>_. ''json''), mc_ym_json = (\<lambda>_. []), mc_sc_json = (\<lambda>_. [])\<rparr>)"

definition spotify_link :: parsed_link where
  "spotify_link = (plain_link PlatformSpotify ''u'')\<lparr>spotify_id := ''t'', spotify_typ := ''track''\<rparr>"

lemma untouched_value:
  "db_hashes db = (\<lambda>_. []) \<Longrightarrow> CurrentValue ref_redis cfg def db = (defaultFromConfig cfg def, db)"
  using CurrentValue_reads [OF lawful_ref_redis, of cfg def db]
  by (cases "CurrentValue ref_redis cfg def db") (auto simp: setting_of_def override_def)

lemma music_link_lock_discipline_witness:
  "let w' = dispatchLink music_env (music_of music_env sample_music) sample_message 7 ''en'' spotify_link False
        \<lparr>w_st = empty_db, w_fsm = newFSM, w_log = []\<rparr> in
   \<exists>p. accepted music_env w' = [music_request ''spotify'' p] \<and> mp_user p = 7 \<and> mp_lock_token p = ''tok''
     \<and> lock_holder [] (w_st w') 7 = Some (RText (lock_value ''spotify'' ''tok''))"
proof -
  let ?w = "\<lparr>w_st = empty_db, w_fsm = newFSM, w_log = []\<rparr> :: redis_db world"
  let ?w' = "dispatchLink music_env (music_of music_env sample_music) sample_message 7 ''en'' spotify_link False ?w"
  have env: "lawful_redis (b_redis music_env) (\<lambda>db. db)" "reliable_redis (b_redis music_env)"
    "b_token music_env (w_log ?w) \<noteq> []" "b_prefix music_env = []" "b_token music_env [] = ''tok''" "\<not> isAdmin music_env 7"
    using lawful_ref_redis reliable_ref
    by (simp_all add: music_env_def sample_env_def isAdmin_def loaded_def envInt64_def)
  have link: "link_platform spotify_link \<in> {PlatformSpotify, PlatformYandexMusic, PlatformSoundCloud}"
    by (simp add: spotify_link_def plain_link_def)
  have B: "b_redis music_env = ref_redis" "b_answer music_env = (\<lambda>evs e. Inr (int (length evs)))"
    "c_AdminTelegramID (b_cfg music_env) = 0" "c_SpotifyEnabled (b_cfg music_env)" "c_SpotifyDownloadEnabled (b_cfg music_env)"
    by (simp_all add: music_env_def sample_env_def loaded_def envInt64_def envBool_def)
  have on: "db_hashes db = (\<lambda>_. []) \<Longrightarrow> PlatformEnabled ref_redis (Some (b_cfg music_env)) ''spotify'' db = (True, db)"
    "db_hashes db = (\<lambda>_. [])
       \<Longrightarrow> CurrentBool ref_redis (Some (b_cfg music_env)) ''spotify.download_enabled'' d db = (True, db)" for d db
    using B(4,5) by (simp_all add: PlatformEnabled_def CurrentBool_def Lookup_def registry_def intSetting_def boolSetting_def
        choiceSetting_def untouched_value defaultFromConfig_def config_value_def is_true_def)
  have "accepted music_env ?w' \<noteq> []"
    using env(4-6) B on
    by (simp add: dispatchLink_def spotify_link_def plain_link_def if_enabled_def music_of_def handleSpotifyLink_def
       with_music_lock_def acquireUserLock_def on_st_def AcquireUserLock_def Let_def spotify_release_def sample_music_def
       card_and_job_def rt_on_def start_music_job_def sendMusicCard_def post_def emit_def accepted_def empty_db_def
       live_val_def live_zset_def key_exists_def)
  moreover have "accepted music_env ?w = []" by (simp add: accepted_def)
  moreover have "platform_string (link_platform spotify_link) = ''spotify''" by (simp add: spotify_link_def plain_link_def)
  ultimately show ?thesis
    using music_link_lock_discipline [OF env(1-3) link refl, of sample_music sample_message 7 "''en''" False] env(4-6)
    by (auto simp: Let_def)
qed

end
