(* ===== verification/Music_Jobs.thy ===== *)
theory Music_Jobs
  imports Handler_Music Worker_Music Worker_Answers
begin

text \<open>
  Properties of the jobs of music releases: whatever becomes of the tracks, both locks are given back, and the outcome
  that is booked is what was sent.
\<close>

subsection \<open>What was sent\<close>

fun sound_taken :: "(event list \<Rightarrow> event \<Rightarrow> int result) \<Rightarrow> event list \<Rightarrow> event \<Rightarrow> nat" where
  "sound_taken ans pre (Sound c path t perf d cov) = (if is_ok (ans pre (Sound c path t perf d cov)) then 1 else 0)"
| "sound_taken ans pre e = 0"

fun sounds_from :: "(event list \<Rightarrow> event \<Rightarrow> int result) \<Rightarrow> event list \<Rightarrow> event list \<Rightarrow> nat" where
  "sounds_from ans pre [] = 0"
| "sounds_from ans pre (e # es) = sound_taken ans pre e + sounds_from ans (pre @ [e]) es"

definition sounds :: "('s, 'b) bot_env_scheme \<Rightarrow> ('s, 'w) world_scheme \<Rightarrow> nat" where
  "sounds B w = sounds_from (b_answer B) [] (w_log w)"

lemma sounds_from_append:
  "sounds_from ans pre (xs @ ys) = sounds_from ans pre xs + sounds_from ans (pre @ xs) ys"
  by (induction xs arbitrary: pre) simp_all

text \<open>A step that reads Redis, leaves the database alone and sends \<open>n\<close> audio files.\<close>

definition plays :: "'s work_env \<Rightarrow> ('s \<Rightarrow> redis_db) \<Rightarrow> nat \<Rightarrow> 's wworld \<Rightarrow> 's wworld \<Rightarrow> bool" where
  "plays B \<alpha> n w w' \<longleftrightarrow> \<alpha> (w_st w') = \<alpha> (w_st w) \<and> w_db w' = w_db w \<and> sounds B w' = sounds B w + n"

lemma plays_refl [simp]: "plays B \<alpha> 0 w w" by (simp add: plays_def)

lemma plays_trans: "plays B \<alpha> m w w1 \<Longrightarrow> plays B \<alpha> n w1 w2 \<Longrightarrow> plays B \<alpha> (m + n) w w2"
  by (simp add: plays_def)

lemma plays_then: "plays B \<alpha> 0 w w1 \<Longrightarrow> plays B \<alpha> n w1 w2 \<Longrightarrow> plays B \<alpha> n w w2"
  using plays_trans [of B \<alpha> 0] by simp

lemma plays_noted [simp]: "plays B \<alpha> n w (noted (Exec args) w1) = plays B \<alpha> n w w1"
  by (simp add: plays_def noted_def sounds_def sounds_from_append)

lemma plays_edit [simp]: "plays B \<alpha> n w (status_edit B p t kb w1) = plays B \<alpha> n w w1"
  by (simp add: plays_def status_edit_def post_def emit_def sounds_def sounds_from_append)

lemma plays_fs [simp]: "plays B \<alpha> n w (w1\<lparr>w_fs := fs\<rparr>) = plays B \<alpha> n w w1"
  by (simp add: plays_def sounds_def)

lemma plays_on_fs: "on_fs f w = (r, w1) \<Longrightarrow> plays B \<alpha> 0 w w1"
  by (auto simp: on_fs_def plays_def sounds_def split: prod.splits)

lemma quiet_log_plays: "quiet \<alpha> p w w1 \<Longrightarrow> w_log w1 = w_log w \<Longrightarrow> plays B \<alpha> 0 w w1"
  by (simp add: plays_def quiet_def sounds_def)

lemma plays_reads:
  assumes "lawful_redis (b_redis B) \<alpha>"
  shows "rt_int B k d w = (n, w1) \<Longrightarrow> plays B \<alpha> 0 w w1"
    and "on_st (CurrentString (b_redis B) c k t) w = (y, w1) \<Longrightarrow> plays B \<alpha> 0 w w1"
  using quiet_reads(1,4) [OF assms, where p = p] on_st_eqD
  by (fastforce simp: rt_int_def intro: quiet_log_plays)+

lemma plays_cancelled:
  assumes "lawful_redis (b_redis B) \<alpha>" "music_cancelled B p w = (c, w1)"
  shows "plays B \<alpha> 0 w w1"
proof -
  let ?f = "\<lambda>s. case IsDownloadCancelled (b_redis B) (b_prefix B) (mp_lock_scene p) (mp_user p) (mp_lock_token p) s of
      (c, _, s) \<Rightarrow> (c, s)"
  have f: "on_st ?f w = (c, w1)" using assms(2) by (simp add: music_cancelled_def)
  have "\<alpha> s' = \<alpha> s" if "?f s = (r, s')" for s r s'
    by (rule call_cases [OF assms(1), of "CExists (cancelKey (b_prefix B) (mp_lock_scene p) (mp_user p) (mp_lock_token p))" s])
      (use that in \<open>auto simp: IsDownloadCancelled_def\<close>)
  from quiet_on_st [OF f this] show ?thesis using on_st_eqD [OF f] by (auto intro: quiet_log_plays)
qed

subsection \<open>Finding a track\<close>

lemma plays_audio:
  assumes "DownloadYouTubeAudio B url dir fmt sec w = (r, w1)"
  shows "plays B \<alpha> 0 w w1"
proof -
  have "w_log w1 = w_log w \<or> (\<exists>a. w_log w1 = w_log w @ [Exec a])"
    using assms by (auto simp: DownloadYouTubeAudio_def Let_def on_fs_def split: option.splits prod.splits)
  then show ?thesis using audio_quiet [OF assms, of \<alpha> undefined]
    by (auto simp: plays_def quiet_def sounds_def sounds_from_append)
qed

lemma plays_candidates: "try_candidates B dir fmt cs e w = (r, w1) \<Longrightarrow> plays B \<alpha> 0 w w1"
proof (induction cs arbitrary: e w)
  case (Cons c cs)
  obtain r2 w2 where d: "DownloadYouTubeAudio B (''https://www.youtube.com/watch?v='' @ fst c) dir fmt [] w = (r2, w2)"
    by fastforce
  show ?case
    using Cons.prems d Cons.IH [of _ w2] plays_then [OF plays_audio [OF d]] plays_audio [OF d]
    by (auto split: sum.splits if_splits)
qed simp

lemma plays_search:
  assumes "DownloadFromYouTubeSearch B T q dir fmt dur w = (r, w1)"
  shows "plays B \<alpha> 0 w w1"
proof -
  obtain r2 w2 where s: "resolveYouTubeSearch T q dur w = (r2, w2)" by fastforce
  then have 2: "plays B \<alpha> 0 w w2" by (auto simp: resolveYouTubeSearch_def Let_def split: sum.splits)
  show ?thesis
    using assms 2 by (auto simp: DownloadFromYouTubeSearch_def s split: sum.splits prod.splits
        intro: plays_then [OF 2] dest!: plays_candidates [where \<alpha> = \<alpha>])
qed

lemma plays_cover:
  assumes "downloadCoverArt B T url dir w = (r, w1)"
  shows "plays B \<alpha> 0 w w1"
  using assms by (auto simp: downloadCoverArt_def Let_def split: sum.splits if_splits)

lemma plays_soundcloud:
  assumes "DownloadSoundCloudTrack B url dir fmt w = (r, w1)"
  shows "plays B \<alpha> 0 w w1"
  using assms by (auto simp: DownloadSoundCloudTrack_def Let_def split: option.splits prod.splits
      dest!: plays_on_fs [where \<alpha> = \<alpha> and B = B])

subsection \<open>Sending the tracks\<close>

definition sends_one :: "'s work_env \<Rightarrow> ('s \<Rightarrow> redis_db) \<Rightarrow> (nat \<Rightarrow> 't \<Rightarrow> 's wworld \<Rightarrow> bool \<times> 's wworld) \<Rightarrow> bool" where
  "sends_one B \<alpha> one \<longleftrightarrow> (\<forall>n t w ok w'. one n t w = (ok, w') \<longrightarrow> plays B \<alpha> (of_bool ok) w w')"

lemma plays_sound:
  assumes "emit B (Sound c path t perf d cov) w = (r, w1)"
  shows "plays B \<alpha> (of_bool (is_ok r)) w w1"
  using assms by (auto simp: emit_def plays_def sounds_def sounds_from_append)

lemma send_track_plays:
  assumes "send_track B p path t kb title perf d cov w = (ok, w1)"
  shows "plays B \<alpha> (of_bool ok) w w1"
proof -
  let ?w = "status_edit B p t kb w"
  obtain r w2 where e: "emit B (Sound (mp_chat p) path title perf (trunc (of_int d / 1000)) cov) ?w = (r, w2)" by fastforce
  have "plays B \<alpha> (of_bool (is_ok r)) w w2" using plays_then [OF _ plays_sound [OF e], of \<alpha> w] by simp
  then show ?thesis using assms e by (cases r) (auto simp: send_track_def)
qed

lemma search_track_sends: "sends_one B \<alpha> (search_track B T p lang pf kb fmt dir cov whole)"
proof (unfold sends_one_def, intro allI impI)
  fix n and t :: "string \<times> string \<times> int" and w ok w'
  assume run: "search_track B T p lang pf kb fmt dir cov whole n t w = (ok, w')"
  obtain title art dur where t: "t = (title, art, dur)" by (metis surj_pair)
  let ?w = "status_edit B p (track_text (pf @ ''.download_track'') lang n whole title) kb w"
  obtain r w2 where s: "DownloadFromYouTubeSearch B T (art @ '' - '' @ title) (track_dir dir n) fmt dur ?w = (r, w2)" by fastforce
  have 2: "plays B \<alpha> 0 w w2" using plays_then [OF _ plays_search [OF s], of \<alpha> w] by simp
  show "plays B \<alpha> (of_bool ok) w w'"
    using run s 2 by (auto simp: search_track_def t Let_def split: sum.splits dest!: plays_then [OF 2 send_track_plays])
qed

lemma fetch_sc_plays:
  assumes "fetch_sc_track B T r dir fmt yt p kb t w = (x, w1)"
  shows "plays B \<alpha> 0 w w1"
proof (cases "ct_fallback t")
  case False
  obtain y w2 where d: "DownloadSoundCloudTrack B (ct_url t) dir fmt w = (y, w2)" by fastforce
  note d2 = plays_soundcloud [OF d, of \<alpha>]
  have "plays B \<alpha> 0 w w1" if "DownloadFromYouTubeSearch B T q dir fmt n (status_edit B p yt kb w2) = (x, w1)" for q n
    using plays_then [OF _ plays_search [OF that], of \<alpha> w] d2 by simp
  then show ?thesis using assms False d d2 by (auto simp: fetch_sc_track_def Let_def split: sum.splits if_splits)
qed (use assms in \<open>auto simp: fetch_sc_track_def Let_def dest: plays_search\<close>)

lemma sc_one_sends: "sends_one B \<alpha> (sc_one B T p lang kb fmt dir cov r)"
proof (unfold sends_one_def, intro allI impI)
  fix n and t :: sc_track and w ok w'
  assume run: "sc_one B T p lang kb fmt dir cov r n t w = (ok, w')"
  let ?txt = "\<lambda>k. track_text k lang n (length (cr_tracks r)) (ct_title t)"
  let ?yt = "?txt ''soundcloud.download_track_youtube''"
  let ?w = "status_edit B p (if ct_fallback t then ?yt else ?txt ''soundcloud.download_track'') kb w"
  obtain x w2 where f: "fetch_sc_track B T r (track_dir dir n) fmt ?yt p kb t ?w = (x, w2)" by fastforce
  have 2: "plays B \<alpha> 0 w w2" using plays_then [OF _ fetch_sc_plays [OF f], of \<alpha> w] by simp
  let ?w3 = "status_edit B p (?txt ''soundcloud.send_track'') kb w2"
  obtain own w4 where o: "(if ct_artwork t \<noteq> [] \<and> ct_artwork t \<noteq> cr_artwork r
      then downloadCoverArt B T (ct_artwork t) (track_dir dir n) ?w3 else (cov, ?w3)) = (own, w4)" by fastforce
  have 4: "plays B \<alpha> 0 w w4"
    using o 2 plays_then [OF _ plays_cover, of B \<alpha> w ?w3] by (auto split: if_splits)
  show "plays B \<alpha> (of_bool ok) w w'"
  proof (cases "x")
    case (Inl e)
    then show ?thesis using run f 2 by (auto simp: sc_one_def Let_def split: if_splits)
  next
    case (Inr path)
    let ?e = "Sound (mp_chat p) path (ct_title t) (firstString [ct_artist t, cr_artist r]) (trunc (of_int (ct_ms t) / 1000)) own"
    obtain y w5 where e: "emit B ?e w4 = (y, w5)" by fastforce
    have "sc_one B T p lang kb fmt dir cov r n t w = (if ct_url t = [] \<and> \<not> ct_fallback t then (False, ?w) else (is_ok y, w5))"
      using e by (cases y) (simp_all add: sc_one_def Let_def f Inr o del: emit_more)
    then show ?thesis using run plays_then [OF 4 plays_sound [OF e]] by (auto split: if_splits)
  qed
qed

abbreviation cancelled_edit :: "music_payload \<Rightarrow> string \<Rightarrow> event" where
  "cancelled_edit p lang \<equiv> Edit (mp_chat p) (mp_message p) (Loc ''download.cancelled'' lang []) []"

lemma each_track_plays:
  assumes "lawful_redis (b_redis B) \<alpha>" "sends_one B \<alpha> one"
  shows "each_track B p lang one cur ts sent w = (r, w') \<Longrightarrow>
    \<exists>n. plays B \<alpha> n w w' \<and> (case r of Some s \<Rightarrow> s = sent + n | None \<Rightarrow> cancelled_edit p lang \<in> set (w_log w'))"
proof (induction ts arbitrary: cur sent w)
  case (Cons t ts)
  obtain c w1 where c: "music_cancelled B p w = (c, w1)" by fastforce
  note c1 = plays_cancelled [OF assms(1) c]
  show ?case
  proof (cases c)
    case True
    then show ?thesis using Cons.prems c c1 by (auto simp: status_edit_def post_def emit_def plays_def sounds_def sounds_from_append)
  next
    case False
    obtain ok w2 where o: "one cur t w1 = (ok, w2)" by fastforce
    then have "plays B \<alpha> (of_bool ok) w1 w2" using assms(2) by (simp add: sends_one_def)
    with c1 have 2: "plays B \<alpha> (of_bool ok) w w2" by (rule plays_then)
    from Cons.prems c o False have "each_track B p lang one (Suc cur) ts (sent + of_bool ok) w2 = (r, w')"
      by (cases ok) simp_all
    from Cons.IH [OF this] obtain n where
      "plays B \<alpha> n w2 w'" "case r of Some s \<Rightarrow> s = sent + of_bool ok + n | None \<Rightarrow> cancelled_edit p lang \<in> set (w_log w')" by blast
    with plays_trans [OF 2 this(1)] show ?thesis by (intro exI [of _ "of_bool ok + n"]) (simp add: add.assoc split: option.splits)
  qed
qed (auto intro!: exI [of _ 0])

subsection \<open>The job\<close>

text \<open>Nothing booked, then nothing sent or the job cancelled; or one download, completed when something was sent.\<close>

definition booked :: "'s work_env \<Rightarrow> music_payload \<Rightarrow> string \<Rightarrow> 's wworld \<Rightarrow> 's wworld \<Rightarrow> bool" where
  "booked B p pf w w' \<longleftrightarrow>
     w_db w' = w_db w \<and> (sounds B w' = sounds B w \<or> cancelled_edit p (mp_language p) \<in> set (w_log w'))
     \<or> (\<exists>url msg. w_db w' = snd (RecordDownload (k_fault B) (mp_user p) (mp_chat p) url pf
            (if sounds B w < sounds B w' then ''completed'' else ''failed'') 0 msg (w_db w)))"

definition ended :: "'s work_env \<Rightarrow> ('s \<Rightarrow> redis_db) \<Rightarrow> music_payload \<Rightarrow> string \<Rightarrow> 's wworld \<Rightarrow> 's wworld \<Rightarrow> bool" where
  "ended B \<alpha> p pf w w' \<longleftrightarrow> \<alpha> (w_st w') = \<alpha> (w_st w) \<and> booked B p pf w w'"

lemma ended_quiet: "plays B \<alpha> 0 w w' \<Longrightarrow> ended B \<alpha> p pf w w'"
  by (simp add: ended_def booked_def plays_def)

lemma ended_after: "plays B \<alpha> 0 w w1 \<Longrightarrow> ended B \<alpha> p pf w1 w' \<Longrightarrow> ended B \<alpha> p pf w w'"
  by (simp add: ended_def booked_def plays_def)

lemma ended_fs [simp]:
  "ended B \<alpha> p pf (w\<lparr>w_fs := fs\<rparr>) w' = ended B \<alpha> p pf w w'" "ended B \<alpha> p pf w (w'\<lparr>w_fs := fs\<rparr>) = ended B \<alpha> p pf w w'"
  by (simp_all add: ended_def booked_def sounds_def)

lemma plays_erase [simp]: "plays B \<alpha> n w (post B (Erase c m) w1) = plays B \<alpha> n w w1"
  by (simp add: plays_def post_def emit_def sounds_def sounds_from_append)

lemma booked_ended:
  assumes "plays B \<alpha> n w w1"
    and "w' = w1\<lparr>w_db := snd (RecordDownload (k_fault B) (mp_user p) (mp_chat p) url pf
           (if n = 0 then ''failed'' else ''completed'') 0 msg (w_db w1))\<rparr>"
  shows "ended B \<alpha> p pf w w'"
proof -
  have n: "sounds B w' = sounds B w + n" "\<alpha> (w_st w') = \<alpha> (w_st w)" "w_db w1 = w_db w"
    using assms by (simp_all add: plays_def sounds_def)
  have "w_db w' = snd (RecordDownload (k_fault B) (mp_user p) (mp_chat p) url pf
           (if sounds B w < sounds B w' then ''completed'' else ''failed'') 0 msg (w_db w))"
  proof -
    have "(if n = 0 then ''failed'' else ''completed'') = (if sounds B w < sounds B w' then ''completed'' else ''failed'')"
      using n(1) by simp
    then show ?thesis using n(3) assms(2) by simp
  qed
  with n(2) show ?thesis unfolding ended_def booked_def by blast
qed

lemma finish_ended:
  assumes "plays B \<alpha> n w w1" "finishMusicDownload B p lang n whole pf w1 = (r, w')"
  shows "ended B \<alpha> p pf w w'"
proof (rule booked_ended)
  let ?final = "if pf = ''spotify'' \<or> pf = ''yandexmusic'' then pf @ ''.download_none_found'' else ''soundcloud.download_failed''"
  let ?w2 = "if n = 0 then status_edit B p (Loc ?final lang []) [] w1 else post B (Erase (mp_chat p) (mp_message p)) w1"
  let ?url = "if mp_source_url p = [] then pf @ '':'' @ mp_resource p else mp_source_url p"
  let ?msg = "if n = 0 then ''0/'' @ itoa (int whole) @ '' tracks sent'' else []"
  show "plays B \<alpha> n w ?w2" using assms(1) by (cases "n = 0") simp_all
  show "w' = ?w2\<lparr>w_db := snd (RecordDownload (k_fault B) (mp_user p) (mp_chat p) ?url pf
      (if n = 0 then ''failed'' else ''completed'') 0 ?msg (w_db ?w2))\<rparr>"
    using assms(2) by (cases "n = 0") (simp_all add: finishMusicDownload_def Let_def)
qed

lemma tracks_ended:
  assumes "lawful_redis (b_redis B) \<alpha>" "sends_one B \<alpha> one"
    and "download_tracks B p (mp_language p) pf one ts w = (r, w')"
  shows "ended B \<alpha> p pf w w'"
proof -
  obtain x w1 where e: "each_track B p (mp_language p) one 1 ts 0 w = (x, w1)" by fastforce
  from each_track_plays [OF assms(1,2) e] obtain n where n: "plays B \<alpha> n w w1"
    "case x of Some s \<Rightarrow> s = 0 + n | None \<Rightarrow> cancelled_edit p (mp_language p) \<in> set (w_log w1)" by blast
  show ?thesis
  proof (cases x)
    case None
    with n e assms(3) show ?thesis by (auto simp: download_tracks_def ended_def booked_def plays_def)
  next
    case (Some s)
    with n e assms(3) finish_ended [OF n(1)] show ?thesis by (auto simp: download_tracks_def)
  qed
qed

lemma temp_ended:
  assumes "in_temp_dir B tmpl body w = (r, w')"
    and "\<And>dir w r w'. body dir w = (r, w') \<Longrightarrow> ended B \<alpha> p pf w w'"
  shows "ended B \<alpha> p pf w w'"
proof (cases "k_tmp B (w_log w) tmpl")
  case (Inl e)
  with assms(1) show ?thesis by (auto simp: in_temp_dir_def intro: ended_quiet)
next
  case (Inr dir)
  obtain x w1 where b: "body dir (w\<lparr>w_fs := (w_fs w)(dir := Some Dir)\<rparr>) = (x, w1)" by fastforce
  with assms(1) Inr have "w' = w1\<lparr>w_fs := remove_all dir (w_fs w1)\<rparr>" by (simp add: in_temp_dir_def)
  with assms(2) [OF b] show ?thesis by simp
qed

lemma ended_refl [simp]: "ended B \<alpha> p pf w w" "ended B \<alpha> p pf w (status_edit B q t kb w)"
  by (simp_all add: ended_quiet)

lemma music_reads:
  assumes "(case rt_int B k d w of (n, w) \<Rightarrow> body n w) = (r, w')" "lawful_redis (b_redis B) \<alpha>"
    and "\<And>n w2. body n w2 = (r, w') \<Longrightarrow> ended B \<alpha> p pf w2 w'"
  shows "ended B \<alpha> p pf w w'"
  using assms(1,3) by (auto split: prod.splits dest!: plays_reads(1) [OF assms(2)] intro: ended_after)

lemma music_format:
  assumes "(case on_st (CurrentString (b_redis B) c s t) w of (n, w) \<Rightarrow> body n w) = (r, w')" "lawful_redis (b_redis B) \<alpha>"
    and "\<And>n w2. body n w2 = (r, w') \<Longrightarrow> ended B \<alpha> p pf w2 w'"
  shows "ended B \<alpha> p pf w w'"
  using assms(1,3) by (auto split: prod.splits dest!: plays_reads(2) [OF assms(2)] intro: ended_after)

lemma music_cover:
  assumes "(case downloadCoverArt B T url dir w of (n, w) \<Rightarrow> body n w) = (r, w')"
    and "\<And>n w2. body n w2 = (r, w') \<Longrightarrow> ended B \<alpha> p pf w2 w'"
  shows "ended B \<alpha> p pf w w'"
  using assms by (auto split: prod.splits dest!: plays_cover [where \<alpha> = \<alpha>] intro: ended_after)

lemma release_ended:
  assumes "lawful_redis (b_redis B) \<alpha>"
  shows "downloadSpotifyRelease B T p (mp_language p) kb w = (r, w') \<Longrightarrow> ended B \<alpha> p ''spotify'' w w'"
    and "downloadYandexMusicRelease B T p (mp_language p) kb w = (r, w') \<Longrightarrow> ended B \<alpha> p ''yandexmusic'' w w'"
    and "downloadSoundCloudRelease B T p (mp_language p) kb w = (r, w') \<Longrightarrow> ended B \<alpha> p ''soundcloud'' w w'"
proof -
  note steps = music_reads [OF _ assms] music_format [OF _ assms] music_cover
    tracks_ended [OF assms search_track_sends] tracks_ended [OF assms sc_one_sends]
  show "downloadSpotifyRelease B T p (mp_language p) kb w = (r, w') \<Longrightarrow> ended B \<alpha> p ''spotify'' w w'"
    by (auto simp: downloadSpotifyRelease_def Let_def split: sum.splits if_splits
        elim!: temp_ended steps)
  show "downloadYandexMusicRelease B T p (mp_language p) kb w = (r, w') \<Longrightarrow> ended B \<alpha> p ''yandexmusic'' w w'"
    by (auto simp: downloadYandexMusicRelease_def Let_def split: sum.splits if_splits
        elim!: temp_ended steps)
  show "downloadSoundCloudRelease B T p (mp_language p) kb w = (r, w') \<Longrightarrow> ended B \<alpha> p ''soundcloud'' w w'"
    by (auto simp: downloadSoundCloudRelease_def Let_def split: sum.splits if_splits
        elim!: temp_ended steps)
qed

subsection \<open>The two locks of a job\<close>

definition music_handler :: "string \<Rightarrow> 's work_env \<Rightarrow> music_tools \<Rightarrow> body \<Rightarrow> 's job_step" where
  "music_handler pf = (if pf = ''spotify'' then handleSpotify else if pf = ''yandexmusic'' then handleYandexMusic
     else handleSoundCloud)"

definition music_platforms :: "string list" where
  "music_platforms = [''spotify'', ''yandexmusic'', ''soundcloud'']"

lemma release_key_other: "pf \<in> set music_platforms \<Longrightarrow> releaseLockKey pf p \<noteq> lockKey [] u"
  by (auto simp: music_platforms_def releaseLockKey_def lockKey_def key_def lockPrefix_def)

lemma release_lock_taken:
  assumes "lawful_redis (b_redis B) \<alpha>" "reliable_redis (b_redis B)"
    and "on_st (\<lambda>s. case TryAcquireReleaseLock (b_redis B) k ttl s of (a, _, s) \<Rightarrow> (a, s)) w = (got, w1)"
  shows "w_log w1 = w_log w \<and> w_db w1 = w_db w
    \<and> (if got then live_val (\<alpha> (w_st w)) k = None \<and> (\<exists>v. \<alpha> (w_st w1) = put_val k (Some v) (\<alpha> (w_st w)))
       else \<alpha> (w_st w1) = \<alpha> (w_st w))"
proof (rule call_cases [OF assms(1), of "CSetNX k (RText ''1'') ttl" "w_st w"])
  fix s' assume "call (b_redis B) (CSetNX k (RText ''1'') ttl) (w_st w)
      = (Inr (fst (redis_step (CSetNX k (RText ''1'') ttl) (\<alpha> (w_st w)))), s')"
    "\<alpha> s' = snd (redis_step (CSetNX k (RText ''1'') ttl) (\<alpha> (w_st w)))"
  then show ?thesis using assms(3)
    by (auto simp: TryAcquireReleaseLock_def on_st_def split: if_splits) blast
qed (use reliable_call [OF assms(2)] in auto)

lemma music_lock_back:
  assumes "lawful_redis (b_redis B) \<alpha>" "reliable_redis (b_redis B)"
  shows "\<alpha> (w_st (releaseMusicUserLock B p w))
     = (if mp_lock_token p \<noteq> [] \<and> mp_lock_scene p \<noteq> []
           \<and> lock_holder (b_prefix B) (\<alpha> (w_st w)) (mp_user p) = Some (RText (lock_value (mp_lock_scene p) (mp_lock_token p)))
        then drop_key (lockKey (b_prefix B) (mp_user p)) (\<alpha> (w_st w)) else \<alpha> (w_st w))"
proof -
  obtain e s where r: "ReleaseUserLock (b_redis B) (b_prefix B) (mp_user p) (mp_lock_scene p) (mp_lock_token p) (w_st w) = (e, s)"
    by fastforce
  then have "e = None" using reliable_exec [OF assms(2)] by (simp add: ReleaseUserLock_def)
  from assms(1) r show ?thesis
    by (cases rule: release_cases) (use r \<open>e = None\<close> in \<open>auto simp: releaseMusicUserLock_def\<close>)
qed

lemma release_lock_back:
  assumes "lawful_redis (b_redis B) \<alpha>" "reliable_redis (b_redis B)"
  shows "\<alpha> (w_st (do_st (ReleaseReleaseLock (b_redis B) k) w)) = drop_key k (\<alpha> (w_st w))"
proof -
  obtain e s where r: "ReleaseReleaseLock (b_redis B) k (w_st w) = (e, s)" by fastforce
  with exec_cases [OF assms(1), of "CDel k"] reliable_exec [OF assms(2)] show ?thesis
    by (auto simp: ReleaseReleaseLock_def)
qed

definition same_but_locks :: "'s work_env \<Rightarrow> 's wworld \<Rightarrow> 's wworld \<Rightarrow> bool" where
  "same_but_locks B w w' \<longleftrightarrow> w_log w' = w_log w \<and> w_db w' = w_db w"

lemma booked_outside:
  assumes "same_but_locks B w w1" "booked B p pf w1 w2" "same_but_locks B w2 w'"
  shows "booked B p pf w w'"
  using assms by (simp add: booked_def same_but_locks_def sounds_def)

lemma lock_steps_same [simp]: "same_but_locks B w (releaseMusicUserLock B p (do_st f w))"
  "same_but_locks B w (releaseMusicUserLock B p w)"
  by (simp_all add: same_but_locks_def releaseMusicUserLock_def)

lemma begin_ended: "ended B \<alpha> p pf (beginMusicDownloadStatus B T p lang pf kb w) w' \<Longrightarrow> ended B \<alpha> p pf w w'"
  by (erule ended_after [rotated]) (auto simp: beginMusicDownloadStatus_def split: sum.split list.split)

lemma run_music:
  assumes "lawful_redis (b_redis B) \<alpha>" "reliable_redis (b_redis B)" "b_prefix B = []" "pf \<in> set music_platforms"
    and "runMusicDownload B T p pf w = (r, w')"
  defines "s \<equiv> \<alpha> (w_st w)" and "s' \<equiv> \<alpha> (w_st w')" and "k \<equiv> releaseLockKey pf p"
  shows "booked B p pf w w' \<and> live_val s' k = live_val s k
    \<and> lock_holder [] s' = (if mp_lock_token p \<noteq> [] \<and> mp_lock_scene p \<noteq> []
        \<and> lock_holder [] s (mp_user p) = Some (RText (lock_value (mp_lock_scene p) (mp_lock_token p)))
        then (lock_holder [] s)(mp_user p := None) else lock_holder [] s)"
proof -
  note other = release_key_other [OF assms(4), of p, folded k_def]
  obtain got w1 where g: "on_st (\<lambda>s. case TryAcquireReleaseLock (b_redis B) k (releaseLockTTL pf (b_cfg B)) s of
      (a, _, s) \<Rightarrow> (a, s)) w = (got, w1)" by fastforce
  note g1 = release_lock_taken [OF assms(1,2) g]
  have outer: "same_but_locks B w w1" using g1 by (simp add: same_but_locks_def)
  show ?thesis
  proof (cases got)
    case False
    let ?w2 = "status_edit B p (Loc ''errors.busy'' (mp_language p) []) [] w1"
    have w': "w' = releaseMusicUserLock B p ?w2" using assms(5) g False by (simp add: runMusicDownload_def Let_def k_def)
    have "booked B p pf w1 ?w2" using ended_refl(2) unfolding ended_def by blast
    with outer have "booked B p pf w w'" by (rule booked_outside) (simp add: w')
    moreover have "\<alpha> (w_st ?w2) = s" using g1 False by (simp add: s_def status_edit_def)
    ultimately show ?thesis using music_lock_back [OF assms(1,2), of p ?w2] other assms(3)
      by (auto simp: w' s'_def fun_eq_iff lock_holder_def)
  next
    case True
    let ?kb = "cancel_Keyboard (mp_language p) (mp_lock_scene p) (mp_user p) (mp_lock_token p)"
    let ?w2 = "beginMusicDownloadStatus B T p (mp_language p) pf ?kb w1"
    obtain w3 where 3: "ended B \<alpha> p pf ?w2 w3"
        "w' = releaseMusicUserLock B p (do_st (ReleaseReleaseLock (b_redis B) k) w3)"
      using assms(4,5) g True release_ended [OF assms(1), of T p ?kb ?w2]
      by (auto simp: runMusicDownload_def Let_def k_def music_platforms_def split: prod.splits)
    from begin_ended [OF 3(1)] have e: "ended B \<alpha> p pf w1 w3" .
    then have "booked B p pf w1 w3" by (simp add: ended_def)
    with outer have "booked B p pf w w'" by (rule booked_outside) (simp add: 3(2))
    moreover obtain v where v: "\<alpha> (w_st w3) = put_val k (Some v) s" "live_val s k = None"
      using e g1 True by (auto simp: ended_def s_def)
    ultimately show ?thesis
      using music_lock_back [OF assms(1,2), of p "do_st (ReleaseReleaseLock (b_redis B) k) w3"]
        release_lock_back [OF assms(1,2), of k w3] other assms(3)
      by (auto simp: 3(2) s'_def fun_eq_iff lock_holder_def)
  qed
qed

lemma music_handler_runs:
  assumes "unmarshal_music body = Some p" "mp_chat p \<noteq> 0" "mp_message p \<noteq> 0" "pf \<in> set music_platforms"
    and "music_handler pf B T body w = (r, w')"
  obtains x w1 where "runMusicDownload B T p pf w = (x, w1)" "r = None"
    "w' = w1 \<or> w' = status_edit B p (Loc (pf @ ''.download_failed'') (mp_language p) []) [] w1"
proof -
  obtain x w1 where x: "runMusicDownload B T p pf w = (x, w1)" by fastforce
  show thesis
    using assms x by (intro that [OF x]) (auto simp: music_handler_def music_platforms_def handleSpotify_def handleYandexMusic_def
      handleSoundCloud_def music_failed_def split: option.splits)
qed

lemma booked_said:
  assumes "booked B p pf w w1"
  shows "booked B p pf w (status_edit B p t kb w1)"
proof -
  let ?w2 = "status_edit B p t kb w1"
  have same: "sounds B ?w2 = sounds B w1" "w_db ?w2 = w_db w1" "e \<in> set (w_log w1) \<Longrightarrow> e \<in> set (w_log ?w2)" for e
    by (auto simp: status_edit_def post_def emit_def sounds_def sounds_from_append)
  from assms show ?thesis unfolding booked_def same(1,2) using same(3) by blast
qed

subsection \<open>A sample\<close>

definition sample_tools :: music_tools where
  "sample_tools = \<lparr>mt_search = (\<lambda>_ _. Inr [Some (''v'', 180)]), mt_get = (\<lambda>_ _. Inl ''offline''), mt_create = (\<lambda>_ _. None),
     mt_sp = (\<lambda>_. Inr \<lparr>sr_id = ''r'', sr_title = ''One'', sr_artists = ''A'', sr_type = ''track'', sr_date = [],
        sr_cover = [], sr_url = ''u'', sr_tracks = [\<lparr>st_id = ''t'', st_title = ''One'', st_artists = ''A'', st_ms = 180000,
        st_url = ''u'', st_disc = 1, st_number = 1\<rparr>]\<rparr>),
     mt_ym = (\<lambda>_. Inl []), mt_sc = (\<lambda>_. Inl []), mt_titles = (\<lambda>_. Inr [''One''])\<rparr>"

definition music_job :: music_payload where
  "music_job = zero_music\<lparr>mp_platform := ''spotify'', mp_chat := 7, mp_user := 7, mp_message := 3, mp_link_type := ''track'',
     mp_resource := ''r'', mp_lock_token := ''t'', mp_lock_scene := ''spotify''\<rparr>"

definition music_world :: "redis_db wworld" where
  "music_world = sample_wworld\<lparr>w_st := snd (AcquireUserLock ref_redis [] ''t'' 7 ''spotify'' (hours 1) empty_db)\<rparr>"

lemma music_job_parses: "unmarshal_music (marshal_music music_job) = Some music_job"
  by (rule music_payload_roundtrip) (simp_all add: music_job_def zero_music_def in_int64_def int64_min_def int64_max_def)

lemma music_job_sel: "mp_chat music_job = 7" "mp_user music_job = 7" "mp_message music_job = 3"
  "mp_lock_token music_job = ''t''" "mp_lock_scene music_job = ''spotify''" "''spotify'' \<in> set music_platforms"
  "music_handler ''spotify'' = handleSpotify"
  by (simp_all add: music_job_def zero_music_def music_platforms_def music_handler_def)

text \<open>
  C11. With a Redis that answers every call, a job of a music release of the main bot (whose keys have no prefix), with a chat and a
  message, ends without an error and gives back both locks however its tracks went: the lock of the
  user is free when it still carried the scene and token of the job and is untouched otherwise, no other user's lock
  changes, and the lock of the release is as it was before, free unless another job held it.
\<close>

theorem music_job_gives_locks_back:
  assumes "lawful_redis (b_redis B) \<alpha>" "reliable_redis (b_redis B)" "b_prefix B = []" "pf \<in> set music_platforms"
    and "unmarshal_music body = Some p" "mp_chat p \<noteq> 0" "mp_message p \<noteq> 0" "music_handler pf B T body w = (r, w')"
  defines "s \<equiv> \<alpha> (w_st w)" and "s' \<equiv> \<alpha> (w_st w')" and "k \<equiv> releaseLockKey pf p"
  shows "r = None \<and> live_val s' k = live_val s k
    \<and> lock_holder [] s' = (if mp_lock_token p \<noteq> [] \<and> mp_lock_scene p \<noteq> []
        \<and> lock_holder [] s (mp_user p) = Some (RText (lock_value (mp_lock_scene p) (mp_lock_token p)))
        then (lock_holder [] s)(mp_user p := None) else lock_holder [] s)"
  using assms(5-7,4,8)
proof (cases rule: music_handler_runs)
  case (1 x w1)
  then have "\<alpha> (w_st w') = \<alpha> (w_st w1)" by (auto simp: status_edit_def)
  with run_music [OF assms(1-4) 1(1)] 1(2) show ?thesis by (simp add: s_def s'_def k_def)
qed

lemma music_job_gives_locks_back_witness:
  "lock_holder [] (w_st music_world) 7 = Some (RText (lock_value ''spotify'' ''t''))
   \<and> lock_holder [] (w_st (snd (handleSpotify (sample_work_env ''connection reset'') sample_tools (marshal_music music_job)
        music_world))) 7 = None"
proof -
  let ?B = "sample_work_env ''connection reset''"
  obtain r w' where h: "handleSpotify ?B sample_tools (marshal_music music_job) music_world = (r, w')" by fastforce
  have l: "lock_holder [] (w_st music_world) 7 = Some (RText (lock_value ''spotify'' ''t''))"
    by (simp add: music_world_def AcquireUserLock_def lock_holder_def key_exists_def empty_db_def live_val_def
        live_zset_def visible_def deadline_def hours_def second_def put_val_def)
  from music_job_gives_locks_back [of ?B "\<lambda>db. db" "''spotify''" "marshal_music music_job" music_job sample_tools music_world r w']
  show ?thesis using l lawful_ref_redis reliable_ref music_job_parses h by (simp add: music_job_sel)
qed

lemma recorded_music:
  assumes "pf \<in> set music_platforms" "''saveinator'' \<in> set (d_bots db)"
    and db': "db' = snd (RecordDownload (\<lambda>_. None) u c url pf (if sent then ''completed'' else ''failed'') z msg db)"
  shows "if pf = ''yandexmusic'' then d_downloads db' = d_downloads db
    else \<exists>row. d_downloads db' = d_downloads db @ [row] \<and> dl_user row = u \<and> dl_chat row = c
      \<and> dl_platform row = toDBPlatform pf \<and> dl_status row = (if sent then ''COMPLETED'' else ''FAILED'')"
proof -
  have st: "toDBDownloadStatus ''completed'' = ''COMPLETED''" "toDBDownloadStatus ''failed'' = ''FAILED''" by code_simp+
  have en: "toDBPlatform ''spotify'' \<in> set platform_enum" "toDBPlatform ''soundcloud'' \<in> set platform_enum"
    "toDBPlatform ''yandexmusic'' \<notin> set platform_enum" by code_simp+
  show ?thesis
  proof (cases "pf = ''yandexmusic''")
    case True
    with en(3) show ?thesis
      by (auto simp: db' RecordDownload_def RecordDownloadForBot_def and_then_def exec_stmt_def stmt_def Let_def
          insert_user_def insert_chat_def insert_download_def plain_user_def has_key_def)
  next
    case False
    with assms(1) en(1,2) have "toDBPlatform pf \<in> set platform_enum" by (auto simp: music_platforms_def)
    from record_row_of [OF assms(2) this, of "if sent then ''completed'' else ''failed''" u c url z msg] st False
    show ?thesis unfolding db' by (auto split: if_splits)
  qed
qed

text \<open>
  C12. What a job of a music release of the main bot (whose keys have no prefix), with a chat and a message, books is what was sent,
  with a Redis that answers every call. With nothing booked, no audio file was accepted by Telegram or the status
  message says the download was cancelled; otherwise the database is asked for one thing, to record one download of the user and
  chat for the service, completed when at least one audio file was accepted and failed when none was. A database that answers
  and knows the bot then has exactly one row more, of that status; but none for Yandex Music, which its enumeration of
  platforms lacks.
\<close>

theorem music_job_books_what_was_sent:
  assumes "lawful_redis (b_redis B) \<alpha>" "reliable_redis (b_redis B)" "b_prefix B = []" "pf \<in> set music_platforms"
    and "unmarshal_music body = Some p" "mp_chat p \<noteq> 0" "mp_message p \<noteq> 0" "music_handler pf B T body w = (r, w')"
  defines "sent \<equiv> sounds B w < sounds B w'"
  shows "w_db w' = w_db w \<and> (\<not> sent \<or> cancelled_edit p (mp_language p) \<in> set (w_log w'))
    \<or> (\<exists>url msg. w_db w' = snd (RecordDownload (k_fault B) (mp_user p) (mp_chat p) url pf
          (if sent then ''completed'' else ''failed'') 0 msg (w_db w)))
      \<and> (k_fault B = (\<lambda>_. None) \<and> ''saveinator'' \<in> set (d_bots (w_db w)) \<longrightarrow>
          (if pf = ''yandexmusic'' then d_downloads (w_db w') = d_downloads (w_db w)
           else \<exists>row. d_downloads (w_db w') = d_downloads (w_db w) @ [row] \<and> dl_user row = mp_user p \<and> dl_chat row = mp_chat p
             \<and> dl_platform row = toDBPlatform pf \<and> dl_status row = (if sent then ''COMPLETED'' else ''FAILED'')))"
  using assms(5-7,4,8)
proof (cases rule: music_handler_runs)
  case (1 x w1)
  with run_music [OF assms(1-4) 1(1)] have b: "booked B p pf w w'" by (auto intro: booked_said)
  show ?thesis
  proof (cases "w_db w' = w_db w \<and> (\<not> sent \<or> cancelled_edit p (mp_language p) \<in> set (w_log w'))")
    case False
    with b obtain url msg where r: "w_db w' = snd (RecordDownload (k_fault B) (mp_user p) (mp_chat p) url pf
        (if sent then ''completed'' else ''failed'') 0 msg (w_db w))"
      unfolding booked_def sent_def by (elim disjE; ((auto; fail) | blast))
    have "if pf = ''yandexmusic'' then d_downloads (w_db w') = d_downloads (w_db w)
        else \<exists>row. d_downloads (w_db w') = d_downloads (w_db w) @ [row] \<and> dl_user row = mp_user p \<and> dl_chat row = mp_chat p
          \<and> dl_platform row = toDBPlatform pf \<and> dl_status row = (if sent then ''COMPLETED'' else ''FAILED'')"
      if "k_fault B = (\<lambda>_. None)" "''saveinator'' \<in> set (d_bots (w_db w))"
      using recorded_music [OF assms(4) that(2) r [unfolded that(1)]] .
    with r show ?thesis by blast
  qed simp
qed

lemma music_job_books_what_was_sent_witness:
  "\<exists>w' sent. snd (handleSpotify (sample_work_env ''connection reset'') sample_tools (marshal_music music_job) music_world) = w'
     \<and> sent = (sounds (sample_work_env ''connection reset'') music_world < sounds (sample_work_env ''connection reset'') w')
     \<and> (w_db w' = w_db music_world \<and> (\<not> sent \<or> cancelled_edit music_job ''en'' \<in> set (w_log w'))
       \<or> (\<exists>url msg. w_db w' = snd (RecordDownload (\<lambda>_. None) 7 7 url ''spotify''
            (if sent then ''completed'' else ''failed'') 0 msg (w_db music_world))))"
proof -
  let ?B = "sample_work_env ''connection reset''"
  obtain r w' where h: "handleSpotify ?B sample_tools (marshal_music music_job) music_world = (r, w')" by fastforce
  have "lawful_redis (b_redis ?B) (\<lambda>db. db)" "reliable_redis (b_redis ?B)" "b_prefix ?B = []" "mp_chat music_job \<noteq> 0"
    "mp_message music_job \<noteq> 0" "music_handler ''spotify'' ?B sample_tools (marshal_music music_job) music_world = (r, w')"
    using lawful_ref_redis reliable_ref h by (simp_all add: music_job_sel)
  note music_job_books_what_was_sent [OF this(1-3) music_job_sel(6) music_job_parses this(4-6)]
  moreover have "mp_language music_job = ''en''" by (simp add: mp_language_def music_job_def zero_music_def)
  ultimately show ?thesis using h
    by (intro exI [of _ w'] exI conjI) (auto simp only: music_job_sel sample_work_sel snd_conv)
qed

end
