(* ===== verification/Fleet.thy ===== *)
theory Fleet
  imports Handler_Music Handler_Admin Worker_Music Worker_Platforms
begin

text \<open>
  The bots of the fleet (\<open>botkit\<close>): how a bot is configured (\<open>fleet.go\<close>, \<open>config.go\<close>), the path of a message in it
  (\<open>bot.go\<close>), its settings and panel (\<open>settings.go\<close>, \<open>admin.go\<close>, \<open>clear.go\<close>), its platforms and their jobs
  (\<open>platforms\<close>, \<open>botworker\<close>). Every bot has its own queue and key prefix; what a bot does exactly as the main bot is
  the definition of the main bot.
\<close>

subsection \<open>Configuration (config.go, fleet.go)\<close>

datatype fleet_platform = PinterestPlat | SoundCloudPlat | SpotifyPlat

record bot_spec =
  fs_slug :: string
  fs_token_env :: string
  fs_username :: string
  fs_languages :: "string list"
  fs_default :: string
  fs_welcome :: string
  fs_not_supported :: string
  fs_queue :: string
  fs_api :: bool
  fs_platforms :: "string list"
  fs_concurrency :: int

record bot_config =
  bc_slug :: string
  bc_languages :: "string list"
  bc_default :: string
  bc_welcome :: string
  bc_not_supported :: string
  bc_queue :: string
  bc_api :: bool
  bc_platforms :: "fleet_platform list"

text \<open>Reading the file and decoding the YAML are arguments.\<close>

definition LoadFleet :: "string \<Rightarrow> string result \<Rightarrow> (string \<Rightarrow> bot_spec list result) \<Rightarrow> bot_spec list result" where
  "LoadFleet path file yaml =
     (case file of
        Inl e \<Rightarrow> Inl (''read fleet config: '' @ e)
      | Inr raw \<Rightarrow>
          (case yaml raw of
             Inl e \<Rightarrow> Inl (''parse fleet config: '' @ e)
           | Inr bots \<Rightarrow> if bots = [] then Inl (''fleet config '' @ path @ '' has no bots'') else Inr bots))"

definition platformRegistry :: "string \<Rightarrow> fleet_platform option" where
  "platformRegistry name = map_of [(''pinterest'', PinterestPlat), (''soundcloud'', SoundCloudPlat), (''spotify'', SpotifyPlat)] name"

definition normalize_defaults :: "bot_config \<Rightarrow> bot_config" where
  "normalize_defaults c =
     (let langs = (if bc_languages c = [] then [''en'', ''ru''] else bc_languages c) in
      c\<lparr>bc_languages := langs, bc_default := (if bc_default c = [] then hd langs else bc_default c),
        bc_queue := (if bc_queue c = [] then bc_slug c else bc_queue c),
        bc_not_supported := (if bc_not_supported c = [] then ''errors.unsupported'' else bc_not_supported c)\<rparr>)"

definition quoted :: "string \<Rightarrow> string" where "quoted s = quote @ s @ quote"

definition normalize :: "(string \<Rightarrow> bool) \<Rightarrow> bot_config \<Rightarrow> bot_config result" where
  "normalize supported c =
     (let n = normalize_defaults c in
      if bc_slug c = [] then Inl ''botkit: Slug is required''
      else if bc_default n \<notin> set (bc_languages n) then
        Inl (''botkit: DefaultLang '' @ quoted (bc_default n) @ '' not in Languages'')
      else case filter (\<lambda>l. \<not> supported l) (bc_languages n) of
        l # _ \<Rightarrow> Inl (''botkit: no locale file for language '' @ quoted l)
      | [] \<Rightarrow>
          if bc_welcome c = [] then Inl ''botkit: WelcomeKey is required''
          else if bc_platforms c = [] then Inl ''botkit: at least one Platform is required''
          else Inr n)"

definition langAllowed :: "bot_config \<Rightarrow> string \<Rightarrow> bool" where
  "langAllowed c lang \<longleftrightarrow> lang \<in> set (bc_languages c)"

fun spec_platforms :: "string \<Rightarrow> string list \<Rightarrow> fleet_platform list result" where
  "spec_platforms slug [] = Inr []"
| "spec_platforms slug (n # ns) =
     (case platformRegistry n of
        None \<Rightarrow> Inl (''bot '' @ quoted slug @ '': unknown platform '' @ quoted n)
      | Some p \<Rightarrow> (case spec_platforms slug ns of Inl e \<Rightarrow> Inl e | Inr ps \<Rightarrow> Inr (p # ps)))"

definition toBotConfig :: "(string \<Rightarrow> string) \<Rightarrow> (string \<Rightarrow> bool) \<Rightarrow> bot_spec \<Rightarrow> (bot_config \<times> string) result" where
  "toBotConfig getenv supported s =
     (if fs_token_env s = [] then Inl (''bot '' @ quoted (fs_slug s) @ '': token_env is required'')
      else if getenv (fs_token_env s) = [] then
        Inl (''bot '' @ quoted (fs_slug s) @ '': env '' @ fs_token_env s @ '' is empty'')
      else case spec_platforms (fs_slug s) (fs_platforms s) of
        Inl e \<Rightarrow> Inl e
      | Inr ps \<Rightarrow>
          (case normalize supported
                  \<lparr>bc_slug = fs_slug s, bc_languages = fs_languages s, bc_default = fs_default s, bc_welcome = fs_welcome s,
                   bc_not_supported = fs_not_supported s, bc_queue = fs_queue s, bc_api = fs_api s, bc_platforms = ps\<rparr> of
             Inl e \<Rightarrow> Inl e
           | Inr c \<Rightarrow> Inr (c, getenv (fs_token_env s))))"

text \<open>The path and address of a bot's webhook, and the answer of the shared server to a request.\<close>

definition webhook_path :: "bot_config \<Rightarrow> string" where
  "webhook_path c = ''/webhook/'' @ bc_slug c"

definition webhook_url :: "config \<Rightarrow> bot_config \<Rightarrow> string" where
  "webhook_url cfg c = trim_right_set ''/'' (c_WebhookHost cfg) @ webhook_path c"

text \<open>The status of the answer and the update that was handed over, if any.\<close>

definition webhook_answer ::
  "string \<Rightarrow> (string \<Rightarrow> go_error option) \<Rightarrow> string \<Rightarrow> string \<Rightarrow> string result \<Rightarrow> int \<times> string option" where
  "webhook_answer secret handler method token body =
     (if method \<noteq> ''POST'' then (405, None)
      else if secret \<noteq> [] \<and> token \<noteq> secret then (401, None)
      else case body of
        Inl e \<Rightarrow> (400, None)
      | Inr data \<Rightarrow> (if handler data \<noteq> None then 500 else 200, Some data))"

subsection \<open>The path of a message (bot.go)\<close>

text \<open>The environment of a bot has the slug as its key prefix and answers with the language stored for the bot.\<close>

definition fleet_lang :: "bot_config \<Rightarrow> 's bot_env \<Rightarrow> int \<Rightarrow> 's world \<Rightarrow> string" where
  "fleet_lang c B u w =
     (case b_lang B (w_log w) u of
        Inl e \<Rightarrow> bc_default c
      | Inr lang \<Rightarrow> if lang = [] then bc_default c else lang)"

definition Match :: "fleet_platform \<Rightarrow> parsed_link \<Rightarrow> bool" where
  "Match p l = (case p of
     PinterestPlat \<Rightarrow> link_platform l = PlatformPinterest
   | SoundCloudPlat \<Rightarrow> link_platform l = PlatformSoundCloud
   | SpotifyPlat \<Rightarrow> link_platform l = PlatformSpotify)"

definition platform_slug :: "fleet_platform \<Rightarrow> string" where
  "platform_slug p = (case p of PinterestPlat \<Rightarrow> ''pinterest'' | SoundCloudPlat \<Rightarrow> ''soundcloud'' | SpotifyPlat \<Rightarrow> ''spotify'')"

definition fleet_payload :: "message \<Rightarrow> int \<Rightarrow> string \<Rightarrow> parsed_link \<Rightarrow> string \<Rightarrow> string \<Rightarrow> int \<Rightarrow> download_payload" where
  "fleet_payload m userID lang link scene token status =
     zero_download\<lparr>dp_url := link_url link, dp_platform := scene, dp_chat := m_chat m, dp_user := userID,
       dp_message := status, dp_lang := lang, dp_lock_token := token, dp_lock_scene := scene\<rparr>"

definition fleet_enqueue_with ::
  "bot_config \<Rightarrow> 's bot_env \<Rightarrow> message \<Rightarrow> int \<Rightarrow> string \<Rightarrow> parsed_link \<Rightarrow> string \<Rightarrow> string \<Rightarrow> string \<Rightarrow> 's world
     \<Rightarrow> go_error option \<times> 's world" where
  "fleet_enqueue_with c B m userID lang link scene taskType token w =
     (let kb = (if token \<noteq> [] then cancel_Keyboard lang scene userID token else []) in
      case emit B (Send (m_chat m) (Loc ''download.downloading'' lang []) kb) w of
        (Inl e, w) \<Rightarrow> (Some e, release_token B userID scene token w)
      | (Inr status, w) \<Rightarrow>
          (case emit B (Job (EnqueueDownloadTo id taskType (bc_queue c)
                  (fleet_payload m userID lang link scene token status))) w of
             (Inl e, w) \<Rightarrow> (Some (''enqueue: '' @ e), release_token B userID scene token w)
           | (Inr _, w) \<Rightarrow> (None, w)))"

definition fleet_enqueue ::
  "bot_config \<Rightarrow> 's bot_env \<Rightarrow> message \<Rightarrow> int \<Rightarrow> string \<Rightarrow> parsed_link \<Rightarrow> string \<Rightarrow> string \<Rightarrow> bool \<Rightarrow> 's world
     \<Rightarrow> go_error option \<times> 's world" where
  "fleet_enqueue c B m userID lang link scene taskType batch w =
     (if shouldAcquireUserLock userID batch (c_AdminTelegramID (b_cfg B)) then
        (case acquireUserLock B userID scene (lockTTL (b_cfg B) scene) w of
           (Inl e, w) \<Rightarrow> (Some e, w)
         | (Inr (token, ok), w) \<Rightarrow>
             if \<not> ok then (None, replyBusy B m userID lang w)
             else fleet_enqueue_with c B m userID lang link scene taskType token w)
      else fleet_enqueue_with c B m userID lang link scene taskType [] w)"

definition fleet_EnqueueDownload ::
  "bot_config \<Rightarrow> 's bot_env \<Rightarrow> message \<Rightarrow> int \<Rightarrow> string \<Rightarrow> parsed_link \<Rightarrow> string \<Rightarrow> string \<Rightarrow> bool \<Rightarrow> 's world \<Rightarrow> 's world" where
  "fleet_EnqueueDownload c B m userID lang link scene taskType batch w =
     (case fleet_enqueue c B m userID lang link scene taskType batch w of
        (Some e, w) \<Rightarrow> reply B (m_chat m) ''errors.generic'' lang w
      | (None, w) \<Rightarrow> w)"

subsection \<open>Links (platforms)\<close>

definition fleet_spotify_release ::
  "bot_config \<Rightarrow> 's bot_env \<Rightarrow> music_clients \<Rightarrow> message \<Rightarrow> int \<Rightarrow> string \<Rightarrow> parsed_link \<Rightarrow> string \<Rightarrow> 's world \<Rightarrow> 's world" where
  "fleet_spotify_release c B C m userID lang link token w =
     (let chat = m_chat m;
          stop = (\<lambda>k. release_token B userID ''spotify'' token (send_loc B chat k lang [] w)) in
      if \<not> c_SpotifyEnabled (b_cfg B) then stop ''spotify.disabled''
      else if \<not> mc_spotify_on C then stop ''spotify.not_configured''
      else case mc_spotify C (w_log w) (spotify_typ link) (spotify_id link) of
        Inl err \<Rightarrow>
          stop (if snd err = ''ErrNotFound'' then ''spotify.not_found''
                else if snd err = ''ErrAuth'' then ''spotify.not_configured'' else ''spotify.api_error'')
      | Inr r \<Rightarrow>
          card_and_job B chat userID lang ''spotify'' token (c_SpotifyDownloadEnabled (b_cfg B)) (sr_cover r)
            (sp_CardText r lang) (sp_OpenKeyboard r lang) (length (sr_tracks r))
            (EnqueueMusicTo id TypeSpotify (bc_queue c))
            (zero_music\<lparr>mp_link_type := spotify_typ link, mp_resource := spotify_id link, mp_release := mc_sp_json C r\<rparr>) w)"

definition fleet_spotify_link ::
  "bot_config \<Rightarrow> 's bot_env \<Rightarrow> music_clients \<Rightarrow> message \<Rightarrow> int \<Rightarrow> string \<Rightarrow> parsed_link \<Rightarrow> 's world \<Rightarrow> 's world" where
  "fleet_spotify_link c B C m userID lang link w =
     (if spotify_id link = [] \<or> spotify_typ link = [] then send_loc B (m_chat m) ''errors.unsupported'' lang [] w
      else with_music_lock B userID ''spotify'' (c_SpotifyLockMaxTracks (b_cfg B)) (replyBusy B m userID lang)
             (fleet_spotify_release c B C m userID lang link) w)"

definition fleet_soundcloud_release ::
  "bot_config \<Rightarrow> 's bot_env \<Rightarrow> music_clients \<Rightarrow> message \<Rightarrow> int \<Rightarrow> string \<Rightarrow> link_type \<times> string \<Rightarrow> string \<Rightarrow> 's world
     \<Rightarrow> 's world" where
  "fleet_soundcloud_release c B C m userID lang link token w =
     (let chat = m_chat m in
      if \<not> c_SoundCloudEnabled (b_cfg B) then
        release_token B userID ''soundcloud'' token (send_loc B chat ''soundcloud.disabled'' lang [] w)
      else
        let (maxTracks, w) = on_st (CurrentInt (b_redis B) (Some (b_cfg B)) ''soundcloud.max_tracks_per_playlist''
              (c_SoundCloudMaxTracks (b_cfg B))) w in
        case mc_soundcloud C (w_log w) link maxTracks of
          Inl err \<Rightarrow>
            release_token B userID ''soundcloud'' token
              (if snd err = ''ErrNotFound'' then send_loc B chat ''soundcloud.not_found'' lang [] w
               else if snd err = ''ErrTooLarge''
               then send_loc B chat ''soundcloud.playlist_too_large'' lang [(''limit'', itoa maxTracks)] w
               else send_loc B chat ''soundcloud.download_failed'' lang [] w)
        | Inr r \<Rightarrow>
            card_and_job B chat userID lang ''soundcloud'' token (c_SoundCloudDownloadEnabled (b_cfg B)) (cr_artwork r)
              (sc_CardText r lang) (sc_OpenKeyboard r lang) (length (cr_tracks r))
              (EnqueueMusicTo id TypeSoundCloud (bc_queue c))
              (zero_music\<lparr>mp_source_url := snd link, mp_release := mc_sc_json C r\<rparr>) w)"

definition fleet_soundcloud_link ::
  "bot_config \<Rightarrow> 's bot_env \<Rightarrow> music_clients \<Rightarrow> message \<Rightarrow> int \<Rightarrow> string \<Rightarrow> parsed_link \<Rightarrow> 's world \<Rightarrow> 's world" where
  "fleet_soundcloud_link c B C m userID lang link w =
     (case ParseLink (link_url link) of
        Inl e \<Rightarrow> send_loc B (m_chat m) ''errors.unsupported'' lang [] w
      | Inr l \<Rightarrow>
          with_music_lock B userID ''soundcloud'' (c_SoundCloudMaxTracks (b_cfg B)) (replyBusy B m userID lang)
            (fleet_soundcloud_release c B C m userID lang l) w)"

definition HandleLink ::
  "bot_config \<Rightarrow> 's bot_env \<Rightarrow> music_clients \<Rightarrow> fleet_platform \<Rightarrow> message \<Rightarrow> int \<Rightarrow> string \<Rightarrow> parsed_link \<Rightarrow> bool
     \<Rightarrow> 's world \<Rightarrow> 's world" where
  "HandleLink c B C p m userID lang link batch w =
     (case p of
        PinterestPlat \<Rightarrow> fleet_EnqueueDownload c B m userID lang link ''pinterest'' TypePinterest batch w
      | SpotifyPlat \<Rightarrow> fleet_spotify_link c B C m userID lang link w
      | SoundCloudPlat \<Rightarrow> fleet_soundcloud_link c B C m userID lang link w)"

text \<open>The first platform that matches takes the link.\<close>

fun first_match :: "fleet_platform list \<Rightarrow> parsed_link \<Rightarrow> fleet_platform option" where
  "first_match [] l = None"
| "first_match (p # ps) l = (if Match p l then Some p else first_match ps l)"

definition fleet_dispatchLink ::
  "bot_config \<Rightarrow> 's bot_env \<Rightarrow> music_clients \<Rightarrow> message \<Rightarrow> int \<Rightarrow> string \<Rightarrow> parsed_link \<Rightarrow> bool \<Rightarrow> 's world \<Rightarrow> 's world" where
  "fleet_dispatchLink c B C m userID lang link batch w =
     (case first_match (bc_platforms c) link of
        None \<Rightarrow> reply B (m_chat m) (bc_not_supported c) lang w
      | Some p \<Rightarrow>
          (case on_st (PlatformEnabled (b_redis B) (Some (b_cfg B)) (platform_slug p)) w of
             (on, w) \<Rightarrow>
               if \<not> on then reply B (m_chat m) (platform_slug p @ ''.disabled'') lang w
               else HandleLink c B C p m userID lang link batch w))"

fun fleet_dispatch_all ::
  "bot_config \<Rightarrow> 's bot_env \<Rightarrow> music_clients \<Rightarrow> message \<Rightarrow> int \<Rightarrow> string \<Rightarrow> bool \<Rightarrow> parsed_link list \<Rightarrow> 's world \<Rightarrow> 's world" where
  "fleet_dispatch_all c B C m userID lang batch [] w = w"
| "fleet_dispatch_all c B C m userID lang batch (l # ls) w =
     fleet_dispatch_all c B C m userID lang batch ls (fleet_dispatchLink c B C m userID lang l batch w)"

text \<open>
  What the operator types is for the panel when a question is pending. The four dialogues (\<open>typed\<close>: the message, the language, the
  question and the text) are those of theory \<open>Handler_Admin\<close>, over a world with the database.
\<close>

type_synonym 's dialogues = "message \<Rightarrow> string \<Rightarrow> pending \<Rightarrow> string \<Rightarrow> 's world \<Rightarrow> bool \<times> 's world"

definition fleet_handleAdminFSM :: "'s dialogues \<Rightarrow> 's bot_env \<Rightarrow> message \<Rightarrow> string \<Rightarrow> 's world \<Rightarrow> bool \<times> 's world" where
  "fleet_handleAdminFSM typed B m lang w =
     (case m_from m of
        None \<Rightarrow> (False, w)
      | Some who \<Rightarrow>
          if \<not> isAdmin B (u_id who) then (False, w)
          else case fsm_Get (u_id who) (w_fsm w) of
            None \<Rightarrow> (False, w)
          | Some st \<Rightarrow>
              let t = trim_space (m_text m) in
              if t = [] then (True, w)
              else if pd_kind st \<in> {''admin_edit'', ''admin_ban'', ''broadcast_text'', ''broadcast_edit''} then typed m lang st t w
              else (False, fsm_clear (u_id who) w))"

definition fleet_onText ::
  "bot_config \<Rightarrow> 's bot_env \<Rightarrow> music_clients \<Rightarrow> 's dialogues \<Rightarrow> message \<Rightarrow> 's world \<Rightarrow> 's world" where
  "fleet_onText c B C typed m w =
     (if shouldSkipIncomingMessage m then w
      else case m_from m of
        None \<Rightarrow> w
      | Some u \<Rightarrow>
          let lang = fleet_lang c B (u_id u) w;
              (banned, w) = checkBanned B m lang w in
          if banned then w
          else
            let (ok, w) = allowGroupLinks B m w in
            if \<not> ok then w
            else
              let (used, w) = fleet_handleAdminFSM typed B m lang w in
              if used then w
              else
                let (ok, w) = allowRateLimit B m lang w in
                if \<not> ok then w
                else
                  let links = extractMessageLinks m in
                  fleet_dispatch_all c B C m (u_id u) lang (length links > 1) links w)"

text \<open>Around every handler of a bot: the sender counts as active, in one set for all bots (\<open>metrics_mw.go\<close>; the counters are left out).\<close>

datatype tg_update = NewMessage message | EditedMessage message | Press callback | OtherUpdate

fun activeUserID :: "tg_update \<Rightarrow> int" where
  "activeUserID (NewMessage m) = (case m_from m of None \<Rightarrow> 0 | Some u \<Rightarrow> u_id u)"
| "activeUserID (EditedMessage m) = (case m_from m of None \<Rightarrow> 0 | Some u \<Rightarrow> u_id u)"
| "activeUserID (Press q) = u_id (q_from q)"
| "activeUserID OtherUpdate = 0"

definition metricsMiddleware :: "'s bot_env \<Rightarrow> tg_update \<Rightarrow> ('s world \<Rightarrow> 's world) \<Rightarrow> 's world \<Rightarrow> 's world" where
  "metricsMiddleware B update next_handler w =
     (let userID = activeUserID update in next_handler (if userID \<noteq> 0 then do_st (TouchActiveUser (b_redis B) (b_now B (w_st w)) userID) w else w))"

definition fleet_onDirectMedia :: "bot_config \<Rightarrow> 's bot_env \<Rightarrow> message \<Rightarrow> 's world \<Rightarrow> 's world" where
  "fleet_onDirectMedia c B m w =
     (case m_from m of
        None \<Rightarrow> w
      | Some u \<Rightarrow>
          if \<not> m_media m then w
          else if has_prefix (m_caption m) ''/'' then w
          else reply B (m_chat m) ''errors.send_link'' (fleet_lang c B (u_id u) w) w)"

text \<open>The command to clear names the queue of the bot.\<close>

definition fleet_onClear :: "bot_config \<Rightarrow> 's inspector result \<Rightarrow> 's bot_env \<Rightarrow> message \<Rightarrow> 's world \<Rightarrow> 's world" where
  "fleet_onClear c insp B m w =
     (case m_from m of
        None \<Rightarrow> w
      | Some u \<Rightarrow>
          let lang = fleet_lang c B (u_id u) w;
              userID = u_id u;
              (act, w) = on_st (GetActiveDownload (b_redis B) (b_prefix B) userID) w;
              active = (case act of Inl _ \<Rightarrow> None | Inr a \<Rightarrow> a);
              w = (case active of
                     None \<Rightarrow> w
                   | Some a \<Rightarrow> do_st (SetDownloadCancelled (b_redis B) (b_prefix B) (ad_scenario a)
                       userID (ad_token a) (hours 2)) w);
              cleared = (active \<noteq> None);
              w = do_st (ForceReleaseUserLock (b_redis B) (b_prefix B) userID) w in
          case insp of
            Inl e \<Rightarrow> reply B (m_chat m) ''errors.generic'' lang w
          | Inr insp \<Rightarrow>
              (case on_st (\<lambda>s. case ClearUserTasks insp userID [bc_queue c] s of
                            (res, refs, err, s) \<Rightarrow> ((res, refs, err), s)) w of
                 ((res, refs, Some e), w) \<Rightarrow> reply B (m_chat m) ''errors.generic'' lang w
               | ((res, refs, None), w) \<Rightarrow>
                   let w = cancel_refs B userID refs w;
                       cleared = (cleared \<or> clear_any res) in
                   reply B (m_chat m) (if cleared then ''clear.success'' else ''clear.empty'') lang w))"

text \<open>The cancel buttons are those of the main bot, in the language of this one.\<close>

definition fleet_env :: "bot_config \<Rightarrow> 's bot_env \<Rightarrow> 's bot_env" where
  "fleet_env c B = B\<lparr>b_lang := (\<lambda>evs u. case b_lang B evs u of
     Inl e \<Rightarrow> Inr (bc_default c) | Inr lang \<Rightarrow> Inr (if lang = [] then bc_default c else lang))\<rparr>"

definition fleet_onCancelDownload :: "bot_config \<Rightarrow> 's bot_env \<Rightarrow> callback \<Rightarrow> 's world \<Rightarrow> 's world" where
  "fleet_onCancelDownload c B = onCancelDownload (fleet_env c B)"

definition fleet_onDownloadQueue :: "bot_config \<Rightarrow> 's bot_env \<Rightarrow> callback \<Rightarrow> 's world \<Rightarrow> 's world" where
  "fleet_onDownloadQueue c B = onDownloadQueue (fleet_env c B)"

subsection \<open>Users (bot.go, settings.go)\<close>

definition fleet_db_lang :: "bot_config \<Rightarrow> 's work_env \<Rightarrow> int \<Rightarrow> 's wworld \<Rightarrow> string \<times> 's wworld" where
  "fleet_db_lang c B u w =
     (case on_db (GetUserLanguage (k_fault B) u (bc_slug c)) w of
        (Inl e, w) \<Rightarrow> (bc_default c, w)
      | (Inr lang, w) \<Rightarrow> (if lang = [] then bc_default c else lang, w))"

text \<open>A language is shown under its own name.\<close>

definition languageButtonLabel :: "string \<Rightarrow> msg_text" where
  "languageButtonLabel code = Loc ''lang.self_name'' code []"

definition languageKeyboard :: "bot_config \<Rightarrow> string \<Rightarrow> keyboard" where
  "languageKeyboard c callbackPrefix =
     [List.map (\<lambda>code. button (languageButtonLabel code) (callbackPrefix @ code)) (bc_languages c)]"

definition fleet_onStart :: "bot_config \<Rightarrow> 's work_env \<Rightarrow> message \<Rightarrow> 's wworld \<Rightarrow> 's wworld" where
  "fleet_onStart c B m w =
     (case m_from m of
        None \<Rightarrow> w
      | Some u \<Rightarrow>
          let (lang, w) = fleet_db_lang c B (u_id u) w;
              (known, w) = on_db (UserExists (k_fault B) (u_id u)) w in
          if known = Inr True then reply B (m_chat m) (bc_welcome c) lang w
          else post B (Send (m_chat m) (Loc ''onboarding.language_prompt'' ''en'' []) (languageKeyboard c ''lang|'')) w)"

definition fleet_onLang :: "bot_config \<Rightarrow> 's work_env \<Rightarrow> message \<Rightarrow> 's wworld \<Rightarrow> 's wworld" where
  "fleet_onLang c B m w =
     (case m_from m of
        None \<Rightarrow> w
      | Some u \<Rightarrow>
          let (lang, w) = fleet_db_lang c B (u_id u) w in
          post B (Send (m_chat m) (Loc ''onboarding.lang_command_prompt'' lang []) (languageKeyboard c ''lang|'')) w)"

definition fleet_onLanguageChosen :: "bot_config \<Rightarrow> 's work_env \<Rightarrow> callback \<Rightarrow> 's wworld \<Rightarrow> 's wworld" where
  "fleet_onLanguageChosen c B q w =
     (let u = q_from q in
      if u_id u = 0 \<or> q_msg q = None then ack B q w
      else
        (case split_char CHR ''|'' (q_data q) of
           [_, lang] \<Rightarrow>
             if \<not> langAllowed c lang then ack B q w
             else
               let (known, w) = on_db (UserExists (k_fault B) (u_id u)) w;
                   w = (if known = Inr True then w
                        else do_db (CreateUser (k_fault B) (u_id u) (u_name u) (u_first u) lang (bc_slug c)) w);
                   w = do_db (SetUserLanguage (k_fault B) (u_id u) lang (bc_slug c)) w in
               toast B q ''onboarding.lang_changed'' lang False (edit_msg B q (Loc (bc_welcome c) lang []) [] w)
         | _ \<Rightarrow> ack B q w))"

definition fleet_settingsSummary :: "bot_config \<Rightarrow> 's work_env \<Rightarrow> int \<Rightarrow> string \<Rightarrow> 's wworld \<Rightarrow> msg_text \<times> 's wworld" where
  "fleet_settingsSummary c B u lang w =
     (let (l, w) = on_db (GetUserLanguage (k_fault B) u (bc_slug c)) w;
          userLang = (case l of Inl _ \<Rightarrow> lang | Inr x \<Rightarrow> if x = [] then lang else x) in
      (Cat [Loc ''settings.title'' lang [], Lit two_lines,
            Loc ''settings.lang_line'' lang [(''language'', ''lang.self_name '' @ userLang)]], w))"

definition fleet_settingsMenuKeyboard :: "string \<Rightarrow> keyboard" where
  "fleet_settingsMenuKeyboard lang = [[button (Loc ''settings.btn_lang'' lang []) ''settings|lang'']]"

definition fleet_onSettings :: "bot_config \<Rightarrow> 's work_env \<Rightarrow> message \<Rightarrow> 's wworld \<Rightarrow> 's wworld" where
  "fleet_onSettings c B m w =
     (case m_from m of
        None \<Rightarrow> w
      | Some u \<Rightarrow>
          let (lang, w) = fleet_db_lang c B (u_id u) w; (t, w) = fleet_settingsSummary c B (u_id u) lang w in
          post B (Send (m_chat m) t (fleet_settingsMenuKeyboard lang)) w)"

definition fleet_editSettingsMenu :: "bot_config \<Rightarrow> 's work_env \<Rightarrow> callback \<Rightarrow> string \<Rightarrow> 's wworld \<Rightarrow> 's wworld" where
  "fleet_editSettingsMenu c B q lang w =
     (let (t, w) = fleet_settingsSummary c B (u_id (q_from q)) lang w in
      edit_msg B q t (fleet_settingsMenuKeyboard lang) w)"

definition fleet_editSettingsLang :: "bot_config \<Rightarrow> 's work_env \<Rightarrow> callback \<Rightarrow> string \<Rightarrow> 's wworld \<Rightarrow> 's wworld" where
  "fleet_editSettingsLang c B q lang w =
     edit_msg B q (Loc ''settings.lang_prompt'' lang [])
       (languageKeyboard c ''settings|lang|'' @ [to_menu lang]) w"

definition fleet_onSettingsCallback :: "bot_config \<Rightarrow> 's work_env \<Rightarrow> callback \<Rightarrow> 's wworld \<Rightarrow> 's wworld" where
  "fleet_onSettingsCallback c B q w =
     (let u = u_id (q_from q) in
      if u = 0 \<or> q_msg q = None then ack B q w
      else
        let (lang, w) = fleet_db_lang c B u w in
        (case split_char CHR ''|'' (q_data q) of
           tag # what # args \<Rightarrow>
             if tag \<noteq> ''settings'' then ack B q w
             else
               ack B q
                 (if what = ''menu'' then fleet_editSettingsMenu c B q lang w
                  else if what = ''lang'' then
                    (case args of
                       [l] \<Rightarrow>
                         if langAllowed c l
                         then fleet_editSettingsMenu c B q l (do_db (SetUserLanguage (k_fault B) u l (bc_slug c)) w)
                         else fleet_editSettingsLang c B q lang w
                     | _ \<Rightarrow> fleet_editSettingsLang c B q lang w)
                  else w)
         | _ \<Rightarrow> ack B q w))"

subsection \<open>Jobs (botworker, platforms)\<close>

definition fleet_UserFacingError :: "'s work_env \<Rightarrow> string \<Rightarrow> int \<Rightarrow> go_error option \<Rightarrow> msg_text" where
  "fleet_UserFacingError B lang userID err =
     (let base = Loc ''errors.generic'' lang [] in
      case err of
        None \<Rightarrow> base
      | Some e \<Rightarrow>
          if \<not> isAdmin B userID then base
          else
            let detail = trim_space e;
                shown = (if length detail > maxAdminDebugLen then take maxAdminDebugLen detail @ ellipsis else detail) in
            if detail = [] then base
            else Cat [base, Loc ''errors.admin_debug'' lang [(''detail'', shown)]])"

definition fleet_book ::
  "bot_config \<Rightarrow> 's work_env \<Rightarrow> int \<Rightarrow> int \<Rightarrow> string \<Rightarrow> string \<Rightarrow> string \<Rightarrow> rat \<Rightarrow> string \<Rightarrow> 's wworld \<Rightarrow> 's wworld" where
  "fleet_book c B u chat url platform status sizeMB msg =
     do_db (RecordDownloadForBot (k_fault B) u chat url platform status sizeMB msg (bc_slug c))"

definition fleet_send_pin :: "bot_config \<Rightarrow> 's work_env \<Rightarrow> download_payload \<Rightarrow> media_item \<Rightarrow> 's job_step" where
  "fleet_send_pin c B p it w =
     (let lang = lang_of p; sizeMB = mb (mi_size it);
          (videoLimit, w) = rt_max_mb B ''pinterest'' w;
          (limit, w) = (if mi_type it = ''image''
             then rt_int B ''global.document_limit_mb'' (c_SendDocumentLimitMB (b_cfg B)) w
             else (videoLimit, w));
          failed = (\<lambda>e w. (None, say B p (fleet_UserFacingError B lang (dp_user p) (Some e)) w)) in
      if sizeMB > of_int limit then (None, say B p (Loc ''pinterest.all_too_large'' lang []) w)
      else
        let title = (if mi_title it = [] then DisplayTitle (mi_path it) else mi_title it) in
        if w_fs w (mi_path it) = None then failed (''stat '' @ mi_path it @ '': no such file or directory'') w
        else
          (case emit B (Media (dp_chat p) (mi_path it) title lang ''pinterest'' False True) w of
             (Inl e, w) \<Rightarrow> failed e w
           | (Inr _, w) \<Rightarrow>
               (None, fleet_book c B (dp_user p) (dp_chat p) (dp_url p) ''pinterest'' ''completed'' sizeMB [] (unsay B p w))))"

definition fleet_pinterest_run :: "bot_config \<Rightarrow> 's work_env \<Rightarrow> download_payload \<Rightarrow> 's job_step" where
  "fleet_pinterest_run c B p w =
     (let lang = lang_of p in
      in_temp_dir B ''saveinator-pin-*'' (\<lambda>dir w.
        let (timeout, w) = rt_int B ''pinterest.timeout_sec'' (c_PinterestTimeoutSeconds (b_cfg B)) w;
            (maxItems, w) = rt_int B ''pinterest.max_items_per_board'' (c_PinterestMaxItems (b_cfg B)) w;
            (images, w) = rt_bool B ''pinterest.download_images'' (c_PinterestDownloadImages (b_cfg B)) w;
            (videos, w) = rt_bool B ''pinterest.download_videos'' (c_PinterestDownloadVideos (b_cfg B)) w;
            (r, w) = on_fs (k_pins B (w_log w) (dp_url p) dir maxItems images videos timeout) w in
        case r of
          Inl (e, kind) \<Rightarrow>
            (None, say B p (if kind = ''no media'' then Loc ''pinterest.no_media'' lang []
                            else fleet_UserFacingError B lang (dp_user p) (Some e)) w)
        | Inr items \<Rightarrow>
            if items = [] then (None, say B p (Loc ''pinterest.no_media'' lang []) w)
            else fleet_send_pin c B p (pickPinterestItem items) w)
      (say B p (Loc ''download.downloading'' lang []) w))"

definition fleet_pinterest_handle :: "bot_config \<Rightarrow> 's work_env \<Rightarrow> body \<Rightarrow> 's job_step" where
  "fleet_pinterest_handle c B payload w =
     (case unmarshal_download payload of
        None \<Rightarrow> (Some bad_payload, w)
      | Some p \<Rightarrow> release_after B p (unless_cancelled B p (fleet_pinterest_run c B p)) w)"

text \<open>
  The music jobs: the frame of the main worker's job without pictures. The Spotify job of the fleet records a completed
  download whatever was sent.
\<close>

definition fleet_music_job ::
  "'s work_env \<Rightarrow> music_tools \<Rightarrow> music_payload \<Rightarrow> string \<Rightarrow> (string \<Rightarrow> keyboard \<Rightarrow> 's job_step) \<Rightarrow> 's job_step" where
  "fleet_music_job B T p platform release w =
     (let lang = mp_language p; k = releaseLockKey platform p;
          (acquired, w) = on_st (\<lambda>s. case TryAcquireReleaseLock (b_redis B) k (releaseLockTTL platform (b_cfg B)) s of
                            (a, _, s) \<Rightarrow> (a, s)) w in
      if \<not> acquired then
        (None, releaseMusicUserLock B p (status_edit B p (Loc ''errors.busy'' lang []) [] w))
      else
        let kb = cancel_Keyboard lang (mp_lock_scene p) (mp_user p) (mp_lock_token p);
            w = beginMusicDownloadStatus B T p lang platform kb w;
            (r, w) = release lang kb w in
        (r, releaseMusicUserLock B p (do_st (ReleaseReleaseLock (b_redis B) k) w)))"

definition fleet_spotify_finish ::
  "bot_config \<Rightarrow> 's work_env \<Rightarrow> music_payload \<Rightarrow> string \<Rightarrow> nat \<Rightarrow> 's job_step" where
  "fleet_spotify_finish c B p lang sent w =
     (let w = (if sent = 0 then status_edit B p (Loc ''spotify.download_none_found'' lang []) [] w
               else post B (Erase (mp_chat p) (mp_message p)) w) in
      (None, fleet_book c B (mp_user p) (mp_chat p) (''spotify:'' @ mp_resource p) ''spotify'' ''completed'' 0 [] w))"

definition fleet_downloadSpotifyRelease ::
  "bot_config \<Rightarrow> 's work_env \<Rightarrow> music_tools \<Rightarrow> music_payload \<Rightarrow> string \<Rightarrow> keyboard \<Rightarrow> 's job_step" where
  "fleet_downloadSpotifyRelease c B T p lang kb w =
     (case mt_sp T (mp_release p) of
        Inl e \<Rightarrow> (Some (''decode release: '' @ e), w)
      | Inr r \<Rightarrow>
          if sr_tracks r = [] then
            (None, status_edit B p (Loc ''spotify.download_none_found'' lang []) [] w)
          else in_temp_dir B ''saveinator-spotify-*'' (\<lambda>dir w.
            let (n, w) = rt_int B ''spotify.download_concurrency'' (c_SpotifyDownloadConcurrency (b_cfg B)) w;
                (timeout, w) = rt_int B ''spotify.track_timeout_sec'' (c_SpotifyTrackTimeoutSeconds (b_cfg B)) w in
            (case each_track B p lang
                    (search_track B T p lang ''spotify'' kb (c_SpotifyDLOutputFormat (b_cfg B)) dir [] (length (sr_tracks r)))
                    1 (List.map (\<lambda>t. (st_title t, st_artists t, st_ms t)) (sr_tracks r)) 0 w of
               (None, w) \<Rightarrow> (None, w)
             | (Some sent, w) \<Rightarrow> fleet_spotify_finish c B p lang sent w)) w)"

definition fleet_spotify_handle :: "bot_config \<Rightarrow> 's work_env \<Rightarrow> music_tools \<Rightarrow> body \<Rightarrow> 's job_step" where
  "fleet_spotify_handle c B T payload w =
     (case unmarshal_music payload of
        None \<Rightarrow> (None, w)
      | Some p \<Rightarrow>
          if mp_chat p = 0 \<or> mp_message p = 0 then (None, w)
          else music_failed B p ''spotify''
                 (fleet_music_job B T p ''spotify'' (fleet_downloadSpotifyRelease c B T p)) w)"

definition fleet_sc_one ::
  "'s work_env \<Rightarrow> music_tools \<Rightarrow> music_payload \<Rightarrow> string \<Rightarrow> keyboard \<Rightarrow> string \<Rightarrow> string \<Rightarrow> sc_release \<Rightarrow> nat \<Rightarrow> sc_track
     \<Rightarrow> 's wworld \<Rightarrow> bool \<times> 's wworld" where
  "fleet_sc_one B T p lang kb format dir r current t w =
     (let txt_of = (\<lambda>k. track_text k lang current (length (cr_tracks r)) (ct_title t));
          youtube = txt_of ''soundcloud.download_track_youtube'';
          w = status_edit B p (if ct_fallback t then youtube else txt_of ''soundcloud.download_track'') kb w in
      if ct_url t = [] \<and> \<not> ct_fallback t then (False, w)
      else case fetch_sc_track B T r (track_dir dir current) format youtube p kb t w of
        (Inl e, w) \<Rightarrow> (False, w)
      | (Inr path, w) \<Rightarrow>
          send_track B p path (txt_of ''soundcloud.send_track'') kb (ct_title t) (firstString [ct_artist t, cr_artist r])
            (ct_ms t) [] w)"

definition fleet_soundcloud_finish ::
  "bot_config \<Rightarrow> 's work_env \<Rightarrow> music_payload \<Rightarrow> string \<Rightarrow> nat \<Rightarrow> nat \<Rightarrow> 's job_step" where
  "fleet_soundcloud_finish c B p lang sent whole w =
     (None, if sent = 0
        then fleet_book c B (mp_user p) (mp_chat p) (mp_source_url p) ''soundcloud'' ''failed'' 0
               (''0/'' @ itoa (int whole) @ '' tracks sent'') (status_edit B p (Loc ''soundcloud.download_failed'' lang []) [] w)
        else fleet_book c B (mp_user p) (mp_chat p) (mp_source_url p) ''soundcloud'' ''completed'' 0 []
               (post B (Erase (mp_chat p) (mp_message p)) w))"

definition fleet_downloadSoundCloudRelease ::
  "bot_config \<Rightarrow> 's work_env \<Rightarrow> music_tools \<Rightarrow> music_payload \<Rightarrow> string \<Rightarrow> keyboard \<Rightarrow> 's job_step" where
  "fleet_downloadSoundCloudRelease c B T p lang kb w =
     (case mt_sc T (mp_release p) of
        Inl e \<Rightarrow> (Some (''decode release: '' @ e), w)
      | Inr r \<Rightarrow>
          in_temp_dir B ''saveinator-soundcloud-*'' (\<lambda>dir w.
            let (n, w) = rt_int B ''soundcloud.download_concurrency'' (c_SoundCloudDownloadConcurrency (b_cfg B)) w;
                (timeout, w) = rt_int B ''soundcloud.track_timeout_sec'' (c_SoundCloudTrackTimeoutSeconds (b_cfg B)) w;
                (format, w) = on_st (CurrentString (b_redis B) (Some (b_cfg B)) ''soundcloud.audio_format''
                                (c_SoundCloudDLOutputFormat (b_cfg B))) w in
            (case each_track B p lang (fleet_sc_one B T p lang kb format dir r) 1 (cr_tracks r) 0 w of
               (None, w) \<Rightarrow> (None, w)
             | (Some sent, w) \<Rightarrow> fleet_soundcloud_finish c B p lang sent (length (cr_tracks r)) w)) w)"

definition fleet_soundcloud_handle :: "bot_config \<Rightarrow> 's work_env \<Rightarrow> music_tools \<Rightarrow> body \<Rightarrow> 's job_step" where
  "fleet_soundcloud_handle c B T payload w =
     (case unmarshal_music payload of
        None \<Rightarrow> (None, w)
      | Some p \<Rightarrow>
          if mp_chat p = 0 \<or> mp_message p = 0 then (None, w)
          else music_failed B p ''soundcloud''
                 (fleet_music_job B T p ''soundcloud'' (fleet_downloadSoundCloudRelease c B T p)) w)"

subsection \<open>The panel (admin.go)\<close>

text \<open>One service in a row, and no reset outside the confirmation.\<close>

definition fleet_adminMainKeyboard :: "string \<Rightarrow> keyboard" where
  "fleet_adminMainKeyboard lang =
     List.map (\<lambda>s. [service_button s]) ServiceOrder @
     [[button (Loc ''admin.btn_global'' lang []) ''admin|svc|global''],
      [button (Loc ''admin.btn_broadcasts'' lang []) ''admin|broadcasts'',
       button (Loc ''admin.btn_users'' lang []) ''admin|stats''],
      [button (Loc ''admin.btn_bans'' lang []) ''admin|bans'',
       button (Loc ''admin.btn_reset_all'' lang []) ''admin|confirm|reset_all'']]"

definition fleet_onAdmin :: "bot_config \<Rightarrow> 's work_env \<Rightarrow> message \<Rightarrow> 's wworld \<Rightarrow> 's wworld" where
  "fleet_onAdmin c B m w =
     (case m_from m of
        None \<Rightarrow> w
      | Some u \<Rightarrow>
          if \<not> isAdmin B (u_id u) then w
          else
            let (lang, w) = fleet_db_lang c B (u_id u) (fsm_clear (u_id u) w) in
            post B (Send (m_chat m) (Loc ''admin.menu_title'' lang []) (fleet_adminMainKeyboard lang)) w)"

definition fleet_onStats :: "bot_config \<Rightarrow> 's work_env \<Rightarrow> stats_source \<Rightarrow> message \<Rightarrow> 's wworld \<Rightarrow> 's wworld" where
  "fleet_onStats c B ss m w =
     (case m_from m of
        None \<Rightarrow> w
      | Some u \<Rightarrow>
          if \<not> isAdmin B (u_id u) then w
          else
            let (lang, w) = fleet_db_lang c B (u_id u) (fsm_clear (u_id u) w); (t, w) = renderStats B ss lang w in
            post B (Send (m_chat m) t (statsKeyboard lang)) w)"

definition fleet_admin_page ::
  "'s work_env \<Rightarrow> stats_source \<Rightarrow> callback \<Rightarrow> int \<times> int \<Rightarrow> string \<Rightarrow> string list \<Rightarrow> string \<Rightarrow> 's wworld \<Rightarrow> 's wworld" where
  "fleet_admin_page B ss q pos what args lang w =
     (if what = ''menu'' then
        editAdminText B pos (Loc ''admin.menu_title'' lang []) (fleet_adminMainKeyboard lang) (fsm_clear (u_id (q_from q)) w)
      else admin_page B ss q pos what args lang w)"

definition fleet_adminConfirm ::
  "'s work_env \<Rightarrow> callback \<Rightarrow> int \<times> int \<Rightarrow> string list \<Rightarrow> string \<Rightarrow> 's wworld \<Rightarrow> 's wworld" where
  "fleet_adminConfirm B q pos args lang w =
     (if args \<noteq> [] \<and> hd args = ''reset_all_yes'' then
        ack B q (editAdminText B pos (Loc ''admin.reset_all_done'' lang []) (fleet_adminMainKeyboard lang)
          (fsm_clear (u_id (q_from q)) (do_st (ResetAll (b_redis B)) w)))
      else adminConfirm B q pos args lang w)"

definition fleet_onAdminCallback :: "bot_config \<Rightarrow> 's work_env \<Rightarrow> stats_source \<Rightarrow> callback \<Rightarrow> 's wworld \<Rightarrow> 's wworld" where
  "fleet_onAdminCallback c B ss q w =
     (let u = u_id (q_from q) in
      if u = 0 \<or> \<not> isAdmin B u then ack B q w
      else case q_msg q of
        None \<Rightarrow> ack B q w
      | Some pos \<Rightarrow>
          let (lang, w) = fleet_db_lang c B u w in
          (case split_char CHR ''|'' (q_data q) of
             tag # what # args \<Rightarrow>
               if tag \<noteq> ''admin'' then ack B q w
               else if what = ''unban'' \<and> args \<noteq> [] then press_unban B q pos (hd args) lang w
               else if what = ''edit_bool'' \<and> args \<noteq> [] then adminToggleBool B q pos (hd args) lang w
               else if what = ''set_enum'' \<and> length args \<ge> 2 then adminSetEnum B q pos (hd args) (args ! 1) lang w
               else if what = ''confirm'' then fleet_adminConfirm B q pos args lang w
               else ack B q (fleet_admin_page B ss q pos what args lang w)
           | _ \<Rightarrow> ack B q w))"

end
