(* ===== verification/Fleet_Props.thy ===== *)
theory Fleet_Props
  imports Fleet Music_Props
begin

text \<open>
  Properties of the fleet: a bot touches only keys of its own in Redis, it does with a music link what the main bot does,
  it keeps the language its user chose, and a bot that the database does not know keeps nothing.
\<close>

subsection \<open>Keys of a bot\<close>

fun cmd_key :: "cmd \<Rightarrow> string" where
  "cmd_key (CGet k) = k" | "cmd_key (CSet k v t) = k" | "cmd_key (CSetNX k v t) = k" | "cmd_key (CDel k) = k"
| "cmd_key (CExists k) = k" | "cmd_key (CCompareDel k v) = k" | "cmd_key (CHGet k f) = k" | "cmd_key (CHSet k f v) = k"
| "cmd_key (CHDel k f) = k" | "cmd_key (CZRemRange k hi) = k" | "cmd_key (CZCard k) = k" | "cmd_key (CZAdd k x m) = k"
| "cmd_key (CZCount k lo) = k" | "cmd_key (CExpire k t) = k" | "cmd_key (CSAdd k m) = k" | "cmd_key (CSRem k m) = k"
| "cmd_key (CSIsMember k m) = k" | "cmd_key (CSMembers k) = k" | "cmd_key (CSCard k) = k"

definition stored :: "redis_db \<Rightarrow> string
    \<Rightarrow> (rval \<times> nat option) option \<times> (string \<times> string) list \<times> ((string \<times> nat) list \<times> nat option) \<times> string list" where
  "stored db k = (db_vals db k, db_hashes db k, db_zsets db k, db_sets db k)"

lemma redis_step_frame: "k \<noteq> cmd_key c \<Longrightarrow> stored (snd (redis_step c db)) k = stored db k"
  by (cases c) (auto simp: stored_def put_val_def drop_key_def put_zset_def Let_def split: option.splits)

lemma redis_run_frame: "k \<notin> cmd_key ` set cs \<Longrightarrow> stored (snd (redis_run cs db)) k = stored db k"
  by (induction cs arbitrary: db) (simp_all add: Let_def split_beta redis_step_frame)

definition own_key :: "string \<Rightarrow> string \<Rightarrow> bool" where
  "own_key c k \<longleftrightarrow> (\<exists>base. k = c @ '':'' @ base)"

text \<open>Only keys of the bot changed.\<close>

definition own_only :: "string \<Rightarrow> redis_db \<Rightarrow> redis_db \<Rightarrow> bool" where
  "own_only c db db' \<longleftrightarrow> (\<forall>k. own_key c k \<or> stored db' k = stored db k)"

lemma own_only_refl [simp]: "own_only c db db" by (simp add: own_only_def)

lemma own_only_trans: "own_only c a b \<Longrightarrow> own_only c b d \<Longrightarrow> own_only c a d"
  unfolding own_only_def by metis

lemma own_key_key [simp]: "c \<noteq> [] \<Longrightarrow> own_key c (key c base)"
  by (auto simp: own_key_def key_def)

lemma own_only_run:
  assumes "\<forall>x \<in> set cs. own_key c (cmd_key x)"
  shows "own_only c db (snd (redis_run cs db))"
  unfolding own_only_def
proof
  fix k
  show "own_key c k \<or> stored (snd (redis_run cs db)) k = stored db k"
  proof (cases "k \<in> cmd_key ` set cs")
    case True
    with assms show ?thesis by auto
  qed (simp add: redis_run_frame)
qed

lemma redis_own_only:
  assumes "lawful_redis R \<alpha>" "R cs s = (r, s')" "\<forall>x \<in> set cs. own_key c (cmd_key x)"
  shows "own_only c (\<alpha> s) (\<alpha> s')"
proof -
  note law = assms(1) [unfolded lawful_redis_def, rule_format, of cs s]
  show ?thesis
  proof (cases r)
    case (Inl e)
    with law assms(2) obtain n where "\<alpha> s' = snd (redis_run (take n cs) (\<alpha> s))" by auto
    with assms(3) own_only_run [of "take n cs" c "\<alpha> s"] show ?thesis by (auto dest: in_set_takeD)
  next
    case (Inr rs)
    with law assms(2) have "\<alpha> s' = snd (redis_run cs (\<alpha> s))" by simp
    with assms(3) show ?thesis by (simp add: own_only_run)
  qed
qed

lemma call_own_only:
  assumes "lawful_redis R \<alpha>" "call R cmd s = (r, s')" "own_key c (cmd_key cmd)"
  shows "own_only c (\<alpha> s) (\<alpha> s')"
proof -
  obtain r' s2 where x: "R [cmd] s = (r', s2)" by fastforce
  with assms(2) have "s2 = s'" by (auto simp: call_def split: sum.splits)
  with redis_own_only [OF assms(1) x, of c] assms(3) show ?thesis by simp
qed

subsection \<open>A message changes only keys of its bot\<close>

definition touches :: "string \<Rightarrow> ('s \<Rightarrow> redis_db) \<Rightarrow> 's world \<Rightarrow> 's world \<Rightarrow> bool" where
  "touches c \<alpha> w w' \<longleftrightarrow> own_only c (\<alpha> (w_st w)) (\<alpha> (w_st w'))"

lemma touches_refl [simp]: "touches c \<alpha> w w" by (simp add: touches_def)

lemma touches_trans: "touches c \<alpha> a b \<Longrightarrow> touches c \<alpha> b d \<Longrightarrow> touches c \<alpha> a d"
  unfolding touches_def by (rule own_only_trans)

lemma touches_post [simp]: "touches c \<alpha> w (post B e w1) = touches c \<alpha> w w1" "touches c \<alpha> w (reply B ch k l w1) = touches c \<alpha> w w1"
  "touches c \<alpha> w (send_loc B ch k l as w1) = touches c \<alpha> w w1"
  "touches c \<alpha> w (sendMusicCard B ch cov t kb w1) = touches c \<alpha> w w1" "touches c \<alpha> w (replyBusy B m u l w1) = touches c \<alpha> w w1"
  by (simp_all add: touches_def send_loc_def sendMusicCard_def replyBusy_def)

lemma touches_emit: "emit B e w = (r, w1) \<Longrightarrow> touches c \<alpha> w w1"
  using emit_eqD [of B e w r w1] by (simp add: touches_def)

lemma touches_emitted [simp]: "touches c \<alpha> w (snd (emit B e w1)) = touches c \<alpha> w w1"
  using emit_eqD [of B e w1 "fst (emit B e w1)" "snd (emit B e w1)"] by (simp add: touches_def)

lemma touches_on_st:
  assumes "on_st f w = (r, w1)" "\<And>s r s'. f s = (r, s') \<Longrightarrow> own_only c (\<alpha> s) (\<alpha> s')"
  shows "touches c \<alpha> w w1"
  using on_st_eqD [OF assms(1)] assms(2) [of "w_st w" r "w_st w1"] by (simp add: touches_def)

lemma touches_reads:
  assumes "lawful_redis (b_redis B) \<alpha>"
  shows "rt_on B k d w = (on, w1) \<Longrightarrow> touches c \<alpha> w w1"
    and "on_st (CurrentInt (b_redis B) cf k n) w = (i, w1) \<Longrightarrow> touches c \<alpha> w w1"
    and "on_st (PlatformEnabled (b_redis B) cf pf) w = (on, w1) \<Longrightarrow> touches c \<alpha> w w1"
  using calm_read [OF assms] by (fastforce simp: calm_to_def touches_def)+

lemma touches_acquire:
  assumes "lawful_redis (b_redis B) \<alpha>" "b_prefix B = c" "c \<noteq> []" "acquireUserLock B u sc ttl w = (r, w1)"
  shows "touches c \<alpha> w w1"
proof (cases "isAdmin B u")
  case False
  with assms(4) have "on_st (AcquireUserLock (b_redis B) (b_prefix B) (b_token B (w_log w)) u sc ttl) w = (r, w1)"
    by (simp add: acquireUserLock_def)
  then show ?thesis
    by (rule touches_on_st) (auto simp: AcquireUserLock_def lockKey_def assms(2,3) split: prod.splits sum.splits if_splits
        dest!: call_own_only [OF assms(1), of _ _ _ _ c])
qed (use assms(4) in \<open>simp add: acquireUserLock_def\<close>)

lemma touches_release:
  assumes "lawful_redis (b_redis B) \<alpha>" "b_prefix B = c" "c \<noteq> []" "touches c \<alpha> w w1"
  shows "touches c \<alpha> w (release_token B u sc tok w1)"
proof -
  obtain e s' where r: "ReleaseUserLock (b_redis B) c u sc tok (w_st w1) = (e, s')" by fastforce
  then have "own_only c (\<alpha> (w_st w1)) (\<alpha> s')"
    by (auto simp: ReleaseUserLock_def exec_def lockKey_def assms(3) split: prod.splits
        dest!: call_own_only [OF assms(1), of _ _ _ _ c])
  then have "touches c \<alpha> w1 (release_token B u sc tok w1)"
    using r by (auto simp: release_token_def touches_def assms(2))
  with assms(4) show ?thesis by (rule touches_trans)
qed

lemma touches_rate:
  assumes "lawful_redis (b_redis B) \<alpha>" "b_prefix B = c" "c \<noteq> []"
    and "on_st (\<lambda>s. AllowRateLimit (b_redis B) (b_prefix B) (clk s) sc i lm win s) w = (r, w1)"
  shows "touches c \<alpha> w w1"
  using assms(4)
  by (rule touches_on_st) (auto simp: AllowRateLimit_def rate_pipeline_def rateKey_def assms(2,3)
      split: prod.splits sum.splits dest!: redis_own_only [OF assms(1), of _ _ _ _ c])

lemma touches_chat:
  assumes "lawful_redis (b_redis B) \<alpha>" "b_prefix B = c" "c \<noteq> []" "limit_chat B m lang w = (ok, w1)"
  shows "touches c \<alpha> w w1"
  using assms(4) touches_rate [OF assms(1-3)]
  by (auto simp: limit_chat_def split: prod.splits sum.splits if_splits)

lemma touches_limit:
  assumes "lawful_redis (b_redis B) \<alpha>" "b_prefix B = c" "c \<noteq> []" "allowRateLimit B m lang w = (ok, w1)"
  shows "touches c \<alpha> w w1"
proof (cases "m_from m")
  case (Some u)
  obtain r w2 where r: "on_st (\<lambda>s. AllowRateLimit (b_redis B) (b_prefix B) (b_now B s) ''user'' (u_id u)
      (c_RateLimitUserPerMinute (b_cfg B)) (60 * second) s) w = (r, w2)" by fastforce
  note r2 = touches_rate [OF assms(1-3) r]
  show ?thesis
    using assms(4) Some r r2 touches_trans [OF r2 touches_chat [OF assms(1-3)]]
    by (auto simp: allowRateLimit_def split: sum.splits if_splits)
qed (use assms(4) touches_chat [OF assms(1-3)] in \<open>simp add: allowRateLimit_def\<close>)

lemma touches_links:
  assumes "lawful_redis (b_redis B) \<alpha>" "b_prefix B = c" "c \<noteq> []"
  shows "check_links B win ls w = (ok, w1) \<Longrightarrow> touches c \<alpha> w w1"
proof (induction ls arbitrary: w)
  case (Cons l ls)
  obtain r w2 where r: "on_st (AllowURLDedup (b_redis B) (b_prefix B) (b_hash B (link_url l)) win) w = (r, w2)" by fastforce
  then have r2: "touches c \<alpha> w w2"
    by (rule touches_on_st) (auto simp: AllowURLDedup_def assms(2,3) split: prod.splits sum.splits if_splits
        dest!: call_own_only [OF assms(1), of _ _ _ _ c])
  show ?case using Cons.prems r r2 Cons.IH [THEN touches_trans [OF r2]]
    by (auto simp: Let_def split: sum.splits if_splits)
qed simp

lemma touches_group:
  assumes "lawful_redis (b_redis B) \<alpha>" "b_prefix B = c" "c \<noteq> []" "allowGroupLinks B m w = (ok, w1)"
  shows "touches c \<alpha> w w1"
  using assms(4) touches_links [OF assms(1-3)] by (auto simp: allowGroupLinks_def Let_def split: if_splits)

lemma touches_banned:
  assumes "lawful_redis (b_redis B) \<alpha>" "checkBanned B m lang w = (ok, w1)"
  shows "touches c \<alpha> w w1"
proof (cases "m_from m")
  case (Some u)
  obtain b e w2 where r: "on_st (\<lambda>s. case IsUserBanned (b_redis B) (u_id u) s of (b, e, s) \<Rightarrow> ((b, e), s)) w = ((b, e), w2)"
    by (metis surj_pair)
  have "own_only c (\<alpha> s) (\<alpha> s')" if "(case IsUserBanned (b_redis B) i s of (b, e, s) \<Rightarrow> ((b, e), s)) = (r, s')" for i s r s'
    by (rule call_cases [OF assms(1), of "CSIsMember bannedUsersKey (itoa i)" s])
      (use that in \<open>auto simp: IsUserBanned_def\<close>)
  from touches_on_st [OF r this] have "touches c \<alpha> w w2" .
  then show ?thesis using assms(2) Some r by (auto simp: checkBanned_def Let_def split: if_splits)
qed (use assms(2) in \<open>simp add: checkBanned_def\<close>)

subsection \<open>Links\<close>

lemma touches_job:
  assumes "lawful_redis (b_redis B) \<alpha>" "b_prefix B = c" "c \<noteq> []" "touches c \<alpha> w w1"
  shows "touches c \<alpha> w (start_music_job B chat u lang pf tok n enq p w1)"
  using assms(4)
  by (auto simp: start_music_job_def Let_def split_beta split: sum.splits intro!: touches_release [OF assms(1-3)])

lemma touches_card:
  assumes "lawful_redis (b_redis B) \<alpha>" "b_prefix B = c" "c \<noteq> []" "touches c \<alpha> w w1"
  shows "touches c \<alpha> w (card_and_job B chat u lang pf tok d cov cap kb n enq p w1)"
proof -
  obtain on w2 where o: "rt_on B (pf @ ''.download_enabled'') d w1 = (on, w2)" by fastforce
  have "touches c \<alpha> w (sendMusicCard B chat cov (cap on) kb w2)"
    using touches_trans [OF assms(4) touches_reads(1) [OF assms(1) o]] by simp
  with touches_release [OF assms(1-3) this] touches_job [OF assms(1-3) this] show ?thesis
    by (cases "on") (simp_all add: card_and_job_def o Let_def)
qed

lemma touches_lock:
  assumes "lawful_redis (b_redis B) \<alpha>" "b_prefix B = c" "c \<noteq> []"
    and "\<And>tok w1. touches c \<alpha> w w1 \<Longrightarrow> touches c \<alpha> w (go tok w1)"
    and "\<And>w1. touches c \<alpha> w w1 \<Longrightarrow> touches c \<alpha> w (busy w1)"
  shows "touches c \<alpha> w (with_music_lock B u sc n busy go w)"
  using assms(4,5) touches_acquire [OF assms(1-3)]
  by (auto simp: with_music_lock_def split: prod.splits sum.splits)

lemma touches_enqueue_with:
  assumes "lawful_redis (b_redis B) \<alpha>" "b_prefix B = c" "c \<noteq> []" "touches c \<alpha> w w1"
  shows "touches c \<alpha> w (snd (fleet_enqueue_with cf B m u lang l sc ty tok w1))"
  using assms(4)
  by (auto simp: fleet_enqueue_with_def Let_def split_beta split: sum.splits intro!: touches_release [OF assms(1-3)])

lemma touches_enqueue:
  assumes "lawful_redis (b_redis B) \<alpha>" "b_prefix B = c" "c \<noteq> []"
  shows "touches c \<alpha> w (fleet_EnqueueDownload cf B m u lang l sc ty batch w)"
proof -
  have "touches c \<alpha> w (snd (fleet_enqueue cf B m u lang l sc ty batch w))"
    using touches_enqueue_with [OF assms] touches_acquire [OF assms]
    by (auto simp: fleet_enqueue_def split: prod.splits sum.splits)
  then show ?thesis
    by (auto simp: fleet_EnqueueDownload_def split: prod.splits option.splits)
qed

lemma touches_spotify:
  assumes "lawful_redis (b_redis B) \<alpha>" "b_prefix B = c" "c \<noteq> []"
  shows "touches c \<alpha> w (fleet_spotify_link cf B C m u lang l w)"
proof -
  have "touches c \<alpha> w (fleet_spotify_release cf B C m u lang l tok w1)" if "touches c \<alpha> w w1" for tok w1
    using that touches_release [OF assms, of w] touches_card [OF assms that]
    by (auto simp: fleet_spotify_release_def Let_def split: sum.splits)
  then show ?thesis
    by (auto simp: fleet_spotify_link_def intro!: touches_lock [OF assms])
qed

lemma touches_soundcloud:
  assumes "lawful_redis (b_redis B) \<alpha>" "b_prefix B = c" "c \<noteq> []"
  shows "touches c \<alpha> w (fleet_soundcloud_link cf B C m u lang l w)"
proof -
  have "touches c \<alpha> w (fleet_soundcloud_release cf B C m u lang k tok w1)" if t: "touches c \<alpha> w w1" for k tok w1
  proof -
    obtain n w2 where n: "on_st (CurrentInt (b_redis B) (Some (b_cfg B)) ''soundcloud.max_tracks_per_playlist''
        (c_SoundCloudMaxTracks (b_cfg B))) w1 = (n, w2)" by fastforce
    note t2 = touches_trans [OF t touches_reads(2) [OF assms(1) n]]
    from t t2 touches_release [OF assms, of w] touches_card [OF assms t2] show ?thesis
      by (auto simp: fleet_soundcloud_release_def n Let_def split: sum.splits)
  qed
  then show ?thesis
    by (auto simp: fleet_soundcloud_link_def intro!: touches_lock [OF assms] split: sum.splits)
qed

lemma touches_dispatch:
  assumes "lawful_redis (b_redis B) \<alpha>" "b_prefix B = c" "c \<noteq> []"
  shows "touches c \<alpha> w (fleet_dispatchLink cf B C m u lang l batch w)"
proof -
  have "touches c \<alpha> w (HandleLink cf B C p m u lang l batch w1)" if "touches c \<alpha> w w1" for p w1
    using touches_trans [OF that] touches_enqueue [OF assms] touches_spotify [OF assms] touches_soundcloud [OF assms]
    by (cases p) (simp_all add: HandleLink_def)
  then show ?thesis using touches_reads(3) [OF assms(1)]
    by (auto simp: fleet_dispatchLink_def split: option.splits prod.splits)
qed

lemma touches_dispatch_all:
  assumes "lawful_redis (b_redis B) \<alpha>" "b_prefix B = c" "c \<noteq> []"
  shows "touches c \<alpha> w (fleet_dispatch_all cf B C m u lang batch ls w)"
  by (induction ls arbitrary: w) (auto intro: touches_trans touches_dispatch [OF assms])

lemma touches_onText:
  assumes "lawful_redis (b_redis B) \<alpha>" "b_prefix B = c" "c \<noteq> []"
    and other: "\<And>u. m_from m = Some u \<Longrightarrow> \<not> isAdmin B (u_id u)"
  shows "touches c \<alpha> w (fleet_onText cf B C typed m w)"
proof (cases "shouldSkipIncomingMessage m \<or> m_from m = None")
  case False
  then obtain u where u: "m_from m = Some u" "\<not> shouldSkipIncomingMessage m" by auto
  obtain b w1 where b: "checkBanned B m (fleet_lang cf B (u_id u) w) w = (b, w1)" by fastforce
  obtain g w2 where g: "allowGroupLinks B m w1 = (g, w2)" by fastforce
  have f: "fleet_handleAdminFSM typed B m (fleet_lang cf B (u_id u) w) w2 = (False, w2)"
    using u(1) other by (simp add: fleet_handleAdminFSM_def)
  obtain r w4 where r: "allowRateLimit B m (fleet_lang cf B (u_id u) w) w2 = (r, w4)" by fastforce
  note t1 = touches_banned [OF assms(1) b, of c]
  note t2 = touches_trans [OF t1 touches_group [OF assms(1-3) g]]
  note t4 = touches_trans [OF t2 touches_limit [OF assms(1-3) r]]
  show ?thesis using t1 t2 t4 touches_trans [OF t4 touches_dispatch_all [OF assms(1-3)]]
    by (simp add: fleet_onText_def u b g f r Let_def)
qed (auto simp: fleet_onText_def)

subsection \<open>A bot of the fleet stays in its own part of Redis\<close>

lemma normalize_names:
  assumes "normalize supported c0 = Inr c"
  shows "bc_slug c = bc_slug c0" "bc_slug c \<noteq> []" "bc_platforms c \<noteq> []" "bc_default c \<in> set (bc_languages c)"
  using assms by (auto simp: normalize_def normalize_defaults_def Let_def split: if_splits list.splits)

lemma own_keys_disjoint:
  assumes "own_key c k" "own_key d k" "CHR '':'' \<notin> set c" "CHR '':'' \<notin> set d"
  shows "c = d"
proof -
  from assms(1,2) obtain a b where "c @ '':'' @ a = d @ '':'' @ b" by (auto simp: own_key_def)
  moreover have "takeWhile (\<lambda>x. x \<noteq> CHR '':'') (e @ '':'' @ x) = e" if "CHR '':'' \<notin> set e" for e x
    using that by (induction e) auto
  ultimately show ?thesis using assms(3,4) by metis
qed

lemma touch_active:
  assumes "lawful_redis R \<alpha>" "k \<noteq> activeUsersKey"
  shows "stored (\<alpha> (snd (TouchActiveUser R t u s))) k = stored (\<alpha> s) k"
proof (cases "u = 0")
  case False
  let ?cs = "[CZAdd activeUsersKey t (itoa u), CExpire activeUsersKey (35 * 60 * second)]"
  obtain r s' where x: "R ?cs s = (r, s')" by fastforce
  note law = assms(1) [unfolded lawful_redis_def, rule_format, of ?cs s]
  have f: "stored (snd (redis_run (take n ?cs) db)) k = stored db k" for n db
  proof (rule redis_run_frame)
    have "cmd_key ` set (take n ?cs) \<subseteq> cmd_key ` set ?cs" by (intro image_mono set_take_subset)
    with assms(2) show "k \<notin> cmd_key ` set (take n ?cs)" by auto
  qed
  have "stored (\<alpha> s') k = stored (\<alpha> s) k"
  proof (cases r)
    case (Inl e)
    with law x f show ?thesis by auto
  next
    case (Inr rs)
    with law x have "redis_run ?cs (\<alpha> s) = (rs, \<alpha> s')" by (simp del: redis_run.simps redis_step.simps)
    with f [of 2 "\<alpha> s"] show ?thesis by (simp del: redis_run.simps redis_step.simps)
  qed
  with False x show ?thesis by (simp add: TouchActiveUser_def)
qed (simp add: TouchActiveUser_def)

text \<open>
  C16. Bots of one process share one Redis and do not disturb each other. A message of anybody but the operator, handled by a bot
  whose configuration was accepted, changes only keys that begin with the slug of the bot and a colon, and the one set in which
  all bots note who is active, whatever Redis answers and whatever the platforms do; so no key of another bot changes: no lock, no
  rate window, no seen link and no active download. Slugs are without a colon and none is \<open>active\<close>, which is how the key of the
  shared set begins. (What the operator types may change the settings and bans, which are shared on purpose.)
\<close>

theorem fleet_bot_touches_own_keys:
  assumes "lawful_redis (b_redis B) \<alpha>" "normalize supported c0 = Inr c" "b_prefix B = bc_slug c"
    and "\<And>u. m_from m = Some u \<Longrightarrow> \<not> isAdmin B (u_id u)"
    and "w' = metricsMiddleware B (NewMessage m) (fleet_onText c B C typed m) w"
  shows "(\<forall>k. own_key (bc_slug c) k \<or> k = activeUsersKey \<or> stored (\<alpha> (w_st w')) k = stored (\<alpha> (w_st w)) k)
    \<and> (\<forall>d base. d \<noteq> [] \<and> d \<noteq> bc_slug c \<and> d \<noteq> ''active'' \<and> CHR '':'' \<notin> set d \<and> CHR '':'' \<notin> set (bc_slug c) \<longrightarrow>
         stored (\<alpha> (w_st w')) (key d base) = stored (\<alpha> (w_st w)) (key d base))"
proof -
  define w1 where "w1 = (if activeUserID (NewMessage m) \<noteq> 0 then do_st (TouchActiveUser (b_redis B) (b_now B (w_st w)) (activeUserID (NewMessage m))) w else w)"
  have a: "stored (\<alpha> (w_st w1)) k = stored (\<alpha> (w_st w)) k" if "k \<noteq> activeUsersKey" for k
    using touch_active [OF assms(1) that] by (simp add: w1_def)
  have "w' = fleet_onText c B C typed m w1" using assms(5) by (simp add: metricsMiddleware_def w1_def)
  with touches_onText [OF assms(1,3) normalize_names(2) [OF assms(2)] assms(4)] normalize_names(1) [OF assms(2)]
  have "touches (bc_slug c) \<alpha> w1 w'" by simp
  then have own: "own_key (bc_slug c) k \<or> k = activeUsersKey \<or> stored (\<alpha> (w_st w')) k = stored (\<alpha> (w_st w)) k" for k
    using a [of k] unfolding touches_def own_only_def by metis
  moreover have "own_key ''active'' activeUsersKey" by (simp add: own_key_def activeUsersKey_def)
  moreover have "key d base \<noteq> activeUsersKey" if "d \<noteq> ''active''" "d \<noteq> []" "CHR '':'' \<notin> set d" for d base
    using that own_keys_disjoint [of d "key d base" "''active''"] \<open>own_key ''active'' activeUsersKey\<close> by auto
  ultimately show ?thesis using own_keys_disjoint own_key_key by metis
qed

definition spotify_bot :: bot_config where
  "spotify_bot = \<lparr>bc_slug = ''spotify'', bc_languages = [''en'', ''ru'', ''kk''], bc_default = ''en'',
     bc_welcome = ''onboarding.welcome_spotify'', bc_not_supported = ''spotify.not_spotify_link'', bc_queue = ''spotify'',
     bc_api = False, bc_platforms = [SpotifyPlat]\<rparr>"

lemma spotify_bot_accepted: "normalize (\<lambda>_. True) spotify_bot = Inr spotify_bot"
  by (simp add: normalize_def normalize_defaults_def spotify_bot_def Let_def)

lemma fleet_bot_touches_own_keys_witness:
  "\<forall>typed w base. stored (w_st (metricsMiddleware (sample_env\<lparr>b_prefix := ''spotify''\<rparr>) (NewMessage sample_message)
      (fleet_onText spotify_bot (sample_env\<lparr>b_prefix := ''spotify''\<rparr>) sample_music typed sample_message) w)) (key ''pinterest'' base)
    = stored (w_st w) (key ''pinterest'' base)"
proof -
  let ?B = "sample_env\<lparr>b_prefix := ''spotify''\<rparr>"
  have B: "lawful_redis (b_redis ?B) (\<lambda>db. db)" "b_prefix ?B = bc_slug spotify_bot"
    using lawful_ref_redis by (simp_all add: sample_env_def spotify_bot_def)
  have o: "\<And>u. m_from sample_message = Some u \<Longrightarrow> \<not> isAdmin ?B (u_id u)"
    by (auto simp: sample_message_def isAdmin_def sample_env_def loaded_def envInt64_def)
  have d: "''pinterest'' \<noteq> []" "''pinterest'' \<noteq> bc_slug spotify_bot" "''pinterest'' \<noteq> ''active''" "CHR '':'' \<notin> set ''pinterest''"
    "CHR '':'' \<notin> set (bc_slug spotify_bot)" by (simp_all add: spotify_bot_def)
  show ?thesis
  proof (intro allI)
    fix typed :: "redis_db dialogues" and w :: "redis_db world" and base :: string
    note t = fleet_bot_touches_own_keys [where m = sample_message and C = sample_music and typed = typed and w = w,
        OF B(1) spotify_bot_accepted B(2) o refl]
    from conjunct2 [OF t, THEN spec, of "''pinterest''", THEN spec, of base] d
    show "stored (w_st (metricsMiddleware ?B (NewMessage sample_message) (fleet_onText spotify_bot ?B sample_music typed sample_message) w)) (key ''pinterest'' base)
      = stored (w_st w) (key ''pinterest'' base)" by simp
  qed
qed

subsection \<open>Music links\<close>

lemma first_match_of:
  assumes "p \<in> set ps" "Match p l" "\<And>q. Match q l \<Longrightarrow> q = p"
  shows "first_match ps l = Some p"
  using assms(1)
proof (induction ps)
  case (Cons q ps)
  have "q = p \<or> \<not> Match q l" using assms(3) by blast
  with Cons show ?case using assms(2) by auto
qed simp

lemma default_queue:
  "EnqueueMusicTo id TypeSpotify QueueDownload = EnqueueSpotify id"
  "EnqueueMusicTo id TypeSoundCloud QueueDownload = EnqueueSoundCloud id"
  by (simp_all add: fun_eq_iff enqueue_defs)

text \<open>
  C17. A bot of the fleet that serves a music service does with a list of its links what the main bot does: the same messages,
  the same lock, the same job. Its own copies of the handlers agree with those of the main bot, for a bot that keeps
  the download queue.
\<close>

theorem fleet_music_as_main_bot:
  assumes "bc_queue c = QueueDownload"
    and "\<forall>l \<in> set ls. (link_platform l = PlatformSpotify \<and> SpotifyPlat \<in> set (bc_platforms c))
      \<or> (link_platform l = PlatformSoundCloud \<and> SoundCloudPlat \<in> set (bc_platforms c))"
  shows "fleet_dispatch_all c B C m u lang batch ls w = dispatch_all B (music_of B C) m u lang batch ls w"
  using assms(2)
proof (induction ls arbitrary: w)
  case (Cons l ls)
  have "fleet_spotify_release c B C m u lang l = spotify_release B C (m_chat m) u lang (spotify_typ l) (spotify_id l)"
    "fleet_soundcloud_release c B C m u lang k = soundcloud_release B C (m_chat m) u lang k" for k
    by (intro ext; unfold fleet_spotify_release_def spotify_release_def fleet_soundcloud_release_def
        soundcloud_release_def assms(1) default_queue Let_def; rule refl)+
  then have sp: "fleet_spotify_link c B C m u lang l w = handleSpotifyLink B C m u lang l w"
    and sc: "fleet_soundcloud_link c B C m u lang l w = handleSoundCloudLink B C m u lang (link_url l) w" for w
    by (simp_all add: fleet_spotify_link_def handleSpotifyLink_def fleet_soundcloud_link_def handleSoundCloudLink_def split: sum.split)
  have one: "fleet_dispatchLink c B C m u lang l batch w = dispatchLink B (music_of B C) m u lang l batch w"
  proof (cases "link_platform l = PlatformSpotify")
    case True
    with Cons.prems have "first_match (bc_platforms c) l = Some SpotifyPlat"
      by (intro first_match_of) (auto simp: Match_def split: fleet_platform.splits)
    with True show ?thesis
      by (simp add: fleet_dispatchLink_def dispatchLink_def if_enabled_def HandleLink_def music_of_def platform_slug_def sp
          split: prod.splits)
  next
    case False
    with Cons.prems have "first_match (bc_platforms c) l = Some SoundCloudPlat" "link_platform l = PlatformSoundCloud"
      by (auto intro!: first_match_of simp: Match_def split: fleet_platform.splits)
    then show ?thesis
      by (simp add: fleet_dispatchLink_def dispatchLink_def if_enabled_def HandleLink_def music_of_def platform_slug_def sc
          split: prod.splits)
  qed
  from Cons.prems Cons.IH show ?case by (simp add: one)
qed simp

lemma fleet_music_as_main_bot_witness:
  "\<forall>w. fleet_dispatch_all (spotify_bot\<lparr>bc_queue := ''download''\<rparr>) music_env sample_music sample_message 7 ''en'' True
      [spotify_link, spotify_link] w
   = dispatch_all music_env (music_of music_env sample_music) sample_message 7 ''en'' True [spotify_link, spotify_link] w"
  by (intro allI fleet_music_as_main_bot) (simp_all add: spotify_bot_def spotify_link_def plain_link_def QueueDownload_def)

subsection \<open>Users of a bot\<close>

lemma language_back:
  assumes "lang \<in> {''en'', ''ru'', ''kk''}"
  shows "fromDBLanguage (toDBLanguage lang) = lang"
  using assms
  by (auto simp: fromDBLanguage_def toDBLanguage_def to_lower_def to_upper_def trim_space_def
      trim_left_def is_space_def lower_char_def upper_char_def char_class_defs code_of_def char_of_def)

lemma set_language_known:
  assumes "F = (\<lambda>_. None)" "has_key u (d_users db)" "b \<in> set (d_bots db)"
  shows "d_bot_lang (snd (SetUserLanguage F u lang b db)) = AList.update (u, b) (toDBLanguage lang) (d_bot_lang db)"
  using assms
  by (auto simp: SetUserLanguage_def and_then_def setUserBotLanguage_def exec_stmt_def stmt_def Let_def has_key_def
      insert_user_def dom_update split: option.splits)

lemma set_language_new:
  assumes "F = (\<lambda>_. None)" "\<not> has_key u (d_users db)" "b \<in> set (d_bots db)"
  shows "d_bot_lang (snd (SetUserLanguage F u lang b db)) = AList.update (u, b) (toDBLanguage lang) (d_bot_lang db)"
proof -
  have "map_of (d_users db) u = None" using assms(2) by (simp add: has_key_def map_of_eq_None_iff)
  with assms show ?thesis
    by (simp add: SetUserLanguage_def and_then_def setUserBotLanguage_def exec_stmt_def stmt_def Let_def
        insert_user_def plain_user_def has_key_def)
qed

lemma created:
  assumes "F = (\<lambda>_. None)" "b \<in> set (d_bots db)"
  shows "d_bots (snd (CreateUser F u n f lang b db)) = d_bots db"
    and "d_bot_lang (snd (CreateUser F u n f lang b db)) = AList.update (u, b) (toDBLanguage lang) (d_bot_lang db)"
  using assms
  by (auto simp: CreateUser_def and_then_def setUserBotLanguage_def exec_stmt_def stmt_def Let_def has_key_def
      insert_user_def split: option.splits)

lemma set_language:
  "F = (\<lambda>_. None) \<Longrightarrow> b \<in> set (d_bots db)
     \<Longrightarrow> d_bot_lang (snd (SetUserLanguage F u lang b db)) = AList.update (u, b) (toDBLanguage lang) (d_bot_lang db)"
  using set_language_known set_language_new by blast

text \<open>
  C38. The language a user picks in a bot of the fleet is the language the bot then speaks to her, and no other bot forgets its own.
  With a database that answers every statement, the bot in the table of bots, and a press on a language button under a message, by a
  user with an id other than 0, every choice of English, Russian or Kazakh the bot allows reads back, and the
  language stored for any other bot or user stays.
\<close>

theorem fleet_language_kept:
  assumes "k_fault B = (\<lambda>_. None)" "bc_slug c \<in> set (d_bots (w_db w))" "langAllowed c lang" "lang \<in> {''en'', ''ru'', ''kk''}"
    and "split_char CHR ''|'' (q_data q) = [t, lang]" "u_id (q_from q) \<noteq> 0" "q_msg q \<noteq> None"
    and "w' = fleet_onLanguageChosen c B q w"
  shows "fst (fleet_db_lang c B (u_id (q_from q)) w') = lang
    \<and> (\<forall>k. k \<noteq> (u_id (q_from q), bc_slug c) \<longrightarrow> map_of (d_bot_lang (w_db w')) k = map_of (d_bot_lang (w_db w)) k)"
proof -
  let ?u = "u_id (q_from q)"
  obtain pos where pos: "q_msg q = Some pos" using assms(7) by blast
  have "map_of (d_bot_lang (w_db w')) = (map_of (d_bot_lang (w_db w)))((?u, bc_slug c) \<mapsto> toDBLanguage lang)"
    unfolding assms(8) using assms(1-3,5,6) pos
    by (simp add: fleet_onLanguageChosen_def Let_def on_db_def do_db_def UserExists_def stmt_def set_language created
        update_conv' toast_def edit_msg_def split_beta split: option.splits)
  then show ?thesis
    using assms(1) language_back [OF assms(4)] assms(4)
    by (auto simp: fleet_db_lang_def on_db_def GetUserLanguage_def stmt_def Let_def)
qed

text \<open>The tables as the migrations of the repository leave them: the bot for SoundCloud is not among the bots.\<close>

definition migrated :: database where
  "migrated = empty_tables\<lparr>d_bots := [''saveinator'', ''pinterest'', ''pinterest_kz'', ''spotify'']\<rparr>"

definition press_lang :: callback where
  "press_lang = \<lparr>q_id = ''q'', q_from = \<lparr>u_id = 7, u_name = [], u_first = []\<rparr>, q_data = ''lang|kk'', q_msg = Some (7, 1)\<rparr>"

lemma press_lang_parts:
  "split_char CHR ''|'' (q_data press_lang) = [''lang'', ''kk'']" "u_id (q_from press_lang) = 7" "q_msg press_lang = Some (7, 1)"
  by (simp_all add: press_lang_def)

lemma fleet_language_kept_witness:
  "fst (fleet_db_lang spotify_bot (sample_work_env []) 7
     (fleet_onLanguageChosen spotify_bot (sample_work_env []) press_lang (sample_wworld\<lparr>w_db := migrated\<rparr>))) = ''kk''"
proof -
  let ?w = "sample_wworld\<lparr>w_db := migrated\<rparr>" and ?B = "sample_work_env []"
  have "k_fault ?B = (\<lambda>_. None)" "bc_slug spotify_bot \<in> set (d_bots (w_db ?w))" "langAllowed spotify_bot ''kk''"
    "''kk'' \<in> {''en'', ''ru'', ''kk''}" "u_id (q_from press_lang) \<noteq> 0" "q_msg press_lang \<noteq> None"
    by (simp_all add: sample_work_env_def bot_env.extend_def migrated_def spotify_bot_def langAllowed_def press_lang_parts)
  from fleet_language_kept [OF this(1-4) press_lang_parts(1) this(5,6) refl] show ?thesis
    by (simp add: press_lang_parts)
qed

lemma unknown_bot:
  assumes "b \<notin> set (d_bots db)" "\<not> has_key u (d_users db)" "\<not> has_key (u, b) (d_bot_lang db)"
  shows "d_users (snd (CreateUser F u n f lang b db)) = d_users db" "d_bot_lang (snd (CreateUser F u n f lang b db)) = d_bot_lang db"
    "d_bots (snd (CreateUser F u n f lang b db)) = d_bots db"
    "d_users (snd (SetUserLanguage F u lang b db)) = d_users db" "d_bot_lang (snd (SetUserLanguage F u lang b db)) = d_bot_lang db"
proof -
  have "map_of (d_users db) u = None" using assms(2) by (simp add: has_key_def map_of_eq_None_iff)
  with assms show "d_users (snd (CreateUser F u n f lang b db)) = d_users db"
    "d_bot_lang (snd (CreateUser F u n f lang b db)) = d_bot_lang db"
    "d_bots (snd (CreateUser F u n f lang b db)) = d_bots db"
    "d_users (snd (SetUserLanguage F u lang b db)) = d_users db" "d_bot_lang (snd (SetUserLanguage F u lang b db)) = d_bot_lang db"
    by (simp_all add: CreateUser_def SetUserLanguage_def and_then_def exec_stmt_def stmt_def Let_def insert_user_def
        plain_user_def split: option.splits)
qed

text \<open>A statement that leaves the downloads and the bots.\<close>

definition leaves_downloads :: "(database \<Rightarrow> go_error option \<times> database) \<Rightarrow> string \<Rightarrow> bool" where
  "leaves_downloads f b \<longleftrightarrow> (\<forall>db. b \<notin> set (d_bots db) \<longrightarrow>
     d_downloads (snd (f db)) = d_downloads db \<and> d_bots (snd (f db)) = d_bots db)"

lemma leaves_downloads_then: "leaves_downloads f b \<Longrightarrow> leaves_downloads g b \<Longrightarrow> leaves_downloads (and_then f g) b"
  unfolding leaves_downloads_def and_then_def by (fastforce split: prod.splits option.splits)

lemma leaves_downloads_exec:
  assumes "\<And>db. b \<notin> set (d_bots db) \<Longrightarrow> d_downloads (snd (f db)) = d_downloads db \<and> d_bots (snd (f db)) = d_bots db"
  shows "leaves_downloads (exec_stmt F f) b"
  unfolding leaves_downloads_def
proof (intro allI impI)
  fix db :: database assume b: "b \<notin> set (d_bots db)"
  have "b \<notin> set (d_bots (db\<lparr>d_stmts := Suc (d_stmts db)\<rparr>))" using b by simp
  note f = assms [OF this]
  show "d_downloads (snd (exec_stmt F f db)) = d_downloads db \<and> d_bots (snd (exec_stmt F f db)) = d_bots db"
    using f by (cases "f (db\<lparr>d_stmts := Suc (d_stmts db)\<rparr>)")
      (auto simp: exec_stmt_def stmt_def Let_def split: option.splits sum.splits)
qed

lemma no_record: "leaves_downloads (RecordDownloadForBot F u ch url pf st sz err b) b"
  unfolding RecordDownloadForBot_def
  by (intro leaves_downloads_then leaves_downloads_exec)
    (simp_all add: insert_user_def insert_chat_def insert_download_def split: option.splits)

text \<open>
  C18. A bot that is missing in the table of bots tells a new user that her language was changed and keeps nothing: the answer
  to the press is the confirmation, yet neither a user nor a language is stored and the bot goes on speaking its default;
  a download it finishes is not recorded either. So it is with the SoundCloud bot of the shipped configuration, which
  no migration adds.
\<close>

theorem unknown_bot_keeps_nothing:
  assumes "bc_slug c \<notin> set (d_bots (w_db w))" "\<not> has_key (u_id (q_from q)) (d_users (w_db w))"
    and "\<not> has_key (u_id (q_from q), bc_slug c) (d_bot_lang (w_db w))" "langAllowed c lang"
    and "split_char CHR ''|'' (q_data q) = [t, lang]" "u_id (q_from q) \<noteq> 0" "q_msg q = Some (chat, mid)"
    and "w' = fleet_onLanguageChosen c B q w"
  shows "w_log w' = w_log w @ [Edit chat mid (Loc (bc_welcome c) lang []) [],
      Answer (q_id q) (Some (Loc ''onboarding.lang_changed'' lang [])) False]
    \<and> d_users (w_db w') = d_users (w_db w) \<and> d_bot_lang (w_db w') = d_bot_lang (w_db w)
    \<and> fst (fleet_db_lang c B (u_id (q_from q)) w') = bc_default c
    \<and> (\<forall>u url pf st sz err. d_downloads (w_db (fleet_book c B u chat url pf st sz err w)) = d_downloads (w_db w))"
proof -
  let ?u = "u_id (q_from q)"
  have "w_log w' = w_log w @ [Edit chat mid (Loc (bc_welcome c) lang []) [],
      Answer (q_id q) (Some (Loc ''onboarding.lang_changed'' lang [])) False]"
    unfolding assms(8) using assms(4-7)
    by (simp add: fleet_onLanguageChosen_def Let_def on_db_def do_db_def toast_def edit_msg_def split_beta)
  moreover have d: "d_users (w_db w') = d_users (w_db w)" "d_bot_lang (w_db w') = d_bot_lang (w_db w)"
    unfolding assms(8) using assms(1-7)
    by (simp_all add: fleet_onLanguageChosen_def Let_def on_db_def do_db_def UserExists_def stmt_def unknown_bot
        toast_def edit_msg_def split_beta split: option.splits)
  moreover have "fst (fleet_db_lang c B ?u w') = bc_default c"
    using d assms(2,3)
    by (simp add: fleet_db_lang_def on_db_def GetUserLanguage_def stmt_def Let_def has_key_def map_of_eq_None_iff [THEN iffD2]
        split_beta split: option.splits)
  moreover have "d_downloads (w_db (fleet_book c B u chat url pf st sz err w)) = d_downloads (w_db w)" for u url pf st sz err
    using assms(1) no_record by (simp add: fleet_book_def do_db_def on_db_def leaves_downloads_def split_beta)
  ultimately show ?thesis by blast
qed

definition soundcloud_bot :: bot_config where
  "soundcloud_bot = \<lparr>bc_slug = ''soundcloud'', bc_languages = [''en'', ''ru'', ''kk''], bc_default = ''en'',
     bc_welcome = ''onboarding.welcome_soundcloud'', bc_not_supported = ''soundcloud.not_soundcloud_link'',
     bc_queue = ''soundcloud'', bc_api = False, bc_platforms = [SoundCloudPlat]\<rparr>"

lemma unknown_bot_keeps_nothing_witness:
  "let w' = fleet_onLanguageChosen soundcloud_bot (sample_work_env []) press_lang (sample_wworld\<lparr>w_db := migrated\<rparr>) in
   w_log w' = [Edit 7 1 (Loc ''onboarding.welcome_soundcloud'' ''kk'' []) [],
     Answer ''q'' (Some (Loc ''onboarding.lang_changed'' ''kk'' [])) False]
   \<and> fst (fleet_db_lang soundcloud_bot (sample_work_env []) 7 w') = ''en''"
proof -
  let ?w = "sample_wworld\<lparr>w_db := migrated\<rparr>" and ?B = "sample_work_env []"
  have c: "bc_slug soundcloud_bot \<notin> set (d_bots (w_db ?w))" "\<not> has_key (u_id (q_from press_lang)) (d_users (w_db ?w))"
    "\<not> has_key (u_id (q_from press_lang), bc_slug soundcloud_bot) (d_bot_lang (w_db ?w))" "langAllowed soundcloud_bot ''kk''"
    "u_id (q_from press_lang) \<noteq> 0" and d: "q_id press_lang = ''q''" "w_log ?w = []" "bc_default soundcloud_bot = ''en''"
    "bc_welcome soundcloud_bot = ''onboarding.welcome_soundcloud''"
    by (simp_all add: migrated_def soundcloud_bot_def empty_tables_def has_key_def langAllowed_def press_lang_def sample_wworld_def)
  from unknown_bot_keeps_nothing [OF c(1-4) press_lang_parts(1) c(5) press_lang_parts(3) refl, of ?B] show ?thesis
    by (simp only: Let_def press_lang_parts d) simp
qed

end
