(* ===== verification/Dash.thy ===== *)
theory Dash
  imports Test_Urls Redisx "HOL-Library.List_Lexorder" "HOL-Library.Char_ord"
begin

text \<open>
  The dashboard of the operator (\<open>dash/auth.go\<close>, \<open>handlers.go\<close>, \<open>server.go\<close>, part of \<open>cmd/dash/main.go\<close>): the check of
  a Telegram login, the sessions in memory, the routes and the data behind them. The keyed hash, the random bytes of a
  token, the statistics queries and the probes of other services are given by an environment.
\<close>

subsection \<open>Sessions (auth.go)\<close>

record session_entry =
  se_user :: int
  se_username :: string
  se_first :: string
  se_expires :: nat

type_synonym sessions = "string \<Rightarrow> session_entry option"

definition newSessionManager :: sessions where "newSessionManager = (\<lambda>_. None)"

text \<open>A time to live in microseconds.\<close>

definition dashSessionTTL :: nat where "dashSessionTTL = 7 * 24 * hours 1"

definition cleanupLocked :: "nat \<Rightarrow> sessions \<Rightarrow> sessions" where
  "cleanupLocked clk m = (\<lambda>tok. case m tok of None \<Rightarrow> None | Some e \<Rightarrow> if clk > se_expires e then None else Some e)"

text \<open>\<open>rand\<close> is the encoded buffer or the error of the random source.\<close>

definition issue :: "nat \<Rightarrow> string result \<Rightarrow> int \<Rightarrow> string \<Rightarrow> string \<Rightarrow> sessions \<Rightarrow> string result \<times> sessions" where
  "issue clk rand userID username firstName m =
     (case rand of
        Inl e \<Rightarrow> (Inl e, m)
      | Inr token \<Rightarrow>
          (Inr token, (cleanupLocked clk m)(token \<mapsto>
             \<lparr>se_user = userID, se_username = username, se_first = firstName, se_expires = clk + dashSessionTTL\<rparr>)))"

definition session_lookup :: "nat \<Rightarrow> string \<Rightarrow> sessions \<Rightarrow> session_entry option \<times> sessions" where
  "session_lookup clk token m =
     (case m token of
        None \<Rightarrow> (None, m)
      | Some e \<Rightarrow> if clk > se_expires e then (None, m(token := None)) else (Some e, m))"

definition revoke :: "string \<Rightarrow> sessions \<Rightarrow> sessions" where
  "revoke token m = m(token := None)"

subsection \<open>The signed form of a login (auth.go)\<close>

type_synonym form = "(string \<times> string) list"

text \<open>A lookup in a Go map: a missing key reads as the empty string.\<close>

definition field :: "form \<Rightarrow> string \<Rightarrow> string" where
  "field f k = (case map_of f k of None \<Rightarrow> [] | Some v \<Rightarrow> v)"

definition line_break :: char where "line_break = CHR 0x0A"

definition signed_keys :: "form \<Rightarrow> string list" where
  "signed_keys f = sort (filter (\<lambda>k. k \<noteq> ''hash'' \<and> field f k \<noteq> []) (remdups (List.map fst f)))"

definition check_string :: "form \<Rightarrow> string" where
  "check_string f = join_str [line_break] (List.map (\<lambda>k. k @ ''='' @ field f k) (signed_keys f))"

text \<open>Subtraction of two \<open>int64\<close> wraps.\<close>

definition wrap64 :: "int \<Rightarrow> int" where
  "wrap64 n = (n + 2 ^ 63) mod 2 ^ 64 - 2 ^ 63"

text \<open>\<open>mac token s\<close> is the hexadecimal HMAC-SHA256 of \<open>s\<close> under the SHA256 of the bot token.\<close>

definition telegramAuth ::
  "(string \<Rightarrow> string \<Rightarrow> string) \<Rightarrow> string \<Rightarrow> nat \<Rightarrow> form \<Rightarrow> (int \<times> string \<times> string) result" where
  "telegramAuth mac token clk f =
     (if field f ''hash'' = [] then Inl ''missing hash''
      else case atoi (field f ''auth_date'') of
        None \<Rightarrow> Inl ''bad auth_date''
      | Some authDate \<Rightarrow>
          if wrap64 (int (clk div second) - authDate) > 24 * 3600 then Inl ''stale auth_date''
          else if mac token (check_string f) \<noteq> field f ''hash'' then Inl ''bad signature''
          else (case atoi (field f ''id'') of
            None \<Rightarrow> Inl ''bad user id''
          | Some u \<Rightarrow> if u \<le> 0 then Inl ''bad user id'' else Inr (u, field f ''username'', field f ''first_name'')))"

subsection \<open>The server (server.go, handlers.go)\<close>

record dash_probe =
  dp_name :: string
  dp_probe_url :: string

record service_status =
  sv_name :: string
  sv_up :: bool
  sv_latency :: int
  sv_seen :: int

text \<open>
  The statistics are the JSON text of the answers of \<open>db/dash_stats.go\<close>; a probe answers with an HTTP status and the
  milliseconds it took.
\<close>

record 's dash_env =
  da_redis :: "'s redis"
  da_fault :: fault
  da_mac :: "string \<Rightarrow> string \<Rightarrow> string"
  da_token :: string
  da_admins :: "int list"
  da_probes :: "dash_probe list"
  da_get :: "nat \<Rightarrow> string \<Rightarrow> int result \<times> int"
  da_ping_db :: "nat \<Rightarrow> bool"
  da_ping_redis :: "nat \<Rightarrow> bool"
  da_overview :: "database \<Rightarrow> string result"
  da_timeline :: "database \<Rightarrow> int \<Rightarrow> string result"
  da_platforms :: "database \<Rightarrow> int \<Rightarrow> string result"
  da_users :: "database \<Rightarrow> string \<Rightarrow> string \<Rightarrow> int \<Rightarrow> string list result"
  da_downloads :: "database \<Rightarrow> int \<Rightarrow> int \<Rightarrow> string list result"

record 's dash_state =
  d_sessions :: sessions
  d_tables :: database
  d_redis :: 's
  d_cache :: "(nat \<times> service_status list) option"

record http_request =
  rq_method :: string
  rq_path :: string
  rq_cookie :: "string option"
  rq_form :: "(string \<times> string list) list result"
  rq_query :: "string \<Rightarrow> string"
  rq_json :: "string result"

datatype page =
    PError nat string
  | POk
  | PAuthed "session_entry option"
  | PLoggedIn string
  | PLoggedOut
  | POverview string int int
  | PTimeline int string
  | PPlatforms int string
  | PUsers "string list"
  | PUserDownloads int "string list"
  | PServices nat "service_status list"
  | PTest response
  | PStatic string

definition parseAdminIDs :: "string \<Rightarrow> int list" where
  "parseAdminIDs raw =
     List.map_filter (\<lambda>part. case atoi (trim_space part) of None \<Rightarrow> None | Some n \<Rightarrow> if n > 0 then Some n else None)
       (split_char CHR '','' raw)"

text \<open>The token of the dashboard, or that of the bot.\<close>

definition dash_token :: "(string \<Rightarrow> string) \<Rightarrow> string" where
  "dash_token getenv =
     (if getenv ''DASH_TELEGRAM_TOKEN'' = [] then getenv ''BOT_TOKEN'' else getenv ''DASH_TELEGRAM_TOKEN'')"

definition dash_isAdmin :: "'s dash_env \<Rightarrow> int \<Rightarrow> bool" where
  "dash_isAdmin E userID \<longleftrightarrow> userID \<in> set (da_admins E)"

definition authUser :: "nat \<Rightarrow> http_request \<Rightarrow> 's dash_state \<Rightarrow> session_entry option \<times> 's dash_state" where
  "authUser clk r d =
     (case rq_cookie r of
        None \<Rightarrow> (None, d)
      | Some c \<Rightarrow>
          if c = [] then (None, d)
          else case session_lookup clk c (d_sessions d) of (e, m) \<Rightarrow> (e, d\<lparr>d_sessions := m\<rparr>))"

definition handleAuthStatus :: "nat \<Rightarrow> http_request \<Rightarrow> 's dash_state \<Rightarrow> page \<times> 's dash_state" where
  "handleAuthStatus clk r d = (case authUser clk r d of (e, d) \<Rightarrow> (PAuthed e, d))"

text \<open>The first value of each key of the posted form.\<close>

definition first_values :: "(string \<times> string list) list \<Rightarrow> form" where
  "first_values kvs = List.map_filter (\<lambda>(k, vs). case vs of [] \<Rightarrow> None | v # _ \<Rightarrow> Some (k, v)) kvs"

definition handleAuthLogin :: "'s dash_env \<Rightarrow> nat \<Rightarrow> string result \<Rightarrow> http_request \<Rightarrow> 's dash_state \<Rightarrow> page \<times> 's dash_state" where
  "handleAuthLogin E clk rand r d =
     (case rq_form r of
        Inl e \<Rightarrow> (PError 400 ''bad form'', d)
      | Inr kvs \<Rightarrow>
          (case telegramAuth (da_mac E) (da_token E) clk (first_values kvs) of
             Inl e \<Rightarrow> (PError 401 ''telegram check failed'', d)
           | Inr (userID, username, firstName) \<Rightarrow>
               if \<not> dash_isAdmin E userID then (PError 403 ''not allowed'', d)
               else (case issue clk rand userID username firstName (d_sessions d) of
                 (Inl e, m) \<Rightarrow> (PError 500 ''session issue failed'', d\<lparr>d_sessions := m\<rparr>)
               | (Inr token, m) \<Rightarrow> (PLoggedIn token, d\<lparr>d_sessions := m\<rparr>))))"

definition handleAuthLogout :: "http_request \<Rightarrow> 's dash_state \<Rightarrow> page \<times> 's dash_state" where
  "handleAuthLogout r d =
     (PLoggedOut, case rq_cookie r of None \<Rightarrow> d | Some c \<Rightarrow> d\<lparr>d_sessions := revoke c (d_sessions d)\<rparr>)"

text \<open>The digits are summed up in an \<open>int\<close> of 64 bits, which wraps.\<close>

fun digits_value :: "int \<Rightarrow> string \<Rightarrow> int option" where
  "digits_value n [] = Some n"
| "digits_value n (c # s) = (if is_digit c then digits_value (wrap64 (n * 10 + int (digit_val c))) s else None)"

definition intQuery :: "http_request \<Rightarrow> string \<Rightarrow> int \<Rightarrow> int" where
  "intQuery r k def =
     (let v = rq_query r k in
      if v = [] then def
      else case digits_value 0 v of None \<Rightarrow> def | Some n \<Rightarrow> if n \<le> 0 then def else n)"

definition activeWindow :: nat where "activeWindow = 30 * 60 * second"

definition handleOverview :: "'s dash_env \<Rightarrow> nat \<Rightarrow> 's dash_state \<Rightarrow> page \<times> 's dash_state" where
  "handleOverview E clk d =
     (case da_overview E (d_tables d) of
        Inl e \<Rightarrow> (PError 500 e, d)
      | Inr o1 \<Rightarrow>
          let (n, s) = CountActiveUsers (da_redis E) clk activeWindow (d_redis d);
              (banned, e, s) = BannedCount (da_redis E) s in
          (POverview o1 (case n of Inl _ \<Rightarrow> 0 | Inr k \<Rightarrow> k) banned, d\<lparr>d_redis := s\<rparr>))"

definition handleDownloads :: "'s dash_env \<Rightarrow> http_request \<Rightarrow> 's dash_state \<Rightarrow> page \<times> 's dash_state" where
  "handleDownloads E r d =
     (let days = intQuery r ''days'' 14 in
      (case da_timeline E (d_tables d) days of Inl e \<Rightarrow> PError 500 e | Inr x \<Rightarrow> PTimeline days x, d))"

definition handlePlatforms :: "'s dash_env \<Rightarrow> http_request \<Rightarrow> 's dash_state \<Rightarrow> page \<times> 's dash_state" where
  "handlePlatforms E r d =
     (let days = intQuery r ''days'' 30 in
      (case da_platforms E (d_tables d) days of Inl e \<Rightarrow> PError 500 e | Inr x \<Rightarrow> PPlatforms days x, d))"

definition handleUsers :: "'s dash_env \<Rightarrow> http_request \<Rightarrow> 's dash_state \<Rightarrow> page \<times> 's dash_state" where
  "handleUsers E r d =
     (let s = rq_query r ''sort'';
          sortBy = (if s \<noteq> ''downloads'' \<and> s \<noteq> ''completed'' then ''newest'' else s) in
      (case da_users E (d_tables d) sortBy (trim_space (rq_query r ''q'')) (intQuery r ''limit'' 200) of
         Inl e \<Rightarrow> PError 500 e | Inr rows \<Rightarrow> PUsers rows, d))"

definition handleUserDownloads :: "'s dash_env \<Rightarrow> http_request \<Rightarrow> string \<Rightarrow> 's dash_state \<Rightarrow> page \<times> 's dash_state" where
  "handleUserDownloads E r param d =
     (case atoi param of
        None \<Rightarrow> (PError 400 ''invalid user id'', d)
      | Some u \<Rightarrow>
          if u \<le> 0 then (PError 400 ''invalid user id'', d)
          else (case da_downloads E (d_tables d) u (intQuery r ''limit'' 200) of
            Inl e \<Rightarrow> PError 500 e | Inr rows \<Rightarrow> PUserDownloads u rows, d))"

text \<open>The probes run at the same time; the result is sorted by name.\<close>

definition probe_status :: "'s dash_env \<Rightarrow> nat \<Rightarrow> dash_probe \<Rightarrow> service_status" where
  "probe_status E clk p =
     (let (r, ms) = da_get E clk (dp_probe_url p);
          up = (case r of Inl _ \<Rightarrow> False | Inr code \<Rightarrow> code \<ge> 200 \<and> code < 400) in
      \<lparr>sv_name = dp_name p, sv_up = up, sv_latency = ms, sv_seen = int (clk div second)\<rparr>)"

definition checkServices :: "'s dash_env \<Rightarrow> nat \<Rightarrow> service_status list" where
  "checkServices E clk =
     sort_key sv_name (List.map (probe_status E clk) (da_probes E) @
       [\<lparr>sv_name = ''db'', sv_up = da_ping_db E clk, sv_latency = 0, sv_seen = int (clk div second)\<rparr>,
        \<lparr>sv_name = ''redis'', sv_up = da_ping_redis E clk, sv_latency = 0, sv_seen = int (clk div second)\<rparr>])"

definition servicesCacheTTL :: nat where "servicesCacheTTL = 10 * second"

definition handleServices :: "'s dash_env \<Rightarrow> nat \<Rightarrow> 's dash_state \<Rightarrow> page \<times> 's dash_state" where
  "handleServices E clk d =
     (let fresh = checkServices E clk; renewed = (PServices clk fresh, d\<lparr>d_cache := Some (clk, fresh)\<rparr>) in
      case d_cache d of
        Some (at_time, status) \<Rightarrow> if clk < at_time + servicesCacheTTL then (PServices at_time status, d) else renewed
      | None \<Rightarrow> renewed)"

subsection \<open>Routes (server.go)\<close>

datatype guarded =
    GOverview | GDownloads | GPlatforms | GUsers | GUserDownloads string | GServices
  | GTests | GTestCreate | GTestRun | GTestRerun string | GTestDelete string

datatype route = RHealth | RStatus | RLogin | RLogout | RGuarded guarded | RStatic

definition route_of :: "http_request \<Rightarrow> route" where
  "route_of r =
     (let g = (rq_method r = ''GET''); p = (rq_method r = ''POST''); path = split_char CHR ''/'' (rq_path r) in
      if take 2 path \<noteq> [[], ''api''] then RStatic
      else case drop 2 path of
        [a] \<Rightarrow>
          if a = ''health'' \<and> g then RHealth
          else if a = ''overview'' \<and> g then RGuarded GOverview
          else if a = ''downloads'' \<and> g then RGuarded GDownloads
          else if a = ''platforms'' \<and> g then RGuarded GPlatforms
          else if a = ''users'' \<and> g then RGuarded GUsers
          else if a = ''services'' \<and> g then RGuarded GServices
          else if a = ''test-urls'' \<and> g then RGuarded GTests
          else if a = ''test-urls'' \<and> p then RGuarded GTestCreate
          else RStatic
      | [a, b] \<Rightarrow>
          if a = ''auth'' \<and> b = ''status'' \<and> g then RStatus
          else if a = ''auth'' \<and> b = ''login'' \<and> p then RLogin
          else if a = ''auth'' \<and> b = ''logout'' \<and> p then RLogout
          else if a = ''test-urls'' \<and> b = ''run'' \<and> p then RGuarded GTestRun
          else if a = ''test-urls'' \<and> b \<noteq> [] \<and> rq_method r = ''DELETE'' then RGuarded (GTestDelete b)
          else RStatic
      | [a, b, c] \<Rightarrow>
          if a = ''users'' \<and> c = ''downloads'' \<and> g then RGuarded (GUserDownloads b)
          else if a = ''test-urls'' \<and> c = ''rerun'' \<and> p then RGuarded (GTestRerun b)
          else RStatic
      | _ \<Rightarrow> RStatic)"

definition on_tables :: "(database \<Rightarrow> response \<times> database) \<Rightarrow> 's dash_state \<Rightarrow> page \<times> 's dash_state" where
  "on_tables f d = (case f (d_tables d) of (a, db) \<Rightarrow> (PTest a, d\<lparr>d_tables := db\<rparr>))"

definition serve_guarded :: "'s dash_env \<Rightarrow> nat \<Rightarrow> http_request \<Rightarrow> guarded \<Rightarrow> 's dash_state \<Rightarrow> page \<times> 's dash_state" where
  "serve_guarded E clk r g d =
     (case g of
        GOverview \<Rightarrow> handleOverview E clk d
      | GDownloads \<Rightarrow> handleDownloads E r d
      | GPlatforms \<Rightarrow> handlePlatforms E r d
      | GUsers \<Rightarrow> handleUsers E r d
      | GUserDownloads u \<Rightarrow> handleUserDownloads E r u d
      | GServices \<Rightarrow> handleServices E clk d
      | GTests \<Rightarrow> on_tables (handleTestURLs (da_fault E)) d
      | GTestCreate \<Rightarrow> on_tables (handleTestURLCreate (da_fault E) (rq_json r)) d
      | GTestRun \<Rightarrow> on_tables (handleTestURLRun (da_fault E)) d
      | GTestRerun i \<Rightarrow> on_tables (handleTestURLRerun (da_fault E) i) d
      | GTestDelete i \<Rightarrow> on_tables (handleTestURLDelete (da_fault E) i) d)"

definition requireAuth :: "nat \<Rightarrow> http_request \<Rightarrow> ('s dash_state \<Rightarrow> page \<times> 's dash_state) \<Rightarrow> 's dash_state \<Rightarrow> page \<times> 's dash_state" where
  "requireAuth clk r next_handler d =
     (case authUser clk r d of
        (None, d) \<Rightarrow> (PError 401 ''unauthorized'', d)
      | (Some e, d) \<Rightarrow> next_handler d)"

text \<open>The cache header of a file of the application.\<close>

definition cache_control :: "string \<Rightarrow> string" where
  "cache_control path =
     (if has_suffix path ''.woff2'' then ''public, max-age=31536000, immutable'' else ''no-cache'')"

definition serve :: "'s dash_env \<Rightarrow> nat \<Rightarrow> string result \<Rightarrow> http_request \<Rightarrow> 's dash_state \<Rightarrow> page \<times> 's dash_state" where
  "serve E clk rand r d =
     (case route_of r of
        RHealth \<Rightarrow> (POk, d)
      | RStatus \<Rightarrow> handleAuthStatus clk r d
      | RLogin \<Rightarrow> handleAuthLogin E clk rand r d
      | RLogout \<Rightarrow> handleAuthLogout r d
      | RGuarded g \<Rightarrow> requireAuth clk r (serve_guarded E clk r g) d
      | RStatic \<Rightarrow> (PStatic (cache_control (rq_path r)), d))"

text \<open>Requests one after the other, each with its time and the random bytes it would draw.\<close>

type_synonym dash_call = "nat \<times> string result \<times> http_request"

fun serve_all :: "'s dash_env \<Rightarrow> dash_call list \<Rightarrow> 's dash_state \<Rightarrow> 's dash_state" where
  "serve_all E [] d = d"
| "serve_all E ((clk, rand, r) # cs) d = serve_all E cs (snd (serve E clk rand r d))"

subsection \<open>Probes (cmd/dash/main.go)\<close>

fun parse_probe_parts :: "string list \<Rightarrow> dash_probe list result" where
  "parse_probe_parts [] = Inr []"
| "parse_probe_parts (p # ps) =
     (let part = trim_space p in
      if part = [] then parse_probe_parts ps
      else case split_first CHR ''='' part of
        [name, url] \<Rightarrow>
          if trim_space name = [] \<or> \<not> has_prefix url ''http'' then
            Inl (''invalid probe '' @ quote @ part @ quote @ '': want name=http://...'')
          else (case parse_probe_parts ps of
            Inl e \<Rightarrow> Inl e | Inr qs \<Rightarrow> Inr (\<lparr>dp_name = trim_space name, dp_probe_url = url\<rparr> # qs))
      | _ \<Rightarrow> Inl (''invalid probe '' @ quote @ part @ quote @ '': want name=http://...''))"

definition parseProbes :: "string \<Rightarrow> dash_probe list result" where
  "parseProbes raw = parse_probe_parts (split_char CHR '';'' raw)"

end
