(* ===== verification/Dash_Props.thy ===== *)
theory Dash_Props
  imports Dash
begin

text \<open>
  Properties of the dashboard: its data and its requests are for an operator with a session, a session is what the
  history of logins and logouts says, and what Telegram signed cannot be altered.
\<close>

subsection \<open>Sessions and their history\<close>

text \<open>The session that a call opens: its token and its entry.\<close>

definition login_of :: "'s dash_env \<Rightarrow> dash_call \<Rightarrow> (string \<times> session_entry) option" where
  "login_of E cl =
     (case cl of (clk, rand, r) \<Rightarrow>
        if route_of r \<noteq> RLogin then None
        else case (rq_form r, rand) of
          (Inr kvs, Inr tok) \<Rightarrow>
            (case telegramAuth (da_mac E) (da_token E) clk (first_values kvs) of
               Inr (u, n, f) \<Rightarrow>
                 if dash_isAdmin E u
                 then Some (tok, \<lparr>se_user = u, se_username = n, se_first = f, se_expires = clk + dashSessionTTL\<rparr>) else None
             | Inl _ \<Rightarrow> None)
        | _ \<Rightarrow> None)"

definition after_call :: "'s dash_env \<Rightarrow> dash_call \<Rightarrow> string \<Rightarrow> session_entry option \<Rightarrow> session_entry option" where
  "after_call E cl tok acc =
     (case login_of E cl of
        Some (t, e) \<Rightarrow> if t = tok then Some e else acc
      | None \<Rightarrow>
          case cl of (clk, rand, r) \<Rightarrow> if route_of r = RLogout \<and> rq_cookie r = Some tok then None else acc)"

text \<open>The contract of the sessions: the last login or logout with the token decides, and a login counts for seven days.\<close>

definition granted :: "'s dash_env \<Rightarrow> dash_call list \<Rightarrow> string \<Rightarrow> session_entry option" where
  "granted E cs tok = fold (\<lambda>c. after_call E c tok) cs None"

definition unexpired :: "nat \<Rightarrow> session_entry option \<Rightarrow> session_entry option" where
  "unexpired clk e = (case e of None \<Rightarrow> None | Some e \<Rightarrow> if clk > se_expires e then None else Some e)"

lemma unexpired_simps [simp]: "unexpired clk None = None" "unexpired clk (Some e) = (if clk > se_expires e then None else Some e)"
  by (simp_all add: unexpired_def)

lemma lookup_unexpired: "fst (session_lookup clk tok m) = unexpired clk (m tok)"
  by (simp add: session_lookup_def split: option.split)

lemma lookup_keeps: "clk \<le> t \<Longrightarrow> unexpired t (snd (session_lookup clk k m) tok) = unexpired t (m tok)"
  by (auto simp: session_lookup_def split: option.split)

lemma auth_facts:
  "d_tables (snd (authUser clk r d)) = d_tables d" "d_redis (snd (authUser clk r d)) = d_redis d"
  "clk \<le> t \<Longrightarrow> unexpired t (d_sessions (snd (authUser clk r d)) tok) = unexpired t (d_sessions d tok)"
  "rq_cookie r = Some c \<Longrightarrow> c \<noteq> [] \<Longrightarrow> fst (authUser clk r d) = unexpired clk (d_sessions d c)"
  using lookup_keeps [of clk t _ "d_sessions d" tok]
  by (auto simp: authUser_def lookup_unexpired split_beta split: option.split)

lemma guarded_sessions: "d_sessions (snd (serve_guarded E clk r g d)) = d_sessions d"
  by (cases g) (auto simp: serve_guarded_def handleOverview_def handleDownloads_def handlePlatforms_def handleUsers_def
      handleUserDownloads_def handleServices_def on_tables_def Let_def split_beta split: sum.split option.split)

lemma cleanup_unexpired: "clk \<le> t \<Longrightarrow> unexpired t (cleanupLocked clk m tok) = unexpired t (m tok)"
  by (auto simp: cleanupLocked_def split: option.split)

lemma call_sessions:
  assumes "clk \<le> t"
  shows "unexpired t (d_sessions (snd (serve E clk rand r d)) tok)
    = unexpired t (after_call E (clk, rand, r) tok (d_sessions d tok))"
proof (cases "route_of r")
  case RLogin
  then show ?thesis
    by (auto simp: serve_def after_call_def login_of_def handleAuthLogin_def issue_def unexpired_def
        cleanup_unexpired [OF assms, unfolded unexpired_def] split: sum.split option.split)
next
  case RLogout
  then show ?thesis
    by (auto simp: serve_def after_call_def login_of_def handleAuthLogout_def revoke_def split: option.split)
next
  case (RGuarded g)
  then show ?thesis using auth_facts(3) [OF assms, of r d tok]
    by (auto simp: serve_def after_call_def login_of_def requireAuth_def guarded_sessions unexpired_def
        split: option.splits prod.splits)
qed (use auth_facts(3) [OF assms, of r d tok] in \<open>auto simp: serve_def after_call_def login_of_def handleAuthStatus_def
  unexpired_def split: option.splits prod.splits\<close>)

lemma after_call_respects:
  "unexpired t a = unexpired t b \<Longrightarrow> unexpired t (after_call E cl tok a) = unexpired t (after_call E cl tok b)"
  by (auto simp: after_call_def split: option.split prod.split)

lemma run_sessions:
  assumes "sorted (List.map fst cs @ [t])" "unexpired t (d_sessions d tok) = unexpired t acc"
  shows "unexpired t (d_sessions (serve_all E cs d) tok) = unexpired t (fold (\<lambda>c. after_call E c tok) cs acc)"
  using assms
proof (induction cs arbitrary: d acc)
  case (Cons cl cs)
  obtain clk rand r where cl: "cl = (clk, rand, r)" by (cases cl)
  have "clk \<le> t" using Cons.prems(1) by (simp add: cl)
  note s = call_sessions [OF this, of E rand r d tok]
  have "unexpired t (d_sessions (snd (serve E clk rand r d)) tok) = unexpired t (after_call E cl tok acc)"
    using s after_call_respects [OF Cons.prems(2)] by (simp add: cl)
  with Cons show ?case by (simp add: cl)
qed simp

definition sample_form :: form where
  "sample_form = [(''auth_date'', ''5''), (''first_name'', ''A''), (''id'', ''7''), (''username'', ''bob'')]"

definition sample_mac :: "string \<Rightarrow> string \<Rightarrow> string" where "sample_mac token s = ''h'' @ s"

definition sample_dash_env :: "redis_db dash_env" where
  "sample_dash_env = \<lparr>da_redis = ref_redis, da_fault = (\<lambda>_. None), da_mac = sample_mac, da_token = ''bot'', da_admins = [7],
     da_probes = [], da_get = (\<lambda>_ _. (Inl ''no probe'', 0)), da_ping_db = (\<lambda>_. True), da_ping_redis = (\<lambda>_. True),
     da_overview = (\<lambda>_. Inr ''{}''), da_timeline = (\<lambda>_ _. Inr ''[]''), da_platforms = (\<lambda>_ _. Inr ''[]''),
     da_users = (\<lambda>_ _ _ _. Inr []), da_downloads = (\<lambda>_ _ _. Inr [])\<rparr>"

definition sample_dash :: "redis_db dash_state" where
  "sample_dash = \<lparr>d_sessions = newSessionManager, d_tables = empty_tables, d_redis = empty_db, d_cache = None\<rparr>"

text \<open>A login with a signed form, and a request for the overview with a token.\<close>

definition login_request :: http_request where
  "login_request = \<lparr>rq_method = ''POST'', rq_path = ''/api/auth/login'', rq_cookie = None,
     rq_form = Inr ((''hash'', [sample_mac ''bot'' (check_string sample_form)]) # List.map (\<lambda>(k, v). (k, [v])) sample_form),
     rq_query = (\<lambda>_. []), rq_json = Inl ''no body''\<rparr>"

definition overview_request :: "string \<Rightarrow> http_request" where
  "overview_request tok = \<lparr>rq_method = ''GET'', rq_path = ''/api/overview'', rq_cookie = Some tok, rq_form = Inr [],
     rq_query = (\<lambda>_. []), rq_json = Inl ''no body''\<rparr>"

definition hashed_form :: form where
  "hashed_form = (''hash'', sample_mac ''bot'' (check_string sample_form)) # sample_form"

lemma hashed_form_field: "k \<noteq> ''hash'' \<Longrightarrow> field hashed_form k = field sample_form k"
  "field hashed_form ''hash'' = sample_mac ''bot'' (check_string sample_form)"
  by (simp_all add: hashed_form_def field_def)

lemma hashed_form_keys: "signed_keys hashed_form = signed_keys sample_form" "signed_keys sample_form = [''auth_date'', ''first_name'', ''id'', ''username'']"
proof -
  show "signed_keys sample_form = [''auth_date'', ''first_name'', ''id'', ''username'']" by code_simp
  have "filter (\<lambda>k. k \<noteq> ''hash'' \<and> field hashed_form k \<noteq> []) (remdups (List.map fst hashed_form))
      = filter (\<lambda>k. k \<noteq> ''hash'' \<and> field sample_form k \<noteq> []) (remdups (List.map fst sample_form))"
    by (simp add: hashed_form_def sample_form_def field_def)
  then show "signed_keys hashed_form = signed_keys sample_form" by (simp only: signed_keys_def)
qed

lemma hashed_form_accepted: "telegramAuth sample_mac ''bot'' (5 * second) hashed_form = Inr (7, ''bob'', ''A'')"
proof -
  have "check_string hashed_form = check_string sample_form"
    by (simp add: check_string_def hashed_form_keys hashed_form_field)
  moreover have "atoi ''5'' = Some 5" "atoi ''7'' = Some 7" "wrap64 0 = 0" by code_simp+
  moreover have "field sample_form ''auth_date'' = ''5''" "field sample_form ''id'' = ''7''"
    "field sample_form ''username'' = ''bob''" "field sample_form ''first_name'' = ''A''"
    by (simp_all add: sample_form_def field_def)
  ultimately show ?thesis by (simp add: telegramAuth_def hashed_form_field sample_mac_def second_def)
qed

lemma sample_login:
  "login_of sample_dash_env (5 * second, Inr ''t'', login_request)
     = Some (''t'', \<lparr>se_user = 7, se_username = ''bob'', se_first = ''A'', se_expires = 5 * second + dashSessionTTL\<rparr>)"
proof -
  have "route_of login_request = RLogin" by (simp add: route_of_def login_request_def)
  moreover have "rq_form login_request = Inr (List.map (\<lambda>(k, v). (k, [v])) hashed_form)"
    by (simp add: login_request_def hashed_form_def)
  moreover have "first_values (List.map (\<lambda>(k, v). (k, [v])) hashed_form) = hashed_form"
    by (simp add: first_values_def hashed_form_def sample_form_def List.map_filter_def)
  ultimately show ?thesis using hashed_form_accepted
    by (simp add: login_of_def sample_dash_env_def dash_isAdmin_def)
qed

text \<open>
  C15. The sessions in memory implement the history of logins and logouts: whatever requests came before, a request with a token
  is taken for the user who logged in last with it, exactly when no logout with it came after and the login is
  at most seven days old. Expired entries that were dropped, by a look-up or at a login, are never missed.
\<close>

theorem sessions_follow_history:
  assumes "sorted (List.map fst cs @ [clk])" "d_sessions d = newSessionManager" "rq_cookie r = Some tok" "tok \<noteq> []"
  shows "fst (authUser clk r (serve_all E cs d)) = unexpired clk (granted E cs tok)"
  using run_sessions [OF assms(1), of d tok None E] assms(2)
    auth_facts(4) [OF assms(3,4), of clk "serve_all E cs d"]
  by (simp add: granted_def newSessionManager_def)

lemma sessions_follow_history_witness:
  "fst (authUser (6 * second) (overview_request ''t'')
     (serve_all sample_dash_env [(5 * second, Inr ''t'', login_request)] sample_dash)) \<noteq> None"
proof -
  have "sorted (List.map fst [(5 * second, Inr ''t'' :: string result, login_request)] @ [6 * second])"
    "d_sessions sample_dash = newSessionManager" "rq_cookie (overview_request ''t'') = Some ''t''"
    by (simp_all add: sample_dash_def overview_request_def)
  note h = sessions_follow_history [OF this, of sample_dash_env]
  have "\<exists>e. granted sample_dash_env [(5 * second, Inr ''t'', login_request)] ''t'' = Some e \<and> se_expires e = 5 * second + dashSessionTTL"
    by (simp add: granted_def after_call_def sample_login)
  moreover have "6 * second \<le> 5 * second + dashSessionTTL" by (simp add: dashSessionTTL_def hours_def second_def)
  ultimately show ?thesis using h by auto
qed

subsection \<open>Data for the operator only\<close>

lemma login_ofD:
  assumes "login_of E (t, rand, q) = Some (tok, e)"
  shows "rand = Inr tok \<and> se_expires e = t + dashSessionTTL \<and> route_of q = RLogin \<and> (\<exists>kvs u. rq_form q = Inr kvs
      \<and> field (first_values kvs) ''hash'' = da_mac E (da_token E) (check_string (first_values kvs))
      \<and> atoi (field (first_values kvs) ''id'') = Some u \<and> u > 0 \<and> u \<in> set (da_admins E))"
  using assms
  by (auto simp: login_of_def telegramAuth_def dash_isAdmin_def split: if_splits sum.splits prod.splits option.splits)

lemma sessions_from_logins:
  assumes "d_sessions (serve_all E cs d) tok = Some e" "\<And>t. d_sessions d t = None"
  shows "\<exists>cl \<in> set cs. login_of E cl = Some (tok, e)"
proof -
  have step: "d_sessions (snd (serve E clk rand r d)) tok = Some e
      \<Longrightarrow> d_sessions d tok = Some e \<or> login_of E (clk, rand, r) = Some (tok, e)" for clk rand r and d :: "'a dash_state"
    by (auto simp: serve_def requireAuth_def guarded_sessions handleAuthStatus_def handleAuthLogout_def revoke_def
        handleAuthLogin_def issue_def authUser_def session_lookup_def login_of_def cleanupLocked_def
        split: route.splits option.splits prod.splits sum.splits if_splits)
  have "d_sessions (serve_all E cs d) tok = Some e
      \<Longrightarrow> d_sessions d tok = Some e \<or> (\<exists>cl \<in> set cs. login_of E cl = Some (tok, e))" for d :: "'a dash_state"
  proof (induction cs arbitrary: d)
    case (Cons cl cs)
    obtain clk rand r where cl: "cl = (clk, rand, r)" by (cases cl)
    from Cons.IH [of "snd (serve E clk rand r d)"] Cons.prems step [of clk rand r d] show ?case by (auto simp: cl)
  qed simp
  with assms show ?thesis by fastforce
qed

text \<open>
  C13. The data behind the dashboard and its requests are for an operator only. Whatever came before, a guarded request is either
  answered with 401 and neither the tables nor Redis nor the cached statuses change, or it carries the token of a login of
  the last seven days whose form had the hash of its signed fields and the id of a configured operator.
\<close>

theorem dashboard_needs_login:
  assumes "d_sessions d0 = newSessionManager" "route_of r = RGuarded g"
    and "d = serve_all E cs d0" "serve E clk rand r d = (p, d')"
  shows "(p = PError 401 ''unauthorized'' \<and> d_tables d' = d_tables d \<and> d_redis d' = d_redis d \<and> d_cache d' = d_cache d)
    \<or> (\<exists>t tok q kvs u. (t, Inr tok, q) \<in> set cs \<and> rq_cookie r = Some tok \<and> clk \<le> t + dashSessionTTL
         \<and> route_of q = RLogin \<and> rq_form q = Inr kvs
         \<and> field (first_values kvs) ''hash'' = da_mac E (da_token E) (check_string (first_values kvs))
         \<and> atoi (field (first_values kvs) ''id'') = Some u \<and> u > 0 \<and> u \<in> set (da_admins E))"
proof (cases "fst (authUser clk r d)")
  case None
  then obtain d1 where d1: "authUser clk r d = (None, d1)" by (cases "authUser clk r d") simp
  then have "d_cache d1 = d_cache d" "d_tables d1 = d_tables d" "d_redis d1 = d_redis d"
    by (auto simp: authUser_def split: option.splits prod.splits if_splits)
  with d1 assms(2,4) show ?thesis by (auto simp: serve_def requireAuth_def)
next
  case (Some e)
  then obtain tok where tok: "rq_cookie r = Some tok" "tok \<noteq> []"
    by (auto simp: authUser_def split: option.splits if_splits)
  from Some auth_facts(4) [OF tok, of clk d] have e: "d_sessions d tok = Some e" "clk \<le> se_expires e"
    by (auto simp: unexpired_def split: option.splits if_splits)
  have "\<exists>cl \<in> set cs. login_of E cl = Some (tok, e)"
    by (rule sessions_from_logins [of E cs d0]) (use e(1) assms(1,3) in \<open>simp_all add: newSessionManager_def\<close>)
  then obtain t rand q where q: "(t, rand, q) \<in> set cs" "login_of E (t, rand, q) = Some (tok, e)"
    by (metis prod_cases3)
  note login_ofD [OF q(2)]
  with q(1) tok(1) e(2) show ?thesis by fastforce
qed

lemma dashboard_needs_login_witness:
  "fst (serve sample_dash_env (6 * second) (Inr []) (overview_request ''guess'')
     (serve_all sample_dash_env [(5 * second, Inr ''t'', login_request)] sample_dash)) = PError 401 ''unauthorized''"
proof -
  let ?d = "serve_all sample_dash_env [(5 * second, Inr ''t'', login_request)] sample_dash"
  obtain p d' where p: "serve sample_dash_env (6 * second) (Inr []) (overview_request ''guess'') ?d = (p, d')" by fastforce
  have "d_sessions sample_dash = newSessionManager" "route_of (overview_request ''guess'') = RGuarded GOverview"
    by (simp_all add: sample_dash_def overview_request_def route_of_def)
  from dashboard_needs_login [OF this refl p] have "p = PError 401 ''unauthorized''"
    by (simp add: overview_request_def)
  with p show ?thesis by simp
qed

subsection \<open>What Telegram signed\<close>

definition plain_form :: "form \<Rightarrow> bool" where
  "plain_form f \<longleftrightarrow> (\<forall>(k, v) \<in> set f. k \<noteq> ''hash'' \<longrightarrow> line_break \<notin> set k \<and> line_break \<notin> set v \<and> CHR ''='' \<notin> set k)"

lemma split_join:
  assumes "\<And>p. p \<in> set ps \<Longrightarrow> c \<notin> set p" "ps \<noteq> []"
  shows "split_char c (join_str [c] ps) = ps"
  using assms
proof (induction "[c]" ps rule: join_str.induct)
  case (3 x y zs)
  then show ?case by (simp add: split_char_append)
qed (simp_all add: split_char_no_sep)

lemma field_set: "field f k \<noteq> [] \<Longrightarrow> (k, field f k) \<in> set f"
  by (auto simp: field_def split: option.splits dest: map_of_SomeD)

lemma signed_keys_set: "set (signed_keys f) = {k. k \<noteq> ''hash'' \<and> field f k \<noteq> []}"
  using field_set by (force simp: signed_keys_def)

lemma signed_pairs:
  assumes "plain_form f" "plain_form g" "check_string f = check_string g"
  shows "List.map (\<lambda>k. [k, field f k]) (signed_keys f) = List.map (\<lambda>k. [k, field g k]) (signed_keys g)"
proof -
  let ?lines = "\<lambda>h. List.map (\<lambda>k. k @ ''='' @ field h k) (signed_keys h)"
  have plain: "line_break \<notin> set k" "line_break \<notin> set (field h k)" "CHR ''='' \<notin> set k"
    if "k \<in> set (signed_keys h)" "plain_form h" for k h
    using that field_set [of h k] by (auto simp: signed_keys_set plain_form_def)
  have lines: "?lines h = (if check_string h = [] then [] else split_char line_break (check_string h))" if "plain_form h" for h
  proof (cases "signed_keys h")
    case (Cons k ks)
    have "split_char line_break (check_string h) = ?lines h"
      unfolding check_string_def using plain [OF _ that] Cons
      by (intro split_join) (auto simp: line_break_def)
    moreover have "check_string h \<noteq> []" using Cons by (cases ks) (simp_all add: check_string_def)
    ultimately show ?thesis by simp
  qed (simp add: check_string_def)
  have pairs: "List.map (split_first CHR ''='') (?lines h) = List.map (\<lambda>k. [k, field h k]) (signed_keys h)" if "plain_form h" for h
    using plain [OF _ that] by (simp add: split_first_append)
  from lines [OF assms(1)] lines [OF assms(2)] assms(3) have "?lines f = ?lines g" by simp
  with pairs [OF assms(1)] pairs [OF assms(2)] show ?thesis by argo
qed

lemma signed_fields:
  assumes "plain_form f" "plain_form g" "check_string f = check_string g" "k \<noteq> ''hash''"
  shows "field f k = field g k"
proof -
  have sub: "field h k = field h' k"
    if "List.map (\<lambda>k. [k, field h k]) (signed_keys h) = List.map (\<lambda>k. [k, field h' k]) (signed_keys h')"
      "field h k \<noteq> []" for h h'
  proof -
    have "[k, field h k] \<in> set (List.map (\<lambda>k. [k, field h k]) (signed_keys h))" using that(2) assms(4) by (simp add: signed_keys_set)
    with that(1) show ?thesis by auto
  qed
  note p = signed_pairs [OF assms(1-3)]
  consider "field f k \<noteq> []" | "field g k \<noteq> []" | "field f k = []" "field g k = []" by blast
  then show ?thesis
  proof cases
    case 1
    show ?thesis by (rule sub [OF p 1])
  next
    case 2
    show ?thesis by (rule sub [OF p [symmetric] 2, symmetric])
  qed simp
qed

text \<open>
  C14. A signed login cannot be altered. If the hash of an accepted form is the hash Telegram made for a form of its own, and in
  both forms no signed key or value has a line break and no signed key has an equals sign (the code refuses neither), then the
  user, the user name and the first name are those that Telegram signed, whatever was added, removed or reordered in between. The
  hash need only tell different texts apart.
\<close>

theorem signed_login_not_altered:
  assumes "\<And>a b. mac token a = mac token b \<Longrightarrow> a = b" "plain_form f" "plain_form g"
    and "field g ''hash'' = mac token (check_string f)" "telegramAuth mac token clk g = Inr (u, name, first)"
  shows "atoi (field f ''id'') = Some u \<and> name = field f ''username'' \<and> first = field f ''first_name''"
proof -
  have "mac token (check_string g) = field g ''hash''"
    using assms(5) by (auto simp: telegramAuth_def split: if_splits option.splits)
  with assms(1,4) have "check_string f = check_string g" by metis
  note f = signed_fields [OF assms(2,3) this]
  show ?thesis using assms(5) f [of "''id''"] f [of "''username''"] f [of "''first_name''"]
    by (auto simp: telegramAuth_def split: if_splits option.splits)
qed

lemma signed_login_not_altered_witness:
  "atoi (field sample_form ''id'') = Some 7 \<and> field sample_form ''username'' = ''bob''"
proof -
  have "sample_mac ''bot'' a = sample_mac ''bot'' b \<Longrightarrow> a = b" for a b by (simp add: sample_mac_def)
  moreover have "plain_form sample_form" "plain_form hashed_form"
    by (simp_all add: plain_form_def hashed_form_def sample_form_def line_break_def)
  ultimately show ?thesis
    using signed_login_not_altered [OF _ _ _ hashed_form_field(2) hashed_form_accepted] by metis
qed

text \<open>A name with a line break makes two forms with one signature: the login of user 42 is taken for that of user 1.\<close>

definition form_42 :: form where
  "form_42 = [(''auth_date'', ''5''), (''first_name'', ''X'' @ [line_break] @ ''id=1''), (''id'', ''42''), (''username'', ''bob'')]"

definition form_1 :: "string \<Rightarrow> form" where
  "form_1 h = [(''hash'', h), (''auth_date'', ''5''), (''first_name'', ''X''), (''id'', ''1''),
     (''id=42'' @ [line_break] @ ''username'', ''bob'')]"

lemma one_signature: "check_string (form_1 h) = check_string form_42"
proof -
  have "signed_keys form_42 = [''auth_date'', ''first_name'', ''id'', ''username'']" by code_simp
  moreover have "signed_keys (form_1 h) = [''auth_date'', ''first_name'', ''id'', ''id=42'' @ [line_break] @ ''username'']"
    by (simp add: signed_keys_def form_1_def field_def line_break_def less_eq_char_def)
  ultimately show ?thesis by (simp add: check_string_def form_42_def form_1_def field_def line_break_def)
qed

lemma line_break_alters_login:
  assumes "mac token (check_string form_42) = h" "h \<noteq> []"
  shows "telegramAuth mac token (5 * second) (form_1 h) = Inr (1, [], ''X'')"
proof -
  have "atoi ''5'' = Some 5" "atoi ''1'' = Some 1" "wrap64 0 = 0" by code_simp+
  moreover have "field (form_1 h) ''hash'' = h" "field (form_1 h) ''auth_date'' = ''5''" "field (form_1 h) ''id'' = ''1''"
    "field (form_1 h) ''username'' = []" "field (form_1 h) ''first_name'' = ''X''"
    by (simp_all add: form_1_def field_def line_break_def)
  moreover have "5 * second div second = 5" by (simp add: second_def)
  ultimately show ?thesis using assms by (simp add: telegramAuth_def one_signature)
qed

end
