(* ===== verification/Reddit.thy ===== *)
theory Reddit
  imports Regexp Telegram Ytdlp Youtube
begin

text \<open>
  Reddit threads and Telegraph articles: \<open>reddit/thread.go\<close>, \<open>markdown.go\<close>, \<open>media.go\<close>, \<open>cookies.go\<close>,
  \<open>telegraph/article.go\<close>, \<open>callback.go\<close>. What the JSON decoder makes of an answer of Reddit is given; from there on the code is
  modelled. The size of an article is the length of its JSON text.
\<close>

subsection \<open>Runes\<close>

text \<open>
  \<open>[]rune\<close>: the runes of a string, each as the bytes it is encoded by; a byte that starts no rune becomes the
  replacement character.
\<close>

definition bad_rune :: string where "bad_rune = [CHR 0xEF, CHR 0xBF, CHR 0xBD]"

text \<open>How many bytes the rune at the start takes, 0 when there is none: by the first byte and the range of the second.\<close>

definition cont :: "nat \<Rightarrow> bool" where "cont n \<longleftrightarrow> 0x80 \<le> n \<and> n \<le> 0xBF"

definition rune_len :: "nat list \<Rightarrow> nat" where
  "rune_len bs =
     (case bs of
        [] \<Rightarrow> 0
      | b0 # _ \<Rightarrow>
          if b0 < 0x80 then 1
          else case drop 1 bs of
            [] \<Rightarrow> 0
          | b1 # _ \<Rightarrow>
              if 0xC2 \<le> b0 \<and> b0 \<le> 0xDF then (if cont b1 then 2 else 0)
              else case drop 2 bs of
                [] \<Rightarrow> 0
              | b2 # _ \<Rightarrow>
                  if 0xE0 \<le> b0 \<and> b0 \<le> 0xEF then
                    (if (if b0 = 0xE0 then 0xA0 \<le> b1 \<and> b1 \<le> 0xBF
                         else if b0 = 0xED then 0x80 \<le> b1 \<and> b1 \<le> 0x9F else cont b1) \<and> cont b2 then 3 else 0)
                  else case drop 3 bs of
                    [] \<Rightarrow> 0
                  | b3 # _ \<Rightarrow>
                      if 0xF0 \<le> b0 \<and> b0 \<le> 0xF4 then
                        (if (if b0 = 0xF0 then 0x90 \<le> b1 \<and> b1 \<le> 0xBF
                             else if b0 = 0xF4 then 0x80 \<le> b1 \<and> b1 \<le> 0x8F else cont b1) \<and> cont b2 \<and> cont b3
                         then 4 else 0)
                      else 0)"

function runes :: "string \<Rightarrow> string list" where
  "runes [] = []"
| "runes (c # s) =
     (let n = rune_len (List.map code_of (take 4 (c # s))) in
      if n = 0 then bad_rune # runes s else take n (c # s) # runes (drop n (c # s)))"
  by pat_completeness auto
termination
  by (relation "measure length") auto

text \<open>The first so many runes, and \<open>truncate\<close> of \<open>article.go\<close>.\<close>

definition truncate_runes :: "string \<Rightarrow> nat \<Rightarrow> string" where
  "truncate_runes s mx =
     (let r = runes s in
      if length r \<le> mx then s else concat (take (mx - 1) r) @ [CHR 0xE2, CHR 0x80, CHR 0xA6])"

subsection \<open>Markdown (markdown.go)\<close>

definition normalizeSelftext :: "string \<Rightarrow> string" where
  "normalizeSelftext s =
     (let s = trim_space s in if s = ''[deleted]'' \<or> s = ''[removed]'' then [] else s)"

text \<open>\<open>ReplaceAllString\<close> for an expression that matches no empty text.\<close>

function replace_all :: "re \<Rightarrow> (caps \<Rightarrow> string) \<Rightarrow> string \<Rightarrow> string" where
  "replace_all r f [] = []"
| "replace_all r f (c # s) =
     (case match_here r (c # s) of
        None \<Rightarrow> c # replace_all r f s
      | Some (m, cs, rest) \<Rightarrow>
          if length rest < length (c # s) then f cs @ replace_all r f rest else c # replace_all r f s)"
  by pat_completeness auto
termination
  by (relation "measure (\<lambda>(r, f, s). length s)") auto

text \<open>The same for an expression bound to the start of a line, replaced by nothing.\<close>

function drop_at_lines :: "re \<Rightarrow> bool \<Rightarrow> string \<Rightarrow> string" where
  "drop_at_lines r start [] = []"
| "drop_at_lines r start (c # s) =
     (case (if start then match_here r (c # s) else None) of
        None \<Rightarrow> c # drop_at_lines r (c = CHR 0x0A) s
      | Some (m, cs, rest) \<Rightarrow>
          if length rest < length (c # s) then drop_at_lines r (m \<noteq> [] \<and> last m = CHR 0x0A) rest
          else c # drop_at_lines r (c = CHR 0x0A) s)"
  by pat_completeness auto
termination
  by (relation "measure (\<lambda>(r, b, s). length s)") auto

definition none_of :: "string \<Rightarrow> re" where "none_of cs = Cls (\<lambda>x. x \<notin> set cs)"

definition white :: string where "white = [CHR '' '', CHR 0x09, CHR 0x0A, CHR 0x0C, CHR 0x0D]"

definition markdownLinkRe :: re where
  "markdownLinkRe = Seqs [lit ''['', Grp 1 (Star (none_of '']'')), lit ''](''  , Grp 2 (Plus (none_of ('')'' @ white))),
     Star (none_of '')''), lit '')'']"

definition markdownHeaderRe :: re where
  "markdownHeaderRe = Seqs [lit ''#'', UpTo 5 (lit ''#''), Plus (one_of white)]"

definition markdownQuoteRe :: re where
  "markdownQuoteRe = Seqs [lit ''>'', Opt (one_of white)]"

definition markdownEmphasis :: re where
  "markdownEmphasis = Alts
     [Seqs [lit ''**'', Grp 1 (Plus (none_of ''*'')), lit ''**''],
      Seqs [lit ''__'', Grp 2 (Plus (none_of ''_'')), lit ''__''],
      Seqs [lit ''~~'', Grp 3 (Plus (none_of ''~'')), lit ''~~''],
      Seqs [lit ''*'', Grp 4 (Plus (none_of (''*'' @ [CHR 0x0A]))), lit ''*''],
      Seqs [lit [CHR 0x60], Grp 5 (Plus (none_of [CHR 0x60, CHR 0x0A])), lit [CHR 0x60]]]"

definition ToPlainText :: "string \<Rightarrow> string" where
  "ToPlainText md =
     (let s = replace_all markdownLinkRe (\<lambda>c. group c 1 @ '' ('' @ group c 2 @ '')'') md;
          s = drop_at_lines markdownHeaderRe True s;
          s = drop_at_lines markdownQuoteRe True s;
          s = replace_all markdownEmphasis (\<lambda>c. group c 1 @ group c 2 @ group c 3 @ group c 4 @ group c 5) s in
      trim_space s)"

text \<open>The blocks between runs of two line breaks or more.\<close>

function blocks :: "string \<Rightarrow> string \<Rightarrow> string list" where
  "blocks acc [] = [acc]"
| "blocks acc (c # s) =
     (if c = CHR 0x0A \<and> s \<noteq> [] \<and> hd s = CHR 0x0A
      then acc # blocks [] (dropWhile (\<lambda>x. x = CHR 0x0A) s) else blocks (acc @ [c]) s)"
  by pat_completeness auto
termination
  by (relation "measure (\<lambda>(acc, s). length s)") (auto simp: le_imp_less_Suc length_dropWhile_le)

definition Paragraphs :: "string \<Rightarrow> string list" where
  "Paragraphs s =
     List.map (List.map (\<lambda>x. if x = CHR 0x0A then CHR '' '' else x))
       (filter (\<lambda>b. b \<noteq> []) (List.map trim_space (blocks [] s)))"

subsection \<open>Threads (thread.go)\<close>

record rd_media =
  rm_type :: string
  rm_url :: string

record rd_comment =
  rc_author :: string
  rc_score :: int
  rc_body :: string

record thread =
  rt_id :: string
  rt_title :: string
  rt_author :: string
  rt_subreddit :: string
  rt_selftext :: string
  rt_score :: int
  rt_num :: int
  rt_permalink :: string
  rt_media :: "rd_media list"
  rt_comments :: "rd_comment list"

definition HasText :: "thread \<Rightarrow> bool" where "HasText t \<longleftrightarrow> rt_selftext t \<noteq> []"

text \<open>The structs the decoder fills; a pointer or map that is missing is \<open>None\<close>.\<close>

record gallery_meta =
  gm_status :: string
  gm_e :: string
  gm_u :: string
  gm_mp4 :: string

record preview_variants =
  pv_gif :: "string option"
  pv_mp4 :: "string option"

record post_payload =
  pp_id :: string
  pp_title :: string
  pp_author :: string
  pp_subreddit :: string
  pp_selftext :: string
  pp_score :: int
  pp_num :: int
  pp_permalink :: string
  pp_gallery :: bool
  pp_items :: "string list option"
  pp_meta :: "(string \<times> gallery_meta) list option"
  pp_video :: bool
  pp_hint :: string
  pp_url :: string
  pp_display :: string
  pp_preview :: "preview_variants list option"

text \<open>A child of a listing: its kind and what its data decodes to as a post and as a comment.\<close>

record listing_child =
  lc_kind :: string
  lc_post :: "post_payload result"
  lc_comment :: "rd_comment result"

definition PostURL :: "post_payload \<Rightarrow> string" where
  "PostURL p = ''https://www.reddit.com'' @ pp_permalink p"

text \<open>\<open>ReplaceAll(u, "&amp;", "&")\<close>\<close>

fun unescapeURL :: "string \<Rightarrow> string" where
  "unescapeURL [] = []"
| "unescapeURL (c # s) =
     (if has_prefix (c # s) ''&amp;'' then c # unescapeURL (drop 4 s) else c # unescapeURL s)"

definition gallery_item :: "(string \<times> gallery_meta) list \<Rightarrow> string \<Rightarrow> rd_media option" where
  "gallery_item meta i =
     (case map_of meta i of
        None \<Rightarrow> None
      | Some m \<Rightarrow>
          if gm_status m \<noteq> ''valid'' then None
          else if gm_e m = ''AnimatedImage'' \<and> gm_mp4 m \<noteq> [] then Some \<lparr>rm_type = ''gif'', rm_url = gm_mp4 m\<rparr>
          else if gm_u m \<noteq> [] then Some \<lparr>rm_type = ''image'', rm_url = gm_u m\<rparr> else None)"

definition galleryItems :: "string list option \<Rightarrow> (string \<times> gallery_meta) list option \<Rightarrow> rd_media list" where
  "galleryItems items meta =
     (case (items, meta) of (Some is, Some m) \<Rightarrow> List.map_filter (gallery_item m) is | _ \<Rightarrow> [])"

definition variant :: "string option \<Rightarrow> bool" where
  "variant v = (case v of None \<Rightarrow> False | Some u \<Rightarrow> u \<noteq> [])"

definition hasAnimatedPreview :: "preview_variants list option \<Rightarrow> bool" where
  "hasAnimatedPreview p = (case p of Some (v # _) \<Rightarrow> variant (pv_mp4 v) \<or> variant (pv_gif v) | _ \<Rightarrow> False)"

definition animatedPreview :: "preview_variants list option \<Rightarrow> rd_media" where
  "animatedPreview p =
     (case p of
        Some (v # _) \<Rightarrow>
          \<lparr>rm_type = ''gif'',
           rm_url = (if variant (pv_mp4 v) then the (pv_mp4 v) else case pv_gif v of Some u \<Rightarrow> u | None \<Rightarrow> [])\<rparr>
      | _ \<Rightarrow> \<lparr>rm_type = ''gif'', rm_url = []\<rparr>)"

definition isImageDest :: "string \<Rightarrow> bool" where
  "isImageDest u \<longleftrightarrow>
     list_ex (has_suffix (to_lower u)) [''.jpg'', ''.jpeg'', ''.png'', ''.webp'', ''.gif'']"

definition extractMedia :: "post_payload \<Rightarrow> rd_media list" where
  "extractMedia p =
     (if pp_gallery p then
        List.map (\<lambda>m. m\<lparr>rm_url := unescapeURL (rm_url m)\<rparr>) (galleryItems (pp_items p) (pp_meta p))
      else if pp_video p \<or> pp_hint p = ''hosted:video'' then [\<lparr>rm_type = ''video'', rm_url = PostURL p\<rparr>]
      else if isImageDest (pp_display p) then [\<lparr>rm_type = ''image'', rm_url = unescapeURL (pp_display p)\<rparr>]
      else if pp_hint p = ''image'' \<and> isImageDest (pp_url p) then
        [\<lparr>rm_type = ''image'', rm_url = unescapeURL (pp_url p)\<rparr>]
      else if hasAnimatedPreview (pp_preview p) then
        [(animatedPreview (pp_preview p))\<lparr>rm_url := unescapeURL (rm_url (animatedPreview (pp_preview p)))\<rparr>]
      else [])"

definition comment_of :: "listing_child \<Rightarrow> rd_comment option" where
  "comment_of c =
     (if lc_kind c \<noteq> ''t1'' then None
      else case lc_comment c of
        Inl e \<Rightarrow> None
      | Inr r \<Rightarrow>
          let t = normalizeSelftext (rc_body r) in
          if rc_author r = [] \<or> rc_author r = ''[deleted]'' \<or> t = [] then None else Some (r\<lparr>rc_body := t\<rparr>))"

text \<open>An error comes with the name of its sentinel, if it is one.\<close>

type_synonym rd_error = "go_error \<times> string"

definition rd_not_found :: rd_error where
  "rd_not_found = (''reddit: thread not found or unavailable'', ''ErrNotFound'')"

definition parseThread :: "listing_child list list result \<Rightarrow> rd_error + thread" where
  "parseThread raw =
     (case raw of
        Inl e \<Rightarrow> Inl (''reddit: decode thread json: '' @ e, [])
      | Inr ((c # _) # cs # _) \<Rightarrow>
          (case lc_post c of
             Inl e \<Rightarrow> Inl (''reddit: decode post json: '' @ e, [])
           | Inr p \<Rightarrow>
               Inr \<lparr>rt_id = pp_id p, rt_title = pp_title p, rt_author = pp_author p, rt_subreddit = pp_subreddit p,
                 rt_selftext = normalizeSelftext (pp_selftext p), rt_score = pp_score p, rt_num = pp_num p,
                 rt_permalink = PostURL p, rt_media = extractMedia p, rt_comments = List.map_filter comment_of cs\<rparr>)
      | Inr _ \<Rightarrow> Inl rd_not_found)"

definition threadShortRe :: re where
  "threadShortRe = Seqs [ci ''redd.it/'', Grp 1 (Plus alnum_i)]"

definition threadCommentsRe :: re where
  "threadCommentsRe =
     Seqs [ci ''reddit.com/'', Opt (Seqs [ci ''r/'', Plus (word_i ''-''), lit ''/'']), ci ''comments/'', Grp 1 (Plus alnum_i)]"

definition ExtractThreadID :: "string \<Rightarrow> string" where
  "ExtractThreadID u =
     (case find_submatch threadShortRe u of
        Some (_, g) \<Rightarrow> g 1
      | None \<Rightarrow> (case find_submatch threadCommentsRe u of Some (_, g) \<Rightarrow> g 1 | None \<Rightarrow> []))"

text \<open>The address that is asked, and what the status of the answer means.\<close>

definition thread_url :: "string \<Rightarrow> int \<Rightarrow> string" where
  "thread_url i n =
     ''https://www.reddit.com/comments/'' @ i @ ''.json?depth=1&limit='' @ itoa (if n < 0 then 0 else n) @ ''&raw_json=1&sort=top''"

definition thread_answer :: "(int \<times> listing_child list list result) result \<Rightarrow> rd_error + thread" where
  "thread_answer r =
     (case r of
        Inl e \<Rightarrow> Inl (e, [])
      | Inr (status, raw) \<Rightarrow>
          if status = 200 then parseThread raw
          else if status = 429 then Inl (''reddit: rate limited by reddit'', ''ErrRateLimited'')
          else if status = 404 \<or> status = 403 then Inl rd_not_found
          else Inl (''reddit: unexpected status '' @ itoa status, []))"

subsection \<open>Cookies (cookies.go)\<close>

definition cookie_pair :: "int \<Rightarrow> string \<Rightarrow> string option" where
  "cookie_pair unix line =
     (let line = trim_right_set [CHR 0x0D] line;
          keep = (line \<noteq> [] \<and> (has_prefix line ''#HttpOnly_'' \<or> \<not> has_prefix line ''#''));
          fields = split_char CHR 0x09 (trim_prefix line ''#HttpOnly_'') in
      if \<not> keep \<or> length fields < 7 then None
      else if \<not> has_suffix (fields ! 0) ''reddit.com'' \<or> fields ! 5 = [] then None
      else if (case atoi (fields ! 4) of None \<Rightarrow> False | Some e \<Rightarrow> e > 0 \<and> e < unix) then None
      else Some (fields ! 5 @ ''='' @ fields ! 6))"

definition LoadCookieHeader :: "int \<Rightarrow> string option \<Rightarrow> string" where
  "LoadCookieHeader unix file =
     (case file of
        None \<Rightarrow> []
      | Some data \<Rightarrow> join_str ''; '' (List.map_filter (cookie_pair unix) (split_char CHR 0x0A data)))"

subsection \<open>Pictures (media.go)\<close>

text \<open>The extension of the path of an address, and of a content type.\<close>

definition imageExt :: "string result \<Rightarrow> string" where
  "imageExt path =
     (case path of
        Inl e \<Rightarrow> []
      | Inr p \<Rightarrow>
          let ext = to_lower (file_ext p) in
          if ext \<in> {''.jpg'', ''.jpeg'', ''.png'', ''.webp'', ''.gif'', ''.mp4''} then ext else [])"

definition extFromContentType :: "string \<Rightarrow> string" where
  "extFromContentType ct =
     (if contains ct ''image/jpeg'' then ''.jpg''
      else if contains ct ''image/png'' then ''.png''
      else if contains ct ''image/webp'' then ''.webp''
      else if contains ct ''image/gif'' then ''.gif''
      else if contains ct ''video/mp4'' then ''.mp4'' else [])"

definition maxImageSize :: int where "maxImageSize = 100 * 1024 * 1024"

text \<open>
  The file an answer (status, content type, size) is written to; a longer body is cut without an error. \<open>digest\<close> is the
  hexadecimal start of the SHA-1 of the address.
\<close>

definition image_file ::
  "string result \<Rightarrow> string \<Rightarrow> string \<Rightarrow> (int \<times> string \<times> int) result \<Rightarrow> (string \<times> int) result" where
  "image_file path digest dir r =
     (case r of
        Inl e \<Rightarrow> Inl e
      | Inr (status, ct, size1) \<Rightarrow>
          if status \<noteq> 200 then Inl (''reddit: image fetch status '' @ itoa status)
          else
            let ext = imageExt path; ext = (if ext = [] then extFromContentType ct else ext);
                ext = (if ext = [] then ''.jpg'' else ext) in
            Inr (dir @ ''/img_'' @ digest @ ext, min size1 maxImageSize))"

subsection \<open>Articles (article.go)\<close>

text \<open>A child of a node is a text or a node; a node has a tag, attributes and children.\<close>

datatype tnode = TText string | TNode string "(string \<times> string) list" "tnode list"

definition tag_of :: "tnode \<Rightarrow> string" where
  "tag_of n = (case n of TText s \<Rightarrow> [] | TNode t as cs \<Rightarrow> t)"

definition Paragraph :: "string \<Rightarrow> tnode" where "Paragraph t = TNode ''p'' [] [TText t]"
definition Heading :: "string \<Rightarrow> tnode" where "Heading t = TNode ''h3'' [] [TText t]"
definition HR :: tnode where "HR = TNode ''hr'' [] []"

text \<open>The separator and the symbols of the first line are bytes of UTF-8.\<close>

definition dot_sep :: string where "dot_sep = '' '' @ [CHR 0xC2, CHR 0xB7] @ '' ''"
definition up_sign :: string where "up_sign = [CHR 0xE2, CHR 0x96, CHR 0xB2]"
definition talk_sign :: string where "talk_sign = [CHR 0xF0, CHR 0x9F, CHR 0x92, CHR 0xAC]"

definition MetaLine :: "thread \<Rightarrow> tnode" where
  "MetaLine t =
     (let sb = (if rt_subreddit t = [] then ''reddit'' else rt_subreddit t);
          author = (if rt_author t = [] \<or> rt_author t = ''[deleted]'' then ''unknown'' else rt_author t) in
      TNode ''p'' [] [TNode ''b'' [] [TText (''r/'' @ sb @ dot_sep @ ''u/'' @ author @ dot_sep @ up_sign @ '' '' @
        itoa (rt_score t) @ dot_sep @ talk_sign @ '' '' @ itoa (rt_num t))]])"

definition SourceLine :: "string \<Rightarrow> string \<Rightarrow> tnode" where
  "SourceLine label href = TNode ''p'' [] [TNode ''a'' [(''href'', href)] [TText label]]"

definition CommentNodes :: "rd_comment \<Rightarrow> tnode list" where
  "CommentNodes c =
     (let ps = List.map Paragraph (Paragraphs (ToPlainText (rc_body c))) in
      [TNode ''p'' [] [TNode ''b'' [] [TText (''u/'' @ rc_author c @ '' (+'' @ itoa (rc_score c) @ '')'')]],
       TNode ''blockquote'' [] (if ps = [] then [TText []] else ps)])"

text \<open>
  The length of the JSON text: a string is quoted, with the escapes of \<open>encoding/json\<close>; empty attributes and children are left out.
\<close>

definition rune_json :: "string \<Rightarrow> nat" where
  "rune_json r =
     (case r of
        [c] \<Rightarrow>
          let n = code_of c in
          if n \<in> {0x22, 0x5C, 0x08, 0x09, 0x0A, 0x0C, 0x0D} then 2
          else if n < 0x20 \<or> n \<in> {0x26, 0x3C, 0x3E} then 6 else 1
      | _ \<Rightarrow> if List.map code_of r \<in> {[0xE2, 0x80, 0xA8], [0xE2, 0x80, 0xA9]} then 6 else length r)"

text \<open>A byte that is no rune is written as an escape of six characters.\<close>

function quote_len :: "string \<Rightarrow> nat" where
  "quote_len [] = 2"
| "quote_len (c # s) =
     (let n = rune_len (List.map code_of (take 4 (c # s))) in
      if n = 0 then 6 + quote_len s else rune_json (take n (c # s)) + quote_len (drop n (c # s)))"
  by pat_completeness auto
termination
  by (relation "measure length") auto

definition list_json :: "nat list \<Rightarrow> nat" where
  "list_json ls = 2 + sum_list ls + (length ls - 1)"

fun node_len :: "tnode \<Rightarrow> nat" where
  "node_len (TText s) = quote_len s"
| "node_len (TNode t as cs) =
     2 + 6 + quote_len t
       + (if as = [] then 0 else 9 + list_json (List.map (\<lambda>(k, v). quote_len k + 1 + quote_len v) as))
       + (if cs = [] then 0 else 12 + list_json (List.map node_len cs))"

definition sizeOf :: "tnode list \<Rightarrow> nat" where
  "sizeOf ns = list_json (List.map node_len ns)"

definition lastNodeTag :: "tnode list \<Rightarrow> string \<Rightarrow> nat option" where
  "lastNodeTag ns t = (case filter (\<lambda>i. tag_of (ns ! i) = t) (rev [0..<length ns]) of [] \<Rightarrow> None | i # _ \<Rightarrow> Some i)"

definition remove_at :: "nat \<Rightarrow> 'a list \<Rightarrow> 'a list" where
  "remove_at i xs = take i xs @ drop (Suc i) xs"

definition maxTitleLen :: nat where "maxTitleLen = 256"
definition maxContentLen :: nat where "maxContentLen = 65536"

text \<open>One turn of the loop that makes the page fit: \<open>None\<close> when it stops.\<close>

definition trim_turn :: "tnode list \<Rightarrow> tnode list option" where
  "trim_turn ns =
     (if length ns > 1 \<and> sizeOf ns > maxContentLen then
        (case lastNodeTag ns ''blockquote'' of
           Some i \<Rightarrow>
             let ns = remove_at i ns in
             Some (if i > 0 \<and> tag_of (ns ! (i - 1)) = ''p'' then remove_at (i - 1) ns else ns)
         | None \<Rightarrow> map_option (\<lambda>i. remove_at i ns) (lastNodeTag ns ''p''))
      else None)"

lemma lastNodeTag_bound: "lastNodeTag ns t = Some i \<Longrightarrow> i < length ns"
  by (auto simp: lastNodeTag_def filter_eq_Cons_iff split: list.splits dest!: arg_cong [where f = set])

lemma remove_at_length: "i < length xs \<Longrightarrow> length (remove_at i xs) = length xs - 1"
  by (simp add: remove_at_def)

lemma trim_turn_shorter: "trim_turn ns = Some ns' \<Longrightarrow> length ns' < length ns"
  by (auto simp: trim_turn_def Let_def remove_at_length split: if_splits option.splits dest!: lastNodeTag_bound)

function trim_article :: "tnode list \<Rightarrow> tnode list" where
  "trim_article ns = (case trim_turn ns of None \<Rightarrow> ns | Some ns' \<Rightarrow> trim_article ns')"
  by pat_completeness auto
termination
  by (relation "measure length") (simp_all add: trim_turn_shorter)

declare trim_article.simps [simp del]

text \<open>The meta line, the source, the text of the post; then the comments under their heading.\<close>

definition post_nodes :: "thread \<Rightarrow> string \<Rightarrow> tnode list" where
  "post_nodes t source =
     [MetaLine t] @ (if source = [] then [] else [SourceLine source (rt_permalink t)]) @ [HR] @
     List.map Paragraph (Paragraphs (ToPlainText (rt_selftext t)))"

definition Article :: "thread \<Rightarrow> string \<Rightarrow> string \<Rightarrow> string \<times> tnode list" where
  "Article t heading source =
     (let title = truncate_runes (rt_title t) maxTitleLen; title = (if title = [] then ''Reddit'' else title);
          comments = (if heading \<noteq> [] \<and> rt_comments t \<noteq> []
            then [HR, Heading heading] @ concat (List.map CommentNodes (rt_comments t)) else []) in
      (title, trim_article (post_nodes t source @ comments)))"

subsection \<open>The translate button (callback.go)\<close>

record translate_data =
  td_user :: int
  td_thread :: string

definition TranslateCallbackData :: "int \<Rightarrow> string \<Rightarrow> string" where
  "TranslateCallbackData u i = ''tg:tr:'' @ itoa u @ '':'' @ i"

definition ParseTranslate :: "string \<Rightarrow> translate_data option" where
  "ParseTranslate data =
     (case split_char CHR '':'' data of
        [a, b, c, d] \<Rightarrow>
          if a \<noteq> ''tg'' \<or> b \<noteq> ''tr'' \<or> d = [] then None
          else (case atoi c of
            None \<Rightarrow> None
          | Some u \<Rightarrow> if u \<le> 0 then None else Some \<lparr>td_user = u, td_thread = d\<rparr>)
      | _ \<Rightarrow> None)"

definition TranslateKeyboard :: "string \<Rightarrow> translate_data \<Rightarrow> keyboard" where
  "TranslateKeyboard lang d =
     (if td_user d \<le> 0 \<or> td_thread d = [] then []
      else [[button (Loc ''telegraph.btn_translate'' lang []) (TranslateCallbackData (td_user d) (td_thread d))]])"

definition TranslatedKeyboard :: "string \<Rightarrow> string \<Rightarrow> keyboard" where
  "TranslatedKeyboard lang ruURL =
     (if ruURL = [] then [] else [[url_button (Loc ''telegraph.btn_article_ru'' lang []) ruURL]])"

end
