(* ===== verification/Worker_Reddit.thy ===== *)
theory Worker_Reddit
  imports Worker_Music Worker_Platforms Reddit Cancel_Flow
begin

text \<open>
  The Reddit job (\<open>worker/reddit.go\<close>) and the calls of Telegraph (\<open>telegraph/client.go\<close>). The HTTP answers, the JSON codec of a thread and the SHA-1 are given by
  \<open>reddit_tools\<close>; the translator is part of the workers' environment.
\<close>

record reddit_tools =
  rd_get :: "event list \<Rightarrow> string \<Rightarrow> string \<Rightarrow> (int \<times> listing_child list list result) result"
  rd_image :: "event list \<Rightarrow> string \<Rightarrow> (int \<times> string \<times> int) result"
  rd_path :: "string \<Rightarrow> string result"
  rd_digest :: "string \<Rightarrow> string"
  rd_write :: "event list \<Rightarrow> string \<Rightarrow> go_error option"
  rd_unix :: "event list \<Rightarrow> int"
  rd_json :: "thread \<Rightarrow> string"
  rd_thread :: "string \<Rightarrow> thread option"
  rd_ref_json :: "string \<times> string \<Rightarrow> string"
  rd_ref :: "string \<Rightarrow> (string \<times> string) option"
  rd_content :: "tnode list \<Rightarrow> string"
  rd_telegraph :: "event list \<Rightarrow> string \<Rightarrow> (string \<times> string) list \<Rightarrow> (bool \<times> string \<times> string) result"

subsection \<open>Telegraph (telegraph/client.go)\<close>

text \<open>A call and what it gives: the token of an account or the address of a page.\<close>

definition telegraph_call ::
  "reddit_tools \<Rightarrow> string \<Rightarrow> (string \<times> string) list \<Rightarrow> 's wworld \<Rightarrow> string result \<times> 's wworld" where
  "telegraph_call T meth params w =
     (let r = rd_telegraph T (w_log w) meth params; w = noted (Exec [''POST'', meth]) w in
      case r of
        Inl e \<Rightarrow> (Inl e, w)
      | Inr (ok, err, v) \<Rightarrow> (if \<not> ok \<or> v = [] then Inl (''telegraph: '' @ meth @ '' failed: '' @ err) else Inr v, w))"

definition CreateAccount :: "reddit_tools \<Rightarrow> string \<Rightarrow> string \<Rightarrow> 's wworld \<Rightarrow> string result \<times> 's wworld" where
  "CreateAccount T shortName authorName =
     telegraph_call T ''createAccount''
       ((''short_name'', shortName) # (if authorName = [] then [] else [(''author_name'', authorName)]))"

definition CreatePage ::
  "reddit_tools \<Rightarrow> string \<Rightarrow> string \<Rightarrow> tnode list \<Rightarrow> string \<Rightarrow> 's wworld \<Rightarrow> string result \<times> 's wworld" where
  "CreatePage T token title content authorName w =
     (if token = [] then (Inl ''telegraph: no access token'', w)
      else telegraph_call T ''createPage'' [(''access_token'', token), (''title'', title), (''author_name'', authorName),
             (''content'', rd_content T content), (''return_content'', ''false'')] w)"

definition accountTokenKey :: string where "accountTokenKey = ''telegraph:account_token''"

text \<open>The token is kept without an end; a time to live of 0 is none.\<close>

definition fresh_token :: "'s work_env \<Rightarrow> reddit_tools \<Rightarrow> 's wworld \<Rightarrow> string result \<times> 's wworld" where
  "fresh_token B T w =
     (case CreateAccount T ''saveinator'' (c_TelegraphAuthorName (b_cfg B)) w of
        (Inl e, w) \<Rightarrow> (Inl e, w)
      | (Inr tok, w) \<Rightarrow>
          (case on_st (exec (b_redis B) (CSet accountTokenKey (RText tok) 0)) w of
             (Some e, w) \<Rightarrow> (Inl (''telegraph: persist token: '' @ e), w)
           | (None, w) \<Rightarrow> (Inr tok, w)))"

definition text_of :: "reply result \<Rightarrow> string option" where
  "text_of r = (case r of Inr (RpVal (RText t)) \<Rightarrow> Some t | _ \<Rightarrow> None)"

definition ResolveToken :: "'s work_env \<Rightarrow> reddit_tools \<Rightarrow> 's wworld \<Rightarrow> string result \<times> 's wworld" where
  "ResolveToken B T w =
     (let cfgToken = c_TelegraphAccessToken (b_cfg B) in
      if cfgToken \<noteq> [] then (Inr cfgToken, w)
      else
        let (kept, w) = on_st (call (b_redis B) (CGet accountTokenKey)) w in
        case text_of kept of
          Some tok \<Rightarrow> if tok \<noteq> [] then (Inr tok, w) else fresh_token B T w
        | None \<Rightarrow> fresh_token B T w)"

subsection \<open>The article of a thread (worker/reddit.go)\<close>

definition html_escape :: "string \<Rightarrow> string" where
  "html_escape s = concat (List.map (\<lambda>c.
     if c = CHR ''<'' then ''&lt;'' else if c = CHR ''>'' then ''&gt;'' else if c = CHR ''&'' then ''&amp;''
     else if c = CHR 0x27 then ''&#39;'' else if c = CHR 0x22 then ''&#34;'' else [c]) s)"

text \<open>The verb \<open>%q\<close> on the address of a page, which is printable ASCII.\<close>

definition go_quote :: "string \<Rightarrow> string" where
  "go_quote s = [CHR 0x22] @ concat (List.map (\<lambda>c. if c = CHR 0x22 \<or> c = CHR 0x5C then [CHR 0x5C, c] else [c]) s) @ [CHR 0x22]"

definition page_link :: "string \<Rightarrow> string \<Rightarrow> string" where
  "page_link url title = ''<a href='' @ go_quote url @ ''>'' @ html_escape title @ ''</a>''"

definition news_sign :: string where "news_sign = [CHR 0xF0, CHR 0x9F, CHR 0x93, CHR 0xB0]"

definition articleMessageHTML :: "string \<Rightarrow> string \<Rightarrow> string" where
  "articleMessageHTML title pageURL = news_sign @ '' '' @ page_link pageURL title"

definition pageKey :: "string \<Rightarrow> int \<Rightarrow> string" where
  "pageKey i u = ''telegraph:page:'' @ i @ '':'' @ itoa u"

definition threadKey :: "string \<Rightarrow> string" where "threadKey i = ''reddit:thread:'' @ i"

text \<open>The texts of the headings are those of the locale; they are named by their keys.\<close>

definition comments_heading :: "string \<Rightarrow> string" where "comments_heading lang = ''telegraph.comments_heading '' @ lang"
definition source_label :: "string \<Rightarrow> string" where "source_label lang = ''telegraph.source_label '' @ lang"

definition publishRedditArticle ::
  "'s work_env \<Rightarrow> reddit_tools \<Rightarrow> download_payload \<Rightarrow> thread \<Rightarrow> string \<Rightarrow> 's wworld \<Rightarrow> (string \<times> string) result \<times> 's wworld" where
  "publishRedditArticle B T p t lang w =
     (case ResolveToken B T w of
        (Inl e, w) \<Rightarrow> (Inl e, w)
      | (Inr token, w) \<Rightarrow>
          let (title, nodes) = Article t (comments_heading lang) (source_label lang) in
          (case CreatePage T token title nodes (c_TelegraphAuthorName (b_cfg B)) w of
             (Inl e, w) \<Rightarrow> (Inl e, w)
           | (Inr url, w) \<Rightarrow>
               (Inr (url, title),
                do_st (exec (b_redis B) (CSet (pageKey (rt_id t) (dp_user p)) (RText (rd_ref_json T (url, title))) (7 * hours 24))) w)))"

definition article_disabled :: go_error where
  "article_disabled = ''reddit: article disabled or empty''"

text \<open>\<open>Some (e, True)\<close> is the error that says there is nothing to publish.\<close>

definition deliverRedditArticle ::
  "'s work_env \<Rightarrow> reddit_tools \<Rightarrow> download_payload \<Rightarrow> thread \<Rightarrow> string \<Rightarrow> bool \<Rightarrow> 's wworld
     \<Rightarrow> (go_error \<times> bool) option \<times> 's wworld" where
  "deliverRedditArticle B T p t lang mediaSent w =
     (let (on, w) = rt_bool B ''reddit.telegraph_enabled'' True w in
      if \<not> on \<or> (\<not> HasText t \<and> rt_comments t = []) then (Some (article_disabled, True), w)
      else case publishRedditArticle B T p t lang w of
        (Inl e, w) \<Rightarrow> (Some (e, False), w)
      | (Inr (url, title), w) \<Rightarrow>
          let (translate, w) = rt_bool B ''reddit.telegraph_translate'' True w;
              kb = (if translate then TranslateKeyboard lang \<lparr>td_user = dp_user p, td_thread = rt_id t\<rparr> else []);
              msg = Lit (articleMessageHTML title url) in
          (case emit B (if mediaSent then Send (dp_chat p) msg kb else Edit (dp_chat p) (dp_message p) msg kb) w of
             (Inl e, w) \<Rightarrow> (Some (e, False), w)
           | (Inr _, w) \<Rightarrow> (None, w)))"

subsection \<open>The media of a thread\<close>

definition clipCaption :: "string \<Rightarrow> string" where
  "clipCaption title =
     (let r = runes (trim_space title) in if length r > 900 then concat (take 900 r) @ ellipsis else concat r)"

text \<open>The file with the latest modification time, the first of equals.\<close>

fun newest_loop :: "(string \<Rightarrow> int option) \<Rightarrow> (string \<times> node) list \<Rightarrow> (string \<times> int \<times> int) option \<Rightarrow> (string \<times> int \<times> int) option" where
  "newest_loop mtime [] best = best"
| "newest_loop mtime ((name, nd) # es) best =
     (case (nd, mtime name) of
        (File n content, Some t) \<Rightarrow>
          if name = ''yt-dlp-cookies.txt'' then newest_loop mtime es best
          else newest_loop mtime es (case best of
            None \<Rightarrow> Some (name, n, t)
          | Some (b, m, tb) \<Rightarrow> if t > tb then Some (name, n, t) else best)
      | _ \<Rightarrow> newest_loop mtime es best)"

definition newestFileIn :: "'s work_env \<Rightarrow> string \<Rightarrow> files \<Rightarrow> (string \<times> int) result" where
  "newestFileIn B dir fs =
     (case k_readdir B fs dir of
        Inl e \<Rightarrow> Inl e
      | Inr es \<Rightarrow>
          (case newest_loop (\<lambda>name. k_mtime B fs (dir @ ''/'' @ name)) es None of
             None \<Rightarrow> Inl (''no files in '' @ dir)
           | Some (name, n, t) \<Rightarrow> Inr (dir @ ''/'' @ name, n)))"

definition DownloadImage :: "reddit_tools \<Rightarrow> string \<Rightarrow> string \<Rightarrow> 's wworld \<Rightarrow> string result \<times> 's wworld" where
  "DownloadImage T url dir w =
     (let r = rd_image T (w_log w) url; w = noted (Exec [''GET'', url]) w in
      case image_file (rd_path T url) (rd_digest T url) dir r of
        Inl e \<Rightarrow> (Inl e, w)
      | Inr (path, n) \<Rightarrow>
          (case rd_write T (w_log w) path of
             Some e \<Rightarrow> (Inl e, w)
           | None \<Rightarrow> (Inr path, w\<lparr>w_fs := (w_fs w)(path := Some (File n []))\<rparr>)))"

record rd_sent =
  rs_images :: "string list"
  rs_any :: bool
  rs_bytes :: int
  rs_handled :: int

definition send_rd_video ::
  "'s work_env \<Rightarrow> download_payload \<Rightarrow> thread \<Rightarrow> string \<Rightarrow> int \<Rightarrow> string \<Rightarrow> rd_sent \<Rightarrow> 's wworld \<Rightarrow> rd_sent \<times> 's wworld" where
  "send_rd_video B p t lang limit dir acc w =
     (case Download B (rt_permalink t) dir (ytdlpOpts (b_cfg B) (k_synced B) ''reddit'' ''bv*+ba/b'' (900 * second)) w of
        (Some e, w) \<Rightarrow> (acc, w)
      | (None, w) \<Rightarrow>
          (case newestFileIn B dir (w_fs w) of
             Inl e \<Rightarrow> (acc, w)
           | Inr (path, n) \<Rightarrow>
               if mb n > of_int limit then (acc, w)
               else
                 (case sendFile B p path (rt_title t) lang ''reddit'' False w of
                    (Inl e, w) \<Rightarrow> (acc, w)
                  | (Inr _, w) \<Rightarrow>
                      (acc\<lparr>rs_any := True, rs_bytes := rs_bytes acc + n, rs_handled := rs_handled acc + 1\<rparr>, w))))"

definition send_rd_image ::
  "'s work_env \<Rightarrow> reddit_tools \<Rightarrow> download_payload \<Rightarrow> thread \<Rightarrow> string \<Rightarrow> int \<Rightarrow> string \<Rightarrow> rd_media \<Rightarrow> rd_sent \<Rightarrow> 's wworld
     \<Rightarrow> rd_sent \<times> 's wworld" where
  "send_rd_image B T p t lang limit dir m acc w =
     (case DownloadImage T (rm_url m) dir w of
        (Inl e, w) \<Rightarrow> (acc, w)
      | (Inr path, w) \<Rightarrow>
          let n = (case w_fs w path of Some (File n _) \<Rightarrow> n | _ \<Rightarrow> 0) in
          if rm_type m = ''image'' \<and> mb n > of_int limit then (acc, w)
          else
            let acc = acc\<lparr>rs_bytes := rs_bytes acc + n\<rparr> in
            if rm_type m = ''gif'' then
              (case sendFile B p path (rt_title t) lang ''reddit'' True w of
                 (Inl e, w) \<Rightarrow> (acc, w)
               | (Inr _, w) \<Rightarrow> (acc\<lparr>rs_any := True, rs_handled := rs_handled acc + 1\<rparr>, w))
            else (acc\<lparr>rs_images := rs_images acc @ [path], rs_handled := rs_handled acc + 1\<rparr>, w))"

fun send_rd_media ::
  "'s work_env \<Rightarrow> reddit_tools \<Rightarrow> download_payload \<Rightarrow> thread \<Rightarrow> string \<Rightarrow> int \<times> int \<times> int \<Rightarrow> string \<Rightarrow> rd_media list \<Rightarrow> rd_sent
     \<Rightarrow> 's wworld \<Rightarrow> rd_sent \<times> 's wworld" where
  "send_rd_media B T p t lang limits dir [] acc w = (acc, w)"
| "send_rd_media B T p t lang limits dir (m # rest) acc w =
     (let (maxItems, videoLimit, imageLimit) = limits in
      if rs_handled acc \<ge> maxItems then (acc, w)
      else
        let (acc, w) =
          (if rm_type m = ''video'' then send_rd_video B p t lang videoLimit (dir @ ''/video'') acc w
           else if rm_type m = ''image'' \<or> rm_type m = ''gif'' then send_rd_image B T p t lang imageLimit (dir @ ''/img'') m acc w
           else (acc, w)) in
        send_rd_media B T p t lang limits dir rest acc w)"

definition mk_dir :: "string \<Rightarrow> 's wworld \<Rightarrow> 's wworld" where
  "mk_dir dir w = w\<lparr>w_fs := (w_fs w)(dir := Some Dir)\<rparr>"

text \<open>Whether anything was delivered, and the size of it.\<close>

definition sendRedditMedia ::
  "'s work_env \<Rightarrow> reddit_tools \<Rightarrow> download_payload \<Rightarrow> thread \<Rightarrow> string \<Rightarrow> string \<Rightarrow> 's wworld \<Rightarrow> (bool \<times> rat) \<times> 's wworld" where
  "sendRedditMedia B T p t dir lang w =
     (if rt_media t = [] then ((False, 0), w)
      else
        let (maxItems, w) = rt_int B ''reddit.max_media_items'' 10 w;
            (videoLimit, w) = rt_max_mb B ''reddit'' w;
            (imageLimit, w) = rt_int B ''global.document_limit_mb'' (c_SendDocumentLimitMB (b_cfg B)) w;
            w = mk_dir (dir @ ''/video'') (mk_dir (dir @ ''/img'') w);
            (acc, w) = send_rd_media B T p t lang (maxItems, videoLimit, imageLimit) dir (rt_media t)
                         \<lparr>rs_images = [], rs_any = False, rs_bytes = 0, rs_handled = 0\<rparr> w;
            (ok, w) =
              (case rs_images acc of
                 [] \<Rightarrow> (rs_any acc, w)
               | [path] \<Rightarrow>
                   (case sendFile B p path (rt_title t) lang ''reddit'' False w of
                      (Inl e, w) \<Rightarrow> (rs_any acc, w) | (Inr _, w) \<Rightarrow> (True, w))
               | _ \<Rightarrow>
                   (case emit B (Album (dp_chat p) (rs_images acc)
                           (buildMediaCaption (clipCaption (rt_title t)) lang (dp_no_watermark p))) w of
                      (Inl e, w) \<Rightarrow> (rs_any acc, w) | (Inr _, w) \<Rightarrow> (True, w))) in
        ((ok, mb (rs_bytes acc)), w))"

subsection \<open>The job (worker/reddit.go)\<close>

text \<open>A thread from Reddit, with the client's cookies; the settings are read where the code reads them.\<close>

definition rd_timeout :: "'s work_env \<Rightarrow> 's wworld \<Rightarrow> 's wworld" where
  "rd_timeout B w = snd (rt_int B ''reddit.timeout_sec'' (c_DownloadTimeoutSeconds (b_cfg B)) w)"

definition redditMaxComments :: "'s work_env \<Rightarrow> 's wworld \<Rightarrow> int \<times> 's wworld" where
  "redditMaxComments B = rt_int B ''reddit.max_comments'' 10"

definition fetch_thread ::
  "'s work_env \<Rightarrow> reddit_tools \<Rightarrow> string \<Rightarrow> 's wworld \<Rightarrow> (rd_error + thread) \<times> 's wworld" where
  "fetch_thread B T i w =
     (let file = (case w_fs w (k_synced B (c_RedditCookiesPath (b_cfg B))) of Some (File _ data) \<Rightarrow> Some data | _ \<Rightarrow> None);
          (n, w) = redditMaxComments B w;
          url = thread_url i n;
          r = rd_get T (w_log w) (LoadCookieHeader (rd_unix T (w_log w)) file) url in
      if i = [] then (Inl rd_not_found, w) else (thread_answer r, noted (Exec [''GET'', url]) w))"

definition cacheRedditThread :: "'s work_env \<Rightarrow> reddit_tools \<Rightarrow> string \<Rightarrow> thread \<Rightarrow> 's wworld \<Rightarrow> 's wworld" where
  "cacheRedditThread B T i t w = do_st (exec (b_redis B) (CSet (threadKey i) (RText (rd_json T t)) (hours 24))) w"

definition finish_reddit ::
  "'s work_env \<Rightarrow> download_payload \<Rightarrow> bool \<times> rat \<Rightarrow> (go_error \<times> bool) option \<Rightarrow> 's job_step" where
  "finish_reddit B p media err w =
     (let (mediaSent, size1) = media in
      case err of
        Some (e, disabled) \<Rightarrow>
          if \<not> mediaSent then
            (if disabled then refuse_job B p ''reddit'' (Loc ''reddit.no_content'' (lang_of p) []) 0 ''nothing to deliver'' w
             else fail_job B p ''reddit'' 0 e w)
          else if disabled then done_job B p ''reddit'' size1 [] w
          else (None, book B p ''reddit'' ''completed'' size1 e
                  (say B p (userFacingError B (lang_of p) (dp_user p) (Some e)) w))
      | None \<Rightarrow>
          if mediaSent then done_job B p ''reddit'' size1 [] w
          else (None, book B p ''reddit'' ''completed'' size1 [] w))"

definition runReddit :: "'s work_env \<Rightarrow> reddit_tools \<Rightarrow> download_payload \<Rightarrow> 's job_step" where
  "runReddit B T p w =
     (let w = say B p (Loc ''download.downloading'' (lang_of p) []) w; i = ExtractThreadID (dp_url p) in
      if i = [] then fail_job B p ''reddit'' 0 (''reddit: no thread id in '' @ go_quote (dp_url p)) w
      else in_temp_dir B ''saveinator-reddit-*'' (\<lambda>dir w.
        case fetch_thread B T i (rd_timeout B (rd_timeout B w)) of
          (Inl (e, kind), w) \<Rightarrow>
            if kind = ''ErrNotFound'' then refuse_job B p ''reddit'' (Loc ''errors.not_found'' (lang_of p) []) 0 e w
            else if kind = ''ErrRateLimited'' then
              refuse_job B p ''reddit'' (Loc ''errors.rate_limited'' (lang_of p) []) 0 e w
            else fail_job B p ''reddit'' 0 e w
        | (Inr t, w) \<Rightarrow>
            let w = cacheRedditThread B T i t w;
                (media, w) = sendRedditMedia B T p t dir (lang_of p) w;
                (err, w) = deliverRedditArticle B T p t (lang_of p) (fst media) w in
            finish_reddit B p media err w) w)"

definition handleReddit :: "'s work_env \<Rightarrow> reddit_tools \<Rightarrow> body \<Rightarrow> 's job_step" where
  "handleReddit B T payload w =
     (case unmarshal_download payload of
        None \<Rightarrow> (Some bad_payload, w)
      | Some q \<Rightarrow>
          let p = q\<lparr>dp_platform := ''reddit''\<rparr> in
          release_after B p (unless_cancelled B p (runReddit B T p)) w)"

end
