(* ===== verification/Worker_Telegraph.thy ===== *)
theory Worker_Telegraph
  imports Worker_Reddit
begin

text \<open>
  The translation of an article: the button (\<open>handler/telegraph.go\<close>), the job (\<open>worker/telegraph.go\<close>), the payload
  between them and the pieces a text is cut into for the translator.
\<close>

subsection \<open>The payload (queue/client.go)\<close>

definition unmarshal_translate :: "body \<Rightarrow> translate_payload option" where
  "unmarshal_translate b = Option.bind b (\<lambda>ob.
     Option.bind (get_str ob ''thread_id'') (\<lambda>thread.
     Option.bind (get_str ob ''url'') (\<lambda>url.
     Option.bind (get_int ob ''chat_id'') (\<lambda>chat.
     Option.bind (get_int ob ''user_id'') (\<lambda>user.
     Option.bind (get_int ob ''message_id'') (\<lambda>message.
     Option.bind (get_str ob ''lang'') (\<lambda>lang.
       Some \<lparr>tp_thread = thread, tp_url = url, tp_chat = chat, tp_user = user, tp_message = message,
         tp_lang = lang\<rparr>)))))))"

subsection \<open>Pieces for the translator\<close>

definition maxChunk :: nat where "maxChunk = 3500"

text \<open>The place after the last space among the runes \<open>low\<close> to \<open>i\<close>, if there is one.\<close>

fun space_before :: "string list \<Rightarrow> nat \<Rightarrow> nat \<Rightarrow> nat option" where
  "space_before r low 0 = None"
| "space_before r low (Suc i) =
     (if Suc i \<le> low then None else if r ! i = '' '' then Some (Suc i) else space_before r low i)"

definition cut_place :: "nat \<Rightarrow> string list \<Rightarrow> nat" where
  "cut_place mx r = (case space_before r (mx div 2) mx of None \<Rightarrow> mx | Some i \<Rightarrow> i)"

lemma space_before_bounds:
  "space_before r low i = Some n \<Longrightarrow> low < n \<and> n \<le> i \<and> r ! (n - 1) = '' ''"
  by (induction r low i rule: space_before.induct) (auto split: if_splits)

lemma cut_place_bounds: "cut_place mx r \<le> mx" "0 < mx \<Longrightarrow> 0 < cut_place mx r"
  by (auto simp: cut_place_def dest: space_before_bounds split: option.splits)

text \<open>The loop; it is only entered with a positive bound.\<close>

function chunk_loop :: "nat \<Rightarrow> string list \<Rightarrow> string list list" where
  "chunk_loop mx r =
     (if length r \<le> mx \<or> mx = 0 then (if r = [] then [] else [r])
      else take (cut_place mx r) r # chunk_loop mx (drop (cut_place mx r) r))"
  by pat_completeness auto
termination
  by (relation "measure (\<lambda>(mx, r). length r)") (auto simp: cut_place_bounds intro: diff_less)

declare chunk_loop.simps [simp del]

definition chunkRunes :: "string \<Rightarrow> nat \<Rightarrow> string list" where
  "chunkRunes s mx = (let r = runes s in if length r \<le> mx then [s] else List.map concat (chunk_loop mx r))"

fun join_parts :: "string list \<Rightarrow> string \<Rightarrow> string" where
  "join_parts [] out = out"
| "join_parts (p # ps) out =
     (if p = [] then join_parts ps out
      else join_parts ps (if out = [] then p else out @ two_lines @ p))"

definition joinParagraphs :: "string list \<Rightarrow> string" where
  "joinParagraphs ps = join_parts ps []"

subsection \<open>Translating a thread\<close>

text \<open>The requests run side by side; each result goes to its own place.\<close>

definition translateBlock :: "(string \<Rightarrow> string) \<Rightarrow> string \<Rightarrow> string" where
  "translateBlock g s =
     (if s = [] then s
      else joinParagraphs (List.map g (concat (List.map (\<lambda>p. chunkRunes p maxChunk) (Paragraphs s)))))"

definition translateThread :: "(string \<Rightarrow> string) \<Rightarrow> thread \<Rightarrow> thread" where
  "translateThread g t =
     t\<lparr>rt_title := translateBlock g (rt_title t), rt_selftext := translateBlock g (rt_selftext t),
       rt_comments := List.map (\<lambda>c. c\<lparr>rc_body := translateBlock g (rc_body c)\<rparr>) (rt_comments t)\<rparr>"

definition clipRuneTitle :: "string \<Rightarrow> nat \<Rightarrow> string" where
  "clipRuneTitle title mx = (let r = runes title in if length r > mx then concat (take mx r) else title)"

definition ru_flag :: string where
  "ru_flag = [CHR 0xF0, CHR 0x9F, CHR 0x87, CHR 0xB7, CHR 0xF0, CHR 0x9F, CHR 0x87, CHR 0xBA]"

definition translateResultHTML :: "(string \<times> string) option \<Rightarrow> string \<Rightarrow> string \<Rightarrow> string" where
  "translateResultHTML ref ruTitle ruURL =
     (case ref of
        Some (url, title) \<Rightarrow> if url \<noteq> [] then articleMessageHTML title url @ two_lines else []
      | None \<Rightarrow> []) @ ru_flag @ '' '' @ page_link ruURL ruTitle"

subsection \<open>The job\<close>

definition cachedRedditThread :: "'s work_env \<Rightarrow> reddit_tools \<Rightarrow> string \<Rightarrow> 's wworld \<Rightarrow> thread option \<times> 's wworld" where
  "cachedRedditThread B T i w =
     (let (r, w) = on_st (call (b_redis B) (CGet (threadKey i))) w in
      (Option.bind (text_of r) (rd_thread T), w))"

definition loadArticleRef ::
  "'s work_env \<Rightarrow> reddit_tools \<Rightarrow> string \<Rightarrow> int \<Rightarrow> 's wworld \<Rightarrow> (string \<times> string) option \<times> 's wworld" where
  "loadArticleRef B T i u w =
     (let (r, w) = on_st (call (b_redis B) (CGet (pageKey i u))) w in
      (case Option.bind (text_of r) (rd_ref T) of
         Some (url, title) \<Rightarrow> if url = [] then None else Some (url, title)
       | None \<Rightarrow> None, w))"

definition tr_say :: "'s work_env \<Rightarrow> translate_payload \<Rightarrow> msg_text \<Rightarrow> 's wworld \<Rightarrow> 's wworld" where
  "tr_say B p t = post B (Edit (tp_chat p) (tp_message p) t [])"

definition translate_page ::
  "'s work_env \<Rightarrow> reddit_tools \<Rightarrow> translate_payload \<Rightarrow> string \<Rightarrow> thread \<Rightarrow> 's job_step" where
  "translate_page B T p lang t w =
     (let translated = translateThread (k_translate B (w_log w)) t in
      case ResolveToken B T w of
        (Inl e, w) \<Rightarrow> (None, tr_say B p (userFacingError B lang (tp_user p) (Some e)) w)
      | (Inr token, w) \<Rightarrow>
          let (title, nodes) = Article translated (comments_heading lang) (source_label lang);
              ruTitle = clipRuneTitle title 250 @ '' (RU)'' in
          (case CreatePage T token ruTitle nodes (c_TelegraphAuthorName (b_cfg B)) w of
             (Inl e, w) \<Rightarrow> (None, tr_say B p (Loc ''telegraph.failed'' lang []) w)
           | (Inr ruURL, w) \<Rightarrow>
               let (ref, w) = loadArticleRef B T (tp_thread p) (tp_user p) w in
               (None, post B (Edit (tp_chat p) (tp_message p)
                  (Lit (translateResultHTML ref (rt_title translated) ruURL)) (TranslatedKeyboard lang ruURL)) w)))"

definition handleTelegraphTranslate :: "'s work_env \<Rightarrow> reddit_tools \<Rightarrow> body \<Rightarrow> 's job_step" where
  "handleTelegraphTranslate B T payload w =
     (case unmarshal_translate payload of
        None \<Rightarrow> (Some bad_payload, w)
      | Some p \<Rightarrow>
          let lang = (if tp_lang p = [] then ''en'' else tp_lang p);
              (cached, w) = cachedRedditThread B T (tp_thread p) w in
          (case cached of
             Some t \<Rightarrow> translate_page B T p lang t w
           | None \<Rightarrow>
               (case fetch_thread B T (tp_thread p) (rd_timeout B w) of
                  (Inl (e, kind), w) \<Rightarrow>
                    (None, tr_say B p (userFacingError B lang (tp_user p) (Some e)) w)
                | (Inr t, w) \<Rightarrow> translate_page B T p lang t w)))"

subsection \<open>The button (handler/telegraph.go)\<close>

definition translate_request :: "callback \<Rightarrow> string \<Rightarrow> string \<Rightarrow> translate_payload" where
  "translate_request q i lang =
     (let (chat, mid) = (case q_msg q of None \<Rightarrow> (0, 0) | Some m \<Rightarrow> m) in
      \<lparr>tp_thread = i, tp_url = [], tp_chat = chat, tp_user = u_id (q_from q), tp_message = mid, tp_lang = lang\<rparr>)"

definition onTelegraphTranslate :: "('s, 'b) bot_env_scheme \<Rightarrow> callback \<Rightarrow> ('s, 'w) world_scheme \<Rightarrow> ('s, 'w) world_scheme" where
  "onTelegraphTranslate B q w =
     (let lang = userLang B (u_id (q_from q)) w in
      case ParseTranslate (q_data q) of
        None \<Rightarrow> toast B q ''errors.callback_invalid'' lang True w
      | Some d \<Rightarrow>
          if u_id (q_from q) \<noteq> td_user d then toast B q ''telegraph.not_allowed'' lang True w
          else
            (case EnqueueTelegraphTranslate (\<lambda>r. emit B (Job r) w) (translate_request q (td_thread d) lang) of
               (Inl e, w) \<Rightarrow> toast B q ''errors.generic'' lang True w
             | (Inr _, w) \<Rightarrow> toast B q ''telegraph.translating'' lang False w))"

end
