(* ===== verification/Reddit_Props.thy ===== *)
theory Reddit_Props
  imports Worker_Telegraph Worker_Answers "HOL-Library.Sublist"
begin

text \<open>
  What the Reddit job and the articles keep: the job ends as the other downloads do, a page fits Telegraph and loses
  comments before it loses the post, a text is cut without loss, and the translate button serves its owner only.
\<close>

subsection \<open>Steps of the job\<close>

text \<open>
  The job writes to Redis, so its steps are compared by what Redis says of the locks of the main bot, whose keys have
  no prefix.
\<close>

definition locks_view :: "redis_db \<Rightarrow> redis_db" where
  "locks_view db = empty_db\<lparr>db_now := db_now db,
     db_vals := (\<lambda>k. if has_prefix k ''user_busy'' then db_vals db k else None)\<rparr>"

lemma lock_key_prefix: "has_prefix (lockKey [] u) ''user_busy''"
  by (simp add: lockKey_def key_def lockPrefix_def has_prefix_def)

lemma locks_view_holder: "locks_view db = locks_view db' \<Longrightarrow> lock_holder [] db = lock_holder [] db'"
proof
  fix u
  assume eq: "locks_view db = locks_view db'"
  have "lock_holder [] d u = live_val (locks_view d) (lockKey [] u)" for d
    by (simp add: lock_holder_def live_val_def locks_view_def lock_key_prefix split: option.splits)
  with eq show "lock_holder [] db u = lock_holder [] db' u" by simp
qed

abbreviation view :: "('s \<Rightarrow> redis_db) \<Rightarrow> 's \<Rightarrow> redis_db" where
  "view \<alpha> s \<equiv> locks_view (\<alpha> s)"

lemma quiet_view: "quiet \<alpha> p w w1 \<Longrightarrow> quiet (view \<alpha>) p w w1"
  by (simp add: quiet_def)

lemma quiet_refl: "quiet \<alpha> p w w"
  by (simp add: quiet_def)

lemma quiet_noted: "\<not> concerns p e \<Longrightarrow> quiet \<alpha> p w (noted e w)"
  by (simp add: quiet_def noted_def status_def)

lemma quiet_set_key:
  assumes "lawful_redis (b_redis B) \<alpha>" "\<not> has_prefix k ''user_busy''"
  shows "on_st (exec (b_redis B) (CSet k v t)) w = (e, w1) \<Longrightarrow> quiet (view \<alpha>) p w w1"
    and "quiet (view \<alpha>) p w (do_st (exec (b_redis B) (CSet k v t)) w)"
proof -
  have s: "view \<alpha> s' = view \<alpha> s" if "exec (b_redis B) (CSet k v t) s = (e, s')" for s e s'
  proof -
    have "locks_view (put_val k x db) = locks_view db" for x db
      using assms(2) by (auto simp: locks_view_def put_val_def fun_eq_iff)
    with exec_cases [OF assms(1) that] show ?thesis by auto
  qed
  show q: "on_st (exec (b_redis B) (CSet k v t)) w = (e, w1) \<Longrightarrow> quiet (view \<alpha>) p w w1" for e w1
    by (erule quiet_on_st) (rule s)
  obtain e w1 where "on_st (exec (b_redis B) (CSet k v t)) w = (e, w1)" by fastforce
  with q [OF this] show "quiet (view \<alpha>) p w (do_st (exec (b_redis B) (CSet k v t)) w)"
    by (simp add: do_st_def)
qed

lemma quiet_get:
  assumes "lawful_redis (b_redis B) \<alpha>" "on_st (call (b_redis B) (CGet k)) w = (r, w1)"
  shows "quiet \<alpha> p w w1"
proof (rule quiet_on_st [OF assms(2)])
  fix s r s' assume "call (b_redis B) (CGet k) s = (r, s')"
  then show "\<alpha> s' = \<alpha> s" by (cases rule: call_cases [OF assms(1), of "CGet k" s]) auto
qed

lemma other_keys: "\<not> has_prefix (threadKey i) ''user_busy''" "\<not> has_prefix (pageKey i u) ''user_busy''"
  "\<not> has_prefix accountTokenKey ''user_busy''"
  by (simp_all add: threadKey_def pageKey_def accountTokenKey_def has_prefix_def)

lemma call_quiet:
  "telegraph_call T meth ps w = (r, w1) \<Longrightarrow> quiet \<alpha> p w w1"
  "CreateAccount T a b w = (r, w1) \<Longrightarrow> quiet \<alpha> p w w1"
  "CreatePage T tok t ns a w = (r, w1) \<Longrightarrow> quiet \<alpha> p w w1"
proof -
  show q: "telegraph_call T meth ps w = (r, w1) \<Longrightarrow> quiet \<alpha> p w w1" for meth ps r
    using quiet_noted [of p "Exec [''POST'', meth]" \<alpha> w]
    by (auto simp: telegraph_call_def Let_def split: sum.splits prod.splits if_splits)
  show "CreateAccount T a b w = (r, w1) \<Longrightarrow> quiet \<alpha> p w w1" by (simp only: CreateAccount_def) (rule q)
  show "CreatePage T tok t ns a w = (r, w1) \<Longrightarrow> quiet \<alpha> p w w1"
    using q quiet_refl [of \<alpha> p w] by (auto simp: CreatePage_def split: if_splits)
qed

lemma token_quiet:
  assumes "lawful_redis (b_redis B) \<alpha>"
  shows "fresh_token B T w = (r, w1) \<Longrightarrow> quiet (view \<alpha>) p w w1"
    and "ResolveToken B T w = (r, w1) \<Longrightarrow> quiet (view \<alpha>) p w w1"
proof -
  show f: "fresh_token B T w = (r, w1) \<Longrightarrow> quiet (view \<alpha>) p w w1" for w r w1
    by (auto simp: fresh_token_def split: prod.splits sum.splits option.splits
        intro: quiet_trans dest!: call_quiet(2) [where p = p and \<alpha> = "view \<alpha>"]
          quiet_set_key(1) [OF assms other_keys(3), where p = p])
  show "ResolveToken B T w = (r, w1) \<Longrightarrow> quiet (view \<alpha>) p w w1"
    by (auto simp: ResolveToken_def Let_def quiet_refl split: prod.splits option.splits if_splits
        intro: quiet_trans dest!: f quiet_get [OF assms, where p = p, THEN quiet_view])
qed

lemma publish_quiet:
  assumes "lawful_redis (b_redis B) \<alpha>" "publishRedditArticle B T q t lang w = (r, w1)"
  shows "quiet (view \<alpha>) p w w1"
  using assms(2) quiet_set_key(2) [OF assms(1) other_keys(2), where p = p]
  by (auto simp: publishRedditArticle_def Let_def split: prod.splits sum.splits
      intro: quiet_trans dest!: token_quiet(2) [OF assms(1), where p = p] call_quiet(3) [where p = p and \<alpha> = "view \<alpha>"])


subsection \<open>The media\<close>

lemma image_quiet: "DownloadImage T url dir w = (r, w1) \<Longrightarrow> quiet \<alpha> p w w1"
  by (auto simp: DownloadImage_def Let_def quiet_def noted_def status_def split: sum.splits prod.splits option.splits)

lemma send_quiet: "sendFile B q path ti lang pf an w = (r, w1) \<Longrightarrow> quiet \<alpha> p w w1"
  unfolding sendFile_def by (erule quiet_emit) simp

lemma rd_video_quiet:
  assumes "lawful_redis (b_redis B) \<alpha>" "send_rd_video B q t lang n dir acc w = (r, w1)"
  shows "quiet \<alpha> p w w1"
  using assms(2) by (auto simp: send_rd_video_def split: prod.splits sum.splits option.splits if_splits
      intro: quiet_trans dest!: quiet_composed(4) [OF assms(1), where p = p] send_quiet [where p = p and \<alpha> = \<alpha>])

lemma rd_image_quiet:
  assumes "send_rd_image B T q t lang n dir m acc w = (r, w1)"
  shows "quiet \<alpha> p w w1"
  using assms by (auto simp: send_rd_image_def Let_def split: prod.splits sum.splits if_splits
      intro: quiet_trans dest!: image_quiet [where p = p and \<alpha> = \<alpha>] send_quiet [where p = p and \<alpha> = \<alpha>])

lemma rd_media_quiet:
  assumes "lawful_redis (b_redis B) \<alpha>"
  shows "send_rd_media B T q t lang limits dir its acc w = (r, w1) \<Longrightarrow> quiet \<alpha> p w w1"
proof (induction its arbitrary: acc w)
  case (Cons m its)
  obtain mx vl il where l: "limits = (mx, vl, il)" by (metis prod.exhaust)
  define one where "one = (if rm_type m = ''video'' then send_rd_video B q t lang vl (dir @ ''/video'') acc w
      else if rm_type m = ''image'' \<or> rm_type m = ''gif'' then send_rd_image B T q t lang il (dir @ ''/img'') m acc w
      else (acc, w))"
  obtain acc' w2 where o: "one = (acc', w2)" by fastforce
  then have "quiet \<alpha> p w w2"
    by (auto simp: one_def quiet_refl split: if_splits dest: rd_video_quiet [OF assms] rd_image_quiet)
  moreover have "(r, w1) = (if rs_handled acc \<ge> mx then (acc, w) else send_rd_media B T q t lang limits dir its acc' w2)"
    using Cons.prems [unfolded l send_rd_media.simps Let_def split_beta fst_conv snd_conv one_def [symmetric]] o
    by (auto simp: l)
  ultimately show ?case using Cons.IH [of acc' w2] quiet_trans quiet_refl by (auto split: if_splits)
qed (simp add: quiet_refl)

lemma mk_dir_quiet: "quiet \<alpha> p w (mk_dir dir w)"
  by (simp add: quiet_def mk_dir_def status_def)

lemma media_quiet:
  assumes "lawful_redis (b_redis B) \<alpha>" "sendRedditMedia B T q t dir lang w = (r, w1)"
  shows "quiet \<alpha> p w w1"
proof (cases "rt_media t = []")
  case False
  let ?acc = "\<lparr>rs_images = [], rs_any = False, rs_bytes = 0, rs_handled = 0\<rparr>"
  obtain mx w2 where 2: "rt_int B ''reddit.max_media_items'' 10 w = (mx, w2)" by fastforce
  obtain vl w3 where 3: "rt_max_mb B ''reddit'' w2 = (vl, w3)" by fastforce
  obtain il w4 where 4: "rt_int B ''global.document_limit_mb'' (c_SendDocumentLimitMB (b_cfg B)) w3 = (il, w4)" by fastforce
  let ?w = "mk_dir (dir @ ''/video'') (mk_dir (dir @ ''/img'') w4)"
  obtain acc w5 where 5: "send_rd_media B T q t lang (mx, vl, il) dir (rt_media t) ?acc ?w = (acc, w5)" by fastforce
  note q4 = quiet_trans [OF quiet_trans [OF quiet_reads(1) [OF assms(1) 2, of p] quiet_reads(3) [OF assms(1) 3]] quiet_reads(1) [OF assms(1) 4]]
  note q5 = quiet_trans [OF quiet_trans [OF q4 quiet_trans [OF mk_dir_quiet mk_dir_quiet]] rd_media_quiet [OF assms(1) 5]]
  have "quiet \<alpha> p w5 w1"
    using False assms(2) 2 3 4 5
    by (auto simp: sendRedditMedia_def Let_def quiet_refl split: list.splits prod.splits sum.splits
        dest: send_quiet [where p = p and \<alpha> = \<alpha>] quiet_emit [where p = p and \<alpha> = \<alpha>])
  with q5 show ?thesis by (rule quiet_trans)
qed (use assms(2) in \<open>simp add: sendRedditMedia_def quiet_refl\<close>)


subsection \<open>How the job ends\<close>

text \<open>A delivered article without media replaced the status message.\<close>

lemma deliver_loose:
  assumes "lawful_redis (b_redis B) \<alpha>" "deliverRedditArticle B T p t lang sent w = (r, w1)"
  shows "\<exists>evs. view \<alpha> (w_st w1) = view \<alpha> (w_st w) \<and> w_db w1 = w_db w \<and> status p w1 = status p w @ evs
    \<and> (r = None \<and> \<not> sent \<longrightarrow> (\<exists>e. evs = [e] \<and> closing p e))"
proof -
  obtain on w2 where 2: "rt_bool B ''reddit.telegraph_enabled'' True w = (on, w2)" by fastforce
  note q2 = quiet_view [OF quiet_reads(2) [OF assms(1) 2, of p]]
  obtain x w3 where 3: "publishRedditArticle B T p t lang w2 = (x, w3)" by fastforce
  note q3 = quiet_trans [OF q2 publish_quiet [OF assms(1) 3]]
  obtain tr w4 where 4: "rt_bool B ''reddit.telegraph_translate'' True w3 = (tr, w4)" by fastforce
  note q4 = quiet_trans [OF q3 quiet_view [OF quiet_reads(2) [OF assms(1) 4]]]
  show ?thesis
    using assms(2) 2 3 4 q2 q3 q4
    by (auto simp: deliverRedditArticle_def Let_def emit_def quiet_def status_def closing_def
        split: if_splits sum.splits prod.splits)
qed

lemma finish_answered:
  assumes "view \<alpha> (w_st w1) = view \<alpha> (w_st w)" "w_db w1 = w_db w" "status p w1 = status p w @ evs"
    and "err = None \<and> \<not> sent \<longrightarrow> (\<exists>e. evs = [e] \<and> closing p e)" "dp_platform p = ''reddit''"
  shows "answered (view \<alpha>) B p w (finish_reddit B p (sent, z) err w1)"
proof -
  have c: "closing p (Edit (dp_chat p) (dp_message p) (Loc ''reddit.no_content'' l []) [])" for l
    by (simp add: loc_closes)
  note e = answered_end [where \<alpha> = "view \<alpha>" and p = p and w = w and B = B]
  have f: "answered (view \<alpha>) B p w (fail_job B p ''reddit'' 0 y w1)"
    "answered (view \<alpha>) B p w (refuse_job B p ''reddit'' (Loc ''reddit.no_content'' (lang_of p) []) 0 y w1)" for y
    using assms(1-3,5) c unfolding fail_job_def refuse_job_def
    by (auto intro!: e [where evs = evs and st = "''failed''"] intro: error_text_closes)
  have d: "answered (view \<alpha>) B p w (done_job B p ''reddit'' z y w1)"
    "answered (view \<alpha>) B p w (None, book B p ''reddit'' ''completed'' z y
        (say B p (userFacingError B (lang_of p) (dp_user p) (Some y)) w1))" for y
    using assms(1-3,5) unfolding done_job_def
    by (auto intro!: e [where evs = evs and st = "''completed''"] intro: error_text_closes erase_closes)
  show ?thesis
  proof (cases "err = None \<and> \<not> sent")
    case True
    with assms(4) obtain ev where "evs = [ev]" "closing p ev" by blast
    with True assms show ?thesis
      by (auto simp: finish_reddit_def intro!: e [where evs = "[]" and e = ev and st = "''completed''"])
  next
    case False
    with f d show ?thesis by (auto simp: finish_reddit_def split: option.splits)
  qed
qed

lemma fetch_quiet:
  assumes "lawful_redis (b_redis B) \<alpha>" "fetch_thread B T i w = (r, w1)"
  shows "quiet \<alpha> p w w1"
proof -
  obtain n w2 where n: "redditMaxComments B w = (n, w2)" by fastforce
  then have q: "quiet \<alpha> p w w2" unfolding redditMaxComments_def by (rule quiet_reads(1) [OF assms(1)])
  with assms(2) n have "w1 = w2 \<or> w1 = noted (Exec [''GET'', thread_url i n]) w2"
    by (auto simp: fetch_thread_def Let_def split: if_splits)
  with q quiet_trans [OF q quiet_noted [of p "Exec [''GET'', thread_url i n]"]] show ?thesis by auto
qed

lemma timeout_quiet:
  assumes "lawful_redis (b_redis B) \<alpha>"
  shows "quiet \<alpha> p w (rd_timeout B w)"
proof -
  obtain n w1 where n: "rt_int B ''reddit.timeout_sec'' (c_DownloadTimeoutSeconds (b_cfg B)) w = (n, w1)" by fastforce
  from quiet_reads(1) [OF assms n, of p] n show ?thesis by (simp add: rd_timeout_def)
qed

lemma reddit_answered:
  assumes "lawful_redis (b_redis B) \<alpha>" "dp_platform p = ''reddit''"
  shows "answered (view \<alpha>) B p w (runReddit B T p w)"
proof (cases "ExtractThreadID (dp_url p) = []")
  case True
  show ?thesis
    unfolding runReddit_def Let_def if_P [OF True]
    by (rule answered_said, rule answered_fail) (simp_all add: quiet_refl assms(2))
next
  case False
  let ?i = "ExtractThreadID (dp_url p)"
  have c: "closing p (Edit (dp_chat p) (dp_message p) (Loc ''errors.not_found'' l []) [])"
    "closing p (Edit (dp_chat p) (dp_message p) (Loc ''errors.rate_limited'' l []) [])" for l
    by (simp_all add: loc_closes)
  show ?thesis
    unfolding runReddit_def Let_def if_not_P [OF False]
  proof (rule answered_said, rule answered_temp, goal_cases)
    case (1 dir w)
    obtain r w2 where 2: "fetch_thread B T ?i (rd_timeout B (rd_timeout B w)) = (r, w2)" by fastforce
    note q2 = quiet_view [OF quiet_trans [OF quiet_trans [OF timeout_quiet timeout_quiet] fetch_quiet], OF assms(1,1,1) 2, of p]
    show ?case
    proof (cases r)
      case (Inl ek)
      obtain e k where "ek = (e, k)" by fastforce
      with Inl 2 show ?thesis
        using answered_fail [OF q2] answered_refuse [OF q2 _ c(1)] answered_refuse [OF q2 _ c(2)] assms(2) by simp
    next
      case (Inr t)
      let ?w = "cacheRedditThread B T ?i t w2"
      have q: "quiet (view \<alpha>) p w ?w"
        unfolding cacheRedditThread_def by (rule quiet_trans [OF q2 quiet_set_key(2) [OF assms(1) other_keys(1)]])
      obtain sent z w3 where 3: "sendRedditMedia B T p t dir (lang_of p) ?w = ((sent, z), w3)" by (metis prod.exhaust)
      note q3 = quiet_trans [OF q quiet_view [OF media_quiet [OF assms(1) 3]]]
      obtain err w4 where 4: "deliverRedditArticle B T p t (lang_of p) sent w3 = (err, w4)" by fastforce
      from deliver_loose [OF assms(1) 4] obtain evs where "view \<alpha> (w_st w4) = view \<alpha> (w_st w3)" "w_db w4 = w_db w3"
        "status p w4 = status p w3 @ evs" "err = None \<and> \<not> sent \<longrightarrow> (\<exists>e. evs = [e] \<and> closing p e)" by blast
      with q3 have "answered (view \<alpha>) B p w (finish_reddit B p (sent, z) err w4)"
        by (intro finish_answered [OF _ _ _ _ assms(2), of _ w4 _ evs]) (simp_all add: quiet_def)
      with 2 3 4 Inr show ?thesis by simp
    qed
  qed
qed


text \<open>Nothing but the notice of the cancellation, or a run; then the release.\<close>

lemma reddit_shape:
  assumes "lawful_redis (b_redis B) \<alpha>" "unmarshal_download body = Some p" "handleReddit B T body w = (r, w')"
  defines "q \<equiv> p\<lparr>dp_platform := ''reddit''\<rparr>"
  obtains (cancelled) w1 where "fst (checkCancelled B q w)" "r = None" "w' = releaseLock B q w1" "view \<alpha> (w_st w1) = view \<alpha> (w_st w)"
  | (ran) w1 where "\<not> fst (checkCancelled B q w)" "answered (view \<alpha>) B q w (r, w1)" "w' = releaseLock B q w1"
proof -
  obtain c w1 where c: "checkCancelled B q w = (c, w1)" by fastforce
  have run: "release_after B q (unless_cancelled B q (runReddit B T q)) w = (r, w')"
    using assms(2,3) by (simp add: handleReddit_def q_def Let_def)
  show thesis
  proof (cases c)
    case True
    then obtain w2 where w2: "quiet \<alpha> q w w2" "w1 = say B q (Loc ''download.cancelled'' (lang_of q) []) w2"
      using cancel_quiet(2) [OF assms(1) c] by blast
    from w2 run c True show thesis
      by (intro cancelled [of w1]) (auto simp: release_after_def unless_cancelled_def quiet_def)
  next
    case False
    obtain r1 w2 where x: "runReddit B T q w1 = (r1, w2)" by fastforce
    with run c False have "r = r1" "w' = releaseLock B q w2"
      by (simp_all add: release_after_def unless_cancelled_def)
    with answered_prefix [OF quiet_view [OF cancel_quiet(1) [OF assms(1) c False]] reddit_answered [OF assms(1)], of T]
      x c False show thesis by (intro ran [of w2]) (simp_all add: q_def)
  qed
qed

lemma reddit_lock:
  assumes "lawful_redis (b_redis B) \<alpha>" "reliable_redis (b_redis B)" "b_prefix B = []"
    and "unmarshal_download body = Some p" "handleReddit B T body w = (r, w')"
  defines "l \<equiv> lock_holder [] (\<alpha> (w_st w))"
  shows "lock_holder [] (\<alpha> (w_st w')) = (if dp_lock_token p \<noteq> [] \<and> dp_lock_scene p \<noteq> []
      \<and> l (dp_user p) = Some (RText (lock_value (dp_lock_scene p) (dp_lock_token p))) then l(dp_user p := None) else l)"
proof -
  from assms(1,4,5) obtain w1 where "view \<alpha> (w_st w1) = view \<alpha> (w_st w)" "w' = releaseLock B (p\<lparr>dp_platform := ''reddit''\<rparr>) w1"
    by (cases rule: reddit_shape) (auto simp: answered_def Let_def)
  with release_job_lock [OF assms(1,2), of "p\<lparr>dp_platform := ''reddit''\<rparr>" w1] locks_view_holder [of "\<alpha> (w_st w1)" "\<alpha> (w_st w)"] assms(3)
  show ?thesis by (simp add: l_def Let_def)
qed

text \<open>
  C7. A Reddit job of the main bot (whose keys have no prefix) that was not cancelled ends as every download must, with a Redis that
  answers every call and a database that answers and knows the bot: its user's lock is given back when it still is the job's,
  and no other lock is touched; when it is done it has booked exactly one download of its user, chat and link, completed or
  failed, and its status message was deleted or shows the outcome (the article itself, when the thread had nothing else to
  send); when it is to be run again it has booked nothing.
\<close>

theorem reddit_job_ends_properly:
  assumes "lawful_redis (b_redis B) \<alpha>" "reliable_redis (b_redis B)" "b_prefix B = []"
    and "unmarshal_download body = Some p" "handleReddit B T body w = (r, w')" "k_fault B = (\<lambda>_. None)"
    and "''saveinator'' \<in> set (d_bots (w_db w))" "\<not> fst (checkCancelled B (p\<lparr>dp_platform := ''reddit''\<rparr>) w)"
  defines "l \<equiv> lock_holder [] (\<alpha> (w_st w))" and "old \<equiv> d_downloads (w_db w)" and "new \<equiv> d_downloads (w_db w')"
  shows "lock_holder [] (\<alpha> (w_st w')) = (if dp_lock_token p \<noteq> [] \<and> dp_lock_scene p \<noteq> []
        \<and> l (dp_user p) = Some (RText (lock_value (dp_lock_scene p) (dp_lock_token p))) then l(dp_user p := None) else l)
    \<and> (case r of
        None \<Rightarrow> (\<exists>row. new = old @ [row] \<and> dl_user row = dp_user p \<and> dl_chat row = dp_chat p
            \<and> dl_url row = dp_url p \<and> dl_platform row = ''REDDIT'' \<and> dl_status row \<in> {''COMPLETED'', ''FAILED''})
          \<and> (\<exists>evs e. status p w' = status p w @ evs @ [e] \<and> closing p e)
      | Some e \<Rightarrow> new = old \<and> (\<exists>n. status p w' = status p w @ replicate n (downloading p)))"
  (is "?lock \<and> ?outcome")
proof
  show ?lock unfolding l_def by (rule reddit_lock [OF assms(1-5)])
  let ?q = "p\<lparr>dp_platform := ''reddit''\<rparr>"
  have pl: "toDBPlatform ''reddit'' = ''REDDIT''" "''REDDIT'' \<in> set platform_enum" by code_simp+
  have cc: "concerns ?q = concerns p" by (rule ext) (auto elim!: concerns.elims)
  then have c: "closing ?q = closing p" "status ?q w1 = status p w1" "downloading ?q = downloading p" for w1 :: "'a wworld"
    by (auto simp: closing_def status_def downloading_def lang_of_def intro!: ext)
  from assms(1,4,5) show ?outcome
  proof (cases rule: reddit_shape)
    case cancelled
    with assms(8) show ?thesis by simp
  next
    case (ran w1)
    have w: "w_db w' = w_db w1" "status p w' = status p w1"
      using ran(3) by (auto simp: releaseLock_def status_def)
    show ?thesis
      using ran(2) w c assms(6) record_row [OF assms(7), of "''reddit''"] pl
      by (cases r) (fastforce simp: answered_def Let_def old_def new_def)+
  qed
qed

subsection \<open>Pieces of a text\<close>

text \<open>The first bytes of a rune of two, three and four bytes.\<close>

definition rune_two :: "nat \<Rightarrow> nat \<Rightarrow> bool" where
  "rune_two a b \<longleftrightarrow> 0xC2 \<le> a \<and> a \<le> (0xDF::nat) \<and> cont b"

definition rune_three :: "nat \<Rightarrow> nat \<Rightarrow> nat \<Rightarrow> bool" where
  "rune_three a b c \<longleftrightarrow> 0xE0 \<le> a \<and> a \<le> (0xEF::nat) \<and> (if a = 0xE0 then 0xA0 \<le> b \<and> b \<le> 0xBF
     else if a = 0xED then 0x80 \<le> b \<and> b \<le> 0x9F else cont b) \<and> cont c"

definition rune_four :: "nat \<Rightarrow> nat \<Rightarrow> nat \<Rightarrow> nat \<Rightarrow> bool" where
  "rune_four a b c d \<longleftrightarrow> 0xF0 \<le> a \<and> a \<le> (0xF4::nat) \<and> (if a = 0xF0 then 0x90 \<le> b \<and> b \<le> 0xBF
     else if a = 0xF4 then 0x80 \<le> b \<and> b \<le> 0x8F else cont b) \<and> cont c \<and> cont d"

fun rune_shape :: "nat list \<Rightarrow> nat" where
  "rune_shape (a # b # c # d # bs) = (if a < 0x80 then 1 else if rune_two a b then 2 else if rune_three a b c then 3 else if rune_four a b c d then 4 else 0)"
| "rune_shape [a, b, c] = (if a < 0x80 then 1 else if rune_two a b then 2 else if rune_three a b c then 3 else 0)"
| "rune_shape [a, b] = (if a < 0x80 then 1 else if rune_two a b then 2 else 0)"
| "rune_shape [a] = (if a < 0x80 then 1 else 0)"
| "rune_shape [] = 0"

lemma rune_len_shape: "rune_len bs = rune_shape bs"
  by (cases bs rule: rune_shape.cases) (simp_all add: rune_len_def rune_two_def rune_three_def rune_four_def)

lemma rune_shape_take:
  assumes "0 < rune_shape bs"
  shows "rune_shape bs \<le> length bs \<and> rune_shape (take (rune_shape bs) bs @ cs) = rune_shape bs"
proof -
  have not: "rune_two a b \<Longrightarrow> \<not> a < 0x80" "rune_three a b c \<Longrightarrow> \<not> a < 0x80" "rune_four a b c d \<Longrightarrow> \<not> a < 0x80"
     "rune_three a b c \<Longrightarrow> \<not> rune_two a x" "rune_four a b c d \<Longrightarrow> \<not> rune_two a x" "rune_four a b c d \<Longrightarrow> \<not> rune_three a x y" for a b c d x y
    by (auto simp: rune_two_def rune_three_def rune_four_def)
  have cases: "rune_shape (a # cs) = 1" if "a < 128" for a cs using that by (cases "a # cs" rule: rune_shape.cases) auto
  have c2: "rune_shape (a # b # cs) = 2" if "rune_two a b" for a b cs using that not(1) by (cases "a # b # cs" rule: rune_shape.cases) auto
  have c3: "rune_shape (a # b # c # cs) = 3" if "rune_three a b c" for a b c cs using that not(2,4) by (cases "a # b # c # cs" rule: rune_shape.cases) auto
  have c4: "rune_shape (a # b # c # d # cs) = 4" if "rune_four a b c d" for a b c d cs using that not(3,5,6) by auto
  from assms consider a ds where "bs = a # ds" "a < 128" | a b ds where "bs = a # b # ds" "rune_two a b"
    | a b c ds where "bs = a # b # c # ds" "rune_three a b c" | a b c d ds where "bs = a # b # c # d # ds" "rune_four a b c d"
    by (cases bs rule: rune_shape.cases) (auto split: if_splits)
  then show ?thesis
    by cases (simp_all add: cases c2 c3 c4 del: rune_shape.simps)
qed
definition whole :: "string \<Rightarrow> bool" where
  "whole x \<longleftrightarrow> x \<noteq> [] \<and> rune_len (List.map code_of x) = length x"

lemma rune_len_at_most: "rune_len bs \<le> 4"
  by (cases bs rule: rune_shape.cases) (simp_all add: rune_len_shape)

lemma runes_whole: "x \<in> set (runes s) \<Longrightarrow> whole x"
proof (induction s rule: runes.induct)
  case (2 c s)
  let ?bs = "List.map code_of (take 4 (c # s))"
  let ?n = "rune_len ?bs"
  have bad: "whole bad_rune" by code_simp
  have t: "whole (take ?n (c # s))" if n: "?n \<noteq> 0"
  proof -
    have le: "?n \<le> length ?bs" and eq: "rune_len (take ?n ?bs) = ?n"
      using rune_shape_take [of ?bs "[]"] n by (simp_all add: rune_len_shape)
    have "take n (List.map code_of (take 4 xs)) = List.map code_of (take n xs)" if "n \<le> 4" for n xs
      using that by (simp add: take_map min_absorb1)
    from this [OF rune_len_at_most] have "take ?n ?bs = List.map code_of (take ?n (c # s))" .
    moreover from le have "?n \<le> length (c # s)" by simp
    ultimately show ?thesis using eq n by (simp add: whole_def min_absorb2)
  qed
  from 2(3) consider "?n = 0" "x = bad_rune \<or> x \<in> set (runes s)"
    | "?n \<noteq> 0" "x = take ?n (c # s) \<or> x \<in> set (runes (drop ?n (c # s)))"
    by (cases "?n = 0") (simp_all add: Let_def)
  then show ?case using 2(1,2) bad t by cases (auto simp: Let_def)
qed simp

lemma runes_concat: "(\<forall>x \<in> set xs. whole x) \<Longrightarrow> runes (concat xs) = xs"
proof (induction xs)
  case (Cons x xs)
  then obtain c y where x: "x = c # y" and w: "rune_len (List.map code_of x) = length x"
    by (cases x) (auto simp: whole_def)
  have le: "length x \<le> 4" using rune_len_at_most [of "List.map code_of x"] w by simp
  have "take 4 (x @ concat xs) = x @ take (4 - length x) (concat xs)" using le by simp
  moreover have "rune_len (List.map code_of x @ cs) = length x" for cs
    using rune_shape_take [of "List.map code_of x" cs] w x by (simp add: rune_len_shape)
  ultimately have n: "rune_len (List.map code_of (take 4 (x @ concat xs))) = length x" by simp
  have "runes (x @ concat xs) = take (length x) (x @ concat xs) # runes (drop (length x) (x @ concat xs))"
    using n [unfolded x append_Cons] runes.simps(2) [of c "y @ concat xs"] by (simp add: x Let_def)
  with Cons show ?case by simp
qed simp

lemma chunk_loop_concat: "concat (chunk_loop mx r) = r"
  by (induction mx r rule: chunk_loop.induct) (subst chunk_loop.simps, auto)

lemma chunk_loop_bound: "0 < mx \<Longrightarrow> c \<in> set (chunk_loop mx r) \<Longrightarrow> c \<noteq> [] \<and> length c \<le> mx"
proof (induction mx r rule: chunk_loop.induct)
  case (1 mx r)
  show ?case
  proof (cases "length r \<le> mx")
    case True
    with 1(3) show ?thesis by (subst (asm) chunk_loop.simps) (auto split: if_splits)
  next
    case False
    with 1(2,3) have "c = take (cut_place mx r) r \<or> c \<in> set (chunk_loop mx (drop (cut_place mx r) r))"
      by (subst (asm) chunk_loop.simps) auto
    with 1(1,2) cut_place_bounds [of mx r] False show ?thesis by auto
  qed
qed


lemma chunks_keep_runes: "concat (List.map runes (chunkRunes s mx)) = runes s"
proof (cases "length (runes s) \<le> mx")
  case False
  let ?cs = "chunk_loop mx (runes s)"
  have "\<forall>c \<in> set ?cs. \<forall>x \<in> set c. whole x"
  proof (intro ballI)
    fix c x assume "c \<in> set ?cs" "x \<in> set c"
    then have "x \<in> set (concat ?cs)" by auto
    then show "whole x" unfolding chunk_loop_concat by (rule runes_whole)
  qed
  then have "List.map (\<lambda>c. runes (concat c)) ?cs = ?cs" by (intro map_idI runes_concat) blast
  with False chunk_loop_concat [of mx "runes s"] show ?thesis by (simp add: chunkRunes_def Let_def comp_def)
qed (simp add: chunkRunes_def)

lemma chunks_bounded:
  assumes "0 < mx" "c \<in> set (chunkRunes s mx)"
  shows "length (runes c) \<le> mx"
proof (cases "length (runes s) \<le> mx")
  case False
  with assms(2) obtain d where d: "c = concat d" "d \<in> set (chunk_loop mx (runes s))"
    by (auto simp: chunkRunes_def Let_def)
  have "\<forall>x \<in> set d. whole x"
  proof
    fix x assume "x \<in> set d"
    with d have "x \<in> set (concat (chunk_loop mx (runes s)))" by auto
    then show "whole x" unfolding chunk_loop_concat by (rule runes_whole)
  qed
  with d chunk_loop_bound [OF assms(1) d(2)] show ?thesis by (simp add: runes_concat)
qed (use assms(2) in \<open>simp add: chunkRunes_def\<close>)

text \<open>
  C10. A text of any length is translated in pieces no longer than the translator takes: two translators that agree on texts of up to
  3500 runes give the same thread, so nothing longer is ever asked; and the pieces of a text are the text, rune by rune.
\<close>

theorem translator_asked_short_texts:
  assumes "\<And>s. length (runes s) \<le> maxChunk \<Longrightarrow> g s = g' s"
  shows "translateThread g t = translateThread g' t
    \<and> (\<forall>s. concat (List.map runes (chunkRunes s maxChunk)) = runes s)"
proof -
  have "0 < maxChunk" by (simp add: maxChunk_def)
  then have "List.map g (concat (List.map (\<lambda>p. chunkRunes p maxChunk) ps))
      = List.map g' (concat (List.map (\<lambda>p. chunkRunes p maxChunk) ps))" for ps
    by (intro map_cong [OF refl] assms) (auto dest: chunks_bounded)
  then have "translateBlock g = translateBlock g'" unfolding translateBlock_def fun_eq_iff by metis
  then show ?thesis by (simp add: translateThread_def chunks_keep_runes)
qed


subsection \<open>The page of a thread\<close>

text \<open>The page with the first \<open>k\<close> comments, those with the highest score.\<close>

definition page_with :: "thread \<Rightarrow> string \<Rightarrow> string \<Rightarrow> nat \<Rightarrow> tnode list" where
  "page_with t heading source k =
     post_nodes t source @ (if heading \<noteq> [] \<and> rt_comments t \<noteq> []
       then [HR, Heading heading] @ concat (List.map CommentNodes (take k (rt_comments t))) else [])"

lemma lastNodeTag_snoc:
  "lastNodeTag (xs @ [x]) t = (if tag_of x = t then Some (length xs) else lastNodeTag xs t)"
proof -
  have "filter (\<lambda>i. tag_of ((xs @ [x]) ! i) = t) (rev [0..<length xs]) = filter (\<lambda>i. tag_of (xs ! i) = t) (rev [0..<length xs])"
    by (rule filter_cong) (auto simp: nth_append)
  then show ?thesis by (simp add: lastNodeTag_def)
qed

lemma lastNodeTag_none: "lastNodeTag ns t = None \<longleftrightarrow> (\<forall>n \<in> set ns. tag_of n \<noteq> t)"
proof (induction ns rule: rev_induct)
  case Nil
  show ?case by (simp add: lastNodeTag_def)
qed (auto simp: lastNodeTag_snoc)

lemma lastNodeTag_tag: "lastNodeTag ns t = Some i \<Longrightarrow> tag_of (ns ! i) = t"
proof (induction ns rule: rev_induct)
  case Nil
  then show ?case by (simp add: lastNodeTag_def)
qed (auto simp: lastNodeTag_snoc nth_append dest: lastNodeTag_bound split: if_splits)

lemma post_tags: "n \<in> set (post_nodes t source) \<Longrightarrow> tag_of n \<in> {''p'', ''hr''}" "HR \<in> set (post_nodes t source)"
  by (auto simp: post_nodes_def tag_of_def MetaLine_def SourceLine_def HR_def Paragraph_def Let_def split: if_splits)

lemma page_zero_tags: "n \<in> set (page_with t heading source 0) \<Longrightarrow> tag_of n \<noteq> ''blockquote''"
  "HR \<in> set (page_with t heading source k)"
proof -
  have h: "tag_of HR = ''hr''" "tag_of (Heading heading) = ''h3''" by (simp_all add: HR_def Heading_def tag_of_def)
  show "n \<in> set (page_with t heading source 0) \<Longrightarrow> tag_of n \<noteq> ''blockquote''"
    using post_tags(1) [of n t source] h by (auto simp: page_with_def split: if_splits)
  show "HR \<in> set (page_with t heading source k)" using post_tags(2) [of t source] by (simp add: page_with_def)
qed

lemma page_longer: "1 < length (page_with t heading source k)"
  by (simp add: page_with_def post_nodes_def)

text \<open>A turn takes the last comment with its header line.\<close>

lemma trim_turn_comment:
  assumes "sizeOf (page_with t heading source (Suc k)) > maxContentLen" "k < length (rt_comments t)" "heading \<noteq> []"
  shows "trim_turn (page_with t heading source (Suc k)) = Some (page_with t heading source k)"
proof -
  obtain h q where c: "CommentNodes (rt_comments t ! k) = [h, q]" "tag_of h = ''p''" "tag_of q = ''blockquote''"
    by (auto simp: CommentNodes_def tag_of_def Let_def)
  have ne: "rt_comments t \<noteq> []" using assms(2) by auto
  have p: "page_with t heading source (Suc k) = (page_with t heading source k @ [h]) @ [q]"
    using assms(2,3) ne c(1) by (simp add: page_with_def take_Suc_conv_app_nth)
  let ?n = "length (page_with t heading source k)"
  have "remove_at (Suc ?n) ((page_with t heading source k @ [h]) @ [q]) = page_with t heading source k @ [h]"
    "remove_at ?n (page_with t heading source k @ [h]) = page_with t heading source k" by (simp_all add: remove_at_def)
  with assms(1) c(2,3) show ?thesis
    unfolding trim_turn_def p by (simp add: lastNodeTag_snoc [of "page_with t heading source k @ [h]" q, simplified] Let_def)
qed

lemma subseq_remove_at: "subseq (remove_at i ns) ns"
proof -
  have "subseq (drop (Suc i) ns) (drop i ns)"
    using suffix_imp_subseq [OF suffix_drop [of 1 "drop i ns"]] by simp
  then have "subseq (take i ns @ drop (Suc i) ns) (take i ns @ drop i ns)" by (simp only: subseq_append')
  then show ?thesis by (simp add: remove_at_def)
qed

text \<open>Without comments paragraphs go, from the end; the rule is always there.\<close>

lemma hr_alone_fits: "sizeOf [HR] \<le> maxContentLen"
proof -
  have "quote_len ''hr'' = 4" by code_simp
  then show ?thesis by (simp add: sizeOf_def HR_def list_json_def maxContentLen_def del: quote_len.simps)
qed

lemma set_remove_at: "i < length ns \<Longrightarrow> set ns = insert (ns ! i) (set (remove_at i ns))"
  unfolding remove_at_def by (metis Un_insert_right id_take_nth_drop list.simps(15) set_append)

lemma trim_post:
  assumes "\<forall>n \<in> set ns. tag_of n \<noteq> ''blockquote''" "HR \<in> set ns"
  shows "subseq (trim_article ns) ns
    \<and> (sizeOf (trim_article ns) \<le> maxContentLen \<or> (\<forall>n \<in> set (trim_article ns). tag_of n \<noteq> ''p''))"
  using assms
proof (induction ns rule: trim_article.induct)
  case (1 ns)
  have q: "lastNodeTag ns ''blockquote'' = None" using 1(2) by (simp add: lastNodeTag_none)
  show ?case
  proof (cases "trim_turn ns")
    case None
    have "sizeOf ns \<le> maxContentLen \<or> (\<forall>n \<in> set ns. tag_of n \<noteq> ''p'')"
    proof (cases "length ns > 1")
      case True
      with None q show ?thesis by (auto simp: trim_turn_def lastNodeTag_none [symmetric] split: if_splits)
    next
      case False
      with 1(3) have "ns = [HR]" by (cases ns) auto
      then show ?thesis using hr_alone_fits by simp
    qed
    with None show ?thesis by (subst (1 2 3) trim_article.simps) simp
  next
    case (Some ns')
    with q obtain i where i: "lastNodeTag ns ''p'' = Some i" "ns' = remove_at i ns"
      by (auto simp: trim_turn_def split: if_splits)
    note b = lastNodeTag_bound [OF i(1)]
    have "tag_of HR \<noteq> ''p''" by (simp add: HR_def tag_of_def)
    with lastNodeTag_tag [OF i(1)] have "HR \<noteq> ns ! i" by metis
    with set_remove_at [OF b] i(2) 1(2,3) have "HR \<in> set ns'" "\<forall>n \<in> set ns'. tag_of n \<noteq> ''blockquote''" by auto
    from 1(1) [OF Some this(2,1)] Some show ?thesis
      by (subst (1 2 3) trim_article.simps) (auto simp: i(2) intro: subseq_order.trans [OF _ subseq_remove_at])
  qed
qed

text \<open>Comments go one by one.\<close>

lemma trim_comments:
  assumes "k \<le> length (rt_comments t)"
  shows "\<exists>j \<le> k. (\<forall>i. j < i \<and> i \<le> k \<longrightarrow> sizeOf (page_with t heading source i) > maxContentLen)
     \<and> trim_article (page_with t heading source k) = trim_article (page_with t heading source j)
     \<and> (j = 0 \<or> sizeOf (page_with t heading source j) \<le> maxContentLen)"
  using assms
proof (induction k)
  case (Suc k)
  let ?p = "page_with t heading source"
  show ?case
  proof (cases "sizeOf (?p (Suc k)) \<le> maxContentLen")
    case True
    then show ?thesis by (intro exI [of _ "Suc k"]) auto
  next
    case False
    have "trim_article (?p (Suc k)) = trim_article (?p k)"
    proof (cases "heading = []")
      case True
      then show ?thesis by (simp add: page_with_def)
    next
      case h: False
      from trim_turn_comment [of t heading source k] False h Suc.prems have "trim_turn (?p (Suc k)) = Some (?p k)" by simp
      then show ?thesis by (subst trim_article.simps) simp
    qed
    moreover from Suc obtain j where "j \<le> k" "\<forall>i. j < i \<and> i \<le> k \<longrightarrow> sizeOf (?p i) > maxContentLen"
      "trim_article (?p k) = trim_article (?p j)" "j = 0 \<or> sizeOf (?p j) \<le> maxContentLen" by auto
    ultimately show ?thesis using False by (intro exI [of _ j]) (auto simp: le_Suc_eq)
  qed
qed simp

lemma title_short: "length (runes (truncate_runes s maxTitleLen)) \<le> maxTitleLen"
proof (cases "length (runes s) \<le> maxTitleLen")
  case False
  let ?r = "take (maxTitleLen - 1) (runes s) @ [[CHR 0xE2, CHR 0x80, CHR 0xA6]]"
  have "whole [CHR 0xE2, CHR 0x80, CHR 0xA6]" by code_simp
  then have "runes (concat ?r) = ?r" by (intro runes_concat) (auto dest: in_set_takeD runes_whole)
  with False show ?thesis by (simp add: truncate_runes_def Let_def maxTitleLen_def)
qed (simp add: truncate_runes_def)

text \<open>
  C8. A page fits Telegraph and keeps as much of the thread as it can: its title has one to 256 characters; its body is
  the post with the first \<open>k\<close> comments, each with its header line, where one comment more is too much; only when no comment at all is
  left the post itself is cut, by paragraphs, until it fits or no paragraph is left.
\<close>

theorem article_keeps_what_fits:
  assumes "Article t heading source = (title, nodes)"
  defines "page \<equiv> page_with t heading source"
  shows "title \<noteq> [] \<and> length (runes title) \<le> 256
    \<and> (\<exists>k \<le> length (rt_comments t).
         (\<forall>i. k < i \<and> i \<le> length (rt_comments t) \<longrightarrow> sizeOf (page i) > 65536)
         \<and> (sizeOf (page k) \<le> 65536 \<and> nodes = page k
            \<or> k = 0 \<and> subseq nodes (page 0) \<and> (sizeOf nodes \<le> 65536 \<or> (\<forall>n \<in> set nodes. tag_of n \<noteq> ''p''))))"
proof -
  have n: "nodes = trim_article (page (length (rt_comments t)))"
    using assms(1) by (auto simp: Article_def page_def page_with_def Let_def)
  have "length (runes ''Reddit'') = 6" by code_simp
  then have ti: "title \<noteq> []" "length (runes title) \<le> 256"
    using assms(1) title_short [of "rt_title t"]
    by (auto simp: Article_def Let_def maxTitleLen_def simp del: runes.simps split: if_splits)
  obtain k where k: "k \<le> length (rt_comments t)" "\<forall>i. k < i \<and> i \<le> length (rt_comments t) \<longrightarrow> sizeOf (page i) > maxContentLen"
    "nodes = trim_article (page k)" "k = 0 \<or> sizeOf (page k) \<le> maxContentLen"
    using trim_comments [of "length (rt_comments t)" t heading source] n by (auto simp: page_def)
  have "sizeOf (page k) \<le> maxContentLen \<Longrightarrow> trim_article (page k) = page k"
    by (subst trim_article.simps) (simp add: trim_turn_def)
  with k trim_post [of "page 0"] page_zero_tags(1) [where t = t and heading = heading and source = source]
    page_zero_tags(2) [where t = t and heading = heading and source = source and k = 0] ti show ?thesis
    unfolding page_def maxContentLen_def by (intro conjI exI [of _ k]) auto
qed


subsection \<open>The translate button\<close>

lemma translate_data_parses:
  assumes "0 < u" "in_int64 u" "CHR '':'' \<notin> set i" "i \<noteq> []"
  shows "ParseTranslate (TranslateCallbackData u i) = Some \<lparr>td_user = u, td_thread = i\<rparr>"
proof -
  have "split_char CHR '':'' (''tg'' @ CHR '':'' # (''tr'' @ CHR '':'' # (itoa u @ CHR '':'' # i))) = [''tg'', ''tr'', itoa u, i]"
    using assms(3) itoa_no_sep(1) [of u]
    by (subst split_char_append, simp, subst split_char_append, simp, subst split_char_append) (simp_all add: split_char_no_sep)
  then show ?thesis using assms by (simp add: ParseTranslate_def TranslateCallbackData_def atoi_itoa)
qed

lemma translate_payload_decodes:
  assumes "in_int64 (tp_chat p)" "in_int64 (tp_user p)" "in_int64 (tp_message p)"
  shows "unmarshal_translate (marshal_translate p) = Some p"
  using assms by (simp add: unmarshal_translate_def marshal_translate_def jobject_defs)

text \<open>
  C9. The button under an article works for the user it was made for and for nobody else. Pressed by that user it asks the
  broker for one job, and what the worker decodes from the job is the button's thread with the user, the chat and the message of the
  press and the user's language; pressed by another user it only answers with an alert. Either way the press is answered
  exactly once.
\<close>

theorem translate_button_serves_owner:
  fixes B :: "('s, 'b) bot_env_scheme" and w :: "('s, 'w) world_scheme"
  assumes "0 < u" "in_int64 u" "CHR '':'' \<notin> set i" "i \<noteq> []" "q_data q = TranslateCallbackData u i"
    and "q_msg q = Some (chat, mid)" "in_int64 chat" "in_int64 mid"
  defines "w' \<equiv> onTelegraphTranslate B q w" and "lang \<equiv> userLang B (u_id (q_from q)) w"
  shows "if u_id (q_from q) = u
    then \<exists>r k alert. w_log w' = w_log w @ [Job r, Answer (q_id q) (Some (Loc k lang [])) alert]
        \<and> rq_type r = TypeTelegraphTranslate \<and> rq_queue r = QueueDownload
        \<and> unmarshal_translate (rq_body r) = Some \<lparr>tp_thread = i, tp_url = [], tp_chat = chat, tp_user = u,
              tp_message = mid, tp_lang = lang\<rparr>
    else w_log w' = w_log w @ [Answer (q_id q) (Some (Loc ''telegraph.not_allowed'' lang [])) True]"
proof -
  note d = translate_data_parses [OF assms(1-4), folded assms(5)]
  show ?thesis
  proof (cases "u_id (q_from q) = u")
    case True
    let ?p = "\<lparr>tp_thread = i, tp_url = [], tp_chat = chat, tp_user = u, tp_message = mid, tp_lang = lang\<rparr>"
    let ?r = "request TypeTelegraphTranslate (marshal_translate ?p) 1 10 QueueDownload"
    have ul: "userLang B u w = lang" using True by (simp add: lang_def)
    have "w_log w' = w_log w @ [Job ?r, Answer (q_id q) (Some (Loc
        (if is_ok (b_answer B (w_log w) (Job ?r)) then ''telegraph.translating'' else ''errors.generic'') lang []))
        (\<not> is_ok (b_answer B (w_log w) (Job ?r)))]"
      using True d assms(6)
      by (simp add: w'_def onTelegraphTranslate_def EnqueueTelegraphTranslate_def translate_request_def emit_def
          ul Let_def is_ok_def split: sum.splits)
    moreover have "unmarshal_translate (marshal_translate ?p) = Some ?p"
      by (rule translate_payload_decodes) (use assms(2,7,8) in simp_all)
    ultimately show ?thesis using True by (simp add: request_def)
  next
    case False
    with d show ?thesis by (simp add: w'_def onTelegraphTranslate_def lang_def Let_def)
  qed
qed

definition sample_press :: "int \<Rightarrow> callback" where
  "sample_press u = (sample_cancel u)\<lparr>q_data := TranslateCallbackData 7 ''1abcde'', q_msg := Some (5, 6)\<rparr>"

lemma translate_button_serves_owner_witness:
  "let w = \<lparr>w_st = empty_db, w_fsm = newFSM, w_log = []\<rparr> in
   w_log (onTelegraphTranslate sample_env (sample_press 8) w)
     = [Answer (q_id (sample_press 8)) (Some (Loc ''telegraph.not_allowed'' (userLang sample_env 8 w) [])) True]"
  using translate_button_serves_owner [of 7 "''1abcde''" "sample_press 8" 5 6 sample_env "\<lparr>w_st = empty_db, w_fsm = newFSM, w_log = []\<rparr>"]
  by (simp add: in_int64_def int64_min_def int64_max_def sample_press_def sample_cancel_def Let_def)

text \<open>A thread and the answers of Reddit and Telegraph for examples.\<close>

definition sample_thread :: thread where
  "sample_thread = \<lparr>rt_id = ''1abcde'', rt_title = ''A title'', rt_author = ''a'', rt_subreddit = ''s'', rt_selftext = ''text'',
     rt_score = 3, rt_num = 1, rt_permalink = ''https://www.reddit.com/r/s/1abcde'', rt_media = [],
     rt_comments = [\<lparr>rc_author = ''b'', rc_score = 2, rc_body = ''yes''\<rparr>]\<rparr>"

definition sample_reddit :: reddit_tools where
  "sample_reddit = \<lparr>rd_get = (\<lambda>evs c u. Inr (429, Inl ''no body'')), rd_image = (\<lambda>evs u. Inl ''timeout''),
     rd_path = (\<lambda>u. Inr u), rd_digest = (\<lambda>u. u), rd_write = (\<lambda>evs p. None), rd_unix = (\<lambda>evs. 0), rd_json = rt_id,
     rd_thread = (\<lambda>s. None), rd_ref_json = fst, rd_ref = (\<lambda>s. None), rd_content = (\<lambda>ns. []),
     rd_telegraph = (\<lambda>evs m ps. Inl ''timeout'')\<rparr>"

lemma article_keeps_what_fits_witness:
  "\<exists>title nodes. Article sample_thread ''Comments'' ''Source'' = (title, nodes) \<and> title \<noteq> [] \<and> length (runes title) \<le> 256
     \<and> (sizeOf nodes \<le> 65536 \<or> (\<forall>n \<in> set nodes. tag_of n \<noteq> ''p''))"
proof -
  obtain title nodes where a: "Article sample_thread ''Comments'' ''Source'' = (title, nodes)" by fastforce
  note p = article_keeps_what_fits [OF a]
  note t = conjunct1 [OF p] conjunct1 [OF conjunct2 [OF p]]
  from conjunct2 [OF conjunct2 [OF p]] have "sizeOf nodes \<le> 65536 \<or> (\<forall>n \<in> set nodes. tag_of n \<noteq> ''p'')"
    by (elim exE conjE disjE) simp_all
  with a t show ?thesis by (intro exI conjI)
qed

lemma translator_asked_short_texts_witness:
  "translateThread (\<lambda>s. s) sample_thread
     = translateThread (\<lambda>s. if length (runes s) \<le> maxChunk then s else []) sample_thread"
  using translator_asked_short_texts [of "\<lambda>s. s" "\<lambda>s. if length (runes s) \<le> maxChunk then s else []" sample_thread] by simp

lemma reddit_done:
  assumes "k_tmp B = (\<lambda>evs pre. Inr dir)"
  shows "fst (runReddit B T p w) = None"
  using assms
  by (simp add: runReddit_def in_temp_dir_def finish_reddit_def fail_job_def refuse_job_def done_job_def Let_def split_beta
      split: sum.splits option.splits prod.splits)

text \<open>A link to a thread, and Reddit says that there were too many requests.\<close>

definition sample_link :: download_payload where
  "sample_link = sample_job\<lparr>dp_url := ''https://redd.it/1abcde''\<rparr>"

lemma reddit_job_ends_properly_witness:
  "let w' = snd (handleReddit (sample_work_env ''e'') sample_reddit (marshal_download sample_link) sample_wworld) in
   lock_holder [] (w_st sample_wworld) 7 = Some (RText (lock_value ''tiktok'' ''t'')) \<and> lock_holder [] (w_st w') 7 = None
   \<and> (\<exists>row. d_downloads (w_db w') = [row] \<and> dl_user row = 7 \<and> dl_platform row = ''REDDIT'')"
proof -
  let ?B = "sample_work_env ''e''"
  let ?q = "sample_link\<lparr>dp_platform := ''reddit''\<rparr>"
  obtain r w' where h: "handleReddit ?B sample_reddit (marshal_download sample_link) sample_wworld = (r, w')" by fastforce
  have u: "unmarshal_download (marshal_download sample_link) = Some sample_link"
    by (rule download_decodes) (simp_all add: sample_link_def sample_job_def zero_download_def in_int64_def int64_min_def int64_max_def)
  have l: "lock_holder [] (w_st sample_wworld) 7 = Some (RText (lock_value ''tiktok'' ''t''))"
    by (simp add: sample_wworld_def AcquireUserLock_def lock_holder_def key_exists_def empty_db_def live_val_def
        live_zset_def visible_def deadline_def hours_def second_def put_val_def)
  have d: "\<not> fst (checkCancelled ?B ?q sample_wworld)"
    by (simp add: checkCancelled_def on_st_def IsDownloadCancelled_def sample_wworld_def key_exists_def live_val_def
        AcquireUserLock_def empty_db_def live_zset_def put_val_def cancelKey_def cancelPrefix_def lockKey_def lockPrefix_def
        key_def sample_link_def sample_job_def)
  have "r = None"
    using h d reddit_done [of ?B "''/t''" sample_reddit ?q, OF sample_work_tiktok(1)]
    by (auto simp: handleReddit_def u release_after_def unless_cancelled_def Let_def split: prod.splits bool.splits
        dest: arg_cong [where f = fst])
  moreover have "dp_user sample_link = 7" "dp_lock_token sample_link = ''t''" "dp_lock_scene sample_link = ''tiktok''"
    by (simp_all add: sample_link_def sample_job_def)
  moreover have "d_bots (w_db sample_wworld) = [''saveinator'']" "d_downloads (w_db sample_wworld) = []"
    by (simp_all add: sample_wworld_def empty_tables_def)
  moreover note reddit_job_ends_properly [of ?B "\<lambda>db. db" "marshal_download sample_link" sample_link sample_reddit sample_wworld r w',
      OF _ _ _ u h _ _ d]
  ultimately show ?thesis using h l lawful_ref_redis reliable_ref by auto
qed

end
