(* ===== verification/Spec2Isabelle.thy ===== *)
theory Spec2Isabelle
  imports Link_Parser Queue_Recovery Settings_Props Handler_Props Db_Props Ytdlp_Props Test_Urls_Props
    Video_Props Upload_Props Sender_Props Handler_Users_Props
    Admin_Props Music_Props Music_Jobs Fleet_Props Dash_Props Reddit_Props
begin

text \<open>
  Verification of the saveinator bot (Go sources under src/go/internal).

  \<^bold>\<open>Parts.\<close> A message of a Telegram user is filtered, rate limited and scanned for links (handler,
  linkparser); each link takes a lock of the user in Redis (redisx) and becomes a task of a broker
  (queue); a worker downloads it (worker, ytdlp) and releases the lock. An operator changes runtime
  settings in Redis (runtime); start-up values come from the environment (config). Users, their
  settings, purchases, downloads, broadcasts and a checklist of test links are rows of a database (db).

  \<^bold>\<open>Theories.\<close>
  \<^item> \<open>Prelude\<close>: errors, results, strings as byte lists, number printing, shared lemmas.
  \<^item> \<open>Json\<close>, \<open>Gofloat\<close>, \<open>Regexp\<close>: the parts of encoding/json, strconv and regexp the code uses.
  \<^item> \<open>Link_Parser\<close> (linkparser/parser.go): patterns, the scan of a text, Spotify and Yandex Music links.
  \<^item> \<open>Redis\<close>, \<open>Redisx\<close> (redisx): the commands as a step of a Redis server, and the locks, marks, limits,
    bans and settings on top of it; the laws a caller needs are the locales \<open>redis_service\<close>,
    \<open>user_lock\<close>, \<open>settings_store\<close>, interpreted on a reference server.
  \<^item> \<open>Queue_Tasks\<close> (queue/client.go, clear.go), \<open>Queue_Recovery\<close> (queue/recovery.go): payloads, enqueueing,
    clearing a user's tasks, repairing lists after a crash.
  \<^item> \<open>Config\<close> (config), \<open>Settings\<close>, \<open>Settings_Props\<close> (runtime): environment, registry, validation, storage.
  \<^item> \<open>Telegram\<close>, \<open>Cancel_Flow\<close> (cancel, handler/cancel.go, clear.go): the world a handler changes, the
    events it sends, the cancel buttons.
  \<^item> \<open>Youtube\<close>, \<open>Youtube_Props\<close> (youtube): titles, formats, trimming, keyboards, the session.
  \<^item> \<open>Handler_Bot\<close>, \<open>Handler_Props\<close> (handler): the path of a message to a task, the YouTube dialogue.
  \<^item> \<open>Handler_Users\<close>, \<open>Handler_Users_Props\<close> (handler/bot.go, settings.go, payments.go): welcome, language,
    settings menu and payments over the database.
  \<^item> \<open>Handler_Broadcast\<close>, \<open>Broadcast_Props\<close> (handler/broadcast.go, worker/broadcast.go): messages to all
    users, the dialogue of the operator and the job.
  \<^item> \<open>Handler_Admin\<close>, \<open>Admin_Props\<close> (handler/admin.go, stats_format.go, ban.go): the operator's panel over the
    settings and bans in Redis.
  \<^item> \<open>Db_Store\<close>, \<open>Db_Props\<close> (db): tables as lists, one operation per store function, every statement
    may fail as an oracle says; \<open>db_ok\<close> is kept by every operation.
  \<^item> \<open>Ytdlp\<close>, \<open>Ytdlp_Props\<close> (ytdlp, worker/ytdlp_opts.go): arguments, cookies, media files, errors.
  \<^item> \<open>Test_Urls\<close>, \<open>Test_Urls_Props\<close> (worker/test_urls.go, dash/test_urls.go): the runner of the checklist,
    alone as a loop and with other runners as a step relation.

  \<^item> \<open>Video\<close>, \<open>Video_Props\<close> (video/processor.go): encodings, probes, the pass that makes a video fit a limit.
  \<^item> \<open>Worker_Base\<close>, \<open>Worker_Download\<close>, \<open>Worker_Platforms\<close> (worker/download.go, instagram.go, tiktok.go,
    user_error.go, pinterest/title.go, part of audio/download.go): the jobs of the worker, from the payload
    of a task to the booked outcome. \<open>wworld\<close> is the handler's world with the database and a file
    system, \<open>work_env\<close> the programs, the platform clients and the faults of the database.
  \<^item> \<open>Worker_Props\<close>, \<open>Worker_Sample\<close>, \<open>Worker_Answers\<close>: every way a job ends, what it books, says and does to the lock;
    \<open>Upload_Props\<close>: what a YouTube job sends under the upload limit.

  \<^item> \<open>Music\<close> (cards and models of spotify, yandexmusic, soundcloud, soundcloud/parser.go, audio/download.go),
    \<open>Handler_Music\<close> (handler/music.go), \<open>Worker_Music\<close> (worker/music.go), \<open>Music_Props\<close>, \<open>Music_Jobs\<close>: a link of a music
    service, its card, its job, and what becomes of the locks.

  \<^item> \<open>Fleet\<close>, \<open>Fleet_Props\<close> (botkit): the bots of the fleet, each with its slug as key prefix and its own queue:
    configuration, messages, settings, panel and the jobs of its platforms. What a bot does exactly as the main bot
    is the definition of the main bot.

  \<^item> \<open>Dash\<close>, \<open>Dash_Props\<close> (dash): the login of the operator, the sessions in memory, the routes and what is behind
    them; requests come one after the other with their times.

  \<^item> \<open>Reddit\<close> (reddit, telegraph/article.go, callback.go), \<open>Worker_Reddit\<close> (worker/reddit.go, telegraph/client.go),
    \<open>Worker_Telegraph\<close> (worker/telegraph.go, handler/telegraph.go), \<open>Reddit_Props\<close>: threads, the pages made of them, the job and
    the translation of a page.

  \<^item> \<open>Sender\<close>, \<open>Sender_Props\<close> (sender/telegram.go): the requests behind the events the workers emit, with
    file handles as a store; the answers of Telegram are a parameter.

  \<^bold>\<open>Conventions.\<close> A Go string is its bytes; an \<open>int64\<close> is an \<open>int\<close> with its range as a predicate; times
  are microseconds; a float is a rational or one of the special values. A service (Redis, broker,
  Telegram, Postgres failures, the downloader program) is a parameter, its documented laws a named
  predicate, and a concrete instance is given wherever a witness needs one. A text shown to a user
  is its key and arguments. Functions of the package strings (case, blanks) are those of ASCII text; the text of a task
  payload is taken for valid UTF-8, which encoding/json would otherwise repair. A statement of the database that fails changes
  nothing; a commit whose answer is lost is not covered.

  \<^bold>\<open>Fuel.\<close> \<open>drainTestURLs\<close> takes fuel; one more than the rows not yet finished is enough (\<open>drain_ends\<close>).
  All other loops are structural or have a measure.

  \<^bold>\<open>Not modelled.\<close> Metrics, logging and process start; translated texts and Cyrillic labels; column
  lengths and connection pools; the read-only statistics of the database; HTML and JSON text of the dashboard; the
  HTTP clients of the platforms; the copy of the broadcast dialogue in botkit (the text of handler/broadcast.go but for
  the package line); the dialogues an operator types into a bot of the fleet, which are a parameter of \<open>fleet_onText\<close>.
\<close>

end
